(* ===== verification/Json.thy ===== *)
theory Json
  imports Prelude
begin

text \<open>
  The JSON documents of the program and the two library calls it makes on them:
  \<open>json.dumps(value, allow_nan=False, ensure_ascii=False, separators=(",", ":"),
  sort_keys=True)\<close> as \<open>json_dumps\<close>, and \<open>json.loads(content,
  object_pairs_hook=unique_object, parse_constant=reject)\<close> as \<open>json_loads\<close>.
  A float is represented by its lexeme (Python's \<open>repr\<close> when it is written, the source text
  when it is read); integers are unbounded.  The text is UTF-8 bytes, so only the ASCII
  characters matter to the scanner, and an escape above ASCII is decoded to its UTF-8 bytes.
  The main lemmas: reading what was written gives the value back with its keys sorted
  (\<open>json_loads_dumps\<close>), so writing is injective up to key order (\<open>json_dumps_inj\<close>).
\<close>

section \<open>Values\<close>

datatype json =
    JNull
  | JBool bool
  | JInt int
  | JFloat string
  | JStr string
  | JList "json list"
  | JDict "(string \<times> json) list"

text \<open>The value with the keys of every object in sorted order, which is what \<open>sort_keys\<close> writes.\<close>

fun canon :: "json \<Rightarrow> json" where
  "canon (JList vs) = JList (map canon vs)"
| "canon (JDict kvs) = JDict (sort_key fst (map (\<lambda>(k, v). (k, canon v)) kvs))"
| "canon v = v"

text \<open>Every object of the value has distinct keys, as a Python dictionary has.\<close>

fun json_distinct :: "json \<Rightarrow> bool" where
  "json_distinct (JList vs) \<longleftrightarrow> list_all json_distinct vs"
| "json_distinct (JDict kvs) \<longleftrightarrow>
     distinct (map fst kvs) \<and> list_all (\<lambda>(k, v). json_distinct v) kvs"
| "json_distinct v \<longleftrightarrow> True"

text \<open>Nesting depth of objects and arrays.\<close>

fun json_depth :: "json \<Rightarrow> nat" where
  "json_depth (JList vs) = Suc (foldr max (map json_depth vs) 0)"
| "json_depth (JDict kvs) = Suc (foldr max (map (\<lambda>(k, v). json_depth v) kvs) 0)"
| "json_depth v = 0"

section \<open>Writing\<close>

definition hex_digit :: "nat \<Rightarrow> char" where
  "hex_digit d = (if d < 10 then char_of (48 + d) else char_of (87 + d))"

definition esc_char :: "char \<Rightarrow> string" where
  "esc_char c =
     (let n = of_char c :: nat in
      if n = 34 then [CHR 0x5C, CHR 0x22]
      else if n = 92 then [CHR 0x5C, CHR 0x5C]
      else if n = 10 then [CHR 0x5C, CHR ''n'']
      else if n = 13 then [CHR 0x5C, CHR ''r'']
      else if n = 9 then [CHR 0x5C, CHR ''t'']
      else if n = 12 then [CHR 0x5C, CHR ''f'']
      else if n = 8 then [CHR 0x5C, CHR ''b'']
      else if n < 32 then
        [CHR 0x5C, CHR ''u'', CHR ''0'', CHR ''0'', hex_digit (n div 16), hex_digit (n mod 16)]
      else [c])"

definition dump_str :: "string \<Rightarrow> string" where
  "dump_str s = CHR 0x22 # concat (map esc_char s) @ [CHR 0x22]"

fun dumps :: "json \<Rightarrow> string" where
  "dumps JNull = ''null''"
| "dumps (JBool b) = (if b then ''true'' else ''false'')"
| "dumps (JInt i) = show_int i"
| "dumps (JFloat lexeme) = lexeme"
| "dumps (JStr s) = dump_str s"
| "dumps (JList vs) = ''['' @ join_with '','' (map dumps vs) @ '']''"
| "dumps (JDict kvs) =
     ''{'' @ join_with '',''
        (map (\<lambda>(k, t). dump_str k @ '':'' @ t)
           (sort_key fst (map (\<lambda>(k, v). (k, dumps v)) kvs))) @ ''}''"

text \<open>\<open>allow_nan=False\<close>: the three non-finite floats raise \<open>ValueError\<close>.\<close>

fun json_finite :: "json \<Rightarrow> bool" where
  "json_finite (JFloat lexeme) \<longleftrightarrow> lexeme \<notin> {''nan'', ''inf'', ''-inf''}"
| "json_finite (JList vs) \<longleftrightarrow> list_all json_finite vs"
| "json_finite (JDict kvs) \<longleftrightarrow> list_all (\<lambda>(k, v). json_finite v) kvs"
| "json_finite v \<longleftrightarrow> True"

definition json_dumps :: "json \<Rightarrow> string res" where
  "json_dumps v =
     (if json_finite v then Inr (dumps v)
      else Inl (ValueError ''Out of range float values are not JSON compliant''))"

section \<open>Reading\<close>

datatype json_error = JSyntax | JDuplicateKey | JConstant

definition is_ws :: "char \<Rightarrow> bool" where
  "is_ws c \<longleftrightarrow> c \<in> {CHR '' '', CHR 0x09, CHR 0x0A, CHR 0x0D}"

definition skip_ws :: "string \<Rightarrow> string" where
  "skip_ws s = dropWhile is_ws s"

definition hex_val :: "char \<Rightarrow> nat option" where
  "hex_val c =
     (let n = of_char c :: nat in
      if is_digit c then Some (n - 48)
      else if 97 \<le> n \<and> n \<le> 102 then Some (n - 87)
      else if 65 \<le> n \<and> n \<le> 70 then Some (n - 55)
      else None)"

fun read_hex4 :: "string \<Rightarrow> (nat \<times> string) option" where
  "read_hex4 (a # b # c # d # r) =
     (case (hex_val a, hex_val b, hex_val c, hex_val d) of
        (Some w, Some x, Some y, Some z) \<Rightarrow> Some (((w * 16 + x) * 16 + y) * 16 + z, r)
      | _ \<Rightarrow> None)"
| "read_hex4 _ = None"

definition utf8_encode :: "nat \<Rightarrow> string" where
  "utf8_encode n =
     (if n < 128 then [char_of n]
      else if n < 2048 then [char_of (192 + n div 64), char_of (128 + n mod 64)]
      else if n < 65536 then
        [char_of (224 + n div 4096), char_of (128 + n div 64 mod 64), char_of (128 + n mod 64)]
      else [char_of (240 + n div 262144), char_of (128 + n div 4096 mod 64),
            char_of (128 + n div 64 mod 64), char_of (128 + n mod 64)])"

text \<open>A \<open>\\uXXXX\<close> escape; a high surrogate takes the low one that follows it.\<close>

definition read_unicode :: "string \<Rightarrow> (string \<times> string) option" where
  "read_unicode s =
     (case read_hex4 s of
        None \<Rightarrow> None
      | Some (n, r) \<Rightarrow>
          (if 55296 \<le> n \<and> n \<le> 56319 then
             (case r of
                b # u # r' \<Rightarrow>
                  (if b = CHR 0x5C \<and> u = CHR ''u'' then
                     (case read_hex4 r' of
                        None \<Rightarrow> None
                      | Some (m, r'') \<Rightarrow>
                          (if 56320 \<le> m \<and> m \<le> 57343
                           then Some (utf8_encode (65536 + (n - 55296) * 1024 + (m - 56320)), r'')
                           else Some (utf8_encode n, r)))
                   else Some (utf8_encode n, r))
              | _ \<Rightarrow> Some (utf8_encode n, r))
           else Some (utf8_encode n, r)))"

definition simple_escape :: "char \<Rightarrow> char option" where
  "simple_escape c =
     (if c = CHR 0x22 then Some (CHR 0x22)
      else if c = CHR 0x5C then Some (CHR 0x5C)
      else if c = CHR ''/'' then Some (CHR ''/'')
      else if c = CHR ''b'' then Some (CHR 0x08)
      else if c = CHR ''f'' then Some (CHR 0x0C)
      else if c = CHR ''n'' then Some (CHR 0x0A)
      else if c = CHR ''r'' then Some (CHR 0x0D)
      else if c = CHR ''t'' then Some (CHR 0x09)
      else None)"

lemma length_read_hex4: "read_hex4 s = Some (n, r) \<Longrightarrow> length s = length r + 4"
  by (cases s rule: read_hex4.cases) (auto split: option.splits)

lemma length_read_unicode: "read_unicode s = Some (t, r) \<Longrightarrow> length r < length s"
  by (fastforce simp: read_unicode_def
      dest: length_read_hex4 split: option.splits if_splits list.splits prod.splits)

text \<open>The string after its opening quote, up to and including the closing one.\<close>

function read_str :: "string \<Rightarrow> (string \<times> string) option" where
  "read_str [] = None"
| "read_str (c # r) =
     (if c = CHR 0x22 then Some ([], r)
      else if c = CHR 0x5C then
        (case r of
           [] \<Rightarrow> None
         | e # r' \<Rightarrow>
             (if e = CHR ''u'' then
                (case read_unicode r' of
                   None \<Rightarrow> None
                 | Some (t, r'') \<Rightarrow> map_option (\<lambda>(s, q). (t @ s, q)) (read_str r''))
              else
                (case simple_escape e of
                   None \<Rightarrow> None
                 | Some x \<Rightarrow> map_option (\<lambda>(s, q). (x # s, q)) (read_str r'))))
      else if (of_char c :: nat) < 32 then None
      else map_option (\<lambda>(s, q). (c # s, q)) (read_str r))"
  by pat_completeness auto
termination
  by (relation "measure length") (auto dest: length_read_unicode)

text \<open>The number scanner: sign, integer part without leading zeros, and the optional fraction
  and exponent, each taken only when it is complete.\<close>

definition read_int_part :: "string \<Rightarrow> (string \<times> string) option" where
  "read_int_part s =
     (case s of
        [] \<Rightarrow> None
      | c # r \<Rightarrow>
          (if c = CHR ''0'' then Some ([c], r)
           else if is_digit c then Some (c # takeWhile is_digit r, dropWhile is_digit r)
           else None))"

definition read_frac :: "string \<Rightarrow> string \<times> string" where
  "read_frac s =
     (case s of
        [] \<Rightarrow> ([], [])
      | c # r \<Rightarrow>
          (if c = CHR ''.'' \<and> takeWhile is_digit r \<noteq> []
           then (c # takeWhile is_digit r, dropWhile is_digit r) else ([], s)))"

definition read_exp :: "string \<Rightarrow> string \<times> string" where
  "read_exp s =
     (case s of
        [] \<Rightarrow> ([], [])
      | c # r \<Rightarrow>
          (let (sign, r') = (case r of
                 [] \<Rightarrow> ([], r)
               | d # q \<Rightarrow> (if d = CHR ''+'' \<or> d = CHR ''-'' then ([d], q) else ([], r)))
           in if (c = CHR ''e'' \<or> c = CHR ''E'') \<and> takeWhile is_digit r' \<noteq> []
              then (c # sign @ takeWhile is_digit r', dropWhile is_digit r') else ([], s)))"

definition read_number :: "string \<Rightarrow> (json \<times> string) option" where
  "read_number s =
     (let (sign, r) = (case s of
            [] \<Rightarrow> ([], s)
          | c # q \<Rightarrow> (if c = CHR ''-'' then ([c], q) else ([], s)))
      in (case read_int_part r of
            None \<Rightarrow> None
          | Some (i, r1) \<Rightarrow>
              (let (f, r2) = read_frac r1; (e, r3) = read_exp r2
               in if f = [] \<and> e = []
                  then Some (JInt (if sign = [] then int (read_nat i) else - int (read_nat i)), r3)
                  else Some (JFloat (sign @ i @ f @ e), r3))))"

text \<open>The composites, over the reader of their parts: an object or array after its opening
  bracket, and the separator or closing bracket after one part.\<close>

definition read_scalar :: "string \<Rightarrow> json_error + (json \<times> string)" where
  "read_scalar s =
     (if prefix ''null'' s then Inr (JNull, drop 4 s)
      else if prefix ''true'' s then Inr (JBool True, drop 4 s)
      else if prefix ''false'' s then Inr (JBool False, drop 5 s)
      else (case read_number s of
              Some p \<Rightarrow> Inr p
            | None \<Rightarrow>
                (if prefix ''NaN'' s \<or> prefix ''Infinity'' s \<or> prefix ''-Infinity'' s
                 then Inl JConstant else Inl JSyntax)))"

definition read_object ::
  "(string \<Rightarrow> json_error + ((string \<times> json) list \<times> string)) \<Rightarrow> string \<Rightarrow> json_error + (json \<times> string)"
where
  "read_object members r =
     (case skip_ws r of
        [] \<Rightarrow> Inl JSyntax
      | d # q \<Rightarrow>
          (if d = CHR ''}'' then Inr (JDict [], q)
           else (case members (d # q) of
                   Inl e \<Rightarrow> Inl e
                 | Inr (kvs, q') \<Rightarrow>
                     (if distinct (map fst kvs) then Inr (JDict kvs, q') else Inl JDuplicateKey))))"

definition read_array ::
  "(string \<Rightarrow> json_error + (json list \<times> string)) \<Rightarrow> string \<Rightarrow> json_error + (json \<times> string)" where
  "read_array elements r =
     (case skip_ws r of
        [] \<Rightarrow> Inl JSyntax
      | d # q \<Rightarrow>
          (if d = CHR '']'' then Inr (JList [], q)
           else (case elements (d # q) of
                   Inl e \<Rightarrow> Inl e
                 | Inr (vs, q') \<Rightarrow> Inr (JList vs, q'))))"

definition read_more ::
  "char \<Rightarrow> (string \<Rightarrow> json_error + ('a list \<times> string)) \<Rightarrow> 'a \<Rightarrow> string \<Rightarrow>
     json_error + ('a list \<times> string)" where
  "read_more close parts x r =
     (case skip_ws r of
        [] \<Rightarrow> Inl JSyntax
      | d # q \<Rightarrow>
          (if d = close then Inr ([x], q)
           else if d = CHR '','' then
             (case parts (skip_ws q) of
                Inl e \<Rightarrow> Inl e
              | Inr (xs, q') \<Rightarrow> Inr (x # xs, q'))
           else Inl JSyntax))"

definition read_key :: "string \<Rightarrow> (string \<times> string) option" where
  "read_key s =
     (case s of
        [] \<Rightarrow> None
      | c # r \<Rightarrow>
          (if c \<noteq> CHR 0x22 then None
           else (case read_str r of
                   None \<Rightarrow> None
                 | Some (k, r1) \<Rightarrow>
                     (case skip_ws r1 of
                        [] \<Rightarrow> None
                      | d # q \<Rightarrow> (if d = CHR '':'' then Some (k, skip_ws q) else None)))))"

fun read_value :: "nat \<Rightarrow> string \<Rightarrow> json_error + (json \<times> string)"
  and read_elements :: "nat \<Rightarrow> string \<Rightarrow> json_error + (json list \<times> string)"
  and read_members :: "nat \<Rightarrow> string \<Rightarrow> json_error + ((string \<times> json) list \<times> string)"
where
  "read_value 0 s = Inl JSyntax"
| "read_value (Suc n) s =
     (case s of
        [] \<Rightarrow> Inl JSyntax
      | c # r \<Rightarrow>
          (if c = CHR 0x22 then
             (case read_str r of None \<Rightarrow> Inl JSyntax | Some (t, q) \<Rightarrow> Inr (JStr t, q))
           else if c = CHR ''{'' then read_object (read_members n) r
           else if c = CHR ''['' then read_array (read_elements n) r
           else read_scalar s))"
| "read_elements 0 s = Inl JSyntax"
| "read_elements (Suc n) s =
     (case read_value n s of
        Inl e \<Rightarrow> Inl e
      | Inr (v, r) \<Rightarrow> read_more (CHR '']'') (read_elements n) v r)"
| "read_members 0 s = Inl JSyntax"
| "read_members (Suc n) s =
     (case read_key s of
        None \<Rightarrow> Inl JSyntax
      | Some (k, r) \<Rightarrow>
          (case read_value n r of
             Inl e \<Rightarrow> Inl e
           | Inr (v, r') \<Rightarrow> read_more (CHR ''}'') (read_members n) (k, v) r'))"

text \<open>Every nested call reads at least one character less, so twice the length of the input is
  fuel enough: \<open>json_loads_fuel\<close> in \<open>JsonRoundtrip\<close>.\<close>

definition json_loads :: "string \<Rightarrow> json_error + json" where
  "json_loads s =
     (case read_value (2 * length s + 1) (skip_ws s) of
        Inl e \<Rightarrow> Inl e
      | Inr (v, r) \<Rightarrow> (if skip_ws r = [] then Inr v else Inl JSyntax))"

end
