(* ===== verification/JsonRoundtrip.thy ===== *)
theory JsonRoundtrip
  imports Json
begin

text \<open>
  Reading a written document gives the value back.  The lemmas follow the reader: one per
  token (string, integer, float), then one per composite, each with the rest of the input
  kept general, and at the end the whole-document statement and its consequence that two values
  with the same text are equal up to the order of their keys.
\<close>

section \<open>Strings\<close>

lemma hex_val_hex_digit: "d < 16 \<Longrightarrow> hex_val (hex_digit d) = Some d"
  by (simp add: hex_val_def hex_digit_def is_digit_def Let_def)

text \<open>The characters the writer escapes by name.\<close>

lemma of_char_named:
  "(of_char c :: nat) = 34 \<longleftrightarrow> c = CHR 0x22" "(of_char c :: nat) = 92 \<longleftrightarrow> c = CHR 0x5C"
  "(of_char c :: nat) = 10 \<longleftrightarrow> c = CHR 0x0A" "(of_char c :: nat) = 13 \<longleftrightarrow> c = CHR 0x0D"
  "(of_char c :: nat) = 9 \<longleftrightarrow> c = CHR 0x09" "(of_char c :: nat) = 12 \<longleftrightarrow> c = CHR 0x0C"
  "(of_char c :: nat) = 8 \<longleftrightarrow> c = CHR 0x08"
  using of_char_eq_iff [of c "CHR 0x22", where ?'a = nat] of_char_eq_iff [of c "CHR 0x5C", where ?'a = nat]
    of_char_eq_iff [of c "CHR 0x0A", where ?'a = nat] of_char_eq_iff [of c "CHR 0x0D", where ?'a = nat]
    of_char_eq_iff [of c "CHR 0x09", where ?'a = nat] of_char_eq_iff [of c "CHR 0x0C", where ?'a = nat]
    of_char_eq_iff [of c "CHR 0x08", where ?'a = nat]
  by simp_all

lemma read_str_esc_control:
  assumes "(of_char c :: nat) < 32"
  shows "read_unicode (CHR ''0'' # CHR ''0'' # hex_digit (of_char c div 16) #
           hex_digit (of_char c mod 16) # t) = Some ([c], t)"
proof -
  let ?n = "of_char c :: nat"
  have z: "hex_val (CHR ''0'') = Some 0"
    by (simp add: hex_val_def is_digit_def)
  have "read_hex4 (CHR ''0'' # CHR ''0'' # hex_digit (?n div 16) # hex_digit (?n mod 16) # t)
      = Some (?n, t)"
    using assms by (simp add: z hex_val_hex_digit)
  then show ?thesis
    using assms by (simp add: read_unicode_def utf8_encode_def)
qed

lemma read_str_esc:
  "read_str (esc_char c @ t) = map_option (\<lambda>(s, q). (c # s, q)) (read_str t)"
proof (cases "c \<in> {CHR 0x22, CHR 0x5C, CHR 0x0A, CHR 0x0D, CHR 0x09, CHR 0x0C, CHR 0x08}")
  case True
  then show ?thesis
    by (auto simp: esc_char_def simple_escape_def)
next
  case False
  show ?thesis
  proof (cases "(of_char c :: nat) < 32")
    case True
    then have "esc_char c = [CHR 0x5C, CHR ''u'', CHR ''0'', CHR ''0'',
        hex_digit (of_char c div 16), hex_digit (of_char c mod 16)]"
      using False by (auto simp: esc_char_def Let_def of_char_named)
    then show ?thesis
      using read_str_esc_control [OF True] by simp
  next
    case big: False
    then have "esc_char c = [c]" and "c \<noteq> CHR 0x22" and "c \<noteq> CHR 0x5C"
      using False by (auto simp: esc_char_def Let_def of_char_named)
    then show ?thesis using big by simp
  qed
qed

lemma read_str_dump:
  "read_str (concat (map esc_char s) @ CHR 0x22 # rest) = Some (s, rest)"
  by (induction s) (auto simp: read_str_esc)

section \<open>Numbers\<close>

definition num_stop :: "string \<Rightarrow> bool" where
  "num_stop rest \<longleftrightarrow>
     (rest = [] \<or> \<not> is_digit (hd rest) \<and> hd rest \<notin> {CHR ''.'', CHR ''e'', CHR ''E'', CHR ''+'', CHR ''-''})"

lemma num_stop_span:
  assumes "num_stop rest"
  shows "takeWhile is_digit (r @ rest) = takeWhile is_digit r"
    and "dropWhile is_digit (r @ rest) = dropWhile is_digit r @ rest"
proof -
  have "takeWhile is_digit rest = []" and "dropWhile is_digit rest = rest"
    using assms by (cases rest; simp add: num_stop_def)+
  then show "takeWhile is_digit (r @ rest) = takeWhile is_digit r"
    and "dropWhile is_digit (r @ rest) = dropWhile is_digit r @ rest"
    by (induction r) auto
qed

lemma read_int_part_append:
  "read_int_part s = Some (i, r) \<Longrightarrow> num_stop rest \<Longrightarrow> read_int_part (s @ rest) = Some (i, r @ rest)"
  by (cases s) (auto simp: read_int_part_def num_stop_span split: if_splits)

lemma read_frac_append:
  assumes "num_stop rest"
  shows "read_frac (r @ rest) = (fst (read_frac r), snd (read_frac r) @ rest)"
proof (cases r)
  case Nil
  then show ?thesis
    using assms by (cases rest) (auto simp: read_frac_def num_stop_def)
next
  case (Cons c q)
  then show ?thesis
    using assms by (auto simp: read_frac_def num_stop_span)
qed

lemma read_exp_append:
  assumes "num_stop rest"
  shows "read_exp (r @ rest) = (fst (read_exp r), snd (read_exp r) @ rest)"
proof (cases r)
  case Nil
  then show ?thesis
    using assms by (cases rest) (auto simp: read_exp_def num_stop_def Let_def)
next
  case (Cons c q)
  note r = Cons
  show ?thesis
  proof (cases q)
    case Nil
    have "takeWhile is_digit rest = []"
      using num_stop_span(1) [OF assms, of "[]"] by simp
    then show ?thesis
      using assms r Nil by (cases rest) (auto simp: read_exp_def num_stop_def Let_def)
  next
    case (Cons d q')
    then show ?thesis
      using assms r num_stop_span [OF assms, of q'] num_stop_span [OF assms, of "d # q'"]
      by (auto simp: read_exp_def Let_def)
  qed
qed

lemma read_number_append:
  assumes "read_number s = Some (v, [])" and "num_stop rest"
  shows "read_number (s @ rest) = Some (v, rest)"
proof (cases s)
  case Nil
  with assms show ?thesis by (simp add: read_number_def read_int_part_def)
next
  case (Cons c q)
  show ?thesis
  proof (cases "c = CHR ''-''")
    case True
    then show ?thesis
      using assms Cons
      by (auto simp: read_number_def read_int_part_append read_frac_append read_exp_append
          split: option.splits prod.splits if_splits)
  next
    case False
    then show ?thesis
      using assms Cons read_int_part_append [of "c # q" _ _ rest]
      by (auto simp: read_number_def read_frac_append read_exp_append
          split: option.splits prod.splits if_splits)
  qed
qed

lemma read_int_part_show_nat: "read_int_part (show_nat n) = Some (show_nat n, [])"
proof -
  obtain c ds where s: "show_nat n = c # ds" by (cases "show_nat n") auto
  have "list_all is_digit (c # ds)" using show_nat_digits [of n] s by simp
  then have d: "is_digit c" "takeWhile is_digit ds = ds" "dropWhile is_digit ds = []"
    by (auto simp: takeWhile_eq_all_conv list_all_iff)
  show ?thesis
  proof (cases "c = CHR ''0''")
    case True
    then have "show_nat n = ''0''" using show_nat_hd_zero [of n] s by simp
    then show ?thesis by (simp add: read_int_part_def)
  next
    case False
    then show ?thesis using s d by (simp add: read_int_part_def)
  qed
qed

lemma show_nat_hd_digit: "is_digit (hd (show_nat n))"
  using show_nat_digits [of n] by (cases "show_nat n") auto

lemma read_number_show_int: "read_number (show_int i) = Some (JInt i, [])"
proof (cases "i < 0")
  case True
  then show ?thesis
    by (simp add: show_int_def read_number_def read_int_part_show_nat read_frac_def read_exp_def)
next
  case False
  obtain c ds where s: "show_nat (nat i) = c # ds" by (cases "show_nat (nat i)") auto
  have "c \<noteq> CHR ''-''" using show_nat_hd_digit [of "nat i"] s by (auto simp: is_digit_def)
  then show ?thesis
    using False read_int_part_show_nat [of "nat i"] read_show_nat [of "nat i"]
    by (simp add: show_int_def read_number_def s read_frac_def read_exp_def)
qed

section \<open>Values\<close>

text \<open>A float lexeme that the reader takes whole, as every finite \<open>repr\<close> is.\<close>

definition float_lexeme :: "string \<Rightarrow> bool" where
  "float_lexeme s \<longleftrightarrow> read_number s = Some (JFloat s, [])"

fun json_floats_ok :: "json \<Rightarrow> bool" where
  "json_floats_ok (JFloat s) \<longleftrightarrow> float_lexeme s"
| "json_floats_ok (JList vs) \<longleftrightarrow> list_all json_floats_ok vs"
| "json_floats_ok (JDict kvs) \<longleftrightarrow> list_all (\<lambda>(k, v). json_floats_ok v) kvs"
| "json_floats_ok v \<longleftrightarrow> True"

definition json_ok :: "json \<Rightarrow> bool" where
  "json_ok v \<longleftrightarrow> json_distinct v \<and> json_floats_ok v"

lemma json_ok_simps [simp]:
  "json_ok JNull" "json_ok (JBool b)" "json_ok (JInt i)" "json_ok (JStr s)"
  "json_ok (JFloat s) \<longleftrightarrow> float_lexeme s"
  "json_ok (JList vs) \<longleftrightarrow> (\<forall>v \<in> set vs. json_ok v)"
  "json_ok (JDict kvs) \<longleftrightarrow> distinct (map fst kvs) \<and> (\<forall>(k, v) \<in> set kvs. json_ok v)"
  by (auto simp: json_ok_def list_all_iff split: prod.splits)

definition num_start :: "char \<Rightarrow> bool" where
  "num_start c \<longleftrightarrow> is_digit c \<or> c = CHR ''-''"

lemma read_number_start: "read_number s = Some (v, r) \<Longrightarrow> \<exists>c q. s = c # q \<and> num_start c"
  by (cases s) (auto simp: read_number_def read_int_part_def num_start_def is_digit_def
      split: if_splits option.splits list.splits)

text \<open>The first character of a written value: never a blank, never a closing bracket.\<close>

lemma dumps_start:
  assumes "json_ok v"
  shows "\<exists>c q. dumps v = c # q \<and> \<not> is_ws c \<and> c \<noteq> CHR '']'' \<and> c \<noteq> CHR ''}''"
proof -
  have num: "\<not> is_ws c \<and> c \<noteq> CHR '']'' \<and> c \<noteq> CHR ''}''" if "num_start c" for c
    using that by (auto simp: num_start_def is_digit_def is_ws_def)
  show ?thesis
  proof (cases v)
    case (JInt i)
    then show ?thesis
      using read_number_start [OF read_number_show_int [of i]] num by auto
  next
    case (JFloat s)
    then show ?thesis
      using assms read_number_start [of s] num by (fastforce simp: float_lexeme_def)
  qed (auto simp: dump_str_def is_ws_def)
qed

lemma skip_ws_id: "s = c # q \<Longrightarrow> \<not> is_ws c \<Longrightarrow> skip_ws s = s"
  by (simp add: skip_ws_def)

lemma read_value_number:
  assumes "read_number s = Some (v, [])" and "num_stop rest" and "0 < n"
  shows "read_value n (s @ rest) = Inr (v, rest)"
proof -
  obtain m where n: "n = Suc m" using assms(3) by (cases n) auto
  obtain c q where s: "s = c # q" and c: "num_start c"
    using read_number_start [OF assms(1)] by blast
  have "c \<noteq> CHR 0x22" "c \<noteq> CHR ''{''" "c \<noteq> CHR ''[''" "c \<noteq> CHR ''n''" "c \<noteq> CHR ''t''" "c \<noteq> CHR ''f''"
    using c by (auto simp: num_start_def is_digit_def)
  then show ?thesis
    using read_number_append [OF assms(1,2)] s n by (simp add: read_scalar_def)
qed

lemma num_stop_comma [simp]:
  "num_stop (CHR '','' # r)" "num_stop (CHR '']'' # r)" "num_stop (CHR ''}'' # r)" "num_stop []"
  by (simp_all add: num_stop_def is_digit_def)

definition reads_back :: "json \<Rightarrow> bool" where
  "reads_back v \<longleftrightarrow>
     (\<forall>n rest. num_stop rest \<longrightarrow> 2 * length (dumps v) < n \<longrightarrow>
        read_value n (dumps v @ rest) = Inr (canon v, rest))"

lemma reads_backD:
  "reads_back v \<Longrightarrow> num_stop rest \<Longrightarrow> 2 * length (dumps v) < n \<Longrightarrow>
     read_value n (dumps v @ rest) = Inr (canon v, rest)"
  by (simp add: reads_back_def)

lemma reads_back_Suc:
  "(\<And>m rest. num_stop rest \<Longrightarrow> read_value (Suc m) (dumps v @ rest) = Inr (canon v, rest))
    \<Longrightarrow> reads_back v"
  unfolding reads_back_def by (metis less_nat_zero_code not0_implies_Suc)

lemma read_elements_back:
  assumes "vs \<noteq> []" and "\<forall>v \<in> set vs. reads_back v \<and> json_ok v"
    and "2 * length (join_with '','' (map dumps vs)) + 1 < n"
  shows "read_elements n (join_with '','' (map dumps vs) @ CHR '']'' # rest)
      = Inr (map canon vs, rest)"
  using assms
proof (induction vs arbitrary: n)
  case Nil
  then show ?case by simp
next
  case (Cons v vs)
  obtain m where n: "n = Suc m" using Cons.prems(3) by (cases n) auto
  have ok: "reads_back v" using Cons.prems(2) by simp
  show ?case
  proof (cases vs)
    case Nil
    then have "read_value m (dumps v @ CHR '']'' # rest) = Inr (canon v, CHR '']'' # rest)"
      using ok Cons.prems(3) n by (simp add: reads_back_def)
    then show ?thesis
      using Nil n by (simp add: read_more_def skip_ws_def is_ws_def)
  next
    case (Cons w ws)
    let ?more = "join_with '','' (map dumps vs) @ CHR '']'' # rest"
    have join: "join_with '','' (map dumps (v # vs)) = dumps v @ CHR '','' # join_with '','' (map dumps vs)"
      using Cons by simp
    have "read_value m (dumps v @ CHR '','' # ?more) = Inr (canon v, CHR '','' # ?more)"
      using ok Cons.prems(3) n join by (simp add: reads_back_def)
    moreover have "skip_ws ?more = ?more"
    proof -
      obtain c q where "dumps w = c # q" "\<not> is_ws c"
        using dumps_start [of w] Cons.prems(2) Cons by auto
      then show ?thesis using Cons by (cases ws) (auto simp: skip_ws_def)
    qed
    moreover have "read_elements m ?more = Inr (map canon vs, rest)"
      using Cons.IH [of m] Cons.prems(2,3) Cons join n by simp
    ultimately show ?thesis
      using join n by (simp add: read_more_def skip_ws_def is_ws_def)
  qed
qed


lemma read_members_back:
  assumes "kvs \<noteq> []" and "\<forall>(k, v) \<in> set kvs. reads_back v \<and> json_ok v"
    and "2 * length (join_with '','' (map (\<lambda>(k, v). dump_str k @ '':'' @ dumps v) kvs)) + 1 < n"
  shows "read_members n
      (join_with '','' (map (\<lambda>(k, v). dump_str k @ '':'' @ dumps v) kvs) @ CHR ''}'' # rest)
      = Inr (map (\<lambda>(k, v). (k, canon v)) kvs, rest)"
  using assms
proof (induction kvs arbitrary: n)
  case Nil
  then show ?case by simp
next
  case (Cons kv kvs)
  obtain k v where kv: "kv = (k, v)" by (cases kv)
  obtain m where n: "n = Suc m" using Cons.prems(3) by (cases n) auto
  have ok: "reads_back v" "json_ok v" using Cons.prems(2) kv by auto
  let ?g = "\<lambda>(k, v). dump_str k @ '':'' @ dumps v"
  have value_ws: "skip_ws (dumps v @ r) = dumps v @ r" for r
    using dumps_start [OF ok(2)] by (auto simp: skip_ws_def)
  show ?case
  proof (cases kvs)
    case Nil
    then have "read_value m (dumps v @ CHR ''}'' # rest) = Inr (canon v, CHR ''}'' # rest)"
      using ok Cons.prems(3) n kv by (simp add: reads_back_def)
    then show ?thesis
      using Nil n kv value_ws by (simp add: read_more_def read_key_def skip_ws_def is_ws_def dump_str_def read_str_dump)
  next
    case (Cons w ws)
    let ?more = "join_with '','' (map ?g kvs) @ CHR ''}'' # rest"
    have join: "join_with '','' (map ?g (kv # kvs))
        = dump_str k @ CHR '':'' # dumps v @ CHR '','' # join_with '','' (map ?g kvs)"
      using Cons kv by simp
    have "read_value m (dumps v @ CHR '','' # ?more) = Inr (canon v, CHR '','' # ?more)"
      using ok Cons.prems(3) n join by (simp add: reads_back_def)
    moreover have "skip_ws ?more = ?more"
      using Cons by (cases ws) (auto simp: skip_ws_def dump_str_def is_ws_def split: prod.splits)
    moreover have "read_members m ?more = Inr (map (\<lambda>(k, v). (k, canon v)) kvs, rest)"
      using Cons.IH [of m] Cons.prems(2,3) Cons join n by simp
    ultimately show ?thesis
      using join n kv value_ws by (simp add: read_more_def read_key_def skip_ws_def is_ws_def dump_str_def read_str_dump)
  qed
qed

lemma sort_pairs_map:
  "sort_key fst (map (\<lambda>(k, v). (k, f v)) kvs) = map (\<lambda>(k, v). (k, f v)) (sort_key fst kvs)"
proof -
  have key: "(\<lambda>y. fst (case y of (k, v) \<Rightarrow> (k, f v))) = fst" by auto
  show ?thesis unfolding sort_key_map key ..
qed

lemma dumps_dict:
  "dumps (JDict kvs) = ''{'' @ join_with '',''
     (map (\<lambda>(k, v). dump_str k @ '':'' @ dumps v) (sort_key fst kvs)) @ ''}''"
  by (simp only: dumps.simps sort_pairs_map map_map) (simp add: comp_def split_def)

lemma canon_dict: "canon (JDict kvs) = JDict (map (\<lambda>(k, v). (k, canon v)) (sort_key fst kvs))"
  by (simp add: sort_pairs_map)

lemma reads_back_list:
  assumes "\<forall>v \<in> set vs. reads_back v \<and> json_ok v"
  shows "reads_back (JList vs)"
  unfolding reads_back_def
proof (intro allI impI)
  fix n rest
  assume n: "2 * length (dumps (JList vs)) < n"
  then obtain m where m: "n = Suc m" by (cases n) auto
  show "read_value n (dumps (JList vs) @ rest) = Inr (canon (JList vs), rest)"
  proof (cases vs)
    case Nil
    then show ?thesis using m by (simp add: read_array_def skip_ws_def is_ws_def)
  next
    case (Cons w ws)
    let ?body = "join_with '','' (map dumps vs) @ CHR '']'' # rest"
    obtain c q where "dumps w = c # q" "\<not> is_ws c" "c \<noteq> CHR '']''"
      using dumps_start [of w] assms Cons by auto
    then obtain q' where body: "?body = c # q'" and c: "\<not> is_ws c" "c \<noteq> CHR '']''"
      using Cons by (cases ws) auto
    have "skip_ws ?body = c # q'"
      using body c by (simp add: skip_ws_def)
    moreover have "read_elements m (c # q') = Inr (map canon vs, rest)"
      using read_elements_back [of vs m rest] assms Cons n m body by simp
    ultimately show ?thesis
      using m c body by (simp add: read_array_def)
  qed
qed

lemma reads_back_dict:
  assumes "distinct (map fst kvs)" and "\<forall>(k, v) \<in> set kvs. reads_back v \<and> json_ok v"
  shows "reads_back (JDict kvs)"
  unfolding reads_back_def
proof (intro allI impI)
  fix n rest
  let ?s = "sort_key fst kvs" and ?g = "\<lambda>(k, v). dump_str k @ '':'' @ dumps v"
  assume n: "2 * length (dumps (JDict kvs)) < n"
  then obtain m where m: "n = Suc m" by (cases n) auto
  have keys: "map fst (map (\<lambda>(k, v). (k, canon v)) ?s) = map fst ?s"
    by (simp add: split_def comp_def)
  have dist: "distinct (map fst ?s)"
    using assms(1) by (simp add: distinct_map)
  show "read_value n (dumps (JDict kvs) @ rest) = Inr (canon (JDict kvs), rest)"
  proof (cases "?s = []")
    case True
    then show ?thesis
      using m unfolding dumps_dict canon_dict by (simp add: read_object_def skip_ws_def is_ws_def)
  next
    case False
    let ?body = "join_with '','' (map ?g ?s) @ CHR ''}'' # rest"
    obtain q' where body: "?body = CHR 0x22 # q'"
      using False by (cases ?s rule: remdups_adj.cases) (auto simp: dump_str_def)
    have "skip_ws ?body = ?body"
      using body by (simp add: skip_ws_def is_ws_def)
    moreover have "read_members m ?body = Inr (map (\<lambda>(k, v). (k, canon v)) ?s, rest)"
      using read_members_back [of ?s m rest] assms False n m unfolding dumps_dict by simp
    ultimately show ?thesis
      using m body dist keys unfolding dumps_dict canon_dict by (simp add: read_object_def del: map_map)
  qed
qed

lemma json_ok_reads_back: "json_ok v \<Longrightarrow> reads_back v"
proof (induction v)
  case JNull
  show ?case by (rule reads_back_Suc) (auto simp: read_scalar_def)
next
  case (JBool b)
  show ?case by (rule reads_back_Suc) (auto simp: read_scalar_def)
next
  case (JInt i)
  then show ?case
    by (auto simp: reads_back_def intro: read_value_number read_number_show_int)
next
  case (JFloat s)
  then show ?case
    by (auto simp: reads_back_def float_lexeme_def intro: read_value_number)
next
  case (JStr s)
  then show ?case
    by (intro reads_back_Suc) (auto simp: dump_str_def read_str_dump)
next
  case (JList vs)
  then show ?case by (auto intro: reads_back_list)
next
  case (JDict kvs)
  then show ?case by (intro reads_back_dict) auto
qed

section \<open>Documents\<close>

lemma json_loads_dumps:
  assumes "json_ok v"
  shows "json_loads (dumps v) = Inr (canon v)"
proof -
  have "skip_ws (dumps v) = dumps v"
    using dumps_start [OF assms] by (auto simp: skip_ws_def)
  moreover have "read_value (2 * length (dumps v) + 1) (dumps v @ []) = Inr (canon v, [])"
    by (rule reads_backD [OF json_ok_reads_back [OF assms]]) simp_all
  ultimately show ?thesis
    by (simp add: json_loads_def skip_ws_def)
qed

text \<open>A stored document ends with a newline, which the reader skips.\<close>

lemma json_loads_dumps_line:
  assumes "json_ok v"
  shows "json_loads (dumps v @ [CHR 0x0A]) = Inr (canon v)"
proof -
  have "skip_ws (dumps v @ [CHR 0x0A]) = dumps v @ [CHR 0x0A]"
    using dumps_start [OF assms] by (auto simp: skip_ws_def)
  moreover have "num_stop [CHR 0x0A]" by (simp add: num_stop_def is_digit_def)
  then have "read_value (2 * length (dumps v @ [CHR 0x0A]) + 1) (dumps v @ [CHR 0x0A])
      = Inr (canon v, [CHR 0x0A])"
    by (intro reads_backD [OF json_ok_reads_back [OF assms]]) simp_all
  ultimately show ?thesis
    by (simp add: json_loads_def skip_ws_def is_ws_def)
qed

lemma json_dumps_inj:
  "json_ok v \<Longrightarrow> json_ok w \<Longrightarrow> dumps v = dumps w \<Longrightarrow> canon v = canon w"
  using json_loads_dumps [of v] json_loads_dumps [of w] by simp

text \<open>Sorting the keys first does not change the text.\<close>

lemma dumps_canon: "dumps (canon v) = dumps v"
proof (induction v)
  case (JList vs)
  then have "map dumps (map canon vs) = map dumps vs" by simp
  then show ?case by (simp del: map_map)
next
  case (JDict kvs)
  let ?s = "sort_key fst kvs" and ?g = "\<lambda>(k, v). dump_str k @ '':'' @ dumps v"
  let ?c = "map (\<lambda>(k, v). (k, canon v)) ?s"
  have "sort_key fst ?c = ?c"
    by (intro sort_key_eq_if_sorted) (simp add: comp_def split_def)
  moreover have "map ?g ?c = map ?g ?s"
    using JDict by auto
  ultimately show ?case
    unfolding canon_dict dumps_dict by (simp del: map_map)
qed simp_all

section \<open>Fuel\<close>

text \<open>
  The reader's fuel is never what stops it: every part consumes input (\<open>reads_shorten\<close>), so
  with twice the length of the text one more unit changes nothing (\<open>json_loads_fuel\<close>).
\<close>

lemma length_skip_ws: "length (skip_ws s) \<le> length s"
  by (simp add: skip_ws_def length_dropWhile_le)

lemma length_read_str: "read_str s = Some (t, r) \<Longrightarrow> length r < length s"
proof (induction s arbitrary: t r rule: read_str.induct)
  case 1
  then show ?case by simp
next
  case (2 c q)
  then show ?case
    by (fastforce split: if_splits list.splits option.splits dest!: length_read_unicode)
qed


lemma length_read_int_part: "read_int_part q = Some (i, r) \<Longrightarrow> length r < length q"
  by (auto simp: read_int_part_def le_imp_less_Suc length_dropWhile_le split: list.splits if_splits)

lemma length_read_frac: "read_frac q = (f, r) \<Longrightarrow> length r \<le> length q"
  by (auto simp: read_frac_def length_dropWhile_le intro: le_SucI split: list.splits if_splits)

lemma length_read_exp: "read_exp q = (f, r) \<Longrightarrow> length r \<le> length q"
proof (cases q)
  case (Cons c p)
  have t: "length (dropWhile is_digit p') \<le> length p" if "length p' \<le> length p" for p' :: string
    using that length_dropWhile_le [of is_digit p'] by simp
  assume "read_exp q = (f, r)"
  then show ?thesis
    using Cons t [of p] t [of "tl p"]
    by (cases p) (auto simp: read_exp_def Let_def split: if_splits)
qed (simp add: read_exp_def)

lemma length_read_number: "read_number s = Some (v, r) \<Longrightarrow> length r < length s"
  by (cases s) (auto simp: read_number_def
      dest!: length_read_int_part length_read_frac length_read_exp
      split: if_splits option.splits prod.splits)

lemma length_read_scalar: "read_scalar s = Inr (v, r) \<Longrightarrow> length r < length s"
  by (auto simp: read_scalar_def prefix_def dest!: length_read_number split: if_splits option.splits)

text \<open>A reader that consumes input.\<close>

definition shortens :: "(string \<Rightarrow> json_error + ('a \<times> string)) \<Rightarrow> bool" where
  "shortens p \<longleftrightarrow> (\<forall>s v r. p s = Inr (v, r) \<longrightarrow> length r < length s)"

lemma shortensD: "shortens p \<Longrightarrow> p s = Inr (v, r) \<Longrightarrow> length r < length s"
  by (simp add: shortens_def)

lemma skip_ws_Cons_length: "skip_ws s = d # q \<Longrightarrow> length q < length s"
  using length_skip_ws [of s] by simp

lemma length_read_more:
  assumes "shortens p" and "read_more c p x s = Inr (v, r)"
  shows "length r < length s"
proof -
  have "length r < length q" if "p (skip_ws q) = Inr (xs, r)" for q xs
    using shortensD [OF assms(1) that] length_skip_ws [of q] by simp
  then show ?thesis
    using assms(2) by (fastforce simp: read_more_def dest!: skip_ws_Cons_length
        split: list.splits if_splits sum.splits)
qed

lemma length_read_object: "shortens p \<Longrightarrow> read_object p s = Inr (v, r) \<Longrightarrow> length r < length s"
  by (fastforce simp: read_object_def dest!: skip_ws_Cons_length dest: shortensD
      split: list.splits if_splits sum.splits)

lemma length_read_array: "shortens p \<Longrightarrow> read_array p s = Inr (v, r) \<Longrightarrow> length r < length s"
  by (fastforce simp: read_array_def dest!: skip_ws_Cons_length dest: shortensD
      split: list.splits if_splits sum.splits)

lemma length_read_key: "read_key s = Some (k, r) \<Longrightarrow> length r < length s"
proof -
  have "length (skip_ws q) < length s" if "skip_ws r1 = d # q" "length r1 < length s" for r1 d q
    using skip_ws_Cons_length [OF that(1)] length_skip_ws [of q] that(2) by simp
  then show "read_key s = Some (k, r) \<Longrightarrow> length r < length s"
    by (auto simp: read_key_def dest!: length_read_str split: list.splits if_splits option.splits)
qed

lemma reads_shorten: "shortens (read_value n) \<and> shortens (read_elements n) \<and> shortens (read_members n)"
proof (induction n)
  case 0
  then show ?case by (simp add: shortens_def)
next
  case (Suc n)
  then have sv: "shortens (read_value n)" and se: "shortens (read_elements n)"
    and sm: "shortens (read_members n)" by auto
  have "shortens (read_value (Suc n))"
    unfolding shortens_def
    by (auto split: list.splits if_splits option.splits
        dest!: length_read_str length_read_scalar length_read_object [OF sm] length_read_array [OF se])
  moreover have "shortens (read_elements (Suc n))"
    unfolding shortens_def
    by (auto split: sum.splits dest!: shortensD [OF sv] length_read_more [OF se])
  moreover have "shortens (read_members (Suc n))"
    unfolding shortens_def
    by (auto split: option.splits sum.splits
        dest!: shortensD [OF sv] length_read_key length_read_more [OF sm])
  ultimately show ?case by blast
qed

lemma read_more_cong:
  assumes "\<And>q. length q < length r \<Longrightarrow> p q = p' q"
  shows "read_more c p x r = read_more c p' x r"
proof (cases "skip_ws r")
  case (Cons d q)
  then have "length (skip_ws q) < length r"
    using skip_ws_Cons_length [OF Cons] length_skip_ws [of q] by simp
  then show ?thesis
    using assms Cons by (simp add: read_more_def)
qed (simp add: read_more_def)

lemma read_object_cong:
  "(\<And>q. length q \<le> length r \<Longrightarrow> p q = p' q) \<Longrightarrow> read_object p r = read_object p' r"
  using length_skip_ws [of r] by (auto simp: read_object_def split: list.split)

lemma read_array_cong:
  "(\<And>q. length q \<le> length r \<Longrightarrow> p q = p' q) \<Longrightarrow> read_array p r = read_array p' r"
  using length_skip_ws [of r] by (auto simp: read_array_def split: list.split)

lemma fuel_step:
  "(\<forall>s. 2 * length s < n \<longrightarrow> read_value (Suc n) s = read_value n s) \<and>
   (\<forall>s. 2 * length s + 1 < n \<longrightarrow> read_elements (Suc n) s = read_elements n s) \<and>
   (\<forall>s. 2 * length s + 1 < n \<longrightarrow> read_members (Suc n) s = read_members n s)"
proof (induction n)
  case 0
  then show ?case by simp
next
  case (Suc n)
  have v: "2 * length s < n \<Longrightarrow> read_value (Suc n) s = read_value n s"
    and e: "2 * length s + 1 < n \<Longrightarrow> read_elements (Suc n) s = read_elements n s"
    and m: "2 * length s + 1 < n \<Longrightarrow> read_members (Suc n) s = read_members n s" for s
    using Suc by auto
  have "read_value (Suc (Suc n)) s = read_value (Suc n) s" if "2 * length s < Suc n" for s
  proof (cases s)
    case (Cons c r)
    have "read_object (read_members (Suc n)) r = read_object (read_members n) r"
      by (rule read_object_cong, rule m) (use Cons that in auto)
    moreover have "read_array (read_elements (Suc n)) r = read_array (read_elements n) r"
      by (rule read_array_cong, rule e) (use Cons that in auto)
    ultimately show ?thesis
      unfolding read_value.simps Cons by simp
  qed simp
  moreover have "read_elements (Suc (Suc n)) s = read_elements (Suc n) s"
    if "2 * length s + 1 < Suc n" for s
  proof -
    have "read_more (CHR '']'') (read_elements (Suc n)) x r = read_more (CHR '']'') (read_elements n) x r"
      if "read_value n s = Inr (x, r)" for x r
      by (rule read_more_cong, rule e)
        (use \<open>2 * length s + 1 < Suc n\<close> shortensD [OF conjunct1 [OF reads_shorten] that] in auto)
    then show ?thesis
      using v [of s] that unfolding read_elements.simps by (auto split: sum.split)
  qed
  moreover have "read_members (Suc (Suc n)) s = read_members (Suc n) s"
    if "2 * length s + 1 < Suc n" for s
  proof (cases "read_key s")
    case (Some kr)
    then obtain k r where kr: "read_key s = Some (k, r)" by (cases kr) auto
    have len: "length r < length s" by (rule length_read_key [OF kr])
    have "read_more (CHR ''}'') (read_members (Suc n)) (k, x) q
        = read_more (CHR ''}'') (read_members n) (k, x) q"
      if "read_value n r = Inr (x, q)" for x q
      by (rule read_more_cong, rule m)
        (use \<open>2 * length s + 1 < Suc n\<close> len shortensD [OF conjunct1 [OF reads_shorten] that] in auto)
    then show ?thesis
      using v [of r] that len kr unfolding read_members.simps by (auto split: sum.split)
  qed simp
  ultimately show ?case by blast
qed

lemma json_loads_fuel:
  "2 * length s < n \<Longrightarrow> read_value n s = read_value (2 * length s + 1) s"
proof (induction n)
  case (Suc n)
  then show ?case
    using fuel_step [of n] by (cases "2 * length s < n") (auto simp: less_Suc_eq)
qed simp

end
