(* ===== verification/Boundaries.thy ===== *)
theory Boundaries
  imports JsonRoundtrip
begin

text \<open>
  \<^verbatim>\<open>python/cartosentry/manifest_boundaries.py\<close>: the byte-level guard in front of
  every persisted JSON document.  \<open>scan_depth\<close> is the loop of \<open>_check_json_depth\<close>,
  \<open>decode_bounded_json\<close> the size check, the depth check and the decoder with its two hooks,
  and the readers work on a file node as the operating system presents it.  The lemmas relate
  the byte scanner to the nesting of the document it guards, and give the guarantees of the
  bounded readers.
\<close>

definition MAXIMUM_JSON_DEPTH :: nat where
  "MAXIMUM_JSON_DEPTH = 64"

definition MAXIMUM_INGESTION_BUDGET_BYTES :: nat where
  "MAXIMUM_INGESTION_BUDGET_BYTES = 64 * 1024"

definition MAXIMUM_FRAME_INDEX_LINE_BYTES :: nat where
  "MAXIMUM_FRAME_INDEX_LINE_BYTES = 1024 * 1024"

definition MAXIMUM_ARTIFACT_JSON_BYTES :: nat where
  "MAXIMUM_ARTIFACT_JSON_BYTES = 16 * 1024 * 1024"

section \<open>Operations\<close>

text \<open>The scanner's variables \<open>depth\<close>, \<open>in_string\<close>, \<open>escaped\<close>; the result says
  whether the scan reaches the end without exceeding the supported depth.\<close>

fun scan_depth :: "nat \<Rightarrow> bool \<Rightarrow> bool \<Rightarrow> string \<Rightarrow> bool" where
  "scan_depth depth in_string escaped [] = True"
| "scan_depth depth in_string escaped (byte # content) =
     (if in_string then
        (if escaped then scan_depth depth True False content
         else if byte = CHR 0x5C then scan_depth depth True True content
         else if byte = CHR 0x22 then scan_depth depth False escaped content
         else scan_depth depth True escaped content)
      else if byte = CHR 0x22 then scan_depth depth True escaped content
      else if byte = CHR ''{'' \<or> byte = CHR ''['' then
        (if depth + 1 > MAXIMUM_JSON_DEPTH then False
         else scan_depth (depth + 1) False escaped content)
      else if (byte = CHR ''}'' \<or> byte = CHR '']'') \<and> depth > 0 then
        scan_depth (depth - 1) False escaped content
      else scan_depth depth False escaped content)"

definition check_json_depth :: "string \<Rightarrow> string \<Rightarrow> unit res" where
  "check_json_depth content context0 =
     ensure (scan_depth 0 False False content)
       (ManifestBoundaryError (context0 @ '' nesting exceeds the supported depth''))"

definition decode_bounded_json :: "string \<Rightarrow> nat \<Rightarrow> string \<Rightarrow> json res" where
  "decode_bounded_json content maximum_bytes context0 =
     bindE (ensure (content \<noteq> [] \<and> length content \<le> maximum_bytes)
              (ManifestBoundaryError (context0 @ '' size is outside the supported range'')))
       (\<lambda>_. bindE (check_json_depth content context0)
       (\<lambda>_. (case json_loads content of
               Inr v \<Rightarrow> Inr v
             | Inl JSyntax \<Rightarrow> Inl (ManifestBoundaryError (context0 @ '' is not valid JSON''))
             | Inl JDuplicateKey \<Rightarrow>
                 Inl (ManifestBoundaryError (context0 @ '' contains a duplicate key''))
             | Inl JConstant \<Rightarrow>
                 Inl (ManifestBoundaryError (context0 @ '' contains non-standard numeric constant'')))))"

text \<open>
  What a path names when it is opened with \<open>O_RDONLY | O_NOFOLLOW\<close>: nothing, a symbolic link
  (refused by \<open>O_NOFOLLOW\<close>), a directory (opened, but \<open>os.fdopen\<close> raises
  \<open>IsADirectoryError\<close>, an \<open>OSError\<close>), another special file, or a regular file.
\<close>

datatype fs_node = NoEntry | SymbolicLink | Directory | SpecialFile | RegularFile string

definition open_regular_binary :: "fs_node \<Rightarrow> string \<Rightarrow> string res" where
  "open_regular_binary node context0 =
     (case node of
        NoEntry \<Rightarrow> Inl (ManifestBoundaryError (context0 @ '' is missing or unsafe''))
      | SymbolicLink \<Rightarrow> Inl (ManifestBoundaryError (context0 @ '' is missing or unsafe''))
      | Directory \<Rightarrow> Inl (OSError ''Is a directory'')
      | SpecialFile \<Rightarrow> Inl (ManifestBoundaryError (context0 @ '' is not a regular file''))
      | RegularFile content \<Rightarrow> Inr content)"

definition read_bounded_regular_bytes :: "fs_node \<Rightarrow> nat \<Rightarrow> string \<Rightarrow> string res" where
  "read_bounded_regular_bytes node maximum_bytes context0 =
     bindE (open_regular_binary node context0)
       (\<lambda>stream. bindE (ensure (0 < length stream \<and> length stream \<le> maximum_bytes)
                  (ManifestBoundaryError (context0 @ '' size is outside the supported range'')))
       (\<lambda>_. (let content = take (maximum_bytes + 1) stream in
              bindE (ensure (content \<noteq> [] \<and> length content \<le> maximum_bytes)
                (ManifestBoundaryError (context0 @ '' size is outside the supported range'')))
              (\<lambda>_. Inr content))))"

definition read_bounded_json :: "fs_node \<Rightarrow> nat \<Rightarrow> string \<Rightarrow> (json \<times> string) res" where
  "read_bounded_json node maximum_bytes context0 =
     bindE (read_bounded_regular_bytes node maximum_bytes context0)
       (\<lambda>content. bindE (decode_bounded_json content maximum_bytes context0)
       (\<lambda>v. Inr (v, content)))"

text \<open>\<open>stream.readline(limit)\<close>: up to and including the next newline, at most \<open>limit\<close> bytes.\<close>

fun read_line :: "nat \<Rightarrow> string \<Rightarrow> string \<times> string" where
  "read_line 0 s = ([], s)"
| "read_line (Suc n) [] = ([], [])"
| "read_line (Suc n) (c # s) =
     (if c = CHR 0x0A then ([c], s)
      else (let (l, r) = read_line n s in (c # l, r)))"

lemma read_line_append: "fst (read_line n s) @ snd (read_line n s) = s"
  by (induction n s rule: read_line.induct) (auto simp: Let_def split: prod.splits)

lemma read_line_shorter: "fst (read_line n s) \<noteq> [] \<Longrightarrow> length (snd (read_line n s)) < length s"
  using read_line_append [of n s] by (metis add_less_same_cancel2 length_append length_greater_0_conv
      less_add_same_cancel2)

text \<open>The generator: the records it yields before it ends or raises.\<close>

function iter_lines ::
  "nat \<Rightarrow> string \<Rightarrow> nat \<Rightarrow> string \<Rightarrow> (nat \<times> string \<times> json) list \<times> exn option" where
  "iter_lines maximum_line_bytes context0 line_number stream =
     (let line = fst (read_line (maximum_line_bytes + 1) stream);
          rest = snd (read_line (maximum_line_bytes + 1) stream);
          number = line_number + 1
      in if line = [] then ([], None)
         else if length line > maximum_line_bytes then
           ([], Some (ManifestBoundaryError
              (context0 @ '' line '' @ show_nat number @ '' exceeds the supported size'')))
         else (case decode_bounded_json line maximum_line_bytes
                      (context0 @ '' line '' @ show_nat number) of
                 Inl e \<Rightarrow> ([], Some e)
               | Inr v \<Rightarrow>
                   (let (records, e) = iter_lines maximum_line_bytes context0 number rest
                    in ((number, line, v) # records, e))))"
  by pat_completeness auto
termination
  by (relation "measure (\<lambda>(_, _, _, s). length s)") (auto dest: read_line_shorter)

declare iter_lines.simps [simp del]

definition iter_bounded_json_lines ::
  "fs_node \<Rightarrow> nat \<Rightarrow> string \<Rightarrow> (nat \<times> string \<times> json) list \<times> exn option" where
  "iter_bounded_json_lines node maximum_line_bytes context0 =
     (case open_regular_binary node context0 of
        Inl e \<Rightarrow> ([], Some e)
      | Inr stream \<Rightarrow> iter_lines maximum_line_bytes context0 0 stream)"

section \<open>The scanner follows the nesting of the document\<close>

definition plain_char :: "char \<Rightarrow> bool" where
  "plain_char c \<longleftrightarrow> c \<notin> {CHR 0x22, CHR ''{'', CHR ''['', CHR ''}'', CHR '']''}"

lemma scan_plain: "list_all plain_char s \<Longrightarrow> scan_depth d False False (s @ rest) = scan_depth d False False rest"
  by (induction s) (auto simp: plain_char_def)

lemma hex_digit_plain:
  assumes "d < 16"
  shows "hex_digit d \<noteq> CHR 0x22" and "hex_digit d \<noteq> CHR 0x5C"
proof -
  have "(of_char (hex_digit d) :: nat) = (if d < 10 then 48 + d else 87 + d)"
    using assms by (simp add: hex_digit_def)
  then have "(of_char (hex_digit d) :: nat) \<noteq> 34" "(of_char (hex_digit d) :: nat) \<noteq> 92"
    using assms by auto
  then show "hex_digit d \<noteq> CHR 0x22" and "hex_digit d \<noteq> CHR 0x5C"
    by (simp_all add: of_char_named)
qed

lemma scan_esc_char: "scan_depth d True False (esc_char c @ t) = scan_depth d True False t"
proof (cases "c \<in> {CHR 0x22, CHR 0x5C, CHR 0x0A, CHR 0x0D, CHR 0x09, CHR 0x0C, CHR 0x08}")
  case True
  then show ?thesis by (auto simp: esc_char_def)
next
  case False
  show ?thesis
  proof (cases "(of_char c :: nat) < 32")
    case True
    then have "esc_char c = [CHR 0x5C, CHR ''u'', CHR ''0'', CHR ''0'',
        hex_digit (of_char c div 16), hex_digit (of_char c mod 16)]"
      using False by (auto simp: esc_char_def Let_def of_char_named)
    moreover have "(of_char c :: nat) div 16 < 16" "(of_char c :: nat) mod 16 < 16"
      using True by auto
    ultimately show ?thesis
      by (simp add: hex_digit_plain)
  next
    case big: False
    then have "esc_char c = [c]" and "c \<noteq> CHR 0x22" and "c \<noteq> CHR 0x5C"
      using False by (auto simp: esc_char_def Let_def of_char_named)
    then show ?thesis by simp
  qed
qed

lemma scan_dump_str: "scan_depth d False False (dump_str s @ rest) = scan_depth d False False rest"
proof -
  have "scan_depth d True False (concat (map esc_char s) @ CHR 0x22 # rest) = scan_depth d False False rest"
    by (induction s) (simp_all add: scan_esc_char)
  then show ?thesis by (simp add: dump_str_def)
qed

text \<open>The characters of numbers.\<close>

lemma digit_plain: "is_digit c \<Longrightarrow> plain_char c"
  by (auto simp: plain_char_def is_digit_def)

lemma digits_plain: "list_all is_digit s \<Longrightarrow> list_all plain_char s"
  by (auto simp: list_all_iff digit_plain)

lemma takeWhile_digits_plain: "list_all plain_char (takeWhile is_digit s)"
  by (auto simp: list_all_iff digit_plain dest: set_takeWhileD)

lemma plain_number_chars [simp]:
  "plain_char (CHR ''-'')" "plain_char (CHR ''+'')" "plain_char (CHR ''.'')"
  "plain_char (CHR ''e'')" "plain_char (CHR ''E'')" "plain_char (CHR ''0'')"
  by (simp_all add: plain_char_def)

lemma show_int_plain: "list_all plain_char (show_int i)"
  by (simp add: show_int_def digits_plain show_nat_digits)

lemma read_frac_plain: "read_frac s = (f, r) \<Longrightarrow> list_all plain_char f"
  by (auto simp: read_frac_def takeWhile_digits_plain split: list.splits if_splits)

lemma read_exp_plain: "read_exp s = (f, r) \<Longrightarrow> list_all plain_char f"
  by (auto simp: read_exp_def takeWhile_digits_plain digit_plain Let_def split: list.splits if_splits)

lemma read_int_part_plain: "read_int_part s = Some (i, r) \<Longrightarrow> list_all plain_char i"
  by (auto simp: read_int_part_def takeWhile_digits_plain digit_plain split: list.splits if_splits)

lemma read_number_plain: "read_number s = Some (JFloat t, r) \<Longrightarrow> list_all plain_char t"
  by (cases s) (auto simp: read_number_def
      dest!: read_int_part_plain read_frac_plain read_exp_plain
      split: if_splits option.splits prod.splits)

lemma float_lexeme_plain: "float_lexeme s \<Longrightarrow> list_all plain_char s"
  by (auto simp: float_lexeme_def dest: read_number_plain)

text \<open>Scanning a written value from a state outside a string: it is accepted exactly when the
  depth already open plus the depth of the value stays within the limit, and the scan then goes
  on in the state it started from.\<close>

definition scans_as_deep :: "json \<Rightarrow> bool" where
  "scans_as_deep v \<longleftrightarrow>
     (\<forall>d rest. d \<le> MAXIMUM_JSON_DEPTH \<longrightarrow>
        scan_depth d False False (dumps v @ rest) =
          (d + json_depth v \<le> MAXIMUM_JSON_DEPTH \<and> scan_depth d False False rest))"

lemma scans_as_deepD:
  "scans_as_deep v \<Longrightarrow> d \<le> MAXIMUM_JSON_DEPTH \<Longrightarrow>
     scan_depth d False False (dumps v @ rest) =
       (d + json_depth v \<le> MAXIMUM_JSON_DEPTH \<and> scan_depth d False False rest)"
  by (simp add: scans_as_deep_def)

lemma scan_elements:
  assumes "\<forall>v \<in> set vs. scans_as_deep v" and "d \<le> MAXIMUM_JSON_DEPTH"
  shows "scan_depth d False False (join_with '','' (map dumps vs) @ rest) =
     (d + foldr max (map json_depth vs) 0 \<le> MAXIMUM_JSON_DEPTH \<and> scan_depth d False False rest)"
  using assms
proof (induction vs)
  case (Cons v vs)
  then show ?case by (cases vs) (auto simp: scans_as_deepD)
qed simp

lemma scan_members:
  assumes "\<forall>(k, v) \<in> set kvs. scans_as_deep v" and "d \<le> MAXIMUM_JSON_DEPTH"
  shows "scan_depth d False False
       (join_with '','' (map (\<lambda>(k, v). dump_str k @ CHR '':'' # dumps v) kvs) @ rest) =
     (d + foldr max (map (\<lambda>(k, v). json_depth v) kvs) 0 \<le> MAXIMUM_JSON_DEPTH
        \<and> scan_depth d False False rest)"
  using assms
proof (induction kvs)
  case (Cons kv kvs)
  then show ?case by (cases kvs; cases kv) (auto simp: scans_as_deepD scan_dump_str)
qed simp

lemma foldr_max_mset: "mset xs = mset ys \<Longrightarrow> foldr max xs 0 = foldr max ys (0::nat)"
proof -
  have "foldr max xs 0 = Max (insert 0 (set xs))" for xs :: "nat list"
  proof (induction xs)
    case (Cons a xs)
    have "Max (insert a (insert 0 (set xs))) = max a (Max (insert 0 (set xs)))"
      by (rule Max_insert) simp_all
    then show ?case using Cons by (simp add: insert_commute [of 0])
  qed simp
  then show "mset xs = mset ys \<Longrightarrow> foldr max xs 0 = foldr max ys (0::nat)"
    using mset_eq_setD by metis
qed

lemma json_ok_scans: "json_ok v \<Longrightarrow> scans_as_deep v"
proof (induction v)
  case (JList vs)
  then have *: "\<forall>v \<in> set vs. scans_as_deep v" by simp
  show ?case
    unfolding scans_as_deep_def
    by (auto simp: scan_elements [OF *] Suc_le_eq)
next
  case (JDict kvs)
  let ?s = "sort_key fst kvs"
  have *: "\<forall>(k, v) \<in> set ?s. scans_as_deep v" using JDict by auto
  have "mset (map (\<lambda>(k, v). json_depth v) ?s) = mset (map (\<lambda>(k, v). json_depth v) kvs)"
    by (simp only: mset_map mset_sort)
  then have "foldr max (map (\<lambda>(k, v). json_depth v) ?s) 0 = foldr max (map (\<lambda>(k, v). json_depth v) kvs) 0"
    by (rule foldr_max_mset)
  then show ?case
    unfolding scans_as_deep_def dumps_dict
    by (auto simp: scan_members [OF *] Suc_le_eq)
qed (simp_all add: scans_as_deep_def scan_dump_str scan_plain show_int_plain float_lexeme_plain)

lemma check_json_depth_dumps:
  "json_ok v \<Longrightarrow> check_json_depth (dumps v @ [CHR 0x0A]) c = Inr () \<longleftrightarrow> json_depth v \<le> MAXIMUM_JSON_DEPTH"
  using scans_as_deepD [OF json_ok_scans, of v 0 "[CHR 0x0A]"]
  by (simp add: check_json_depth_def)

section \<open>What the decoder accepts\<close>

text \<open>Every object of a decoded value has distinct keys, because each one passed the
  \<open>object_pairs_hook\<close>.\<close>

lemma read_scalar_distinct: "read_scalar s = Inr (v, r) \<Longrightarrow> json_distinct v"
  by (auto simp: read_scalar_def read_number_def split: if_splits option.splits prod.splits)

lemma read_more_SomeE:
  assumes "read_more c p x s = Inr (xs, r)"
  obtains "xs = [x]" | q ys where "xs = x # ys" "p q = Inr (ys, r)"
  using assms by (auto simp: read_more_def split: list.splits if_splits sum.splits)

lemma reads_distinct:
  "(\<forall>s v r. read_value n s = Inr (v, r) \<longrightarrow> json_distinct v) \<and>
   (\<forall>s vs r. read_elements n s = Inr (vs, r) \<longrightarrow> list_all json_distinct vs) \<and>
   (\<forall>s kvs r. read_members n s = Inr (kvs, r) \<longrightarrow> list_all (\<lambda>(k, v). json_distinct v) kvs)"
proof (induction n)
  case 0
  then show ?case by simp
next
  case (Suc n)
  then have v: "read_value n s = Inr (v, r) \<Longrightarrow> json_distinct v"
    and e: "read_elements n s = Inr (vs, r) \<Longrightarrow> list_all json_distinct vs"
    and m: "read_members n s = Inr (kvs, r) \<Longrightarrow> list_all (\<lambda>(k, v). json_distinct v) kvs" for s v r vs kvs
    by blast+
  have "json_distinct x" if "read_value (Suc n) s = Inr (x, r)" for s x r
    using that by (auto simp: read_object_def read_array_def dest: read_scalar_distinct e
        split: list.splits if_splits option.splits sum.splits) (erule m)
  moreover have "list_all json_distinct vs" if "read_elements (Suc n) s = Inr (vs, r)" for s vs r
    using that by (auto elim!: read_more_SomeE dest: v e split: sum.splits)
  moreover have "list_all (\<lambda>(k, v). json_distinct v) kvs" if "read_members (Suc n) s = Inr (kvs, r)" for s kvs r
    using that by (auto elim!: read_more_SomeE split: option.splits sum.splits) (erule v m)+
  ultimately show ?case by blast
qed

lemma read_value_distinct: "read_value n s = Inr (v, r) \<Longrightarrow> json_distinct v"
  using reads_distinct by blast

lemma json_loads_distinct: "json_loads s = Inr v \<Longrightarrow> json_distinct v"
  by (auto simp: json_loads_def simp del: read_value.simps dest: read_value_distinct
      split: sum.splits if_splits)

lemma decode_bounded_json_eq_Inr:
  "decode_bounded_json content m c = Inr v \<longleftrightarrow>
     content \<noteq> [] \<and> length content \<le> m \<and> scan_depth 0 False False content \<and> json_loads content = Inr v"
  by (auto simp: decode_bounded_json_def check_json_depth_def split: sum.splits json_error.splits)

lemma decode_bounded_json_fails_with:
  "decode_bounded_json content m c = Inl e \<Longrightarrow> \<exists>t. e = ManifestBoundaryError t"
  by (auto simp: decode_bounded_json_def check_json_depth_def bindE_eq_Inl
      split: sum.splits json_error.splits)

text \<open>The round trip through the boundary: a stored document is what was written.\<close>

lemma decode_stored_document:
  assumes "json_ok v" and "json_depth v \<le> MAXIMUM_JSON_DEPTH" and "length (dumps v) < m"
  shows "decode_bounded_json (dumps v @ [CHR 0x0A]) m c = Inr (canon v)"
  using assms check_json_depth_dumps [OF assms(1), of c]
  by (simp add: decode_bounded_json_eq_Inr json_loads_dumps_line check_json_depth_def)

section \<open>The bounded readers\<close>

lemma read_bounded_regular_bytes_iff:
  "read_bounded_regular_bytes node m c = Inr content \<longleftrightarrow>
     node = RegularFile content \<and> 0 < length content \<and> length content \<le> m"
  by (cases node) (auto simp: read_bounded_regular_bytes_def open_regular_binary_def Let_def)

lemma iter_lines_Cons:
  "iter_lines m c k s =
     (let line = fst (read_line (m + 1) s); rest = snd (read_line (m + 1) s)
      in if line = [] then ([], None)
         else if length line > m then
           ([], Some (ManifestBoundaryError (c @ '' line '' @ show_nat (k + 1) @ '' exceeds the supported size'')))
         else (case decode_bounded_json line m (c @ '' line '' @ show_nat (k + 1)) of
                 Inl e \<Rightarrow> ([], Some e)
               | Inr v \<Rightarrow> (((k + 1, line, v) # fst (iter_lines m c (k + 1) rest)),
                           snd (iter_lines m c (k + 1) rest))))"
  by (subst iter_lines.simps) (simp add: Let_def split_beta split: sum.split)

text \<open>What the generator yields: numbered lines that are a prefix of the file, each within the
  limit and each decoded; and, when it ends without raising, all of the file.\<close>

lemma iter_lines_records:
  "(number, line, v) \<in> set (fst (iter_lines m c k s)) \<Longrightarrow>
     length line \<le> m \<and> line \<noteq> [] \<and> k < number \<and> json_loads line = Inr v"
proof (induction m c k s rule: iter_lines.induct)
  case (1 m c k s)
  show ?case
    using "1.prems" "1.IH" [OF refl refl refl]
    by (subst (asm) (1) iter_lines_Cons)
      (fastforce simp: Let_def decode_bounded_json_eq_Inr split: if_splits sum.splits)
qed

lemma iter_lines_numbers: "map fst (fst (iter_lines m c k s)) = [k + 1..<k + 1 + length (fst (iter_lines m c k s))]"
proof (induction m c k s rule: iter_lines.induct)
  case (1 m c k s)
  show ?case
    using "1.IH" [OF refl refl refl]
    by (subst (1 2) iter_lines_Cons) (auto simp: Let_def upt_conv_Cons split: sum.splits)
qed

lemma iter_lines_complete:
  "snd (iter_lines m c k s) = None \<Longrightarrow> concat (map (\<lambda>(_, l, _). l) (fst (iter_lines m c k s))) = s"
proof (induction m c k s rule: iter_lines.induct)
  case (1 m c k s)
  let ?line = "fst (read_line (m + 1) s)" and ?rest = "snd (read_line (m + 1) s)"
  have s: "s = ?line @ ?rest" by (simp add: read_line_append)
  show ?case
  proof (cases "?line = []")
    case True
    then have "s = []" by (cases s) (auto simp: Let_def split: if_splits prod.splits)
    then show ?thesis by (subst iter_lines_Cons) simp
  next
    case False
    with "1.prems" obtain v where len: "length ?line \<le> m"
      and v: "decode_bounded_json ?line m (c @ '' line '' @ show_nat (k + 1)) = Inr v"
      by (subst (asm) (1) iter_lines_Cons) (auto simp: Let_def split: if_splits sum.splits)
    have eq: "iter_lines m c k s = ((k + 1, ?line, v) # fst (iter_lines m c (k + 1) ?rest),
        snd (iter_lines m c (k + 1) ?rest))"
      using False len v by (subst iter_lines_Cons) (simp add: Let_def)
    with "1.prems" "1.IH" [OF refl refl refl False _ v] len
    have "concat (map (\<lambda>(_, l, _). l) (fst (iter_lines m c (k + 1) ?rest))) = ?rest"
      by simp
    then show ?thesis using eq s by simp
  qed
qed

end
