(* ===== verification/Sha256.thy ===== *)
theory Sha256
  imports Prelude "HOL-Library.Word"
begin

text \<open>
  \<open>hashlib.sha256(content).hexdigest()\<close>, the library digest the program identifies every
  artifact by (FIPS 180-4, over bytes).  The rest of the development takes the digest as a
  parameter \<open>sha\<close> with the laws of the locale \<open>digest\<close>; here they are proved for
  SHA-256 itself, so the results hold for the function the code calls.
\<close>

unbundle bit_operations_syntax

type_synonym u32 = "32 word"

definition ror :: "nat \<Rightarrow> u32 \<Rightarrow> u32" where
  "ror n x = drop_bit n x OR push_bit (32 - n) x"

definition sha_k :: "u32 list" where
  "sha_k =
    [1116352408, 1899447441, 3049323471, 3921009573, 961987163, 1508970993, 2453635748, 2870763221,
     3624381080, 310598401, 607225278, 1426881987, 1925078388, 2162078206, 2614888103, 3248222580,
     3835390401, 4022224774, 264347078, 604807628, 770255983, 1249150122, 1555081692, 1996064986,
     2554220882, 2821834349, 2952996808, 3210313671, 3336571891, 3584528711, 113926993, 338241895,
     666307205, 773529912, 1294757372, 1396182291, 1695183700, 1986661051, 2177026350, 2456956037,
     2730485921, 2820302411, 3259730800, 3345764771, 3516065817, 3600352804, 4094571909, 275423344,
     430227734, 506948616, 659060556, 883997877, 958139571, 1322822218, 1537002063, 1747873779,
     1955562222, 2024104815, 2227730452, 2361852424, 2428436474, 2756734187, 3204031479, 3329325298]"

definition sha_h0 :: "u32 list" where
  "sha_h0 = [1779033703, 3144134277, 1013904242, 2773480762, 1359893119, 2600822924, 528734635, 1541459225]"

text \<open>Padding: a one bit, zeros to 56 bytes modulo 64, and the bit length on eight bytes.\<close>

definition be_bytes :: "nat \<Rightarrow> nat \<Rightarrow> nat list" where
  "be_bytes w n = map (\<lambda>i. n div 256 ^ (w - 1 - i) mod 256) [0..<w]"

definition sha_pad :: "nat list \<Rightarrow> nat list" where
  "sha_pad m = m @ [128] @ replicate ((119 - length m mod 64) mod 64) 0 @ be_bytes 8 (8 * length m)"

fun be_words :: "nat list \<Rightarrow> u32 list" where
  "be_words (a # b # c # d # r) = of_nat (((a * 256 + b) * 256 + c) * 256 + d) # be_words r"
| "be_words _ = []"

text \<open>The message schedule, most recent word first, from the sixteen words of a block.\<close>

definition sha_next :: "u32 list \<Rightarrow> u32" where
  "sha_next w =
     (let w15 = w ! 14; w2 = w ! 1;
          s0 = ror 7 w15 XOR ror 18 w15 XOR drop_bit 3 w15;
          s1 = ror 17 w2 XOR ror 19 w2 XOR drop_bit 10 w2
      in w ! 15 + s0 + w ! 6 + s1)"

fun sha_extend :: "nat \<Rightarrow> u32 list \<Rightarrow> u32 list" where
  "sha_extend 0 w = w"
| "sha_extend (Suc n) w = sha_extend n (sha_next w # w)"

fun sha_rounds :: "(u32 \<times> u32) list \<Rightarrow> u32 list \<Rightarrow> u32 list" where
  "sha_rounds ((k, w) # kw) [a, b, c, d, e, f, g, h] =
     (let s1 = ror 6 e XOR ror 11 e XOR ror 25 e;
          ch = (e AND f) XOR (NOT e AND g);
          t1 = h + s1 + ch + k + w;
          s0 = ror 2 a XOR ror 13 a XOR ror 22 a;
          maj = (a AND b) XOR (a AND c) XOR (b AND c)
      in sha_rounds kw [t1 + (s0 + maj), a, b, c, d + t1, e, f, g])"
| "sha_rounds _ st = st"

definition sha_block :: "u32 list \<Rightarrow> u32 list \<Rightarrow> u32 list" where
  "sha_block h w = map2 (+) h (sha_rounds (zip sha_k (rev (sha_extend 48 (rev w)))) h)"

function sha_blocks :: "u32 list \<Rightarrow> u32 list \<Rightarrow> u32 list" where
  "sha_blocks h ws = (if length ws < 16 then h else sha_blocks (sha_block h (take 16 ws)) (drop 16 ws))"
  by pat_completeness auto
termination by (relation "measure (\<lambda>(h, ws). length ws)") auto

declare sha_blocks.simps [simp del]

definition hex_char :: "nat \<Rightarrow> char" where
  "hex_char d = (if d < 10 then char_of (48 + d) else char_of (87 + d))"

definition word_hex :: "u32 \<Rightarrow> string" where
  "word_hex w = map (\<lambda>i. hex_char (unat w div 16 ^ (7 - i) mod 16)) [0..<8]"

definition sha256_hexdigest :: "string \<Rightarrow> string" where
  "sha256_hexdigest s = concat (map word_hex (sha_blocks sha_h0 (be_words (sha_pad (map of_char s)))))"

section \<open>The shape of a digest\<close>

locale digest =
  fixes sha :: "string \<Rightarrow> string"
  assumes sha_hex: "is_sha256 (sha content)"
begin

lemma length_sha [simp]: "length (sha content) = 64"
  using sha_hex [of content] by (simp add: is_sha256_def)

lemma sha_hex_chars: "c \<in> set (sha content) \<Longrightarrow> is_hex_lower c"
  using sha_hex [of content] by (simp add: is_sha256_def list_all_iff)

end

lemma is_hex_lower_hex_char: "d < 16 \<Longrightarrow> is_hex_lower (hex_char d)"
  by (auto simp: is_hex_lower_def is_digit_def hex_char_def)

lemma word_hex_shape: "length (word_hex w) = 8" "list_all is_hex_lower (word_hex w)"
  by (simp_all add: word_hex_def list_all_iff is_hex_lower_hex_char)

lemma length_sha_rounds: "length st = 8 \<Longrightarrow> length (sha_rounds kw st) = 8"
  by (induction kw st rule: sha_rounds.induct) (auto simp: Let_def)

lemma length_sha_blocks: "length h = 8 \<Longrightarrow> length (sha_blocks h ws) = 8"
proof (induction h ws rule: sha_blocks.induct)
  case (1 h ws)
  then show ?case
    by (subst sha_blocks.simps) (auto simp: sha_block_def length_sha_rounds)
qed

lemma concat_word_hex:
  "length (concat (map word_hex ws)) = 8 * length ws" "list_all is_hex_lower (concat (map word_hex ws))"
  by (induction ws) (simp_all add: word_hex_shape)

interpretation sha256: digest sha256_hexdigest
proof unfold_locales
  fix content
  show "is_sha256 (sha256_hexdigest content)"
    by (simp add: is_sha256_def sha256_hexdigest_def concat_word_hex length_sha_blocks sha_h0_def)
qed

end
