(* ===== verification/Identifiers.thy ===== *)
theory Identifiers
  imports Boundaries Sha256
begin

text \<open>
  \<^verbatim>\<open>python/cartosentry/identifiers.py\<close>: the portability walk over a value, its
  canonical JSON bytes, and the identifiers derived from them.  \<open>assert_portable\<close> keeps the
  order of the walk and its error locations (without the \<open>repr\<close> of the offending text);
  keys that are not strings cannot be written in the type \<open>json\<close>.  Lower-casing a key is ASCII,
  which decides the same: no forbidden key has a \<open>k\<close> or an \<open>i\<close> with a dot above, the only two cases in which
  Python's \<open>str.lower\<close> leads from outside ASCII into it; the slug has them (\<open>slug_lower\<close>).
\<close>

section \<open>Portability\<close>

definition FORBIDDEN_PORTABLE_KEYS :: "string list" where
  "FORBIDDEN_PORTABLE_KEYS =
     [''absolute_path'', ''host_name'', ''hostname'', ''local_context'', ''local_path'',
      ''machine_id'', ''source_root'', ''source_roots'']"

definition windows_absolute :: "string \<Rightarrow> bool" where
  "windows_absolute s \<longleftrightarrow>
     (case s of
        a # b # c # r \<Rightarrow>
          (is_lower a \<or> is_upper a) \<and> b = CHR '':'' \<and> (c = CHR 0x5C \<or> c = CHR ''/'')
      | _ \<Rightarrow> False)"

definition path_leak :: "string \<Rightarrow> bool" where
  "path_leak s \<longleftrightarrow>
     (let normalized = replace_char (CHR 0x5C) (CHR ''/'') s
      in prefix ''/'' normalized \<or> prefix ''~/'' normalized \<or> prefix ''//'' normalized
         \<or> prefix ''file://'' normalized
         \<or> windows_absolute s
         \<or> ''..'' \<in> set (split_on (CHR ''/'') normalized))"

fun assert_portable :: "string \<Rightarrow> json \<Rightarrow> unit res"
  and assert_portable_items :: "string \<Rightarrow> (string \<times> json) list \<Rightarrow> unit res"
  and assert_portable_elements :: "string \<Rightarrow> nat \<Rightarrow> json list \<Rightarrow> unit res"
where
  "assert_portable location (JDict kvs) = assert_portable_items location kvs"
| "assert_portable location (JList vs) = assert_portable_elements location 0 vs"
| "assert_portable location (JStr s) =
     ensure (\<not> path_leak s)
       (ValueError (''portable '' @ location @ '' contains a local or traversing path''))"
| "assert_portable location v = Inr ()"
| "assert_portable_items location [] = Inr ()"
| "assert_portable_items location ((key, item) # kvs) =
     bindE (ensure (lower key \<notin> set FORBIDDEN_PORTABLE_KEYS)
              (ValueError (''portable '' @ location @ '' contains machine-local field'')))
       (\<lambda>_. bindE (assert_portable (location @ ''.'' @ key) item)
       (\<lambda>_. assert_portable_items location kvs))"
| "assert_portable_elements location index [] = Inr ()"
| "assert_portable_elements location index (item # vs) =
     bindE (assert_portable (location @ ''['' @ show_nat index @ '']'') item)
       (\<lambda>_. assert_portable_elements location (index + 1) vs)"

section \<open>Canonical bytes and identifiers\<close>

definition canonical_json_bytes :: "json \<Rightarrow> string res" where
  "canonical_json_bytes value0 =
     bindE (assert_portable ''identifier input'' value0) (\<lambda>_. json_dumps value0)"

definition canonical_sha256 :: "(string \<Rightarrow> string) \<Rightarrow> json \<Rightarrow> string res" where
  "canonical_sha256 sha value0 = bindE (canonical_json_bytes value0) (\<lambda>b. Inr (sha b))"

definition make_identifier :: "(string \<Rightarrow> string) \<Rightarrow> string \<Rightarrow> json \<Rightarrow> string res" where
  "make_identifier sha kind value0 =
     bindE (canonical_sha256 sha value0) (\<lambda>d. Inr (kind @ ''-sha256-'' @ d))"

text \<open>\<open>value.lower()\<close> as far as the pattern below can see it.  Python lowers by Unicode: of the
  characters above ASCII exactly two have an ASCII character in their lower case, U+212A (Kelvin sign),
  which becomes \<open>k\<close>, and U+0130, which becomes \<open>i\<close> and U+0307; they are the byte sequences
  \<open>E2 84 AA\<close> and \<open>C4 B0\<close>.  All others stay outside \<open>[a-z0-9]\<close>, whatever they are lowered to.\<close>

fun slug_lower :: "string \<Rightarrow> string" where
  "slug_lower [] = []"
| "slug_lower (c # s) =
     (if c = CHR 0xC4 \<and> take 1 s = [CHR 0xB0] then CHR ''i'' # CHR 0xCC # CHR 0x87 # slug_lower (drop 1 s)
      else if c = CHR 0xE2 \<and> take 2 s = [CHR 0x84, CHR 0xAA] then CHR ''k'' # slug_lower (drop 2 s)
      else lower_char c # slug_lower s)"

text \<open>\<open>re.sub(r"[^a-z0-9]+", "-", s)\<close>, \<open>strip("-")\<close> and the slice of 32 characters.\<close>

definition slug_char :: "char \<Rightarrow> bool" where
  "slug_char c \<longleftrightarrow> is_lower c \<or> is_digit c"

fun collapse :: "string \<Rightarrow> string" where
  "collapse [] = []"
| "collapse (c # s) =
     (if slug_char c then c # collapse s
      else (case s of
              [] \<Rightarrow> [CHR ''-'']
            | d # r \<Rightarrow> (if slug_char d then CHR ''-'' # collapse s else collapse s)))"

definition strip_dash :: "string \<Rightarrow> string" where
  "strip_dash s = rev (dropWhile (\<lambda>c. c = CHR ''-'') (rev (dropWhile (\<lambda>c. c = CHR ''-'') s)))"

definition slug :: "string \<Rightarrow> string res" where
  "slug s =
     (let t = strip_dash (collapse (slug_lower s))
      in if t = [] then Inl (ValueError ''identifier component has no portable characters'')
         else Inr (take 32 t))"

definition make_sequence_id :: "(string \<Rightarrow> string) \<Rightarrow> json \<Rightarrow> string res" where
  "make_sequence_id sha identity = make_identifier sha ''sequence'' identity"

definition make_stream_id :: "(string \<Rightarrow> string) \<Rightarrow> string \<Rightarrow> string \<Rightarrow> string \<Rightarrow> string res" where
  "make_stream_id sha sequence_id modality sensor_id =
     bindE (canonical_sha256 sha (JDict
              [(''modality'', JStr modality), (''sensor_id'', JStr sensor_id),
               (''sequence_id'', JStr sequence_id)]))
       (\<lambda>digest0. bindE (slug modality)
       (\<lambda>m. bindE (slug sensor_id)
       (\<lambda>s. Inr (''stream-'' @ m @ ''-'' @ s @ ''-'' @ digest0))))"

definition make_frame_id :: "(string \<Rightarrow> string) \<Rightarrow> string \<Rightarrow> string \<Rightarrow> json \<Rightarrow> string res" where
  "make_frame_id sha stream_id source_frame_key capture_interval =
     make_identifier sha ''frame'' (JDict
       [(''capture_interval'', capture_interval), (''source_frame_key'', JStr source_frame_key),
        (''stream_id'', JStr stream_id)])"

definition make_finding_id ::
  "(string \<Rightarrow> string) \<Rightarrow> string \<Rightarrow> string \<Rightarrow> string \<Rightarrow> json \<Rightarrow> string list \<Rightarrow> json \<Rightarrow> string res" where
  "make_finding_id sha detector_id detector_version rule_id source_interval stream_ids evidence_fingerprint =
     make_identifier sha ''finding'' (JDict
       [(''detector_id'', JStr detector_id), (''detector_version'', JStr detector_version),
        (''evidence_fingerprint'', evidence_fingerprint), (''rule_id'', JStr rule_id),
        (''source_interval'', source_interval),
        (''stream_ids'', JList (map JStr (sort stream_ids)))])"

definition make_fault_id ::
  "(string \<Rightarrow> string) \<Rightarrow> string \<Rightarrow> string \<Rightarrow> string \<Rightarrow> string \<Rightarrow> string \<Rightarrow> string res" where
  "make_fault_id sha fault_matrix_id operator_id case_id source_family_id source_identity_sha256 =
     make_identifier sha ''fault'' (JDict
       [(''case_id'', JStr case_id), (''fault_matrix_id'', JStr fault_matrix_id),
        (''operator_id'', JStr operator_id), (''source_family_id'', JStr source_family_id),
        (''source_identity_sha256'', JStr source_identity_sha256)])"

definition make_road_bin_id :: "(string \<Rightarrow> string) \<Rightarrow> string \<Rightarrow> string \<Rightarrow> int \<Rightarrow> string res" where
  "make_road_bin_id sha road_graph_id directed_arc_id longitudinal_bin_index =
     (if longitudinal_bin_index < 0
      then Inl (ValueError ''longitudinal bin index must be nonnegative'')
      else make_identifier sha ''road-bin'' (JDict
        [(''directed_arc_id'', JStr directed_arc_id),
         (''longitudinal_bin_index'', JInt longitudinal_bin_index),
         (''road_graph_id'', JStr road_graph_id)]))"

definition make_road_graph_id :: "(string \<Rightarrow> string) \<Rightarrow> json \<Rightarrow> string res" where
  "make_road_graph_id sha identity = make_identifier sha ''road-graph'' identity"

text \<open>\<open>dict(sorted(d.items()))\<close> of a dictionary of strings.\<close>

definition sorted_dict :: "(string \<times> string) list \<Rightarrow> json" where
  "sorted_dict kvs = JDict (map (\<lambda>(k, v). (k, JStr v)) (sort_key fst kvs))"

definition make_run_id ::
  "(string \<Rightarrow> string) \<Rightarrow> string \<Rightarrow> string \<Rightarrow> string \<Rightarrow> string \<Rightarrow> (string \<times> string) list \<Rightarrow> string res" where
  "make_run_id sha sequence_id road_graph_id profile_id engine_version configuration_hashes =
     make_identifier sha ''run'' (JDict
       [(''configuration_hashes'', sorted_dict configuration_hashes),
        (''engine_version'', JStr engine_version), (''profile_id'', JStr profile_id),
        (''road_graph_id'', JStr road_graph_id), (''sequence_id'', JStr sequence_id)])"

definition make_recapture_plan_id :: "(string \<Rightarrow> string) \<Rightarrow> json \<Rightarrow> string res" where
  "make_recapture_plan_id sha identity = make_identifier sha ''recapture-plan'' identity"

definition make_bundle_id :: "(string \<Rightarrow> string) \<Rightarrow> json \<Rightarrow> string res" where
  "make_bundle_id sha identity = make_identifier sha ''accepted-bundle'' identity"

definition make_calibration_id :: "(string \<Rightarrow> string) \<Rightarrow> json \<Rightarrow> string res" where
  "make_calibration_id sha identity = make_identifier sha ''calibration'' identity"

definition make_requirement_id :: "(string \<Rightarrow> string) \<Rightarrow> json \<Rightarrow> string res" where
  "make_requirement_id sha identity = make_identifier sha ''requirement'' identity"

definition make_synthetic_fixture_id :: "(string \<Rightarrow> string) \<Rightarrow> json \<Rightarrow> string res" where
  "make_synthetic_fixture_id sha identity = make_identifier sha ''synthetic-fixture'' identity"

section \<open>The walk decides portability\<close>

text \<open>The declarative reading: no forbidden key and no leaking string anywhere in the value.\<close>

inductive occurs :: "json \<Rightarrow> json \<Rightarrow> bool" where
  here: "occurs v v"
| in_list: "w \<in> set vs \<Longrightarrow> occurs v w \<Longrightarrow> occurs v (JList vs)"
| in_dict: "(k, w) \<in> set kvs \<Longrightarrow> occurs v w \<Longrightarrow> occurs v (JDict kvs)"

inductive_simps occurs_JNull [simp]: "occurs v JNull"
inductive_simps occurs_JBool [simp]: "occurs v (JBool b)"
inductive_simps occurs_JInt [simp]: "occurs v (JInt i)"
inductive_simps occurs_JFloat [simp]: "occurs v (JFloat f)"
inductive_simps occurs_JStr [simp]: "occurs v (JStr s)"
inductive_simps occurs_JList: "occurs v (JList vs)"
inductive_simps occurs_JDict: "occurs v (JDict kvs)"

definition portable :: "json \<Rightarrow> bool" where
  "portable v \<longleftrightarrow>
     (\<forall>s. occurs (JStr s) v \<longrightarrow> \<not> path_leak s) \<and>
     (\<forall>kvs k. occurs (JDict kvs) v \<and> k \<in> fst ` set kvs \<longrightarrow> lower k \<notin> set FORBIDDEN_PORTABLE_KEYS)"

lemma portable_atoms [simp]:
  "portable JNull" "portable (JBool b)" "portable (JInt i)" "portable (JFloat f)"
  "portable (JStr s) \<longleftrightarrow> \<not> path_leak s"
  by (simp_all add: portable_def)

lemma portable_JList [simp]: "portable (JList vs) \<longleftrightarrow> (\<forall>v \<in> set vs. portable v)"
  unfolding portable_def occurs_JList json.simps simp_thms by blast

lemma portable_JDict [simp]:
  "portable (JDict kvs) \<longleftrightarrow>
     (\<forall>(k, v) \<in> set kvs. lower k \<notin> set FORBIDDEN_PORTABLE_KEYS \<and> portable v)"
  (is "_ \<longleftrightarrow> ?rhs")
proof
  assume p: "portable (JDict kvs)"
  show ?rhs
  proof clarify
    fix k v assume kv: "(k, v) \<in> set kvs"
    have "k \<in> fst ` set kvs" using image_eqI [OF _ kv, of k fst] by simp
    then show "lower k \<notin> set FORBIDDEN_PORTABLE_KEYS \<and> portable v"
      using p kv unfolding portable_def by (meson occurs.here occurs.in_dict)
  qed
next
  assume r: ?rhs
  have *: "(\<exists>w. (\<exists>k. (k, w) \<in> set kvs) \<and> occurs u w)" if "occurs u (JDict kvs)" "u \<noteq> JDict kvs" for u
    using that occurs_JDict [of u kvs] by blast
  show "portable (JDict kvs)"
    unfolding portable_def
  proof (intro conjI allI impI)
    fix s assume "occurs (JStr s) (JDict kvs)"
    then obtain k w where kw: "(k, w) \<in> set kvs" "occurs (JStr s) w"
      using * [of "JStr s"] by blast
    then have "portable w" using r by blast
    then show "\<not> path_leak s" using kw(2) by (simp add: portable_def)
  next
    fix kvs' k assume a: "occurs (JDict kvs') (JDict kvs) \<and> k \<in> fst ` set kvs'"
    show "lower k \<notin> set FORBIDDEN_PORTABLE_KEYS"
    proof (cases "kvs' = kvs")
      case True
      then obtain v where "(k, v) \<in> set kvs" using a by force
      then show ?thesis using r by blast
    next
      case False
      then obtain j w where kw: "(j, w) \<in> set kvs" "occurs (JDict kvs') w"
        using a * [of "JDict kvs'"] by blast
      then have "portable w" using r by blast
      then show ?thesis using kw(2) a unfolding portable_def by blast
    qed
  qed
qed

lemma assert_portable_ok:
  "assert_portable l v = Inr () \<longleftrightarrow> portable v"
  "assert_portable_items l kvs = Inr () \<longleftrightarrow>
     (\<forall>(k, v) \<in> set kvs. lower k \<notin> set FORBIDDEN_PORTABLE_KEYS \<and> portable v)"
  "assert_portable_elements l i vs = Inr () \<longleftrightarrow> (\<forall>v \<in> set vs. portable v)"
  by (induction l v and l kvs and l i vs rule: assert_portable_assert_portable_items_assert_portable_elements.induct)
    auto

lemma canonical_json_bytes_eq:
  "canonical_json_bytes v = Inr b \<longleftrightarrow> portable v \<and> json_finite v \<and> b = dumps v"
  by (auto simp: canonical_json_bytes_def json_dumps_def assert_portable_ok split: if_splits)

lemma canonical_sha256_eq:
  "canonical_sha256 sha v = Inr d \<longleftrightarrow> portable v \<and> json_finite v \<and> d = sha (dumps v)"
  by (auto simp: canonical_sha256_def canonical_json_bytes_eq)

lemma make_identifier_eq:
  "make_identifier sha kind v = Inr i \<longleftrightarrow>
     portable v \<and> json_finite v \<and> i = kind @ ''-sha256-'' @ sha (dumps v)"
  by (auto simp: make_identifier_def canonical_sha256_eq)

lemma make_identifier_canon: "canon v = canon w \<Longrightarrow> dumps v = dumps w"
  by (metis dumps_canon)

section \<open>The slug of an identifier component\<close>

text \<open>The pattern \<^verbatim>\<open>^stream-[a-z0-9-]+-[a-z0-9-]+-[0-9a-f]{64}$\<close> of
  \<^verbatim>\<open>StreamId\<close>.\<close>

definition slug_text :: "string \<Rightarrow> bool" where
  "slug_text s \<longleftrightarrow> list_all (\<lambda>c. slug_char c \<or> c = CHR ''-'') s"

definition is_stream_id :: "string \<Rightarrow> bool" where
  "is_stream_id s \<longleftrightarrow>
     (let n = length s - 64; middle = drop 7 (take (n - 1) s)
      in 72 \<le> length s \<and> take 7 s = ''stream-'' \<and> s ! (n - 1) = CHR ''-'' \<and> is_sha256 (drop n s) \<and>
         slug_text middle \<and> CHR ''-'' \<in> set (butlast (tl middle)))"

lemma slug_char_dash [simp]: "\<not> slug_char (CHR ''-'')"
  by (simp add: slug_char_def is_lower_def is_digit_def)

lemma slug_text_collapse: "slug_text (collapse s)"
  by (induction s) (auto simp: slug_text_def split: list.splits)

lemma set_collapse: "slug_char c \<Longrightarrow> c \<in> set (collapse s) \<longleftrightarrow> c \<in> set s"
proof (induction s)
  case (Cons d s)
  have "c \<noteq> CHR ''-''" using Cons.prems by auto
  then show ?case using Cons by (cases s) auto
qed simp

lemma slug_text_strip: "slug_text s \<Longrightarrow> slug_text (strip_dash s)"
  by (auto simp: slug_text_def strip_dash_def list_all_iff dest!: set_dropWhileD)

lemma set_dropWhile_keep: "c \<in> set s \<Longrightarrow> \<not> P c \<Longrightarrow> c \<in> set (dropWhile P s)"
  by (induction s) auto

lemma set_strip_dash:
  assumes "slug_char c"
  shows "c \<in> set (strip_dash s) \<longleftrightarrow> c \<in> set s"
proof -
  have c: "c \<noteq> CHR ''-''" using assms by auto
  have "c \<in> set (dropWhile (\<lambda>c. c = CHR ''-'') u) \<longleftrightarrow> c \<in> set u" for u
    using set_dropWhile_keep [of c u "\<lambda>c. c = CHR ''-''"] set_dropWhileD [of c "\<lambda>c. c = CHR ''-''" u] c
    by blast
  then show ?thesis unfolding strip_dash_def by simp
qed

lemma strip_dash_hd: "strip_dash s = c # r \<Longrightarrow> c \<noteq> CHR ''-''"
proof -
  assume a: "strip_dash s = c # r"
  let ?t = "dropWhile (\<lambda>c. c = CHR ''-'') s"
  have "strip_dash s @ rev (takeWhile (\<lambda>c. c = CHR ''-'') (rev ?t)) = ?t"
    unfolding strip_dash_def rev_append [symmetric] takeWhile_dropWhile_id by simp
  then have t: "?t = c # r @ rev (takeWhile (\<lambda>c. c = CHR ''-'') (rev ?t))"
    using a by simp
  then have "hd ?t = c" and "?t \<noteq> []" by (metis list.sel(1)) (metis t list.distinct(1))
  then show ?thesis using hd_dropWhile [of "\<lambda>c. c = CHR ''-''" s] by blast
qed

lemma slug_eq_Inr:
  "slug s = Inr t \<longleftrightarrow> (\<exists>c \<in> set (slug_lower s). slug_char c) \<and> t = take 32 (strip_dash (collapse (slug_lower s)))"
proof -
  have "(\<exists>c \<in> set (strip_dash (collapse (slug_lower s))). slug_char c) \<longleftrightarrow> (\<exists>c \<in> set (slug_lower s). slug_char c)"
    using set_strip_dash set_collapse by blast
  moreover have "(\<exists>c \<in> set (strip_dash (collapse (slug_lower s))). slug_char c)
      \<longleftrightarrow> strip_dash (collapse (slug_lower s)) \<noteq> []"
    using slug_text_strip [OF slug_text_collapse [of "slug_lower s"]]
    by (cases "strip_dash (collapse (slug_lower s))") (auto simp: slug_text_def dest: strip_dash_hd)
  ultimately show ?thesis by (auto simp: slug_def Let_def)
qed

lemma slug_shape:
  assumes "slug s = Inr t"
  shows "slug_text t" and "t \<noteq> []" and "length t \<le> 32" and "slug_char (hd t)"
proof -
  let ?u = "strip_dash (collapse (slug_lower s))"
  have t: "t = take 32 ?u" and ne: "?u \<noteq> []"
    using assms by (auto simp: slug_def Let_def split: if_splits)
  have u: "slug_text ?u" by (rule slug_text_strip [OF slug_text_collapse])
  then show "slug_text t" unfolding slug_text_def t list_all_iff by (auto dest: in_set_takeD)
  show "t \<noteq> []" and "length t \<le> 32" using ne by (simp_all add: t)
  obtain c r where cr: "?u = c # r" using ne by (cases ?u) auto
  then show "slug_char (hd t)"
    using u strip_dash_hd [OF cr] by (simp add: t slug_text_def)
qed

lemma sort_key_mset_unique:
  "mset xs = mset ys \<Longrightarrow> distinct (map f xs) \<Longrightarrow> sort_key f xs = sort_key f ys"
  by (rule sort_key_inj_key_eq) (simp_all add: distinct_map)

lemma sorted_dict_order:
  "mset xs = mset ys \<Longrightarrow> distinct (map fst xs) \<Longrightarrow> sorted_dict xs = sorted_dict ys"
  by (simp add: sorted_dict_def sort_key_mset_unique [of xs ys fst])

lemma json_ok_sorted_dict [simp]: "json_ok (sorted_dict kvs) \<longleftrightarrow> distinct (map fst kvs)"
proof -
  have "map fst (map (\<lambda>(k, v). (k, JStr v)) (sort_key fst kvs)) = sort (map fst kvs)"
    by (simp add: comp_def case_prod_beta fst_sort_key_fst [symmetric])
  then have "distinct (map fst (map (\<lambda>(k, v). (k, JStr v)) (sort_key fst kvs))) \<longleftrightarrow> distinct (map fst kvs)"
    by (simp only: distinct_sort)
  then show ?thesis by (auto simp: sorted_dict_def)
qed

lemma portable_key [simp]:
  "lower ''modality'' \<notin> set FORBIDDEN_PORTABLE_KEYS"
  "lower ''sensor_id'' \<notin> set FORBIDDEN_PORTABLE_KEYS"
  "lower ''sequence_id'' \<notin> set FORBIDDEN_PORTABLE_KEYS"
  by (simp_all add: lower_def lower_char_def FORBIDDEN_PORTABLE_KEYS_def)

lemma assert_portable_fails:
  "assert_portable l v = Inl e \<Longrightarrow> \<exists>t. e = ValueError t"
  "assert_portable_items l kvs = Inl e \<Longrightarrow> \<exists>t. e = ValueError t"
  "assert_portable_elements l i vs = Inl e \<Longrightarrow> \<exists>t. e = ValueError t"
  by (induction l v and l kvs and l i vs rule: assert_portable_assert_portable_items_assert_portable_elements.induct)
    (auto simp: bindE_eq_Inl)

lemma canonical_sha256_Inl:
  "canonical_sha256 sha v = Inl e \<Longrightarrow> \<not> (portable v \<and> json_finite v)"
  by (metis Inl_Inr_False canonical_sha256_eq)

lemma slug_Inl: "slug s = Inl e \<Longrightarrow> \<not> (\<exists>c \<in> set (slug_lower s). slug_char c)"
  by (metis Inl_Inr_False slug_eq_Inr)

lemma stream_id_shape:
  assumes m: "slug modality = Inr m" and s: "slug sensor = Inr s" and d: "is_sha256 d"
  shows "is_stream_id (''stream-'' @ m @ ''-'' @ s @ ''-'' @ d)"
proof -
  define p where "p = ''stream-'' @ m @ ''-'' @ s"
  have i: "''stream-'' @ m @ ''-'' @ s @ ''-'' @ d = p @ ''-'' @ d" by (simp add: p_def)
  have len: "length d = 64" using d by (simp add: is_sha256_def)
  have n: "length (p @ ''-'' @ d) - 64 = length p + 1" using len by simp
  obtain c r where cr: "m = c # r" using slug_shape(2) [OF m] by (cases m) auto
  have ns: "s \<noteq> []" by (rule slug_shape(2) [OF s])
  have "drop 7 p = m @ ''-'' @ s" and "take 7 p = ''stream-''" and "9 \<le> length p + length s"
    using cr by (simp_all add: p_def)
  moreover have "length p = 8 + length m + length s" by (simp add: p_def)
  moreover have "slug_text (m @ ''-'' @ s)"
    using slug_shape(1) [OF m] slug_shape(1) [OF s] by (simp add: slug_text_def)
  moreover have "CHR ''-'' \<in> set (butlast (tl (m @ ''-'' @ s)))"
    using ns by (simp add: cr butlast_append)
  moreover have "0 < length m" and "0 < length s" using cr ns by simp_all
  ultimately show ?thesis
    using d len unfolding is_stream_id_def i n Let_def by (simp add: nth_append)
qed

section \<open>Properties\<close>

text \<open>C28: The portability walk accepts a value exactly when no string anywhere in it leaks a path
  and no object key anywhere in it names machine-local data; otherwise it raises
  \<open>ValueError\<close>.\<close>

theorem assert_portable_decides:
  "(assert_portable location v = Inr () \<longleftrightarrow> portable v) \<and>
   ((\<exists>t. assert_portable location v = Inl (ValueError t)) \<longleftrightarrow> \<not> portable v)"
  using assert_portable_ok(1) [of location v] assert_portable_fails(1) [of location v]
  by (cases "assert_portable location v") auto

text \<open>C27: Two documents that get the same identifier are of the same kind and, up to the order of
  object keys, the same document; the only other possibility is an explicit SHA-256
  collision between their canonical bytes.\<close>

theorem identifier_determines_document:
  assumes "make_identifier sha256_hexdigest kind v = Inr i"
    and "make_identifier sha256_hexdigest kind' w = Inr i"
    and "json_ok v" and "json_ok w"
  shows "kind = kind' \<and> (canon v = canon w \<or>
     (dumps v \<noteq> dumps w \<and> sha256_hexdigest (dumps v) = sha256_hexdigest (dumps w)))"
proof -
  have i: "(kind @ ''-sha256-'') @ sha256_hexdigest (dumps v) = (kind' @ ''-sha256-'') @ sha256_hexdigest (dumps w)"
    using assms(1,2) unfolding make_identifier_eq by simp
  then have "kind @ ''-sha256-'' = kind' @ ''-sha256-''"
    and "sha256_hexdigest (dumps v) = sha256_hexdigest (dumps w)"
    using append_eq_append_conv [OF disjI2] sha256.length_sha by metis+
  then show ?thesis
    using json_dumps_inj [OF assms(3,4)] by auto
qed

theorem identifier_determines_document_witness:
  "\<exists>i. make_identifier sha256_hexdigest ''run'' (JDict [(''a'', JInt 1)]) = Inr i \<and> ''run'' = ''run''
     \<and> (canon (JDict [(''a'', JInt 1)]) = canon (JDict [(''a'', JInt 1)]) \<or> False)"
proof -
  have a: "lower ''a'' = ''a''" by (simp add: lower_def lower_char_def)
  have m: "make_identifier sha256_hexdigest ''run'' (JDict [(''a'', JInt 1)]) =
      Inr (''run-sha256-'' @ sha256_hexdigest (dumps (JDict [(''a'', JInt 1)])))"
    by (simp add: make_identifier_eq a FORBIDDEN_PORTABLE_KEYS_def del: dumps.simps)
  show ?thesis
    using identifier_determines_document [OF m m] m by auto
qed

text \<open>C29: A stream identifier is made exactly when the three components leak no path and both the
  modality and the sensor, lowered, have a portable character; and it then matches the \<open>StreamId\<close>
  pattern of the artifact contracts.\<close>

theorem make_stream_id_total:
  "(case make_stream_id sha256_hexdigest sequence_id modality sensor_id of
      Inl _ \<Rightarrow> path_leak sequence_id \<or> path_leak modality \<or> path_leak sensor_id
        \<or> list_all (\<lambda>c. \<not> slug_char c) (slug_lower modality) \<or> list_all (\<lambda>c. \<not> slug_char c) (slug_lower sensor_id)
    | Inr i \<Rightarrow> is_stream_id i \<and> \<not> path_leak sequence_id \<and> \<not> path_leak modality \<and> \<not> path_leak sensor_id
        \<and> list_ex slug_char (slug_lower modality) \<and> list_ex slug_char (slug_lower sensor_id))"
proof (cases "make_stream_id sha256_hexdigest sequence_id modality sensor_id")
  case (Inl e)
  then have "(\<exists>e. canonical_sha256 sha256_hexdigest (JDict
        [(''modality'', JStr modality), (''sensor_id'', JStr sensor_id), (''sequence_id'', JStr sequence_id)])
        = Inl e) \<or> (\<exists>e. slug modality = Inl e) \<or> (\<exists>e. slug sensor_id = Inl e)"
    unfolding make_stream_id_def bindE_eq_Inl by blast
  then show ?thesis
    unfolding Inl sum.case using slug_Inl by (auto simp: list_all_iff dest!: canonical_sha256_Inl)
next
  case (Inr i)
  let ?v = "JDict [(''modality'', JStr modality), (''sensor_id'', JStr sensor_id), (''sequence_id'', JStr sequence_id)]"
  obtain d m s where c: "canonical_sha256 sha256_hexdigest ?v = Inr d"
    and m: "slug modality = Inr m" and s: "slug sensor_id = Inr s"
    and i: "i = ''stream-'' @ m @ ''-'' @ s @ ''-'' @ d"
    using Inr unfolding make_stream_id_def bindE_eq_Inr sum.inject by blast
  have "portable ?v" and d: "is_sha256 d"
    using c sha256.sha_hex unfolding canonical_sha256_eq by auto
  then have p: "\<not> path_leak sequence_id" "\<not> path_leak modality" "\<not> path_leak sensor_id"
    by simp_all
  moreover have "list_ex slug_char (slug_lower modality)" "list_ex slug_char (slug_lower sensor_id)"
    using m s by (auto simp: slug_eq_Inr list_ex_iff)
  ultimately show ?thesis unfolding Inr sum.case i using stream_id_shape [OF m s d] by blast
qed

text \<open>The order in which configuration hashes were inserted does not change a run identifier,
  nor does the order in which a detector lists its streams change a finding identifier.\<close>

lemma run_and_finding_id_ignore_order:
  assumes "mset configuration = mset configuration'" and "distinct (map fst configuration)"
    and "mset streams = mset streams'"
  shows "make_run_id sha sequence_id graph profile engine configuration =
         make_run_id sha sequence_id graph profile engine configuration' \<and>
         make_finding_id sha detector version rule interval streams evidence =
         make_finding_id sha detector version rule interval streams' evidence"
proof
  show "make_run_id sha sequence_id graph profile engine configuration =
        make_run_id sha sequence_id graph profile engine configuration'"
    using sorted_dict_order [OF assms(1,2)] by (simp add: make_run_id_def)
  have "sort streams = sort streams'"
    using assms(3) by (metis mset_sort properties_for_sort sorted_sort)
  then show "make_finding_id sha detector version rule interval streams evidence =
        make_finding_id sha detector version rule interval streams' evidence"
    by (simp add: make_finding_id_def)
qed

theorem run_and_finding_id_ignore_order_witness:
  "make_run_id sha256_hexdigest ''s'' ''g'' ''p'' ''1.0.0'' [(''a'', ''1''), (''b'', ''2'')] =
     make_run_id sha256_hexdigest ''s'' ''g'' ''p'' ''1.0.0'' [(''b'', ''2''), (''a'', ''1'')]"
  by (rule conjunct1 [OF run_and_finding_id_ignore_order [where streams = "[]" and streams' = "[]"]])
    simp_all

end
