(* ===== verification/RunModels.thy ===== *)
theory RunModels
  imports Identifiers
begin

text \<open>
  The data of \<^verbatim>\<open>python/cartosentry/runstate.py\<close>: the enumerations, the persisted documents
  \<^verbatim>\<open>RunInputs\<close>, \<^verbatim>\<open>AttemptManifest\<close> and \<^verbatim>\<open>CompletionPointer\<close> with their
  validators, their writers (\<open>model_dump\<close>) and their bounded readers, the stage definitions,
  and the cache key.  A document class is a record; its \<open>schema_version\<close>, a literal, is
  written and checked but not stored.  A failed pydantic validation is a \<open>ValueError\<close>.
  The lemmas give the round trips and what a validated path, manifest or key is.
\<close>

section \<open>Strict document fields\<close>

text \<open>\<open>ContractModel\<close>: strict types, no extra field, every field without a default present.\<close>

definition invalid :: "string \<Rightarrow> 'a res" where
  "invalid t = Inl (ValueError t)"

definition as_object :: "string list \<Rightarrow> json \<Rightarrow> (string \<times> json) list res" where
  "as_object names v =
     (case v of
        JDict kvs \<Rightarrow> (if set (map fst kvs) \<subseteq> set names then Inr kvs else invalid ''Extra inputs are not permitted'')
      | _ \<Rightarrow> invalid ''Input should be an object'')"

definition field :: "string \<Rightarrow> (json \<Rightarrow> 'a res) \<Rightarrow> (string \<times> json) list \<Rightarrow> 'a res" where
  "field k f kvs = (case map_of kvs k of None \<Rightarrow> invalid ''Field required'' | Some v \<Rightarrow> f v)"

definition as_text :: "(string \<Rightarrow> bool) \<Rightarrow> json \<Rightarrow> string res" where
  "as_text P v =
     (case v of JStr s \<Rightarrow> (if P s then Inr s else invalid ''String should match pattern'')
      | _ \<Rightarrow> invalid ''Input should be a valid string'')"

definition as_nat :: "nat \<Rightarrow> json \<Rightarrow> nat res" where
  "as_nat low v =
     (case v of JInt i \<Rightarrow> (if int low \<le> i then Inr (nat i) else invalid ''Input should be greater'')
      | _ \<Rightarrow> invalid ''Input should be a valid integer'')"

definition as_list :: "(json \<Rightarrow> 'a res) \<Rightarrow> json \<Rightarrow> 'a list res" where
  "as_list f v = (case v of JList vs \<Rightarrow> mapE f vs | _ \<Rightarrow> invalid ''Input should be a valid tuple'')"

definition as_text_map :: "(string \<Rightarrow> bool) \<Rightarrow> (string \<Rightarrow> bool) \<Rightarrow> json \<Rightarrow> (string \<times> string) list res" where
  "as_text_map P Q v =
     (case v of
        JDict kvs \<Rightarrow> mapE (\<lambda>(k, w). bindE (as_text P (JStr k)) (\<lambda>k'. bindE (as_text Q w) (\<lambda>t. Inr (k', t)))) kvs
      | _ \<Rightarrow> invalid ''Input should be a valid dictionary'')"

definition dict_json :: "(string \<times> string) list \<Rightarrow> json" where
  "dict_json kvs = JDict (map (\<lambda>(k, v). (k, JStr v)) kvs)"

lemma as_text_eq [simp]: "as_text P v = Inr s \<longleftrightarrow> v = JStr s \<and> P s"
  by (auto simp: as_text_def invalid_def split: json.splits if_splits)

lemma as_nat_eq [simp]: "as_nat low v = Inr n \<longleftrightarrow> v = JInt (int n) \<and> low \<le> n"
  by (auto simp: as_nat_def invalid_def split: json.splits if_splits)

lemma as_list_JList [simp]: "as_list f (JList vs) = mapE f vs"
  by (simp add: as_list_def)

lemma field_Cons [simp]: "field k f ((j, v) # kvs) = (if k = j then f v else field k f kvs)"
  by (simp add: field_def)

lemma as_object_JDict [simp]:
  "set (map fst kvs) \<subseteq> set names \<Longrightarrow> as_object names (JDict kvs) = Inr kvs"
  by (simp add: as_object_def)

lemma as_text_map_dict:
  "list_all (\<lambda>(k, v). P k \<and> Q v) kvs \<Longrightarrow> as_text_map P Q (dict_json kvs) = Inr kvs"
  by (induction kvs) (auto simp: as_text_map_def dict_json_def as_text_def)

section \<open>Enumerations\<close>

datatype stage_state =
    PENDING | RUNNING | COMPLETE | FAILED_RETRYABLE | FAILED_FINAL | INVALIDATED
  | SKIPPED_NOT_APPLICABLE

datatype commit_boundary =
    AFTER_DB_RUNNING | AFTER_OUTPUTS_FSYNCED | AFTER_MANIFEST_FSYNCED
  | AFTER_ARTIFACT_PUBLISHED | AFTER_POINTER_PUBLISHED | AFTER_DB_COMMITTED

datatype stage_action =
    ADOPTED_PUBLISHED | BLOCKED | EXECUTED | ACTION_FAILED_FINAL | FORCE_INVALIDATED
  | INTERRUPTED_RETRY | INVALIDATED_CACHE | REPAIRED_POINTER | SKIPPED_COMPLETE

definition state_name :: "stage_state \<Rightarrow> string" where
  "state_name s = (case s of
     PENDING \<Rightarrow> ''PENDING'' | RUNNING \<Rightarrow> ''RUNNING'' | COMPLETE \<Rightarrow> ''COMPLETE''
   | FAILED_RETRYABLE \<Rightarrow> ''FAILED_RETRYABLE'' | FAILED_FINAL \<Rightarrow> ''FAILED_FINAL''
   | INVALIDATED \<Rightarrow> ''INVALIDATED'' | SKIPPED_NOT_APPLICABLE \<Rightarrow> ''SKIPPED_NOT_APPLICABLE'')"

section \<open>Paths\<close>

text \<open>\<open>PurePosixPath\<close>: the root (none, one slash, or exactly two), the parts without empty and
  dot components, and the text they are printed as.\<close>

definition posix_root :: "string \<Rightarrow> string" where
  "posix_root s =
     (if prefix ''//'' s \<and> \<not> prefix ''///'' s then ''//''
      else if prefix ''/'' s then ''/'' else [])"

definition posix_parts :: "string \<Rightarrow> string list" where
  "posix_parts s = filter (\<lambda>p. p \<noteq> [] \<and> p \<noteq> ''.'') (split_on (CHR ''/'') s)"

definition as_posix :: "string \<Rightarrow> string" where
  "as_posix s =
     (if posix_root s = [] \<and> posix_parts s = [] then ''.''
      else posix_root s @ join_with ''/'' (posix_parts s))"

definition validate_relative_path :: "string \<Rightarrow> unit res" where
  "validate_relative_path value0 =
     (let parts = (if posix_root value0 = [] then [] else [posix_root value0]) @ posix_parts value0
      in if CHR 0x5C \<in> set value0 \<or> as_posix value0 \<noteq> value0 \<or> posix_root value0 \<noteq> []
            \<or> parts = [] \<or> list_ex (\<lambda>part. part \<in> {[], ''.'', ''..''}) parts
         then Inl (ValueError ''artifact path must be a normalized portable relative path'')
         else assert_portable ''artifact'' (JStr value0))"

section \<open>Documents\<close>

record run_inputs =
  ri_workflow_id :: string
  ri_sequence_id :: string
  ri_road_graph_id :: string
  ri_profile_id :: string
  ri_engine_version :: string
  ri_source_hashes :: "(string \<times> string) list"
  ri_configuration_hashes :: "(string \<times> string) list"
  ri_numerical_backend :: string

definition validate_source_identity :: "(string \<Rightarrow> string) \<Rightarrow> run_inputs \<Rightarrow> unit res" where
  "validate_source_identity sha r =
     (if ri_source_hashes r = []
      then Inl (ValueError ''run inputs require at least one immutable source hash'')
      else bindE (make_sequence_id sha (JDict [(''source_hashes'', sorted_dict (ri_source_hashes r))]))
        (\<lambda>expected. ensure (ri_sequence_id r = expected)
           (ValueError ''sequence_id does not match the immutable source hashes'')))"

definition run_inputs_dump :: "run_inputs \<Rightarrow> json" where
  "run_inputs_dump r = JDict
     [(''schema_version'', JStr ''cartosentry.run-inputs.v1''),
      (''workflow_id'', JStr (ri_workflow_id r)),
      (''sequence_id'', JStr (ri_sequence_id r)),
      (''road_graph_id'', JStr (ri_road_graph_id r)),
      (''profile_id'', JStr (ri_profile_id r)),
      (''engine_version'', JStr (ri_engine_version r)),
      (''source_hashes'', dict_json (ri_source_hashes r)),
      (''configuration_hashes'', dict_json (ri_configuration_hashes r)),
      (''numerical_backend'', JStr (ri_numerical_backend r))]"

definition run_inputs_validate :: "(string \<Rightarrow> string) \<Rightarrow> json \<Rightarrow> run_inputs res" where
  "run_inputs_validate sha v =
     bindE (as_object [''schema_version'', ''workflow_id'', ''sequence_id'', ''road_graph_id'',
       ''profile_id'', ''engine_version'', ''source_hashes'', ''configuration_hashes'',
       ''numerical_backend''] v) (\<lambda>d.
     bindE (field ''schema_version'' (as_text (\<lambda>s. s = ''cartosentry.run-inputs.v1'')) d) (\<lambda>_.
     bindE (field ''workflow_id'' (as_text is_identifier) d) (\<lambda>workflow.
     bindE (field ''sequence_id'' (as_text is_stable_id) d) (\<lambda>sequence.
     bindE (field ''road_graph_id'' (as_text is_stable_id) d) (\<lambda>graph.
     bindE (field ''profile_id'' (as_text is_identifier) d) (\<lambda>profile.
     bindE (field ''engine_version'' (as_text is_semantic_version) d) (\<lambda>engine.
     bindE (field ''source_hashes'' (as_text_map is_identifier is_sha256) d) (\<lambda>sources.
     bindE (field ''configuration_hashes'' (as_text_map is_identifier is_sha256) d) (\<lambda>configuration.
     bindE (field ''numerical_backend'' (as_text is_identifier) d) (\<lambda>backend.
       let r = \<lparr>ri_workflow_id = workflow, ri_sequence_id = sequence, ri_road_graph_id = graph,
                ri_profile_id = profile, ri_engine_version = engine, ri_source_hashes = sources,
                ri_configuration_hashes = configuration, ri_numerical_backend = backend\<rparr>
       in bindE (validate_source_identity sha r) (\<lambda>_. Inr r)))))))))))"

record manifest_entry =
  e_artifact_key :: string
  e_relative_path :: string
  e_sha256 :: string
  e_byte_count :: nat
  e_media_type :: string

definition entry_dump :: "manifest_entry \<Rightarrow> json" where
  "entry_dump e = JDict
     [(''artifact_key'', JStr (e_artifact_key e)), (''relative_path'', JStr (e_relative_path e)),
      (''sha256'', JStr (e_sha256 e)), (''byte_count'', JInt (int (e_byte_count e))),
      (''media_type'', JStr (e_media_type e))]"

definition check_entry :: "manifest_entry \<Rightarrow> unit res" where
  "check_entry e =
     bindE (ensure (is_identifier (e_artifact_key e) \<and> e_relative_path e \<noteq> [] \<and> is_sha256 (e_sha256 e)
        \<and> e_media_type e \<noteq> []) (ValueError ''validation error for ArtifactManifestEntry''))
       (\<lambda>_. validate_relative_path (e_relative_path e))"

definition entry_validate :: "json \<Rightarrow> manifest_entry res" where
  "entry_validate v =
     bindE (as_object [''artifact_key'', ''relative_path'', ''sha256'', ''byte_count'', ''media_type''] v) (\<lambda>d.
     bindE (field ''artifact_key'' (as_text is_identifier) d) (\<lambda>key.
     bindE (field ''relative_path'' (as_text (\<lambda>s. s \<noteq> [])) d) (\<lambda>path.
     bindE (field ''sha256'' (as_text is_sha256) d) (\<lambda>digest0.
     bindE (field ''byte_count'' (as_nat 0) d) (\<lambda>count.
     bindE (field ''media_type'' (as_text (\<lambda>s. s \<noteq> [])) d) (\<lambda>media.
       let e = \<lparr>e_artifact_key = key, e_relative_path = path, e_sha256 = digest0,
                e_byte_count = count, e_media_type = media\<rparr>
       in bindE (check_entry e) (\<lambda>_. Inr e)))))))"

record attempt_manifest =
  m_workflow_id :: string
  m_stage_id :: string
  m_attempt_id :: string
  m_attempt_number :: nat
  m_cache_key :: string
  m_artifacts :: "manifest_entry list"

definition manifest_dump :: "attempt_manifest \<Rightarrow> json" where
  "manifest_dump m = JDict
     [(''schema_version'', JStr ''cartosentry.stage-attempt.v1''),
      (''workflow_id'', JStr (m_workflow_id m)), (''stage_id'', JStr (m_stage_id m)),
      (''attempt_id'', JStr (m_attempt_id m)), (''attempt_number'', JInt (int (m_attempt_number m))),
      (''cache_key'', JStr (m_cache_key m)), (''artifacts'', JList (map entry_dump (m_artifacts m)))]"

definition check_manifest :: "attempt_manifest \<Rightarrow> unit res" where
  "check_manifest m =
     bindE (ensure (is_identifier (m_workflow_id m) \<and> is_identifier (m_stage_id m)
         \<and> is_identifier (m_attempt_id m) \<and> 0 < m_attempt_number m \<and> is_sha256 (m_cache_key m))
         (ValueError ''validation error for AttemptManifest'')) (\<lambda>_.
     let keys = map e_artifact_key (m_artifacts m); paths = map e_relative_path (m_artifacts m)
     in if m_artifacts m = [] then Inl (ValueError ''a completed attempt must contain an artifact'')
        else ensure (distinct keys \<and> distinct paths)
          (ValueError ''attempt artifact keys and paths must be unique''))"

definition manifest_validate :: "json \<Rightarrow> attempt_manifest res" where
  "manifest_validate v =
     bindE (as_object [''schema_version'', ''workflow_id'', ''stage_id'', ''attempt_id'',
       ''attempt_number'', ''cache_key'', ''artifacts''] v) (\<lambda>d.
     bindE (field ''schema_version'' (as_text (\<lambda>s. s = ''cartosentry.stage-attempt.v1'')) d) (\<lambda>_.
     bindE (field ''workflow_id'' (as_text is_identifier) d) (\<lambda>workflow.
     bindE (field ''stage_id'' (as_text is_identifier) d) (\<lambda>stage.
     bindE (field ''attempt_id'' (as_text is_identifier) d) (\<lambda>attempt.
     bindE (field ''attempt_number'' (as_nat 1) d) (\<lambda>number.
     bindE (field ''cache_key'' (as_text is_sha256) d) (\<lambda>cache.
     bindE (field ''artifacts'' (as_list entry_validate) d) (\<lambda>artifacts.
       let m = \<lparr>m_workflow_id = workflow, m_stage_id = stage, m_attempt_id = attempt,
                m_attempt_number = number, m_cache_key = cache, m_artifacts = artifacts\<rparr>
       in bindE (check_manifest m) (\<lambda>_. Inr m)))))))))"

record completion_pointer =
  p_workflow_id :: string
  p_stage_id :: string
  p_cache_key :: string
  p_attempt_id :: string
  p_attempt_number :: nat
  p_artifact_directory :: string
  p_attempt_manifest_sha256 :: string

definition pointer_dump :: "completion_pointer \<Rightarrow> json" where
  "pointer_dump p = JDict
     [(''schema_version'', JStr ''cartosentry.stage-completion.v1''),
      (''workflow_id'', JStr (p_workflow_id p)), (''stage_id'', JStr (p_stage_id p)),
      (''cache_key'', JStr (p_cache_key p)), (''attempt_id'', JStr (p_attempt_id p)),
      (''attempt_number'', JInt (int (p_attempt_number p))),
      (''artifact_directory'', JStr (p_artifact_directory p)),
      (''attempt_manifest_sha256'', JStr (p_attempt_manifest_sha256 p))]"

definition check_pointer :: "completion_pointer \<Rightarrow> unit res" where
  "check_pointer p =
     bindE (ensure (is_identifier (p_workflow_id p) \<and> is_identifier (p_stage_id p) \<and> is_sha256 (p_cache_key p)
         \<and> is_identifier (p_attempt_id p) \<and> 0 < p_attempt_number p \<and> p_artifact_directory p \<noteq> []
         \<and> is_sha256 (p_attempt_manifest_sha256 p)) (ValueError ''validation error for CompletionPointer''))
       (\<lambda>_. validate_relative_path (p_artifact_directory p))"

definition pointer_validate :: "json \<Rightarrow> completion_pointer res" where
  "pointer_validate v =
     bindE (as_object [''schema_version'', ''workflow_id'', ''stage_id'', ''cache_key'',
       ''attempt_id'', ''attempt_number'', ''artifact_directory'', ''attempt_manifest_sha256''] v) (\<lambda>d.
     bindE (field ''schema_version'' (as_text (\<lambda>s. s = ''cartosentry.stage-completion.v1'')) d) (\<lambda>_.
     bindE (field ''workflow_id'' (as_text is_identifier) d) (\<lambda>workflow.
     bindE (field ''stage_id'' (as_text is_identifier) d) (\<lambda>stage.
     bindE (field ''cache_key'' (as_text is_sha256) d) (\<lambda>cache.
     bindE (field ''attempt_id'' (as_text is_identifier) d) (\<lambda>attempt.
     bindE (field ''attempt_number'' (as_nat 1) d) (\<lambda>number.
     bindE (field ''artifact_directory'' (as_text (\<lambda>s. s \<noteq> [])) d) (\<lambda>directory.
     bindE (field ''attempt_manifest_sha256'' (as_text is_sha256) d) (\<lambda>manifest.
       let p = \<lparr>p_workflow_id = workflow, p_stage_id = stage, p_cache_key = cache,
                p_attempt_id = attempt, p_attempt_number = number, p_artifact_directory = directory,
                p_attempt_manifest_sha256 = manifest\<rparr>
       in bindE (check_pointer p) (\<lambda>_. Inr p))))))))))"

section \<open>Bounded readers\<close>

definition MAX_CONTROL_FILE_BYTES :: nat where
  "MAX_CONTROL_FILE_BYTES = 1024 * 1024"

text \<open>\<open>except (ArtifactIntegrityError, ValueError) as error: raise e from error\<close>;
  \<open>ManifestBoundaryError\<close> is a \<open>ValueError\<close>.\<close>

fun is_integrity_error :: "exn \<Rightarrow> bool" where
  "is_integrity_error (ArtifactIntegrityError t) = True"
| "is_integrity_error _ = False"

fun is_value_error :: "exn \<Rightarrow> bool" where
  "is_value_error (ValueError t) = True"
| "is_value_error (ManifestBoundaryError t) = True"
| "is_value_error (BoreasAdapterError k r f) = True"
| "is_value_error _ = False"

definition raise_from :: "(exn \<Rightarrow> bool) \<Rightarrow> exn \<Rightarrow> 'a res \<Rightarrow> 'a res" where
  "raise_from caught e m = (case m of Inr x \<Rightarrow> Inr x | Inl e' \<Rightarrow> Inl (if caught e' then e else e'))"

definition canonical_document :: "json \<Rightarrow> string res" where
  "canonical_document value0 = bindE (canonical_json_bytes value0) (\<lambda>b. Inr (b @ [CHR 0x0A]))"

definition read_bounded_regular_file :: "fs_node \<Rightarrow> nat \<Rightarrow> string res" where
  "read_bounded_regular_file node maximum_bytes =
     (case node of
        NoEntry \<Rightarrow> Inl (ArtifactIntegrityError ''control artifact is missing or unsafe'')
      | SymbolicLink \<Rightarrow> Inl (ArtifactIntegrityError ''control artifact is missing or unsafe'')
      | Directory \<Rightarrow> Inl (OSError ''Is a directory'')
      | SpecialFile \<Rightarrow>
          Inl (ArtifactIntegrityError ''control artifact is unsafe or exceeds the size limit'')
      | RegularFile stream \<Rightarrow>
          (if length stream > maximum_bytes
           then Inl (ArtifactIntegrityError ''control artifact is unsafe or exceeds the size limit'')
           else (let content = take (maximum_bytes + 1) stream in
             if length content > maximum_bytes
             then Inl (ArtifactIntegrityError ''control artifact exceeds the size limit'')
             else Inr content)))"

definition decode_json :: "string \<Rightarrow> json res" where
  "decode_json content =
     raise_from is_value_error (ArtifactIntegrityError ''control artifact is not valid JSON'')
       (decode_bounded_json content MAX_CONTROL_FILE_BYTES ''control artifact'')"

definition parse_run_inputs_bytes :: "(string \<Rightarrow> string) \<Rightarrow> string \<Rightarrow> run_inputs res" where
  "parse_run_inputs_bytes sha content = bindE (decode_json content) (run_inputs_validate sha)"

definition parse_attempt_manifest_bytes :: "string \<Rightarrow> attempt_manifest res" where
  "parse_attempt_manifest_bytes content =
     raise_from (\<lambda>e. is_integrity_error e \<or> is_value_error e)
       (ArtifactIntegrityError ''attempt manifest is invalid'')
       (bindE (decode_json content) manifest_validate)"

definition parse_completion_pointer_bytes :: "string \<Rightarrow> completion_pointer res" where
  "parse_completion_pointer_bytes content =
     raise_from (\<lambda>e. is_integrity_error e \<or> is_value_error e)
       (ArtifactIntegrityError ''completion pointer is invalid'')
       (bindE (decode_json content) pointer_validate)"

definition load_run_inputs :: "(string \<Rightarrow> string) \<Rightarrow> fs_node \<Rightarrow> run_inputs res" where
  "load_run_inputs sha node =
     bindE (read_bounded_regular_file node MAX_CONTROL_FILE_BYTES) (parse_run_inputs_bytes sha)"

text \<open>The digest of a published file: its size is compared with the recorded one first, and the
  chunks that are hashed are the file.\<close>

definition hash_regular_file :: "(string \<Rightarrow> string) \<Rightarrow> fs_node \<Rightarrow> nat \<Rightarrow> string res" where
  "hash_regular_file sha node expected_byte_count =
     (case node of
        NoEntry \<Rightarrow> Inl (ArtifactIntegrityError ''published artifact is missing or unsafe'')
      | SymbolicLink \<Rightarrow> Inl (ArtifactIntegrityError ''published artifact is missing or unsafe'')
      | Directory \<Rightarrow> Inl (OSError ''Is a directory'')
      | SpecialFile \<Rightarrow> Inl (ArtifactIntegrityError ''published artifact is not regular'')
      | RegularFile content \<Rightarrow>
          (if length content \<noteq> expected_byte_count
           then Inl (ArtifactIntegrityError ''published artifact size mismatch'')
           else Inr (sha content)))"

section \<open>Stages\<close>

record artifact_payload =
  pl_artifact_key :: string
  pl_relative_path :: string
  pl_content :: string
  pl_media_type :: string

record stage_context =
  cx_inputs :: run_inputs
  cx_stage_id :: string
  cx_cache_key :: string
  cx_upstream_artifact_hashes :: "(string \<times> string) list"

text \<open>The two callables of a stage are functions; \<open>sd_execute\<close> also takes the number of
  attempts begun before the call, so that it may answer differently each time.\<close>

record stage_definition =
  sd_stage_id :: string
  sd_dependencies :: "string list"
  sd_algorithm_version :: string
  sd_relevant_configuration_keys :: "string list"
  sd_output_keys :: "string list"
  sd_execute :: "nat \<Rightarrow> stage_context \<Rightarrow> artifact_payload list res"
  sd_validate_outputs :: "stage_context \<Rightarrow> artifact_payload list \<Rightarrow> unit res"

text \<open>The payload of \<open>build_stage_cache_key\<close>, and its digest.\<close>

definition cache_key_document ::
  "string \<Rightarrow> string \<Rightarrow> (string \<times> string) list \<Rightarrow> (string \<times> string) list \<Rightarrow> (string \<times> string) list \<Rightarrow>
   string \<Rightarrow> string \<Rightarrow> json" where
  "cache_key_document workflow_id stage_id source_hashes upstream_artifact_hashes
     relevant_configuration_hashes algorithm_version numerical_backend = JDict
       [(''algorithm_version'', JStr algorithm_version),
        (''numerical_backend'', JStr numerical_backend),
        (''relevant_configuration_hashes'', sorted_dict relevant_configuration_hashes),
        (''source_hashes'', sorted_dict source_hashes),
        (''stage_id'', JStr stage_id),
        (''upstream_artifact_hashes'', sorted_dict upstream_artifact_hashes),
        (''workflow_id'', JStr workflow_id)]"

definition build_stage_cache_key ::
  "(string \<Rightarrow> string) \<Rightarrow> string \<Rightarrow> string \<Rightarrow> (string \<times> string) list \<Rightarrow> (string \<times> string) list \<Rightarrow>
   (string \<times> string) list \<Rightarrow> string \<Rightarrow> string \<Rightarrow> string res" where
  "build_stage_cache_key sha workflow_id stage_id source_hashes upstream_artifact_hashes
     relevant_configuration_hashes algorithm_version numerical_backend =
     canonical_sha256 sha (cache_key_document workflow_id stage_id source_hashes upstream_artifact_hashes
       relevant_configuration_hashes algorithm_version numerical_backend)"

text \<open>The loop of \<open>validate_stage_definitions\<close> with its set \<open>seen\<close>.\<close>

definition stage_id_char :: "char \<Rightarrow> bool" where
  "stage_id_char c \<longleftrightarrow> is_lower c \<or> is_digit c \<or> c \<in> set ''-_.''"

definition version_char :: "char \<Rightarrow> bool" where
  "version_char c \<longleftrightarrow> is_alnum c \<or> c \<in> set ''-_.''"

definition validate_stage :: "string list \<Rightarrow> stage_definition \<Rightarrow> unit res" where
  "validate_stage seen item =
     (if sd_stage_id item = [] \<or> sd_stage_id item \<in> set seen
      then Inl (ValueError ''stage identifiers must be nonempty and unique'')
      else if \<not> list_all stage_id_char (sd_stage_id item)
      then Inl (ValueError ''stage identifier is not portable'')
      else if sd_algorithm_version item = [] \<or> \<not> list_all version_char (sd_algorithm_version item)
      then Inl (ValueError ''stage algorithm version is required'')
      else if sd_output_keys item = [] \<or> \<not> distinct (sd_output_keys item)
      then Inl (ValueError ''stage output keys must be nonempty and unique'')
      else if \<not> distinct (sd_dependencies item)
      then Inl (ValueError ''stage dependencies must be unique'')
      else if list_ex (\<lambda>upstream. upstream \<notin> set seen) (sd_dependencies item)
      then Inl (ValueError ''stage definitions must be in dependency order'')
      else if \<not> distinct (sd_relevant_configuration_keys item)
      then Inl (ValueError ''relevant configuration keys must be unique'')
      else Inr ())"

fun validate_stages :: "string list \<Rightarrow> stage_definition list \<Rightarrow> unit res" where
  "validate_stages seen [] = Inr ()"
| "validate_stages seen (item # items) =
     bindE (validate_stage seen item) (\<lambda>_. validate_stages (sd_stage_id item # seen) items)"

definition validate_stage_definitions :: "stage_definition list \<Rightarrow> unit res" where
  "validate_stage_definitions definitions =
     (if definitions = [] then Inl (ValueError ''at least one stage definition is required'')
      else validate_stages [] definitions)"

section \<open>Paths stay inside\<close>

lemma validate_relative_path_ok:
  "validate_relative_path s = Inr () \<longleftrightarrow>
     CHR 0x5C \<notin> set s \<and> list_all (\<lambda>p. p \<notin> {[], ''.'', ''..''}) (split_on (CHR ''/'') s) \<and> \<not> path_leak s"
  (is "?l \<longleftrightarrow> ?r")
proof
  assume l: ?l
  then have a: "CHR 0x5C \<notin> set s" "as_posix s = s" "posix_root s = []" "posix_parts s \<noteq> []"
    "\<not> list_ex (\<lambda>part. part \<in> {[], ''.'', ''..''}) (posix_parts s)" and b: "\<not> path_leak s"
    by (auto simp: validate_relative_path_def Let_def split: if_splits)
  have s: "s = join_with ''/'' (posix_parts s)"
    using a(2,3,4) by (simp add: as_posix_def)
  have "\<forall>p \<in> set (posix_parts s). CHR ''/'' \<notin> set p"
    using split_on_parts by (auto simp: posix_parts_def)
  then have "split_on (CHR ''/'') s = posix_parts s"
    using split_join_with [OF a(4)] s by metis
  then show ?r using a b by (auto simp: list_ex_iff list_all_iff)
next
  assume r: ?r
  then have parts: "posix_parts s = split_on (CHR ''/'') s"
    by (auto simp: posix_parts_def list_all_iff intro!: filter_True)
  have "hd (split_on (CHR ''/'') s) \<noteq> []"
    using r by (cases "split_on (CHR ''/'') s") auto
  then have root: "posix_root s = []"
    by (cases s) (auto simp: posix_root_def split: if_splits)
  have "as_posix s = s"
    using join_split_on [of "CHR ''/''" s] by (simp add: as_posix_def root parts)
  then show ?l
    using r by (auto simp: validate_relative_path_def Let_def root parts list_ex_iff list_all_iff)
qed

section \<open>Round trips\<close>

lemma raise_from_Inr [simp]: "raise_from c e m = Inr x \<longleftrightarrow> m = Inr x"
  by (auto simp: raise_from_def split: sum.splits)

lemma canonical_document_eq:
  "canonical_document v = Inr b \<longleftrightarrow> portable v \<and> json_finite v \<and> b = dumps v @ [CHR 0x0A]"
  by (auto simp: canonical_document_def canonical_json_bytes_eq)

lemma read_bounded_regular_file_iff:
  "read_bounded_regular_file node m = Inr c \<longleftrightarrow> node = RegularFile c \<and> length c \<le> m"
  by (cases node) (auto simp: read_bounded_regular_file_def Let_def)

lemma decode_json_document:
  "json_ok v \<Longrightarrow> json_depth v \<le> MAXIMUM_JSON_DEPTH \<Longrightarrow> length (dumps v @ [CHR 0x0A]) \<le> MAX_CONTROL_FILE_BYTES \<Longrightarrow>
   decode_json (dumps v @ [CHR 0x0A]) = Inr (canon v)"
  by (simp add: decode_json_def decode_stored_document)

text \<open>Reading the fields of a document whose keys were sorted when it was written.\<close>

lemma map_of_sort_key_fst: "distinct (map fst kvs) \<Longrightarrow> map_of (sort_key fst kvs) = map_of kvs"
proof (rule map_of_eqI)
  assume d: "distinct (map fst kvs)"
  show "set (map fst (sort_key fst kvs)) = set (map fst kvs)" by simp
  show "\<forall>k \<in> set (map fst (sort_key fst kvs)). map_of (sort_key fst kvs) k = map_of kvs k"
  proof
    fix k assume "k \<in> set (map fst (sort_key fst kvs))"
    then obtain v where kv: "(k, v) \<in> set kvs" by auto
    have "distinct (map fst (sort_key fst kvs))" using d by (simp add: fst_sort_key_fst)
    then show "map_of (sort_key fst kvs) k = map_of kvs k"
      using kv d by (metis map_of_is_SomeI set_sort)
  qed
qed

lemma map_of_canon:
  "map_of (map (\<lambda>(k, v). (k, canon v)) kvs) k = map_option canon (map_of kvs k)"
  by (induction kvs) auto

lemma as_object_canon:
  assumes "distinct (map fst kvs)" and "set (map fst kvs) \<subseteq> set names"
  shows "\<exists>d. as_object names (canon (JDict kvs)) = Inr d \<and>
     (\<forall>k v. map_of kvs k = Some v \<longrightarrow> map_of d k = Some (canon v))"
proof -
  let ?d = "map (\<lambda>(k, v). (k, canon v)) (sort_key fst kvs)"
  have "set (map fst ?d) = set (map fst kvs)" by (force simp: image_iff)
  then have "as_object names (canon (JDict kvs)) = Inr ?d"
    unfolding canon_dict using assms(2) by (simp only: as_object_JDict)
  then show ?thesis
    using map_of_sort_key_fst [OF assms(1)] by (auto simp: map_of_canon)
qed

lemma as_text_canon [simp]: "as_text P (canon (JStr s)) = (if P s then Inr s else invalid ''String should match pattern'')"
  by (simp add: as_text_def)

lemma as_nat_int [simp]: "as_nat low (JInt (int n)) = (if low \<le> n then Inr n else invalid ''Input should be greater'')"
  by (auto simp: as_nat_def)

lemma entry_round_trip:
  assumes "check_entry e = Inr ()"
  shows "entry_validate (canon (entry_dump e)) = Inr e"
proof -
  have "\<exists>d. as_object [''artifact_key'', ''relative_path'', ''sha256'', ''byte_count'', ''media_type'']
        (canon (entry_dump e)) = Inr d \<and>
      (\<forall>k v. map_of [(''artifact_key'', JStr (e_artifact_key e)), (''relative_path'', JStr (e_relative_path e)),
      (''sha256'', JStr (e_sha256 e)), (''byte_count'', JInt (int (e_byte_count e))),
      (''media_type'', JStr (e_media_type e))] k = Some v \<longrightarrow> map_of d k = Some (canon v))"
    unfolding entry_dump_def by (rule as_object_canon) simp_all
  then obtain d where d: "as_object [''artifact_key'', ''relative_path'', ''sha256'', ''byte_count'', ''media_type'']
        (canon (entry_dump e)) = Inr d"
    and f: "map_of d ''artifact_key'' = Some (JStr (e_artifact_key e))"
      "map_of d ''relative_path'' = Some (JStr (e_relative_path e))"
      "map_of d ''sha256'' = Some (JStr (e_sha256 e))"
      "map_of d ''byte_count'' = Some (JInt (int (e_byte_count e)))"
      "map_of d ''media_type'' = Some (JStr (e_media_type e))"
    by force
  show ?thesis
    using assms by (auto simp: entry_validate_def d field_def f as_text_def check_entry_def)
qed

lemma entry_dump_ok [simp]: "json_ok (entry_dump e)" "json_depth (entry_dump e) = 1"
  by (simp_all add: entry_dump_def)

lemma foldr_max_const: "foldr max (map (\<lambda>x. c) xs) 0 \<le> (c::nat)"
  by (induction xs) auto

lemma manifest_dump_ok [simp]: "json_ok (manifest_dump m)" "json_depth (manifest_dump m) \<le> 3"
  using foldr_max_const [of 1 "m_artifacts m"] by (auto simp: manifest_dump_def comp_def)

lemma pointer_dump_ok [simp]: "json_ok (pointer_dump p)" "json_depth (pointer_dump p) = 1"
  by (simp_all add: pointer_dump_def)

lemma manifest_round_trip:
  assumes c: "check_manifest m = Inr ()" and e: "\<forall>e \<in> set (m_artifacts m). check_entry e = Inr ()"
  shows "manifest_validate (canon (manifest_dump m)) = Inr m"
proof -
  have "\<exists>d. as_object [''schema_version'', ''workflow_id'', ''stage_id'', ''attempt_id'',
       ''attempt_number'', ''cache_key'', ''artifacts''] (canon (manifest_dump m)) = Inr d \<and>
      (\<forall>k v. map_of [(''schema_version'', JStr ''cartosentry.stage-attempt.v1''),
      (''workflow_id'', JStr (m_workflow_id m)), (''stage_id'', JStr (m_stage_id m)),
      (''attempt_id'', JStr (m_attempt_id m)), (''attempt_number'', JInt (int (m_attempt_number m))),
      (''cache_key'', JStr (m_cache_key m)), (''artifacts'', JList (map entry_dump (m_artifacts m)))] k = Some v
      \<longrightarrow> map_of d k = Some (canon v))"
    unfolding manifest_dump_def by (rule as_object_canon) simp_all
  then obtain d where d: "as_object [''schema_version'', ''workflow_id'', ''stage_id'', ''attempt_id'',
       ''attempt_number'', ''cache_key'', ''artifacts''] (canon (manifest_dump m)) = Inr d"
    and f: "map_of d ''schema_version'' = Some (JStr ''cartosentry.stage-attempt.v1'')"
      "map_of d ''workflow_id'' = Some (JStr (m_workflow_id m))"
      "map_of d ''stage_id'' = Some (JStr (m_stage_id m))"
      "map_of d ''attempt_id'' = Some (JStr (m_attempt_id m))"
      "map_of d ''attempt_number'' = Some (JInt (int (m_attempt_number m)))"
      "map_of d ''cache_key'' = Some (JStr (m_cache_key m))"
      "map_of d ''artifacts'' = Some (JList (map (canon \<circ> entry_dump) (m_artifacts m)))"
    by force
  have "mapE entry_validate (map (canon \<circ> entry_dump) (m_artifacts m)) = Inr (m_artifacts m)"
    unfolding mapE_eq_Inr_iff list_all2_map1 using e
    by (auto simp: list_all2_same entry_round_trip)
  then show ?thesis
    using c by (auto simp: manifest_validate_def d field_def f as_text_def check_manifest_def Let_def)
qed

lemma pointer_round_trip:
  assumes "check_pointer p = Inr ()"
  shows "pointer_validate (canon (pointer_dump p)) = Inr p"
proof -
  have "\<exists>d. as_object [''schema_version'', ''workflow_id'', ''stage_id'', ''cache_key'',
       ''attempt_id'', ''attempt_number'', ''artifact_directory'', ''attempt_manifest_sha256'']
        (canon (pointer_dump p)) = Inr d \<and>
      (\<forall>k v. map_of [(''schema_version'', JStr ''cartosentry.stage-completion.v1''),
      (''workflow_id'', JStr (p_workflow_id p)), (''stage_id'', JStr (p_stage_id p)),
      (''cache_key'', JStr (p_cache_key p)), (''attempt_id'', JStr (p_attempt_id p)),
      (''attempt_number'', JInt (int (p_attempt_number p))),
      (''artifact_directory'', JStr (p_artifact_directory p)),
      (''attempt_manifest_sha256'', JStr (p_attempt_manifest_sha256 p))] k = Some v
      \<longrightarrow> map_of d k = Some (canon v))"
    unfolding pointer_dump_def by (rule as_object_canon) simp_all
  then obtain d where d: "as_object [''schema_version'', ''workflow_id'', ''stage_id'', ''cache_key'',
       ''attempt_id'', ''attempt_number'', ''artifact_directory'', ''attempt_manifest_sha256'']
        (canon (pointer_dump p)) = Inr d"
    and f: "map_of d ''schema_version'' = Some (JStr ''cartosentry.stage-completion.v1'')"
      "map_of d ''workflow_id'' = Some (JStr (p_workflow_id p))"
      "map_of d ''stage_id'' = Some (JStr (p_stage_id p))"
      "map_of d ''cache_key'' = Some (JStr (p_cache_key p))"
      "map_of d ''attempt_id'' = Some (JStr (p_attempt_id p))"
      "map_of d ''attempt_number'' = Some (JInt (int (p_attempt_number p)))"
      "map_of d ''artifact_directory'' = Some (JStr (p_artifact_directory p))"
      "map_of d ''attempt_manifest_sha256'' = Some (JStr (p_attempt_manifest_sha256 p))"
    by force
  show ?thesis
    using assms by (auto simp: pointer_validate_def d field_def f as_text_def check_pointer_def)
qed

section \<open>Stages in dependency order\<close>

text \<open>What the validation of the definitions leaves: every stage is new and depends on earlier ones.\<close>

fun stages_ordered :: "string list \<Rightarrow> stage_definition list \<Rightarrow> bool" where
  "stages_ordered seen [] \<longleftrightarrow> True"
| "stages_ordered seen (d # ds) \<longleftrightarrow>
     sd_stage_id d \<notin> set seen \<and> distinct (sd_dependencies d) \<and> set (sd_dependencies d) \<subseteq> set seen \<and>
     distinct (sd_output_keys d) \<and> sd_output_keys d \<noteq> [] \<and> sd_stage_id d \<noteq> [] \<and>
     stages_ordered (sd_stage_id d # seen) ds"

lemma validate_stages_ordered: "validate_stages seen ds = Inr () \<Longrightarrow> stages_ordered seen ds"
  by (induction ds arbitrary: seen) (auto simp: validate_stage_def list_ex_iff split: if_splits)

lemma stages_ordered_distinct:
  "stages_ordered seen ds \<Longrightarrow> distinct (map sd_stage_id ds) \<and> set (map sd_stage_id ds) \<inter> set seen = {}"
proof (induction ds arbitrary: seen)
  case (Cons d ds)
  have "distinct (map sd_stage_id ds) \<and> set (map sd_stage_id ds) \<inter> set (sd_stage_id d # seen) = {}"
    by (rule Cons.IH) (use Cons.prems in simp)
  then show ?case using Cons.prems by auto
qed simp

lemma stages_ordered_append:
  "stages_ordered seen (xs @ ds) \<longleftrightarrow> stages_ordered seen xs \<and> stages_ordered (rev (map sd_stage_id xs) @ seen) ds"
  by (induction xs arbitrary: seen) auto

lemma stages_ordered_dependencies:
  "stages_ordered seen ds \<Longrightarrow> d \<in> set ds \<Longrightarrow> set (sd_dependencies d) \<subseteq> set seen \<union> set (map sd_stage_id ds)"
  by (induction ds arbitrary: seen) fastforce+

lemma stages_ordered_member:
  "stages_ordered seen ds \<Longrightarrow> d \<in> set ds \<Longrightarrow> distinct (sd_dependencies d) \<and> distinct (sd_output_keys d) \<and> sd_output_keys d \<noteq> []"
  by (induction ds arbitrary: seen) auto

lemma validate_stage_definitions_ordered:
  "validate_stage_definitions ds = Inr () \<Longrightarrow> stages_ordered [] ds \<and> ds \<noteq> []"
  by (auto simp: validate_stage_definitions_def validate_stages_ordered split: if_splits)

section \<open>How the readers fail\<close>

definition fails_only :: "(exn \<Rightarrow> bool) \<Rightarrow> 'a res \<Rightarrow> bool" where
  "fails_only P m \<longleftrightarrow> (case m of Inl e \<Rightarrow> P e | Inr _ \<Rightarrow> True)"

named_theorems fails_intros "how a composed call can fail"

lemma fails_onlyD: "fails_only P m \<Longrightarrow> m = Inl e \<Longrightarrow> P e"
  by (simp add: fails_only_def)

lemma fails_only_Inr [fails_intros]: "fails_only P (Inr x)"
  by (simp add: fails_only_def)

lemma fails_only_bind [fails_intros]:
  "fails_only P m \<Longrightarrow> (\<And>x. fails_only P (f x)) \<Longrightarrow> fails_only P (bindE m f)"
  by (cases m) (auto simp: fails_only_def)

lemma fails_only_ensure [fails_intros]: "P e \<Longrightarrow> fails_only P (ensure b e)"
  by (simp add: fails_only_def ensure_def)

lemma fails_only_mapE [fails_intros]: "(\<And>x. fails_only P (f x)) \<Longrightarrow> fails_only P (mapE f xs)"
  by (induction xs) (auto intro: fails_intros)

lemma fails_only_field [fails_intros]:
  "(\<And>v. fails_only is_value_error (f v)) \<Longrightarrow> fails_only is_value_error (field k f d)"
  by (simp add: field_def invalid_def fails_only_def split: option.split)

lemma fails_only_typed [fails_intros]:
  "fails_only is_value_error (as_object names v)"
  "fails_only is_value_error (as_text P v)"
  "fails_only is_value_error (as_nat low v)"
  "fails_only is_value_error (assert_portable l v)"
  using assert_portable_fails(1) [of l v]
  by (auto simp: fails_only_def as_object_def as_text_def as_nat_def invalid_def split: json.split sum.split)

lemma fails_only_path [fails_intros]: "fails_only is_value_error (validate_relative_path s)"
  by (simp add: validate_relative_path_def Let_def fails_only_def ensure_def)

lemma pointer_validate_fails: "fails_only is_value_error (pointer_validate v)"
  unfolding pointer_validate_def check_pointer_def Let_def
  by (intro fails_intros) simp_all

lemma entry_validate_fails [fails_intros]: "fails_only is_value_error (entry_validate v)"
  unfolding entry_validate_def check_entry_def Let_def
  by (intro fails_intros) simp_all

lemma fails_only_list [fails_intros]:
  "(\<And>v. fails_only is_value_error (f v)) \<Longrightarrow> fails_only is_value_error (as_list f v)"
  by (auto simp: as_list_def invalid_def fails_only_def [of _ "Inl _"] split: json.split intro: fails_intros)

lemma manifest_validate_fails: "fails_only is_value_error (manifest_validate v)"
  unfolding manifest_validate_def check_manifest_def Let_def
  by (intro fails_intros) (auto simp: fails_only_def ensure_def)

lemma decode_json_fails: "decode_json c = Inl e \<Longrightarrow> is_integrity_error e"
  using decode_bounded_json_fails_with [of c MAX_CONTROL_FILE_BYTES "''control artifact''"]
  by (fastforce simp: decode_json_def raise_from_def split: sum.splits)

lemma parse_completion_pointer_fails: "parse_completion_pointer_bytes c = Inl e \<Longrightarrow> is_integrity_error e"
  using fails_onlyD [OF pointer_validate_fails]
  by (auto simp: parse_completion_pointer_bytes_def raise_from_def bindE_eq_Inl
      dest!: decode_json_fails split: sum.splits if_splits)

lemma parse_attempt_manifest_fails: "parse_attempt_manifest_bytes c = Inl e \<Longrightarrow> is_integrity_error e"
  using fails_onlyD [OF manifest_validate_fails]
  by (auto simp: parse_attempt_manifest_bytes_def raise_from_def bindE_eq_Inl
      dest!: decode_json_fails split: sum.splits if_splits)

section \<open>Portability of the documents\<close>

lemma identifier_char: "is_alnum c \<or> c \<in> set ''_.:-'' \<Longrightarrow> c \<noteq> CHR ''/'' \<and> c \<noteq> CHR 0x5C"
  by (auto simp: is_alnum_def is_digit_def is_lower_def is_upper_def)

lemma alnum_not_dot: "is_alnum c \<Longrightarrow> c \<noteq> CHR ''.'' \<and> c \<noteq> CHR ''~''"
  by (auto simp: is_alnum_def is_digit_def is_lower_def is_upper_def)

lemma identifier_chars:
  assumes "is_identifier s"
  shows "CHR ''/'' \<notin> set s" and "CHR 0x5C \<notin> set s" and "s \<notin> {[], ''.'', ''..''}"
proof -
  obtain c r where s: "s = c # r" and c: "is_alnum c" and r: "\<forall>d \<in> set r. is_alnum d \<or> d \<in> set ''_.:-''"
    using assms by (auto simp: is_identifier_def list_all_iff split: list.splits)
  then show "CHR ''/'' \<notin> set s" and "CHR 0x5C \<notin> set s" using identifier_char by fastforce+
  show "s \<notin> {[], ''.'', ''..''}" using s alnum_not_dot [OF c] by auto
qed

lemma prefix_slash: "prefix (p @ [CHR ''/''] @ q) s \<Longrightarrow> CHR ''/'' \<in> set s"
  by (auto simp: prefix_def)

lemma replace_char_idle: "a \<notin> set s \<Longrightarrow> replace_char a b s = s"
  by (induction s) (auto simp: replace_char_def)

lemma plain_text_portable:
  assumes "CHR ''/'' \<notin> set s" and "CHR 0x5C \<notin> set s" and "s \<noteq> ''..''"
  shows "\<not> path_leak s"
proof -
  have "\<not> prefix (p @ [CHR ''/''] @ q) s" for p q using prefix_slash assms(1) by blast
  from this [of "[]" "[]"] this [of "''~''" "[]"] this [of "[]" "''/''"] this [of "''file:''" "''/''"]
  have "\<not> prefix ''/'' s" "\<not> prefix ''~/'' s" "\<not> prefix ''//'' s" "\<not> prefix ''file://'' s" by simp_all
  moreover have "\<not> windows_absolute s"
    using assms by (auto simp: windows_absolute_def split: list.splits)
  ultimately show ?thesis
    using assms by (simp add: path_leak_def replace_char_idle split_on_no_sep)
qed

lemma identifier_portable: "is_identifier s \<Longrightarrow> \<not> path_leak s"
  using identifier_chars by (intro plain_text_portable) auto

lemma sha256_identifier: "is_sha256 s \<Longrightarrow> is_identifier s"
  by (cases s) (auto simp: is_sha256_def is_identifier_def list_all_iff is_hex_lower_alnum)

lemma stable_char_portable: "list_all (\<lambda>c. slug_char c \<or> c = CHR ''-'') s \<Longrightarrow> \<not> path_leak s"
  by (rule plain_text_portable)
    (auto simp: list_all_iff slug_char_def is_lower_def is_digit_def)

lemma document_keys [simp]:
  "lower ''schema_version'' \<notin> set FORBIDDEN_PORTABLE_KEYS" "lower ''workflow_id'' \<notin> set FORBIDDEN_PORTABLE_KEYS"
  "lower ''stage_id'' \<notin> set FORBIDDEN_PORTABLE_KEYS" "lower ''attempt_id'' \<notin> set FORBIDDEN_PORTABLE_KEYS"
  "lower ''attempt_number'' \<notin> set FORBIDDEN_PORTABLE_KEYS" "lower ''cache_key'' \<notin> set FORBIDDEN_PORTABLE_KEYS"
  "lower ''artifacts'' \<notin> set FORBIDDEN_PORTABLE_KEYS" "lower ''artifact_key'' \<notin> set FORBIDDEN_PORTABLE_KEYS"
  "lower ''relative_path'' \<notin> set FORBIDDEN_PORTABLE_KEYS" "lower ''sha256'' \<notin> set FORBIDDEN_PORTABLE_KEYS"
  "lower ''byte_count'' \<notin> set FORBIDDEN_PORTABLE_KEYS" "lower ''media_type'' \<notin> set FORBIDDEN_PORTABLE_KEYS"
  "lower ''artifact_directory'' \<notin> set FORBIDDEN_PORTABLE_KEYS"
  "lower ''attempt_manifest_sha256'' \<notin> set FORBIDDEN_PORTABLE_KEYS"
  by (simp_all add: lower_def lower_char_def FORBIDDEN_PORTABLE_KEYS_def)

lemma entry_portable:
  "check_entry e = Inr () \<Longrightarrow> \<not> path_leak (e_media_type e) \<Longrightarrow> portable (entry_dump e) \<and> json_finite (entry_dump e)"
  by (simp add: check_entry_def entry_dump_def validate_relative_path_ok identifier_portable sha256_identifier)

lemma schema_portable [simp]:
  "\<not> path_leak ''cartosentry.stage-attempt.v1''" "\<not> path_leak ''cartosentry.stage-completion.v1''"
  by (rule plain_text_portable; simp)+

lemma manifest_document:
  assumes "check_manifest m = Inr ()"
    and "\<forall>e \<in> set (m_artifacts m). check_entry e = Inr () \<and> \<not> path_leak (e_media_type e)"
  shows "canonical_document (manifest_dump m) = Inr (dumps (manifest_dump m) @ [CHR 0x0A])"
proof -
  have "portable (manifest_dump m) \<and> json_finite (manifest_dump m)"
    using assms entry_portable
    by (simp add: manifest_dump_def check_manifest_def identifier_portable sha256_identifier list_all_iff)
  then show ?thesis by (simp add: canonical_document_eq)
qed

lemma pointer_document:
  assumes "check_pointer p = Inr ()"
  shows "canonical_document (pointer_dump p) = Inr (dumps (pointer_dump p) @ [CHR 0x0A])"
proof -
  have "portable (pointer_dump p) \<and> json_finite (pointer_dump p)"
    using assms
    by (simp add: pointer_dump_def check_pointer_def identifier_portable sha256_identifier validate_relative_path_ok)
  then show ?thesis by (simp add: canonical_document_eq)
qed

text \<open>The directory of a published attempt is a valid relative path.\<close>

lemma published_path_valid:
  assumes "is_identifier s" and "is_identifier c" and "is_identifier i"
  shows "validate_relative_path (''artifacts/'' @ s @ ''/'' @ c @ ''/'' @ i) = Inr ()"
proof -
  let ?p = "''artifacts/'' @ s @ ''/'' @ c @ ''/'' @ i"
  have sl: "CHR ''/'' \<notin> set s" "CHR ''/'' \<notin> set c" "CHR ''/'' \<notin> set i"
    using assms identifier_chars(1) by blast+
  have "split_on (CHR ''/'') (''artifacts'' @ CHR ''/'' # s @ CHR ''/'' # c @ CHR ''/'' # i) = [''artifacts'', s, c, i]"
    using sl by (subst split_on_append; simp add: split_on_append split_on_no_sep)
  then have parts: "split_on (CHR ''/'') ?p = [''artifacts'', s, c, i]" by simp
  have bs: "CHR 0x5C \<notin> set ?p" using assms identifier_chars(2) by simp
  have dots: "list_all (\<lambda>p. p \<notin> {[], ''.'', ''..''}) (split_on (CHR ''/'') ?p)"
    unfolding parts using assms identifier_chars(3) by simp
  have "\<not> path_leak ?p"
    using parts dots by (auto simp: path_leak_def replace_char_idle [OF bs, simplified] windows_absolute_def)
  then show ?thesis using bs dots by (simp only: validate_relative_path_ok) simp
qed

end
