(* ===== verification/RunDatabase.thy ===== *)
theory RunDatabase
  imports RunModels "HOL-Library.Product_Lexorder"
begin

text \<open>
  The class \<^verbatim>\<open>RunDatabase\<close> of \<^verbatim>\<open>python/cartosentry/runstate.py\<close>: the
  SQLite tables as lists of rows and every operation as a function from a database to a result.
  A transaction is all or nothing, so an operation that raises (\<open>Inl\<close>) leaves the caller with
  the database it had.  \<open>IntegrityError\<close> is a violated primary key, \<open>UNIQUE\<close>,
  \<open>CHECK\<close> or foreign-key constraint of the schema.  The invariant \<open>db_ok\<close> is what the
  schema promises plus the link between attempts and the counters of their stages; with it no
  operation of the engine can hit a constraint.
\<close>

section \<open>Tables\<close>

record stage_row =
  r_state :: stage_state
  r_attempt_id :: "string option"
  r_cache_key :: "string option"
  r_attempt_counter :: nat
  r_required_attempt_number :: nat
  r_error_code :: "string option"

datatype attempt_state = ATTEMPT_RUNNING | ATTEMPT_COMPLETE

record attempt_row =
  a_stage_id :: string
  a_attempt_number :: nat
  a_cache_key :: string
  a_state :: attempt_state
  a_manifest_sha256 :: "string option"

record artifact_row =
  f_stage_id :: string
  f_artifact_key :: string
  f_relative_path :: string
  f_sha256 :: string
  f_byte_count :: nat
  f_media_type :: string

record database =
  db_meta :: "(string \<times> string) list"
  db_stage :: "(string \<times> stage_row) list"
  db_dependency :: "(string \<times> string) list"
  db_attempt :: "(string \<times> attempt_row) list"
  db_artifact :: "artifact_row list"

definition empty_database :: database where
  "empty_database = \<lparr>db_meta = [], db_stage = [], db_dependency = [], db_attempt = [], db_artifact = []\<rparr>"

text \<open>\<open>UPDATE stage SET ... WHERE stage_id=?\<close>\<close>

definition update_stage :: "string \<Rightarrow> (stage_row \<Rightarrow> stage_row) \<Rightarrow> database \<Rightarrow> database" where
  "update_stage s f db = db\<lparr>db_stage := map (\<lambda>(k, r). (k, if k = s then f r else r)) (db_stage db)\<rparr>"

section \<open>Queries\<close>

definition stage_row :: "database \<Rightarrow> string \<Rightarrow> stage_row res" where
  "stage_row db stage_id =
     (case map_of (db_stage db) stage_id of
        None \<Rightarrow> Inl (ValueError (''unknown stage: '' @ stage_id))
      | Some row \<Rightarrow> Inr row)"

definition stage_states :: "database \<Rightarrow> (string \<times> stage_state) list" where
  "stage_states db = map (\<lambda>(s, row). (s, r_state row)) (db_stage db)"

definition artifact_hashes :: "database \<Rightarrow> string \<Rightarrow> (string \<times> string) list" where
  "artifact_hashes db stage_id =
     sort_key fst (map (\<lambda>f. (f_artifact_key f, f_sha256 f))
       (filter (\<lambda>f. f_stage_id f = stage_id) (db_artifact db)))"

definition artifact_rows :: "database \<Rightarrow> artifact_row list" where
  "artifact_rows db = sort_key (\<lambda>f. (f_stage_id f, f_artifact_key f)) (db_artifact db)"

section \<open>Initialisation\<close>

definition topology_json :: "stage_definition list \<Rightarrow> json" where
  "topology_json definitions = JList (map (\<lambda>item. JDict
     [(''stage_id'', JStr (sd_stage_id item)),
      (''dependencies'', JList (map JStr (sd_dependencies item)))]) definitions)"

definition pending_row :: stage_row where
  "pending_row = \<lparr>r_state = PENDING, r_attempt_id = None, r_cache_key = None, r_attempt_counter = 0,
     r_required_attempt_number = 0, r_error_code = None\<rparr>"

fun insert_stages :: "stage_definition list \<Rightarrow> database \<Rightarrow> database res" where
  "insert_stages [] db = Inr db"
| "insert_stages (item # items) db =
     (if sd_stage_id item \<in> fst ` set (db_stage db)
      then Inl (IntegrityError ''UNIQUE constraint failed: stage.stage_id'')
      else insert_stages items (db\<lparr>db_stage := db_stage db @ [(sd_stage_id item, pending_row)]\<rparr>))"

fun insert_dependencies :: "(string \<times> string) list \<Rightarrow> database \<Rightarrow> database res" where
  "insert_dependencies [] db = Inr db"
| "insert_dependencies ((s, upstream) # rest) db =
     (if (s, upstream) \<in> set (db_dependency db)
      then Inl (IntegrityError ''UNIQUE constraint failed: dependency'')
      else if s \<notin> fst ` set (db_stage db) \<or> upstream \<notin> fst ` set (db_stage db)
      then Inl (IntegrityError ''FOREIGN KEY constraint failed'')
      else insert_dependencies rest (db\<lparr>db_dependency := db_dependency db @ [(s, upstream)]\<rparr>))"

definition dependency_pairs :: "stage_definition list \<Rightarrow> (string \<times> string) list" where
  "dependency_pairs definitions =
     concat (map (\<lambda>d. map (Pair (sd_stage_id d)) (sd_dependencies d)) definitions)"

definition expected_meta ::
  "(string \<Rightarrow> string) \<Rightarrow> run_inputs \<Rightarrow> stage_definition list \<Rightarrow> (string \<times> string) list res" where
  "expected_meta sha inputs definitions =
     bindE (canonical_sha256 sha (run_inputs_dump inputs)) (\<lambda>input_sha256.
     bindE (canonical_sha256 sha (topology_json definitions)) (\<lambda>topology_sha256.
       Inr [(''schema_version'', ''1''), (''workflow_id'', ri_workflow_id inputs),
            (''input_sha256'', input_sha256), (''topology_sha256'', topology_sha256)]))"

definition initialize_database ::
  "(string \<Rightarrow> string) \<Rightarrow> run_inputs \<Rightarrow> stage_definition list \<Rightarrow> database \<Rightarrow> database res" where
  "initialize_database sha inputs definitions db =
     bindE (expected_meta sha inputs definitions) (\<lambda>expected.
       if db_meta db \<noteq> [] then
         (if sort_key fst (db_meta db) \<noteq> sort_key fst expected
          then Inl (ValueError ''run database identity or stage topology does not match this run'')
          else Inr db)
       else bindE (insert_stages definitions (db\<lparr>db_meta := expected\<rparr>))
              (insert_dependencies (dependency_pairs definitions)))"

section \<open>Transitions\<close>

definition startable :: "stage_state list" where
  "startable = [PENDING, FAILED_RETRYABLE, INVALIDATED]"

definition attempt_name :: "string \<Rightarrow> nat \<Rightarrow> string \<Rightarrow> string" where
  "attempt_name stage_id attempt_number uuid =
     ''attempt-'' @ stage_id @ ''-'' @ zero_pad 8 (show_nat attempt_number) @ ''-'' @ uuid"

definition incomplete_upstream :: "database \<Rightarrow> string \<Rightarrow> string list" where
  "incomplete_upstream db stage_id =
     [u. (s, u) \<leftarrow> db_dependency db, s = stage_id,
         (k, row) \<leftarrow> db_stage db, k = u \<and> r_state row \<noteq> COMPLETE]"

definition begin_attempt ::
  "string \<Rightarrow> database \<Rightarrow> string \<Rightarrow> string \<Rightarrow> (database \<times> string \<times> nat) res" where
  "begin_attempt uuid db stage_id cache_key =
     bindE (stage_row db stage_id) (\<lambda>row.
       if r_state row \<notin> set startable
       then Inl (ValueError (''stage '' @ stage_id @ '' cannot begin from state '' @ state_name (r_state row)))
       else if incomplete_upstream db stage_id \<noteq> []
       then Inl (ValueError ''stage cannot begin before every dependency completes'')
       else
         (let attempt_number = r_attempt_counter row + 1;
              attempt_id = attempt_name stage_id attempt_number uuid;
              db1 = update_stage stage_id
                (\<lambda>r. r\<lparr>r_state := RUNNING, r_attempt_id := Some attempt_id, r_cache_key := Some cache_key,
                       r_attempt_counter := attempt_number, r_error_code := None\<rparr>) db
          in if attempt_id \<in> fst ` set (db_attempt db1)
                \<or> (\<exists>(_, a) \<in> set (db_attempt db1). a_stage_id a = stage_id \<and> a_attempt_number a = attempt_number)
             then Inl (IntegrityError ''UNIQUE constraint failed: attempt'')
             else Inr (db1\<lparr>db_attempt := db_attempt db1 @
                    [(attempt_id, \<lparr>a_stage_id = stage_id, a_attempt_number = attempt_number,
                        a_cache_key = cache_key, a_state = ATTEMPT_RUNNING, a_manifest_sha256 = None\<rparr>)]\<rparr>,
                  attempt_id, attempt_number)))"

definition completable :: "stage_state list" where
  "completable = [PENDING, RUNNING, COMPLETE, FAILED_RETRYABLE, INVALIDATED]"

definition delete_artifacts :: "string \<Rightarrow> database \<Rightarrow> database" where
  "delete_artifacts s db = db\<lparr>db_artifact := filter (\<lambda>f. f_stage_id f \<noteq> s) (db_artifact db)\<rparr>"

fun insert_artifacts :: "artifact_row list \<Rightarrow> database \<Rightarrow> database res" where
  "insert_artifacts [] db = Inr db"
| "insert_artifacts (f # fs) db =
     (if (f_stage_id f, f_artifact_key f) \<in> (\<lambda>g. (f_stage_id g, f_artifact_key g)) ` set (db_artifact db)
      then Inl (IntegrityError ''UNIQUE constraint failed: artifact'')
      else insert_artifacts fs (db\<lparr>db_artifact := db_artifact db @ [f]\<rparr>))"

definition upsert_attempt :: "string \<Rightarrow> attempt_row \<Rightarrow> database \<Rightarrow> database res" where
  "upsert_attempt i a db =
     (if i \<in> fst ` set (db_attempt db)
      then Inr (db\<lparr>db_attempt := map (\<lambda>(j, b). (j, if j = i
             then b\<lparr>a_state := ATTEMPT_COMPLETE, a_manifest_sha256 := a_manifest_sha256 a\<rparr> else b)) (db_attempt db)\<rparr>)
      else if a_attempt_number a = 0 then Inl (IntegrityError ''CHECK constraint failed: attempt'')
      else if \<exists>(_, b) \<in> set (db_attempt db). a_stage_id b = a_stage_id a \<and> a_attempt_number b = a_attempt_number a
      then Inl (IntegrityError ''UNIQUE constraint failed: attempt'')
      else Inr (db\<lparr>db_attempt := db_attempt db @ [(i, a)]\<rparr>))"

definition manifest_rows :: "attempt_manifest \<Rightarrow> string \<Rightarrow> artifact_row list" where
  "manifest_rows m artifact_directory = map (\<lambda>e.
     \<lparr>f_stage_id = m_stage_id m, f_artifact_key = e_artifact_key e,
      f_relative_path = artifact_directory @ ''/'' @ e_relative_path e, f_sha256 = e_sha256 e,
      f_byte_count = e_byte_count e, f_media_type = e_media_type e\<rparr>) (m_artifacts m)"

definition record_complete ::
  "database \<Rightarrow> attempt_manifest \<Rightarrow> string \<Rightarrow> string \<Rightarrow> database res" where
  "record_complete db m manifest_sha256 artifact_directory =
     bindE (stage_row db (m_stage_id m)) (\<lambda>row.
       if r_state row \<notin> set completable
       then Inl (ValueError (''stage '' @ m_stage_id m @ '' cannot reconcile completion from state ''
              @ state_name (r_state row)))
       else bindE (insert_artifacts (manifest_rows m artifact_directory)
                    (delete_artifacts (m_stage_id m) db)) (\<lambda>db1.
            bindE (upsert_attempt (m_attempt_id m)
                    \<lparr>a_stage_id = m_stage_id m, a_attempt_number = m_attempt_number m,
                     a_cache_key = m_cache_key m, a_state = ATTEMPT_COMPLETE,
                     a_manifest_sha256 = Some manifest_sha256\<rparr> db1) (\<lambda>db2.
              Inr (update_stage (m_stage_id m)
                (\<lambda>r. r\<lparr>r_state := COMPLETE, r_attempt_id := Some (m_attempt_id m),
                       r_cache_key := Some (m_cache_key m),
                       r_attempt_counter := max (r_attempt_counter r) (m_attempt_number m),
                       r_required_attempt_number := 0, r_error_code := None\<rparr>) db2))))"

definition allowed :: "stage_state \<Rightarrow> stage_state list" where
  "allowed current = (case current of
     PENDING \<Rightarrow> [PENDING, FAILED_FINAL]
   | RUNNING \<Rightarrow> [RUNNING, FAILED_RETRYABLE, FAILED_FINAL]
   | COMPLETE \<Rightarrow> [COMPLETE, FAILED_FINAL]
   | FAILED_RETRYABLE \<Rightarrow> [FAILED_RETRYABLE, FAILED_FINAL]
   | FAILED_FINAL \<Rightarrow> [FAILED_FINAL]
   | INVALIDATED \<Rightarrow> [INVALIDATED, FAILED_FINAL]
   | SKIPPED_NOT_APPLICABLE \<Rightarrow> [SKIPPED_NOT_APPLICABLE])"

definition mark_state :: "database \<Rightarrow> string \<Rightarrow> stage_state \<Rightarrow> string option \<Rightarrow> database res" where
  "mark_state db stage_id state error_code =
     bindE (stage_row db stage_id) (\<lambda>row.
       if state \<notin> set (allowed (r_state row))
       then Inl (ValueError (''invalid stage transition: '' @ state_name (r_state row) @ '' -> '' @ state_name state))
       else Inr (update_stage stage_id (\<lambda>r. r\<lparr>r_state := state, r_error_code := error_code\<rparr>) db))"

fun invalidate :: "database \<Rightarrow> string list \<Rightarrow> bool \<Rightarrow> database res" where
  "invalidate db [] force = Inr db"
| "invalidate db (stage_id # stage_ids) force =
     bindE (stage_row db stage_id) (\<lambda>row.
       invalidate (update_stage stage_id
         (\<lambda>r. r\<lparr>r_state := INVALIDATED, r_attempt_id := None, r_cache_key := None,
                r_required_attempt_number := (if force then r_attempt_counter row + 1 else 0),
                r_error_code := None\<rparr>) (delete_artifacts stage_id db)) stage_ids force)"

section \<open>Reading an updated database\<close>

named_theorems db_simps "how queries see an updated database"

lemma stage_row_eq [simp]: "stage_row db s = Inr row \<longleftrightarrow> map_of (db_stage db) s = Some row"
  by (auto simp: stage_row_def split: option.splits)

lemma map_of_update_stage [simp, db_simps]:
  "map_of (db_stage (update_stage s f db)) k =
     (if k = s then map_option f (map_of (db_stage db) k) else map_of (db_stage db) k)"
proof -
  have "map_of (map (\<lambda>(k, r). (k, if k = s then f r else r)) xs) k =
     (if k = s then map_option f (map_of xs k) else map_of xs k)" for xs
    by (induction xs) auto
  then show ?thesis by (simp add: update_stage_def)
qed

lemma update_stage_frame [simp, db_simps]:
  "db_meta (update_stage s f db) = db_meta db"
  "db_dependency (update_stage s f db) = db_dependency db"
  "db_attempt (update_stage s f db) = db_attempt db"
  "db_artifact (update_stage s f db) = db_artifact db"
  "map fst (db_stage (update_stage s f db)) = map fst (db_stage db)"
  by (auto simp: update_stage_def)

lemma fst_db_stage_update [simp]: "fst ` set (db_stage (update_stage s f db)) = fst ` set (db_stage db)"
  by (metis set_map update_stage_frame(5))

lemma delete_artifacts_frame [simp, db_simps]:
  "db_meta (delete_artifacts s db) = db_meta db" "db_stage (delete_artifacts s db) = db_stage db"
  "db_dependency (delete_artifacts s db) = db_dependency db"
  "db_attempt (delete_artifacts s db) = db_attempt db"
  by (simp_all add: delete_artifacts_def)

lemma artifact_hashes_cong:
  "db_artifact db = db_artifact db' \<Longrightarrow> artifact_hashes db s = artifact_hashes db' s"
  by (simp add: artifact_hashes_def)

lemma artifact_hashes_delete [simp, db_simps]:
  "artifact_hashes (delete_artifacts s db) k = (if k = s then [] else artifact_hashes db k)"
  by (auto simp: artifact_hashes_def delete_artifacts_def filter_empty_conv
      intro!: arg_cong [where f = "\<lambda>xs. sort_key fst (map _ xs)"] filter_cong)

lemma artifact_hashes_update [simp, db_simps]: "artifact_hashes (update_stage s f db) k = artifact_hashes db k"
  by (rule artifact_hashes_cong) simp

definition row_key :: "artifact_row \<Rightarrow> string \<times> string" where
  "row_key f = (f_stage_id f, f_artifact_key f)"

lemma insert_artifacts_eq:
  "insert_artifacts fs db = Inr db' \<longleftrightarrow>
     distinct (map row_key fs) \<and> row_key ` set fs \<inter> row_key ` set (db_artifact db) = {} \<and>
     db' = db\<lparr>db_artifact := db_artifact db @ fs\<rparr>"
proof (induction fs arbitrary: db)
  case (Cons f fs)
  show ?case by (auto simp: Cons row_key_def)
qed auto

lemma db_stage_invalidate:
  "invalidate db ss force = Inr db' \<Longrightarrow>
     map fst (db_stage db') = map fst (db_stage db) \<and> set ss \<subseteq> fst ` set (db_stage db) \<and>
     db_dependency db' = db_dependency db \<and> db_attempt db' = db_attempt db \<and> db_meta db' = db_meta db \<and>
     (\<forall>k. artifact_hashes db' k = (if k \<in> set ss then [] else artifact_hashes db k)) \<and>
     set (db_artifact db') \<subseteq> set (db_artifact db) \<and>
     (\<forall>k. map_of (db_stage db') k = (if k \<in> set ss
        then map_option (\<lambda>r. r\<lparr>r_state := INVALIDATED, r_attempt_id := None, r_cache_key := None,
                r_required_attempt_number := (if force then r_attempt_counter r + 1 else 0),
                r_error_code := None\<rparr>) (map_of (db_stage db) k)
        else map_of (db_stage db) k))"
proof (induction ss arbitrary: db)
  case (Cons s ss)
  then obtain row where row: "map_of (db_stage db) s = Some row" by auto
  let ?db = "update_stage s
         (\<lambda>r. r\<lparr>r_state := INVALIDATED, r_attempt_id := None, r_cache_key := None,
                r_required_attempt_number := (if force then r_attempt_counter row + 1 else 0),
                r_error_code := None\<rparr>) (delete_artifacts s db)"
  have inv: "invalidate ?db ss force = Inr db'"
    using Cons.prems row by (simp add: stage_row_def)
  have s: "s \<in> fst ` set (db_stage db)" using row by (force dest: map_of_SomeD)
  have sub: "set (db_artifact ?db) \<subseteq> set (db_artifact db)" by (auto simp: delete_artifacts_def)
  note ih = Cons.IH [OF inv]
  have "map_of (db_stage db') k = (if k \<in> set (s # ss)
        then map_option (\<lambda>r. r\<lparr>r_state := INVALIDATED, r_attempt_id := None, r_cache_key := None,
                r_required_attempt_number := (if force then r_attempt_counter r + 1 else 0),
                r_error_code := None\<rparr>) (map_of (db_stage db) k)
        else map_of (db_stage db) k)" for k
    using ih row by (cases "map_of (db_stage db) k") auto
  then show ?case using ih sub s by auto
qed auto

lemma invalidate_ok: "set ss \<subseteq> set (map fst (db_stage db)) \<Longrightarrow> \<exists>db'. invalidate db ss force = Inr db'"
proof (induction ss arbitrary: db)
  case (Cons s ss)
  then obtain row where row: "map_of (db_stage db) s = Some row"
    by (metis list.set_intros(1) map_of_eq_None_iff not_Some_eq set_map subsetD)
  show ?case unfolding invalidate.simps stage_row_eq [THEN iffD2, OF row] bindE_Inr
    by (rule Cons.IH) (use Cons.prems in simp)
qed simp

section \<open>Attempt names\<close>

lemma split_last_sep:
  assumes "x @ c # p = y @ c # q" and "c \<notin> set p" and "c \<notin> set q"
  shows "x = y \<and> p = q"
proof -
  have e: "rev p @ c # rev x = rev q @ c # rev y"
    using arg_cong [OF assms(1), of rev] by simp
  have tw: "takeWhile (\<lambda>d. d \<noteq> c) (rev z @ c # w) = rev z" if "c \<notin> set z" for z w
    using that by (subst takeWhile_append2) auto
  have "rev p = rev q"
    using tw [OF assms(2), of "rev x"] tw [OF assms(3), of "rev y"] e by simp
  then show ?thesis using assms(1) by simp
qed

lemma read_nat_zeros: "read_nat (replicate k (CHR ''0'') @ s) = read_nat s"
  by (induction k) (auto simp: read_nat_def digit_val_def)

lemma read_nat_zero_pad [simp]: "read_nat (zero_pad w s) = read_nat s"
  by (simp add: zero_pad_def read_nat_zeros)

lemma zero_pad_digits: "CHR ''-'' \<notin> set (zero_pad w (show_nat n))"
  using show_nat_digits [of n] by (auto simp: zero_pad_def list_all_iff is_digit_def)

lemma attempt_name_inj:
  assumes "attempt_name s n u = attempt_name s' n' u'" and "length u = length u'"
  shows "s = s' \<and> n = n' \<and> u = u'"
proof -
  have "(s @ ''-'' @ zero_pad 8 (show_nat n) @ ''-'') @ u = (s' @ ''-'' @ zero_pad 8 (show_nat n') @ ''-'') @ u'"
    using assms(1) by (simp add: attempt_name_def)
  then have ue: "s @ ''-'' @ zero_pad 8 (show_nat n) @ ''-'' = s' @ ''-'' @ zero_pad 8 (show_nat n') @ ''-'' \<and> u = u'"
    by (simp only: append_eq_append_conv [OF disjI2, OF assms(2)])
  then have u: "u = u'" and e: "s @ ''-'' @ zero_pad 8 (show_nat n) @ ''-'' = s' @ ''-'' @ zero_pad 8 (show_nat n') @ ''-''"
    by blast+
  from e have e2: "s @ CHR ''-'' # zero_pad 8 (show_nat n) = s' @ CHR ''-'' # zero_pad 8 (show_nat n')"
    by simp
  then have "s = s'" and z: "zero_pad 8 (show_nat n) = zero_pad 8 (show_nat n')"
    using split_last_sep [OF e2 zero_pad_digits zero_pad_digits] by blast+
  have "read_nat (zero_pad 8 (show_nat n)) = read_nat (zero_pad 8 (show_nat n'))"
    by (simp only: z)
  then have "n = n'" by simp
  then show ?thesis using u \<open>s = s'\<close> by simp
qed

section \<open>The invariant of the tables\<close>

text \<open>The name of an attempt row tells its stage and number, whatever its unique suffix of 32
  hexadecimal digits.\<close>

definition uuid_text :: "string \<Rightarrow> bool" where
  "uuid_text u \<longleftrightarrow> length u = 32 \<and> list_all is_hex_lower u"

definition well_named :: "string \<Rightarrow> string \<Rightarrow> nat \<Rightarrow> bool" where
  "well_named i s n \<longleftrightarrow> 32 \<le> length i \<and> i = attempt_name s n (drop (length i - 32) i) \<and>
     list_all is_hex_lower (drop (length i - 32) i)"

definition attempt_listed :: "database \<Rightarrow> string \<Rightarrow> attempt_row \<Rightarrow> bool" where
  "attempt_listed db i a \<longleftrightarrow> well_named i (a_stage_id a) (a_attempt_number a) \<and>
     (case map_of (db_stage db) (a_stage_id a) of
        None \<Rightarrow> False | Some r \<Rightarrow> a_attempt_number a \<le> r_attempt_counter r)"

definition db_ok :: "database \<Rightarrow> bool" where
  "db_ok db \<longleftrightarrow>
     distinct (map fst (db_stage db)) \<and>
     distinct (map fst (db_attempt db)) \<and>
     list_all (\<lambda>(i, a). attempt_listed db i a) (db_attempt db) \<and>
     distinct (map (\<lambda>(i, a). (a_stage_id a, a_attempt_number a)) (db_attempt db)) \<and>
     distinct (map row_key (db_artifact db)) \<and>
     list_all (\<lambda>f. f_stage_id f \<in> fst ` set (db_stage db)) (db_artifact db) \<and>
     list_all (\<lambda>(s, u). s \<in> fst ` set (db_stage db) \<and> u \<in> fst ` set (db_stage db)) (db_dependency db)"

declare map_of_eq_Some_iff [simp del]

lemma attempt_listed_iff:
  "attempt_listed db i a \<longleftrightarrow> well_named i (a_stage_id a) (a_attempt_number a) \<and>
     (\<exists>r. map_of (db_stage db) (a_stage_id a) = Some r \<and> a_attempt_number a \<le> r_attempt_counter r)"
  by (simp add: attempt_listed_def split: option.split)

lemma well_named_name [simp]: "uuid_text u \<Longrightarrow> well_named (attempt_name s n u) s n"
proof -
  assume "uuid_text u"
  then have u: "length u = 32" "list_all is_hex_lower u" by (simp_all add: uuid_text_def)
  define p where "p = ''attempt-'' @ s @ ''-'' @ zero_pad 8 (show_nat n) @ ''-''"
  have e: "attempt_name s n u = p @ u" by (simp add: attempt_name_def p_def)
  have "drop (length (p @ u) - 32) (p @ u) = u" using u by simp
  then show ?thesis using u by (simp add: well_named_def e)
qed

lemma attempt_name_identifier:
  assumes "is_identifier s" and "uuid_text u"
  shows "is_identifier (attempt_name s k u)"
proof -
  let ?ok = "\<lambda>c. is_alnum c \<or> c \<in> set ''_.:-''"
  have "list_all ?ok s" using assms(1) by (auto simp: is_identifier_def split: list.splits)
  moreover have "list_all ?ok (zero_pad 8 (show_nat k))"
    using show_nat_digits [of k] by (auto simp: zero_pad_def list_all_iff is_alnum_def is_digit_def)
  moreover have "list_all ?ok u" using assms(2) by (auto simp: uuid_text_def list_all_iff is_hex_lower_alnum)
  ultimately show ?thesis by (simp add: attempt_name_def is_identifier_def is_alnum_def is_lower_def)
qed

lemma well_named_unique:
  assumes "well_named i s n" and "well_named i s' n'"
  shows "s = s' \<and> n = n'"
proof -
  have "attempt_name s n (drop (length i - 32) i) = attempt_name s' n' (drop (length i - 32) i)"
    using assms by (metis well_named_def)
  then show ?thesis using attempt_name_inj by blast
qed

lemma db_ok_attempt:
  "db_ok db \<Longrightarrow> (i, a) \<in> set (db_attempt db) \<Longrightarrow>
     well_named i (a_stage_id a) (a_attempt_number a) \<and>
     (\<exists>r. map_of (db_stage db) (a_stage_id a) = Some r \<and> a_attempt_number a \<le> r_attempt_counter r)"
  unfolding db_ok_def list_all_iff attempt_listed_iff by blast

text \<open>Under the invariant an attempt begins exactly when its state and its dependencies allow it:
  the unique constraints cannot be hit.\<close>

lemma begin_attempt_ok:
  assumes ok: "db_ok db" and u: "uuid_text uuid"
    and row: "map_of (db_stage db) s = Some row" and st: "r_state row \<in> set startable"
    and up: "incomplete_upstream db s = []"
  shows "begin_attempt uuid db s c =
     Inr ((update_stage s (\<lambda>r. r\<lparr>r_state := RUNNING,
             r_attempt_id := Some (attempt_name s (r_attempt_counter row + 1) uuid), r_cache_key := Some c,
             r_attempt_counter := r_attempt_counter row + 1, r_error_code := None\<rparr>) db)
            \<lparr>db_attempt := db_attempt db @ [(attempt_name s (r_attempt_counter row + 1) uuid,
               \<lparr>a_stage_id = s, a_attempt_number = r_attempt_counter row + 1, a_cache_key = c,
                a_state = ATTEMPT_RUNNING, a_manifest_sha256 = None\<rparr>)]\<rparr>,
          attempt_name s (r_attempt_counter row + 1) uuid, r_attempt_counter row + 1)"
proof -
  let ?i = "attempt_name s (r_attempt_counter row + 1) uuid"
  have le: "a_attempt_number a \<le> r_attempt_counter row" if "(i, a) \<in> set (db_attempt db)" "a_stage_id a = s" for i a
    using db_ok_attempt [OF ok that(1)] that(2) row by auto
  have "?i \<notin> fst ` set (db_attempt db)"
  proof
    assume "?i \<in> fst ` set (db_attempt db)"
    then obtain a where a: "(?i, a) \<in> set (db_attempt db)" by force
    then have "a_stage_id a = s \<and> a_attempt_number a = r_attempt_counter row + 1"
      using db_ok_attempt [OF ok a] well_named_name [OF u] well_named_unique by blast
    then show False using le [OF a] by simp
  qed
  moreover have "\<not> (\<exists>(i, a) \<in> set (db_attempt db). a_stage_id a = s \<and> a_attempt_number a = r_attempt_counter row + 1)"
    using le by fastforce
  ultimately show ?thesis
    using st up by (simp add: begin_attempt_def stage_row_def row Let_def)
qed

lemma begin_attempt_Inr:
  assumes "begin_attempt uuid db s c = Inr (db', i, n)"
  obtains row where "map_of (db_stage db) s = Some row" and "r_state row \<in> set startable"
    and "incomplete_upstream db s = []" and "n = r_attempt_counter row + 1" and "i = attempt_name s n uuid"
    and "i \<notin> fst ` set (db_attempt db)"
    and "\<not> (\<exists>(_, a) \<in> set (db_attempt db). a_stage_id a = s \<and> a_attempt_number a = n)"
    and "db' = (update_stage s (\<lambda>r. r\<lparr>r_state := RUNNING, r_attempt_id := Some i, r_cache_key := Some c,
             r_attempt_counter := n, r_error_code := None\<rparr>) db)
            \<lparr>db_attempt := db_attempt db @ [(i, \<lparr>a_stage_id = s, a_attempt_number = n, a_cache_key = c,
                a_state = ATTEMPT_RUNNING, a_manifest_sha256 = None\<rparr>)]\<rparr>"
  using assms by (auto simp: begin_attempt_def Let_def split: if_splits)

lemma db_ok_begin:
  assumes ok: "db_ok db" and u: "uuid_text uuid" and b: "begin_attempt uuid db s c = Inr (db', i, n)"
  shows "db_ok db'"
proof -
  from b obtain row where row: "map_of (db_stage db) s = Some row"
    and n: "n = r_attempt_counter row + 1" and i: "i = attempt_name s n uuid"
    and f1: "i \<notin> fst ` set (db_attempt db)"
    and f2: "\<not> (\<exists>(_, a) \<in> set (db_attempt db). a_stage_id a = s \<and> a_attempt_number a = n)"
    and db': "db' = (update_stage s (\<lambda>r. r\<lparr>r_state := RUNNING, r_attempt_id := Some i, r_cache_key := Some c,
             r_attempt_counter := n, r_error_code := None\<rparr>) db)
            \<lparr>db_attempt := db_attempt db @ [(i, \<lparr>a_stage_id = s, a_attempt_number = n, a_cache_key = c,
                a_state = ATTEMPT_RUNNING, a_manifest_sha256 = None\<rparr>)]\<rparr>"
    by (rule begin_attempt_Inr)
  have keys: "map fst (db_stage db') = map fst (db_stage db)" by (simp add: db')
  then have kset: "fst ` set (db_stage db') = fst ` set (db_stage db)" by (metis set_map)
  have art: "db_artifact db' = db_artifact db" "db_dependency db' = db_dependency db"
    and att: "db_attempt db' = db_attempt db @ [(i, \<lparr>a_stage_id = s, a_attempt_number = n, a_cache_key = c,
                a_state = ATTEMPT_RUNNING, a_manifest_sha256 = None\<rparr>)]"
    by (simp_all add: db')
  have old: "attempt_listed db' j a" if "attempt_listed db j a" for j a
    using that row n by (auto simp: attempt_listed_iff db')
  have new: "attempt_listed db' i \<lparr>a_stage_id = s, a_attempt_number = n, a_cache_key = c,
                a_state = ATTEMPT_RUNNING, a_manifest_sha256 = None\<rparr>"
    using row i u by (simp add: attempt_listed_iff db')
  have "list_all (\<lambda>(i, a). attempt_listed db' i a) (db_attempt db')"
    using ok old new unfolding db_ok_def att list_all_append list_all_iff by auto
  moreover have "distinct (map fst (db_attempt db'))" using ok f1 by (simp add: att db_ok_def)
  moreover have "distinct (map (\<lambda>(i, a). (a_stage_id a, a_attempt_number a)) (db_attempt db'))"
    using ok f2 by (fastforce simp: att db_ok_def)
  ultimately show ?thesis
    using ok unfolding db_ok_def keys kset art by blast
qed

lemma db_ok_same_attempts:
  assumes "db_ok db" and "map fst (db_stage db') = map fst (db_stage db)"
    and "db_dependency db' = db_dependency db" and "db_attempt db' = db_attempt db"
    and "distinct (map row_key (db_artifact db'))"
    and "list_all (\<lambda>f. f_stage_id f \<in> fst ` set (db_stage db)) (db_artifact db')"
    and "\<And>k r. map_of (db_stage db) k = Some r \<Longrightarrow>
      \<exists>r'. map_of (db_stage db') k = Some r' \<and> r_attempt_counter r \<le> r_attempt_counter r'"
  shows "db_ok db'"
proof -
  have kset: "fst ` set (db_stage db') = fst ` set (db_stage db)" by (metis assms(2) set_map)
  have "list_all (\<lambda>(i, a). attempt_listed db' i a) (db_attempt db)"
    using assms(1) assms(7) unfolding db_ok_def list_all_iff attempt_listed_iff by (fastforce intro: order_trans)
  then show ?thesis
    using assms(1-6) unfolding db_ok_def kset by simp
qed

lemma db_ok_update:
  assumes "db_ok db" and "\<And>r. r_attempt_counter r \<le> r_attempt_counter (f r)"
  shows "db_ok (update_stage s f db)"
  by (rule db_ok_same_attempts [OF assms(1)]) (use assms in \<open>auto simp: db_ok_def\<close>)

lemma db_ok_mark: "db_ok db \<Longrightarrow> mark_state db s st e = Inr db' \<Longrightarrow> db_ok db'"
  by (auto simp: mark_state_def intro!: db_ok_update split: if_splits)

lemma distinct_filter_map: "distinct (map f xs) \<Longrightarrow> distinct (map f (filter P xs))"
  by (simp add: distinct_map inj_on_subset [of f "set xs"])

lemma db_ok_delete: "db_ok db \<Longrightarrow> db_ok (delete_artifacts s db)"
  by (rule db_ok_same_attempts)
    (auto simp: db_ok_def delete_artifacts_def list_all_iff intro!: distinct_filter_map)

lemma db_ok_invalidate: "db_ok db \<Longrightarrow> invalidate db ss force = Inr db' \<Longrightarrow> db_ok db'"
proof (induction ss arbitrary: db)
  case (Cons s ss)
  show ?case
    using Cons.prems(2) by (auto intro!: Cons.IH [rotated] db_ok_update db_ok_delete Cons.prems(1))
qed simp

section \<open>Completion and creation\<close>

definition manifest_hashes :: "attempt_manifest \<Rightarrow> (string \<times> string) list" where
  "manifest_hashes m = sort_key fst (map (\<lambda>e. (e_artifact_key e, e_sha256 e)) (m_artifacts m))"

lemma map_row_key_manifest [simp]:
  "map row_key (manifest_rows m d) = map (Pair (m_stage_id m)) (map e_artifact_key (m_artifacts m))"
  by (simp add: manifest_rows_def row_key_def)

lemma row_key_delete [simp]: "(s, k) \<notin> row_key ` set (db_artifact (delete_artifacts s db))"
  by (auto simp: delete_artifacts_def row_key_def)

lemma insert_manifest_rows:
  "insert_artifacts (manifest_rows m d) (delete_artifacts (m_stage_id m) db) = Inr db' \<longleftrightarrow>
     distinct (map e_artifact_key (m_artifacts m)) \<and>
     db' = (delete_artifacts (m_stage_id m) db)
       \<lparr>db_artifact := db_artifact (delete_artifacts (m_stage_id m) db) @ manifest_rows m d\<rparr>"
proof -
  have "row_key ` set (manifest_rows m d) \<subseteq> range (Pair (m_stage_id m))"
    by (auto simp: manifest_rows_def row_key_def)
  then have "row_key ` set (manifest_rows m d) \<inter> row_key ` set (db_artifact (delete_artifacts (m_stage_id m) db)) = {}"
    using row_key_delete by fast
  moreover have "distinct (map (Pair (m_stage_id m)) ks) \<longleftrightarrow> distinct ks" for ks :: "string list"
    by (simp add: distinct_map inj_on_def)
  ultimately show ?thesis
    unfolding insert_artifacts_eq map_row_key_manifest by blast
qed

lemma artifact_hashes_recorded:
  fixes m :: attempt_manifest and db :: database
  shows "artifact_hashes (db\<lparr>db_artifact := filter (\<lambda>f. f_stage_id f \<noteq> m_stage_id m) fs @ manifest_rows m d\<rparr>) k =
     (if k = m_stage_id m then manifest_hashes m else artifact_hashes (db\<lparr>db_artifact := fs\<rparr>) k)"
proof (cases "k = m_stage_id m")
  case True
  have "filter (\<lambda>f. f_stage_id f = m_stage_id m) (manifest_rows m d) = manifest_rows m d"
    by (auto simp: manifest_rows_def intro!: filter_True)
  moreover have "map (\<lambda>f. (f_artifact_key f, f_sha256 f)) (manifest_rows m d)
      = map (\<lambda>e. (e_artifact_key e, e_sha256 e)) (m_artifacts m)"
    by (simp add: manifest_rows_def)
  ultimately show ?thesis using True by (simp add: artifact_hashes_def manifest_hashes_def)
next
  case False
  have "filter (\<lambda>f. f_stage_id f = k) (manifest_rows m d) = []"
    using False by (auto simp: manifest_rows_def filter_empty_conv)
  moreover have "filter (\<lambda>f. f_stage_id f \<noteq> m_stage_id m \<and> f_stage_id f = k) fs = filter (\<lambda>f. f_stage_id f = k) fs"
    using False by (auto intro!: filter_cong)
  ultimately show ?thesis using False by (simp add: artifact_hashes_def)
qed

definition completed_row :: "attempt_manifest \<Rightarrow> stage_row \<Rightarrow> stage_row" where
  "completed_row m r = r\<lparr>r_state := COMPLETE, r_attempt_id := Some (m_attempt_id m),
     r_cache_key := Some (m_cache_key m), r_attempt_counter := max (r_attempt_counter r) (m_attempt_number m),
     r_required_attempt_number := 0, r_error_code := None\<rparr>"

lemma record_complete_Inr:
  assumes "record_complete db m h d = Inr db'"
  obtains row where "map_of (db_stage db) (m_stage_id m) = Some row" and "r_state row \<in> set completable"
    and "distinct (map e_artifact_key (m_artifacts m))"
    and "map fst (db_stage db') = map fst (db_stage db)" and "db_dependency db' = db_dependency db"
    and "db_meta db' = db_meta db"
    and "\<And>k. map_of (db_stage db') k =
           (if k = m_stage_id m then Some (completed_row m row) else map_of (db_stage db) k)"
    and "\<And>k. artifact_hashes db' k = (if k = m_stage_id m then manifest_hashes m else artifact_hashes db k)"
    and "db_artifact db' = filter (\<lambda>f. f_stage_id f \<noteq> m_stage_id m) (db_artifact db) @ manifest_rows m d"
    and "m_attempt_id m \<in> fst ` set (db_attempt db) \<and>
           db_attempt db' = map (\<lambda>(j, b). (j, if j = m_attempt_id m
             then b\<lparr>a_state := ATTEMPT_COMPLETE, a_manifest_sha256 := Some h\<rparr> else b)) (db_attempt db)
         \<or> m_attempt_id m \<notin> fst ` set (db_attempt db) \<and>
           \<not> (\<exists>(_, b) \<in> set (db_attempt db). a_stage_id b = m_stage_id m \<and> a_attempt_number b = m_attempt_number m) \<and>
           db_attempt db' = db_attempt db @ [(m_attempt_id m, \<lparr>a_stage_id = m_stage_id m,
             a_attempt_number = m_attempt_number m, a_cache_key = m_cache_key m,
             a_state = ATTEMPT_COMPLETE, a_manifest_sha256 = Some h\<rparr>)]"
proof -
  from assms obtain row db1 db2 where row: "map_of (db_stage db) (m_stage_id m) = Some row"
    and st: "r_state row \<in> set completable"
    and ins: "insert_artifacts (manifest_rows m d) (delete_artifacts (m_stage_id m) db) = Inr db1"
    and up: "upsert_attempt (m_attempt_id m) \<lparr>a_stage_id = m_stage_id m, a_attempt_number = m_attempt_number m,
                     a_cache_key = m_cache_key m, a_state = ATTEMPT_COMPLETE,
                     a_manifest_sha256 = Some h\<rparr> db1 = Inr db2"
    and db': "db' = update_stage (m_stage_id m) (completed_row m) db2"
    unfolding record_complete_def completed_row_def [abs_def]
    by (auto simp: stage_row_eq split: if_splits)
  have d1: "distinct (map e_artifact_key (m_artifacts m))"
    and db1: "db1 = db\<lparr>db_artifact := filter (\<lambda>f. f_stage_id f \<noteq> m_stage_id m) (db_artifact db) @ manifest_rows m d\<rparr>"
    using ins unfolding insert_manifest_rows by (auto simp: delete_artifacts_def)
  have db2: "db_stage db2 = db_stage db" "db_artifact db2 = db_artifact db1"
      "db_dependency db2 = db_dependency db" "db_meta db2 = db_meta db"
    using up by (auto simp: upsert_attempt_def db1 split: if_splits)
  have hashes: "artifact_hashes db' k = (if k = m_stage_id m then manifest_hashes m else artifact_hashes db k)" for k
    using artifact_hashes_recorded [where db = db and fs = "db_artifact db" and m = m and d = d and k = k]
      artifact_hashes_cong [of db' db1 k] by (simp add: db' db2 db1)
  show ?thesis
    by (rule that [OF row st d1])
      (use up row hashes in \<open>auto simp: db' db2 db1 upsert_attempt_def split: if_splits\<close>)
qed

lemma db_ok_complete:
  assumes ok: "db_ok db" and w: "well_named (m_attempt_id m) (m_stage_id m) (m_attempt_number m)"
    and r: "record_complete db m h d = Inr db'"
  shows "db_ok db'"
  using r
proof (rule record_complete_Inr)
  fix row assume row: "map_of (db_stage db) (m_stage_id m) = Some row"
    and keys: "map fst (db_stage db') = map fst (db_stage db)" and dep: "db_dependency db' = db_dependency db"
    and d: "distinct (map e_artifact_key (m_artifacts m))"
    and st: "\<And>k. map_of (db_stage db') k =
           (if k = m_stage_id m then Some (completed_row m row) else map_of (db_stage db) k)"
    and art: "db_artifact db' = filter (\<lambda>f. f_stage_id f \<noteq> m_stage_id m) (db_artifact db) @ manifest_rows m d"
    and att: "m_attempt_id m \<in> fst ` set (db_attempt db) \<and>
           db_attempt db' = map (\<lambda>(j, b). (j, if j = m_attempt_id m
             then b\<lparr>a_state := ATTEMPT_COMPLETE, a_manifest_sha256 := Some h\<rparr> else b)) (db_attempt db)
         \<or> m_attempt_id m \<notin> fst ` set (db_attempt db) \<and>
           \<not> (\<exists>(_, b) \<in> set (db_attempt db). a_stage_id b = m_stage_id m \<and> a_attempt_number b = m_attempt_number m) \<and>
           db_attempt db' = db_attempt db @ [(m_attempt_id m, \<lparr>a_stage_id = m_stage_id m,
             a_attempt_number = m_attempt_number m, a_cache_key = m_cache_key m,
             a_state = ATTEMPT_COMPLETE, a_manifest_sha256 = Some h\<rparr>)]"
  have kset: "fst ` set (db_stage db') = fst ` set (db_stage db)" by (metis keys set_map)
  have listed: "attempt_listed db' j b" if "attempt_listed db j b" for j b
    using that row by (fastforce simp: attempt_listed_iff st completed_row_def le_max_iff_disj)
  have same: "map (\<lambda>(i, a). (a_stage_id a, a_attempt_number a)) (map (\<lambda>(j, b). (j, if j = m_attempt_id m
             then b\<lparr>a_state := ATTEMPT_COMPLETE, a_manifest_sha256 := Some h\<rparr> else b)) xs) =
      map (\<lambda>(i, a). (a_stage_id a, a_attempt_number a)) xs" for xs
    by (induction xs) auto
  have upd: "attempt_listed db' j (if c then b\<lparr>a_state := x, a_manifest_sha256 := y\<rparr> else b) \<longleftrightarrow> attempt_listed db' j b"
    for j b c x y by (simp add: attempt_listed_iff)
  have new: "attempt_listed db' (m_attempt_id m) \<lparr>a_stage_id = m_stage_id m,
             a_attempt_number = m_attempt_number m, a_cache_key = m_cache_key m,
             a_state = ATTEMPT_COMPLETE, a_manifest_sha256 = Some h\<rparr>"
    using w by (simp add: attempt_listed_iff st completed_row_def)
  have l0: "\<forall>(i, a) \<in> set (db_attempt db). attempt_listed db' i a"
    using ok listed unfolding db_ok_def list_all_iff by blast
  from att have all_listed: "list_all (\<lambda>(i, a). attempt_listed db' i a) (db_attempt db')"
  proof
    assume "m_attempt_id m \<in> fst ` set (db_attempt db) \<and> db_attempt db' = map (\<lambda>(j, b). (j, if j = m_attempt_id m
             then b\<lparr>a_state := ATTEMPT_COMPLETE, a_manifest_sha256 := Some h\<rparr> else b)) (db_attempt db)"
    then have e: "db_attempt db' = map (\<lambda>(j, b). (j, if j = m_attempt_id m
             then b\<lparr>a_state := ATTEMPT_COMPLETE, a_manifest_sha256 := Some h\<rparr> else b)) (db_attempt db)" ..
    show ?thesis unfolding e list.pred_map using l0 by (auto simp: list_all_iff upd)
  qed (use l0 new in \<open>simp add: list_all_iff\<close>)
  from att have ids: "distinct (map fst (db_attempt db'))"
  proof
    assume "m_attempt_id m \<in> fst ` set (db_attempt db) \<and> db_attempt db' = map (\<lambda>(j, b). (j, if j = m_attempt_id m
             then b\<lparr>a_state := ATTEMPT_COMPLETE, a_manifest_sha256 := Some h\<rparr> else b)) (db_attempt db)"
    then show ?thesis using ok by (simp add: db_ok_def comp_def case_prod_beta')
  qed (use ok in \<open>auto simp: db_ok_def\<close>)
  have nums: "distinct (map (\<lambda>(i, a). (a_stage_id a, a_attempt_number a)) (db_attempt db'))"
    using att
  proof
    assume "m_attempt_id m \<in> fst ` set (db_attempt db) \<and> db_attempt db' = map (\<lambda>(j, b). (j, if j = m_attempt_id m
             then b\<lparr>a_state := ATTEMPT_COMPLETE, a_manifest_sha256 := Some h\<rparr> else b)) (db_attempt db)"
    then have e: "db_attempt db' = map (\<lambda>(j, b). (j, if j = m_attempt_id m
             then b\<lparr>a_state := ATTEMPT_COMPLETE, a_manifest_sha256 := Some h\<rparr> else b)) (db_attempt db)" ..
    show ?thesis
      unfolding e same using ok unfolding db_ok_def by blast
  qed (use ok in \<open>fastforce simp: db_ok_def\<close>)
  have "set (map row_key (manifest_rows m d)) \<inter> set (map row_key (filter (\<lambda>f. f_stage_id f \<noteq> m_stage_id m) (db_artifact db))) = {}"
    unfolding map_row_key_manifest by (auto simp: row_key_def)
  moreover have "distinct (map row_key (manifest_rows m d))"
    unfolding map_row_key_manifest using d by (simp add: distinct_map inj_on_def)
  ultimately have rows: "distinct (map row_key (db_artifact db'))"
    using ok unfolding art map_append distinct_append db_ok_def by (auto intro: distinct_filter_map)
  have "m_stage_id m \<in> fst ` set (db_stage db)" using row by (force dest: map_of_SomeD)
  then have "list_all (\<lambda>f. f_stage_id f \<in> fst ` set (db_stage db)) (db_artifact db')"
    using ok unfolding art db_ok_def list_all_append by (simp add: list_all_iff manifest_rows_def)
  then show "db_ok db'"
    using ok all_listed ids nums rows unfolding db_ok_def kset keys dep by blast
qed

lemma record_complete_ok:
  assumes ok: "db_ok db" and row: "map_of (db_stage db) (m_stage_id m) = Some row"
    and st: "r_state row \<in> set completable" and d: "distinct (map e_artifact_key (m_artifacts m))"
    and known: "m_attempt_id m \<in> fst ` set (db_attempt db)"
  shows "\<exists>db'. record_complete db m h dir = Inr db'"
proof -
  let ?a = "\<lparr>a_stage_id = m_stage_id m, a_attempt_number = m_attempt_number m, a_cache_key = m_cache_key m,
     a_state = ATTEMPT_COMPLETE, a_manifest_sha256 = Some h\<rparr>"
  obtain db1 where ins: "insert_artifacts (manifest_rows m dir) (delete_artifacts (m_stage_id m) db) = Inr db1"
    and db1: "db_attempt db1 = db_attempt db"
    using insert_manifest_rows d by fastforce
  obtain db2 where up: "upsert_attempt (m_attempt_id m) ?a db1 = Inr db2"
    using known db1 by (auto simp: upsert_attempt_def)
  show ?thesis
    using row st ins up by (auto simp: record_complete_def stage_row_def)
qed

lemma insert_stages_ok:
  "distinct (map sd_stage_id ds) \<Longrightarrow> set (map sd_stage_id ds) \<inter> fst ` set (db_stage db) = {} \<Longrightarrow>
   insert_stages ds db = Inr (db\<lparr>db_stage := db_stage db @ map (\<lambda>d. (sd_stage_id d, pending_row)) ds\<rparr>)"
  by (induction ds arbitrary: db) auto

lemma insert_dependencies_ok:
  "distinct ps \<Longrightarrow> set ps \<inter> set (db_dependency db) = {} \<Longrightarrow>
   \<forall>(s, u) \<in> set ps. s \<in> fst ` set (db_stage db) \<and> u \<in> fst ` set (db_stage db) \<Longrightarrow>
   insert_dependencies ps db = Inr (db\<lparr>db_dependency := db_dependency db @ ps\<rparr>)"
proof (induction ps arbitrary: db)
  case (Cons p ps)
  obtain s u where p: "p = (s, u)" by (cases p)
  let ?db = "db\<lparr>db_dependency := db_dependency db @ [(s, u)]\<rparr>"
  have "insert_dependencies ps ?db = Inr (?db\<lparr>db_dependency := db_dependency ?db @ ps\<rparr>)"
    by (rule Cons.IH) (use Cons.prems p in auto)
  then show ?case using Cons.prems p by simp
qed simp

lemma distinct_dependency_pairs:
  "stages_ordered seen ds \<Longrightarrow> distinct (dependency_pairs ds)"
proof (induction ds arbitrary: seen)
  case (Cons d ds)
  have "sd_stage_id d \<notin> set (map sd_stage_id ds)"
    using stages_ordered_distinct [OF Cons.prems] by simp
  moreover have "distinct (map (Pair (sd_stage_id d)) (sd_dependencies d))"
    using Cons.prems by (simp add: distinct_map inj_on_def)
  moreover have "distinct (dependency_pairs ds)"
    by (rule Cons.IH [of "sd_stage_id d # seen"]) (use Cons.prems in simp)
  ultimately show ?case by (auto simp: dependency_pairs_def)
qed (simp add: dependency_pairs_def)

lemma dependency_pairs_iff:
  "(s, u) \<in> set (dependency_pairs ds) \<longleftrightarrow> (\<exists>d \<in> set ds. sd_stage_id d = s \<and> u \<in> set (sd_dependencies d))"
  by (auto simp: dependency_pairs_def)

lemma initialize_fresh:
  assumes "validate_stage_definitions ds = Inr ()" and "expected_meta sha inputs ds = Inr meta"
  shows "initialize_database sha inputs ds empty_database = Inr
     \<lparr>db_meta = meta, db_stage = map (\<lambda>d. (sd_stage_id d, pending_row)) ds,
      db_dependency = dependency_pairs ds, db_attempt = [], db_artifact = []\<rparr>"
proof -
  have o: "stages_ordered [] ds" using validate_stage_definitions_ordered [OF assms(1)] by simp
  have "\<forall>(s, u) \<in> set (dependency_pairs ds). s \<in> sd_stage_id ` set ds \<and> u \<in> sd_stage_id ` set ds"
    using stages_ordered_dependencies [OF o] by (fastforce simp: dependency_pairs_iff)
  then show ?thesis
    using assms(2) stages_ordered_distinct [OF o] distinct_dependency_pairs [OF o]
    by (simp add: initialize_database_def empty_database_def insert_stages_ok insert_dependencies_ok
        image_image)
qed

lemma initialize_again:
  assumes "expected_meta sha inputs ds = Inr meta" and "db_meta db = meta"
  shows "initialize_database sha inputs ds db = Inr db"
proof -
  have "meta \<noteq> []" using assms(1) by (auto simp: expected_meta_def)
  then show ?thesis using assms by (simp add: initialize_database_def)
qed

lemma db_ok_fresh:
  assumes "stages_ordered [] ds"
  shows "db_ok \<lparr>db_meta = meta, db_stage = map (\<lambda>d. (sd_stage_id d, pending_row)) ds,
      db_dependency = dependency_pairs ds, db_attempt = [], db_artifact = []\<rparr>"
proof -
  have "list_all (\<lambda>(s, u). s \<in> sd_stage_id ` set ds \<and> u \<in> sd_stage_id ` set ds) (dependency_pairs ds)"
    using stages_ordered_dependencies [OF assms] by (fastforce simp: list_all_iff dependency_pairs_iff)
  then show ?thesis
    using stages_ordered_distinct [OF assms] by (simp add: db_ok_def comp_def image_image)
qed

lemma incomplete_upstream_Nil:
  "db_ok db \<Longrightarrow> incomplete_upstream db s = [] \<longleftrightarrow>
     (\<forall>u. (s, u) \<in> set (db_dependency db) \<longrightarrow> (\<exists>r. map_of (db_stage db) u = Some r \<and> r_state r = COMPLETE))"
proof -
  assume ok: "db_ok db"
  have d: "distinct (map fst (db_stage db))" using ok by (simp add: db_ok_def)
  have ex: "\<exists>r. map_of (db_stage db) u = Some r" if "(s, u) \<in> set (db_dependency db)" for u
    using ok that by (fastforce simp: db_ok_def list_all_iff weak_map_of_SomeI)
  have "incomplete_upstream db s = [] \<longleftrightarrow>
      (\<forall>u. (s, u) \<in> set (db_dependency db) \<longrightarrow> (\<forall>r. (u, r) \<in> set (db_stage db) \<longrightarrow> r_state r = COMPLETE))"
    by (fastforce simp: incomplete_upstream_def concat_eq_Nil_conv split: if_splits)
  moreover have "(u, r) \<in> set (db_stage db) \<longleftrightarrow> map_of (db_stage db) u = Some r" for u r
    using map_of_eq_Some_iff [OF d] by blast
  ultimately show "incomplete_upstream db s = [] \<longleftrightarrow>
     (\<forall>u. (s, u) \<in> set (db_dependency db) \<longrightarrow> (\<exists>r. map_of (db_stage db) u = Some r \<and> r_state r = COMPLETE))"
    using ex by fastforce
qed

end
