(* ===== verification/RunArtifact.thy ===== *)
theory RunArtifact
  imports RunDatabase
begin

text \<open>
  The exported run document.  From \<^verbatim>\<open>python/cartosentry/artifacts.py\<close>:
  \<open>ArtifactReference\<close>, \<open>StageRecord\<close>, \<open>LocalRunContext\<close>, \<open>Run\<close> with its
  validators, \<open>validate_artifact_bytes\<close> on a run, and
  \<open>canonicalize_portable_artifact\<close>; from \<^verbatim>\<open>runstate.py\<close>: the state of the
  run derived from the states of its stages and \<open>export_run_artifact\<close>.  The native
  \<open>_core.canonicalize_artifact_json\<close> is the parameter \<open>native\<close>.
\<close>

section \<open>The run document\<close>

record artifact_reference =
  ar_source_key :: string
  ar_sha256 :: string
  ar_byte_count :: nat
  ar_media_type :: string

record stage_record =
  sr_state :: stage_state
  sr_attempt_id :: "string option"
  sr_output_hashes :: "(string \<times> string) list"

record local_run_context =
  lc_source_roots :: "string list"
  lc_host_name :: string
  lc_machine_id :: string

record run_document =
  rd_run_id :: string
  rd_sequence_id :: string
  rd_road_graph_id :: string
  rd_profile_id :: string
  rd_engine_version :: string
  rd_configuration_hashes :: "(string \<times> string) list"
  rd_state :: stage_state
  rd_stages :: "(string \<times> stage_record) list"
  rd_artifacts :: "artifact_reference list"
  rd_local_context :: "local_run_context option"

definition reference_dump :: "artifact_reference \<Rightarrow> json" where
  "reference_dump r = JDict
     [(''source_key'', JStr (ar_source_key r)), (''sha256'', JStr (ar_sha256 r)),
      (''byte_count'', JInt (int (ar_byte_count r))), (''media_type'', JStr (ar_media_type r))]"

definition option_json :: "string option \<Rightarrow> json" where
  "option_json o0 = (case o0 of None \<Rightarrow> JNull | Some s \<Rightarrow> JStr s)"

definition stage_record_dump :: "stage_record \<Rightarrow> json" where
  "stage_record_dump r = JDict
     [(''state'', JStr (state_name (sr_state r))), (''attempt_id'', option_json (sr_attempt_id r)),
      (''output_hashes'', dict_json (sr_output_hashes r))]"

text \<open>\<open>model_dump(mode="json", exclude={"local_context"})\<close>.\<close>

definition run_dump :: "run_document \<Rightarrow> json" where
  "run_dump r = JDict
     [(''schema_version'', JStr ''cartosentry.run.v1''), (''run_id'', JStr (rd_run_id r)),
      (''sequence_id'', JStr (rd_sequence_id r)), (''road_graph_id'', JStr (rd_road_graph_id r)),
      (''profile_id'', JStr (rd_profile_id r)), (''engine_version'', JStr (rd_engine_version r)),
      (''configuration_hashes'', dict_json (rd_configuration_hashes r)),
      (''state'', JStr (state_name (rd_state r))),
      (''stages'', JDict (map (\<lambda>(s, x). (s, stage_record_dump x)) (rd_stages r))),
      (''artifacts'', JList (map reference_dump (rd_artifacts r)))]"

definition run_portable_dict :: "run_document \<Rightarrow> json res" where
  "run_portable_dict r = bindE (assert_portable ''artifact'' (run_dump r)) (\<lambda>_. Inr (run_dump r))"

definition validate_run_identity :: "(string \<Rightarrow> string) \<Rightarrow> run_document \<Rightarrow> unit res" where
  "validate_run_identity sha r =
     bindE (make_run_id sha (rd_sequence_id r) (rd_road_graph_id r) (rd_profile_id r)
              (rd_engine_version r) (rd_configuration_hashes r)) (\<lambda>expected.
     bindE (ensure (rd_run_id r = expected) (ValueError ''run_id does not match its semantic inputs'')) (\<lambda>_.
     bindE (run_portable_dict r) (assert_portable ''artifact'')))"

definition check_text_map :: "(string \<times> string) list \<Rightarrow> bool" where
  "check_text_map kvs \<longleftrightarrow> list_all (\<lambda>(k, v). is_identifier k \<and> is_sha256 v) kvs"

definition check_stage_record :: "stage_record \<Rightarrow> bool" where
  "check_stage_record r \<longleftrightarrow>
     (case sr_attempt_id r of None \<Rightarrow> True | Some a \<Rightarrow> is_identifier a) \<and> check_text_map (sr_output_hashes r)"

definition check_reference :: "artifact_reference \<Rightarrow> bool" where
  "check_reference r \<longleftrightarrow> ar_source_key r \<noteq> [] \<and> is_sha256 (ar_sha256 r) \<and> ar_media_type r \<noteq> []"

definition check_run :: "(string \<Rightarrow> string) \<Rightarrow> run_document \<Rightarrow> unit res" where
  "check_run sha r =
     bindE (ensure (is_stable_id (rd_run_id r) \<and> is_stable_id (rd_sequence_id r) \<and> is_stable_id (rd_road_graph_id r)
        \<and> is_identifier (rd_profile_id r) \<and> is_semantic_version (rd_engine_version r)
        \<and> check_text_map (rd_configuration_hashes r)
        \<and> list_all (\<lambda>(s, x). is_identifier s \<and> check_stage_record x) (rd_stages r)
        \<and> list_all check_reference (rd_artifacts r))
        (ValueError ''validation error for Run'')) (\<lambda>_. validate_run_identity sha r)"

subsection \<open>Reading a run document\<close>

definition all_states :: "stage_state list" where
  "all_states = [PENDING, RUNNING, COMPLETE, FAILED_RETRYABLE, FAILED_FINAL, INVALIDATED, SKIPPED_NOT_APPLICABLE]"

definition as_state :: "json \<Rightarrow> stage_state res" where
  "as_state v =
     (case v of
        JStr s \<Rightarrow> (case find (\<lambda>x. state_name x = s) all_states of
            Some x \<Rightarrow> Inr x | None \<Rightarrow> invalid ''Input should be a stage state'')
      | _ \<Rightarrow> invalid ''Input should be a stage state'')"

definition as_option :: "(json \<Rightarrow> 'a res) \<Rightarrow> json \<Rightarrow> 'a option res" where
  "as_option f v = (if v = JNull then Inr None else bindE (f v) (\<lambda>x. Inr (Some x)))"

definition reference_validate :: "json \<Rightarrow> artifact_reference res" where
  "reference_validate v =
     bindE (as_object [''source_key'', ''sha256'', ''byte_count'', ''media_type''] v) (\<lambda>d.
     bindE (field ''source_key'' (as_text (\<lambda>s. s \<noteq> [])) d) (\<lambda>key.
     bindE (field ''sha256'' (as_text is_sha256) d) (\<lambda>digest0.
     bindE (field ''byte_count'' (as_nat 0) d) (\<lambda>count.
     bindE (field ''media_type'' (as_text (\<lambda>s. s \<noteq> [])) d) (\<lambda>media.
       Inr \<lparr>ar_source_key = key, ar_sha256 = digest0, ar_byte_count = count, ar_media_type = media\<rparr>)))))"

definition stage_record_validate :: "json \<Rightarrow> stage_record res" where
  "stage_record_validate v =
     bindE (as_object [''state'', ''attempt_id'', ''output_hashes''] v) (\<lambda>d.
     bindE (field ''state'' as_state d) (\<lambda>state.
     bindE (field ''attempt_id'' (as_option (as_text is_identifier)) d) (\<lambda>attempt.
     bindE (field ''output_hashes'' (as_text_map is_identifier is_sha256) d) (\<lambda>hashes.
       Inr \<lparr>sr_state = state, sr_attempt_id = attempt, sr_output_hashes = hashes\<rparr>))))"

definition absolute_source_root :: "string \<Rightarrow> bool" where
  "absolute_source_root s \<longleftrightarrow>
     prefix ''/'' s \<or> prefix ''~/'' s \<or> prefix [CHR 0x5C, CHR 0x5C] s \<or>
     (3 \<le> length s \<and> take 2 (drop 1 s) \<in> {[CHR '':'', CHR 0x5C], '':/''})"

definition local_context_validate :: "json \<Rightarrow> local_run_context res" where
  "local_context_validate v =
     bindE (as_object [''source_roots'', ''host_name'', ''machine_id''] v) (\<lambda>d.
     bindE (field ''source_roots'' (as_list (as_text (\<lambda>s. s \<noteq> []))) d) (\<lambda>roots.
     bindE (field ''host_name'' (as_text (\<lambda>s. s \<noteq> [])) d) (\<lambda>host.
     bindE (field ''machine_id'' (as_text (\<lambda>s. s \<noteq> [])) d) (\<lambda>machine.
     bindE (ensure (list_all absolute_source_root roots)
        (ValueError ''local source roots must be absolute paths'')) (\<lambda>_.
       Inr \<lparr>lc_source_roots = roots, lc_host_name = host, lc_machine_id = machine\<rparr>)))))"

definition as_map :: "(json \<Rightarrow> 'a res) \<Rightarrow> json \<Rightarrow> (string \<times> 'a) list res" where
  "as_map f v =
     (case v of
        JDict kvs \<Rightarrow> mapE (\<lambda>(k, w). bindE (as_text is_identifier (JStr k)) (\<lambda>k'. bindE (f w) (\<lambda>x. Inr (k', x)))) kvs
      | _ \<Rightarrow> invalid ''Input should be a valid dictionary'')"

definition run_validate :: "(string \<Rightarrow> string) \<Rightarrow> json \<Rightarrow> run_document res" where
  "run_validate sha v =
     bindE (as_object [''schema_version'', ''run_id'', ''sequence_id'', ''road_graph_id'', ''profile_id'',
       ''engine_version'', ''configuration_hashes'', ''state'', ''stages'', ''artifacts'', ''local_context''] v) (\<lambda>d.
     bindE (field ''schema_version'' (as_text (\<lambda>s. s = ''cartosentry.run.v1'')) d) (\<lambda>_.
     bindE (field ''run_id'' (as_text is_stable_id) d) (\<lambda>run.
     bindE (field ''sequence_id'' (as_text is_stable_id) d) (\<lambda>sequence.
     bindE (field ''road_graph_id'' (as_text is_stable_id) d) (\<lambda>graph.
     bindE (field ''profile_id'' (as_text is_identifier) d) (\<lambda>profile.
     bindE (field ''engine_version'' (as_text is_semantic_version) d) (\<lambda>engine.
     bindE (field ''configuration_hashes'' (as_text_map is_identifier is_sha256) d) (\<lambda>configuration.
     bindE (field ''state'' as_state d) (\<lambda>state.
     bindE (field ''stages'' (as_map stage_record_validate) d) (\<lambda>stages.
     bindE (field ''artifacts'' (as_list reference_validate) d) (\<lambda>artifacts.
     bindE (case map_of d ''local_context'' of None \<Rightarrow> Inr None
              | Some w \<Rightarrow> as_option local_context_validate w) (\<lambda>context0.
       let r = \<lparr>rd_run_id = run, rd_sequence_id = sequence, rd_road_graph_id = graph,
                rd_profile_id = profile, rd_engine_version = engine,
                rd_configuration_hashes = configuration, rd_state = state, rd_stages = stages,
                rd_artifacts = artifacts, rd_local_context = context0\<rparr>
       in bindE (check_run sha r) (\<lambda>_. Inr r)))))))))))))"

text \<open>\<open>validate_artifact_json(text).portable_dict()\<close> on a text that must be a run: a document of
  another schema either fails its own validation or differs from the payload, a
  \<open>ValueError\<close> both ways.\<close>

definition recover_run :: "(string \<Rightarrow> string) \<Rightarrow> string \<Rightarrow> json res" where
  "recover_run sha text0 =
     bindE (decode_bounded_json text0 MAXIMUM_ARTIFACT_JSON_BYTES ''artifact JSON'') (\<lambda>v.
       case v of
         JDict kvs \<Rightarrow>
           (if map_of kvs ''schema_version'' = Some (JStr ''cartosentry.run.v1'')
            then bindE (run_validate sha v) run_portable_dict
            else Inl (ValueError ''unsupported artifact schema''))
       | _ \<Rightarrow> Inl (ValueError ''artifact JSON root must be an object''))"

definition canonicalize_run ::
  "(string \<Rightarrow> string) \<Rightarrow> (string \<Rightarrow> string \<Rightarrow> string res) \<Rightarrow> run_document \<Rightarrow> string res" where
  "canonicalize_run sha native r =
     bindE (run_portable_dict r) (\<lambda>payload.
     bindE (json_dumps payload) (\<lambda>source.
     bindE (native source ''cartosentry.run.v1'') (\<lambda>canonical.
     bindE (recover_run sha canonical) (\<lambda>recovered.
     bindE (ensure (canon recovered = canon payload)
       (ValueError ''native artifact round trip changed semantic content'')) (\<lambda>_. Inr canonical)))))"

section \<open>Exporting the state of a run\<close>

definition derive_run_state :: "stage_state list \<Rightarrow> stage_state" where
  "derive_run_state states =
     (if states \<noteq> [] \<and> list_all (\<lambda>s. s = COMPLETE \<or> s = SKIPPED_NOT_APPLICABLE) states then COMPLETE
      else if FAILED_FINAL \<in> set states then FAILED_FINAL
      else if RUNNING \<in> set states then RUNNING
      else if FAILED_RETRYABLE \<in> set states then FAILED_RETRYABLE
      else if INVALIDATED \<in> set states then INVALIDATED
      else PENDING)"

definition run_id_of :: "(string \<Rightarrow> string) \<Rightarrow> run_inputs \<Rightarrow> string res" where
  "run_id_of sha inputs =
     make_run_id sha (ri_sequence_id inputs) (ri_road_graph_id inputs) (ri_profile_id inputs)
       (ri_engine_version inputs) (ri_configuration_hashes inputs)"

definition run_of ::
  "run_inputs \<Rightarrow> stage_definition list \<Rightarrow> database \<Rightarrow> string \<Rightarrow> run_document res" where
  "run_of inputs definitions db run_id =
     bindE (mapE (\<lambda>d. bindE (stage_row db (sd_stage_id d)) (\<lambda>row.
              Inr (sd_stage_id d, \<lparr>sr_state = r_state row, sr_attempt_id = r_attempt_id row,
                     sr_output_hashes = artifact_hashes db (sd_stage_id d)\<rparr>))) definitions) (\<lambda>stages.
       Inr \<lparr>rd_run_id = run_id, rd_sequence_id = ri_sequence_id inputs,
            rd_road_graph_id = ri_road_graph_id inputs, rd_profile_id = ri_profile_id inputs,
            rd_engine_version = ri_engine_version inputs,
            rd_configuration_hashes = ri_configuration_hashes inputs,
            rd_state = derive_run_state (map snd (stage_states db)),
            rd_stages = stages,
            rd_artifacts = map (\<lambda>f. \<lparr>ar_source_key = f_relative_path f, ar_sha256 = f_sha256 f,
               ar_byte_count = f_byte_count f, ar_media_type = f_media_type f\<rparr>) (artifact_rows db),
            rd_local_context = None\<rparr>)"

definition run_document_bytes ::
  "(string \<Rightarrow> string) \<Rightarrow> (string \<Rightarrow> string \<Rightarrow> string res) \<Rightarrow> run_inputs \<Rightarrow> stage_definition list \<Rightarrow>
   database \<Rightarrow> string res" where
  "run_document_bytes sha native inputs definitions db =
     bindE (run_id_of sha inputs) (\<lambda>run_id.
     bindE (run_of inputs definitions db run_id) (\<lambda>run.
     bindE (check_run sha run) (\<lambda>_.
     bindE (canonicalize_run sha native run) (\<lambda>canonical.
     bindE (case json_loads (canonical @ [CHR 0x0A]) of Inr v \<Rightarrow> Inr v | Inl _ \<Rightarrow> invalid ''invalid JSON'')
       canonical_document))))"

end
