(* ===== verification/Steps.thy ===== *)
theory Steps
  imports Prelude
begin

text \<open>
  Programs with a durable state: a step takes the state to an outcome and a new state.  The
  outcome is a value, a raised exception, or the death of the process at a point where the state
  on disk is what it is at that moment.  \<open>triple\<close> is the partial-correctness judgement (one
  postcondition for a value, one for the two ways of not returning); with an unsatisfiable second
  postcondition it is total correctness, because a step is a function.  Its rules carry the
  proofs about the run engine.
\<close>

datatype 'a outcome = Done 'a | Raised exn | Killed

type_synonym ('s, 'a) step = "'s \<Rightarrow> 'a outcome \<times> 's"

definition ret :: "'a \<Rightarrow> ('s, 'a) step" where
  "ret x w = (Done x, w)"

definition bindS :: "('s, 'a) step \<Rightarrow> ('a \<Rightarrow> ('s, 'b) step) \<Rightarrow> ('s, 'b) step" where
  "bindS m f w =
     (case m w of
        (Done x, w') \<Rightarrow> f x w'
      | (Raised e, w') \<Rightarrow> (Raised e, w')
      | (Killed, w') \<Rightarrow> (Killed, w'))"

definition liftS :: "('s \<Rightarrow> 'a res) \<Rightarrow> ('s, 'a) step" where
  "liftS g w = (case g w of Inl e \<Rightarrow> (Raised e, w) | Inr x \<Rightarrow> (Done x, w))"

definition modifyS :: "('s \<Rightarrow> ('s \<times> 'a) res) \<Rightarrow> ('s, 'a) step" where
  "modifyS g w = (case g w of Inl e \<Rightarrow> (Raised e, w) | Inr (w', x) \<Rightarrow> (Done x, w'))"

text \<open>\<open>try: m except BaseException: h; raise\<close>; a dead process runs no handler.\<close>

definition cleanup :: "('s, 'a) step \<Rightarrow> ('s, unit) step \<Rightarrow> ('s, 'a) step" where
  "cleanup m h w =
     (case m w of
        (Raised e, w') \<Rightarrow>
          (case h w' of
             (Done _, w'') \<Rightarrow> (Raised e, w'')
           | (Raised e', w'') \<Rightarrow> (Raised e', w'')
           | (Killed, w'') \<Rightarrow> (Killed, w''))
      | r \<Rightarrow> r)"

text \<open>\<open>for x in xs: ...\<close> with an accumulator.\<close>

fun foldS :: "('x \<Rightarrow> 'a \<Rightarrow> ('s, 'a) step) \<Rightarrow> 'x list \<Rightarrow> 'a \<Rightarrow> ('s, 'a) step" where
  "foldS f [] acc = ret acc"
| "foldS f (x # xs) acc = bindS (f x acc) (foldS f xs)"

section \<open>Partial correctness\<close>

fun meets :: "('a \<Rightarrow> 's \<Rightarrow> bool) \<Rightarrow> ('s \<Rightarrow> bool) \<Rightarrow> 'a outcome \<times> 's \<Rightarrow> bool" where
  "meets Q R (Done x, w) \<longleftrightarrow> Q x w"
| "meets Q R (Raised e, w) \<longleftrightarrow> R w"
| "meets Q R (Killed, w) \<longleftrightarrow> R w"

definition triple :: "('s \<Rightarrow> bool) \<Rightarrow> ('s, 'a) step \<Rightarrow> ('a \<Rightarrow> 's \<Rightarrow> bool) \<Rightarrow> ('s \<Rightarrow> bool) \<Rightarrow> bool" where
  "triple P m Q R \<longleftrightarrow> (\<forall>w. P w \<longrightarrow> meets Q R (m w))"

lemma tripleD: "triple P m Q R \<Longrightarrow> P w \<Longrightarrow> meets Q R (m w)"
  by (simp add: triple_def)

lemma outcome_exhaust:
  obtains x w' where "r = (Done x, w')" | e w' where "r = (Raised e, w')" | w' where "r = (Killed, w')"
  by (cases r) (metis outcome.exhaust)

lemma triple_ret: "(\<And>w. P w \<Longrightarrow> Q x w) \<Longrightarrow> triple P (ret x) Q R"
  by (simp add: triple_def ret_def)

lemma triple_bind:
  assumes "triple P m M R" and "\<And>x. triple (M x) (f x) Q R"
  shows "triple P (bindS m f) Q R"
  unfolding triple_def
proof (intro allI impI)
  fix w assume w: "P w"
  show "meets Q R (bindS m f w)"
    by (rule outcome_exhaust [of "m w"])
      (use tripleD [OF assms(1) w] tripleD [OF assms(2)] in \<open>auto simp: bindS_def\<close>)
qed

lemma triple_lift:
  "(\<And>w x. P w \<Longrightarrow> g w = Inr x \<Longrightarrow> Q x w) \<Longrightarrow> (\<And>w e. P w \<Longrightarrow> g w = Inl e \<Longrightarrow> R w) \<Longrightarrow> triple P (liftS g) Q R"
  by (auto simp: triple_def liftS_def split: sum.split)

lemma triple_modify:
  "(\<And>w w' x. P w \<Longrightarrow> g w = Inr (w', x) \<Longrightarrow> Q x w') \<Longrightarrow> (\<And>w e. P w \<Longrightarrow> g w = Inl e \<Longrightarrow> R w) \<Longrightarrow>
   triple P (modifyS g) Q R"
  by (auto simp: triple_def modifyS_def split: sum.split)

lemma triple_cleanup:
  assumes "triple P m Q M" and "triple M h (\<lambda>_. R) R" and "\<And>w. M w \<Longrightarrow> R w"
  shows "triple P (cleanup m h) Q R"
  unfolding triple_def
proof (intro allI impI)
  fix w assume w: "P w"
  show "meets Q R (cleanup m h w)"
  proof (rule outcome_exhaust [of "m w"])
    fix e w' assume m: "m w = (Raised e, w')"
    then have "M w'" using tripleD [OF assms(1) w] by simp
    show ?thesis
      by (rule outcome_exhaust [of "h w'"])
        (use m tripleD [OF assms(2) \<open>M w'\<close>] in \<open>auto simp: cleanup_def\<close>)
  qed (use tripleD [OF assms(1) w] assms(3) in \<open>auto simp: cleanup_def\<close>)
qed

lemma triple_weaken:
  assumes "triple P m Q R" and "\<And>w. P' w \<Longrightarrow> P w" and "\<And>x w. Q x w \<Longrightarrow> Q' x w" and "\<And>w. R w \<Longrightarrow> R' w"
  shows "triple P' m Q' R'"
  unfolding triple_def
proof (intro allI impI)
  fix w assume "P' w"
  then show "meets Q' R' (m w)"
    by (rule_tac outcome_exhaust [of "m w"]) (use tripleD [OF assms(1)] assms(2-4) in force)+
qed

lemma triple_if:
  "(b \<Longrightarrow> triple P m Q R) \<Longrightarrow> (\<not> b \<Longrightarrow> triple P m' Q R) \<Longrightarrow> triple P (if b then m else m') Q R"
  by simp

lemma triple_fold:
  assumes "\<And>x acc. x \<in> set xs \<Longrightarrow> triple (I acc) (f x acc) I R"
  shows "triple (I acc) (foldS f xs acc) I R"
  using assms by (induction xs arbitrary: acc) (auto intro: triple_ret triple_bind)

lemma triple_pre: "(\<And>w. P w \<Longrightarrow> triple (\<lambda>w'. w' = w) m Q R) \<Longrightarrow> triple P m Q R"
  by (simp add: triple_def)

lemma triple_fold_prefix:
  assumes "\<And>xs x ys acc. ds = xs @ x # ys \<Longrightarrow> triple (I xs acc) (f x acc) (I (xs @ [x])) R"
  shows "triple (I [] acc) (foldS f ds acc) (I ds) R"
proof -
  have "triple (I xs acc) (foldS f ys acc) (I ds) R" if "ds = xs @ ys" for xs ys acc
    using that
  proof (induction ys arbitrary: xs acc)
    case Nil
    then show ?case by (auto intro: triple_ret)
  next
    case (Cons y ys)
    have "triple (I xs acc) (f y acc) (I (xs @ [y])) R" by (rule assms) (rule Cons.prems)
    then show ?case using Cons.IH [of "xs @ [y]"] Cons.prems by (auto intro: triple_bind)
  qed
  from this [of "[]" ds acc] show ?thesis by simp
qed

lemma triple_absurd: "(\<And>w. P w \<Longrightarrow> False) \<Longrightarrow> triple P m Q R"
  by (auto simp: triple_def)

lemma triple_pointwise: "(\<And>w. P w \<Longrightarrow> meets Q R (m w)) \<Longrightarrow> triple P m Q R"
  by (simp add: triple_def)

text \<open>A fact about a value that holds in every state becomes a hypothesis of what follows.\<close>

lemma triple_fact: "(V \<Longrightarrow> triple P m Q R) \<Longrightarrow> triple (\<lambda>w. P w \<and> V) m Q R"
  by (cases V) (simp_all add: triple_def)

lemma triple_bind_fact:
  "triple P m (\<lambda>x w. M x w \<and> V x) R \<Longrightarrow> (\<And>x. V x \<Longrightarrow> triple (M x) (f x) Q R) \<Longrightarrow> triple P (bindS m f) Q R"
  by (rule triple_bind) (assumption, rule triple_fact)

lemma triple_conj:
  assumes "triple P m Q R" and "triple P' m Q' R'"
  shows "triple (\<lambda>w. P w \<and> P' w) m (\<lambda>x w. Q x w \<and> Q' x w) (\<lambda>w. R w \<and> R' w)"
proof (rule triple_pointwise)
  fix w assume "P w \<and> P' w"
  then show "meets (\<lambda>x w. Q x w \<and> Q' x w) (\<lambda>w. R w \<and> R' w) (m w)"
    using tripleD [OF assms(1), of w] tripleD [OF assms(2), of w]
    by (rule_tac outcome_exhaust [of "m w"]) auto
qed

text \<open>\<open>returns Q m\<close>: whatever the state, a value of \<open>m\<close> satisfies \<open>Q\<close>.\<close>

definition returns :: "('a \<Rightarrow> bool) \<Rightarrow> ('s, 'a) step \<Rightarrow> bool" where
  "returns Q m \<longleftrightarrow> triple (\<lambda>_. True) m (\<lambda>x _. Q x) (\<lambda>_. True)"

lemma returns_ret: "Q x \<Longrightarrow> returns Q (ret x)"
  by (simp add: returns_def triple_ret)

lemma returns_any: "returns (\<lambda>_. True) m"
  unfolding returns_def
proof (rule triple_pointwise)
  fix w show "meets (\<lambda>x _. True) (\<lambda>_. True) (m w)" by (rule outcome_exhaust [of "m w"]) auto
qed

lemma returns_bind: "returns M m \<Longrightarrow> (\<And>x. M x \<Longrightarrow> returns Q (f x)) \<Longrightarrow> returns Q (bindS m f)"
  unfolding returns_def by (rule triple_bind, assumption) (auto simp: triple_def)

lemma returns_then: "(\<And>x. returns Q (f x)) \<Longrightarrow> returns Q (bindS m f)"
  by (rule returns_bind [OF returns_any])

lemma returns_lift: "(\<And>w x. g w = Inr x \<Longrightarrow> Q x) \<Longrightarrow> returns Q (liftS g)"
  unfolding returns_def by (rule triple_lift) auto

lemma returns_if: "(b \<Longrightarrow> returns Q m) \<Longrightarrow> (\<not> b \<Longrightarrow> returns Q m') \<Longrightarrow> returns Q (if b then m else m')"
  by simp

lemma returns_raise: "returns Q (\<lambda>w. (Raised e, w))"
  by (simp add: returns_def triple_def)

text \<open>A step that chooses its continuation by looking at the state.\<close>

lemma returns_choice: "(\<And>w. \<exists>m'. returns Q m' \<and> m w = m' w) \<Longrightarrow> returns Q m"
  unfolding returns_def triple_def by metis

lemma returns_fold:
  "(\<And>x acc. x \<in> set xs \<Longrightarrow> Q acc \<Longrightarrow> returns Q (f x acc)) \<Longrightarrow> Q acc \<Longrightarrow> returns Q (foldS f xs acc)"
  by (induction xs arbitrary: acc) (auto intro: returns_ret returns_bind)

lemma triple_returns:
  assumes "triple P m Q R" and "returns V m"
  shows "triple P m (\<lambda>x w. Q x w \<and> V x) R"
  using triple_conj [OF assms(1) assms(2) [unfolded returns_def]] by simp

text \<open>\<open>keeps f m\<close>: whatever its outcome, \<open>m\<close> leaves the part \<open>f\<close> of the state alone.\<close>

named_theorems keeps_intros "steps that leave a part of the state alone"

definition keeps :: "('s \<Rightarrow> 'b) \<Rightarrow> ('s, 'a) step \<Rightarrow> bool" where
  "keeps f m \<longleftrightarrow> (\<forall>w. f (snd (m w)) = f w)"

lemma keepsD: "keeps f m \<Longrightarrow> m w = (r, w') \<Longrightarrow> f w' = f w"
  unfolding keeps_def by (metis snd_conv)

lemma keeps_ret [keeps_intros]: "keeps f (ret x)"
  by (simp add: keeps_def ret_def)

lemma keeps_lift [keeps_intros]: "keeps f (liftS g)"
  by (simp add: keeps_def liftS_def split: sum.split)

lemma keeps_modify: "(\<And>w w' x. g w = Inr (w', x) \<Longrightarrow> f w' = f w) \<Longrightarrow> keeps f (modifyS g)"
  by (auto simp: keeps_def modifyS_def split: sum.split)

lemma keeps_bind [keeps_intros]:
  assumes "keeps f m" and "\<And>x. keeps f (g x)"
  shows "keeps f (bindS m g)"
  unfolding keeps_def
proof
  fix w
  have m: "f (snd (m w)) = f w" and g: "f (snd (g x w')) = f w'" for x w'
    using assms by (simp_all add: keeps_def)
  show "f (snd (bindS m g w)) = f w"
    by (rule outcome_exhaust [of "m w"]) (use m g in \<open>simp_all add: bindS_def\<close>)
qed

lemma keeps_if [keeps_intros]: "(b \<Longrightarrow> keeps f m) \<Longrightarrow> (\<not> b \<Longrightarrow> keeps f m') \<Longrightarrow> keeps f (if b then m else m')"
  by simp

lemma keeps_cleanup [keeps_intros]:
  assumes "keeps f m" and "keeps f h"
  shows "keeps f (cleanup m h)"
  unfolding keeps_def
proof
  fix w
  have m: "f (snd (m w)) = f w" and h: "f (snd (h w')) = f w'" for w'
    using assms by (simp_all add: keeps_def)
  show "f (snd (cleanup m h w)) = f w"
  proof (rule outcome_exhaust [of "m w"])
    fix e w' assume "m w = (Raised e, w')"
    then show ?thesis
      by (rule_tac outcome_exhaust [of "h w'"]) (use m h [of w'] in \<open>simp_all add: cleanup_def\<close>)
  qed (use m in \<open>simp_all add: cleanup_def\<close>)
qed

lemma keeps_fold [keeps_intros]: "(\<And>x acc. keeps f (g x acc)) \<Longrightarrow> keeps f (foldS g xs acc)"
  by (induction xs arbitrary: acc) (auto intro: keeps_ret keeps_bind)

lemma keeps_choice: "(\<And>w. \<exists>m'. keeps f m' \<and> m w = m' w) \<Longrightarrow> keeps f m"
  unfolding keeps_def by metis

lemma keeps_raise: "keeps f (\<lambda>w. (Raised e, w))"
  by (simp add: keeps_def)

lemma keeps_triple: "keeps f m \<Longrightarrow> triple (\<lambda>w. f w = c) m (\<lambda>_ w. f w = c) (\<lambda>w. f w = c)"
proof (rule triple_pointwise)
  fix w assume "keeps f m" and "f w = c"
  then have "f (snd (m w)) = c" by (simp add: keeps_def)
  then show "meets (\<lambda>_ w. f w = c) (\<lambda>w. f w = c) (m w)"
    by (rule_tac outcome_exhaust [of "m w"]) simp_all
qed

end
