(* ===== verification/RunEngine.thy ===== *)
theory RunEngine
  imports RunArtifact Steps
begin

text \<open>
  The class \<^verbatim>\<open>RunEngine\<close> of \<^verbatim>\<open>python/cartosentry/runstate.py\<close> as steps on
  a \<open>world\<close>: the database and the files below the run root.  \<open>w_attempts\<close> is
  \<^verbatim>\<open>.attempts/\<close>, \<open>w_published (s, c)\<close> is \<^verbatim>\<open>artifacts/s/c\<close>,
  \<open>w_completions s\<close> is \<^verbatim>\<open>completions/s.json\<close>; a directory of an attempt is the list
  of its files by relative path.  The crash callback of the code is a function from a commit
  boundary and a stage to a signal: go on, die, or raise.  Every write the code makes durable
  before a boundary is in the world at that boundary, so a killed process leaves exactly the world
  of its outcome \<open>Killed\<close>.
\<close>

section \<open>The world\<close>

type_synonym dir = "(string \<times> fs_node) list"

datatype dir_entry = RealDirectory dir | OtherEntry

datatype cache_root = CacheRoot "(string \<times> dir_entry) list" | BadRoot

record world =
  w_inputs :: fs_node
  w_locked :: bool
  w_database :: database
  w_quick_check :: bool
  w_attempts :: "(string \<times> dir) list"
  w_published :: "string \<times> string \<Rightarrow> cache_root option"
  w_completions :: "string \<Rightarrow> fs_node"
  w_run_artifact :: fs_node
  w_draws :: nat
  w_begun :: "string list"

record env =
  en_sha :: "string \<Rightarrow> string"
  en_uuid :: "nat \<Rightarrow> string"
  en_native :: "string \<Rightarrow> string \<Rightarrow> string res"
  en_inputs :: run_inputs
  en_definitions :: "stage_definition list"

datatype signal = Continue | Kill | Throw exn

type_synonym crash_callback = "commit_boundary \<Rightarrow> string \<Rightarrow> signal"

type_synonym 'a run = "(world, 'a) step"

definition no_crash :: crash_callback where
  "no_crash b s = Continue"

definition callback :: "crash_callback \<Rightarrow> commit_boundary \<Rightarrow> string \<Rightarrow> unit run" where
  "callback cb b s w = (case cb b s of Continue \<Rightarrow> (Done (), w) | Kill \<Rightarrow> (Killed, w) | Throw e \<Rightarrow> (Raised e, w))"

definition in_database :: "(database \<Rightarrow> database res) \<Rightarrow> unit run" where
  "in_database f = modifyS (\<lambda>w. bindE (f (w_database w)) (\<lambda>db. Inr (w\<lparr>w_database := db\<rparr>, ())))"

definition query :: "(database \<Rightarrow> 'a res) \<Rightarrow> 'a run" where
  "query f = liftS (\<lambda>w. f (w_database w))"

subsection \<open>Files of an attempt\<close>

definition is_directory_in :: "dir \<Rightarrow> string \<Rightarrow> bool" where
  "is_directory_in d p \<longleftrightarrow> list_ex (\<lambda>(q, _). prefix (p @ ''/'') q) d"

definition lookup :: "dir \<Rightarrow> string \<Rightarrow> fs_node" where
  "lookup d p =
     (case map_of d p of
        Some n \<Rightarrow> n
      | None \<Rightarrow> (if is_directory_in d p then Directory else NoEntry))"

definition ancestors :: "string \<Rightarrow> string list" where
  "ancestors p =
     (let parts = split_on (CHR ''/'') p
      in map (\<lambda>k. join_with ''/'' (take k parts)) [1..<length parts])"

text \<open>\<open>_write_bytes\<close>: the parent directories are made (a file in their place is an error),
  and the file is opened with mode \<open>xb\<close>.\<close>

definition write_bytes :: "dir \<Rightarrow> string \<Rightarrow> string \<Rightarrow> dir res" where
  "write_bytes d p content =
     (if list_ex (\<lambda>a. map_of d a \<noteq> None) (ancestors p) then Inl (OSError ''Not a directory'')
      else if lookup d p \<noteq> NoEntry then Inl (FileExistsError p)
      else Inr (d @ [(p, RegularFile content)]))"

section \<open>Dependencies and cache keys\<close>

definition closure_pass :: "stage_definition list \<Rightarrow> string list \<Rightarrow> string list" where
  "closure_pass definitions affected0 =
     foldl (\<lambda>affected item.
        if sd_stage_id item \<in> set affected then affected
        else if list_ex (\<lambda>upstream. upstream \<in> set affected) (sd_dependencies item)
        then affected @ [sd_stage_id item] else affected) affected0 definitions"

lemma closure_pass_append: "\<exists>new. closure_pass ds a = a @ new \<and> set new \<subseteq> set (map sd_stage_id ds) \<and> set new \<inter> set a = {}"
proof (induction ds rule: rev_induct)
  case (snoc d ds)
  then obtain new where "closure_pass ds a = a @ new" "set new \<subseteq> set (map sd_stage_id ds)" "set new \<inter> set a = {}"
    by blast
  then show ?case by (auto simp: closure_pass_def)
qed (simp add: closure_pass_def)

function closure_loop :: "stage_definition list \<Rightarrow> string list \<Rightarrow> string list" where
  "closure_loop definitions affected =
     (let affected' = closure_pass definitions affected
      in if affected' = affected then affected else closure_loop definitions affected')"
  by pat_completeness auto
termination
proof (relation "measure (\<lambda>(ds, a). card (set (map sd_stage_id ds) - set a))")
  fix ds a a'
  assume a': "a' = closure_pass ds a" and ne: "a' \<noteq> a"
  obtain new where n: "closure_pass ds a = a @ new" "set new \<subseteq> set (map sd_stage_id ds)" "set new \<inter> set a = {}"
    using closure_pass_append by blast
  with a' ne obtain x where x: "x \<in> set new" by (cases new) auto
  have "set (map sd_stage_id ds) - set a' \<subset> set (map sd_stage_id ds) - set a"
    using n x a' by auto
  then show "((ds, a'), (ds, a)) \<in> measure (\<lambda>(ds, a). card (set (map sd_stage_id ds) - set a))"
    by (simp add: psubset_card_mono)
qed simp

declare closure_loop.simps [simp del]

definition dependency_closure :: "stage_definition list \<Rightarrow> string \<Rightarrow> string list res" where
  "dependency_closure definitions stage_id =
     (if stage_id \<notin> set (map sd_stage_id definitions)
      then Inl (ValueError (''unknown stage: '' @ stage_id))
      else Inr (filter (\<lambda>s. s \<in> set (closure_loop definitions [stage_id])) (map sd_stage_id definitions)))"

definition upstream_hashes :: "database \<Rightarrow> stage_definition \<Rightarrow> (string \<times> string) list res" where
  "upstream_hashes db definition0 =
     foldl (\<lambda>acc upstream.
        bindE acc (\<lambda>hashes.
        bindE (stage_row db upstream) (\<lambda>row.
          if r_state row \<noteq> COMPLETE then Inl (ValueError ''upstream stage is incomplete'')
          else Inr (foldl (\<lambda>h (artifact_key, digest0). alist_put (upstream @ '':'' @ artifact_key) digest0 h)
                     hashes (artifact_hashes db upstream)))))
       (Inr []) (sd_dependencies definition0)"

definition relevant_configuration :: "run_inputs \<Rightarrow> stage_definition \<Rightarrow> (string \<times> string) list res" where
  "relevant_configuration inputs definition0 =
     mapE (\<lambda>key. case map_of (ri_configuration_hashes inputs) key of
        None \<Rightarrow> Inl (ValueError (''stage '' @ sd_stage_id definition0 @ '' requires configuration hash '' @ key))
      | Some h \<Rightarrow> Inr (key, h)) (sd_relevant_configuration_keys definition0)"

definition stage_key :: "env \<Rightarrow> stage_definition \<Rightarrow> (string \<times> string) list \<Rightarrow> string res" where
  "stage_key env definition0 upstream =
     bindE (relevant_configuration (en_inputs env) definition0) (\<lambda>relevant.
       build_stage_cache_key (en_sha env) (ri_workflow_id (en_inputs env)) (sd_stage_id definition0)
         (ri_source_hashes (en_inputs env)) upstream relevant (sd_algorithm_version definition0)
         (ri_numerical_backend (en_inputs env)))"

definition cache_key :: "env \<Rightarrow> database \<Rightarrow> stage_definition \<Rightarrow> string res" where
  "cache_key env db definition0 =
     bindE (relevant_configuration (en_inputs env) definition0) (\<lambda>_.
     bindE (upstream_hashes db definition0) (stage_key env definition0))"

section \<open>Published attempts\<close>

definition ATTEMPT_MANIFEST_FILE :: string where
  "ATTEMPT_MANIFEST_FILE = ''attempt-manifest.json''"

record published_attempt =
  pa_name :: string
  pa_manifest :: attempt_manifest
  pa_manifest_sha256 :: string

definition verify_artifact :: "(string \<Rightarrow> string) \<Rightarrow> dir \<Rightarrow> manifest_entry \<Rightarrow> unit res" where
  "verify_artifact sha d e =
     bindE (hash_regular_file sha (lookup d (e_relative_path e)) (e_byte_count e)) (\<lambda>h.
       ensure (h = e_sha256 e) (ArtifactIntegrityError ''published artifact hash mismatch''))"

definition verify_attempt_directory ::
  "(string \<Rightarrow> string) \<Rightarrow> string \<Rightarrow> dir \<Rightarrow> published_attempt res" where
  "verify_attempt_directory sha name d =
     bindE (raise_from (\<lambda>e. is_integrity_error e \<or> is_value_error e)
         (ArtifactIntegrityError ''attempt manifest is invalid'')
         (bindE (read_bounded_regular_file (lookup d ATTEMPT_MANIFEST_FILE) MAX_CONTROL_FILE_BYTES)
            (\<lambda>b. bindE (parse_attempt_manifest_bytes b) (\<lambda>m. Inr (b, m))))) (\<lambda>(b, m).
     bindE (ensure (name = m_attempt_id m) (ArtifactIntegrityError ''attempt directory identity mismatch'')) (\<lambda>_.
     bindE (mapE (verify_artifact sha d) (m_artifacts m)) (\<lambda>_.
       Inr \<lparr>pa_name = name, pa_manifest = m, pa_manifest_sha256 = sha b\<rparr>)))"

definition check_candidate ::
  "env \<Rightarrow> stage_definition \<Rightarrow> string \<Rightarrow> string \<times> dir_entry \<Rightarrow> published_attempt res" where
  "check_candidate env definition0 cache candidate =
     (case candidate of
        (name, OtherEntry) \<Rightarrow> Inl (ArtifactIntegrityError ''published attempt entry is invalid'')
      | (name, RealDirectory d) \<Rightarrow>
          bindE (verify_attempt_directory (en_sha env) name d) (\<lambda>attempt.
          let m = pa_manifest attempt in
          if m_workflow_id m \<noteq> ri_workflow_id (en_inputs env) \<or> m_stage_id m \<noteq> sd_stage_id definition0
             \<or> m_cache_key m \<noteq> cache
          then Inl (ArtifactIntegrityError ''published attempt identity mismatch'')
          else if map e_artifact_key (m_artifacts m) \<noteq> sort (sd_output_keys definition0)
          then Inl (ArtifactIntegrityError ''published attempt output contract mismatch'')
          else Inr attempt))"

definition fingerprint :: "published_attempt \<Rightarrow> (string \<times> string \<times> nat) list" where
  "fingerprint attempt =
     map (\<lambda>e. (e_artifact_key e, e_sha256 e, e_byte_count e)) (m_artifacts (pa_manifest attempt))"

definition attempt_rank :: "published_attempt \<Rightarrow> nat \<times> string" where
  "attempt_rank attempt = (m_attempt_number (pa_manifest attempt), m_attempt_id (pa_manifest attempt))"

text \<open>\<open>max(attempts, key=...)\<close>: the first attempt of maximal rank.\<close>

fun latest :: "published_attempt \<Rightarrow> published_attempt list \<Rightarrow> published_attempt" where
  "latest best [] = best"
| "latest best (a # attempts) = latest (if attempt_rank best < attempt_rank a then a else best) attempts"

definition select_published ::
  "env \<Rightarrow> stage_definition \<Rightarrow> string \<Rightarrow> world \<Rightarrow> published_attempt option res" where
  "select_published env definition0 cache w =
     (case w_published w (sd_stage_id definition0, cache) of
        None \<Rightarrow> Inr None
      | Some BadRoot \<Rightarrow> Inl (ArtifactIntegrityError ''published cache root is invalid'')
      | Some (CacheRoot entries) \<Rightarrow>
          bindE (mapE (check_candidate env definition0 cache) (sort_key fst entries)) (\<lambda>attempts.
            case attempts of
              [] \<Rightarrow> Inr None
            | first # rest \<Rightarrow>
                (if list_all (\<lambda>a. fingerprint a = fingerprint first) rest
                 then Inr (Some (latest first rest))
                 else Inl (ArtifactIntegrityError
                   ''one cache key produced different immutable artifact bytes''))))"

definition published_directory :: "string \<Rightarrow> string \<Rightarrow> string \<Rightarrow> string" where
  "published_directory s cache name = ''artifacts/'' @ s @ ''/'' @ cache @ ''/'' @ name"

text \<open>\<open>_publish_pointer\<close>: whether the pointer was (re)written.\<close>

definition existing_pointer :: "fs_node \<Rightarrow> completion_pointer option res" where
  "existing_pointer node =
     (case bindE (read_bounded_regular_file node MAX_CONTROL_FILE_BYTES) parse_completion_pointer_bytes of
        Inr p \<Rightarrow> Inr (Some p)
      | Inl e \<Rightarrow> (if is_integrity_error e \<or> is_value_error e then Inr None else Inl e))"

definition pointer_of :: "env \<Rightarrow> published_attempt \<Rightarrow> completion_pointer" where
  "pointer_of env attempt =
     (let m = pa_manifest attempt in
      \<lparr>p_workflow_id = ri_workflow_id (en_inputs env), p_stage_id = m_stage_id m,
       p_cache_key = m_cache_key m, p_attempt_id = m_attempt_id m, p_attempt_number = m_attempt_number m,
       p_artifact_directory = published_directory (m_stage_id m) (m_cache_key m) (pa_name attempt),
       p_attempt_manifest_sha256 = pa_manifest_sha256 attempt\<rparr>)"

definition publish_pointer :: "env \<Rightarrow> published_attempt \<Rightarrow> bool run" where
  "publish_pointer env attempt = modifyS (\<lambda>w.
     let pointer = pointer_of env attempt; s = m_stage_id (pa_manifest attempt) in
     bindE (check_pointer pointer) (\<lambda>_.
     bindE (if w_completions w s = NoEntry then Inr None else existing_pointer (w_completions w s)) (\<lambda>existing.
       if existing = Some pointer then Inr (w, False)
       else bindE (canonical_document (pointer_dump pointer)) (\<lambda>document.
              Inr (w\<lparr>w_completions := (w_completions w)(s := RegularFile document)\<rparr>, True)))))"

section \<open>The run document\<close>

definition export_run_artifact :: "env \<Rightarrow> unit run" where
  "export_run_artifact env = modifyS (\<lambda>w.
     bindE (run_document_bytes (en_sha env) (en_native env) (en_inputs env) (en_definitions env) (w_database w))
       (\<lambda>document. if w_run_artifact w = Directory then Inl (OSError ''Is a directory'')
                    else Inr (w\<lparr>w_run_artifact := RegularFile document\<rparr>, ())))"

section \<open>Reconciliation\<close>

record action_record =
  ac_stage_id :: string
  ac_action :: stage_action
  ac_detail :: string

definition action_record :: "string \<Rightarrow> stage_action \<Rightarrow> string \<Rightarrow> action_record res" where
  "action_record s a detail =
     (if is_identifier s then Inr \<lparr>ac_stage_id = s, ac_action = a, ac_detail = detail\<rparr>
      else Inl (ValueError ''validation error for StageActionRecord''))"

definition add_action ::
  "string \<Rightarrow> stage_action \<Rightarrow> string \<Rightarrow> action_record list \<Rightarrow> action_record list run" where
  "add_action s a detail actions = liftS (\<lambda>_. bindE (action_record s a detail) (\<lambda>r. Inr (actions @ [r])))"

definition dependencies_complete :: "database \<Rightarrow> stage_definition \<Rightarrow> bool res" where
  "dependencies_complete db definition0 =
     bindE (mapE (stage_row db) (sd_dependencies definition0))
       (\<lambda>rows. Inr (list_all (\<lambda>row. r_state row = COMPLETE) rows))"

text \<open>One iteration of the loop of \<open>reconcile\<close>; the accumulator holds the actions and the
  invalidated stages.\<close>

type_synonym reconciliation = "action_record list \<times> string list"

definition adopt_published ::
  "env \<Rightarrow> stage_definition \<Rightarrow> string \<Rightarrow> stage_row \<Rightarrow> published_attempt \<Rightarrow> reconciliation \<Rightarrow> reconciliation run" where
  "adopt_published env definition0 cache row published acc =
     bindS (publish_pointer env published) (\<lambda>repaired.
     let s = sd_stage_id definition0; m = pa_manifest published;
         was_complete = (r_state row = COMPLETE \<and> r_attempt_id row = Some (m_attempt_id m))
     in bindS (in_database (\<lambda>db. record_complete db m (pa_manifest_sha256 published)
                 (published_directory s cache (pa_name published)))) (\<lambda>_.
        if repaired then
          bindS (add_action s REPAIRED_POINTER ''Rebuilt the completion pointer from verified hashes.'' (fst acc))
            (\<lambda>actions. ret (actions, snd acc))
        else if \<not> was_complete then
          bindS (add_action s ADOPTED_PUBLISHED ''Adopted a verified filesystem publish into SQLite.'' (fst acc))
            (\<lambda>actions. ret (actions, snd acc))
        else ret acc))"

definition settle_unpublished ::
  "stage_definition \<Rightarrow> stage_row \<Rightarrow> reconciliation \<Rightarrow> reconciliation run" where
  "settle_unpublished definition0 row acc =
     (let s = sd_stage_id definition0 in
      if r_state row = COMPLETE then
        bindS (in_database (\<lambda>db. mark_state db s FAILED_FINAL (Some ''PUBLISHED_ARTIFACT_MISSING''))) (\<lambda>_.
        bindS (add_action s ACTION_FAILED_FINAL
                 ''SQLite recorded completion but verified artifacts are missing.'' (fst acc))
          (\<lambda>actions. ret (actions, snd acc)))
      else if r_state row = RUNNING then
        bindS (in_database (\<lambda>db. mark_state db s FAILED_RETRYABLE (Some ''INTERRUPTED_ATTEMPT''))) (\<lambda>_.
        bindS (add_action s INTERRUPTED_RETRY
                 ''A running attempt ended before immutable publication.'' (fst acc))
          (\<lambda>actions. ret (actions, snd acc)))
      else ret acc)"

definition invalidate_closure ::
  "env \<Rightarrow> string \<Rightarrow> reconciliation \<Rightarrow> reconciliation run" where
  "invalidate_closure env s acc =
     bindS (liftS (\<lambda>_. dependency_closure (en_definitions env) s)) (\<lambda>scope.
     bindS (in_database (\<lambda>db. invalidate db scope False)) (\<lambda>_.
       ret (fst acc, snd acc @ scope)))"

definition settle_stage ::
  "env \<Rightarrow> stage_definition \<Rightarrow> string \<Rightarrow> reconciliation \<Rightarrow> reconciliation run" where
  "settle_stage env definition0 expected_cache acc =
     (let s = sd_stage_id definition0 in
      bindS (query (\<lambda>db. stage_row db s)) (\<lambda>row w.
        (case select_published env definition0 expected_cache w of
           Inl e \<Rightarrow>
             (if is_integrity_error e then
                bindS (in_database (\<lambda>db. mark_state db s FAILED_FINAL (Some ''ARTIFACT_INTEGRITY''))) (\<lambda>_.
                bindS (add_action s ACTION_FAILED_FINAL
                         ''Published immutable artifacts failed hash validation.'' (fst acc))
                  (\<lambda>actions. ret (actions, snd acc))) w
              else (Raised e, w))
         | Inr published \<Rightarrow>
             (case published of
                Some attempt \<Rightarrow>
                  (if r_required_attempt_number row \<le> m_attempt_number (pa_manifest attempt)
                   then adopt_published env definition0 expected_cache row attempt acc w
                   else settle_unpublished definition0 row acc w)
              | None \<Rightarrow> settle_unpublished definition0 row acc w))))"

definition reconcile_stage :: "env \<Rightarrow> stage_definition \<Rightarrow> reconciliation \<Rightarrow> reconciliation run" where
  "reconcile_stage env definition0 acc =
     (let s = sd_stage_id definition0 in
      bindS (query (\<lambda>db. stage_row db s)) (\<lambda>row.
      bindS (query (\<lambda>db. dependencies_complete db definition0)) (\<lambda>ready.
        if \<not> ready then
          (if r_state row = COMPLETE then invalidate_closure env s acc else ret acc)
        else
          bindS (query (\<lambda>db. cache_key env db definition0)) (\<lambda>expected_cache.
            if r_state row = COMPLETE \<and> r_cache_key row \<noteq> Some expected_cache then
              bindS (invalidate_closure env s acc) (\<lambda>acc.
              bindS (add_action s INVALIDATED_CACHE
                       ''Semantic cache inputs changed for this dependency closure.'' (fst acc)) (\<lambda>actions.
                settle_stage env definition0 expected_cache (actions, snd acc)))
            else settle_stage env definition0 expected_cache acc))))"

text \<open>The stages invalidated along the way get an action of their own; the code walks a set, the
  model the list in the order of insertion.\<close>

definition note_invalidated :: "string \<Rightarrow> action_record list \<Rightarrow> action_record list run" where
  "note_invalidated s actions =
     (if list_ex (\<lambda>a. ac_stage_id a = s) actions then ret actions
      else add_action s INVALIDATED_CACHE ''An upstream semantic cache input changed.'' actions)"

definition reconcile :: "env \<Rightarrow> action_record list run" where
  "reconcile env =
     bindS (liftS (\<lambda>w. ensure (w_quick_check w) (ArtifactIntegrityError ''SQLite quick_check did not pass''))) (\<lambda>_.
     bindS (foldS (reconcile_stage env) (en_definitions env) ([], [])) (\<lambda>(actions, invalidated).
       foldS note_invalidated (remdups invalidated) actions))"

section \<open>Executing a stage\<close>

definition begin_stage :: "env \<Rightarrow> string \<Rightarrow> string \<Rightarrow> (string \<times> nat) run" where
  "begin_stage env s cache = modifyS (\<lambda>w.
     bindE (begin_attempt (en_uuid env (w_draws w)) (w_database w) s cache) (\<lambda>(db, attempt_id, attempt_number).
       Inr (w\<lparr>w_database := db, w_draws := w_draws w + 1, w_begun := w_begun w @ [s]\<rparr>, (attempt_id, attempt_number))))"

definition make_attempt_directory :: "string \<Rightarrow> unit run" where
  "make_attempt_directory attempt_id = modifyS (\<lambda>w.
     if attempt_id \<in> fst ` set (w_attempts w) then Inl (FileExistsError attempt_id)
     else Inr (w\<lparr>w_attempts := w_attempts w @ [(attempt_id, [])]\<rparr>, ()))"

text \<open>The payloads of an execution, checked against the definition, in the order in which they
  are written.\<close>

definition checked_payloads ::
  "stage_definition \<Rightarrow> nat \<Rightarrow> stage_context \<Rightarrow> artifact_payload list res" where
  "checked_payloads definition0 clock context0 =
     bindE (sd_execute definition0 clock context0) (\<lambda>payloads.
     bindE (ensure (sort (map pl_artifact_key payloads) = sort (sd_output_keys definition0))
        (ValueError ''stage output keys do not match their definition'')) (\<lambda>_.
     bindE (ensure (distinct (map pl_relative_path payloads))
        (ValueError ''stage output paths must be unique'')) (\<lambda>_.
     bindE (sd_validate_outputs definition0 context0 payloads) (\<lambda>_.
       Inr (sort_key pl_artifact_key payloads)))))"

definition entry_of :: "(string \<Rightarrow> string) \<Rightarrow> artifact_payload \<Rightarrow> manifest_entry" where
  "entry_of sha p =
     \<lparr>e_artifact_key = pl_artifact_key p, e_relative_path = pl_relative_path p, e_sha256 = sha (pl_content p),
      e_byte_count = length (pl_content p), e_media_type = pl_media_type p\<rparr>"

text \<open>\<open>_write_bytes\<close> below the attempt directory.\<close>

definition write_in_attempt :: "string \<Rightarrow> string \<Rightarrow> string \<Rightarrow> unit run" where
  "write_in_attempt attempt_id path content = modifyS (\<lambda>w.
     case map_of (w_attempts w) attempt_id of
       None \<Rightarrow> Inl (OSError ''No such directory'')
     | Some d \<Rightarrow> bindE (write_bytes d path content) (\<lambda>d'.
         Inr (w\<lparr>w_attempts := alist_put attempt_id d' (w_attempts w)\<rparr>, ())))"

definition write_payload ::
  "(string \<Rightarrow> string) \<Rightarrow> string \<Rightarrow> artifact_payload \<Rightarrow> manifest_entry list \<Rightarrow> manifest_entry list run" where
  "write_payload sha attempt_id p entries =
     bindS (liftS (\<lambda>_. validate_relative_path (pl_relative_path p))) (\<lambda>_.
     bindS (liftS (\<lambda>_. ensure (pl_artifact_key p \<noteq> [] \<and> pl_media_type p \<noteq> [])
        (ValueError ''artifact identity and media type are required''))) (\<lambda>_.
     bindS (write_in_attempt attempt_id (pl_relative_path p) (pl_content p)) (\<lambda>_.
     bindS (liftS (\<lambda>_. check_entry (entry_of sha p))) (\<lambda>_.
       ret (entries @ [entry_of sha p])))))"

definition manifest_of ::
  "env \<Rightarrow> string \<Rightarrow> string \<Rightarrow> string \<Rightarrow> nat \<Rightarrow> manifest_entry list \<Rightarrow> attempt_manifest" where
  "manifest_of env s cache attempt_id attempt_number entries =
     \<lparr>m_workflow_id = ri_workflow_id (en_inputs env), m_stage_id = s, m_attempt_id = attempt_id,
      m_attempt_number = attempt_number, m_cache_key = cache, m_artifacts = entries\<rparr>"

text \<open>\<open>cache_root.mkdir(parents=True, exist_ok=True)\<close> and
  \<open>os.replace(attempt_directory, published_directory)\<close>.\<close>

definition publish_directory :: "string \<Rightarrow> string \<Rightarrow> string \<Rightarrow> unit run" where
  "publish_directory s cache attempt_id = modifyS (\<lambda>w.
     bindE (case w_published w (s, cache) of
              None \<Rightarrow> Inr [] | Some (CacheRoot entries) \<Rightarrow> Inr entries
            | Some BadRoot \<Rightarrow> Inl (OSError ''File exists'')) (\<lambda>entries.
     case map_of (w_attempts w) attempt_id of
       None \<Rightarrow> Inl (OSError ''No such directory'')
     | Some d \<Rightarrow>
         (case map_of entries attempt_id of
            None \<Rightarrow> Inr (w\<lparr>w_attempts := filter (\<lambda>(k, _). k \<noteq> attempt_id) (w_attempts w),
                          w_published := (w_published w)((s, cache) \<mapsto>
                            CacheRoot (entries @ [(attempt_id, RealDirectory d)]))\<rparr>, ())
          | Some _ \<Rightarrow> Inl (OSError ''Directory not empty''))))"

definition verify_published :: "env \<Rightarrow> string \<Rightarrow> string \<Rightarrow> string \<Rightarrow> published_attempt run" where
  "verify_published env s cache attempt_id = liftS (\<lambda>w.
     case w_published w (s, cache) of
       Some (CacheRoot entries) \<Rightarrow>
         (case map_of entries attempt_id of
            Some (RealDirectory d) \<Rightarrow> verify_attempt_directory (en_sha env) attempt_id d
          | _ \<Rightarrow> Inl (ArtifactIntegrityError ''attempt manifest is invalid''))
     | _ \<Rightarrow> Inl (ArtifactIntegrityError ''attempt manifest is invalid''))"

definition stage_body ::
  "env \<Rightarrow> crash_callback \<Rightarrow> stage_definition \<Rightarrow> string \<Rightarrow> string \<Rightarrow> nat \<Rightarrow> unit run" where
  "stage_body env cb definition0 cache attempt_id attempt_number =
     (let s = sd_stage_id definition0 in
      bindS (query (\<lambda>db. upstream_hashes db definition0)) (\<lambda>upstream.
      bindS (liftS (\<lambda>w. checked_payloads definition0 (w_draws w)
        \<lparr>cx_inputs = en_inputs env, cx_stage_id = s, cx_cache_key = cache,
         cx_upstream_artifact_hashes = upstream\<rparr>)) (\<lambda>payloads.
      bindS (foldS (write_payload (en_sha env) attempt_id) payloads []) (\<lambda>entries.
      bindS (callback cb AFTER_OUTPUTS_FSYNCED s) (\<lambda>_.
      let manifest = manifest_of env s cache attempt_id attempt_number entries in
      bindS (liftS (\<lambda>_. bindE (check_manifest manifest) (\<lambda>_. canonical_document (manifest_dump manifest)))) (\<lambda>document.
      bindS (write_in_attempt attempt_id ATTEMPT_MANIFEST_FILE document) (\<lambda>_.
      bindS (callback cb AFTER_MANIFEST_FSYNCED s) (\<lambda>_.
      bindS (publish_directory s cache attempt_id) (\<lambda>_.
      bindS (callback cb AFTER_ARTIFACT_PUBLISHED s) (\<lambda>_.
      bindS (verify_published env s cache attempt_id) (\<lambda>published.
      bindS (publish_pointer env published) (\<lambda>_.
      bindS (callback cb AFTER_POINTER_PUBLISHED s) (\<lambda>_.
      bindS (in_database (\<lambda>db. record_complete db manifest (pa_manifest_sha256 published)
               (published_directory s cache attempt_id))) (\<lambda>_.
      bindS (export_run_artifact env) (\<lambda>_.
        callback cb AFTER_DB_COMMITTED s)))))))))))))))"

definition fail_running :: "env \<Rightarrow> string \<Rightarrow> unit run" where
  "fail_running env s =
     bindS (query (\<lambda>db. stage_row db s)) (\<lambda>row.
       if r_state row = RUNNING then
         bindS (in_database (\<lambda>db. mark_state db s FAILED_RETRYABLE (Some ''STAGE_EXECUTION_FAILED'')))
           (\<lambda>_. export_run_artifact env)
       else ret ())"

definition execute_stage :: "env \<Rightarrow> crash_callback \<Rightarrow> stage_definition \<Rightarrow> unit run" where
  "execute_stage env cb definition0 =
     (let s = sd_stage_id definition0 in
      bindS (query (\<lambda>db. cache_key env db definition0)) (\<lambda>cache.
      bindS (begin_stage env s cache) (\<lambda>(attempt_id, attempt_number).
      bindS (export_run_artifact env) (\<lambda>_.
      bindS (callback cb AFTER_DB_RUNNING s) (\<lambda>_.
      bindS (make_attempt_directory attempt_id) (\<lambda>_.
        cleanup (stage_body env cb definition0 cache attempt_id attempt_number) (fail_running env s)))))))"

section \<open>A run\<close>

record run_report =
  rr_run_id :: string
  rr_complete :: bool
  rr_forced_scope :: "string list"
  rr_actions :: "action_record list"
  rr_stage_states :: "(string \<times> stage_state) list"
  rr_semantic_sha256 :: "string option"
  rr_incomplete_attempt_count :: nat

definition semantic_sha256 :: "env \<Rightarrow> database \<Rightarrow> string option res" where
  "semantic_sha256 env db =
     (if list_ex (\<lambda>(s, st). st \<noteq> COMPLETE) (stage_states db) then Inr None
      else bindE (canonical_sha256 (en_sha env)
             (JDict (map (\<lambda>(s, st). (s, dict_json (artifact_hashes db s))) (stage_states db))))
           (\<lambda>h. Inr (Some h)))"

definition incomplete_attempts :: "world \<Rightarrow> string list" where
  "incomplete_attempts w = sort (map fst (w_attempts w))"

definition report :: "env \<Rightarrow> action_record list \<Rightarrow> string list \<Rightarrow> run_report run" where
  "report env actions forced_scope = liftS (\<lambda>w.
     bindE (run_id_of (en_sha env) (en_inputs env)) (\<lambda>run_id.
     bindE (semantic_sha256 env (w_database w)) (\<lambda>semantic.
     bindE (ensure (is_identifier (ri_workflow_id (en_inputs env)) \<and> is_stable_id run_id
         \<and> list_all is_identifier forced_scope \<and> list_all (is_identifier \<circ> fst) (stage_states (w_database w))
         \<and> (case semantic of None \<Rightarrow> True | Some h \<Rightarrow> is_sha256 h))
         (ValueError ''validation error for RunExecutionReport'')) (\<lambda>_.
       Inr \<lparr>rr_run_id = run_id,
            rr_complete = list_all (\<lambda>(s, st). st = COMPLETE) (stage_states (w_database w)),
            rr_forced_scope = forced_scope, rr_actions = actions,
            rr_stage_states = stage_states (w_database w), rr_semantic_sha256 = semantic,
            rr_incomplete_attempt_count = length (incomplete_attempts w)\<rparr>))))"

text \<open>The loop of \<open>run\<close> over the definitions; \<open>True\<close> in the accumulator is the
  \<open>break\<close> after a final failure.\<close>

definition run_stage ::
  "env \<Rightarrow> crash_callback \<Rightarrow> string list \<Rightarrow> stage_definition \<Rightarrow> action_record list \<times> bool \<Rightarrow>
   (action_record list \<times> bool) run" where
  "run_stage env cb forced definition0 acc =
     (let s = sd_stage_id definition0; actions = fst acc in
      if snd acc then ret acc
      else
      bindS (query (\<lambda>db. stage_row db s)) (\<lambda>row.
        if r_state row = COMPLETE \<and> s \<notin> set forced then
          bindS (add_action s SKIPPED_COMPLETE ''Verified complete artifacts matched the semantic cache key.'' actions)
            (\<lambda>actions. ret (actions, False))
        else if r_state row = FAILED_FINAL then
          bindS (add_action s ACTION_FAILED_FINAL ''A final artifact-integrity failure requires intervention.'' actions)
            (\<lambda>actions. ret (actions, True))
        else
          bindS (query (\<lambda>db. dependencies_complete db definition0)) (\<lambda>ready.
            if \<not> ready then
              bindS (add_action s BLOCKED ''An upstream stage is not complete.'' actions)
                (\<lambda>actions. ret (actions, False))
            else
              bindS (execute_stage env cb definition0) (\<lambda>_.
              bindS (add_action s EXECUTED ''Published and committed a new immutable stage attempt.'' actions)
                (\<lambda>actions. ret (actions, False))))))"

definition force_invalidate :: "string list \<Rightarrow> action_record list \<Rightarrow> action_record list run" where
  "force_invalidate scope actions =
     bindS (in_database (\<lambda>db. invalidate db scope True)) (\<lambda>_.
       foldS (\<lambda>s. add_action s FORCE_INVALIDATED
          ''The selected force-stage dependency closure was invalidated.'') scope actions)"

definition run :: "env \<Rightarrow> string option \<Rightarrow> bool \<Rightarrow> crash_callback \<Rightarrow> run_report run" where
  "run env force_stage dry_run cb =
     (if force_stage = None \<and> dry_run then liftS (\<lambda>_. Inl (ValueError ''dry-run requires force-stage''))
      else
      bindS (liftS (\<lambda>_. case force_stage of None \<Rightarrow> Inr []
               | Some s \<Rightarrow> dependency_closure (en_definitions env) s)) (\<lambda>forced_scope.
        if force_stage \<noteq> None \<and> dry_run then report env [] forced_scope
        else
        bindS (reconcile env) (\<lambda>actions.
        bindS (if force_stage = None then ret actions else force_invalidate forced_scope actions) (\<lambda>actions.
        bindS (foldS (run_stage env cb forced_scope) (en_definitions env) (actions, False)) (\<lambda>(actions, _).
        bindS (export_run_artifact env) (\<lambda>_.
          report env actions forced_scope))))))"

section \<open>Opening and closing\<close>

text \<open>The constructor: the definitions are validated, the lock is taken, the database is opened and
  initialised; a failure after the lock releases it.\<close>

definition open_engine :: "env \<Rightarrow> unit run" where
  "open_engine env = modifyS (\<lambda>w.
     bindE (validate_stage_definitions (en_definitions env)) (\<lambda>_.
       if w_locked w then Inl (ValueError ''run is already active in another process'')
       else bindE (initialize_database (en_sha env) (en_inputs env) (en_definitions env) (w_database w)) (\<lambda>db.
              Inr (w\<lparr>w_locked := True, w_database := db\<rparr>, ()))))"

definition close_engine :: "unit run" where
  "close_engine w = (Done (), w\<lparr>w_locked := False\<rparr>)"

definition new_root :: "fs_node \<Rightarrow> world" where
  "new_root inputs_file =
     \<lparr>w_inputs = inputs_file, w_locked = False, w_database = empty_database, w_quick_check = True,
      w_attempts = [], w_published = (\<lambda>_. None), w_completions = (\<lambda>_. NoEntry), w_run_artifact = NoEntry,
      w_draws = 0, w_begun = []\<rparr>"

text \<open>\<open>RunEngine.create\<close> on a root that does not exist (\<open>None\<close>); on an existing one it
  raises.  The engine it returns is open.\<close>

definition create_run :: "env \<Rightarrow> world option \<Rightarrow> (unit outcome \<times> world option)" where
  "create_run env root =
     (case root of
        Some w \<Rightarrow> (Raised (ValueError ''run root must not already exist''), Some w)
      | None \<Rightarrow>
          (case canonical_document (run_inputs_dump (en_inputs env)) of
             Inl e \<Rightarrow> (Raised e, Some (new_root NoEntry))
           | Inr document \<Rightarrow>
               (case bindS (open_engine env) (\<lambda>_. cleanup (export_run_artifact env) close_engine)
                       (new_root (RegularFile document)) of
                  (r, w) \<Rightarrow> (r, Some w))))"

text \<open>One invocation of the command on an existing root: open, run, close; a process that dies
  leaves its lock to the operating system.\<close>

definition release :: "'a run \<Rightarrow> 'a run" where
  "release m w = (case m w of (r, w') \<Rightarrow> (r, w'\<lparr>w_locked := False\<rparr>))"

definition run_session ::
  "env \<Rightarrow> string option \<Rightarrow> bool \<Rightarrow> crash_callback \<Rightarrow> run_report run" where
  "run_session env force_stage dry_run cb =
     bindS (liftS (\<lambda>w. load_run_inputs (en_sha env) (w_inputs w))) (\<lambda>inputs.
     let env = env\<lparr>en_inputs := inputs\<rparr> in
     bindS (open_engine env) (\<lambda>_. release (run env force_stage dry_run cb)))"

end
