(* ===== verification/RunSpec.thy ===== *)
theory RunSpec
  imports RunEngine
begin

text \<open>
  What a run is supposed to compute: the abstract specification of the engine.  \<open>spec\<close> runs
  the stages once, in order, with no database, no files and no failures, and gives the artifact
  hashes of every stage; \<open>cache_of\<close> and \<open>payloads_of\<close> are the cache key and the
  payloads of a stage in that ideal run, and \<open>attempt_dir\<close> the directory an attempt of it
  publishes.  The locale \<open>run_environment\<close> is the contract between the engine and its
  caller: valid definitions, unique suffixes of 32 hexadecimal digits, and executors whose answer depends
  on their context only.
\<close>

section \<open>The ideal run\<close>

type_synonym outputs = "string \<Rightarrow> (string \<times> string) list"

definition stage_upstream :: "stage_definition \<Rightarrow> outputs \<Rightarrow> (string \<times> string) list" where
  "stage_upstream d S =
     foldl (\<lambda>hashes u. foldl (\<lambda>h (k, v). alist_put (u @ '':'' @ k) v h) hashes (S u)) [] (sd_dependencies d)"

definition stage_cache :: "env \<Rightarrow> stage_definition \<Rightarrow> outputs \<Rightarrow> string" where
  "stage_cache env d S = (case stage_key env d (stage_upstream d S) of Inr c \<Rightarrow> c | Inl _ \<Rightarrow> [])"

definition stage_context_of :: "env \<Rightarrow> stage_definition \<Rightarrow> outputs \<Rightarrow> stage_context" where
  "stage_context_of env d S =
     \<lparr>cx_inputs = en_inputs env, cx_stage_id = sd_stage_id d, cx_cache_key = stage_cache env d S,
      cx_upstream_artifact_hashes = stage_upstream d S\<rparr>"

definition stage_payloads :: "env \<Rightarrow> stage_definition \<Rightarrow> outputs \<Rightarrow> artifact_payload list" where
  "stage_payloads env d S =
     (case checked_payloads d 0 (stage_context_of env d S) of Inr ps \<Rightarrow> ps | Inl _ \<Rightarrow> [])"

definition stage_hashes :: "env \<Rightarrow> stage_definition \<Rightarrow> outputs \<Rightarrow> (string \<times> string) list" where
  "stage_hashes env d S = map (\<lambda>p. (pl_artifact_key p, en_sha env (pl_content p))) (stage_payloads env d S)"

fun ideal_run :: "env \<Rightarrow> stage_definition list \<Rightarrow> outputs \<Rightarrow> outputs" where
  "ideal_run env [] S = S"
| "ideal_run env (d # ds) S = ideal_run env ds (S(sd_stage_id d := stage_hashes env d S))"

definition spec :: "env \<Rightarrow> outputs" where
  "spec env = ideal_run env (en_definitions env) (\<lambda>_. [])"

definition cache_of :: "env \<Rightarrow> stage_definition \<Rightarrow> string" where
  "cache_of env d = stage_cache env d (spec env)"

definition payloads_of :: "env \<Rightarrow> stage_definition \<Rightarrow> artifact_payload list" where
  "payloads_of env d = stage_payloads env d (spec env)"

definition ideal_manifest :: "env \<Rightarrow> stage_definition \<Rightarrow> string \<Rightarrow> nat \<Rightarrow> attempt_manifest" where
  "ideal_manifest env d i n =
     manifest_of env (sd_stage_id d) (cache_of env d) i n (map (entry_of (en_sha env)) (payloads_of env d))"

definition attempt_dir :: "env \<Rightarrow> stage_definition \<Rightarrow> string \<Rightarrow> nat \<Rightarrow> dir" where
  "attempt_dir env d i n =
     map (\<lambda>p. (pl_relative_path p, RegularFile (pl_content p))) (payloads_of env d) @
     [(ATTEMPT_MANIFEST_FILE, RegularFile (dumps (manifest_dump (ideal_manifest env d i n)) @ [CHR 0x0A]))]"

text \<open>The semantic digest of the ideal run.\<close>

definition spec_digest :: "env \<Rightarrow> string res" where
  "spec_digest env = canonical_sha256 (en_sha env)
     (JDict (map (\<lambda>d. (sd_stage_id d, dict_json (spec env (sd_stage_id d)))) (en_definitions env)))"

lemma ideal_run_other: "s \<notin> set (map sd_stage_id ds) \<Longrightarrow> ideal_run env ds S s = S s"
  by (induction ds arbitrary: S) auto

lemma stage_upstream_cong:
  assumes "\<forall>u \<in> set (sd_dependencies d). S u = S' u"
  shows "stage_upstream d S = stage_upstream d S'"
proof -
  have "\<forall>u \<in> set us. S u = S' u \<Longrightarrow>
      foldl (\<lambda>hashes u. foldl (\<lambda>h (k, v). alist_put (u @ '':'' @ k) v h) hashes (S u)) acc us =
      foldl (\<lambda>hashes u. foldl (\<lambda>h (k, v). alist_put (u @ '':'' @ k) v h) hashes (S' u)) acc us" for us acc
    by (induction us arbitrary: acc) auto
  then show ?thesis using assms by (simp add: stage_upstream_def)
qed

lemma stage_hashes_cong:
  assumes "\<forall>u \<in> set (sd_dependencies d). S u = S' u"
  shows "stage_hashes env d S = stage_hashes env d S'"
  using stage_upstream_cong [OF assms]
  by (simp add: stage_hashes_def stage_payloads_def stage_context_of_def stage_cache_def)

lemma ideal_run_fixed:
  assumes "stages_ordered seen ds" and "d \<in> set ds"
  shows "ideal_run env ds S (sd_stage_id d) = stage_hashes env d (ideal_run env ds S)"
  using assms
proof (induction ds arbitrary: seen S)
  case (Cons x ds)
  let ?S = "S(sd_stage_id x := stage_hashes env x S)"
  have o: "stages_ordered (sd_stage_id x # seen) ds" using Cons.prems(1) by simp
  have dis: "set (map sd_stage_id ds) \<inter> set (sd_stage_id x # seen) = {}"
    using stages_ordered_distinct [OF o] by blast
  show ?case
  proof (cases "d \<in> set ds")
    case True
    then show ?thesis using Cons.IH [OF o] by simp
  next
    case False
    then have d: "d = x" using Cons.prems(2) by simp
    have x: "sd_stage_id x \<notin> set (map sd_stage_id ds)" using dis by auto
    have "S u = ideal_run env ds ?S u" if "u \<in> set (sd_dependencies x)" for u
    proof -
      have "u \<in> set seen" using that Cons.prems(1) by auto
      then have "u \<notin> set (map sd_stage_id ds)" and "u \<noteq> sd_stage_id x"
        using dis Cons.prems(1) by auto
      then show ?thesis by (simp add: ideal_run_other)
    qed
    then have "stage_hashes env x S = stage_hashes env x (ideal_run env ds ?S)"
      by (intro stage_hashes_cong) blast
    then show ?thesis using d x by (simp add: ideal_run_other)
  qed
qed simp

section \<open>The contract of the engine's environment\<close>

locale run_environment =
  fixes env :: env
  assumes definitions_valid: "validate_stage_definitions (en_definitions env) = Inr ()"
    and uuid_hex: "uuid_text (en_uuid env n)"
    and executors_deterministic:
      "d \<in> set (en_definitions env) \<Longrightarrow> sd_execute d n context0 = sd_execute d 0 context0"
begin

abbreviation "definitions \<equiv> en_definitions env"

lemma ordered: "stages_ordered [] definitions"
  using validate_stage_definitions_ordered [OF definitions_valid] by blast

lemma distinct_ids: "distinct (map sd_stage_id definitions)"
  using stages_ordered_distinct [OF ordered] by blast

lemma same_definition:
  "d \<in> set definitions \<Longrightarrow> d' \<in> set definitions \<Longrightarrow> sd_stage_id d = sd_stage_id d' \<Longrightarrow> d = d'"
  using distinct_ids by (simp add: distinct_map inj_on_def)

lemma dependency_defined:
  "d \<in> set definitions \<Longrightarrow> u \<in> set (sd_dependencies d) \<Longrightarrow> u \<in> set (map sd_stage_id definitions)"
  using stages_ordered_dependencies [OF ordered] by fastforce

lemma spec_fixed:
  "d \<in> set definitions \<Longrightarrow>
     spec env (sd_stage_id d) = map (\<lambda>p. (pl_artifact_key p, en_sha env (pl_content p))) (payloads_of env d)"
  unfolding spec_def payloads_of_def
  using ideal_run_fixed [OF ordered] by (simp add: stage_hashes_def)

end

section \<open>Attempts published by the engine\<close>

lemma map_key_sort_key: "map f (sort_key f xs) = sort (map f xs)"
  using sort_key_map [of "\<lambda>x. x" f xs] by simp

lemma checked_payloads_Inr:
  assumes "checked_payloads d n cx = Inr ps"
  shows "map pl_artifact_key ps = sort (sd_output_keys d)" and "distinct (map pl_relative_path ps)"
    and "sort_key pl_artifact_key ps = ps"
proof -
  obtain qs where qs: "sort (map pl_artifact_key qs) = sort (sd_output_keys d)"
      "distinct (map pl_relative_path qs)" and ps: "ps = sort_key pl_artifact_key qs"
    using assms by (auto simp: checked_payloads_def)
  show "map pl_artifact_key ps = sort (sd_output_keys d)"
    unfolding ps map_key_sort_key by (rule qs(1))
  have "mset (map pl_relative_path ps) = mset (map pl_relative_path qs)"
    unfolding ps by (simp only: mset_map mset_sort)
  then show "distinct (map pl_relative_path ps)"
    using qs(2) mset_eq_imp_distinct_iff by blast
  show "sort_key pl_artifact_key ps = ps" unfolding ps by simp
qed

lemma manifest_hashes_entries:
  "sort_key pl_artifact_key ps = ps \<Longrightarrow>
   manifest_hashes (manifest_of env s c i n (map (entry_of sha) ps)) =
     map (\<lambda>p. (pl_artifact_key p, sha (pl_content p))) ps"
  by (simp add: manifest_hashes_def manifest_of_def comp_def entry_of_def sort_key_map)

text \<open>An attempt whose documents the code accepted when it wrote them.\<close>

definition valid_attempt :: "env \<Rightarrow> stage_definition \<Rightarrow> string \<Rightarrow> nat \<Rightarrow> bool" where
  "valid_attempt env d i n \<longleftrightarrow>
     check_manifest (ideal_manifest env d i n) = Inr () \<and>
     list_all (\<lambda>p. check_entry (entry_of (en_sha env) p) = Inr ()) (payloads_of env d) \<and>
     distinct (map fst (attempt_dir env d i n)) \<and>
     map pl_artifact_key (payloads_of env d) = sort (sd_output_keys d) \<and>
     sort_key pl_artifact_key (payloads_of env d) = payloads_of env d"

definition manifest_fits :: "env \<Rightarrow> stage_definition \<Rightarrow> string \<Rightarrow> nat \<Rightarrow> bool" where
  "manifest_fits env d i n \<longleftrightarrow>
     length (dumps (manifest_dump (ideal_manifest env d i n))) < MAX_CONTROL_FILE_BYTES"

lemma lookup_Some: "map_of d p = Some n \<Longrightarrow> lookup d p = n"
  by (simp add: lookup_def)

lemma verify_attempt_dir:
  assumes v: "valid_attempt env d i n"
  shows "verify_attempt_directory (en_sha env) i (attempt_dir env d i n) =
     (if manifest_fits env d i n
      then Inr \<lparr>pa_name = i, pa_manifest = ideal_manifest env d i n,
             pa_manifest_sha256 = en_sha env (dumps (manifest_dump (ideal_manifest env d i n)) @ [CHR 0x0A])\<rparr>
      else Inl (ArtifactIntegrityError ''attempt manifest is invalid''))"
proof -
  let ?m = "ideal_manifest env d i n"
  let ?doc = "dumps (manifest_dump ?m) @ [CHR 0x0A]"
  have dist: "distinct (map fst (attempt_dir env d i n))" using v by (simp add: valid_attempt_def)
  have "(ATTEMPT_MANIFEST_FILE, RegularFile ?doc) \<in> set (attempt_dir env d i n)"
    by (simp add: attempt_dir_def)
  then have man: "lookup (attempt_dir env d i n) ATTEMPT_MANIFEST_FILE = RegularFile ?doc"
    using dist by (intro lookup_Some) (simp only: map_of_eq_Some_iff)
  have name: "m_attempt_id ?m = i" by (simp add: ideal_manifest_def manifest_of_def)
  show ?thesis
  proof (cases "manifest_fits env d i n")
    case True
    then have len: "length ?doc \<le> MAX_CONTROL_FILE_BYTES" by (simp add: manifest_fits_def)
    have "decode_json ?doc = Inr (canon (manifest_dump ?m))"
      using len order_trans [OF manifest_dump_ok(2) [of ?m], of MAXIMUM_JSON_DEPTH]
      by (intro decode_json_document) (simp_all add: MAXIMUM_JSON_DEPTH_def)
    moreover have "manifest_validate (canon (manifest_dump ?m)) = Inr ?m"
      using v by (intro manifest_round_trip)
        (auto simp: valid_attempt_def ideal_manifest_def manifest_of_def list_all_iff)
    ultimately have "parse_attempt_manifest_bytes ?doc = Inr ?m"
      by (simp add: parse_attempt_manifest_bytes_def)
    moreover have "mapE (verify_artifact (en_sha env) (attempt_dir env d i n)) (m_artifacts ?m)
        = Inr (map (\<lambda>_. ()) (m_artifacts ?m))"
    proof (rule mapE_Inr)
      fix e assume "e \<in> set (m_artifacts ?m)"
      then obtain p where p: "p \<in> set (payloads_of env d)" and e: "e = entry_of (en_sha env) p"
        by (auto simp: ideal_manifest_def manifest_of_def)
      have "(pl_relative_path p, RegularFile (pl_content p)) \<in> set (attempt_dir env d i n)"
        using p by (simp add: attempt_dir_def)
      then have "lookup (attempt_dir env d i n) (pl_relative_path p) = RegularFile (pl_content p)"
        using dist by (intro lookup_Some) (simp only: map_of_eq_Some_iff)
      then show "verify_artifact (en_sha env) (attempt_dir env d i n) e = Inr ()"
        by (simp add: verify_artifact_def e entry_of_def hash_regular_file_def)
    qed
    ultimately show ?thesis
      using True len name by (simp add: verify_attempt_directory_def man read_bounded_regular_file_def Let_def)
  next
    case False
    then have "\<not> length ?doc \<le> MAX_CONTROL_FILE_BYTES" by (simp add: manifest_fits_def)
    then show ?thesis
      using False by (simp add: verify_attempt_directory_def man read_bounded_regular_file_def raise_from_def)
  qed
qed

lemma check_candidate_attempt_dir:
  assumes v: "valid_attempt env d i n"
  shows "check_candidate env d (cache_of env d) (i, RealDirectory (attempt_dir env d i n)) =
     (if manifest_fits env d i n
      then Inr \<lparr>pa_name = i, pa_manifest = ideal_manifest env d i n,
             pa_manifest_sha256 = en_sha env (dumps (manifest_dump (ideal_manifest env d i n)) @ [CHR 0x0A])\<rparr>
      else Inl (ArtifactIntegrityError ''attempt manifest is invalid''))"
proof -
  let ?m = "ideal_manifest env d i n"
  have "map e_artifact_key (m_artifacts ?m) = sort (sd_output_keys d)"
    using v by (simp add: valid_attempt_def ideal_manifest_def manifest_of_def comp_def entry_of_def)
  moreover have "m_workflow_id ?m = ri_workflow_id (en_inputs env)" "m_stage_id ?m = sd_stage_id d"
      "m_cache_key ?m = cache_of env d"
    by (simp_all add: ideal_manifest_def manifest_of_def)
  ultimately show ?thesis
    by (simp add: check_candidate_def verify_attempt_dir [OF v] Let_def)
qed

lemma latest_member: "latest a as \<in> set (a # as)"
  by (induction as arbitrary: a) auto

lemma latest_max: "b \<in> set (a # as) \<Longrightarrow> attempt_rank b \<le> attempt_rank (latest a as)"
proof (induction as arbitrary: a b)
  case (Cons x as)
  define best where "best = (if attempt_rank a < attempt_rank x then x else a)"
  have best: "attempt_rank best \<le> attempt_rank (latest best as)" by (rule Cons.IH) simp
  have "attempt_rank b \<le> attempt_rank best \<or> b \<in> set as"
    using Cons.prems by (auto simp: best_def)
  then have "attempt_rank b \<le> attempt_rank (latest best as)"
    using Cons.IH [of b best] best by (auto intro: order_trans)
  then show ?case by (simp add: best_def)
qed simp

end
