(* ===== verification/RunInvariant.thy ===== *)
theory RunInvariant
  imports RunSpec
begin

text \<open>
  The invariant of the engine over everything that survives a crash: the database, the published
  attempts, the attempt directories and the number of attempts drawn.  \<open>good\<close> says that a
  completed stage carries the outputs of the ideal run, that everything published is an attempt of
  the ideal run, and that completed and running stages rest on completed ones; a final failure
  is possible only once more than \<open>N\<close> attempts were begun, where \<open>N\<close> bounds the attempts
  whose manifests fit the size limit.  Each durable operation of the engine preserves it.
\<close>

type_synonym published = "string \<times> string \<Rightarrow> cache_root option"

type_synonym attempts = "(string \<times> dir) list"

section \<open>The invariant\<close>

definition complete_in :: "database \<Rightarrow> string \<Rightarrow> bool" where
  "complete_in db u \<longleftrightarrow> (\<exists>r. map_of (db_stage db) u = Some r \<and> r_state r = COMPLETE)"

definition deps_complete :: "database \<Rightarrow> string \<Rightarrow> bool" where
  "deps_complete db s \<longleftrightarrow> (\<forall>u. (s, u) \<in> set (db_dependency db) \<longrightarrow> complete_in db u)"

definition entry_ok :: "env \<Rightarrow> database \<Rightarrow> stage_definition \<Rightarrow> string \<times> dir_entry \<Rightarrow> bool" where
  "entry_ok env db d entry \<longleftrightarrow>
     (case entry of (i, e) \<Rightarrow>
        \<exists>n. e = RealDirectory (attempt_dir env d i n) \<and> well_named i (sd_stage_id d) n \<and>
            valid_attempt env d i n \<and> i \<in> fst ` set (db_attempt db))"

definition published_ok :: "env \<Rightarrow> database \<Rightarrow> string \<Rightarrow> string \<Rightarrow> cache_root \<Rightarrow> bool" where
  "published_ok env db s c root \<longleftrightarrow>
     (\<exists>d es. d \<in> set (en_definitions env) \<and> sd_stage_id d = s \<and> cache_of env d = c \<and>
        root = CacheRoot es \<and> es \<noteq> [] \<and> distinct (map fst es) \<and> list_all (entry_ok env db d) es)"

text \<open>A row of the artifact table is the entry of a valid attempt of the ideal run.\<close>

definition artifact_known :: "env \<Rightarrow> database \<Rightarrow> artifact_row \<Rightarrow> bool" where
  "artifact_known env db f \<longleftrightarrow>
     (\<exists>d i n. d \<in> set (en_definitions env) \<and> valid_attempt env d i n \<and> well_named i (sd_stage_id d) n \<and>
        i \<in> fst ` set (db_attempt db) \<and>
        f \<in> set (manifest_rows (ideal_manifest env d i n) (published_directory (sd_stage_id d) (cache_of env d) i)))"

definition attempt_known :: "database \<Rightarrow> stage_row \<Rightarrow> bool" where
  "attempt_known db row \<longleftrightarrow> (\<forall>i. r_attempt_id row = Some i \<longrightarrow> i \<in> fst ` set (db_attempt db))"

lemma attempt_known_None [simp]: "r_attempt_id row = None \<Longrightarrow> attempt_known db row"
  by (simp add: attempt_known_def)

lemma attempt_known_Some [simp]: "r_attempt_id row = Some i \<Longrightarrow> attempt_known db row \<longleftrightarrow> i \<in> fst ` set (db_attempt db)"
  by (simp add: attempt_known_def)

lemma attempt_known_mono:
  "attempt_known db row \<Longrightarrow> fst ` set (db_attempt db) \<subseteq> fst ` set (db_attempt db') \<Longrightarrow> r_attempt_id row' = r_attempt_id row \<Longrightarrow>
     attempt_known db' row'"
  unfolding attempt_known_def by auto

definition row_ok ::
  "env \<Rightarrow> nat \<Rightarrow> database \<Rightarrow> published \<Rightarrow> nat \<Rightarrow> string \<Rightarrow> stage_row \<Rightarrow> bool" where
  "row_ok env N db pub draws s row \<longleftrightarrow>
     r_attempt_counter row \<le> draws \<and> r_state row \<noteq> SKIPPED_NOT_APPLICABLE \<and>
     (r_state row = FAILED_FINAL \<longrightarrow> N < draws) \<and>
     attempt_known db row \<and>
     (r_state row = COMPLETE \<longrightarrow> artifact_hashes db s = spec env s \<and> r_required_attempt_number row = 0 \<and>
        (\<exists>d \<in> set (en_definitions env). sd_stage_id d = s \<and> r_cache_key row = Some (cache_of env d) \<and>
           pub (s, cache_of env d) \<noteq> None)) \<and>
     (r_state row \<in> {COMPLETE, RUNNING} \<longrightarrow> N < draws \<or> deps_complete db s)"

lemma row_ok_attempt: "row_ok env N db pub n s row \<Longrightarrow> attempt_known db row"
  by (simp add: row_ok_def)

definition good :: "env \<Rightarrow> nat \<Rightarrow> database \<Rightarrow> published \<Rightarrow> attempts \<Rightarrow> nat \<Rightarrow> bool" where
  "good env N db pub att draws \<longleftrightarrow>
     db_ok db \<and> map fst (db_stage db) = map sd_stage_id (en_definitions env) \<and>
     db_dependency db = dependency_pairs (en_definitions env) \<and>
     (\<forall>s row. map_of (db_stage db) s = Some row \<longrightarrow> row_ok env N db pub draws s row) \<and>
     (\<forall>s c root. pub (s, c) = Some root \<longrightarrow> published_ok env db s c root) \<and>
     list_all (artifact_known env db) (db_artifact db) \<and>
     fst ` set att \<subseteq> fst ` set (db_attempt db)"

definition fits :: "env \<Rightarrow> nat \<Rightarrow> bool" where
  "fits env N \<longleftrightarrow>
     (\<forall>d \<in> set (en_definitions env). \<forall>i n. 0 < n \<and> n \<le> N \<and> well_named i (sd_stage_id d) n \<longrightarrow>
        manifest_fits env d i n)"

lemma fits_0: "fits env 0"
  by (simp add: fits_def)

lemma good_row:
  "good env N db pub att n \<Longrightarrow> map_of (db_stage db) s = Some row \<Longrightarrow> row_ok env N db pub n s row"
  by (simp add: good_def)

lemma good_complete:
  assumes "good env N db pub att n" and "complete_in db s"
  shows "artifact_hashes db s = spec env s"
  using good_row [OF assms(1)] assms(2) by (auto simp: complete_in_def row_ok_def)

lemma published_ok_mono:
  "published_ok env db s c root \<Longrightarrow> fst ` set (db_attempt db) \<subseteq> fst ` set (db_attempt db') \<Longrightarrow>
   published_ok env db' s c root"
proof -
  assume p: "published_ok env db s c root" and a: "fst ` set (db_attempt db) \<subseteq> fst ` set (db_attempt db')"
  have "entry_ok env db' d x" if "entry_ok env db d x" for d x
    using that a unfolding entry_ok_def by (cases x) blast
  then have "list_all (entry_ok env db d) es \<longrightarrow> list_all (entry_ok env db' d) es" for d es
    by (simp add: list_all_iff)
  then show "published_ok env db' s c root" using p unfolding published_ok_def by blast
qed

lemma artifact_known_mono:
  "artifact_known env db f \<Longrightarrow> fst ` set (db_attempt db) \<subseteq> fst ` set (db_attempt db') \<Longrightarrow> artifact_known env db' f"
  unfolding artifact_known_def by blast

text \<open>A change of the stage rows of the database that keeps the rest.\<close>

lemma good_rows:
  assumes g: "good env N db pub att n" and ok: "db_ok db'" and n: "n \<le> n'"
    and keys: "map fst (db_stage db') = map fst (db_stage db)"
    and dep: "db_dependency db' = db_dependency db"
    and att: "fst ` set (db_attempt db) \<subseteq> fst ` set (db_attempt db')"
    and att': "fst ` set att' \<subseteq> fst ` set (db_attempt db')"
    and art: "set (db_artifact db') \<subseteq> set (db_artifact db) \<union> {f. artifact_known env db f}"
    and rows: "\<And>s row row'. map_of (db_stage db) s = Some row \<Longrightarrow> map_of (db_stage db') s = Some row' \<Longrightarrow>
        row_ok env N db pub n s row \<Longrightarrow> row_ok env N db' pub n' s row'"
  shows "good env N db' pub att' n'"
proof -
  have "row_ok env N db' pub n' s row'" if "map_of (db_stage db') s = Some row'" for s row'
  proof -
    have "s \<in> set (map fst (db_stage db'))" using that by (force dest: map_of_SomeD)
    then obtain row where row: "map_of (db_stage db) s = Some row"
      unfolding keys by (metis map_of_eq_None_iff not_Some_eq set_map)
    show ?thesis by (rule rows [OF row that good_row [OF g row]])
  qed
  moreover have "list_all (artifact_known env db') (db_artifact db')"
  proof -
    have "artifact_known env db f" if "f \<in> set (db_artifact db)" for f
      using g that by (simp add: good_def list_all_iff)
    then have "set (db_artifact db') \<subseteq> {f. artifact_known env db f}" using art by auto
    then show ?thesis using artifact_known_mono [OF _ att] by (auto simp: list_all_iff)
  qed
  ultimately show ?thesis
    using g ok keys dep att' published_ok_mono [OF _ att] unfolding good_def by simp
qed

lemma deps_complete_mono:
  "deps_complete db s \<Longrightarrow> db_dependency db' = db_dependency db \<Longrightarrow>
   (\<And>u. (s, u) \<in> set (db_dependency db) \<Longrightarrow> complete_in db u \<Longrightarrow> complete_in db' u) \<Longrightarrow> deps_complete db' s"
  by (simp add: deps_complete_def)

section \<open>State changes\<close>

text \<open>Leaving a state other than completion, or leaving any state once attempts are late.\<close>

lemma good_mark:
  assumes g: "good env N db pub att n" and row: "map_of (db_stage db) s = Some row"
    and m: "mark_state db s st e = Inr db'"
    and st: "st \<in> {FAILED_RETRYABLE, FAILED_FINAL}" "st = FAILED_FINAL \<Longrightarrow> N < n"
    and was: "r_state row \<noteq> COMPLETE \<or> N < n"
  shows "good env N db' pub att n"
proof -
  have db': "db' = update_stage s (\<lambda>r. r\<lparr>r_state := st, r_error_code := e\<rparr>) db"
    using m row by (auto simp: mark_state_def split: if_splits)
  have keep: "complete_in db' u" if "complete_in db u" "u \<noteq> s" for u
    using that by (simp add: complete_in_def db')
  show ?thesis
  proof (rule good_rows [OF g])
    show "db_ok db'" using g m by (auto simp: good_def intro: db_ok_mark)
    fix t row0 row' assume r: "map_of (db_stage db) t = Some row0" "map_of (db_stage db') t = Some row'"
      and ok: "row_ok env N db pub n t row0"
    show "row_ok env N db' pub n t row'"
    proof (cases "t = s")
      case True
      have "r_state row' = st" and "r_attempt_counter row' = r_attempt_counter row0"
        and a: "r_attempt_id row' = r_attempt_id row0"
        using r True by (auto simp: db')
      moreover have "attempt_known db' row'"
        by (rule attempt_known_mono [OF row_ok_attempt [OF ok]]) (auto simp: db' a)
      ultimately show ?thesis using ok st by (auto simp: row_ok_def)
    next
      case False
      then have "row' = row0" using r by (simp add: db')
      moreover have "N < n \<or> deps_complete db' t" if "N < n \<or> deps_complete db t"
      proof (cases "N < n")
        case False
        then have ns: "\<not> complete_in db s" using was row by (simp add: complete_in_def)
        have "deps_complete db t" using that False by simp
        then have "deps_complete db' t"
          by (rule deps_complete_mono) (use keep ns in \<open>auto simp: db'\<close>)
        then show ?thesis ..
      qed simp
      moreover have "artifact_hashes db' t = artifact_hashes db t" by (simp add: db')
      moreover have "attempt_known db' row0"
        by (rule attempt_known_mono [OF row_ok_attempt [OF ok]]) (auto simp: db')
      ultimately show ?thesis using ok by (simp add: row_ok_def)
    qed
  qed (use g in \<open>simp_all add: db' good_def\<close>)
qed

lemma good_begin:
  assumes g: "good env N db pub att n" and u: "uuid_text uuid"
    and b: "begin_attempt uuid db s c = Inr (db', i, k)"
  shows "good env N db' pub att (n + 1)"
    and "\<exists>row'. map_of (db_stage db') s = Some row' \<and> r_state row' = RUNNING"
    and "i \<notin> fst ` set att" and "\<And>c'. i \<notin> fst ` set (case pub (s, c') of Some (CacheRoot es) \<Rightarrow> es | _ \<Rightarrow> [])"
    and "well_named i s k" and "i \<in> fst ` set (db_attempt db')" and "deps_complete db' s"
    and "\<And>v. artifact_hashes db' v = artifact_hashes db v"
proof -
  have ok: "db_ok db" using g by (simp add: good_def)
  from b obtain row where row: "map_of (db_stage db) s = Some row" and st: "r_state row \<in> set startable"
    and up: "incomplete_upstream db s = []"
    and k: "k = r_attempt_counter row + 1" and i: "i = attempt_name s k uuid"
    and f1: "i \<notin> fst ` set (db_attempt db)"
    and db': "db' = (update_stage s (\<lambda>r. r\<lparr>r_state := RUNNING, r_attempt_id := Some i, r_cache_key := Some c,
             r_attempt_counter := k, r_error_code := None\<rparr>) db)
            \<lparr>db_attempt := db_attempt db @ [(i, \<lparr>a_stage_id = s, a_attempt_number = k, a_cache_key = c,
                a_state = ATTEMPT_RUNNING, a_manifest_sha256 = None\<rparr>)]\<rparr>"
    by (rule begin_attempt_Inr)
  have nc: "r_state row \<noteq> COMPLETE" using st by (auto simp: startable_def)
  have keep: "complete_in db' u \<longleftrightarrow> complete_in db u" for u
    using row nc by (auto simp: complete_in_def db')
  have deps: "deps_complete db' t \<longleftrightarrow> deps_complete db t" for t
    by (simp add: deps_complete_def keep) (simp add: db')
  have dc: "deps_complete db s"
    using up unfolding incomplete_upstream_Nil [OF ok] by (simp add: deps_complete_def complete_in_def)
  show hashes: "artifact_hashes db' v = artifact_hashes db v" for v
    by (rule artifact_hashes_cong) (simp add: db')
  show "good env N db' pub att (n + 1)"
  proof (rule good_rows [OF g])
    show "db_ok db'" by (rule db_ok_begin [OF ok u b])
    fix t row0 row' assume r: "map_of (db_stage db) t = Some row0" "map_of (db_stage db') t = Some row'"
      and o: "row_ok env N db pub n t row0"
    show "row_ok env N db' pub (n + 1) t row'"
    proof (cases "t = s")
      case True
      have "row' = row\<lparr>r_state := RUNNING, r_attempt_id := Some i, r_cache_key := Some c,
             r_attempt_counter := k, r_error_code := None\<rparr>" and "row0 = row"
        using r row True by (simp_all add: db')
      moreover have "deps_complete db' t" using dc deps True by simp
      moreover have "i \<in> fst ` set (db_attempt db')" by (simp add: db')
      ultimately show ?thesis using o k by (auto simp: row_ok_def)
    next
      case False
      then have "row' = row0" using r by (simp add: db')
      moreover have "attempt_known db' row0"
        by (rule attempt_known_mono [OF row_ok_attempt [OF o]]) (auto simp: db')
      ultimately show ?thesis using o by (auto simp: row_ok_def hashes deps)
    qed
  qed (use g in \<open>auto simp: db' good_def\<close>)
  show "\<exists>row'. map_of (db_stage db') s = Some row' \<and> r_state row' = RUNNING"
    using row by (simp add: db')
  show "i \<notin> fst ` set att" using g f1 by (auto simp: good_def)
  show "i \<notin> fst ` set (case pub (s, c') of Some (CacheRoot es) \<Rightarrow> es | _ \<Rightarrow> [])" for c'
  proof (cases "pub (s, c')")
    case (Some root)
    then have "published_ok env db s c' root" using g by (simp add: good_def)
    then obtain d es where root: "root = CacheRoot es" and es: "list_all (entry_ok env db d) es"
      by (auto simp: published_ok_def)
    have "j \<in> fst ` set (db_attempt db)" if "(j, e) \<in> set es" for j e
      using es that unfolding list_all_iff entry_ok_def by blast
    then have "i \<notin> fst ` set es" using f1 by fastforce
    then show ?thesis using Some root by simp
  qed simp
  show "well_named i s k" using u by (simp add: i)
  show "i \<in> fst ` set (db_attempt db')" by (simp add: db')
  show "deps_complete db' s" using dc deps by simp
qed

lemma artifact_known_ideal:
  "d \<in> set (en_definitions env) \<Longrightarrow> valid_attempt env d i k \<Longrightarrow> well_named i (sd_stage_id d) k \<Longrightarrow>
   i \<in> fst ` set (db_attempt db) \<Longrightarrow> list_all (artifact_known env db) (manifest_rows (ideal_manifest env d i k)
     (published_directory (sd_stage_id d) (cache_of env d) i))"
  unfolding list_all_iff artifact_known_def by blast

text \<open>Completion with a manifest of the ideal run.\<close>

lemma good_record:
  assumes g: "good env N db pub att n" and r: "record_complete db m h dir = Inr db'"
    and d: "d \<in> set (en_definitions env)" and s: "m_stage_id m = sd_stage_id d" and c: "m_cache_key m = cache_of env d"
    and hashes: "manifest_hashes m = spec env (sd_stage_id d)"
    and known: "m_attempt_id m \<in> fst ` set (db_attempt db)"
    and named: "well_named (m_attempt_id m) (sd_stage_id d) (m_attempt_number m)"
    and pub: "pub (sd_stage_id d, cache_of env d) \<noteq> None"
    and deps: "N < n \<or> deps_complete db (sd_stage_id d)"
    and rows: "list_all (artifact_known env db) (manifest_rows m dir)"
  shows "good env N db' pub att n" and "complete_in db' (sd_stage_id d)"
    and "\<And>u. complete_in db u \<Longrightarrow> complete_in db' u"
    and "\<And>u. u \<noteq> sd_stage_id d \<Longrightarrow> map_of (db_stage db') u = map_of (db_stage db) u"
proof -
  let ?s = "sd_stage_id d"
  have ok: "db_ok db" using g by (simp add: good_def)
  from r obtain row where row: "map_of (db_stage db) (m_stage_id m) = Some row"
    and keys: "map fst (db_stage db') = map fst (db_stage db)" and dep: "db_dependency db' = db_dependency db"
    and st: "\<And>k. map_of (db_stage db') k =
           (if k = m_stage_id m then Some (completed_row m row) else map_of (db_stage db) k)"
    and hs: "\<And>k. artifact_hashes db' k = (if k = m_stage_id m then manifest_hashes m else artifact_hashes db k)"
    and art: "db_artifact db' = filter (\<lambda>f. f_stage_id f \<noteq> m_stage_id m) (db_artifact db) @ manifest_rows m dir"
    and att: "fst ` set (db_attempt db') = fst ` set (db_attempt db)"
    by (rule record_complete_Inr) (use known in \<open>force simp: image_iff\<close>)
  obtain a where a: "(m_attempt_id m, a) \<in> set (db_attempt db)" using known by force
  have "well_named (m_attempt_id m) (a_stage_id a) (a_attempt_number a)"
    using db_ok_attempt [OF ok a] by blast
  then have a_eq: "a_stage_id a = ?s" "a_attempt_number a = m_attempt_number m"
    using named well_named_unique by blast+
  have "\<exists>r'. map_of (db_stage db) (a_stage_id a) = Some r' \<and> a_attempt_number a \<le> r_attempt_counter r'"
    using db_ok_attempt [OF ok a] by blast
  then have "m_attempt_number m \<le> r_attempt_counter row"
    using row s unfolding a_eq by simp
  moreover have "r_attempt_counter row \<le> n"
    using good_row [OF g row] by (simp add: row_ok_def)
  ultimately have num: "r_attempt_counter (completed_row m row) \<le> n"
    by (simp add: completed_row_def)
  show keep: "complete_in db' u" if "complete_in db u" for u
    using that by (auto simp: complete_in_def st completed_row_def)
  have deps_keep: "deps_complete db' t" if "deps_complete db t" for t
    by (rule deps_complete_mono [OF that dep keep])
  show "complete_in db' ?s" by (simp add: complete_in_def st s completed_row_def)
  show "map_of (db_stage db') u = map_of (db_stage db) u" if "u \<noteq> ?s" for u
    using that by (simp add: st s)
  show "good env N db' pub att n"
  proof (rule good_rows [OF g])
    show "db_ok db'" by (rule db_ok_complete [OF ok _ r]) (simp add: s named)
    fix t row0 row' assume q: "map_of (db_stage db) t = Some row0" "map_of (db_stage db') t = Some row'"
      and o: "row_ok env N db pub n t row0"
    show "row_ok env N db' pub n t row'"
    proof (cases "t = ?s")
      case True
      then have "row' = completed_row m row" using q by (simp add: st s)
      moreover have "N < n \<or> deps_complete db' ?s" using deps deps_keep by blast
      ultimately show ?thesis
        using True d c pub num hashes known att by (auto simp: row_ok_def hs s completed_row_def)
    next
      case False
      then have "row' = row0" using q by (simp add: st s)
      moreover have "artifact_hashes db' t = artifact_hashes db t" using False by (simp add: hs s)
      moreover have "attempt_known db' row0"
        by (rule attempt_known_mono [OF row_ok_attempt [OF o]]) (simp_all add: att)
      ultimately show ?thesis using o deps_keep by (auto simp: row_ok_def)
    qed
  qed (use g att keys dep rows in \<open>auto simp: good_def art list_all_iff\<close>)
qed

text \<open>Invalidating a set of stages that is closed under dependents.\<close>

lemma good_invalidate:
  assumes g: "good env N db pub att n" and i: "invalidate db scope force = Inr db'"
    and closed: "\<And>t u. (t, u) \<in> set (db_dependency db) \<Longrightarrow> u \<in> set scope \<Longrightarrow> t \<in> set scope"
  shows "good env N db' pub att n" and "\<And>u. u \<notin> set scope \<Longrightarrow> map_of (db_stage db') u = map_of (db_stage db) u"
    and "\<And>u r. u \<in> set scope \<Longrightarrow> map_of (db_stage db') u = Some r \<Longrightarrow> r_state r = INVALIDATED"
proof -
  note inv = db_stage_invalidate [OF i]
  have st: "map_of (db_stage db') k = (if k \<in> set scope
        then map_option (\<lambda>r. r\<lparr>r_state := INVALIDATED, r_attempt_id := None, r_cache_key := None,
                r_required_attempt_number := (if force then r_attempt_counter r + 1 else 0),
                r_error_code := None\<rparr>) (map_of (db_stage db) k)
        else map_of (db_stage db) k)" for k using inv by blast
  show out: "map_of (db_stage db') u = map_of (db_stage db) u" if "u \<notin> set scope" for u
    using that by (simp add: st)
  show "r_state r = INVALIDATED" if "u \<in> set scope" "map_of (db_stage db') u = Some r" for u r
    using that by (auto simp: st)
  show "good env N db' pub att n"
  proof (rule good_rows [OF g])
    show "db_ok db'" using g i by (auto simp: good_def intro: db_ok_invalidate)
    fix t row0 row' assume q: "map_of (db_stage db) t = Some row0" "map_of (db_stage db') t = Some row'"
      and o: "row_ok env N db pub n t row0"
    show "row_ok env N db' pub n t row'"
    proof (cases "t \<in> set scope")
      case True
      then have "r_state row' = INVALIDATED" "r_attempt_counter row' = r_attempt_counter row0"
          "r_attempt_id row' = None"
        using q by (auto simp: st)
      then show ?thesis using o by (simp add: row_ok_def)
    next
      case False
      then have "row' = row0" using q by (simp add: st)
      moreover have "artifact_hashes db' t = artifact_hashes db t" using inv False by simp
      moreover have "deps_complete db' t" if "deps_complete db t"
        by (rule deps_complete_mono [OF that]) (use inv closed False out in \<open>auto simp: complete_in_def\<close>)
      moreover have "attempt_known db' row0"
        by (rule attempt_known_mono [OF row_ok_attempt [OF o]]) (use inv in auto)
      ultimately show ?thesis using o by (auto simp: row_ok_def)
    qed
  qed (use g inv in \<open>auto simp: good_def list_all_iff\<close>)
qed

section \<open>Changes of the files\<close>

lemma good_attempts:
  "good env N db pub att n \<Longrightarrow> fst ` set att' \<subseteq> fst ` set (db_attempt db) \<Longrightarrow> good env N db pub att' n"
  by (simp add: good_def)

lemma good_publish:
  assumes g: "good env N db pub att n" and d: "d \<in> set (en_definitions env)"
    and e: "entry_ok env db d (i, e)" and fresh: "i \<notin> fst ` set es"
    and old: "pub (sd_stage_id d, cache_of env d) = None \<and> es = [] \<or> pub (sd_stage_id d, cache_of env d) = Some (CacheRoot es)"
    and distinct: "distinct (map sd_stage_id (en_definitions env))"
  shows "good env N db (pub((sd_stage_id d, cache_of env d) \<mapsto> CacheRoot (es @ [(i, e)]))) att n"
proof -
  let ?k = "(sd_stage_id d, cache_of env d)"
  let ?pub = "pub(?k \<mapsto> CacheRoot (es @ [(i, e)]))"
  have es: "distinct (map fst es) \<and> list_all (entry_ok env db d) es"
  proof (cases "es = []")
    case False
    then have "published_ok env db (sd_stage_id d) (cache_of env d) (CacheRoot es)"
      using old g unfolding good_def by blast
    then obtain d' where "d' \<in> set (en_definitions env)" "sd_stage_id d' = sd_stage_id d"
        "distinct (map fst es)" "list_all (entry_ok env db d') es"
      by (auto simp: published_ok_def)
    moreover from this have "d' = d" using d distinct by (simp add: distinct_map inj_on_def)
    ultimately show ?thesis by simp
  qed simp
  have new: "published_ok env db (sd_stage_id d) (cache_of env d) (CacheRoot (es @ [(i, e)]))"
    unfolding published_ok_def using d es e fresh by (intro exI [of _ d] exI [of _ "es @ [(i, e)]"]) simp
  have rows: "row_ok env N db ?pub n s row" if "map_of (db_stage db) s = Some row" for s row
  proof -
    have pub: "pub k \<noteq> None \<Longrightarrow> ?pub k \<noteq> None" for k by simp
    show ?thesis using good_row [OF g that] pub unfolding row_ok_def by meson
  qed
  have roots: "published_ok env db s c root" if "?pub (s, c) = Some root" for s c root
  proof (cases "(s, c) = ?k")
    case True
    then show ?thesis using that new by simp
  next
    case False
    then have "pub (s, c) = Some root" using that by (simp add: fun_upd_apply split: if_splits)
    then show ?thesis using g unfolding good_def by blast
  qed
  show ?thesis using g rows roots unfolding good_def by blast
qed

end
