(* ===== verification/RunTriples.thy ===== *)
theory RunTriples
  imports RunInvariant
begin

text \<open>
  The steps of the engine keep the invariant, whatever their outcome, and in a smooth environment
  they do not fail.  Every judgement has the same failure condition \<open>fails\<close>: the invariant
  holds, and if the environment is smooth then more than \<open>N\<close> attempts were begun.  With
  nothing known of the environment this is safety; in a smooth one it is progress.
\<close>

section \<open>Smooth environments\<close>

fun write_all :: "dir \<Rightarrow> (string \<times> string) list \<Rightarrow> dir res" where
  "write_all d [] = Inr d"
| "write_all d ((p, c) # r) = bindE (write_bytes d p c) (\<lambda>d'. write_all d' r)"

definition payload_files :: "artifact_payload list \<Rightarrow> (string \<times> string) list" where
  "payload_files ps = map (\<lambda>p. (pl_relative_path p, pl_content p)) ps"

text \<open>A stage that can be executed: its cache key and payloads exist, the payloads are acceptable
  and can be written beside the manifest.\<close>

definition smooth_stage :: "env \<Rightarrow> stage_definition \<Rightarrow> bool" where
  "smooth_stage env d \<longleftrightarrow>
     is_identifier (sd_stage_id d) \<and>
     stage_key env d (stage_upstream d (spec env)) = Inr (cache_of env d) \<and>
     checked_payloads d 0 (stage_context_of env d (spec env)) = Inr (payloads_of env d) \<and>
     list_all (\<lambda>p. check_entry (entry_of (en_sha env) p) = Inr () \<and> \<not> path_leak (pl_media_type p))
       (payloads_of env d) \<and>
     (\<forall>x. \<exists>d'. write_all [] (payload_files (payloads_of env d) @ [(ATTEMPT_MANIFEST_FILE, x)]) = Inr d')"

definition smooth :: "env \<Rightarrow> nat \<Rightarrow> crash_callback \<Rightarrow> bool" where
  "smooth env N cb \<longleftrightarrow>
     (\<forall>b s. cb b s = Continue) \<and> fits env N \<and>
     (\<forall>x. is_sha256 (en_sha env x)) \<and> is_identifier (ri_workflow_id (en_inputs env)) \<and>
     list_all (smooth_stage env) (en_definitions env) \<and>
     (\<forall>db pub att n. good env N db pub att n \<and> n \<le> N \<longrightarrow>
        (\<exists>doc. run_document_bytes (en_sha env) (en_native env) (en_inputs env) (en_definitions env) db = Inr doc)) \<and>
     (\<exists>i. run_id_of (en_sha env) (en_inputs env) = Inr i \<and> is_stable_id i) \<and>
     (\<exists>h. spec_digest env = Inr h)"

section \<open>Assertions\<close>

definition plain :: "fs_node \<Rightarrow> bool" where
  "plain node \<longleftrightarrow> (case node of NoEntry \<Rightarrow> True | RegularFile _ \<Rightarrow> True | _ \<Rightarrow> False)"

definition tidy :: "world \<Rightarrow> bool" where
  "tidy w \<longleftrightarrow> w_quick_check w \<and> (\<forall>s. plain (w_completions w s)) \<and> plain (w_run_artifact w)"

type_synonym core_assertion = "database \<Rightarrow> published \<Rightarrow> attempts \<Rightarrow> nat \<Rightarrow> bool"

definition holds :: "core_assertion \<Rightarrow> world \<Rightarrow> bool" where
  "holds \<Phi> w \<longleftrightarrow> tidy w \<and> \<Phi> (w_database w) (w_published w) (w_attempts w) (w_draws w)"

definition fails :: "env \<Rightarrow> nat \<Rightarrow> crash_callback \<Rightarrow> world \<Rightarrow> bool" where
  "fails env N cb w \<longleftrightarrow> holds (good env N) w \<and> (smooth env N cb \<longrightarrow> N < w_draws w)"

lemma existing_pointer_regular: "\<exists>o0. existing_pointer (RegularFile c) = Inr o0"
proof (cases "bindE (read_bounded_regular_file (RegularFile c) MAX_CONTROL_FILE_BYTES) parse_completion_pointer_bytes")
  case (Inl e)
  then have "is_integrity_error e"
    by (auto simp: bindE_eq_Inl read_bounded_regular_file_def Let_def split: if_splits
        dest: parse_completion_pointer_fails)
  then show ?thesis using Inl by (simp add: existing_pointer_def)
next
  case (Inr p)
  then show ?thesis unfolding existing_pointer_def Inr by simp
qed

locale engine_steps = run_environment +
  fixes N :: nat and cb :: crash_callback
  assumes fits_N: "fits env N"
begin

abbreviation "sound \<equiv> good env N"
abbreviation "failure \<equiv> fails env N cb"

text \<open>How an operation may fail: the invariant holds and something is not smooth.\<close>

lemma failureI:
  assumes "holds \<Phi> w" and "\<And>db p a n. \<Phi> db p a n \<Longrightarrow> sound db p a n"
    and "smooth env N cb \<Longrightarrow> w_draws w \<le> N \<Longrightarrow> False"
  shows "failure w"
  using assms not_le unfolding fails_def holds_def by blast

lemma smooth_cb: "smooth env N cb \<Longrightarrow> cb b s = Continue"
  by (simp add: smooth_def)

lemma smooth_stageD:
  "smooth env N cb \<Longrightarrow> d \<in> set definitions \<Longrightarrow> smooth_stage env d"
  by (simp add: smooth_def list_all_iff)

subsection \<open>Basic steps\<close>

lemma t_lift:
  assumes "\<And>x. g = Inr x \<Longrightarrow> Q x" and "\<And>db p a n. \<Phi> db p a n \<Longrightarrow> sound db p a n"
    and "\<And>e w. g = Inl e \<Longrightarrow> smooth env N cb \<Longrightarrow> holds \<Phi> w \<Longrightarrow> w_draws w \<le> N \<Longrightarrow> False"
  shows "triple (holds \<Phi>) (liftS (\<lambda>_. g)) (\<lambda>x w. holds \<Phi> w \<and> Q x) failure"
proof (rule triple_lift)
  fix w e assume "holds \<Phi> w" and "g = Inl e"
  then show "failure w" by (intro failureI [OF _ assms(2)] assms(3))
qed (use assms(1) in auto)

lemma t_query:
  assumes "\<And>db p a n. \<Phi> db p a n \<Longrightarrow> sound db p a n"
    and "\<And>db p a n e. \<Phi> db p a n \<Longrightarrow> f db = Inl e \<Longrightarrow> smooth env N cb \<Longrightarrow> n \<le> N \<Longrightarrow> False"
  shows "triple (holds \<Phi>) (query f) (\<lambda>x. holds (\<lambda>db p a n. \<Phi> db p a n \<and> f db = Inr x)) failure"
  unfolding query_def
proof (rule triple_lift)
  fix w e assume "holds \<Phi> w" and "f (w_database w) = Inl e"
  then show "failure w" using assms(2) by (intro failureI [OF _ assms(1)]) (auto simp: holds_def)
qed (auto simp: holds_def)

lemma t_database:
  assumes "\<And>db p a n. \<Phi> db p a n \<Longrightarrow> sound db p a n"
    and "\<And>db p a n db'. \<Phi> db p a n \<Longrightarrow> f db = Inr db' \<Longrightarrow> \<Psi> db' p a n"
    and "\<And>db p a n e. \<Phi> db p a n \<Longrightarrow> f db = Inl e \<Longrightarrow> smooth env N cb \<Longrightarrow> n \<le> N \<Longrightarrow> False"
  shows "triple (holds \<Phi>) (in_database f) (\<lambda>_. holds \<Psi>) failure"
  unfolding in_database_def
proof (rule triple_modify)
  fix w e assume "holds \<Phi> w" and "bindE (f (w_database w)) (\<lambda>db. Inr (w\<lparr>w_database := db\<rparr>, ())) = Inl e"
  then show "failure w"
    using assms(3) by (intro failureI [OF _ assms(1)]) (auto simp: holds_def bindE_eq_Inl)
qed (use assms(2) in \<open>auto simp: holds_def tidy_def\<close>)

lemma t_callback:
  assumes "\<And>db p a n. \<Phi> db p a n \<Longrightarrow> sound db p a n"
  shows "triple (holds \<Phi>) (callback cb b s) (\<lambda>_. holds \<Phi>) failure"
  unfolding triple_def callback_def
  using assms smooth_cb by (auto intro!: failureI split: signal.split)

lemma t_ret: "triple (holds \<Phi>) (ret x) (\<lambda>_. holds \<Phi>) failure"
  by (rule triple_ret)

lemma t_export:
  assumes "\<And>db p a n. \<Phi> db p a n \<Longrightarrow> sound db p a n"
  shows "triple (holds \<Phi>) (export_run_artifact env) (\<lambda>_. holds \<Phi>) failure"
proof -
  have "\<exists>doc. run_document_bytes (en_sha env) (en_native env) (en_inputs env) (en_definitions env) (w_database w) = Inr doc"
    if "holds \<Phi> w" "smooth env N cb" "w_draws w \<le> N" for w
    using that assms unfolding smooth_def holds_def by blast
  moreover have "w_run_artifact w \<noteq> Directory" if "holds \<Phi> w" for w
    using that by (auto simp: holds_def tidy_def plain_def)
  ultimately show ?thesis
    unfolding export_run_artifact_def using assms
    by (intro triple_modify)
      (fastforce simp: holds_def tidy_def plain_def split: if_splits,
       fastforce intro!: failureI simp: bindE_eq_Inl split: if_splits)
qed

lemma t_add_action:
  assumes "\<And>db p a n. \<Phi> db p a n \<Longrightarrow> sound db p a n" and "s \<in> set (map sd_stage_id definitions)"
  shows "triple (holds \<Phi>) (add_action s act detail actions) (\<lambda>_. holds \<Phi>) failure"
  unfolding add_action_def
proof (rule triple_weaken [OF t_lift [where Q = "\<lambda>_. True" and \<Phi> = \<Phi>]])
  fix e assume e: "bindE (action_record s act detail) (\<lambda>r. Inr (actions @ [r])) = Inl e"
    and sm: "smooth env N cb"
  from assms(2) obtain d where "d \<in> set definitions" "s = sd_stage_id d" by auto
  then have "is_identifier s" using smooth_stageD [OF sm] by (simp add: smooth_stage_def)
  then show False using e by (simp add: action_record_def)
qed (use assms(1) in auto)

lemma t_publish_pointer:
  assumes "\<And>db p a n. \<Phi> db p a n \<Longrightarrow> sound db p a n"
    and "smooth env N cb \<Longrightarrow> check_pointer (pointer_of env attempt) = Inr () \<and>
           (\<exists>doc. canonical_document (pointer_dump (pointer_of env attempt)) = Inr doc)"
  shows "triple (holds \<Phi>) (publish_pointer env attempt) (\<lambda>_. holds \<Phi>) failure"
  unfolding publish_pointer_def
proof (rule triple_modify)
  fix w w' x assume "holds \<Phi> w" and "(let pointer = pointer_of env attempt; s = m_stage_id (pa_manifest attempt) in
     bindE (check_pointer pointer) (\<lambda>_.
     bindE (if w_completions w s = NoEntry then Inr None else existing_pointer (w_completions w s)) (\<lambda>existing.
       if existing = Some pointer then Inr (w, False)
       else bindE (canonical_document (pointer_dump pointer)) (\<lambda>document.
              Inr (w\<lparr>w_completions := (w_completions w)(s := RegularFile document)\<rparr>, True))))) = Inr (w', x)"
  then show "holds \<Phi> w'"
    by (auto simp: Let_def holds_def tidy_def plain_def split: if_splits)
next
  fix w e assume h: "holds \<Phi> w" and e: "(let pointer = pointer_of env attempt; s = m_stage_id (pa_manifest attempt) in
     bindE (check_pointer pointer) (\<lambda>_.
     bindE (if w_completions w s = NoEntry then Inr None else existing_pointer (w_completions w s)) (\<lambda>existing.
       if existing = Some pointer then Inr (w, False)
       else bindE (canonical_document (pointer_dump pointer)) (\<lambda>document.
              Inr (w\<lparr>w_completions := (w_completions w)(s := RegularFile document)\<rparr>, True))))) = Inl e"
  have "\<exists>o0. existing_pointer (RegularFile c) = Inr o0" for c
    by (rule existing_pointer_regular)
  then have "\<exists>o0. (if w_completions w s = NoEntry then Inr None else existing_pointer (w_completions w s)) = Inr o0" for s
    using h by (cases "w_completions w s") (auto simp: holds_def tidy_def plain_def split: fs_node.splits)
  then obtain o0 where o0: "(if w_completions w (m_stage_id (pa_manifest attempt)) = NoEntry then Inr None
      else existing_pointer (w_completions w (m_stage_id (pa_manifest attempt)))) = Inr o0" by blast
  show "failure w"
  proof (rule failureI [OF h assms(1)])
    assume "smooth env N cb"
    then obtain doc where "check_pointer (pointer_of env attempt) = Inr ()"
        "canonical_document (pointer_dump (pointer_of env attempt)) = Inr doc"
      using assms(2) by blast
    then show False using e unfolding Let_def o0 by (simp split: if_splits)
  qed
qed

end

end
