(* ===== verification/RunReconcile.thy ===== *)
theory RunReconcile
  imports RunTriples
begin

text \<open>
  Reconciliation.  The dependency closure is the set of stages reachable along dependencies;
  in a sound world the cache key of a stage whose dependencies are complete is that of the ideal
  run, the selection among its published attempts finds an ideal one, and \<open>reconcile\<close>
  keeps the invariant and leaves no stage running.
\<close>

section \<open>The dependency closure\<close>

definition depends :: "stage_definition list \<Rightarrow> (string \<times> string) set" where
  "depends ds = {(u, sd_stage_id d) | u d. d \<in> set ds \<and> u \<in> set (sd_dependencies d)}"

lemma closure_pass_snoc:
  "closure_pass (ds @ [d]) a =
     (let b = closure_pass ds a in
      if sd_stage_id d \<in> set b then b
      else if list_ex (\<lambda>u. u \<in> set b) (sd_dependencies d) then b @ [sd_stage_id d] else b)"
  by (simp add: closure_pass_def Let_def)

lemma closure_pass_prefix: "\<exists>new. closure_pass ds a = a @ new"
  using closure_pass_append by blast

lemma closure_pass_fixed:
  "closure_pass ds a = a \<Longrightarrow> d \<in> set ds \<Longrightarrow> u \<in> set (sd_dependencies d) \<Longrightarrow> u \<in> set a \<Longrightarrow> sd_stage_id d \<in> set a"
proof (induction ds rule: rev_induct)
  case (snoc x ds)
  obtain new where n: "closure_pass ds a = a @ new" using closure_pass_prefix by blast
  have "closure_pass ds a = a"
    using snoc.prems(1) n by (auto simp: closure_pass_snoc Let_def split: if_splits)
  then show ?case
    using snoc.IH snoc.prems by (auto simp: closure_pass_snoc list_ex_iff split: if_splits)
qed simp

lemma closure_pass_sound:
  "set a \<subseteq> (depends ds')\<^sup>* `` {s} \<Longrightarrow> set ds \<subseteq> set ds' \<Longrightarrow> set (closure_pass ds a) \<subseteq> (depends ds')\<^sup>* `` {s}"
proof (induction ds rule: rev_induct)
  case (snoc x ds)
  then have ih: "set (closure_pass ds a) \<subseteq> (depends ds')\<^sup>* `` {s}" and x: "x \<in> set ds'" by auto
  have "sd_stage_id x \<in> (depends ds')\<^sup>* `` {s}"
    if "u \<in> set (sd_dependencies x)" "u \<in> set (closure_pass ds a)" for u
  proof -
    have "(u, sd_stage_id x) \<in> depends ds'" using that(1) x by (auto simp: depends_def)
    then show ?thesis using ih that(2) by (auto intro: rtrancl_into_rtrancl)
  qed
  then show ?case using ih by (auto simp: closure_pass_snoc Let_def list_ex_iff)
qed (simp add: closure_pass_def)

lemma closure_loop_correct:
  "set a \<subseteq> (depends ds)\<^sup>* `` {s} \<Longrightarrow> s \<in> set a \<Longrightarrow> set (closure_loop ds a) = (depends ds)\<^sup>* `` {s}"
proof (induction ds a rule: closure_loop.induct)
  case (1 ds a)
  show ?case
  proof (cases "closure_pass ds a = a")
    case True
    have "x \<in> set a" if "(s, x) \<in> (depends ds)\<^sup>*" for x
      using that
    proof (induction rule: rtrancl_induct)
      case (step y z)
      then show ?case using closure_pass_fixed [OF True] by (auto simp: depends_def)
    qed (use "1.prems" in simp)
    then show ?thesis
      using True "1.prems" by (subst closure_loop.simps) (auto simp: Let_def)
  next
    case False
    obtain new where new: "closure_pass ds a = a @ new" using closure_pass_prefix by blast
    have "set (closure_pass ds a) \<subseteq> (depends ds)\<^sup>* `` {s}"
      using closure_pass_sound "1.prems" by blast
    moreover have "s \<in> set (closure_pass ds a)" using "1.prems" new by simp
    ultimately have "set (closure_loop ds (closure_pass ds a)) = (depends ds)\<^sup>* `` {s}"
      using "1.IH" [OF refl False] by blast
    then show ?thesis using False by (subst closure_loop.simps) (simp add: Let_def)
  qed
qed

lemma dependency_closure_set:
  assumes "dependency_closure ds s = Inr scope"
  shows "set scope = (depends ds)\<^sup>* `` {s} \<inter> set (map sd_stage_id ds)" and "s \<in> set scope"
proof -
  have c: "set (closure_loop ds [s]) = (depends ds)\<^sup>* `` {s}"
    by (rule closure_loop_correct) simp_all
  have s: "s \<in> set (map sd_stage_id ds)"
    and scope: "scope = filter (\<lambda>x. x \<in> set (closure_loop ds [s])) (map sd_stage_id ds)"
    using assms unfolding dependency_closure_def by (simp_all split: if_splits)
  show eq: "set scope = (depends ds)\<^sup>* `` {s} \<inter> set (map sd_stage_id ds)"
    unfolding scope c set_filter by blast
  have "s \<in> (depends ds)\<^sup>* `` {s}" by blast
  then show "s \<in> set scope" unfolding eq using s by blast
qed

lemma dependency_closure_closed:
  assumes "dependency_closure ds s = Inr scope" and "(t, u) \<in> set (dependency_pairs ds)" and "u \<in> set scope"
  shows "t \<in> set scope"
proof -
  obtain d where d: "d \<in> set ds" "sd_stage_id d = t" "u \<in> set (sd_dependencies d)"
    using assms(2) by (auto simp: dependency_pairs_iff)
  then have "(u, t) \<in> depends ds" by (auto simp: depends_def)
  then show ?thesis
    using assms(3) d unfolding dependency_closure_set(1) [OF assms(1)]
    by (auto intro: rtrancl_into_rtrancl)
qed

section \<open>Cache keys in a sound world\<close>

lemma foldl_bind_Inl: "foldl (\<lambda>acc u. bindE acc (g u)) (Inl e) us = Inl e"
  by (induction us) auto

lemma upstream_fold:
  assumes "\<And>u. u \<in> set us \<Longrightarrow> complete_in db u \<Longrightarrow> artifact_hashes db u = S u"
  shows "foldl (\<lambda>acc u. bindE acc (\<lambda>hashes. bindE (stage_row db u) (\<lambda>row.
          if r_state row \<noteq> COMPLETE then Inl (ValueError ''upstream stage is incomplete'')
          else Inr (foldl (\<lambda>h (k, v). alist_put (u @ '':'' @ k) v h) hashes (artifact_hashes db u)))))
        (Inr acc0) us = Inr r \<longleftrightarrow>
     (\<forall>u \<in> set us. complete_in db u) \<and>
     r = foldl (\<lambda>hashes u. foldl (\<lambda>h (k, v). alist_put (u @ '':'' @ k) v h) hashes (S u)) acc0 us"
  using assms
proof (induction us arbitrary: acc0)
  case (Cons u us)
  show ?case
  proof (cases "complete_in db u")
    case True
    then obtain row where "map_of (db_stage db) u = Some row" "r_state row = COMPLETE"
      by (auto simp: complete_in_def)
    then show ?thesis using Cons True by (simp add: stage_row_def)
  next
    case False
    have "\<exists>e. bindE (stage_row db u) (\<lambda>row.
          if r_state row \<noteq> COMPLETE then Inl (ValueError ''upstream stage is incomplete'')
          else Inr (foldl (\<lambda>h (k, v). alist_put (u @ '':'' @ k) v h) acc0 (artifact_hashes db u))) = Inl e"
      using False by (cases "map_of (db_stage db) u") (auto simp: stage_row_def complete_in_def)
    then obtain e where e: "bindE (stage_row db u) (\<lambda>row.
          if r_state row \<noteq> COMPLETE then Inl (ValueError ''upstream stage is incomplete'')
          else Inr (foldl (\<lambda>h (k, v). alist_put (u @ '':'' @ k) v h) acc0 (artifact_hashes db u))) = Inl e" ..
    show ?thesis unfolding foldl_Cons bindE_Inr e foldl_bind_Inl using False by simp
  qed
qed auto

context engine_steps
begin

lemma dependency_iff:
  "sound db p a n \<Longrightarrow> d \<in> set definitions \<Longrightarrow>
     (sd_stage_id d, u) \<in> set (db_dependency db) \<longleftrightarrow> u \<in> set (sd_dependencies d)"
  using same_definition by (auto simp: good_def dependency_pairs_iff)

lemma deps_complete_iff:
  "sound db p a n \<Longrightarrow> d \<in> set definitions \<Longrightarrow>
     deps_complete db (sd_stage_id d) \<longleftrightarrow> (\<forall>u \<in> set (sd_dependencies d). complete_in db u)"
  by (auto simp: deps_complete_def dependency_iff)

lemma upstream_hashes_sound:
  assumes "sound db p a n" and "d \<in> set definitions"
  shows "upstream_hashes db d = Inr h \<longleftrightarrow>
     deps_complete db (sd_stage_id d) \<and> h = stage_upstream d (spec env)"
  unfolding upstream_hashes_def stage_upstream_def deps_complete_iff [OF assms]
  by (rule upstream_fold) (rule good_complete [OF assms(1)])

lemma cache_key_sound:
  assumes "sound db p a n" and "d \<in> set definitions" and "cache_key env db d = Inr c"
  shows "c = cache_of env d" and "deps_complete db (sd_stage_id d)"
  using assms(3) upstream_hashes_sound [OF assms(1,2)]
  by (auto simp: cache_key_def cache_of_def stage_cache_def)

lemma cache_key_smooth:
  assumes "sound db p a n" and "d \<in> set definitions" and "deps_complete db (sd_stage_id d)" and "smooth env N cb"
  shows "cache_key env db d = Inr (cache_of env d)"
proof -
  have k: "stage_key env d (stage_upstream d (spec env)) = Inr (cache_of env d)"
    using smooth_stageD [OF assms(4,2)] by (simp add: smooth_stage_def)
  moreover obtain r where "relevant_configuration (en_inputs env) d = Inr r"
    using k by (auto simp: stage_key_def)
  moreover have "upstream_hashes db d = Inr (stage_upstream d (spec env))"
    using upstream_hashes_sound [OF assms(1,2)] assms(3) by blast
  ultimately show ?thesis by (simp add: cache_key_def)
qed

lemma stage_row_sound:
  assumes "sound db p a n" and "s \<in> set (map sd_stage_id definitions)"
  shows "\<exists>row. stage_row db s = Inr row"
proof -
  have "s \<in> set (map fst (db_stage db))" using assms by (simp add: good_def)
  then obtain row where "map_of (db_stage db) s = Some row"
    by (metis map_of_eq_None_iff not_Some_eq set_map)
  then show ?thesis by (simp add: stage_row_def)
qed

lemma dependencies_complete_sound:
  assumes "sound db p a n" and "d \<in> set definitions"
  shows "dependencies_complete db d = Inr (deps_complete db (sd_stage_id d))"
proof -
  define row where "row = (\<lambda>u. the (map_of (db_stage db) u))"
  have r: "stage_row db u = Inr (row u)" if "u \<in> set (sd_dependencies d)" for u
    using stage_row_sound [OF assms(1) dependency_defined [OF assms(2) that]] by (auto simp: row_def)
  then have "mapE (stage_row db) (sd_dependencies d) = Inr (map row (sd_dependencies d))"
    by (rule mapE_Inr)
  moreover have "complete_in db u \<longleftrightarrow> r_state (row u) = COMPLETE" if "u \<in> set (sd_dependencies d)" for u
    using r [OF that] by (auto simp: complete_in_def)
  ultimately show ?thesis
    by (simp add: dependencies_complete_def deps_complete_iff [OF assms] list_all_iff)
qed

section \<open>Selection in a sound world\<close>

definition ideal_published :: "stage_definition \<Rightarrow> string \<Rightarrow> nat \<Rightarrow> published_attempt" where
  "ideal_published d i n =
     \<lparr>pa_name = i, pa_manifest = ideal_manifest env d i n,
      pa_manifest_sha256 = en_sha env (dumps (manifest_dump (ideal_manifest env d i n)) @ [CHR 0x0A])\<rparr>"

lemma ideal_manifest_fields [simp]:
  "m_stage_id (ideal_manifest env d i n) = sd_stage_id d"
  "m_cache_key (ideal_manifest env d i n) = cache_of env d"
  "m_attempt_id (ideal_manifest env d i n) = i"
  "m_attempt_number (ideal_manifest env d i n) = n"
  by (simp_all add: ideal_manifest_def manifest_of_def)

lemma ideal_published_fields [simp]:
  "pa_name (ideal_published d i n) = i" "pa_manifest (ideal_published d i n) = ideal_manifest env d i n"
  by (simp_all add: ideal_published_def)

lemma attempt_number_bound:
  assumes g: "sound db p a draws" and "i \<in> fst ` set (db_attempt db)" and w: "well_named i s n"
  shows "n \<le> draws"
proof -
  have ok: "db_ok db" using g by (simp add: good_def)
  obtain row where r: "(i, row) \<in> set (db_attempt db)" using assms(2) by force
  obtain sr where "map_of (db_stage db) (a_stage_id row) = Some sr" "a_attempt_number row \<le> r_attempt_counter sr"
    using db_ok_attempt [OF ok r] by blast
  moreover have "a_attempt_number row = n"
    using db_ok_attempt [OF ok r] w well_named_unique by blast
  moreover have "r_attempt_counter sr \<le> draws"
    using good_row [OF g] calculation(1) by (auto simp: row_ok_def)
  ultimately show ?thesis by simp
qed

lemma valid_attempt_number: "valid_attempt env d i n \<Longrightarrow> 0 < n"
  by (auto simp: valid_attempt_def check_manifest_def)

lemma mapE_Inl: "mapE f xs = Inl e \<Longrightarrow> \<exists>x \<in> set xs. f x = Inl e"
  by (induction xs) (auto simp: bindE_eq_Inl)

lemma select_sound:
  assumes w: "holds sound w" and d: "d \<in> set definitions"
  shows "select_published env d (cache_of env d) w = Inr None
           \<and> w_published w (sd_stage_id d, cache_of env d) = None
       \<or> (\<exists>i n. select_published env d (cache_of env d) w = Inr (Some (ideal_published d i n))
           \<and> well_named i (sd_stage_id d) n \<and> valid_attempt env d i n
           \<and> i \<in> fst ` set (db_attempt (w_database w)) \<and> w_published w (sd_stage_id d, cache_of env d) \<noteq> None)
       \<or> (\<exists>t. select_published env d (cache_of env d) w = Inl (ArtifactIntegrityError t) \<and> N < w_draws w)"
proof (cases "w_published w (sd_stage_id d, cache_of env d)")
  case None
  then show ?thesis by (simp add: select_published_def)
next
  case (Some root)
  have g: "sound (w_database w) (w_published w) (w_attempts w) (w_draws w)" using w by (simp add: holds_def)
  then have "published_ok env (w_database w) (sd_stage_id d) (cache_of env d) root"
    using Some by (simp add: good_def)
  then obtain d' es where "d' \<in> set definitions" "sd_stage_id d' = sd_stage_id d"
    and root: "root = CacheRoot es" and ne: "es \<noteq> []" and es': "list_all (entry_ok env (w_database w) d') es"
    by (auto simp: published_ok_def)
  then have es: "list_all (entry_ok env (w_database w) d) es" using same_definition d by metis
  let ?xs = "sort_key fst es"
  define num where "num = (\<lambda>x :: string \<times> dir_entry. SOME n. snd x = RealDirectory (attempt_dir env d (fst x) n)
      \<and> well_named (fst x) (sd_stage_id d) n \<and> valid_attempt env d (fst x) n)"
  have num: "snd x = RealDirectory (attempt_dir env d (fst x) (num x)) \<and> well_named (fst x) (sd_stage_id d) (num x)
      \<and> valid_attempt env d (fst x) (num x)" and known: "fst x \<in> fst ` set (db_attempt (w_database w))"
    if "x \<in> set es" for x
  proof -
    have "entry_ok env (w_database w) d x" using es that by (simp add: list_all_iff)
    then obtain n where n: "snd x = RealDirectory (attempt_dir env d (fst x) n)
      \<and> well_named (fst x) (sd_stage_id d) n \<and> valid_attempt env d (fst x) n"
      and "fst x \<in> fst ` set (db_attempt (w_database w))"
      by (auto simp: entry_ok_def split: prod.splits)
    then show "fst x \<in> fst ` set (db_attempt (w_database w))" by simp
    show "snd x = RealDirectory (attempt_dir env d (fst x) (num x)) \<and> well_named (fst x) (sd_stage_id d) (num x)
      \<and> valid_attempt env d (fst x) (num x)"
      unfolding num_def by (rule someI [where P = "\<lambda>n. snd x = RealDirectory (attempt_dir env d (fst x) n)
      \<and> well_named (fst x) (sd_stage_id d) n \<and> valid_attempt env d (fst x) n", OF n])
  qed
  have cand: "check_candidate env d (cache_of env d) x =
     (if manifest_fits env d (fst x) (num x) then Inr (ideal_published d (fst x) (num x))
      else Inl (ArtifactIntegrityError ''attempt manifest is invalid''))" if "x \<in> set es" for x
    using num [OF that] check_candidate_attempt_dir [of env d "fst x" "num x"]
    by (cases x) (auto simp: ideal_published_def)
  show ?thesis
  proof (cases "\<forall>x \<in> set es. manifest_fits env d (fst x) (num x)")
    case True
    define pub where "pub = (\<lambda>x :: string \<times> dir_entry. ideal_published d (fst x) (num x))"
    have m: "mapE (check_candidate env d (cache_of env d)) ?xs = Inr (map pub ?xs)"
      unfolding pub_def by (rule mapE_Inr) (use cand True in simp)
    obtain x xs where xs: "?xs = x # xs" using ne by (cases ?xs) (metis sort_key_simps(1) set_empty set_sort, auto)
    have fp: "fingerprint (pub y) = fingerprint (pub x)" for y
      by (simp add: fingerprint_def pub_def ideal_manifest_def manifest_of_def)
    have "list_all (\<lambda>a. fingerprint a = fingerprint (pub x)) (map pub xs)"
      using fp unfolding list_all_iff by auto
    then have "select_published env d (cache_of env d) w = Inr (Some (latest (pub x) (map pub xs)))"
      unfolding select_published_def Some root option.case cache_root.case m [unfolded xs] xs
      by simp
    then have sel: "select_published env d (cache_of env d) w = Inr (Some (latest (pub x) (map pub xs)))" .
    have "latest (pub x) (map pub xs) \<in> pub ` set (x # xs)"
      using latest_member [of "pub x" "map pub xs"] by simp
    moreover have "set (x # xs) = set es" unfolding xs [symmetric] by simp
    ultimately have "latest (pub x) (map pub xs) \<in> pub ` set es" by (simp only:)
    then obtain y where y: "y \<in> set es" and l: "latest (pub x) (map pub xs) = pub y" by (rule imageE)
    have "select_published env d (cache_of env d) w = Inr (Some (ideal_published d (fst y) (num y)))"
      using sel l by (simp add: pub_def)
    then show ?thesis using num [OF y] known [OF y] Some by blast
  next
    case False
    then obtain x where x: "x \<in> set es" "\<not> manifest_fits env d (fst x) (num x)" by blast
    have "\<not> (\<exists>ys. mapE (check_candidate env d (cache_of env d)) ?xs = Inr ys)"
    proof
      assume "\<exists>ys. mapE (check_candidate env d (cache_of env d)) ?xs = Inr ys"
      then obtain ys where l: "list_all2 (\<lambda>x y. check_candidate env d (cache_of env d) x = Inr y) ?xs ys"
        unfolding mapE_eq_Inr_iff by blast
      have "x \<in> set ?xs" using x(1) by simp
      then obtain k where "k < length ?xs" and "?xs ! k = x" unfolding in_set_conv_nth by blast
      then obtain y where "check_candidate env d (cache_of env d) x = Inr y"
        using list_all2_nthD [OF l] by blast
      then show False using cand [OF x(1)] x(2) by simp
    qed
    then obtain e where e: "mapE (check_candidate env d (cache_of env d)) ?xs = Inl e"
      by (cases "mapE (check_candidate env d (cache_of env d)) ?xs") auto
    obtain y where "y \<in> set es" "check_candidate env d (cache_of env d) y = Inl e"
      using mapE_Inl [OF e] unfolding set_sort by blast
    then have "e = ArtifactIntegrityError ''attempt manifest is invalid''"
      using cand by (auto split: if_splits)
    moreover have "N < w_draws w"
    proof -
      have "num x \<le> w_draws w"
        using attempt_number_bound [OF g known [OF x(1)]] num [OF x(1)] by blast
      moreover have "\<not> num x \<le> N"
        using x(2) num [OF x(1)] valid_attempt_number [of d "fst x" "num x"] fits_N d unfolding fits_def by blast
      ultimately show ?thesis by simp
    qed
    ultimately show ?thesis by (simp add: select_published_def Some root e)
  qed
qed

section \<open>One stage\<close>

lemma spec_hashes_ideal:
  "d \<in> set definitions \<Longrightarrow> valid_attempt env d i n \<Longrightarrow>
     manifest_hashes (ideal_manifest env d i n) = spec env (sd_stage_id d)"
  by (simp add: ideal_manifest_def manifest_hashes_entries valid_attempt_def spec_fixed)

lemma ideal_pointer:
  assumes sm: "smooth env N cb" and d: "d \<in> set definitions" and v: "valid_attempt env d i n"
  shows "check_pointer (pointer_of env (ideal_published d i n)) = Inr () \<and>
    (\<exists>doc. canonical_document (pointer_dump (pointer_of env (ideal_published d i n))) = Inr doc)"
proof -
  have s: "is_identifier (sd_stage_id d)" and w: "is_identifier (ri_workflow_id (en_inputs env))"
    using sm smooth_stageD [OF sm d] by (simp_all add: smooth_def smooth_stage_def)
  have c: "is_sha256 (cache_of env d)" and i: "is_identifier i" and n: "0 < n"
    using v by (auto simp: valid_attempt_def check_manifest_def ideal_manifest_def manifest_of_def)
  have "is_sha256 (pa_manifest_sha256 (ideal_published d i n))"
    using sm by (simp add: smooth_def ideal_published_def)
  then have "check_pointer (pointer_of env (ideal_published d i n)) = Inr ()"
    using s w c i n published_path_valid [OF s sha256_identifier [OF c] i]
    by (simp add: check_pointer_def pointer_of_def Let_def published_directory_def)
  then show ?thesis using pointer_document by blast
qed

definition settled :: "database \<Rightarrow> nat \<Rightarrow> string \<Rightarrow> bool" where
  "settled db n s \<longleftrightarrow> N < n \<or> (\<forall>r. map_of (db_stage db) s = Some r \<longrightarrow> r_state r \<noteq> RUNNING)"

definition reconciled :: "string set \<Rightarrow> core_assertion" where
  "reconciled D db p a n \<longleftrightarrow> sound db p a n \<and> (\<forall>s \<in> D. settled db n s)"

lemma reconciled_sound: "reconciled D db p a n \<Longrightarrow> sound db p a n"
  by (simp add: reconciled_def)

lemma reconciled_settled: "reconciled D db p a n \<Longrightarrow> s \<in> D \<Longrightarrow> settled db n s"
  by (simp add: reconciled_def)

lemma settled_cong: "map_of (db_stage db') s = map_of (db_stage db) s \<Longrightarrow> settled db' n s = settled db n s"
  by (simp add: settled_def)

lemma reconciledI: "sound db p a n \<Longrightarrow> (\<And>s. s \<in> D \<Longrightarrow> settled db n s) \<Longrightarrow> reconciled D db p a n"
  by (simp add: reconciled_def)

lemma reconciled_mark:
  assumes r: "reconciled D db p a n" and row: "map_of (db_stage db) s = Some row"
    and m: "mark_state db s st e = Inr db'"
    and st: "st \<in> {FAILED_RETRYABLE, FAILED_FINAL}" "st = FAILED_FINAL \<Longrightarrow> N < n"
    and was: "r_state row \<noteq> COMPLETE \<or> N < n"
  shows "reconciled (insert s D) db' p a n"
proof -
  have db': "db' = update_stage s (\<lambda>r. r\<lparr>r_state := st, r_error_code := e\<rparr>) db"
    using m row by (auto simp: mark_state_def split: if_splits)
  show ?thesis
    using r good_mark [OF reconciled_sound [OF r] row m st was] st(1)
    by (auto simp: reconciled_def settled_def db')
qed

lemma reconciled_invalidate:
  assumes r: "reconciled D db p a n" and c: "dependency_closure definitions s = Inr scope"
    and i: "invalidate db scope f = Inr db'"
  shows "reconciled (insert s D) db' p a n"
proof -
  have g: "sound db p a n" by (rule reconciled_sound [OF r])
  have closed: "t \<in> set scope" if "(t, u) \<in> set (db_dependency db)" "u \<in> set scope" for t u
    using dependency_closure_closed [OF c _ that(2)] that(1) g by (simp add: good_def)
  have inv: "sound db' p a n" by (rule good_invalidate(1) [OF g i closed])
  have out: "map_of (db_stage db') u = map_of (db_stage db) u" if "u \<notin> set scope" for u
    by (rule good_invalidate(2) [OF g i closed that])
  have inside: "r_state r = INVALIDATED" if "u \<in> set scope" "map_of (db_stage db') u = Some r" for u r
    by (rule good_invalidate(3) [OF g i closed that])
  have "settled db' n t" if "t = s \<or> t \<in> D" for t
  proof (cases "t \<in> set scope")
    case True
    then show ?thesis using inside by (auto simp: settled_def)
  next
    case False
    then have "t \<in> D" using that dependency_closure_set(2) [OF c] by auto
    show ?thesis unfolding settled_cong [OF out [OF False]] by (rule reconciled_settled [OF r \<open>t \<in> D\<close>])
  qed
  then show ?thesis using inv by (auto intro: reconciledI)
qed

lemma reconciled_record:
  assumes r: "reconciled D db p a n" and d: "d \<in> set definitions" and v: "valid_attempt env d i k"
    and named: "well_named i (sd_stage_id d) k" and known: "i \<in> fst ` set (db_attempt db)"
    and pub: "p (sd_stage_id d, cache_of env d) \<noteq> None" and deps: "N < n \<or> deps_complete db (sd_stage_id d)"
    and m: "record_complete db (ideal_manifest env d i k) h
      (published_directory (sd_stage_id d) (cache_of env d) i) = Inr db'"
  shows "reconciled (insert (sd_stage_id d) D) db' p a n"
    and "complete_in db' (sd_stage_id d)" and "\<And>u. complete_in db u \<Longrightarrow> complete_in db' u"
    and "\<And>u. u \<noteq> sd_stage_id d \<Longrightarrow> map_of (db_stage db') u = map_of (db_stage db) u"
proof -
  note gr = good_record [OF reconciled_sound [OF r] m d ideal_manifest_fields(1) ideal_manifest_fields(2)
      spec_hashes_ideal [OF d v], simplified ideal_manifest_fields, OF known named pub deps artifact_known_ideal [OF d v named known]]
  show "complete_in db' (sd_stage_id d)" and "\<And>u. complete_in db u \<Longrightarrow> complete_in db' u"
    and other: "\<And>u. u \<noteq> sd_stage_id d \<Longrightarrow> map_of (db_stage db') u = map_of (db_stage db) u"
    by (fact gr)+
  have "settled db' n (sd_stage_id d)" using gr(2) by (auto simp: settled_def complete_in_def)
  then have "settled db' n t" if "t = sd_stage_id d \<or> t \<in> D" for t
    using that reconciled_settled [OF r] settled_cong [OF other] by metis
  then show "reconciled (insert (sd_stage_id d) D) db' p a n"
    using gr(1) by (auto simp: reconciled_def)
qed

lemma record_smooth:
  assumes g: "sound db p a n" and d: "d \<in> set definitions" and v: "valid_attempt env d i k"
    and known: "i \<in> fst ` set (db_attempt db)" and n: "n \<le> N"
  shows "record_complete db (ideal_manifest env d i k) h dir \<noteq> Inl e"
proof -
  obtain row where row: "map_of (db_stage db) (sd_stage_id d) = Some row"
    using stage_row_sound [OF g, of "sd_stage_id d"] d by auto
  have "row_ok env N db p n (sd_stage_id d) row" by (rule good_row [OF g row])
  then have st: "r_state row \<in> set completable"
    using n by (cases "r_state row") (auto simp: row_ok_def completable_def)
  have "\<exists>db'. record_complete db (ideal_manifest env d i k) h dir = Inr db'"
  proof (rule record_complete_ok [OF _ _ st])
    show "db_ok db" using g by (simp add: good_def)
    show "distinct (map e_artifact_key (m_artifacts (ideal_manifest env d i k)))"
      using v by (auto simp: valid_attempt_def check_manifest_def Let_def split: if_splits)
  qed (simp_all add: row known)
  then show ?thesis by auto
qed

lemma t_add_result:
  assumes "\<And>db p a n. \<Phi> db p a n \<Longrightarrow> sound db p a n" and "d \<in> set definitions"
  shows "triple (holds \<Phi>) (bindS (add_action (sd_stage_id d) act detail actions) (\<lambda>actions. ret (f actions)))
    (\<lambda>_. holds \<Phi>) failure"
  by (rule triple_bind [OF t_add_action t_ret]) (use assms in auto)

lemma t_adopt:
  assumes d: "d \<in> set definitions" and v: "valid_attempt env d i k" and named: "well_named i (sd_stage_id d) k"
  shows "triple (holds (\<lambda>db p a n. reconciled D db p a n \<and> i \<in> fst ` set (db_attempt db) \<and>
        p (sd_stage_id d, cache_of env d) \<noteq> None \<and> (N < n \<or> deps_complete db (sd_stage_id d))))
      (adopt_published env d (cache_of env d) row (ideal_published d i k) acc)
      (\<lambda>_. holds (reconciled (insert (sd_stage_id d) D))) failure"
  unfolding adopt_published_def Let_def ideal_published_fields
proof (rule triple_bind [OF t_publish_pointer], goal_cases)
  case (3 repaired)
  show ?case
  proof (rule triple_bind [OF t_database [where \<Psi> = "reconciled (insert (sd_stage_id d) D)"]], goal_cases)
    case (2 db p a n db')
    then show ?case using reconciled_record(1) [OF _ d v named] by blast
  next
    case (3 db p a n e)
    then show ?case using record_smooth [OF reconciled_sound d v] by blast
  next
    case (4 u)
    show ?case
      by (intro triple_if t_add_result d t_ret reconciled_sound)
  qed (blast dest: reconciled_sound)
next
  case (1 db p a n)
  then show ?case using reconciled_sound by blast
next
  case 2
  then show ?case by (rule ideal_pointer [OF _ d v])
qed

lemma t_unpublished:
  assumes d: "d \<in> set definitions"
  shows "triple (holds (\<lambda>db p a n. reconciled D db p a n \<and> map_of (db_stage db) (sd_stage_id d) = Some row \<and>
        (r_state row = COMPLETE \<longrightarrow> N < n)))
      (settle_unpublished d row acc) (\<lambda>_. holds (reconciled (insert (sd_stage_id d) D))) failure"
  unfolding settle_unpublished_def Let_def
proof (intro triple_if, goal_cases)
  case 1
  show ?case
  proof (rule triple_bind [OF t_database [where \<Psi> = "reconciled (insert (sd_stage_id d) D)"] t_add_result], goal_cases)
    case (2 db p a n db')
    then show ?case using 1 reconciled_mark [of D db p a n _ row] by simp
  next
    case (3 db p a n e)
    then show ?case using 1 by simp
  qed (use d in \<open>auto dest: reconciled_sound\<close>)
next
  case 2
  show ?case
  proof (rule triple_bind [OF t_database [where \<Psi> = "reconciled (insert (sd_stage_id d) D)"] t_add_result], goal_cases)
    case (2 db p a n db')
    then show ?case
      using \<open>r_state row = RUNNING\<close> reconciled_mark [of D db p a n "sd_stage_id d" row FAILED_RETRYABLE _ db'] by simp
  next
    case (3 db p a n e)
    then show ?case
      using \<open>r_state row = RUNNING\<close> by (simp add: mark_state_def stage_row_def allowed_def)
  qed (use d in \<open>auto dest: reconciled_sound\<close>)
next
  case 3
  show ?case
    by (rule triple_weaken [OF t_ret [where \<Phi> = "\<lambda>db p a n. reconciled D db p a n \<and> map_of (db_stage db) (sd_stage_id d) = Some row"]])
      (use 3 in \<open>auto simp: holds_def reconciled_def settled_def\<close>)
qed

lemma row_ok_complete:
  assumes "row_ok env N db p n (sd_stage_id d) row" and "r_state row = COMPLETE" and "d \<in> set definitions"
  shows "p (sd_stage_id d, cache_of env d) \<noteq> None" and "r_cache_key row = Some (cache_of env d)"
    and "r_required_attempt_number row = 0" and "N < n \<or> deps_complete db (sd_stage_id d)"
  using assms same_definition unfolding row_ok_def by blast+

text \<open>With the dependencies of a stage complete, its published attempts decide.\<close>

lemma t_settle_stage:
  assumes d: "d \<in> set definitions"
  shows "triple (holds (\<lambda>db p a n. reconciled D db p a n \<and> deps_complete db (sd_stage_id d)))
      (settle_stage env d (cache_of env d) acc) (\<lambda>_. holds (reconciled (insert (sd_stage_id d) D))) failure"
  (is "triple (holds ?\<Phi>) _ ?Q _")
  unfolding settle_stage_def Let_def
proof (rule triple_bind [OF t_query triple_pointwise], goal_cases)
  case (2 db p a n e)
  then show ?case using stage_row_sound [OF reconciled_sound, of D db p a n "sd_stage_id d"] d by auto
next
  case (3 row w)
  let ?s = "sd_stage_id d"
  let ?\<Psi> = "\<lambda>db p a n. reconciled D db p a n \<and> map_of (db_stage db) ?s = Some row \<and> (r_state row = COMPLETE \<longrightarrow> N < n)"
  have h: "holds ?\<Phi> w" and row: "map_of (db_stage (w_database w)) ?s = Some row"
    using 3 by (auto simp: holds_def stage_row_def split: option.splits)
  have g: "holds sound w" using h by (auto simp: holds_def reconciled_def)
  have row_ok: "row_ok env N (w_database w) (w_published w) (w_draws w) ?s row"
    using g good_row [OF _ row] by (auto simp: holds_def)
  have unpublished: "meets ?Q failure (settle_unpublished d row acc w)"
    if "r_state row = COMPLETE \<Longrightarrow> N < w_draws w"
    using tripleD [OF t_unpublished [OF d, of D row acc]] h row that by (auto simp: holds_def)
  show ?case
  proof (cases "select_published env d (cache_of env d) w")
    case (Inl e)
    then obtain x where e: "e = ArtifactIntegrityError x" and late: "N < w_draws w"
      using select_sound [OF g d] by auto
    have t: "triple (holds (\<lambda>db p a n. ?\<Psi> db p a n \<and> N < n))
      (bindS (in_database (\<lambda>db. mark_state db ?s FAILED_FINAL (Some ''ARTIFACT_INTEGRITY''))) (\<lambda>_.
       bindS (add_action ?s ACTION_FAILED_FINAL ''Published immutable artifacts failed hash validation.'' (fst acc))
         (\<lambda>actions. ret (actions, snd acc)))) ?Q failure"
    proof (rule triple_bind [OF t_database [where \<Psi> = "reconciled (insert ?s D)"] t_add_result], goal_cases)
      case (2 db p a n db')
      then show ?case using reconciled_mark [of D db p a n ?s row FAILED_FINAL _ db'] by simp
    qed (use d in \<open>auto dest: reconciled_sound\<close>)
    show ?thesis using tripleD [OF t, of w] h row late Inl e by (simp add: holds_def)
  next
    case (Inr o0)
    show ?thesis
    proof (cases o0)
      case None
      then have "w_published w (?s, cache_of env d) = None" using select_sound [OF g d] Inr by auto
      then have "r_state row \<noteq> COMPLETE" using row_ok_complete(1) [OF row_ok _ d] by blast
      then show ?thesis using unpublished Inr None by simp
    next
      case (Some attempt)
      then obtain i k where a: "attempt = ideal_published d i k" and named: "well_named i ?s k"
        and v: "valid_attempt env d i k" and known: "i \<in> fst ` set (db_attempt (w_database w))"
        and pub: "w_published w (?s, cache_of env d) \<noteq> None"
        using select_sound [OF g d] Inr by auto
      have adopt: "meets ?Q failure (adopt_published env d (cache_of env d) row attempt acc w)"
        using tripleD [OF t_adopt [OF d v named, of D row acc]] h known pub by (auto simp: holds_def a)
      have "r_required_attempt_number row \<le> k" if "r_state row = COMPLETE"
        using row_ok that by (simp add: row_ok_def)
      then show ?thesis using adopt unpublished Inr Some by (auto simp: a)
    qed
  qed
qed (auto dest: reconciled_sound)

lemma t_invalidate_closure:
  assumes "s \<in> set (map sd_stage_id definitions)" and "\<And>db p a n. \<Phi> db p a n \<Longrightarrow> reconciled D db p a n"
  shows "triple (holds \<Phi>) (invalidate_closure env s acc) (\<lambda>_. holds (reconciled (insert s D))) failure"
  unfolding invalidate_closure_def
proof (rule triple_bind [OF t_lift [where Q = "\<lambda>scope. dependency_closure definitions s = Inr scope"]], goal_cases)
  case (4 scope)
  show ?case
  proof (rule triple_pre, rule triple_bind [OF _ t_ret], goal_cases)
    case (1 w)
    then have c: "dependency_closure definitions s = Inr scope" by simp
    have "triple (holds \<Phi>) (in_database (\<lambda>db. invalidate db scope False)) (\<lambda>_. holds (reconciled (insert s D))) failure"
    proof (rule t_database, goal_cases)
      case (2 db p a n db')
      then show ?case using reconciled_invalidate [OF assms(2) c] by blast
    next
      case (3 db p a n e)
      have "sound db p a n" using 3(1) assms(2) reconciled_sound by blast
      moreover have "set scope \<subseteq> set (map sd_stage_id definitions)" using dependency_closure_set(1) [OF c] by blast
      ultimately have "\<exists>db'. invalidate db scope False = Inr db'" by (intro invalidate_ok) (auto simp: good_def)
      then show ?case using 3(2) by auto
    qed (use assms(2) reconciled_sound in blast)
    then show ?case by (rule triple_weaken) (use 1 in auto)
  qed
next
  case (3 e w)
  then show ?case using assms(1) by (simp add: dependency_closure_def)
next
  case (2 db p a n)
  then show ?case by (intro reconciled_sound [OF assms(2)])
qed

section \<open>The pass\<close>

lemma t_reconcile_stage:
  assumes d: "d \<in> set definitions"
  shows "triple (holds (reconciled D)) (reconcile_stage env d acc)
    (\<lambda>_. holds (reconciled (insert (sd_stage_id d) D))) failure"
  unfolding reconcile_stage_def Let_def
proof (rule triple_bind [OF t_query triple_bind [OF t_query]], goal_cases)
  case (2 db p a n e)
  then show ?case using stage_row_sound [OF reconciled_sound, of D db p a n "sd_stage_id d"] d by auto
next
  case (4 row db p a n e)
  then show ?case using dependencies_complete_sound [OF reconciled_sound d] by auto
next
  case (5 row ready)
  let ?s = "sd_stage_id d"
  let ?\<Phi> = "\<lambda>db p a n. (reconciled D db p a n \<and> stage_row db ?s = Inr row) \<and> dependencies_complete db d = Inr ready"
  have ready: "ready = deps_complete db ?s" if "?\<Phi> db p a n" for db p a n
    using that dependencies_complete_sound [OF reconciled_sound d, of D db p a n] by simp
  have row: "row_ok env N db p n ?s row" if "?\<Phi> db p a n" for db p a n
    using that good_row [OF reconciled_sound, of D db p a n] by simp
  show ?case
  proof (intro triple_if, goal_cases)
    case 1
    show ?case by (rule t_invalidate_closure) (use d in auto)
  next
    case 2
    have "reconciled (insert ?s D) db p a n" if "?\<Phi> db p a n" for db p a n
    proof (rule reconciledI)
      fix t assume "t \<in> insert ?s D"
      moreover have "settled db n ?s"
        using that ready [OF that] row [OF that] 2 by (auto simp: settled_def row_ok_def)
      moreover have "settled db n t" if "t \<in> D" using \<open>?\<Phi> db p a n\<close> reconciled_settled that by blast
      ultimately show "settled db n t" by blast
    qed (use that reconciled_sound in blast)
    then show ?case by (intro triple_ret) (auto simp: holds_def)
  next
    case 3
    show ?case
    proof (rule triple_bind [OF t_query], goal_cases)
      case (2 db p a n e)
      then show ?case using cache_key_smooth [OF reconciled_sound d] ready 3 by auto
    next
      case (3 cache)
      let ?\<Psi> = "\<lambda>db p a n. ?\<Phi> db p a n \<and> cache_key env db d = Inr cache"
      have c: "cache = cache_of env d" "deps_complete db ?s" if "?\<Psi> db p a n" for db p a n
        using that cache_key_sound [OF reconciled_sound d] by blast+
      show ?case
      proof (rule triple_if)
        assume "r_state row = COMPLETE \<and> r_cache_key row \<noteq> Some cache"
        then show "triple (holds ?\<Psi>) (bindS (invalidate_closure env ?s acc) (\<lambda>acc.
              bindS (add_action ?s INVALIDATED_CACHE
                       ''Semantic cache inputs changed for this dependency closure.'' (fst acc)) (\<lambda>actions.
                settle_stage env d cache (actions, snd acc))))
            (\<lambda>_. holds (reconciled (insert ?s D))) failure"
          using c(1) row row_ok_complete(2) [OF row _ d] by (intro triple_absurd) (fastforce simp: holds_def)
      next
        show "triple (holds ?\<Psi>) (settle_stage env d cache acc) (\<lambda>_. holds (reconciled (insert ?s D))) failure"
        proof (rule triple_pre)
          fix w assume w: "holds ?\<Psi> w"
          then have "cache = cache_of env d" using c(1) by (auto simp: holds_def)
          then have "triple (holds (\<lambda>db p a n. reconciled D db p a n \<and> deps_complete db ?s)) (settle_stage env d cache acc)
              (\<lambda>_. holds (reconciled (insert ?s D))) failure"
            using t_settle_stage [OF d] by simp
          then show "triple (\<lambda>w'. w' = w) (settle_stage env d cache acc) (\<lambda>_. holds (reconciled (insert ?s D))) failure"
            by (rule triple_weaken) (use w c(2) in \<open>auto simp: holds_def\<close>)
        qed
      qed
    qed (blast dest: reconciled_sound)
  qed
qed (blast dest: reconciled_sound)+

text \<open>The second phase of the pass only names stages of the definitions, because the invalidated
  stages are members of dependency closures.\<close>

lemma t_note_invalidated:
  assumes "s \<in> set (map sd_stage_id definitions)"
  shows "triple (holds (reconciled D)) (note_invalidated s actions) (\<lambda>_. holds (reconciled D)) failure"
  unfolding note_invalidated_def
  by (intro triple_if t_ret t_add_action assms reconciled_sound)

lemma invalidated_known:
  assumes "set (snd acc) \<subseteq> set (map sd_stage_id definitions)"
  shows "returns (\<lambda>acc. set (snd acc) \<subseteq> set (map sd_stage_id definitions)) (reconcile_stage env d acc)"
    (is "returns ?Q _")
proof -
  have invalidate: "returns ?Q (invalidate_closure env s acc)" if "?Q acc" for s acc
    unfolding invalidate_closure_def
  proof (rule returns_bind [OF returns_lift [where Q = "\<lambda>scope. set scope \<subseteq> set (map sd_stage_id definitions)"]])
    fix scope assume "dependency_closure definitions s = Inr scope"
    then show "set scope \<subseteq> set (map sd_stage_id definitions)" using dependency_closure_set(1) by blast
  next
    fix scope assume "set scope \<subseteq> set (map sd_stage_id definitions)"
    then show "returns ?Q (bindS (in_database (\<lambda>db. invalidate db scope False)) (\<lambda>_. ret (fst acc, snd acc @ scope)))"
      using that by (intro returns_then returns_ret) simp
  qed
  have add: "returns ?Q (bindS m (\<lambda>actions. ret (actions, snd acc)))" if "?Q acc" for m and acc :: reconciliation
    by (rule returns_then) (use that in \<open>simp add: returns_ret\<close>)
  have unpublished: "returns ?Q (settle_unpublished d row acc)" if "?Q acc" for row acc
    unfolding settle_unpublished_def Let_def
    by (intro returns_if returns_then returns_ret) (use that in simp_all)
  have adopt: "returns ?Q (adopt_published env d c row a acc)" if "?Q acc" for c row a acc
    unfolding adopt_published_def Let_def
    by (intro returns_if returns_then returns_ret) (use that in simp_all)
  have settle: "returns ?Q (settle_stage env d c acc)" if "?Q acc" for c acc
    unfolding settle_stage_def Let_def
  proof (rule returns_then)
    fix row
    have final: "returns ?Q (bindS (in_database f) (\<lambda>_. bindS m (\<lambda>actions. ret (actions, snd acc))))" for f m
      by (intro returns_then add that)
    have choose: "\<exists>m'. returns ?Q m' \<and> m w = m' w" if "returns ?Q m" for m w
      using that by blast
    show "returns ?Q (\<lambda>w. case select_published env d c w of
           Inl e \<Rightarrow>
             (if is_integrity_error e then
                bindS (in_database (\<lambda>db. mark_state db (sd_stage_id d) FAILED_FINAL (Some ''ARTIFACT_INTEGRITY''))) (\<lambda>_.
                bindS (add_action (sd_stage_id d) ACTION_FAILED_FINAL
                         ''Published immutable artifacts failed hash validation.'' (fst acc))
                  (\<lambda>actions. ret (actions, snd acc))) w
              else (Raised e, w))
         | Inr published \<Rightarrow>
             (case published of
                Some attempt \<Rightarrow>
                  (if r_required_attempt_number row \<le> m_attempt_number (pa_manifest attempt)
                   then adopt_published env d c row attempt acc w
                   else settle_unpublished d row acc w)
              | None \<Rightarrow> settle_unpublished d row acc w))"
    proof (rule returns_choice)
      fix w
      show "\<exists>m'. returns ?Q m' \<and> (case select_published env d c w of
           Inl e \<Rightarrow>
             (if is_integrity_error e then
                bindS (in_database (\<lambda>db. mark_state db (sd_stage_id d) FAILED_FINAL (Some ''ARTIFACT_INTEGRITY''))) (\<lambda>_.
                bindS (add_action (sd_stage_id d) ACTION_FAILED_FINAL
                         ''Published immutable artifacts failed hash validation.'' (fst acc))
                  (\<lambda>actions. ret (actions, snd acc))) w
              else (Raised e, w))
         | Inr published \<Rightarrow>
             (case published of
                Some attempt \<Rightarrow>
                  (if r_required_attempt_number row \<le> m_attempt_number (pa_manifest attempt)
                   then adopt_published env d c row attempt acc w
                   else settle_unpublished d row acc w)
              | None \<Rightarrow> settle_unpublished d row acc w)) = m' w"
      proof (cases "select_published env d c w")
        case (Inl e)
        show ?thesis
        proof (cases "is_integrity_error e")
          case True
          show ?thesis unfolding Inl sum.case if_P [OF True] by (rule choose [OF final])
        next
          case False
          show ?thesis unfolding Inl sum.case if_not_P [OF False] by (rule choose [OF returns_raise])
        qed
      next
        case (Inr published)
        then show ?thesis
          using choose [OF unpublished [OF that]] choose [OF adopt [OF that]] by (cases published) simp_all
      qed
    qed
  qed
  show ?thesis
    unfolding reconcile_stage_def Let_def
  proof (rule returns_then, rule returns_then, intro returns_if, goal_cases)
    case (3 row ready)
    show ?case
      by (rule returns_then, rule returns_if, rule returns_bind [OF invalidate [OF assms]])
        (intro returns_then settle, use assms in simp)+
  next
    case 1
    show ?case by (rule invalidate [OF assms])
  next
    case 2
    show ?case by (rule returns_ret) (rule assms)
  qed
qed

lemma t_reconcile:
  "triple (holds sound) (reconcile env)
     (\<lambda>_. holds (reconciled (set (map sd_stage_id definitions)))) failure"
proof -
  let ?ids = "set (map sd_stage_id definitions)"
  let ?known = "\<lambda>acc :: reconciliation. set (snd acc) \<subseteq> ?ids"
  have start: "triple (holds sound) (liftS (\<lambda>w. ensure (w_quick_check w)
      (ArtifactIntegrityError ''SQLite quick_check did not pass''))) (\<lambda>_. holds (reconciled {})) failure"
    by (rule triple_lift) (auto simp: holds_def tidy_def reconciled_def)
  have pass: "triple (holds (reconciled {})) (foldS (reconcile_stage env) definitions ([], []))
      (\<lambda>acc w. holds (reconciled ?ids) w \<and> ?known acc) failure"
  proof (rule triple_returns)
    have "triple (holds (reconciled (set (map sd_stage_id ([] :: stage_definition list))))) (foldS (reconcile_stage env) definitions ([], []))
      (\<lambda>_. holds (reconciled ?ids)) failure"
    proof (rule triple_fold_prefix [where I = "\<lambda>(xs :: stage_definition list) _. holds (reconciled (set (map sd_stage_id xs)))"])
      fix xs x ys acc assume "definitions = xs @ x # ys"
      then have "x \<in> set definitions" by simp
      from t_reconcile_stage [OF this] show "triple (holds (reconciled (set (map sd_stage_id xs))))
          (reconcile_stage env x acc) (\<lambda>_. holds (reconciled (set (map sd_stage_id (xs @ [x]))))) failure"
        by (simp add: insert_commute)
    qed
    then show "triple (holds (reconciled {})) (foldS (reconcile_stage env) definitions ([], []))
        (\<lambda>_. holds (reconciled ?ids)) failure" by simp
    show "returns ?known (foldS (reconcile_stage env) definitions ([], []))"
      by (rule returns_fold, rule invalidated_known) simp_all
  qed
  have naming: "triple (\<lambda>w. holds (reconciled ?ids) w \<and> set invalidated \<subseteq> ?ids)
      (foldS note_invalidated (remdups invalidated) actions) (\<lambda>_. holds (reconciled ?ids)) failure" for invalidated actions
  proof (rule triple_pre)
    fix w assume w: "holds (reconciled ?ids) w \<and> set invalidated \<subseteq> ?ids"
    have "triple (holds (reconciled ?ids)) (foldS note_invalidated (remdups invalidated) actions)
        (\<lambda>_. holds (reconciled ?ids)) failure"
      by (rule triple_fold [where I = "\<lambda>_. holds (reconciled ?ids)"], rule t_note_invalidated) (use w in auto)
    then show "triple (\<lambda>w'. w' = w) (foldS note_invalidated (remdups invalidated) actions)
        (\<lambda>_. holds (reconciled ?ids)) failure"
      by (rule triple_weaken) (use w in auto)
  qed
  show ?thesis
    unfolding reconcile_def
    by (rule triple_bind [OF start triple_bind [OF pass]]) (use naming in \<open>auto split: prod.split\<close>)
qed

end

end
