(* ===== verification/RunExecute.thy ===== *)
theory RunExecute
  imports RunReconcile
begin

text \<open>
  Executing one stage.  From a world in which the dependencies of the stage are complete,
  \<open>execute_stage\<close> ends with the stage complete and every other row of the database
  untouched, or fails with the invariant intact; in a smooth environment it does not fail before
  more than \<open>N\<close> attempts were begun.
\<close>

section \<open>Writing the files of an attempt\<close>

definition files_of :: "artifact_payload list \<Rightarrow> dir" where
  "files_of ps = map (\<lambda>p. (pl_relative_path p, RegularFile (pl_content p))) ps"

lemma write_bytes_Inr: "write_bytes d p c = Inr d' \<Longrightarrow> d' = d @ [(p, RegularFile c)]"
  by (auto simp: write_bytes_def split: if_splits)

lemma write_bytes_fresh:
  assumes "write_bytes d p c = Inr d'" and "NoEntry \<notin> snd ` set d"
  shows "p \<notin> fst ` set d"
proof -
  have "lookup d p = NoEntry" using assms(1) by (simp add: write_bytes_def split: if_splits)
  moreover have "map_of d p \<noteq> Some NoEntry" using assms(2) by (force dest: map_of_SomeD)
  ultimately show ?thesis by (auto simp: lookup_def map_of_eq_None_iff split: option.splits)
qed

lemma write_all_append: "write_all d (xs @ ys) = bindE (write_all d xs) (\<lambda>d'. write_all d' ys)"
  by (induction d xs rule: write_all.induct) (auto split: sum.splits simp: bindE_def)

lemma write_all_Inr: "write_all d xs = Inr d' \<Longrightarrow> d' = d @ map (\<lambda>(p, c). (p, RegularFile c)) xs"
proof (induction xs arbitrary: d)
  case (Cons x xs)
  obtain p c where x: "x = (p, c)" by (cases x)
  have "write_all (d @ [(p, RegularFile c)]) xs = Inr d'"
    using Cons.prems write_bytes_Inr [of d p c] by (auto simp: x)
  from Cons.IH [OF this] show ?case by (simp add: x)
qed simp

lemma write_all_payloads:
  assumes "write_all [] (payload_files (ps @ qs) @ zs) = Inr d'"
  shows "write_all [] (payload_files ps) = Inr (files_of ps)"
    and "\<exists>d''. write_all (files_of ps) (payload_files qs @ zs) = Inr d''"
proof -
  have "payload_files (ps @ qs) @ zs = payload_files ps @ (payload_files qs @ zs)" by (simp add: payload_files_def)
  then obtain d where d: "write_all [] (payload_files ps) = Inr d" and r: "write_all d (payload_files qs @ zs) = Inr d'"
    using assms write_all_append [of "[]" "payload_files ps" "payload_files qs @ zs"] by auto
  have "d = files_of ps" using write_all_Inr [OF d] by (simp add: payload_files_def files_of_def comp_def)
  then show "write_all [] (payload_files ps) = Inr (files_of ps)"
    and "\<exists>d''. write_all (files_of ps) (payload_files qs @ zs) = Inr d''"
    using d r by blast+
qed

lemma NoEntry_files_of [simp]: "NoEntry \<notin> snd ` set (files_of ps)"
  by (auto simp: files_of_def)

lemma attempt_dir_files:
  "attempt_dir env d i n = files_of (payloads_of env d) @
     [(ATTEMPT_MANIFEST_FILE, RegularFile (dumps (manifest_dump (ideal_manifest env d i n)) @ [CHR 0x0A]))]"
  by (simp add: attempt_dir_def files_of_def)

section \<open>Generic steps\<close>

context engine_steps
begin

lemma t_read:
  assumes "\<And>w x. holds \<Phi> w \<Longrightarrow> g w = Inr x \<Longrightarrow> Q x" and "\<And>db p a n. \<Phi> db p a n \<Longrightarrow> sound db p a n"
    and "\<And>w e. holds \<Phi> w \<Longrightarrow> g w = Inl e \<Longrightarrow> smooth env N cb \<Longrightarrow> w_draws w \<le> N \<Longrightarrow> False"
  shows "triple (holds \<Phi>) (liftS g) (\<lambda>x w. holds \<Phi> w \<and> Q x) failure"
proof (rule triple_lift)
  fix w e assume "holds \<Phi> w" and "g w = Inl e"
  then show "failure w" using assms(3) by (intro failureI [OF _ assms(2)])
qed (use assms(1) in blast)

lemma t_change:
  assumes "\<And>w w' x. holds \<Phi> w \<Longrightarrow> m w = Inr (w', x) \<Longrightarrow> holds (\<Psi> x) w'"
    and "\<And>db p a n. \<Phi> db p a n \<Longrightarrow> sound db p a n"
    and "\<And>w e. holds \<Phi> w \<Longrightarrow> m w = Inl e \<Longrightarrow> smooth env N cb \<Longrightarrow> w_draws w \<le> N \<Longrightarrow> False"
  shows "triple (holds \<Phi>) (modifyS m) (\<lambda>x. holds (\<Psi> x)) failure"
proof (rule triple_modify)
  fix w e assume "holds \<Phi> w" and "m w = Inl e"
  then show "failure w" using assms(3) by (intro failureI [OF _ assms(2)])
qed (use assms(1) in blast)

section \<open>The states of an execution\<close>

definition untouched :: "database \<Rightarrow> database \<Rightarrow> string \<Rightarrow> bool" where
  "untouched db0 db s \<longleftrightarrow> (\<forall>u. u \<noteq> s \<longrightarrow> map_of (db_stage db) u = map_of (db_stage db0) u)"

definition running :: "database \<Rightarrow> nat \<Rightarrow> stage_definition \<Rightarrow> string \<Rightarrow> nat \<Rightarrow> core_assertion" where
  "running db0 m d i k db p a n \<longleftrightarrow>
     sound db p a n \<and> untouched db0 db (sd_stage_id d) \<and> m < n \<and> n \<le> m + 1 \<and> deps_complete db (sd_stage_id d) \<and>
     i \<in> fst ` set (db_attempt db) \<and> well_named i (sd_stage_id d) k \<and>
     (is_identifier (sd_stage_id d) \<longrightarrow> is_identifier i) \<and> 0 < k"

definition drafting :: "database \<Rightarrow> nat \<Rightarrow> stage_definition \<Rightarrow> string \<Rightarrow> nat \<Rightarrow> dir \<Rightarrow> core_assertion" where
  "drafting db0 m d i k files db p a n \<longleftrightarrow>
     running db0 m d i k db p a n \<and> map_of a i = Some files \<and>
     (\<forall>c es. p (sd_stage_id d, c) = Some (CacheRoot es) \<longrightarrow> i \<notin> fst ` set es)"

definition executed :: "database \<Rightarrow> nat \<Rightarrow> stage_definition \<Rightarrow> core_assertion" where
  "executed db0 m d db p a n \<longleftrightarrow>
     sound db p a n \<and> untouched db0 db (sd_stage_id d) \<and> m < n \<and> n \<le> m + 1 \<and> complete_in db (sd_stage_id d)"

lemma running_sound: "running db0 m d i k db p a n \<Longrightarrow> sound db p a n"
  by (auto simp: running_def)

lemma drafting_sound: "drafting db0 m d i k files db p a n \<Longrightarrow> sound db p a n"
  by (auto simp: drafting_def running_def)

lemma executed_sound: "executed db0 m d db p a n \<Longrightarrow> sound db p a n"
  by (auto simp: executed_def)

section \<open>Beginning\<close>

lemma t_begin_stage:
  assumes d: "d \<in> set definitions"
  shows "triple (holds (\<lambda>db p a n. sound db p a n \<and> db = db0 \<and> n = m \<and>
      (\<forall>r. map_of (db_stage db0) (sd_stage_id d) = Some r \<longrightarrow> N < n \<or> r_state r \<in> set startable) \<and>
      deps_complete db (sd_stage_id d)))
    (begin_stage env (sd_stage_id d) (cache_of env d))
    (\<lambda>(i, k). holds (\<lambda>db p a n. running db0 m d i k db p a n \<and> i \<notin> fst ` set a \<and>
        (\<forall>c es. p (sd_stage_id d, c) = Some (CacheRoot es) \<longrightarrow> i \<notin> fst ` set es))) failure"
  (is "triple (holds ?\<Phi>) _ (\<lambda>(i, k). holds (?\<Psi> i k)) _")
proof -
  let ?s = "sd_stage_id d"
  note u = uuid_hex
  have "triple (holds ?\<Phi>) (begin_stage env ?s (cache_of env d)) (\<lambda>x. holds (?\<Psi> (fst x) (snd x))) failure"
    unfolding begin_stage_def
  proof (rule t_change, goal_cases)
    case (1 w w' x)
    obtain i k where x: "x = (i, k)" by (cases x)
    have g: "sound (w_database w) (w_published w) (w_attempts w) (w_draws w)" and tidy: "tidy w"
      and db0: "w_database w = db0" and m: "w_draws w = m"
      using 1(1) by (auto simp: holds_def)
    obtain db' where b: "begin_attempt (en_uuid env (w_draws w)) (w_database w) ?s (cache_of env d) = Inr (db', i, k)"
      and w': "w' = w\<lparr>w_database := db', w_draws := w_draws w + 1, w_begun := w_begun w @ [?s]\<rparr>"
      using 1(2) x by auto
    note gb = good_begin [OF g u b]
    from b obtain row :: stage_row where row: "k = r_attempt_counter row + 1" "i = attempt_name ?s k (en_uuid env (w_draws w))"
      "db' = (update_stage ?s (\<lambda>r. r\<lparr>r_state := RUNNING, r_attempt_id := Some i, r_cache_key := Some (cache_of env d),
             r_attempt_counter := k, r_error_code := None\<rparr>) (w_database w))
            \<lparr>db_attempt := db_attempt (w_database w) @ [(i, \<lparr>a_stage_id = ?s, a_attempt_number = k,
                a_cache_key = cache_of env d, a_state = ATTEMPT_RUNNING, a_manifest_sha256 = None\<rparr>)]\<rparr>"
      by (rule begin_attempt_Inr)
    have "untouched db0 db' ?s" by (simp add: untouched_def row(3) db0)
    moreover have "is_identifier ?s \<longrightarrow> is_identifier i"
      unfolding row(2) using attempt_name_identifier uuid_hex by blast
    moreover have "\<forall>c es. w_published w (?s, c) = Some (CacheRoot es) \<longrightarrow> i \<notin> fst ` set es"
    proof (intro allI impI)
      fix c es assume "w_published w (?s, c) = Some (CacheRoot es)"
      then show "i \<notin> fst ` set es" using gb(4) [of c] by simp
    qed
    moreover have "0 < k" by (simp add: row(1))
    ultimately show ?case
      using gb(1,3,5,6,7) tidy m by (simp add: holds_def w' x running_def tidy_def)
  next
    case (3 w e)
    have g: "sound (w_database w) (w_published w) (w_attempts w) (w_draws w)"
      using 3(1) unfolding holds_def by blast
    then have ok: "db_ok (w_database w)" by (simp add: good_def)
    obtain row where row: "map_of (db_stage (w_database w)) ?s = Some row"
      using stage_row_sound [OF g, of ?s] d by auto
    have "r_state row \<in> set startable" using 3(1,4) row by (auto simp: holds_def)
    moreover have "incomplete_upstream (w_database w) ?s = []"
      using 3(1) unfolding incomplete_upstream_Nil [OF ok] by (auto simp: holds_def deps_complete_def complete_in_def)
    ultimately show False using begin_attempt_ok [OF ok u row] 3(2) by (simp add: bindE_eq_Inl)
  qed simp
  then show ?thesis by (simp add: case_prod_beta')
qed

lemma t_make_directory:
  "triple (holds (\<lambda>db p a n. running db0 m d i k db p a n \<and> i \<notin> fst ` set a \<and>
        (\<forall>c es. p (sd_stage_id d, c) = Some (CacheRoot es) \<longrightarrow> i \<notin> fst ` set es)))
    (make_attempt_directory i) (\<lambda>_. holds (drafting db0 m d i k [])) failure"
  unfolding make_attempt_directory_def
proof (rule t_change, goal_cases)
  case (1 w w' x)
  then have "w' = w\<lparr>w_attempts := w_attempts w @ [(i, [])]\<rparr>" and f: "i \<notin> fst ` set (w_attempts w)"
    by (auto split: if_splits)
  moreover have "map_of (w_attempts w) i = None" using f by (simp add: map_of_eq_None_iff)
  then have "map_of (w_attempts w @ [(i, [])]) i = Some []" by (simp add: map_add_def)
  moreover have "sound (w_database w) (w_published w) (w_attempts w @ [(i, [])]) (w_draws w)"
    if "running db0 m d i k (w_database w) (w_published w) (w_attempts w) (w_draws w)"
    using that by (auto simp: running_def good_def)
  ultimately show ?case using 1(1) by (simp add: holds_def drafting_def running_def tidy_def)
qed (auto simp: running_sound holds_def)

section \<open>Writing\<close>

lemma t_write_in_attempt:
  assumes "smooth env N cb \<Longrightarrow> \<exists>files'. write_bytes files path content = Inr files'"
  shows "triple (holds (drafting db0 m d i k files)) (write_in_attempt i path content)
    (\<lambda>_ w. holds (drafting db0 m d i k (files @ [(path, RegularFile content)])) w \<and>
        write_bytes files path content = Inr (files @ [(path, RegularFile content)])) failure"
proof (cases "write_bytes files path content")
  case (Inl e)
  then show ?thesis
    unfolding write_in_attempt_def
    by (intro triple_modify)
      (auto simp: holds_def drafting_def intro!: failureI [of "drafting db0 m d i k files"] dest: assms running_sound)
next
  case (Inr files')
  have f: "files' = files @ [(path, RegularFile content)]" by (rule write_bytes_Inr [OF Inr])
  have "triple (holds (drafting db0 m d i k files)) (write_in_attempt i path content)
    (\<lambda>_. holds (drafting db0 m d i k files')) failure"
    unfolding write_in_attempt_def
  proof (rule t_change, goal_cases)
    case (1 w w' x)
    have w: "map_of (w_attempts w) i = Some files" using 1(1) by (simp add: holds_def drafting_def)
    then have w': "w' = w\<lparr>w_attempts := alist_put i files' (w_attempts w)\<rparr>" using 1(2) Inr by simp
    have "i \<in> fst ` set (w_attempts w)" using w by (force dest: map_of_SomeD)
    then have "fst ` set (alist_put i files' (w_attempts w)) = fst ` set (w_attempts w)" by auto
    then have "sound (w_database w) (w_published w) (alist_put i files' (w_attempts w)) (w_draws w)"
      if "sound (w_database w) (w_published w) (w_attempts w) (w_draws w)" using that by (simp add: good_def)
    then show ?case using 1(1) by (simp add: holds_def drafting_def running_def w' tidy_def)
  next
    case (3 w e)
    then show ?case using Inr by (simp add: holds_def drafting_def)
  qed (rule drafting_sound)
  then show ?thesis by (rule triple_weaken) (use Inr in \<open>simp_all add: f\<close>)
qed

lemma t_write_payload:
  assumes "smooth env N cb \<Longrightarrow> check_entry (entry_of (en_sha env) p) = Inr () \<and>
      (\<exists>files'. write_bytes files (pl_relative_path p) (pl_content p) = Inr files')"
  shows "triple (holds (drafting db0 m d i k files)) (write_payload (en_sha env) i p entries)
    (\<lambda>r w. holds (drafting db0 m d i k (files @ files_of [p])) w \<and> (r = entries @ [entry_of (en_sha env) p] \<and>
        check_entry (entry_of (en_sha env) p) = Inr () \<and>
        write_bytes files (pl_relative_path p) (pl_content p) = Inr (files @ files_of [p]))) failure"
proof -
  have entry: "validate_relative_path (pl_relative_path p) = Inr ()" "pl_artifact_key p \<noteq> [] \<and> pl_media_type p \<noteq> []"
    if "smooth env N cb"
    using assms [OF that] by (auto simp: check_entry_def entry_of_def is_identifier_def)
  show ?thesis
    unfolding write_payload_def
    by (rule triple_bind_fact [OF t_lift [where Q = "\<lambda>_. True"]], rule TrueI, erule drafting_sound, use entry in simp,
        rule triple_bind_fact [OF t_lift [where Q = "\<lambda>_. True"]], rule TrueI, erule drafting_sound, use entry in simp,
        rule triple_bind_fact [OF t_write_in_attempt], use assms in blast,
        rule triple_bind_fact [OF t_lift [where Q = "\<lambda>_. check_entry (entry_of (en_sha env) p) = Inr ()"]], simp,
        erule drafting_sound, use assms in simp, rule triple_ret)
      (simp add: files_of_def)
qed

lemma write_bytes_distinct:
  "write_bytes files p c = Inr files' \<Longrightarrow> distinct (map fst files) \<Longrightarrow> NoEntry \<notin> snd ` set files \<Longrightarrow>
     distinct (map fst files')"
  using write_bytes_fresh write_bytes_Inr by fastforce

lemma t_write_payloads:
  assumes sm: "smooth env N cb \<Longrightarrow> list_all (\<lambda>p. check_entry (entry_of (en_sha env) p) = Inr ()) ps \<and>
      (\<exists>zs files'. write_all [] (payload_files ps @ zs) = Inr files')"
  shows "triple (holds (drafting db0 m d i k [])) (foldS (write_payload (en_sha env) i) ps [])
    (\<lambda>entries w. holds (drafting db0 m d i k (files_of ps)) w \<and>
       (entries = map (entry_of (en_sha env)) ps \<and> distinct (map fst (files_of ps)) \<and>
        list_all (\<lambda>p. check_entry (entry_of (en_sha env) p) = Inr ()) ps)) failure"
proof -
  define I where "I = (\<lambda>xs entries w. holds (drafting db0 m d i k (files_of xs)) w \<and>
       (entries = map (entry_of (en_sha env)) xs \<and> distinct (map fst (files_of xs)) \<and>
        list_all (\<lambda>p. check_entry (entry_of (en_sha env) p) = Inr ()) xs))"
  have step: "triple (I xs acc) (write_payload (en_sha env) i x acc) (I (xs @ [x])) failure"
    if ps: "ps = xs @ x # ys" for xs x ys acc
    unfolding I_def
  proof (rule triple_fact)
    assume h: "acc = map (entry_of (en_sha env)) xs \<and> distinct (map fst (files_of xs)) \<and>
        list_all (\<lambda>p. check_entry (entry_of (en_sha env) p) = Inr ()) xs"
    have "check_entry (entry_of (en_sha env) x) = Inr () \<and>
      (\<exists>files'. write_bytes (files_of xs) (pl_relative_path x) (pl_content x) = Inr files')" if smooth: "smooth env N cb"
    proof -
      obtain zs files' where "write_all [] (payload_files (xs @ (x # ys)) @ zs) = Inr files'"
        using sm [OF smooth] ps by auto
      then obtain d'' where "write_all (files_of xs) (payload_files (x # ys) @ zs) = Inr d''"
        using write_all_payloads(2) by blast
      then have "\<exists>files'. write_bytes (files_of xs) (pl_relative_path x) (pl_content x) = Inr files'"
        by (auto simp: payload_files_def)
      then show ?thesis using sm [OF smooth] ps by simp
    qed
    note tw = t_write_payload [OF this, of db0 m d i k acc]
    have snoc: "files_of xs @ files_of [x] = files_of (xs @ [x])" by (simp add: files_of_def)
    have dist: "distinct (map fst (files_of (xs @ [x])))"
      if "write_bytes (files_of xs) (pl_relative_path x) (pl_content x) = Inr (files_of (xs @ [x]))"
      by (rule write_bytes_distinct [OF that]) (use h in simp_all)
    show "triple (holds (drafting db0 m d i k (files_of xs))) (write_payload (en_sha env) i x acc)
      (\<lambda>entries w. holds (drafting db0 m d i k (files_of (xs @ [x]))) w \<and>
         (entries = map (entry_of (en_sha env)) (xs @ [x]) \<and> distinct (map fst (files_of (xs @ [x]))) \<and>
          list_all (\<lambda>p. check_entry (entry_of (en_sha env) p) = Inr ()) (xs @ [x]))) failure"
      by (rule triple_weaken [OF tw [unfolded snoc]]) (use h dist in simp_all)
  qed
  have "triple (I [] []) (foldS (write_payload (en_sha env) i) ps []) (I ps) failure"
    by (rule triple_fold_prefix [OF step])
  then show ?thesis by (simp add: I_def files_of_def)
qed

section \<open>Publishing\<close>

definition landed :: "database \<Rightarrow> nat \<Rightarrow> stage_definition \<Rightarrow> string \<Rightarrow> nat \<Rightarrow> core_assertion" where
  "landed db0 m d i k db p a n \<longleftrightarrow> running db0 m d i k db p a n \<and>
     (\<exists>es. p (sd_stage_id d, cache_of env d) = Some (CacheRoot es) \<and>
        map_of es i = Some (RealDirectory (attempt_dir env d i k)))"

lemma landed_sound: "landed db0 m d i k db p a n \<Longrightarrow> sound db p a n"
  by (auto simp: landed_def running_def)

lemma t_publish_directory:
  assumes d: "d \<in> set definitions" and v: "valid_attempt env d i k"
  shows "triple (holds (drafting db0 m d i k (attempt_dir env d i k)))
    (publish_directory (sd_stage_id d) (cache_of env d) i) (\<lambda>_. holds (landed db0 m d i k)) failure"
  unfolding publish_directory_def
proof (rule t_change, goal_cases)
  case (1 w w' x)
  let ?s = "sd_stage_id d" and ?c = "cache_of env d" and ?e = "RealDirectory (attempt_dir env d i k)"
  have run: "running db0 m d i k (w_database w) (w_published w) (w_attempts w) (w_draws w)"
    and dir: "map_of (w_attempts w) i = Some (attempt_dir env d i k)" and tidy: "tidy w"
    using 1(1) by (auto simp: holds_def drafting_def)
  obtain es where es: "w_published w (?s, ?c) = None \<and> es = [] \<or> w_published w (?s, ?c) = Some (CacheRoot es)"
    and fresh: "map_of es i = None"
    and w': "w' = w\<lparr>w_attempts := filter (\<lambda>(k, _). k \<noteq> i) (w_attempts w),
        w_published := (w_published w)((?s, ?c) \<mapsto> CacheRoot (es @ [(i, ?e)]))\<rparr>"
    using 1(2) dir by (auto split: option.splits cache_root.splits)
  have g: "sound (w_database w) (w_published w) (w_attempts w) (w_draws w)" by (rule running_sound [OF run])
  have e: "entry_ok env (w_database w) d (i, ?e)" using run v by (auto simp: entry_ok_def running_def)
  have f: "i \<notin> fst ` set es" using fresh by (simp add: map_of_eq_None_iff)
  have "sound (w_database w) ((w_published w)((?s, ?c) \<mapsto> CacheRoot (es @ [(i, ?e)]))) (w_attempts w) (w_draws w)"
    by (rule good_publish [OF g d e f es distinct_ids])
  then have "sound (w_database w) ((w_published w)((?s, ?c) \<mapsto> CacheRoot (es @ [(i, ?e)])))
      (filter (\<lambda>(k, _). k \<noteq> i) (w_attempts w)) (w_draws w)"
    by (rule good_attempts) (use g in \<open>auto simp: good_def\<close>)
  then show ?case
    using run tidy fresh by (auto simp: holds_def landed_def running_def w' tidy_def map_add_def)
next
  case (3 w e)
  have g: "sound (w_database w) (w_published w) (w_attempts w) (w_draws w)"
    using 3(1) by (auto simp: holds_def intro: drafting_sound)
  have "\<exists>es. w_published w (sd_stage_id d, cache_of env d) = Some (CacheRoot es)"
    if "w_published w (sd_stage_id d, cache_of env d) = Some root" for root
    using g that unfolding good_def published_ok_def by blast
  then show False
    using 3(1,2) by (auto simp: holds_def drafting_def map_of_eq_None_iff bindE_eq_Inl image_iff
        split: option.splits cache_root.splits dest!: map_of_SomeD)
qed (rule drafting_sound)

lemma t_verify_published:
  assumes d: "d \<in> set definitions" and v: "valid_attempt env d i k"
  shows "triple (holds (landed db0 m d i k)) (verify_published env (sd_stage_id d) (cache_of env d) i)
    (\<lambda>r w. holds (landed db0 m d i k) w \<and> r = ideal_published d i k) failure"
  unfolding verify_published_def
proof (rule t_read, goal_cases)
  case (1 w x)
  then show ?case
    by (auto simp: holds_def landed_def verify_attempt_dir [OF v] ideal_published_def split: if_splits)
next
  case (3 w e)
  have run: "running db0 m d i k (w_database w) (w_published w) (w_attempts w) (w_draws w)"
    using 3(1) by (auto simp: holds_def landed_def)
  have "k \<le> w_draws w"
    by (rule attempt_number_bound [OF running_sound [OF run]]) (use run in \<open>auto simp: running_def\<close>)
  then have "manifest_fits env d i k"
    using fits_N d run 3(4) unfolding fits_def by (auto simp: running_def)
  then show False
    using 3(1,2) by (auto simp: holds_def landed_def verify_attempt_dir [OF v])
qed (rule landed_sound)

lemma t_record:
  assumes d: "d \<in> set definitions" and v: "valid_attempt env d i k"
  shows "triple (holds (landed db0 m d i k))
    (in_database (\<lambda>db. record_complete db (ideal_manifest env d i k) h
       (published_directory (sd_stage_id d) (cache_of env d) i))) (\<lambda>_. holds (executed db0 m d)) failure"
proof (rule t_database, goal_cases)
  case (2 db p a n db')
  then have run: "running db0 m d i k db p a n" and pub: "p (sd_stage_id d, cache_of env d) \<noteq> None"
    by (auto simp: landed_def)
  note gr = good_record [OF running_sound [OF run] 2(2) d ideal_manifest_fields(1) ideal_manifest_fields(2)
      spec_hashes_ideal [OF d v], simplified ideal_manifest_fields]
  have deps: "N < n \<or> deps_complete db (sd_stage_id d)" and known: "i \<in> fst ` set (db_attempt db)"
    and named: "well_named i (sd_stage_id d) k"
    using run by (simp_all add: running_def)
  note gr = gr [OF known named pub deps artifact_known_ideal [OF d v named known]]
  have "untouched db0 db' (sd_stage_id d)" using run gr(4) by (simp add: running_def untouched_def)
  then show ?case using run gr(1,2) by (simp add: executed_def running_def)
next
  case (3 db p a n e)
  then show ?case using record_smooth [OF landed_sound d v] by (auto simp: landed_def running_def)
qed (rule landed_sound)

section \<open>The whole execution\<close>

lemma checked_payloads_clock:
  assumes "d \<in> set definitions"
  shows "(\<lambda>w. checked_payloads d (w_draws w) cx) = (\<lambda>_. checked_payloads d 0 cx)"
  by (rule ext) (simp only: checked_payloads_def executors_deterministic [OF assms, of "w_draws _"])

lemma smooth_manifest:
  assumes sm: "smooth env N cb" and d: "d \<in> set definitions" and i: "is_identifier i" and k: "0 < k"
  shows "check_manifest (ideal_manifest env d i k) = Inr () \<and>
    canonical_document (manifest_dump (ideal_manifest env d i k)) =
      Inr (dumps (manifest_dump (ideal_manifest env d i k)) @ [CHR 0x0A])"
proof -
  note st = smooth_stageD [OF sm d, unfolded smooth_stage_def]
  have "\<exists>v. cache_of env d = en_sha env v"
    using st by (auto simp: stage_key_def build_stage_cache_key_def cache_key_document_def canonical_sha256_eq)
  then have c: "is_sha256 (cache_of env d)" using sm by (auto simp: smooth_def)
  have cp: "checked_payloads d 0 (stage_context_of env d (spec env)) = Inr (payloads_of env d)" using st by blast
  note keys = checked_payloads_Inr [OF cp]
  have out: "distinct (sd_output_keys d)" "sd_output_keys d \<noteq> []"
    using stages_ordered_member [OF ordered d] by blast+
  have k1: "distinct (map pl_artifact_key (payloads_of env d))" unfolding keys(1) using out(1) by simp
  have "length (payloads_of env d) = length (sd_output_keys d)"
    using arg_cong [OF keys(1), of length] by simp
  then have ne: "payloads_of env d \<noteq> []" using out(2) by auto
  have man: "check_manifest (ideal_manifest env d i k) = Inr ()"
    using sm st i k c k1 keys(2) ne
    by (simp add: check_manifest_def ideal_manifest_def manifest_of_def smooth_def comp_def entry_of_def Let_def)
  moreover have "canonical_document (manifest_dump (ideal_manifest env d i k)) =
      Inr (dumps (manifest_dump (ideal_manifest env d i k)) @ [CHR 0x0A])"
    by (rule manifest_document [OF man])
      (use st in \<open>auto simp: ideal_manifest_def manifest_of_def list_all_iff entry_of_def\<close>)
  ultimately show ?thesis by blast
qed

text \<open>From the written payloads on: the manifest, the publication, the record.\<close>

lemma t_publication:
  assumes d: "d \<in> set definitions"
    and cp: "checked_payloads d 0 (stage_context_of env d (spec env)) = Inr (payloads_of env d)"
    and distinct: "distinct (map fst (files_of (payloads_of env d)))"
    and entries: "list_all (\<lambda>p. check_entry (entry_of (en_sha env) p) = Inr ()) (payloads_of env d)"
  shows "triple (holds (drafting db0 m d i k (files_of (payloads_of env d))))
     (bindS (callback cb AFTER_OUTPUTS_FSYNCED (sd_stage_id d)) (\<lambda>_.
      bindS (liftS (\<lambda>_. bindE (check_manifest (ideal_manifest env d i k))
               (\<lambda>_. canonical_document (manifest_dump (ideal_manifest env d i k))))) (\<lambda>document.
      bindS (write_in_attempt i ATTEMPT_MANIFEST_FILE document) (\<lambda>_.
      bindS (callback cb AFTER_MANIFEST_FSYNCED (sd_stage_id d)) (\<lambda>_.
      bindS (publish_directory (sd_stage_id d) (cache_of env d) i) (\<lambda>_.
      bindS (callback cb AFTER_ARTIFACT_PUBLISHED (sd_stage_id d)) (\<lambda>_.
      bindS (verify_published env (sd_stage_id d) (cache_of env d) i) (\<lambda>published.
      bindS (publish_pointer env published) (\<lambda>_.
      bindS (callback cb AFTER_POINTER_PUBLISHED (sd_stage_id d)) (\<lambda>_.
      bindS (in_database (\<lambda>db. record_complete db (ideal_manifest env d i k) (pa_manifest_sha256 published)
               (published_directory (sd_stage_id d) (cache_of env d) i))) (\<lambda>_.
      bindS (export_run_artifact env) (\<lambda>_.
        callback cb AFTER_DB_COMMITTED (sd_stage_id d)))))))))))))
     (\<lambda>_. holds (executed db0 m d)) failure"
proof -
  let ?man = "ideal_manifest env d i k" and ?ps = "payloads_of env d"
  let ?doc = "dumps (manifest_dump ?man) @ [CHR 0x0A]"
  have document: "triple (holds (drafting db0 m d i k (files_of ?ps)))
      (liftS (\<lambda>_. bindE (check_manifest ?man) (\<lambda>_. canonical_document (manifest_dump ?man))))
      (\<lambda>x w. holds (drafting db0 m d i k (files_of ?ps)) w \<and> (x = ?doc \<and> check_manifest ?man = Inr ())) failure"
  proof (rule t_lift, goal_cases)
    case (3 e w)
    have "is_identifier (sd_stage_id d)" using smooth_stageD [OF 3(2) d] by (simp add: smooth_stage_def)
    then have "is_identifier i \<and> 0 < k" using 3(3) by (simp add: holds_def drafting_def running_def)
    then show ?case using smooth_manifest [OF 3(2) d] 3(1) by auto
  qed (auto simp: canonical_document_eq intro: drafting_sound)
  have writable: "\<exists>files'. write_bytes (files_of ?ps) ATTEMPT_MANIFEST_FILE ?doc = Inr files'"
    if smooth: "smooth env N cb"
  proof -
    obtain d' where "write_all [] (payload_files (?ps @ []) @ [(ATTEMPT_MANIFEST_FILE, ?doc)]) = Inr d'"
      using smooth_stageD [OF smooth d] by (auto simp: smooth_stage_def)
    from write_all_payloads(2) [OF this] show ?thesis by (auto simp: payload_files_def)
  qed
  show ?thesis
  proof (rule triple_bind [OF t_callback], erule drafting_sound,
      rule triple_bind_fact [OF document], elim conjE, hypsubst,
      rule triple_bind_fact [OF t_write_in_attempt], erule writable, goal_cases)
    case (1 x u)
    have dir: "files_of ?ps @ [(ATTEMPT_MANIFEST_FILE, RegularFile ?doc)] = attempt_dir env d i k"
      by (simp add: attempt_dir_files)
    have "distinct (map fst (attempt_dir env d i k))"
      using write_bytes_distinct [OF _ distinct NoEntry_files_of] 1(2) unfolding dir by blast
    then have v: "valid_attempt env d i k"
      using 1(1) entries checked_payloads_Inr [OF cp] by (simp add: valid_attempt_def)
    show ?case unfolding dir
      by (rule triple_bind [OF t_callback], erule drafting_sound,
          rule triple_bind [OF t_publish_directory [OF d v]],
          rule triple_bind [OF t_callback], erule landed_sound,
          rule triple_bind_fact [OF t_verify_published [OF d v]], hypsubst,
          rule triple_bind [OF t_publish_pointer], erule landed_sound, erule ideal_pointer [OF _ d v],
          rule triple_bind [OF t_callback], erule landed_sound,
          rule triple_bind [OF t_record [OF d v]],
          rule triple_bind [OF t_export], erule executed_sound,
          rule t_callback, erule executed_sound)
  qed
qed

lemma t_stage_body:
  assumes d: "d \<in> set definitions"
  shows "triple (holds (drafting db0 m d i k [])) (stage_body env cb d (cache_of env d) i k)
    (\<lambda>_. holds (executed db0 m d)) failure"
proof -
  let ?s = "sd_stage_id d" and ?c = "cache_of env d" and ?sha = "en_sha env"
  let ?cx = "stage_context_of env d (spec env)" and ?ps = "payloads_of env d"
  have cx: "\<lparr>cx_inputs = en_inputs env, cx_stage_id = ?s, cx_cache_key = ?c,
      cx_upstream_artifact_hashes = stage_upstream d (spec env)\<rparr> = ?cx"
    by (simp add: stage_context_of_def cache_of_def)
  have upstream: "triple (holds (drafting db0 m d i k [])) (query (\<lambda>db. upstream_hashes db d))
      (\<lambda>u w. holds (drafting db0 m d i k []) w \<and> u = stage_upstream d (spec env)) failure"
    unfolding query_def
  proof (rule t_read, goal_cases)
    case (1 w x)
    then have "drafting db0 m d i k [] (w_database w) (w_published w) (w_attempts w) (w_draws w)"
      by (simp add: holds_def)
    then show ?case using upstream_hashes_sound [OF drafting_sound d] 1(2) by blast
  next
    case (3 w e)
    then have dr: "drafting db0 m d i k [] (w_database w) (w_published w) (w_attempts w) (w_draws w)"
      by (simp add: holds_def)
    then have "deps_complete (w_database w) ?s" by (simp add: drafting_def running_def)
    then have "upstream_hashes (w_database w) d = Inr (stage_upstream d (spec env))"
      using upstream_hashes_sound [OF drafting_sound [OF dr] d] by blast
    then show False using 3(2) by simp
  qed (rule drafting_sound)
  have payloads: "triple (holds (drafting db0 m d i k [])) (liftS (\<lambda>w. checked_payloads d (w_draws w) ?cx))
      (\<lambda>ps w. holds (drafting db0 m d i k []) w \<and> (ps = ?ps \<and> checked_payloads d 0 ?cx = Inr ?ps)) failure"
    unfolding checked_payloads_clock [OF d]
  proof (rule t_lift, goal_cases)
    case (1 ps)
    then show ?case by (simp add: payloads_of_def stage_payloads_def)
  next
    case (3 e w)
    then show ?case using smooth_stageD [OF 3(2) d] by (simp add: smooth_stage_def)
  qed (rule drafting_sound)
  have writable: "list_all (\<lambda>p. check_entry (entry_of ?sha p) = Inr ()) ?ps \<and>
      (\<exists>zs files'. write_all [] (payload_files ?ps @ zs) = Inr files')" if smooth: "smooth env N cb"
  proof -
    note st = smooth_stageD [OF smooth d, unfolded smooth_stage_def]
    obtain d' where "write_all [] (payload_files ?ps @ [(ATTEMPT_MANIFEST_FILE, [])]) = Inr d'" using st by blast
    then show ?thesis using st by (auto simp: list_all_iff)
  qed
  show ?thesis
    unfolding stage_body_def Let_def
  proof (rule triple_bind_fact [OF upstream], goal_cases)
    case (1 u)
    show ?case unfolding 1 cx
    proof (rule triple_bind_fact [OF payloads], goal_cases)
      case (1 ps)
      then have cp: "checked_payloads d 0 ?cx = Inr ?ps" and ps: "ps = ?ps" by blast+
      show ?case unfolding ps
      proof (rule triple_bind_fact [OF t_write_payloads [OF writable]], assumption, goal_cases)
        case (1 entries)
        then have "entries = map (entry_of ?sha) ?ps" by blast
        then have man: "manifest_of env ?s ?c i k entries = ideal_manifest env d i k"
          by (simp add: ideal_manifest_def)
        show ?case unfolding man
          by (rule t_publication [OF d cp]) (use 1 in simp_all)
      qed
    qed
  qed
qed

lemma failure_holds: "failure = holds (\<lambda>db p a n. sound db p a n \<and> (smooth env N cb \<longrightarrow> N < n))"
  by (auto simp: fails_def holds_def)

lemma t_fail_running:
  assumes s: "s \<in> set (map sd_stage_id definitions)"
  shows "triple failure (fail_running env s) (\<lambda>_. failure) failure"
proof -
  let ?\<Phi> = "\<lambda>db p a n. sound db p a n \<and> (smooth env N cb \<longrightarrow> N < n)"
  have "triple (holds ?\<Phi>) (fail_running env s) (\<lambda>_. holds ?\<Phi>) failure"
    unfolding fail_running_def
  proof (rule triple_bind [OF t_query], goal_cases)
    case (3 row)
    show ?case
    proof (rule triple_if)
      assume running: "r_state row = RUNNING"
      show "triple (holds (\<lambda>db p a n. ?\<Phi> db p a n \<and> stage_row db s = Inr row))
        (bindS (in_database (\<lambda>db. mark_state db s FAILED_RETRYABLE (Some ''STAGE_EXECUTION_FAILED'')))
          (\<lambda>_. export_run_artifact env)) (\<lambda>_. holds ?\<Phi>) failure"
      proof (rule triple_bind [OF t_database [where \<Psi> = ?\<Phi>] t_export], goal_cases)
        case (2 db p a n db')
        then have g: "sound db p a n" and row: "map_of (db_stage db) s = Some row" by simp_all
        have "sound db' p a n" by (rule good_mark [OF g row 2(2)]) (simp_all add: running)
        then show ?case using 2(1) by blast
      qed (use leD in blast)+
    qed (rule triple_ret, auto simp: holds_def)
  qed auto
  then show ?thesis by (simp add: failure_holds [symmetric])
qed

lemma t_execute_stage:
  assumes d: "d \<in> set definitions"
  shows "triple (holds (\<lambda>db p a n. sound db p a n \<and> db = db0 \<and> n = m \<and>
      (\<forall>r. map_of (db_stage db0) (sd_stage_id d) = Some r \<longrightarrow> N < n \<or> r_state r \<in> set startable) \<and>
      deps_complete db (sd_stage_id d)))
    (execute_stage env cb d) (\<lambda>_. holds (executed db0 m d)) failure"
  (is "triple (holds ?\<Phi>) _ _ _")
proof -
  let ?s = "sd_stage_id d"
  have key: "triple (holds ?\<Phi>) (query (\<lambda>db. cache_key env db d)) (\<lambda>c w. holds ?\<Phi> w \<and> c = cache_of env d) failure"
    unfolding query_def
  proof (rule t_read, goal_cases)
    case (1 w c)
    then have "sound (w_database w) (w_published w) (w_attempts w) (w_draws w)" unfolding holds_def by blast
    then show ?case using cache_key_sound(1) [OF _ d 1(2)] by blast
  next
    case (3 w e)
    then have "sound (w_database w) (w_published w) (w_attempts w) (w_draws w)"
      and "deps_complete (w_database w) ?s" unfolding holds_def by blast+
    then show ?case using cache_key_smooth [OF _ d _ 3(3)] 3(2) by auto
  qed blast
  show ?thesis
    unfolding execute_stage_def Let_def
  proof (rule triple_bind_fact [OF key], hypsubst, rule triple_bind [OF t_begin_stage [OF d]], goal_cases)
    case (1 c x)
    obtain i k where x: "x = (i, k)" by (cases x)
    let ?\<Psi> = "\<lambda>db p a n. running db0 m d i k db p a n \<and> i \<notin> fst ` set a \<and>
        (\<forall>c es. p (?s, c) = Some (CacheRoot es) \<longrightarrow> i \<notin> fst ` set es)"
    have sound: "?\<Psi> db p a n \<Longrightarrow> sound db p a n" for db p a n using running_sound by blast
    show ?case unfolding x case_prod_conv
      by (rule triple_bind [OF t_export], erule sound, rule triple_bind [OF t_callback], erule sound,
          rule triple_bind [OF t_make_directory], rule triple_cleanup [OF t_stage_body [OF d] t_fail_running])
        (use d in simp_all)
  qed
qed

end

end
