(* ===== verification/RunLoop.thy ===== *)
theory RunLoop
  imports RunExecute
begin

text \<open>
  A whole run.  First what the steps leave alone: reconciliation touches the database, the
  completion pointers and nothing else, and a run keeps the recorded inputs and the metadata of the
  database.  Then the loop over the stages: every stage it passes is complete, unless more than
  \<open>N\<close> attempts were begun.  The report carries the digest of the ideal run or none.
\<close>

section \<open>What the steps leave alone\<close>

definition artifacts :: "world \<Rightarrow> published \<times> attempts \<times> nat \<times> fs_node \<times> bool" where
  "artifacts w = (w_published w, w_attempts w, w_draws w, w_inputs w, w_locked w)"

definition provenance :: "world \<Rightarrow> fs_node \<times> (string \<times> string) list \<times> bool" where
  "provenance w = (w_inputs w, db_meta (w_database w), w_locked w)"

lemma keeps_database: "keeps artifacts (in_database f)"
  unfolding in_database_def by (rule keeps_modify) (auto simp: artifacts_def)

lemma keeps_pointer: "keeps artifacts (publish_pointer env a)" "keeps provenance (publish_pointer env a)"
  unfolding publish_pointer_def
  by (rule keeps_modify, auto simp: artifacts_def provenance_def Let_def split: if_splits)+

lemma keeps_query [keeps_intros]: "keeps f (query g)"
  unfolding query_def by (rule keeps_lift)

lemma keeps_action [keeps_intros]: "keeps f (add_action s a t acc)"
  unfolding add_action_def by (rule keeps_lift)

lemma keeps_callback [keeps_intros]: "keeps f (callback cb b s)"
  by (simp add: keeps_def callback_def split: signal.split)

lemma keeps_prod [keeps_intros]: "(\<And>x y. keeps f (g x y)) \<Longrightarrow> keeps f (case p of (x, y) \<Rightarrow> g x y)"
  by (cases p) simp

lemma meta_mark: "mark_state db s st e = Inr db' \<Longrightarrow> db_meta db' = db_meta db"
  by (auto simp: mark_state_def split: if_splits)

lemma meta_invalidate: "invalidate db ss force = Inr db' \<Longrightarrow> db_meta db' = db_meta db"
  using db_stage_invalidate by blast

lemma meta_complete: "record_complete db m h dir = Inr db' \<Longrightarrow> db_meta db' = db_meta db"
  by (auto simp: record_complete_def insert_artifacts_eq upsert_attempt_def split: if_splits)

lemma meta_begin: "begin_attempt u db s c = Inr (db', i, k) \<Longrightarrow> db_meta db' = db_meta db"
  by (auto elim!: begin_attempt_Inr)

lemma keeps_meta:
  "(\<And>db db'. f db = Inr db' \<Longrightarrow> db_meta db' = db_meta db) \<Longrightarrow> keeps provenance (in_database f)"
  unfolding in_database_def by (rule keeps_modify) (auto simp: provenance_def)

lemma keeps_provenance [keeps_intros]:
  "keeps provenance (in_database (\<lambda>db. mark_state db s st e))"
  "keeps provenance (in_database (\<lambda>db. invalidate db ss force))"
  "keeps provenance (in_database (\<lambda>db. record_complete db m h dir))"
  by (rule keeps_meta, erule meta_mark meta_invalidate meta_complete)+

declare keeps_pointer(2) [keeps_intros]

text \<open>The pass of reconciliation, for any part of the world that its operations keep.\<close>

lemma keeps_reconcile:
  assumes mark: "\<And>s st e. keeps f (in_database (\<lambda>db. mark_state db s st e))"
    and invalidate: "\<And>ss force. keeps f (in_database (\<lambda>db. invalidate db ss force))"
    and complete: "\<And>m h dir. keeps f (in_database (\<lambda>db. record_complete db m h dir))"
    and pointer: "\<And>a. keeps f (publish_pointer env a)"
  shows "keeps f (reconcile env)"
proof -
  have unpublished: "keeps f (settle_unpublished d row acc)" for d row acc
    unfolding settle_unpublished_def Let_def by (intro keeps_intros mark)
  have adopt: "keeps f (adopt_published env d c row a acc)" for d c row a acc
    unfolding adopt_published_def Let_def by (intro keeps_intros pointer complete)
  have closure: "keeps f (invalidate_closure env s acc)" for s acc
    unfolding invalidate_closure_def by (intro keeps_intros invalidate)
  have settle: "keeps f (settle_stage env d c acc)" for d c acc
    unfolding settle_stage_def Let_def
  proof (rule keeps_bind [OF keeps_query], rule keeps_choice)
    fix row w
    let ?final = "bindS (in_database (\<lambda>db. mark_state db (sd_stage_id d) FAILED_FINAL (Some ''ARTIFACT_INTEGRITY''))) (\<lambda>_.
                bindS (add_action (sd_stage_id d) ACTION_FAILED_FINAL
                         ''Published immutable artifacts failed hash validation.'' (fst acc))
                  (\<lambda>actions. ret (actions, snd acc)))"
    have final: "keeps f ?final" by (intro keeps_intros mark)
    have choose: "\<exists>m'. keeps f m' \<and> m w = m' w" if "keeps f m" for m :: "reconciliation run"
      using that by blast
    show "\<exists>m'. keeps f m' \<and> (case select_published env d c w of
           Inl e \<Rightarrow> (if is_integrity_error e then ?final w else (Raised e, w))
         | Inr published \<Rightarrow>
             (case published of
                Some attempt \<Rightarrow>
                  (if r_required_attempt_number row \<le> m_attempt_number (pa_manifest attempt)
                   then adopt_published env d c row attempt acc w
                   else settle_unpublished d row acc w)
              | None \<Rightarrow> settle_unpublished d row acc w)) = m' w"
    proof (cases "select_published env d c w")
      case (Inl e)
      show ?thesis
      proof (cases "is_integrity_error e")
        case True
        show ?thesis unfolding Inl sum.case if_P [OF True] by (rule choose [OF final])
      next
        case False
        show ?thesis unfolding Inl sum.case if_not_P [OF False] by (rule choose [OF keeps_raise])
      qed
    next
      case (Inr published)
      then show ?thesis
        using choose [OF unpublished] choose [OF adopt] by (cases published) simp_all
    qed
  qed
  have stage: "keeps f (reconcile_stage env d acc)" for d acc
    unfolding reconcile_stage_def Let_def by (intro keeps_intros closure settle)
  show ?thesis
    unfolding reconcile_def note_invalidated_def by (intro keeps_intros stage)
qed

lemma reconcile_keeps_artifacts: "keeps artifacts (reconcile env)"
  by (rule keeps_reconcile) (rule keeps_database keeps_pointer)+

lemma reconcile_keeps_provenance: "keeps provenance (reconcile env)"
  by (rule keeps_reconcile) (rule keeps_provenance keeps_pointer)+

lemma keeps_export [keeps_intros]: "keeps provenance (export_run_artifact env)"
  unfolding export_run_artifact_def by (rule keeps_modify) (auto simp: provenance_def split: if_splits)

lemma keeps_attempt_files [keeps_intros]:
  "keeps provenance (make_attempt_directory i)" "keeps provenance (write_in_attempt i p c)"
  "keeps provenance (publish_directory s c i)"
  unfolding make_attempt_directory_def write_in_attempt_def publish_directory_def
  by (rule keeps_modify, auto simp: provenance_def split: if_splits option.splits)+

lemma keeps_begin [keeps_intros]: "keeps provenance (begin_stage env s c)"
  unfolding begin_stage_def by (rule keeps_modify) (auto simp: provenance_def dest: meta_begin)

lemma run_keeps_provenance: "keeps provenance (run env force_stage dry_run cb)"
proof -
  have body: "keeps provenance (stage_body env cb d c i k)" for d c i k
    unfolding stage_body_def Let_def write_payload_def verify_published_def by (intro keeps_intros)
  have fail: "keeps provenance (fail_running env s)" for s
    unfolding fail_running_def by (intro keeps_intros)
  have stage: "keeps provenance (run_stage env cb forced d acc)" for forced d acc
    unfolding run_stage_def execute_stage_def Let_def by (intro keeps_intros body fail)
  show ?thesis
    unfolding run_def force_invalidate_def report_def by (intro keeps_intros reconcile_keeps_provenance stage)
qed

section \<open>How many attempts are begun\<close>

text \<open>A step begins attempts of some of the given stages, in their order.\<close>

definition begins :: "string list \<Rightarrow> 'a run \<Rightarrow> bool" where
  "begins ids m \<longleftrightarrow> (\<forall>w. \<exists>log. w_begun (snd (m w)) = w_begun w @ log \<and> subseq log ids \<and>
     w_draws (snd (m w)) = w_draws w + length log)"

definition begun :: "world \<Rightarrow> string list \<times> nat" where
  "begun w = (w_begun w, w_draws w)"

lemma begins_keeps: "keeps begun m \<Longrightarrow> begins ids m"
  by (auto simp: begins_def keeps_def begun_def)

lemma begins_bind:
  assumes "begins xs m" and "\<And>x. begins ys (f x)"
  shows "begins (xs @ ys) (bindS m f)"
  unfolding begins_def
proof
  fix w
  obtain log where m: "w_begun (snd (m w)) = w_begun w @ log" "subseq log xs" "w_draws (snd (m w)) = w_draws w + length log"
    using assms(1) unfolding begins_def by blast
  have stop: "subseq log (xs @ ys)" using list_emb_append_mono [OF m(2) list_emb_Nil, of ys] by simp
  show "\<exists>log. w_begun (snd (bindS m f w)) = w_begun w @ log \<and> subseq log (xs @ ys) \<and>
      w_draws (snd (bindS m f w)) = w_draws w + length log"
  proof (rule outcome_exhaust [of "m w"])
    fix x w' assume ran: "m w = (Done x, w')"
    obtain more where "w_begun (snd (f x w')) = w_begun w' @ more" "subseq more ys" "w_draws (snd (f x w')) = w_draws w' + length more"
      using assms(2) unfolding begins_def by blast
    then show ?thesis
      using m ran list_emb_append_mono [OF m(2)] by (intro exI [of _ "log @ more"]) (simp add: bindS_def)
  qed (use m stop in \<open>auto simp: bindS_def\<close>)
qed

lemma begins_if: "(b \<Longrightarrow> begins ids m) \<Longrightarrow> (\<not> b \<Longrightarrow> begins ids m') \<Longrightarrow> begins ids (if b then m else m')"
  by simp

lemma begins_fold: "(\<And>x acc. begins [g x] (f x acc)) \<Longrightarrow> begins (map g xs) (foldS f xs acc)"
proof (induction xs arbitrary: acc)
  case Nil
  show ?case by (auto intro: begins_keeps keeps_ret)
next
  case (Cons x xs)
  have "begins ([g x] @ map g xs) (bindS (f x acc) (foldS f xs))"
    by (rule begins_bind) (use Cons in blast)+
  then show ?case by simp
qed

lemma keeps_begun:
  "keeps begun (in_database f)" "keeps begun (publish_pointer env a)" "keeps begun (export_run_artifact env)"
  "keeps begun (make_attempt_directory i)" "keeps begun (write_in_attempt i p c)"
  "keeps begun (publish_directory s c i)"
  unfolding in_database_def publish_pointer_def export_run_artifact_def make_attempt_directory_def
    write_in_attempt_def publish_directory_def
  by (rule keeps_modify, auto simp: begun_def Let_def split: if_splits option.splits)+

lemma begins_begin: "begins [s] (begin_stage env s c)"
  by (auto simp: begins_def begin_stage_def modifyS_def split: sum.split)

lemma begins_run: "begins (map sd_stage_id (en_definitions env)) (run env force_stage dry_run cb)"
proof -
  note keeps = keeps_intros keeps_begun
  have reconcile: "keeps begun (reconcile env)" by (rule keeps_reconcile) (rule keeps_begun)+
  have body: "keeps begun (stage_body env cb d c i k)" for d c i k
    unfolding stage_body_def Let_def write_payload_def verify_published_def by (intro keeps)
  have fail: "keeps begun (fail_running env s)" for s
    unfolding fail_running_def by (intro keeps)
  have execute: "begins [sd_stage_id d] (execute_stage env cb d)" for d
  proof -
    have "begins ([] @ ([sd_stage_id d] @ [])) (execute_stage env cb d)"
      unfolding execute_stage_def Let_def
      by (intro begins_bind begins_begin) (intro begins_keeps keeps body fail)+
    then show ?thesis by simp
  qed
  have stage: "begins [sd_stage_id d] (run_stage env cb forced d acc)" for forced d acc
  proof -
    have add: "begins ids (bindS (add_action s a t acc) f)" if "\<And>x. keeps begun (f x)" for ids s a t acc and f :: "_ \<Rightarrow> (action_record list \<times> bool) run"
      by (rule begins_keeps) (intro keeps that)
    have "begins ([] @ ids) (bindS (query f) g)" if "\<And>x. begins ids (g x)" for ids and f :: "database \<Rightarrow> 'x res" and g :: "'x \<Rightarrow> (action_record list \<times> bool) run"
      by (rule begins_bind [OF begins_keeps]) (intro keeps that)+
    note query = this [unfolded append_Nil]
    have run: "begins ([sd_stage_id d] @ []) (bindS (execute_stage env cb d) f)" if "\<And>x. keeps begun (f x)" for f :: "unit \<Rightarrow> (action_record list \<times> bool) run"
      by (rule begins_bind [OF execute begins_keeps [OF that]])
    show ?thesis
      unfolding run_stage_def Let_def
      by (intro begins_if query add run [unfolded append_Nil2] keeps_intros begins_keeps [OF keeps_ret])
  qed
  have rest: "begins ([] @ ([] @ (map sd_stage_id (en_definitions env) @ []))) (bindS (reconcile env) (\<lambda>actions.
        bindS (if force_stage = None then ret actions else force_invalidate scope actions) (\<lambda>actions.
        bindS (foldS (run_stage env cb scope) (en_definitions env) (actions, False)) (\<lambda>(actions, _).
        bindS (export_run_artifact env) (\<lambda>_. report env actions scope)))))" for scope
    unfolding force_invalidate_def report_def
    by (intro begins_bind begins_fold stage; intro begins_keeps keeps reconcile)
  have "begins ([] @ map sd_stage_id (en_definitions env)) (bindS (liftS g) f)"
    if "\<And>scope. begins (map sd_stage_id (en_definitions env)) (f scope)" for g :: "world \<Rightarrow> string list res" and f :: "string list \<Rightarrow> run_report run"
    by (rule begins_bind [OF begins_keeps [OF keeps_lift]]) (rule that)
  note scope = this [unfolded append_Nil]
  show ?thesis
    unfolding run_def
  proof (rule begins_if, rule begins_keeps, rule keeps_lift, rule scope, rule begins_if, rule begins_keeps, goal_cases)
    case (1 s)
    show ?case unfolding report_def by (rule keeps_lift)
  next
    case (2 s)
    show ?case using rest [of s] by simp
  qed
qed

definition costs :: "nat \<Rightarrow> 'a run \<Rightarrow> bool" where
  "costs k m \<longleftrightarrow> (\<forall>w. w_draws (snd (m w)) \<le> w_draws w + k)"

lemma costs_begins: "begins ids m \<Longrightarrow> costs (length ids) m"
  unfolding begins_def costs_def by (metis add_left_mono list_emb_length)

lemma costs_run: "costs (length (en_definitions env)) (run env force_stage dry_run cb)"
  using costs_begins [OF begins_run] by simp

text \<open>A whole invocation: it may also initialise the database, which begins nothing.\<close>

lemma open_engine_frame:
  "begun (snd (open_engine env w)) = begun w" "w_inputs (snd (open_engine env w)) = w_inputs w"
  "db_meta (w_database (snd (open_engine env w))) = db_meta (w_database w) \<or> db_meta (w_database w) = []"
proof -
  show "begun (snd (open_engine env w)) = begun w" "w_inputs (snd (open_engine env w)) = w_inputs w"
    by (auto simp: open_engine_def modifyS_def begun_def split: sum.split)
  show "db_meta (w_database (snd (open_engine env w))) = db_meta (w_database w) \<or> db_meta (w_database w) = []"
    by (auto simp: open_engine_def modifyS_def initialize_database_def split: sum.split if_splits)
qed

lemma begins_session:
  obtains log where "w_begun (snd (run_session env force_stage dry_run cb w)) = w_begun w @ log"
    and "subseq log (map sd_stage_id (en_definitions env))" and "distinct log"
    and "w_draws (snd (run_session env force_stage dry_run cb w)) = w_draws w + length log"
proof (cases "\<exists>inputs. load_run_inputs (en_sha env) (w_inputs w) = Inr inputs \<and> (\<exists>w1. open_engine (env\<lparr>en_inputs := inputs\<rparr>) w = (Done (), w1))")
  case False
  have "begun (snd (run_session env force_stage dry_run cb w)) = begun w"
  proof (cases "load_run_inputs (en_sha env) (w_inputs w)")
    case (Inr inputs)
    let ?o = "open_engine (env\<lparr>en_inputs := inputs\<rparr>) w"
    have "begun (snd ?o) = begun w" by (rule open_engine_frame)
    moreover have "\<nexists>w1. ?o = (Done (), w1)" using False Inr by blast
    ultimately show ?thesis
      by (rule_tac outcome_exhaust [of ?o]) (auto simp: run_session_def bindS_def liftS_def Let_def Inr)
  qed (simp add: run_session_def bindS_def liftS_def)
  then show thesis using that [of "[]"] by (simp add: begun_def)
next
  case True
  then obtain inputs w1 where load: "load_run_inputs (en_sha env) (w_inputs w) = Inr inputs"
    and op: "open_engine (env\<lparr>en_inputs := inputs\<rparr>) w = (Done (), w1)" by blast
  let ?env = "env\<lparr>en_inputs := inputs\<rparr>"
  have w1: "w_begun w1 = w_begun w" "w_draws w1 = w_draws w"
    using open_engine_frame(1) [of ?env w] by (simp_all add: op begun_def)
  have "validate_stage_definitions (en_definitions env) = Inr ()"
    using op by (cases "validate_stage_definitions (en_definitions env)") (simp_all add: open_engine_def modifyS_def)
  then have dist: "distinct (map sd_stage_id (en_definitions env))"
    using validate_stage_definitions_ordered stages_ordered_distinct by blast
  obtain log where log: "w_begun (snd (run ?env force_stage dry_run cb w1)) = w_begun w1 @ log"
    "subseq log (map sd_stage_id (en_definitions ?env))" "w_draws (snd (run ?env force_stage dry_run cb w1)) = w_draws w1 + length log"
    using begins_run [of ?env force_stage dry_run cb] unfolding begins_def by blast
  have s: "run_session env force_stage dry_run cb w = release (run ?env force_stage dry_run cb) w1"
    by (simp add: run_session_def bindS_def liftS_def load op Let_def)
  have after: "w_begun (snd (release m v)) = w_begun (snd (m v))" "w_draws (snd (release m v)) = w_draws (snd (m v))"
    for m :: "run_report run" and v by (simp_all add: release_def split: prod.split)
  show thesis
  proof (rule that [of log])
    show "subseq log (map sd_stage_id (en_definitions env))" using log(2) by simp
    then show "distinct log" using dist by (metis in_set_subseqs subseqs_distinctD)
    show "w_begun (snd (run_session env force_stage dry_run cb w)) = w_begun w @ log"
      unfolding s after log(1) w1 ..
    show "w_draws (snd (run_session env force_stage dry_run cb w)) = w_draws w + length log"
      unfolding s after log(3) w1 ..
  qed
qed

lemma session_keeps_provenance:
  "w_inputs (snd (run_session env force_stage dry_run cb w)) = w_inputs w \<and>
   (db_meta (w_database (snd (run_session env force_stage dry_run cb w))) = db_meta (w_database w) \<or>
    db_meta (w_database w) = [])"
proof (cases "load_run_inputs (en_sha env) (w_inputs w)")
  case (Inr inputs)
  let ?env = "env\<lparr>en_inputs := inputs\<rparr>"
  let ?o = "open_engine ?env w"
  note frame = open_engine_frame(2,3) [of ?env w]
  have "provenance (snd (run ?env force_stage dry_run cb v)) = provenance v" for v
    using run_keeps_provenance unfolding keeps_def by blast
  then have ran: "w_inputs (snd (release (run ?env force_stage dry_run cb) v)) = w_inputs v"
    "db_meta (w_database (snd (release (run ?env force_stage dry_run cb) v))) = db_meta (w_database v)" for v
    by (simp_all add: release_def provenance_def split: prod.split) (metis snd_conv)+
  show ?thesis
    by (rule_tac outcome_exhaust [of ?o])
      (use frame ran in \<open>auto simp: run_session_def bindS_def liftS_def Let_def Inr\<close>)
qed (simp add: run_session_def bindS_def liftS_def)

section \<open>The loop over the stages\<close>

text \<open>A report that claims completion carries the digest of the ideal run; any other carries none.\<close>

definition faithful :: "env \<Rightarrow> run_report \<Rightarrow> bool" where
  "faithful env r \<longleftrightarrow>
     (if rr_complete r
      then (case rr_semantic_sha256 r of None \<Rightarrow> False | Some h \<Rightarrow> spec_digest env = Inr h)
      else rr_semantic_sha256 r = None)"

context engine_steps
begin

text \<open>\<open>on_track F X\<close>: the stages of \<open>X\<close> are done, the others are not running, and the
  forced ones among them are not complete.\<close>

definition on_track :: "string set \<Rightarrow> string set \<Rightarrow> database \<Rightarrow> nat \<Rightarrow> bool" where
  "on_track F X db n \<longleftrightarrow> N < n \<or>
     (\<forall>s r. map_of (db_stage db) s = Some r \<longrightarrow>
        (if s \<in> X then r_state r = COMPLETE
         else r_state r \<noteq> RUNNING \<and> (s \<in> F \<longrightarrow> r_state r \<noteq> COMPLETE)))"

definition looping :: "string set \<Rightarrow> nat \<Rightarrow> string set \<Rightarrow> core_assertion" where
  "looping F bound X db p a n \<longleftrightarrow> sound db p a n \<and> on_track F X db n \<and> n \<le> bound"

lemma looping_sound: "looping F bound X db p a n \<Longrightarrow> sound db p a n"
  by (simp add: looping_def)

lemma looping_done:
  assumes "looping F b X db p a n" and "map_of (db_stage db) s = Some r" and "r_state r = COMPLETE"
  shows "looping F (b + 1) (insert s X) db p a n"
  using assms by (auto simp: looping_def on_track_def split: if_splits)

lemma looping_late:
  assumes "looping F b X db p a n" and "N < n"
  shows "looping F (b + 1) Y db p a n"
  using assms by (auto simp: looping_def on_track_def)

lemma looping_executed:
  assumes l: "looping F b X db0 p0 a0 m" and e: "executed db0 m d db p a n"
  shows "looping F (b + 1) (insert (sd_stage_id d) X) db p a n"
proof (cases "N < m")
  case True
  then show ?thesis using l e by (auto simp: looping_def executed_def on_track_def)
next
  case False
  have "if s \<in> insert (sd_stage_id d) X then r_state r = COMPLETE
        else r_state r \<noteq> RUNNING \<and> (s \<in> F \<longrightarrow> r_state r \<noteq> COMPLETE)"
    if r: "map_of (db_stage db) s = Some r" for s r
  proof (cases "s = sd_stage_id d")
    case True
    then show ?thesis using e r by (auto simp: executed_def complete_in_def)
  next
    case other: False
    then have "map_of (db_stage db0) s = Some r" using e r by (simp add: executed_def untouched_def)
    then show ?thesis using l False other by (auto simp: looping_def on_track_def)
  qed
  then show ?thesis using l e by (auto simp: looping_def executed_def on_track_def)
qed

lemma t_run_stage:
  assumes ds: "definitions = xs @ d # ys" and forced: "F = set forced"
  shows "triple (\<lambda>w. holds (looping F b (set (map sd_stage_id xs))) w \<and> (snd acc \<longrightarrow> N < w_draws w))
    (run_stage env cb forced d acc)
    (\<lambda>acc w. holds (looping F (b + 1) (set (map sd_stage_id (xs @ [d])))) w \<and> (snd acc \<longrightarrow> N < w_draws w)) failure"
proof (rule triple_pre)
  let ?s = "sd_stage_id d" and ?X = "set (map sd_stage_id xs)"
  let ?Q = "\<lambda>acc w. holds (looping F (b + 1) (set (map sd_stage_id (xs @ [d])))) w \<and> (snd acc \<longrightarrow> N < w_draws w)"
  have X: "set (map sd_stage_id (xs @ [d])) = insert ?s ?X" by simp
  have d: "d \<in> set definitions" using ds by simp
  fix w assume w: "holds (looping F b ?X) w \<and> (snd acc \<longrightarrow> N < w_draws w)"
  let ?\<Phi> = "\<lambda>db p a n. looping F b ?X db p a n \<and> db = w_database w \<and> n = w_draws w"
  have phi: "sound db p a n" if "?\<Phi> db p a n" for db p a n using that looping_sound by blast
  have hold: "holds ?\<Phi> w" using w by (simp add: holds_def)
  have l: "looping F b ?X (w_database w) (w_published w) (w_attempts w) (w_draws w)" using hold by (simp add: holds_def)
  note g = looping_sound [OF l]
  obtain row where row: "map_of (db_stage (w_database w)) ?s = Some row"
    using stage_row_sound [OF g, of ?s] d by auto
  have rok: "row_ok env N (w_database w) (w_published w) (w_draws w) ?s row" by (rule good_row [OF g row])
  have fresh: "?s \<notin> ?X"
    using stages_ordered_distinct [OF ordered] unfolding ds by auto
  have action: "triple (holds ?\<Phi>) (bindS (add_action ?s act detail actions) (\<lambda>actions. ret (actions, stop))) ?Q failure"
    if "\<And>db p a n. ?\<Phi> db p a n \<Longrightarrow> looping F (b + 1) (insert ?s ?X) db p a n" and "stop \<Longrightarrow> N < w_draws w"
    for act detail actions stop
  proof (rule triple_bind [OF t_add_action [where \<Phi> = ?\<Phi>]], goal_cases)
    case (3 actions')
    show ?case by (rule triple_ret) (use that in \<open>auto simp: holds_def X\<close>)
  qed (use d phi in auto)
  have complete: "looping F (b + 1) (insert ?s ?X) db p a n" if "?\<Phi> db p a n" "r_state row = COMPLETE" for db p a n
    using that looping_done [OF _ row] by blast
  have late: "looping F (b + 1) (insert ?s ?X) db p a n" if "?\<Phi> db p a n" "N < w_draws w" for db p a n
    using that looping_late by blast
  have query_row: "triple (holds ?\<Phi>) (query (\<lambda>db. stage_row db ?s)) (\<lambda>r w'. holds ?\<Phi> w' \<and> r = row) failure"
    unfolding query_def by (rule t_read) (use row phi in \<open>auto simp: holds_def stage_row_def\<close>)
  have query_ready: "triple (holds ?\<Phi>) (query (\<lambda>db. dependencies_complete db d))
      (\<lambda>r w'. holds ?\<Phi> w' \<and> r = deps_complete (w_database w) ?s) failure"
    unfolding query_def
    by (rule t_read) (use dependencies_complete_sound [OF g d] phi in \<open>auto simp: holds_def\<close>)
  have ready: "deps_complete (w_database w) ?s" if "\<not> N < w_draws w"
    unfolding deps_complete_iff [OF g d]
  proof
    fix u assume u: "u \<in> set (sd_dependencies d)"
    have "set (sd_dependencies d) \<subseteq> ?X" using ordered unfolding ds by (auto simp: stages_ordered_append)
    then have "u \<in> ?X" using u by blast
    moreover obtain r where "map_of (db_stage (w_database w)) u = Some r"
      using stage_row_sound [OF g dependency_defined [OF d u]] by auto
    ultimately show "complete_in (w_database w) u"
      using l that by (auto simp: looping_def on_track_def complete_in_def)
  qed
  have body: "triple (holds ?\<Phi>) (run_stage env cb forced d acc) ?Q failure" if go: "\<not> snd acc"
    unfolding run_stage_def Let_def if_not_P [OF go]
  proof (rule triple_bind_fact [OF query_row], hypsubst, intro triple_if, goal_cases)
    case 1
    then show ?case by (intro action complete) simp_all
  next
    case 2
    then have "N < w_draws w" using rok by (simp add: row_ok_def)
    then show ?case by (intro action late) simp_all
  next
    case 3
    show ?case
    proof (rule triple_bind_fact [OF query_ready], hypsubst, intro triple_if, goal_cases)
      case 1
      then have "N < w_draws w" using ready by blast
      then show ?case by (intro action late) simp_all
    next
      case 2
      have st: "N < w_draws w \<or> r_state row \<in> set startable"
        using l row rok fresh 3 forced
        by (cases "r_state row") (auto simp: looping_def on_track_def row_ok_def startable_def)
      have exec: "triple (holds ?\<Phi>) (execute_stage env cb d) (\<lambda>_. holds (looping F (b + 1) (insert ?s ?X))) failure"
        by (rule triple_weaken [OF t_execute_stage [OF d, of "w_database w" "w_draws w"]])
          (use 2 st row phi looping_executed [OF l, of d] in \<open>auto simp: holds_def\<close>)
      show ?case
        by (rule triple_bind [OF exec], rule triple_bind [OF t_add_action], erule looping_sound)
          (use d in \<open>auto intro: triple_ret simp: X\<close>)
    qed
  qed
  show "triple (\<lambda>w'. w' = w) (run_stage env cb forced d acc) ?Q failure"
  proof (cases "snd acc")
    case True
    then have "N < w_draws w" using w by blast
    then have "?Q acc w" using True hold late by (simp add: holds_def X)
    then show ?thesis unfolding run_stage_def Let_def if_P [OF True] by (intro triple_ret) simp
  next
    case False
    show ?thesis by (rule triple_weaken [OF body [OF False]]) (use hold in simp_all)
  qed
qed

section \<open>The report\<close>

lemma stage_keys: "sound db p a n \<Longrightarrow> map fst (db_stage db) = map sd_stage_id definitions"
  by (simp add: good_def)

lemma row_defined:
  assumes "sound db p a n" and "map_of (db_stage db) s = Some r"
  shows "s \<in> set (map sd_stage_id definitions)"
proof -
  have "s \<in> set (map fst (db_stage db))" using assms(2) by (force dest: map_of_SomeD)
  then show ?thesis unfolding stage_keys [OF assms(1)] .
qed

lemma row_listed:
  assumes "sound db p a n"
  shows "map_of (db_stage db) s = Some r \<longleftrightarrow> (s, r) \<in> set (db_stage db)"
proof -
  have "distinct (map fst (db_stage db))" unfolding stage_keys [OF assms] by (rule distinct_ids)
  then show ?thesis by (rule map_of_eq_Some_iff)
qed

lemma some_incomplete:
  "list_ex (\<lambda>(s, st). st \<noteq> COMPLETE) xs \<longleftrightarrow> \<not> list_all (\<lambda>(s, st). st = COMPLETE) xs"
  by (induction xs) auto

lemma semantic_sound:
  assumes g: "sound db p a n"
  shows "semantic_sha256 env db =
     (if list_all (\<lambda>(s, st). st = COMPLETE) (stage_states db)
      then bindE (spec_digest env) (\<lambda>h. Inr (Some h)) else Inr None)"
proof (cases "list_all (\<lambda>(s, st). st = COMPLETE) (stage_states db)")
  case True
  have hashes: "artifact_hashes db (fst x) = spec env (fst x)" if "x \<in> set (db_stage db)" for x
  proof -
    have "map_of (db_stage db) (fst x) = Some (snd x)" using that by (simp add: row_listed [OF g])
    moreover have "r_state (snd x) = COMPLETE"
      using True that by (cases x) (auto simp: stage_states_def list_all_iff split: prod.splits)
    ultimately show ?thesis using good_complete [OF g] by (auto simp: complete_in_def)
  qed
  have "map (\<lambda>(s, st). (s, dict_json (artifact_hashes db s))) (stage_states db)
      = map (\<lambda>x. (fst x, dict_json (spec env (fst x)))) (db_stage db)"
    using hashes by (auto simp: stage_states_def comp_def split: prod.splits)
  also have "\<dots> = map (\<lambda>s. (s, dict_json (spec env s))) (map fst (db_stage db))" by simp
  also have "\<dots> = map (\<lambda>d. (sd_stage_id d, dict_json (spec env (sd_stage_id d)))) definitions"
    unfolding stage_keys [OF g] by simp
  finally show ?thesis
    using True by (simp add: semantic_sha256_def spec_digest_def some_incomplete)
next
  case False
  then show ?thesis by (simp add: semantic_sha256_def some_incomplete)
qed

lemma t_report:
  assumes scope: "set scope \<subseteq> set (map sd_stage_id definitions)"
    and phi: "\<And>db p a n. \<Phi> db p a n \<Longrightarrow> sound db p a n"
  shows "triple (holds \<Phi>) (report env actions scope)
    (\<lambda>r w. holds \<Phi> w \<and> faithful env r \<and>
       (rr_complete r \<longleftrightarrow> list_all (\<lambda>(s, st). st = COMPLETE) (stage_states (w_database w)))) failure"
  unfolding report_def
proof (rule triple_lift)
  fix w :: world and r
  let ?db = "w_database w"
  assume w: "holds \<Phi> w" and r: "bindE (run_id_of (en_sha env) (en_inputs env)) (\<lambda>run_id.
     bindE (semantic_sha256 env ?db) (\<lambda>semantic.
     bindE (ensure (is_identifier (ri_workflow_id (en_inputs env)) \<and> is_stable_id run_id
         \<and> list_all is_identifier scope \<and> list_all (is_identifier \<circ> fst) (stage_states ?db)
         \<and> (case semantic of None \<Rightarrow> True | Some h \<Rightarrow> is_sha256 h))
         (ValueError ''validation error for RunExecutionReport'')) (\<lambda>_.
       Inr \<lparr>rr_run_id = run_id, rr_complete = list_all (\<lambda>(s, st). st = COMPLETE) (stage_states ?db),
            rr_forced_scope = scope, rr_actions = actions, rr_stage_states = stage_states ?db,
            rr_semantic_sha256 = semantic, rr_incomplete_attempt_count = length (incomplete_attempts w)\<rparr>))) = Inr r"
  have g: "sound ?db (w_published w) (w_attempts w) (w_draws w)" using w phi by (simp add: holds_def)
  show "holds \<Phi> w \<and> faithful env r \<and> (rr_complete r \<longleftrightarrow> list_all (\<lambda>(s, st). st = COMPLETE) (stage_states ?db))"
    using w r unfolding semantic_sound [OF g] by (auto simp: faithful_def split: if_splits)
next
  fix w :: world and e
  let ?db = "w_database w"
  assume w: "holds \<Phi> w" and e: "bindE (run_id_of (en_sha env) (en_inputs env)) (\<lambda>run_id.
     bindE (semantic_sha256 env ?db) (\<lambda>semantic.
     bindE (ensure (is_identifier (ri_workflow_id (en_inputs env)) \<and> is_stable_id run_id
         \<and> list_all is_identifier scope \<and> list_all (is_identifier \<circ> fst) (stage_states ?db)
         \<and> (case semantic of None \<Rightarrow> True | Some h \<Rightarrow> is_sha256 h))
         (ValueError ''validation error for RunExecutionReport'')) (\<lambda>_.
       Inr \<lparr>rr_run_id = run_id, rr_complete = list_all (\<lambda>(s, st). st = COMPLETE) (stage_states ?db),
            rr_forced_scope = scope, rr_actions = actions, rr_stage_states = stage_states ?db,
            rr_semantic_sha256 = semantic, rr_incomplete_attempt_count = length (incomplete_attempts w)\<rparr>))) = Inl e"
  have g: "sound ?db (w_published w) (w_attempts w) (w_draws w)" using w phi by (simp add: holds_def)
  show "failure w"
  proof (rule failureI [OF w phi])
    assume sm: "smooth env N cb"
    have ids: "\<forall>s \<in> set (map sd_stage_id definitions). is_identifier s"
      using smooth_stageD [OF sm] by (auto simp: smooth_stage_def)
    have "map fst (stage_states ?db) = map sd_stage_id definitions"
      using g by (simp add: stage_states_def good_def comp_def case_prod_beta')
    then have "list_all (is_identifier \<circ> fst) (stage_states ?db)"
      using ids unfolding list.pred_map [symmetric] by (simp add: list_all_iff)
    moreover have "list_all is_identifier scope" using ids scope by (auto simp: list_all_iff)
    moreover obtain h where h: "spec_digest env = Inr h" using sm by (auto simp: smooth_def)
    moreover have "is_sha256 h" using sm h by (auto simp: smooth_def spec_digest_def canonical_sha256_eq)
    moreover obtain i where "run_id_of (en_sha env) (en_inputs env) = Inr i" "is_stable_id i"
      using sm by (auto simp: smooth_def)
    moreover have "is_identifier (ri_workflow_id (en_inputs env))" using sm by (simp add: smooth_def)
    ultimately show False
      using e unfolding semantic_sound [OF g] by (simp split: if_splits)
  qed
qed

section \<open>The run\<close>

lemma t_start:
  "triple (holds (\<lambda>db p a n. sound db p a n \<and> n \<le> b)) (reconcile env) (\<lambda>_. holds (looping {} b {})) failure"
proof (rule triple_pre)
  fix w assume w: "holds (\<lambda>db p a n. sound db p a n \<and> n \<le> b) w"
  have looping: "looping {} b {} db p a n" if "reconciled (set (map sd_stage_id definitions)) db p a n" "n \<le> b" for db p a n
  proof -
    have g: "sound db p a n" by (rule reconciled_sound [OF that(1)])
    have "r_state r \<noteq> RUNNING" if r: "map_of (db_stage db) s = Some r" and "\<not> N < n" for s r
      using reconciled_settled [OF \<open>reconciled (set (map sd_stage_id definitions)) db p a n\<close> row_defined [OF g r]] that
      by (simp add: settled_def)
    then show ?thesis using that g by (simp add: looping_def on_track_def) blast
  qed
  have "triple (\<lambda>w'. holds sound w' \<and> artifacts w' = artifacts w) (reconcile env)
      (\<lambda>_ w'. holds (reconciled (set (map sd_stage_id definitions))) w' \<and> artifacts w' = artifacts w)
      (\<lambda>w'. failure w' \<and> artifacts w' = artifacts w)"
    by (rule triple_conj [OF t_reconcile keeps_triple [OF reconcile_keeps_artifacts]])
  then show "triple (\<lambda>w'. w' = w) (reconcile env) (\<lambda>_. holds (looping {} b {})) failure"
    by (rule triple_weaken) (use w looping in \<open>auto simp: holds_def artifacts_def\<close>)
qed

lemma t_force_invalidate:
  assumes scope: "dependency_closure definitions s = Inr scope"
  shows "triple (holds (looping {} b {})) (force_invalidate scope actions) (\<lambda>_. holds (looping (set scope) b {})) failure"
  unfolding force_invalidate_def
proof (rule triple_bind [OF t_database [where \<Psi> = "looping (set scope) b {}"]], goal_cases)
  case (2 db p a n db')
  have g: "sound db p a n" by (rule looping_sound [OF 2(1)])
  have closed: "t \<in> set scope" if "(t, u) \<in> set (db_dependency db)" "u \<in> set scope" for t u
    using dependency_closure_closed [OF scope _ that(2)] that(1) g by (simp add: good_def)
  have inv: "sound db' p a n" by (rule good_invalidate(1) [OF g 2(2) closed])
  have out: "map_of (db_stage db') u = map_of (db_stage db) u" if "u \<notin> set scope" for u
    by (rule good_invalidate(2) [OF g 2(2) closed that])
  have inside: "r_state r = INVALIDATED" if "u \<in> set scope" "map_of (db_stage db') u = Some r" for u r
    by (rule good_invalidate(3) [OF g 2(2) closed that])
  have "r_state r \<noteq> RUNNING \<and> (u \<in> set scope \<longrightarrow> r_state r \<noteq> COMPLETE)"
    if "map_of (db_stage db') u = Some r" "\<not> N < n" for u r
  proof (cases "u \<in> set scope")
    case True
    then show ?thesis using inside that(1) by simp
  next
    case False
    then show ?thesis using 2(1) out that by (auto simp: looping_def on_track_def)
  qed
  then show ?case using inv 2(1) by (auto simp: looping_def on_track_def)
next
  case (3 db p a n e)
  have "set scope \<subseteq> set (map fst (db_stage db))"
    using dependency_closure_set(1) [OF scope] looping_sound [OF 3(1)] by (auto simp: good_def)
  from invalidate_ok [OF this, of True] show ?case using 3(2) by auto
next
  case (4 u)
  have "set scope \<subseteq> set (map sd_stage_id definitions)" using dependency_closure_set(1) [OF scope] by blast
  then show ?case
    by (intro triple_fold [where I = "\<lambda>_. holds (looping (set scope) b {})"] t_add_action looping_sound) auto
qed (rule looping_sound)

lemma t_loop:
  "triple (\<lambda>w. holds (looping (set forced) b {}) w) (foldS (run_stage env cb forced) definitions (actions, False))
     (\<lambda>acc. holds (looping (set forced) (b + length definitions) (set (map sd_stage_id definitions)))) failure"
proof -
  define I where "I = (\<lambda>(xs :: stage_definition list) (acc :: action_record list \<times> bool) w.
      holds (looping (set forced) (b + length xs) (set (map sd_stage_id xs))) w \<and> (snd acc \<longrightarrow> N < w_draws w))"
  have "triple (I [] (actions, False)) (foldS (run_stage env cb forced) definitions (actions, False)) (I definitions) failure"
  proof (rule triple_fold_prefix)
    fix xs x ys acc assume "definitions = xs @ x # ys"
    from t_run_stage [OF this refl, of forced "b + length xs" acc]
    show "triple (I xs acc) (run_stage env cb forced x acc) (I (xs @ [x])) failure" by (simp add: I_def)
  qed
  then show ?thesis by (rule triple_weaken) (simp_all add: I_def)
qed

lemma looping_complete:
  assumes "looping F b (set (map sd_stage_id definitions)) db p a n" and "n \<le> N"
  shows "list_all (\<lambda>(s, st). st = COMPLETE) (stage_states db)"
proof -
  have g: "sound db p a n" by (rule looping_sound [OF assms(1)])
  have "r_state r = COMPLETE" if "(s, r) \<in> set (db_stage db)" for s r
  proof -
    have r: "map_of (db_stage db) s = Some r" using that by (simp add: row_listed [OF g])
    then show ?thesis using assms row_defined [OF g r] by (auto simp: looping_def on_track_def)
  qed
  then show ?thesis by (auto simp: stage_states_def list_all_iff)
qed

lemma dependency_closure_known:
  "s \<in> set (map sd_stage_id definitions) \<Longrightarrow> \<exists>scope. dependency_closure definitions s = Inr scope"
  by (simp add: dependency_closure_def)

lemma t_run:
  assumes force: "\<And>s. smooth env N cb \<Longrightarrow> force_stage = Some s \<Longrightarrow> s \<in> set (map sd_stage_id definitions)"
  shows "triple (holds (\<lambda>db p a n. sound db p a n \<and> n \<le> b)) (run env force_stage False cb)
     (\<lambda>r w. holds sound w \<and> w_draws w \<le> b + length definitions \<and> faithful env r \<and> (w_draws w \<le> N \<longrightarrow> rr_complete r)) failure"
    (is "triple (holds ?\<Phi>) _ ?Q _")
proof -
  let ?scope = "case force_stage of None \<Rightarrow> Inr [] | Some s \<Rightarrow> dependency_closure definitions s"
  have scope: "triple (holds ?\<Phi>) (liftS (\<lambda>_. ?scope)) (\<lambda>x w. holds ?\<Phi> w \<and> ?scope = Inr x) failure"
  proof (rule t_lift, goal_cases)
    case (3 e w)
    then show ?case using dependency_closure_known [OF force] by (cases force_stage) fastforce+
  qed blast+
  have rest: "triple (holds ?\<Phi>) (bindS (reconcile env) (\<lambda>actions.
        bindS (if force_stage = None then ret actions else force_invalidate scope actions) (\<lambda>actions.
        bindS (foldS (run_stage env cb scope) definitions (actions, False)) (\<lambda>(actions, _).
        bindS (export_run_artifact env) (\<lambda>_. report env actions scope))))) ?Q failure"
    if sc: "?scope = Inr scope" for scope
  proof -
    have sub: "set scope \<subseteq> set (map sd_stage_id definitions)"
      using sc dependency_closure_set(1) by (cases force_stage) fastforce+
    have forced: "triple (holds (looping {} b {})) (if force_stage = None then ret actions else force_invalidate scope actions)
        (\<lambda>_. holds (looping (set scope) b {})) failure" for actions
    proof (cases force_stage)
      case None
      then show ?thesis using sc by (auto intro: triple_ret)
    next
      case (Some s)
      then show ?thesis using sc t_force_invalidate [of s scope] by simp
    qed
    have report: "triple (holds (looping (set scope) (b + length definitions) (set (map sd_stage_id definitions))))
       (report env actions scope) ?Q failure" for actions
    proof (rule triple_weaken [OF t_report [OF sub, of "looping (set scope) (b + length definitions)
          (set (map sd_stage_id definitions))"]], erule looping_sound, assumption, goal_cases)
      case (1 r w)
      then show ?case using looping_complete [of "set scope" "b + length definitions" "w_database w"]
        by (auto simp: holds_def looping_def)
    qed
    show ?thesis
    proof (rule triple_bind [OF t_start triple_bind [OF forced]], rule triple_bind [OF t_loop], goal_cases)
      case (1 x actions acc)
      show ?case
        by (cases acc, simp only: case_prod_conv, rule triple_bind [OF t_export report]) (rule looping_sound)
    qed
  qed
  show ?thesis
    unfolding run_def simp_thms if_False
    by (rule triple_bind_fact [OF scope]) (rule rest)
qed

text \<open>A dry run reads only.\<close>

lemma t_dry_run:
  "triple (holds sound) (run env force_stage True cb) (\<lambda>r w. holds sound w \<and> faithful env r) (holds sound)"
proof (cases force_stage)
  case None
  then show ?thesis by (simp add: run_def triple_def liftS_def)
next
  case (Some s)
  have report: "triple (\<lambda>w. holds sound w \<and> dependency_closure definitions s = Inr scope) (report env [] scope)
      (\<lambda>r w. holds sound w \<and> faithful env r) (holds sound)" for scope
  proof (rule triple_fact, rule triple_weaken [OF t_report [where \<Phi> = sound]])
    assume "dependency_closure definitions s = Inr scope"
    then show "set scope \<subseteq> set (map sd_stage_id definitions)" using dependency_closure_set(1) by blast
  qed (auto simp: fails_def)
  show ?thesis
    by (simp add: run_def Some, rule triple_bind [OF triple_lift report]) simp_all
qed

text \<open>Whatever the arguments and the callback, a run keeps the invariant and its report is faithful.\<close>

lemma t_run_sound:
  "triple (holds sound) (run env force_stage dry_run cb) (\<lambda>r w. holds sound w \<and> faithful env r) (holds sound)"
proof (cases dry_run)
  case True
  then show ?thesis using t_dry_run by simp
next
  case False
  then have dry: "dry_run = False" by simp
  show ?thesis
  proof (cases "\<exists>s. force_stage = Some s \<and> s \<notin> set (map sd_stage_id definitions)")
    case True
    then obtain s where "force_stage = Some s" "s \<notin> set (map sd_stage_id definitions)" by blast
    then show ?thesis
      using False by (simp add: run_def dependency_closure_def triple_def bindS_def liftS_def)
  next
    case known: False
    show ?thesis
    proof (rule triple_pre)
      fix w assume w: "holds sound w"
      show "triple (\<lambda>w'. w' = w) (run env force_stage dry_run cb) (\<lambda>r w. holds sound w \<and> faithful env r) (holds sound)"
        unfolding dry
        by (rule triple_weaken [OF t_run [of force_stage "w_draws w"]])
          (use w known in \<open>auto simp: holds_def fails_def\<close>)
    qed
  qed
qed

end

end
