(* ===== verification/RunReach.thy ===== *)
theory RunReach
  imports RunLoop
begin

text \<open>
  Histories of a run root.  \<open>reachable env w\<close> says that \<open>w\<close> is the state on disk after
  some sequence of creations, invocations and deaths of the process, each invocation with any
  force-stage, any dry-run flag and any behaviour of the crash callback.  Every reachable world
  satisfies the invariant, so every report is that of the ideal run or incomplete, and in a smooth
  environment one uninterrupted invocation completes the run.
\<close>

section \<open>Histories\<close>

text \<open>The inputs are recorded in canonical form: reading the document gives them back.\<close>

definition recorded :: "env \<Rightarrow> bool" where
  "recorded env \<longleftrightarrow>
     (case canonical_document (run_inputs_dump (en_inputs env)) of
        Inl _ \<Rightarrow> False
      | Inr document \<Rightarrow> load_run_inputs (en_sha env) (RegularFile document) = Inr (en_inputs env))"

inductive reachable :: "env \<Rightarrow> world \<Rightarrow> bool" for env where
  created: "create_run env None = (Done (), Some w) \<Longrightarrow> reachable env w"
| closed: "reachable env w \<Longrightarrow> reachable env (w\<lparr>w_locked := False\<rparr>)"
| ran: "reachable env w \<Longrightarrow> run env force_stage dry_run cb w = (r, w') \<Longrightarrow> reachable env w'"
| invoked: "reachable env w \<Longrightarrow> run_session env force_stage dry_run cb w = (r, w') \<Longrightarrow> reachable env w'"

section \<open>The invariant of a history\<close>

definition document_of :: "env \<Rightarrow> string" where
  "document_of env = dumps (run_inputs_dump (en_inputs env)) @ [CHR 0x0A]"

lemma recordedD:
  "recorded env \<Longrightarrow> canonical_document (run_inputs_dump (en_inputs env)) = Inr (document_of env) \<and>
     load_run_inputs (en_sha env) (RegularFile (document_of env)) = Inr (en_inputs env)"
  by (auto simp: recorded_def document_of_def canonical_document_eq split: sum.splits)

definition settled_root :: "env \<Rightarrow> nat \<Rightarrow> world \<Rightarrow> bool" where
  "settled_root env N w \<longleftrightarrow> holds (good env N) w \<and> w_inputs w = RegularFile (document_of env) \<and>
     expected_meta (en_sha env) (en_inputs env) (en_definitions env) = Inr (db_meta (w_database w))"

lemma settled_root_unlock: "settled_root env N (w\<lparr>w_locked := l\<rparr>) = settled_root env N w"
  by (simp add: settled_root_def holds_def tidy_def)

context run_environment
begin

lemma good_fresh:
  "good env N \<lparr>db_meta = meta, db_stage = map (\<lambda>d. (sd_stage_id d, pending_row)) definitions,
      db_dependency = dependency_pairs definitions, db_attempt = [], db_artifact = []\<rparr> (\<lambda>_. None) [] 0"
proof -
  have "map_of (map (\<lambda>d. (sd_stage_id d, pending_row)) ds) s = Some row \<Longrightarrow> row = pending_row" for ds s row
    by (induction ds) (auto split: if_splits)
  then have "row_ok env N db (\<lambda>_. None) 0 s row"
    if "map_of (map (\<lambda>d. (sd_stage_id d, pending_row)) definitions) s = Some row" for db s row
    using that by (fastforce simp: row_ok_def pending_row_def)
  then show ?thesis
    using db_ok_fresh [OF ordered, of meta] unfolding good_def by (simp add: comp_def)
qed

lemma open_engine_again:
  assumes "settled_root env N w" and "\<not> w_locked w"
  shows "open_engine env w = (Done (), w\<lparr>w_locked := True\<rparr>)"
  using assms initialize_again [of "en_sha env" "en_inputs env" definitions]
  by (simp add: open_engine_def modifyS_def definitions_valid settled_root_def)

lemma open_engine_locked: "w_locked w \<Longrightarrow> \<exists>e. open_engine env w = (Raised e, w)"
  by (simp add: open_engine_def modifyS_def definitions_valid)

lemma created_settled:
  assumes r: "recorded env" and c: "create_run env None = (Done (), Some w)"
  shows "settled_root env N w"
proof -
  let ?new = "new_root (RegularFile (document_of env))"
  have b: "bindS (open_engine env) (\<lambda>_. cleanup (export_run_artifact env) close_engine) ?new = (Done (), w)"
    using c recordedD [OF r] by (simp add: create_run_def split: prod.splits)
  obtain w1 where o: "open_engine env ?new = (Done (), w1)"
    and x: "cleanup (export_run_artifact env) close_engine w1 = (Done (), w)"
    using b by (cases rule: outcome_exhaust [of "open_engine env ?new"]) (simp_all add: bindS_def)
  obtain meta where meta: "expected_meta (en_sha env) (en_inputs env) definitions = Inr meta"
    using o by (auto simp: open_engine_def modifyS_def definitions_valid new_root_def initialize_database_def
        empty_database_def bindE_def split: sum.splits)
  let ?db = "\<lparr>db_meta = meta, db_stage = map (\<lambda>d. (sd_stage_id d, pending_row)) definitions,
      db_dependency = dependency_pairs definitions, db_attempt = [], db_artifact = []\<rparr>"
  have w1: "w1 = ?new\<lparr>w_locked := True, w_database := ?db\<rparr>"
    using o initialize_fresh [OF definitions_valid meta]
    by (simp add: open_engine_def modifyS_def definitions_valid new_root_def)
  have "export_run_artifact env w1 = (Done (), w)"
    using x by (cases rule: outcome_exhaust [of "export_run_artifact env w1"])
      (simp_all add: cleanup_def close_engine_def)
  then obtain doc where "w = w1\<lparr>w_run_artifact := RegularFile doc\<rparr>"
    by (auto simp: export_run_artifact_def modifyS_def w1 new_root_def split: sum.splits if_splits)
  then show ?thesis
    using good_fresh [of N meta] meta
    by (simp add: w1 new_root_def settled_root_def holds_def tidy_def plain_def)
qed

lemma ran_settled:
  assumes fits: "fits env N" and s: "settled_root env N w" and r: "run env force_stage dry_run cb w = (r, w')"
  shows "settled_root env N w'" and "\<And>x. r = Done x \<Longrightarrow> faithful env x"
proof -
  have es: "engine_steps env N"
    by (intro engine_steps.intro engine_steps_axioms.intro run_environment_axioms fits)
  have h: "holds (good env N) w" using s by (simp add: settled_root_def)
  have m: "meets (\<lambda>r w. holds (good env N) w \<and> faithful env r) (holds (good env N)) (r, w')"
    using tripleD [OF engine_steps.t_run_sound [OF es] h] r by metis
  then have "holds (good env N) w'" by (cases r) simp_all
  moreover have "provenance w' = provenance w" by (rule keepsD [OF run_keeps_provenance r])
  ultimately show "settled_root env N w'" using s by (simp add: settled_root_def provenance_def)
  show "faithful env x" if "r = Done x" for x using m that by simp
qed

text \<open>An invocation either finds the root locked, or opens it, runs and releases the lock.\<close>

lemma session_cases:
  assumes r: "recorded env" and s: "settled_root env N w"
  obtains e where "w_locked w" and "run_session env force_stage dry_run cb w = (Raised e, w)"
  | "\<not> w_locked w" and "run_session env force_stage dry_run cb w =
       release (run env force_stage dry_run cb) (w\<lparr>w_locked := True\<rparr>)"
proof -
  have load: "load_run_inputs (en_sha env) (w_inputs w) = Inr (en_inputs env)"
    using recordedD [OF r] s by (simp add: settled_root_def)
  have env: "env\<lparr>en_inputs := en_inputs env\<rparr> = env" by simp
  show thesis
  proof (cases "w_locked w")
    case True
    then obtain e where "open_engine env w = (Raised e, w)" using open_engine_locked by blast
    then show thesis
      using that(1) [OF True] by (simp add: run_session_def bindS_def liftS_def load Let_def env)
  next
    case False
    show thesis
      using that(2) [OF False] open_engine_again [OF s False]
      by (simp add: run_session_def bindS_def liftS_def load Let_def env)
  qed
qed

lemma invoked_settled:
  assumes rec: "recorded env" and fits: "fits env N" and s: "settled_root env N w"
    and r: "run_session env force_stage dry_run cb w = (r, w')"
  shows "settled_root env N w'" and "\<And>x. r = Done x \<Longrightarrow> faithful env x"
proof -
  have "settled_root env N w' \<and> (\<forall>x. r = Done x \<longrightarrow> faithful env x)"
  proof (rule session_cases [OF rec s])
    fix e assume "run_session env force_stage dry_run cb w = (Raised e, w)"
    then show ?thesis using r s by simp
  next
    assume "run_session env force_stage dry_run cb w =
       release (run env force_stage dry_run cb) (w\<lparr>w_locked := True\<rparr>)"
    then obtain w1 where run: "run env force_stage dry_run cb (w\<lparr>w_locked := True\<rparr>) = (r, w1)"
      and w': "w' = w1\<lparr>w_locked := False\<rparr>"
      using r by (auto simp: release_def split: prod.splits)
    have "settled_root env N (w\<lparr>w_locked := True\<rparr>)" using s by (simp add: settled_root_unlock)
    then show ?thesis using ran_settled [OF fits _ run] unfolding w' settled_root_unlock by blast
  qed
  then show "settled_root env N w'" and "\<And>x. r = Done x \<Longrightarrow> faithful env x" by blast+
qed

lemma reachable_settled:
  assumes "recorded env" and "fits env N"
  shows "reachable env w \<Longrightarrow> settled_root env N w"
proof (induction rule: reachable.induct)
  case (created w)
  then show ?case by (rule created_settled [OF assms(1)])
next
  case (closed w)
  then show ?case by (simp add: settled_root_unlock)
next
  case (ran w force_stage dry_run cb r w')
  then show ?case using ran_settled(1) [OF assms(2)] by blast
next
  case (invoked w force_stage dry_run cb r w')
  then show ?case using invoked_settled(1) [OF assms] by blast
qed

text \<open>One uninterrupted run, and so one uninterrupted invocation, completes.\<close>

lemma run_completes:
  assumes fits: "fits env N" and s: "settled_root env N w"
    and sm: "smooth env N cb" and room: "w_draws w + length definitions \<le> N"
    and force: "\<And>s. force_stage = Some s \<Longrightarrow> s \<in> set (map sd_stage_id definitions)"
  shows "\<exists>x w'. run env force_stage False cb w = (Done x, w') \<and> rr_complete x \<and> faithful env x \<and>
    w_draws w' \<le> w_draws w + length definitions"
proof -
  have es: "engine_steps env N"
    by (intro engine_steps.intro engine_steps_axioms.intro run_environment_axioms fits)
  let ?b = "w_draws w"
  have h: "holds (\<lambda>db p a n. good env N db p a n \<and> n \<le> ?b) w"
    using s by (simp add: settled_root_def holds_def)
  obtain r w1 where run: "run env force_stage False cb w = (r, w1)" by (cases "run env force_stage False cb w")
  have m: "meets (\<lambda>r w. holds (good env N) w \<and> w_draws w \<le> ?b + length definitions \<and> faithful env r \<and>
      (w_draws w \<le> N \<longrightarrow> rr_complete r)) (fails env N cb) (r, w1)"
  proof -
    have t: "triple (holds (\<lambda>db p a n. good env N db p a n \<and> n \<le> ?b)) (run env force_stage False cb)
      (\<lambda>r w. holds (good env N) w \<and> w_draws w \<le> ?b + length definitions \<and> faithful env r \<and>
        (w_draws w \<le> N \<longrightarrow> rr_complete r)) (fails env N cb)"
      by (rule engine_steps.t_run [OF es]) (rule force)
    show ?thesis using tripleD [OF t h] unfolding run .
  qed
  have "w_draws (snd (run env force_stage False cb w)) \<le> w_draws w + length definitions"
    using costs_run [of env force_stage False cb] unfolding costs_def by blast
  then have draws: "w_draws w1 \<le> ?b + length definitions" by (simp add: run)
  then have "\<not> fails env N cb w1" using sm room by (simp add: fails_def)
  then show ?thesis using m draws room run by (cases r) auto
qed

lemma session_completes:
  assumes rec: "recorded env" and fits: "fits env N" and s: "settled_root env N w" and unlocked: "\<not> w_locked w"
    and sm: "smooth env N cb" and room: "w_draws w + length definitions \<le> N"
    and force: "\<And>s. force_stage = Some s \<Longrightarrow> s \<in> set (map sd_stage_id definitions)"
  shows "\<exists>x w'. run_session env force_stage False cb w = (Done x, w') \<and> rr_complete x \<and> faithful env x \<and>
    settled_root env N w' \<and> w_draws w' \<le> w_draws w + length definitions"
proof -
  let ?w = "w\<lparr>w_locked := True\<rparr>"
  obtain x w1 where run: "run env force_stage False cb ?w = (Done x, w1)" "rr_complete x" "faithful env x"
      "w_draws w1 \<le> w_draws w + length definitions"
    using run_completes [OF fits _ sm, of ?w force_stage] force room s by (auto simp: settled_root_unlock)
  have session: "run_session env force_stage False cb w = (Done x, w1\<lparr>w_locked := False\<rparr>)"
  proof (rule session_cases [OF rec s, of force_stage False cb])
    fix e assume "w_locked w"
    then show ?thesis using unlocked by blast
  qed (simp add: release_def run)
  then have "settled_root env N (w1\<lparr>w_locked := False\<rparr>)" by (rule invoked_settled(1) [OF rec fits s])
  then show ?thesis using session run by auto
qed

text \<open>A root is created whenever its database and its first export can be written.\<close>

lemma create_succeeds:
  assumes rec: "recorded env" and sm: "smooth env N cb"
    and meta: "expected_meta (en_sha env) (en_inputs env) definitions = Inr meta"
  shows "\<exists>w. create_run env None = (Done (), Some w) \<and> settled_root env N w \<and> w_draws w = 0"
proof -
  let ?new = "new_root (RegularFile (document_of env))"
  let ?db = "\<lparr>db_meta = meta, db_stage = map (\<lambda>d. (sd_stage_id d, pending_row)) definitions,
      db_dependency = dependency_pairs definitions, db_attempt = [], db_artifact = []\<rparr>"
  obtain doc where doc: "run_document_bytes (en_sha env) (en_native env) (en_inputs env) definitions ?db = Inr doc"
    using sm good_fresh [of N meta] unfolding smooth_def by blast
  let ?w = "?new\<lparr>w_locked := True, w_database := ?db, w_run_artifact := RegularFile doc\<rparr>"
  have "open_engine env ?new = (Done (), ?new\<lparr>w_locked := True, w_database := ?db\<rparr>)"
    using initialize_fresh [OF definitions_valid meta]
    by (simp add: open_engine_def modifyS_def definitions_valid new_root_def)
  then have c: "create_run env None = (Done (), Some ?w)"
    using recordedD [OF rec] doc
    by (simp add: create_run_def bindS_def cleanup_def export_run_artifact_def modifyS_def close_engine_def new_root_def)
  then show ?thesis using created_settled [OF rec c] by (auto simp: new_root_def)
qed

end

end
