(* ===== verification/RunExport.thy ===== *)
theory RunExport
  imports RunReach
begin

text \<open>
  Exporting the run document succeeds.  The document of a run is read back as it was written, with
  its dictionaries in key order (\<open>run_round_trip\<close>); the length of a written document is
  bounded by the weight of its value; so, when the native canonicaliser gives a canonical document
  back unchanged and the environment is portable, every state of the engine exports.
\<close>

section \<open>The length of a written document\<close>

fun json_weight :: "json \<Rightarrow> nat" where
  "json_weight JNull = 4"
| "json_weight (JBool b) = 5"
| "json_weight (JInt i) = length (show_int i)"
| "json_weight (JFloat s) = length s"
| "json_weight (JStr s) = 6 * length s + 2"
| "json_weight (JList vs) = 2 + sum_list (map (\<lambda>v. json_weight v + 1) vs)"
| "json_weight (JDict kvs) = 2 + sum_list (map (\<lambda>(k, v). 6 * length k + json_weight v + 4) kvs)"

lemma length_esc_char: "length (esc_char c) \<le> 6"
  by (simp add: esc_char_def Let_def)

lemma length_dump_str: "length (dump_str s) \<le> 6 * length s + 2"
proof -
  have "length (concat (map esc_char s)) \<le> 6 * length s"
  proof (induction s)
    case (Cons c s)
    then show ?case using length_esc_char [of c] by simp
  qed simp
  then show ?thesis by (simp add: dump_str_def)
qed

lemma length_join_with: "length (join_with [c] ps) \<le> sum_list (map (\<lambda>p. length p + 1) ps)"
proof (induction ps)
  case (Cons p ps)
  then show ?case by (cases ps) simp_all
qed simp

lemma sum_list_le: "(\<And>x. x \<in> set xs \<Longrightarrow> f x \<le> (c::nat)) \<Longrightarrow> sum_list (map f xs) \<le> length xs * c"
  by (induction xs) (auto intro: add_mono)

lemma sum_list_sort_key: "sum_list (map f (sort_key g xs)) = (sum_list (map f xs) :: nat)"
proof -
  have "mset (map f (sort_key g xs)) = mset (map f xs)" by simp
  then show ?thesis using sum_mset_sum_list by metis
qed

lemma length_dumps: "length (dumps v) \<le> json_weight v"
proof (induction v)
  case (JStr s)
  show ?case using length_dump_str [of s] by simp
next
  case (JList vs)
  have "sum_list (map (\<lambda>v. length (dumps v) + 1) vs) \<le> sum_list (map (\<lambda>v. json_weight v + 1) vs)"
    by (rule sum_list_mono) (simp add: JList.IH)
  then show ?case using length_join_with [of "CHR '',''" "map dumps vs"] by (simp add: comp_def)
next
  case (JDict kvs)
  let ?member = "\<lambda>(k, v). dump_str k @ '':'' @ dumps v"
  have "length (?member kv) + 1 \<le> (case kv of (k, v) \<Rightarrow> 6 * length k + json_weight v + 4)" if "kv \<in> set kvs" for kv
  proof -
    obtain k v where kv: "kv = (k, v)" by (cases kv)
    have "length (dumps v) \<le> json_weight v" using JDict.IH [of kv v] that kv by simp
    then show ?thesis using length_dump_str [of k] by (simp add: kv)
  qed
  then have "sum_list (map (\<lambda>kv. length (?member kv) + 1) kvs)
      \<le> sum_list (map (\<lambda>(k, v). 6 * length k + json_weight v + 4) kvs)"
    by (intro sum_list_mono) simp
  moreover have "sum_list (map (\<lambda>kv. length (?member kv) + 1) (sort_key fst kvs))
      = sum_list (map (\<lambda>kv. length (?member kv) + 1) kvs)" by (rule sum_list_sort_key)
  ultimately show ?case
    using length_join_with [of "CHR '',''" "map ?member (sort_key fst kvs)"]
    unfolding dumps_dict by (simp add: comp_def)
qed simp_all

lemma length_show_nat: "0 < k \<Longrightarrow> n < 10 ^ k \<Longrightarrow> length (show_nat n) \<le> k"
proof (induction k arbitrary: n)
  case (Suc k)
  show ?case
  proof (cases "n < 10")
    case True
    then show ?thesis by (subst show_nat.simps) simp
  next
    case False
    have k: "0 < k" using Suc.prems(2) False by (cases k) auto
    have "n div 10 < 10 ^ k" using Suc.prems(2) by (simp add: less_mult_imp_div_less mult.commute)
    then have "length (show_nat (n div 10)) \<le> k" using Suc.IH [OF k] by blast
    then show ?thesis using False by (subst show_nat.simps) simp
  qed
qed simp

section \<open>The document is read back\<close>

lemma canon_pairs:
  "canon (JDict (map (\<lambda>(k, x). (k, f x)) kvs)) = JDict (map (\<lambda>(k, x). (k, canon (f x))) (sort_key fst kvs))"
  unfolding canon_dict sort_pairs_map map_map by (simp add: comp_def case_prod_beta')

lemma canon_dict_json [simp]: "canon (dict_json kvs) = dict_json (sort_key fst kvs)"
  unfolding dict_json_def canon_pairs by simp

lemma list_all_sort_key [simp]: "list_all P (sort_key f xs) = list_all P xs"
  by (simp add: list_all_iff)

lemma check_text_map_sort [simp]: "check_text_map (sort_key fst kvs) = check_text_map kvs"
  by (simp add: check_text_map_def)

lemma as_state_name [simp]: "as_state (JStr (state_name s)) = Inr s"
  by (cases s) (simp_all add: as_state_def all_states_def state_name_def)

lemma as_option_json:
  "(case a of None \<Rightarrow> True | Some i \<Rightarrow> P i) \<Longrightarrow> as_option (as_text P) (option_json a) = Inr a"
  by (cases a) (simp_all add: as_option_def option_json_def as_text_def)

lemma canon_option_json [simp]: "canon (option_json a) = option_json a"
  by (cases a) (simp_all add: option_json_def)

text \<open>The fields of a document after its keys were sorted.\<close>

lemma as_object_fields:
  assumes "distinct (map fst kvs)" and "set (map fst kvs) \<subseteq> set names"
  shows "\<exists>d. as_object names (canon (JDict kvs)) = Inr d \<and> (\<forall>k. map_of d k = map_option canon (map_of kvs k))"
proof -
  let ?d = "map (\<lambda>(k, v). (k, canon v)) (sort_key fst kvs)"
  have "set (map fst ?d) = set (map fst kvs)" by (force simp: image_iff)
  then have "as_object names (canon (JDict kvs)) = Inr ?d"
    unfolding canon_dict using assms(2) by (simp only: as_object_JDict)
  then show ?thesis by (simp add: map_of_canon map_of_sort_key_fst [OF assms(1)])
qed

lemma reference_round_trip:
  assumes "check_reference r"
  shows "reference_validate (canon (reference_dump r)) = Inr r"
proof -
  have "\<exists>d. as_object [''source_key'', ''sha256'', ''byte_count'', ''media_type''] (canon (reference_dump r)) = Inr d \<and>
    (\<forall>k. map_of d k = map_option canon (map_of [(''source_key'', JStr (ar_source_key r)),
      (''sha256'', JStr (ar_sha256 r)), (''byte_count'', JInt (int (ar_byte_count r))),
      (''media_type'', JStr (ar_media_type r))] k))"
    unfolding reference_dump_def by (rule as_object_fields) simp_all
  then obtain d where d: "as_object [''source_key'', ''sha256'', ''byte_count'', ''media_type'']
      (canon (reference_dump r)) = Inr d"
    and f: "\<And>k. map_of d k = map_option canon (map_of [(''source_key'', JStr (ar_source_key r)),
      (''sha256'', JStr (ar_sha256 r)), (''byte_count'', JInt (int (ar_byte_count r))),
      (''media_type'', JStr (ar_media_type r))] k)"
    by blast
  show ?thesis
    using assms by (simp add: reference_validate_def d field_def f check_reference_def as_text_def)
qed

definition sorted_record :: "stage_record \<Rightarrow> stage_record" where
  "sorted_record x = x\<lparr>sr_output_hashes := sort_key fst (sr_output_hashes x)\<rparr>"

lemma stage_record_round_trip:
  assumes "check_stage_record x"
  shows "stage_record_validate (canon (stage_record_dump x)) = Inr (sorted_record x)"
proof -
  have "\<exists>d. as_object [''state'', ''attempt_id'', ''output_hashes''] (canon (stage_record_dump x)) = Inr d \<and>
    (\<forall>k. map_of d k = map_option canon (map_of [(''state'', JStr (state_name (sr_state x))),
      (''attempt_id'', option_json (sr_attempt_id x)), (''output_hashes'', dict_json (sr_output_hashes x))] k))"
    unfolding stage_record_dump_def by (rule as_object_fields) simp_all
  then obtain d where d: "as_object [''state'', ''attempt_id'', ''output_hashes''] (canon (stage_record_dump x)) = Inr d"
    and f: "\<And>k. map_of d k = map_option canon (map_of [(''state'', JStr (state_name (sr_state x))),
      (''attempt_id'', option_json (sr_attempt_id x)), (''output_hashes'', dict_json (sr_output_hashes x))] k)"
    by blast
  have "as_text_map is_identifier is_sha256 (dict_json (sort_key fst (sr_output_hashes x)))
      = Inr (sort_key fst (sr_output_hashes x))"
    by (rule as_text_map_dict) (use assms in \<open>simp add: check_stage_record_def check_text_map_def\<close>)
  then show ?thesis
    using assms by (simp add: stage_record_validate_def d field_def f check_stage_record_def as_option_json
        sorted_record_def)
qed

definition sorted_run :: "run_document \<Rightarrow> run_document" where
  "sorted_run r = r\<lparr>rd_configuration_hashes := sort_key fst (rd_configuration_hashes r),
     rd_stages := map (\<lambda>(s, x). (s, sorted_record x)) (sort_key fst (rd_stages r))\<rparr>"

lemma as_map_stages:
  assumes "list_all (\<lambda>(s, x). is_identifier s \<and> check_stage_record x) stages"
  shows "as_map stage_record_validate (JDict (map (\<lambda>(s, x). (s, canon (stage_record_dump x))) stages))
     = Inr (map (\<lambda>(s, x). (s, sorted_record x)) stages)"
  using assms
  by (induction stages) (auto simp: as_map_def as_text_def stage_record_round_trip)

lemma check_sorted_record [simp]: "check_stage_record (sorted_record x) = check_stage_record x"
  by (simp add: check_stage_record_def sorted_record_def)

lemma canon_sorted_record: "canon (stage_record_dump (sorted_record x)) = canon (stage_record_dump x)"
  by (simp add: stage_record_dump_def sorted_record_def del: canon.simps(2)) (simp add: canon_dict)

lemma canon_sorted_stages:
  "canon (JDict (map (\<lambda>(s, x). (s, stage_record_dump x)) (map (\<lambda>(s, x). (s, sorted_record x)) (sort_key fst stages)))) =
     canon (JDict (map (\<lambda>(s, x). (s, stage_record_dump x)) stages))"
  unfolding canon_pairs sort_pairs_map by (simp add: comp_def case_prod_beta' canon_sorted_record)

lemma canon_fields:
  "map fst kvs = map fst kvs' \<Longrightarrow> map (canon \<circ> snd) kvs = map (canon \<circ> snd) kvs' \<Longrightarrow> canon (JDict kvs) = canon (JDict kvs')"
proof -
  assume f: "map fst kvs = map fst kvs'" and s: "map (canon \<circ> snd) kvs = map (canon \<circ> snd) kvs'"
  have z: "map (\<lambda>(k, v). (k, canon v)) xs = zip (map fst xs) (map (canon \<circ> snd) xs)" for xs :: "(string \<times> json) list"
    by (induction xs) auto
  show ?thesis unfolding canon.simps(2) z f s ..
qed

lemma canon_sorted_run: "canon (run_dump (sorted_run r)) = canon (run_dump r)"
  unfolding run_dump_def
proof (rule canon_fields)
  show "map (canon \<circ> snd) [(''schema_version'', JStr ''cartosentry.run.v1''), (''run_id'', JStr (rd_run_id (sorted_run r))),
      (''sequence_id'', JStr (rd_sequence_id (sorted_run r))), (''road_graph_id'', JStr (rd_road_graph_id (sorted_run r))),
      (''profile_id'', JStr (rd_profile_id (sorted_run r))), (''engine_version'', JStr (rd_engine_version (sorted_run r))),
      (''configuration_hashes'', dict_json (rd_configuration_hashes (sorted_run r))),
      (''state'', JStr (state_name (rd_state (sorted_run r)))),
      (''stages'', JDict (map (\<lambda>(s, x). (s, stage_record_dump x)) (rd_stages (sorted_run r)))),
      (''artifacts'', JList (map reference_dump (rd_artifacts (sorted_run r))))] =
    map (canon \<circ> snd) [(''schema_version'', JStr ''cartosentry.run.v1''), (''run_id'', JStr (rd_run_id r)),
      (''sequence_id'', JStr (rd_sequence_id r)), (''road_graph_id'', JStr (rd_road_graph_id r)),
      (''profile_id'', JStr (rd_profile_id r)), (''engine_version'', JStr (rd_engine_version r)),
      (''configuration_hashes'', dict_json (rd_configuration_hashes r)),
      (''state'', JStr (state_name (rd_state r))),
      (''stages'', JDict (map (\<lambda>(s, x). (s, stage_record_dump x)) (rd_stages r))),
      (''artifacts'', JList (map reference_dump (rd_artifacts r)))]"
    using canon_sorted_stages [of "rd_stages r"] by (simp add: sorted_run_def del: canon.simps(2))
qed simp

lemma portable_canon: "portable (canon v) = portable v"
proof (induction v)
  case (JDict kvs)
  then show ?case unfolding canon_dict by fastforce
qed auto

lemma sorted_dict_sort [simp]: "sorted_dict (sort_key fst kvs) = sorted_dict kvs"
  by (simp add: sorted_dict_def)

lemma portable_sorted_run [simp]: "portable (run_dump (sorted_run r)) = portable (run_dump r)"
  by (metis canon_sorted_run portable_canon)

lemma check_sorted_run:
  assumes "check_run sha r = Inr ()"
  shows "check_run sha (sorted_run r) = Inr ()"
proof -
  have f: "rd_run_id (sorted_run r) = rd_run_id r" "rd_sequence_id (sorted_run r) = rd_sequence_id r"
    "rd_road_graph_id (sorted_run r) = rd_road_graph_id r" "rd_profile_id (sorted_run r) = rd_profile_id r"
    "rd_engine_version (sorted_run r) = rd_engine_version r" "rd_artifacts (sorted_run r) = rd_artifacts r"
    "rd_configuration_hashes (sorted_run r) = sort_key fst (rd_configuration_hashes r)"
    "rd_stages (sorted_run r) = map (\<lambda>(s, x). (s, sorted_record x)) (sort_key fst (rd_stages r))"
    by (simp_all add: sorted_run_def)
  have p: "run_portable_dict x = Inr y \<longleftrightarrow> portable (run_dump x) \<and> y = run_dump x" for x y
    by (auto simp: run_portable_dict_def assert_portable_ok)
  have stages: "list_all (\<lambda>(s, x). is_identifier s \<and> check_stage_record x)
      (map (\<lambda>(s, x). (s, sorted_record x)) (sort_key fst (rd_stages r)))
      = list_all (\<lambda>(s, x). is_identifier s \<and> check_stage_record x) (rd_stages r)"
    by (auto simp: list_all_iff)
  show ?thesis
    using assms
    by (simp add: check_run_def f stages validate_run_identity_def make_run_id_def p assert_portable_ok)
qed

lemma run_round_trip:
  assumes c: "check_run sha r = Inr ()" and l: "rd_local_context r = None"
  shows "run_validate sha (canon (run_dump r)) = Inr (sorted_run r)"
proof -
  let ?f = "[(''schema_version'', JStr ''cartosentry.run.v1''), (''run_id'', JStr (rd_run_id r)),
      (''sequence_id'', JStr (rd_sequence_id r)), (''road_graph_id'', JStr (rd_road_graph_id r)),
      (''profile_id'', JStr (rd_profile_id r)), (''engine_version'', JStr (rd_engine_version r)),
      (''configuration_hashes'', dict_json (rd_configuration_hashes r)),
      (''state'', JStr (state_name (rd_state r))),
      (''stages'', JDict (map (\<lambda>(s, x). (s, stage_record_dump x)) (rd_stages r))),
      (''artifacts'', JList (map reference_dump (rd_artifacts r)))]"
  let ?names = "[''schema_version'', ''run_id'', ''sequence_id'', ''road_graph_id'', ''profile_id'',
       ''engine_version'', ''configuration_hashes'', ''state'', ''stages'', ''artifacts'', ''local_context'']"
  have "\<exists>d. as_object ?names (canon (run_dump r)) = Inr d \<and> (\<forall>k. map_of d k = map_option canon (map_of ?f k))"
    unfolding run_dump_def by (rule as_object_fields) simp_all
  then obtain d where d: "as_object ?names (canon (run_dump r)) = Inr d"
    and f: "\<And>k. map_of d k = map_option canon (map_of ?f k)"
    by blast
  have ok: "is_stable_id (rd_run_id r)" "is_stable_id (rd_sequence_id r)" "is_stable_id (rd_road_graph_id r)"
    "is_identifier (rd_profile_id r)" "is_semantic_version (rd_engine_version r)"
    "check_text_map (rd_configuration_hashes r)"
    "list_all (\<lambda>(s, x). is_identifier s \<and> check_stage_record x) (rd_stages r)"
    "list_all check_reference (rd_artifacts r)"
    using c by (simp_all add: check_run_def)
  have refs: "mapE reference_validate (map (canon \<circ> reference_dump) (rd_artifacts r)) = Inr (rd_artifacts r)"
    using ok(8) unfolding mapE_eq_Inr_iff list_all2_map1
    by (auto simp: list_all2_same list_all_iff reference_round_trip)
  have conf: "as_text_map is_identifier is_sha256 (dict_json (sort_key fst (rd_configuration_hashes r)))
      = Inr (sort_key fst (rd_configuration_hashes r))"
    by (rule as_text_map_dict) (use ok(6) in \<open>simp add: check_text_map_def\<close>)
  have stages: "as_map stage_record_validate (canon (JDict (map (\<lambda>(s, x). (s, stage_record_dump x)) (rd_stages r))))
      = Inr (map (\<lambda>(s, x). (s, sorted_record x)) (sort_key fst (rd_stages r)))"
    unfolding canon_pairs by (rule as_map_stages) (use ok(7) in simp)
  have run: "sorted_run r = \<lparr>rd_run_id = rd_run_id r, rd_sequence_id = rd_sequence_id r,
      rd_road_graph_id = rd_road_graph_id r, rd_profile_id = rd_profile_id r, rd_engine_version = rd_engine_version r,
      rd_configuration_hashes = sort_key fst (rd_configuration_hashes r), rd_state = rd_state r,
      rd_stages = map (\<lambda>(s, x). (s, sorted_record x)) (sort_key fst (rd_stages r)),
      rd_artifacts = rd_artifacts r, rd_local_context = None\<rparr>"
    using l by (simp add: sorted_run_def)
  show ?thesis
    using check_sorted_run [OF c] ok
    by (simp add: run_validate_def d field_def f as_text_def conf stages refs run [symmetric] Let_def
        del: canon.simps(2))
qed

section \<open>Exporting succeeds\<close>

definition run_distinct :: "run_document \<Rightarrow> bool" where
  "run_distinct r \<longleftrightarrow> distinct (map fst (rd_configuration_hashes r)) \<and> distinct (map fst (rd_stages r)) \<and>
     list_all (\<lambda>(s, x). distinct (map fst (sr_output_hashes x))) (rd_stages r)"

lemma json_ok_dict_json [simp]: "json_ok (dict_json kvs) \<longleftrightarrow> distinct (map fst kvs)"
  by (auto simp: dict_json_def comp_def case_prod_beta')

lemma json_finite_dict_json [simp]: "json_finite (dict_json kvs)"
  by (auto simp: dict_json_def list_all_iff)

lemma json_depth_dict_json: "json_depth (dict_json kvs) = 1"
  using foldr_max_const [of 0 kvs] by (simp add: dict_json_def comp_def case_prod_beta')

lemma foldr_max_le: "(\<And>x. x \<in> set xs \<Longrightarrow> f x \<le> (c::nat)) \<Longrightarrow> foldr max (map f xs) 0 \<le> c"
  by (induction xs) auto

lemma run_dump_ok:
  "run_distinct r \<Longrightarrow> json_ok (run_dump r)" "json_finite (run_dump r)" "json_depth (run_dump r) \<le> 4"
proof -
  show "json_ok (run_dump r)" if d: "run_distinct r"
  proof -
    have "json_ok (stage_record_dump x)" if "(s, x) \<in> set (rd_stages r)" for s x
      using that d by (cases "sr_attempt_id x")
        (auto simp: stage_record_dump_def run_distinct_def list_all_iff option_json_def)
    moreover have "json_ok (reference_dump x)" for x by (simp add: reference_dump_def)
    ultimately show ?thesis
      using d by (auto simp: run_dump_def run_distinct_def comp_def case_prod_beta')
  qed
  have "json_finite (stage_record_dump x)" "json_finite (reference_dump y)" for x y
    by (cases "sr_attempt_id x") (simp_all add: stage_record_dump_def option_json_def reference_dump_def)
  then show "json_finite (run_dump r)" by (auto simp: run_dump_def list_all_iff)
  have "json_depth (stage_record_dump x) \<le> 2" for x
    by (cases "sr_attempt_id x") (simp_all add: stage_record_dump_def option_json_def json_depth_dict_json)
  then have "foldr max (map (\<lambda>x. json_depth (stage_record_dump (snd x))) (rd_stages r)) 0 \<le> 2"
    by (intro foldr_max_le) simp
  moreover have "foldr max (map (json_depth \<circ> reference_dump) (rd_artifacts r)) 0 \<le> 1"
    by (rule foldr_max_le) (simp add: reference_dump_def)
  ultimately show "json_depth (run_dump r) \<le> 4"
    by (simp add: run_dump_def json_depth_dict_json comp_def case_prod_beta')
qed

lemma run_portable_dict_eq: "run_portable_dict r = Inr v \<longleftrightarrow> portable (run_dump r) \<and> v = run_dump r"
  by (auto simp: run_portable_dict_def assert_portable_ok)

lemma recover_run_document:
  assumes c: "check_run sha r = Inr ()" and l: "rd_local_context r = None" and d: "run_distinct r"
    and len: "length (dumps (run_dump r)) < MAXIMUM_ARTIFACT_JSON_BYTES"
  shows "recover_run sha (dumps (run_dump r)) = Inr (run_dump (sorted_run r))"
proof -
  have p: "portable (run_dump r)"
    using c by (auto simp: check_run_def validate_run_identity_def run_portable_dict_eq)
  have "dumps (run_dump r) \<noteq> []" using dumps_start [OF run_dump_ok(1) [OF d]] by auto
  then have "decode_bounded_json (dumps (run_dump r)) MAXIMUM_ARTIFACT_JSON_BYTES ''artifact JSON'' = Inr (canon (run_dump r))"
    using len run_dump_ok(1) [OF d] run_dump_ok(3) [of r] json_ok_scans [OF run_dump_ok(1) [OF d]]
      scans_as_deepD [of "run_dump r" 0 "[]"]
    by (simp add: decode_bounded_json_eq_Inr json_loads_dumps check_json_depth_def MAXIMUM_JSON_DEPTH_def)
  moreover have "run_validate sha (canon (run_dump r)) = Inr (sorted_run r)" by (rule run_round_trip [OF c l])
  moreover obtain kvs where k: "canon (run_dump r) = JDict kvs" and "map_of kvs ''schema_version'' = Some (JStr ''cartosentry.run.v1'')"
  proof -
    let ?f = "[(''schema_version'', JStr ''cartosentry.run.v1''), (''run_id'', JStr (rd_run_id r)),
      (''sequence_id'', JStr (rd_sequence_id r)), (''road_graph_id'', JStr (rd_road_graph_id r)),
      (''profile_id'', JStr (rd_profile_id r)), (''engine_version'', JStr (rd_engine_version r)),
      (''configuration_hashes'', dict_json (rd_configuration_hashes r)),
      (''state'', JStr (state_name (rd_state r))),
      (''stages'', JDict (map (\<lambda>(s, x). (s, stage_record_dump x)) (rd_stages r))),
      (''artifacts'', JList (map reference_dump (rd_artifacts r)))]"
    have "distinct (map fst ?f)" by simp
    then have "map_of (map (\<lambda>(k, v). (k, canon v)) (sort_key fst ?f)) ''schema_version'' = Some (JStr ''cartosentry.run.v1'')"
      by (simp add: map_of_canon map_of_sort_key_fst)
    then show thesis using that unfolding run_dump_def canon_dict by blast
  qed
  ultimately show ?thesis
    using p by (simp add: recover_run_def run_portable_dict_eq)
qed

lemma run_document_ok:
  assumes i: "run_id_of sha inputs = Inr run_id" and run: "run_of inputs definitions db run_id = Inr r"
    and c: "check_run sha r = Inr ()" and d: "run_distinct r"
    and native: "native (dumps (run_dump r)) ''cartosentry.run.v1'' = Inr (dumps (run_dump r))"
    and len: "length (dumps (run_dump r)) < MAXIMUM_ARTIFACT_JSON_BYTES"
  shows "run_document_bytes sha native inputs definitions db = Inr (dumps (run_dump r) @ [CHR 0x0A])"
proof -
  have l: "rd_local_context r = None" using run by (auto simp: run_of_def)
  have p: "portable (run_dump r)"
    using c by (auto simp: check_run_def validate_run_identity_def run_portable_dict_eq)
  have f: "json_finite (run_dump r)" by (rule run_dump_ok(2))
  have "canonicalize_run sha native r = Inr (dumps (run_dump r))"
    using p f native recover_run_document [OF c l d len] canon_sorted_run [of r]
    by (simp add: canonicalize_run_def run_portable_dict_eq json_dumps_def)
  moreover have "json_loads (dumps (run_dump r) @ [CHR 0x0A]) = Inr (canon (run_dump r))"
    by (rule json_loads_dumps_line [OF run_dump_ok(1) [OF d]])
  moreover have "json_finite (canon v)" if "json_finite v" for v
    using that by (induction v) (auto simp: list_all_iff)
  then have "canonical_document (canon (run_dump r)) = Inr (dumps (run_dump r) @ [CHR 0x0A])"
    using p f by (simp add: canonical_document_eq portable_canon dumps_canon)
  ultimately show ?thesis by (simp add: run_document_bytes_def i run c)
qed

section \<open>Every state of the engine exports\<close>

text \<open>The field constraints and the validator of \<open>RunInputs\<close>.\<close>

definition check_run_inputs :: "(string \<Rightarrow> string) \<Rightarrow> run_inputs \<Rightarrow> unit res" where
  "check_run_inputs sha r =
     bindE (ensure (is_identifier (ri_workflow_id r) \<and> is_stable_id (ri_sequence_id r)
         \<and> is_stable_id (ri_road_graph_id r) \<and> is_identifier (ri_profile_id r)
         \<and> is_semantic_version (ri_engine_version r) \<and> check_text_map (ri_source_hashes r)
         \<and> check_text_map (ri_configuration_hashes r) \<and> is_identifier (ri_numerical_backend r))
         (ValueError ''validation error for RunInputs'')) (\<lambda>_. validate_source_identity sha r)"

text \<open>The recorded inputs are read back; their dictionaries come out in key order.\<close>

lemma run_inputs_round_trip:
  assumes c: "check_run_inputs sha r = Inr ()" and s: "sort_key fst (ri_source_hashes r) = ri_source_hashes r"
    "sort_key fst (ri_configuration_hashes r) = ri_configuration_hashes r"
  shows "run_inputs_validate sha (canon (run_inputs_dump r)) = Inr r"
proof -
  let ?names = "[''schema_version'', ''workflow_id'', ''sequence_id'', ''road_graph_id'',
       ''profile_id'', ''engine_version'', ''source_hashes'', ''configuration_hashes'', ''numerical_backend'']"
  let ?f = "[(''schema_version'', JStr ''cartosentry.run-inputs.v1''),
      (''workflow_id'', JStr (ri_workflow_id r)), (''sequence_id'', JStr (ri_sequence_id r)),
      (''road_graph_id'', JStr (ri_road_graph_id r)), (''profile_id'', JStr (ri_profile_id r)),
      (''engine_version'', JStr (ri_engine_version r)), (''source_hashes'', dict_json (ri_source_hashes r)),
      (''configuration_hashes'', dict_json (ri_configuration_hashes r)),
      (''numerical_backend'', JStr (ri_numerical_backend r))]"
  have "\<exists>d. as_object ?names (canon (run_inputs_dump r)) = Inr d \<and> (\<forall>k. map_of d k = map_option canon (map_of ?f k))"
    unfolding run_inputs_dump_def by (rule as_object_fields) simp_all
  then obtain d where d: "as_object ?names (canon (run_inputs_dump r)) = Inr d"
    and f: "\<And>k. map_of d k = map_option canon (map_of ?f k)"
    by blast
  have maps: "as_text_map is_identifier is_sha256 (dict_json (ri_source_hashes r)) = Inr (ri_source_hashes r)"
    "as_text_map is_identifier is_sha256 (dict_json (ri_configuration_hashes r)) = Inr (ri_configuration_hashes r)"
    using c by (auto simp: check_run_inputs_def check_text_map_def intro!: as_text_map_dict)
  show ?thesis
    using c d f maps s
    by (cases r) (simp add: run_inputs_validate_def field_def as_text_def check_run_inputs_def Let_def)
qed

lemma stable_id_shape:
  assumes d: "is_sha256 d" and k: "case kind of [] \<Rightarrow> False
          | c # r \<Rightarrow> is_lower c \<and> list_all (\<lambda>d. is_lower d \<or> is_digit d \<or> d = CHR ''-'') r"
  shows "is_stable_id (kind @ ''-sha256-'' @ d)"
proof -
  have l: "length d = 64" using d by (simp add: is_sha256_def)
  have n: "length (kind @ ''-sha256-'' @ d) - 64 = length (kind @ ''-sha256-'')" using l by simp
  have t: "take (length (kind @ ''-sha256-'')) (kind @ ''-sha256-'' @ d) = kind @ ''-sha256-''"
    "drop (length (kind @ ''-sha256-'')) (kind @ ''-sha256-'' @ d) = d" by simp_all
  have u: "take (length (kind @ ''-sha256-'') - 8) (kind @ ''-sha256-'' @ d) = kind" by simp
  show ?thesis unfolding is_stable_id_def n Let_def t u using d k l by simp
qed

lemma make_identifier_stable:
  assumes "make_identifier sha kind v = Inr i" and "\<And>x. is_sha256 (sha x)"
    and "case kind of [] \<Rightarrow> False | c # r \<Rightarrow> is_lower c \<and> list_all (\<lambda>d. is_lower d \<or> is_digit d \<or> d = CHR ''-'') r"
  shows "is_stable_id i"
  using assms stable_id_shape by (auto simp: make_identifier_eq)

lemma stable_id_portable:
  assumes "is_stable_id i"
  shows "\<not> path_leak i"
proof (rule stable_char_portable)
  let ?n = "length i - 64"
  let ?ok = "\<lambda>c. slug_char c \<or> c = CHR ''-''"
  obtain kind where t: "take ?n i = kind @ ''-sha256-''" and d: "is_sha256 (drop ?n i)"
    and k: "case kind of [] \<Rightarrow> False | c # r \<Rightarrow> is_lower c \<and> list_all (\<lambda>d. is_lower d \<or> is_digit d \<or> d = CHR ''-'') r"
    using assms by (auto simp: is_stable_id_def Let_def)
  have "list_all ?ok kind" using k by (cases kind) (auto simp: slug_char_def list_all_iff)
  moreover have "list_all ?ok ''-sha256-''" by (simp add: slug_char_def is_lower_def is_digit_def)
  moreover have "list_all ?ok (drop ?n i)"
    using d by (auto simp: is_sha256_def list_all_iff is_hex_lower_def slug_char_def is_lower_def)
  ultimately have "list_all ?ok (take ?n i @ drop ?n i)" unfolding t list_all_append by blast
  then show "list_all ?ok i" unfolding append_take_drop_id .
qed

lemma artifact_path_portable:
  assumes "CHR 0x5C \<notin> set x" and "''..'' \<notin> set (split_on (CHR ''/'') x)"
  shows "\<not> path_leak (''artifacts/'' @ x)"
proof -
  have "split_on (CHR ''/'') (''artifacts'' @ CHR ''/'' # x) = ''artifacts'' # split_on (CHR ''/'') x"
    by (subst split_on_append) simp_all
  then show ?thesis
    using assms by (simp add: path_leak_def replace_char_idle windows_absolute_def)
qed

lemma published_file_portable:
  assumes "is_identifier s" and "is_identifier c" and "is_identifier i" and r: "validate_relative_path p = Inr ()"
  shows "\<not> path_leak (published_directory s c i @ ''/'' @ p)"
proof -
  have sl: "CHR ''/'' \<notin> set s" "CHR ''/'' \<notin> set c" "CHR ''/'' \<notin> set i"
    and bs: "CHR 0x5C \<notin> set s" "CHR 0x5C \<notin> set c" "CHR 0x5C \<notin> set i"
    and dots: "s \<noteq> ''..''" "c \<noteq> ''..''" "i \<noteq> ''..''"
    using assms(1-3) identifier_chars by blast+
  have p: "CHR 0x5C \<notin> set p" "''..'' \<notin> set (split_on (CHR ''/'') p)"
    using r by (auto simp: validate_relative_path_ok list_all_iff)
  have "split_on (CHR ''/'') (s @ CHR ''/'' # c @ CHR ''/'' # i @ CHR ''/'' # p) = s # c # i # split_on (CHR ''/'') p"
    using sl by (simp add: split_on_append)
  then have "\<not> path_leak (''artifacts/'' @ (s @ CHR ''/'' # c @ CHR ''/'' # i @ CHR ''/'' # p))"
    using bs p dots by (intro artifact_path_portable) auto
  then show ?thesis by (simp add: published_directory_def)
qed

lemma state_name_portable [simp]: "\<not> path_leak (state_name s)"
  by (rule plain_text_portable; cases s) (simp_all add: state_name_def)

lemma run_document_keys [simp]:
  "lower ''run_id'' \<notin> set FORBIDDEN_PORTABLE_KEYS" "lower ''road_graph_id'' \<notin> set FORBIDDEN_PORTABLE_KEYS"
  "lower ''profile_id'' \<notin> set FORBIDDEN_PORTABLE_KEYS" "lower ''engine_version'' \<notin> set FORBIDDEN_PORTABLE_KEYS"
  "lower ''configuration_hashes'' \<notin> set FORBIDDEN_PORTABLE_KEYS" "lower ''state'' \<notin> set FORBIDDEN_PORTABLE_KEYS"
  "lower ''stages'' \<notin> set FORBIDDEN_PORTABLE_KEYS" "lower ''output_hashes'' \<notin> set FORBIDDEN_PORTABLE_KEYS"
  "lower ''source_key'' \<notin> set FORBIDDEN_PORTABLE_KEYS" "lower ''source_hashes'' \<notin> set FORBIDDEN_PORTABLE_KEYS"
  "lower ''numerical_backend'' \<notin> set FORBIDDEN_PORTABLE_KEYS" "lower ''graph'' \<notin> set FORBIDDEN_PORTABLE_KEYS"
  by (simp_all add: lower_def lower_char_def FORBIDDEN_PORTABLE_KEYS_def)

lemma run_schema_portable [simp]: "\<not> path_leak ''cartosentry.run.v1''" "\<not> path_leak ''cartosentry.run-inputs.v1''"
  by (rule plain_text_portable; simp)+

text \<open>What the rows of the artifact table are.\<close>

definition exportable_row :: "env \<Rightarrow> database \<Rightarrow> artifact_row \<Rightarrow> bool" where
  "exportable_row env db f \<longleftrightarrow>
     is_identifier (f_artifact_key f) \<and> is_sha256 (f_sha256 f) \<and> f_media_type f \<noteq> [] \<and>
     f_relative_path f \<noteq> [] \<and> \<not> path_leak (f_relative_path f) \<and>
     (\<exists>d \<in> set (en_definitions env). \<exists>p \<in> set (payloads_of env d). f_stage_id f = sd_stage_id d \<and>
        f_artifact_key f = pl_artifact_key p \<and> f_media_type f = pl_media_type p \<and>
        f_byte_count f = length (pl_content p) \<and>
        length (cache_of env d) = 64 \<and>
        (\<exists>i n. well_named i (sd_stage_id d) n \<and> i \<in> fst ` set (db_attempt db) \<and>
          f_relative_path f = published_directory (sd_stage_id d) (cache_of env d) i @ ''/'' @ pl_relative_path p))"

lemma artifact_known_row:
  assumes "artifact_known env db f"
  shows "exportable_row env db f"
proof -
  obtain d i n where d: "d \<in> set (en_definitions env)" and v: "valid_attempt env d i n"
    and w: "well_named i (sd_stage_id d) n" and k: "i \<in> fst ` set (db_attempt db)"
    and f: "f \<in> set (manifest_rows (ideal_manifest env d i n) (published_directory (sd_stage_id d) (cache_of env d) i))"
    using assms unfolding artifact_known_def by blast
  obtain p where p: "p \<in> set (payloads_of env d)" and row: "f = \<lparr>f_stage_id = sd_stage_id d,
      f_artifact_key = pl_artifact_key p,
      f_relative_path = published_directory (sd_stage_id d) (cache_of env d) i @ ''/'' @ pl_relative_path p,
      f_sha256 = en_sha env (pl_content p), f_byte_count = length (pl_content p), f_media_type = pl_media_type p\<rparr>"
    using f by (auto simp: manifest_rows_def ideal_manifest_def manifest_of_def entry_of_def)
  have e: "check_entry (entry_of (en_sha env) p) = Inr ()"
    using v p by (simp add: valid_attempt_def list_all_iff)
  have m: "is_identifier (sd_stage_id d)" "is_identifier i" "is_sha256 (cache_of env d)"
    using v by (auto simp: valid_attempt_def check_manifest_def ideal_manifest_def manifest_of_def)
  have "\<not> path_leak (f_relative_path f)"
    using published_file_portable [OF m(1) sha256_identifier [OF m(3)] m(2)] e by (simp add: row check_entry_def entry_of_def)
  then show ?thesis
    using e d p w k m(3) by (auto simp: exportable_row_def row check_entry_def entry_of_def is_sha256_def)
qed

definition exportable :: "env \<Rightarrow> bool" where
  "exportable env \<longleftrightarrow>
     check_run_inputs (en_sha env) (en_inputs env) = Inr () \<and>
     distinct (map fst (ri_configuration_hashes (en_inputs env))) \<and>
     (\<exists>i. run_id_of (en_sha env) (en_inputs env) = Inr i) \<and> (\<exists>h. spec_digest env = Inr h) \<and>
     (\<forall>x. is_sha256 (en_sha env x)) \<and>
     list_all (\<lambda>d. is_identifier (sd_stage_id d) \<and>
       list_all (\<lambda>p. \<not> path_leak (pl_media_type p)) (payloads_of env d)) (en_definitions env)"

definition record_of :: "database \<Rightarrow> string \<Rightarrow> stage_row \<Rightarrow> stage_record" where
  "record_of db s row =
     \<lparr>sr_state = r_state row, sr_attempt_id = r_attempt_id row, sr_output_hashes = artifact_hashes db s\<rparr>"

definition exported_run :: "env \<Rightarrow> database \<Rightarrow> string \<Rightarrow> (string \<times> stage_record) list \<Rightarrow> run_document" where
  "exported_run env db run_id stages =
     \<lparr>rd_run_id = run_id, rd_sequence_id = ri_sequence_id (en_inputs env),
       rd_road_graph_id = ri_road_graph_id (en_inputs env), rd_profile_id = ri_profile_id (en_inputs env),
       rd_engine_version = ri_engine_version (en_inputs env),
       rd_configuration_hashes = ri_configuration_hashes (en_inputs env),
       rd_state = derive_run_state (map snd (stage_states db)), rd_stages = stages,
       rd_artifacts = map (\<lambda>f. \<lparr>ar_source_key = f_relative_path f, ar_sha256 = f_sha256 f,
               ar_byte_count = f_byte_count f, ar_media_type = f_media_type f\<rparr>) (artifact_rows db),
       rd_local_context = None\<rparr>"

text \<open>The size of the document: texts of the environment are at most \<open>B\<close> long, there are at most \<open>C\<close>
  stages, payloads and configuration hashes, and fewer than \<open>10 ^ 8\<close> attempts.\<close>

definition bounded_by :: "env \<Rightarrow> nat \<Rightarrow> nat \<Rightarrow> bool" where
  "bounded_by env B C \<longleftrightarrow>
     length (ri_sequence_id (en_inputs env)) \<le> B \<and> length (ri_road_graph_id (en_inputs env)) \<le> B \<and>
     length (ri_workflow_id (en_inputs env)) \<le> B \<and>
     length (ri_profile_id (en_inputs env)) \<le> B \<and> length (ri_engine_version (en_inputs env)) \<le> B \<and>
     length (ri_configuration_hashes (en_inputs env)) \<le> C \<and>
     list_all (\<lambda>(k, v). length k \<le> B) (ri_configuration_hashes (en_inputs env)) \<and>
     length (en_definitions env) \<le> C \<and> list_all (\<lambda>d. length (sd_stage_id d) \<le> B) (en_definitions env) \<and>
     length (concat (map (payloads_of env) (en_definitions env))) \<le> C \<and>
     list_all (\<lambda>p. length (pl_artifact_key p) \<le> B \<and> length (pl_relative_path p) \<le> B \<and>
       length (pl_media_type p) \<le> B \<and> length (pl_content p) < 10 ^ B) (concat (map (payloads_of env) (en_definitions env)))"

context run_environment
begin

lemma exportable_attempt:
  assumes e: "exportable env" and g: "good env N db pub att n" and i: "i \<in> fst ` set (db_attempt db)"
  obtains s k where "well_named i s k" and "s \<in> set (map sd_stage_id definitions)" and "is_identifier i" and "k \<le> n"
proof -
  obtain a where a: "(i, a) \<in> set (db_attempt db)" using i by force
  have ok: "db_ok db" using g by (simp add: good_def)
  obtain r where w: "well_named i (a_stage_id a) (a_attempt_number a)"
    and r: "map_of (db_stage db) (a_stage_id a) = Some r" and c: "a_attempt_number a \<le> r_attempt_counter r"
    using db_ok_attempt [OF ok a] by blast
  have s: "a_stage_id a \<in> set (map sd_stage_id definitions)"
  proof -
    have "a_stage_id a \<in> set (map fst (db_stage db))" using map_of_SomeD [OF r] by force
    moreover have "map fst (db_stage db) = map sd_stage_id definitions" using g by (simp add: good_def)
    ultimately show ?thesis by metis
  qed
  then have "is_identifier (a_stage_id a)" using e by (auto simp: exportable_def list_all_iff)
  then have id: "is_identifier i"
    using w attempt_name_identifier [of "a_stage_id a" "drop (length i - 32) i" "a_attempt_number a"]
    by (auto simp: well_named_def uuid_text_def)
  have k: "a_attempt_number a \<le> n" using good_row [OF g r] c by (simp add: row_ok_def)
  show thesis by (rule that [OF w s id k])
qed

lemma spec_keys_portable:
  assumes "exportable env" and "d \<in> set definitions"
  shows "lower (sd_stage_id d) \<notin> set FORBIDDEN_PORTABLE_KEYS"
    and "p \<in> set (payloads_of env d) \<Longrightarrow> lower (pl_artifact_key p) \<notin> set FORBIDDEN_PORTABLE_KEYS"
proof -
  obtain h where "spec_digest env = Inr h" using assms(1) by (auto simp: exportable_def)
  then have p: "\<forall>d \<in> set definitions. lower (sd_stage_id d) \<notin> set FORBIDDEN_PORTABLE_KEYS \<and>
      portable (dict_json (spec env (sd_stage_id d)))"
    unfolding spec_digest_def canonical_sha256_eq by auto
  then show "lower (sd_stage_id d) \<notin> set FORBIDDEN_PORTABLE_KEYS" using assms(2) by blast
  show "lower (pl_artifact_key p) \<notin> set FORBIDDEN_PORTABLE_KEYS" if "p \<in> set (payloads_of env d)"
    using p assms(2) that by (auto simp: dict_json_def spec_fixed)
qed

lemma run_of_fields:
  assumes g: "good env N db pub att n"
  obtains stages where "run_of (en_inputs env) definitions db run_id = Inr (exported_run env db run_id stages)"
    and "map fst stages = map sd_stage_id definitions"
    and "\<And>s x. (s, x) \<in> set stages \<Longrightarrow> \<exists>(row :: stage_row) d. map_of (db_stage db) s = Some row \<and> d \<in> set definitions \<and> s = sd_stage_id d \<and>
       x = record_of db s row"
proof -
  let ?f = "\<lambda>d. bindE (stage_row db (sd_stage_id d)) (\<lambda>row. Inr (sd_stage_id d,
      \<lparr>sr_state = r_state row, sr_attempt_id = r_attempt_id row, sr_output_hashes = artifact_hashes db (sd_stage_id d)\<rparr>))"
  define g where "g = (\<lambda>d :: stage_definition. case map_of (db_stage db) (sd_stage_id d) of
      None \<Rightarrow> (sd_stage_id d, \<lparr>sr_state = PENDING, sr_attempt_id = None, sr_output_hashes = []\<rparr>)
    | Some row \<Rightarrow> (sd_stage_id d, \<lparr>sr_state = r_state row, sr_attempt_id = r_attempt_id row,
         sr_output_hashes = artifact_hashes db (sd_stage_id d)\<rparr>))"
  have row: "\<exists>row. map_of (db_stage db) (sd_stage_id d) = Some row" if "d \<in> set definitions" for d
  proof -
    have "sd_stage_id d \<in> set (map fst (db_stage db))" using assms that by (simp add: good_def)
    then show ?thesis by (metis map_of_eq_None_iff not_Some_eq set_map)
  qed
  have f: "?f d = Inr (g d)" if "d \<in> set definitions" for d
    using row [OF that] by (auto simp: g_def stage_row_def)
  have "mapE ?f definitions = Inr (map g definitions)" by (rule mapE_Inr) (rule f)
  then have "run_of (en_inputs env) definitions db run_id = Inr (exported_run env db run_id (map g definitions))"
    by (simp add: run_of_def exported_run_def)
  then show thesis
  proof (rule that)
    show "map fst (map g definitions) = map sd_stage_id definitions"
      by (simp add: g_def split: option.split)
    fix s x assume "(s, x) \<in> set (map g definitions)"
    then obtain d where d: "d \<in> set definitions" "g d = (s, x)" by auto
    obtain row where "map_of (db_stage db) (sd_stage_id d) = Some row" using row [OF d(1)] by blast
    then show "\<exists>(row :: stage_row) d. map_of (db_stage db) s = Some row \<and> d \<in> set definitions \<and> s = sd_stage_id d \<and>
       x = record_of db s row"
      using d by (intro exI [of _ row] exI [of _ d]) (auto simp: g_def record_of_def)
  qed
qed

lemma artifact_hashes_keys:
  assumes "(k, h) \<in> set (artifact_hashes db s)"
  obtains f where "f \<in> set (db_artifact db)" and "f_artifact_key f = k" and "f_sha256 f = h"
  using assms by (auto simp: artifact_hashes_def)

lemma good_exports:
  assumes e: "exportable env" and g: "good env N db pub att n"
    and i: "run_id_of (en_sha env) (en_inputs env) = Inr run_id"
  obtains r where "run_of (en_inputs env) definitions db run_id = Inr r" and "check_run (en_sha env) r = Inr ()"
    and "run_distinct r"
proof -
  obtain stages where run: "run_of (en_inputs env) definitions db run_id = Inr (exported_run env db run_id stages)"
    and ids: "map fst stages = map sd_stage_id definitions"
    and st: "\<And>s x. (s, x) \<in> set stages \<Longrightarrow> \<exists>(row :: stage_row) d. map_of (db_stage db) s = Some row \<and> d \<in> set definitions \<and>
       s = sd_stage_id d \<and>
       x = record_of db s row"
    using run_of_fields [OF g, of run_id] by metis
  let ?r = "exported_run env db run_id stages"
  have rows: "exportable_row env db f" if "f \<in> set (db_artifact db)" for f
    using g that artifact_known_row by (auto simp: good_def list_all_iff)
  have art: "set (artifact_rows db) = set (db_artifact db)" by (simp add: artifact_rows_def)
  have inputs: "check_run_inputs (en_sha env) (en_inputs env) = Inr ()" using e by (simp add: exportable_def)
  have run_id: "is_stable_id run_id"
    using i e by (auto simp: run_id_of_def make_run_id_def exportable_def is_lower_def intro!: make_identifier_stable)
  have rid: "\<not> path_leak run_id"
    by (rule stable_id_portable [OF run_id])
  have meta: "\<not> path_leak (ri_sequence_id (en_inputs env))" "\<not> path_leak (ri_road_graph_id (en_inputs env))"
    "\<not> path_leak (ri_profile_id (en_inputs env))" "\<not> path_leak (ri_engine_version (en_inputs env))"
    "portable (sorted_dict (ri_configuration_hashes (en_inputs env)))"
    using i unfolding run_id_of_def make_run_id_def make_identifier_eq by simp_all
  have conf: "portable (dict_json (ri_configuration_hashes (en_inputs env)))"
    using meta(5) by (auto simp: sorted_dict_def dict_json_def)
  have hashes: "check_text_map (artifact_hashes db s)" and hp: "portable (dict_json (artifact_hashes db s))" for s
  proof -
    have k: "is_identifier k \<and> is_sha256 h \<and> lower k \<notin> set FORBIDDEN_PORTABLE_KEYS" if "(k, h) \<in> set (artifact_hashes db s)" for k h
    proof -
      obtain f where f: "f \<in> set (db_artifact db)" "f_artifact_key f = k" "f_sha256 f = h"
        using artifact_hashes_keys [OF \<open>(k, h) \<in> set (artifact_hashes db s)\<close>] .
      then show ?thesis using rows [OF f(1)] spec_keys_portable(2) [OF e] by (auto simp: exportable_row_def)
    qed
    then show "check_text_map (artifact_hashes db s)" by (auto simp: check_text_map_def list_all_iff)
    show "portable (dict_json (artifact_hashes db s))"
      using k identifier_portable [OF sha256_identifier] by (auto simp: dict_json_def)
  qed
  have stage: "is_identifier s \<and> check_stage_record x \<and> portable (stage_record_dump x) \<and>
      lower s \<notin> set FORBIDDEN_PORTABLE_KEYS \<and> distinct (map fst (sr_output_hashes x))"
    if sx: "(s, x) \<in> set stages" for s and x :: stage_record
  proof -
    obtain row :: stage_row and d :: stage_definition where row: "map_of (db_stage db) s = Some row" and d: "d \<in> set definitions" "s = sd_stage_id d"
      and x: "x = record_of db s row"
      using st [OF sx] by blast
    have "attempt_known db row" by (rule row_ok_attempt [OF good_row [OF g row]])
    then have a: "case r_attempt_id row of None \<Rightarrow> True | Some i \<Rightarrow> is_identifier i"
      unfolding attempt_known_def using exportable_attempt [OF e g] by (metis option.case_eq_if option.collapse)
    then have "portable (option_json (r_attempt_id row))"
      by (auto simp: option_json_def identifier_portable split: option.splits)
    moreover have "distinct (map fst (artifact_hashes db s))"
    proof -
      have "distinct (map row_key (db_artifact db))" using g by (simp add: good_def db_ok_def)
      then have "distinct (map row_key (filter (\<lambda>f. f_stage_id f = s) (db_artifact db)))"
        by (rule distinct_filter_map)
      then have "distinct (map f_artifact_key (filter (\<lambda>f. f_stage_id f = s) (db_artifact db)))"
        by (auto simp: distinct_map inj_on_def row_key_def)
      then show ?thesis
        by (simp add: artifact_hashes_def fst_sort_key_fst comp_def)
    qed
    ultimately show ?thesis
      using a hashes [of s] hp [of s] d e spec_keys_portable(1) [OF e d(1)]
      by (auto simp: x record_of_def check_stage_record_def stage_record_dump_def exportable_def list_all_iff)
  qed
  have refs: "check_reference r" "portable (reference_dump r)" if r: "r \<in> set (rd_artifacts ?r)" for r :: artifact_reference
  proof -
    obtain f where f: "f \<in> set (db_artifact db)" and rf: "r = \<lparr>ar_source_key = f_relative_path f, ar_sha256 = f_sha256 f,
               ar_byte_count = f_byte_count f, ar_media_type = f_media_type f\<rparr>"
      using r art by (auto simp: exported_run_def)
    have "\<not> path_leak (f_media_type f)"
      using rows [OF f] e by (auto simp: exportable_row_def exportable_def list_all_iff)
    then show "check_reference r" "portable (reference_dump r)"
      using rows [OF f] identifier_portable [OF sha256_identifier]
      by (auto simp: rf check_reference_def reference_dump_def exportable_row_def)
  qed
  have "portable (run_dump ?r)"
    using stage refs(2) rid meta conf by (auto simp: run_dump_def exported_run_def)
  then have "check_run (en_sha env) ?r = Inr ()"
    using stage refs(1) inputs run_id i
    by (auto simp: check_run_def check_run_inputs_def validate_run_identity_def run_portable_dict_eq run_id_of_def
        assert_portable_ok list_all_iff exported_run_def)
  moreover have "run_distinct ?r"
    using stage ids distinct_ids e by (auto simp: run_distinct_def exportable_def list_all_iff exported_run_def)
  ultimately show thesis using run that by blast
qed

lemma length_attempt_name:
  assumes "well_named i s k" and "k < 10 ^ 8"
  shows "length i \<le> length s + 50"
proof -
  obtain u where i: "i = attempt_name s k u" and u: "length u = 32"
    using assms(1) by (auto simp: well_named_def)
  have "length (show_nat k) \<le> 8" by (rule length_show_nat) (use assms(2) in simp_all)
  then show ?thesis by (simp add: i u attempt_name_def zero_pad_def)
qed

lemma artifact_count:
  assumes g: "good env N db pub att n"
  shows "length (db_artifact db) \<le> length (concat (map (payloads_of env) definitions))"
proof -
  let ?keys = "concat (map (\<lambda>d. map (\<lambda>p. (sd_stage_id d, pl_artifact_key p)) (payloads_of env d)) definitions)"
  have d: "distinct (map row_key (db_artifact db))" using g by (simp add: good_def db_ok_def)
  have "set (map row_key (db_artifact db)) \<subseteq> set ?keys"
  proof
    fix x assume "x \<in> set (map row_key (db_artifact db))"
    then obtain f where f: "f \<in> set (db_artifact db)" "x = row_key f" by auto
    then have "exportable_row env db f" using g artifact_known_row by (auto simp: good_def list_all_iff)
    then show "x \<in> set ?keys" using f(2) by (fastforce simp: exportable_row_def row_key_def)
  qed
  then have "length (map row_key (db_artifact db)) \<le> length ?keys"
    unfolding distinct_card [OF d, symmetric] by (meson List.finite_set card_length card_mono le_trans)
  moreover have "length ?keys = length (concat (map (payloads_of env) definitions))"
    by (simp add: length_concat comp_def)
  ultimately show ?thesis by simp
qed

lemma weight_exported:
  assumes e: "exportable env" and b: "bounded_by env B C" and g: "good env N db pub att n" and n: "n < 10 ^ 8" and B: "0 < B"
    and run: "run_of (en_inputs env) definitions db run_id = Inr r" and i: "length run_id \<le> 100"
  shows "json_weight (run_dump r) \<le> 4000 + 40 * B + C * (3000 + 60 * B) + C * (C * (6 * B + 400))"
proof -
  obtain stages where r': "run_of (en_inputs env) definitions db run_id = Inr (exported_run env db run_id stages)"
    and ids: "map fst stages = map sd_stage_id definitions"
    and st: "\<And>s x. (s, x) \<in> set stages \<Longrightarrow> \<exists>(row :: stage_row) d. map_of (db_stage db) s = Some row \<and> d \<in> set definitions \<and>
       s = sd_stage_id d \<and> x = record_of db s row"
    using run_of_fields [OF g, of run_id] by metis
  have r: "r = exported_run env db run_id stages" using r' run by simp
  have rows: "exportable_row env db f" if "f \<in> set (db_artifact db)" for f
    using g that artifact_known_row by (auto simp: good_def list_all_iff)
  have count: "length (db_artifact db) \<le> C" using artifact_count [OF g] b by (simp add: bounded_by_def)
  have sids: "length (sd_stage_id d) \<le> B" if "d \<in> set definitions" for d
    using that b by (auto simp: bounded_by_def list_all_iff)
  have payload: "length (pl_artifact_key p) \<le> B \<and> length (pl_relative_path p) \<le> B \<and>
       length (pl_media_type p) \<le> B \<and> length (pl_content p) < 10 ^ B"
    if "d \<in> set definitions" "p \<in> set (payloads_of env d)" for d p
    using that b by (auto simp: bounded_by_def list_all_iff)
  have dict: "json_weight (dict_json kvs) \<le> 2 + C * (6 * B + 390)"
    if "length kvs \<le> C" "\<And>k v. (k, v) \<in> set kvs \<Longrightarrow> length k \<le> B \<and> length v = 64" for kvs
  proof -
    have "json_weight (dict_json kvs) = 2 + sum_list (map (\<lambda>(k, v). 6 + (6 * length k + 6 * length v)) kvs)"
      by (simp add: dict_json_def comp_def case_prod_beta')
    also have "\<dots> \<le> 2 + length kvs * (6 * B + 390)"
      using that(2) by (intro add_left_mono sum_list_le) fastforce
    also have "\<dots> \<le> 2 + C * (6 * B + 390)" using that(1) by simp
    finally show ?thesis .
  qed
  have hashes: "json_weight (dict_json (artifact_hashes db s)) \<le> 2 + C * (6 * B + 390)" for s
  proof (rule dict)
    have "length (artifact_hashes db s) \<le> length (db_artifact db)" by (simp add: artifact_hashes_def)
    then show "length (artifact_hashes db s) \<le> C" using count by simp
    fix k v assume "(k, v) \<in> set (artifact_hashes db s)"
    then obtain f where f: "f \<in> set (db_artifact db)" "f_artifact_key f = k" "f_sha256 f = v"
      by (rule artifact_hashes_keys)
    then show "length k \<le> B \<and> length v = 64"
      using rows [OF f(1)] payload by (auto simp: exportable_row_def is_sha256_def)
  qed
  have conf: "json_weight (dict_json (ri_configuration_hashes (en_inputs env))) \<le> 2 + C * (6 * B + 390)"
    using b e by (intro dict) (auto simp: bounded_by_def exportable_def check_run_inputs_def check_text_map_def
        list_all_iff is_sha256_def)
  have state: "length (state_name x) \<le> 22" for x by (cases x) (simp_all add: state_name_def)
  have stage: "json_weight (stage_record_dump x) \<le> 620 + 6 * B + C * (6 * B + 390) \<and> length s \<le> B"
    if sx: "(s, x) \<in> set stages" for s x
  proof -
    obtain row :: stage_row and d :: stage_definition where row: "map_of (db_stage db) s = Some row" and d: "d \<in> set definitions" "s = sd_stage_id d"
      and x: "x = record_of db s row"
      using st [OF sx] by blast
    have "attempt_known db row" by (rule row_ok_attempt [OF good_row [OF g row]])
    have "length i \<le> B + 50" if "r_attempt_id row = Some i" for i
    proof -
      have "i \<in> fst ` set (db_attempt db)" using \<open>attempt_known db row\<close> that by simp
      then obtain s' k where w: "well_named i s' k" and s': "s' \<in> set (map sd_stage_id definitions)" and k: "k \<le> n"
        by (rule exportable_attempt [OF e g])
      have "length s' \<le> B" using s' sids by auto
      then show ?thesis using length_attempt_name [OF w] k n by simp
    qed
    then have "json_weight (option_json (r_attempt_id row)) \<le> 6 * (B + 50) + 2"
      by (auto simp: option_json_def split: option.split)
    then show ?thesis
      using hashes [of s] state [of "r_state row"] sids [OF d(1)] d(2)
      by (simp add: x record_of_def stage_record_dump_def)
  qed
  have stages: "json_weight (JDict (map (\<lambda>(s, x). (s, stage_record_dump x)) stages))
      \<le> 2 + C * (624 + 12 * B + C * (6 * B + 390))"
  proof -
    have "json_weight (JDict (map (\<lambda>(s, x). (s, stage_record_dump x)) stages))
        = 2 + sum_list (map (\<lambda>(s, x). 6 * length s + json_weight (stage_record_dump x) + 4) stages)"
      by (simp add: comp_def case_prod_beta')
    also have "\<dots> \<le> 2 + length stages * (624 + 12 * B + C * (6 * B + 390))"
      using stage by (intro add_left_mono sum_list_le) fastforce
    also have "length stages \<le> C" using arg_cong [OF ids, of length] b by (simp add: bounded_by_def)
    finally show ?thesis by simp
  qed
  have reference: "json_weight (reference_dump x) \<le> 1386 + 25 * B" if x: "x \<in> set (rd_artifacts r)" for x
  proof -
    obtain f where f: "f \<in> set (db_artifact db)" and xf: "x = \<lparr>ar_source_key = f_relative_path f, ar_sha256 = f_sha256 f,
               ar_byte_count = f_byte_count f, ar_media_type = f_media_type f\<rparr>"
      using x by (auto simp: r exported_run_def artifact_rows_def)
    obtain d p i' k where d: "d \<in> set definitions" and p: "p \<in> set (payloads_of env d)"
      and m: "f_media_type f = pl_media_type p" "f_byte_count f = length (pl_content p)" "length (cache_of env d) = 64"
      and w: "well_named i' (sd_stage_id d) k" and k: "i' \<in> fst ` set (db_attempt db)" and path: "f_relative_path f =
        published_directory (sd_stage_id d) (cache_of env d) i' @ ''/'' @ pl_relative_path p"
      using rows [OF f] unfolding exportable_row_def by blast
    obtain s' k' where w': "well_named i' s' k'" and k': "k' \<le> n"
      using exportable_attempt [OF e g k] by metis
    have "k < 10 ^ 8" using well_named_unique [OF w w'] k' n by simp
    then have "length i' \<le> B + 50" using length_attempt_name [OF w] sids [OF d] by fastforce
    then have "length (f_relative_path f) \<le> 3 * B + 127"
      using sids [OF d] payload [OF d p] m(3) by (simp add: path published_directory_def)
    moreover have "length (f_sha256 f) = 64" using rows [OF f] by (simp add: exportable_row_def is_sha256_def)
    moreover have "length (show_int (int (f_byte_count f))) \<le> B"
      using length_show_nat [OF B] payload [OF d p] m(2) by (simp add: show_int_def)
    moreover have "length (f_media_type f) \<le> B" using m(1) payload [OF d p] by simp
    ultimately show ?thesis by (simp add: xf reference_dump_def)
  qed
  have references: "json_weight (JList (map reference_dump (rd_artifacts r))) \<le> 2 + C * (1387 + 25 * B)"
  proof -
    have "json_weight (JList (map reference_dump (rd_artifacts r)))
        = 2 + sum_list (map (\<lambda>x. json_weight (reference_dump x) + 1) (rd_artifacts r))" by (simp add: comp_def)
    also have "\<dots> \<le> 2 + length (rd_artifacts r) * (1387 + 25 * B)"
      using reference by (intro add_left_mono sum_list_le) fastforce
    also have "length (rd_artifacts r) \<le> C" using count by (simp add: r exported_run_def artifact_rows_def)
    finally show ?thesis by simp
  qed
  have inputs: "length (rd_sequence_id r) \<le> B" "length (rd_road_graph_id r) \<le> B" "length (rd_profile_id r) \<le> B"
    "length (rd_engine_version r) \<le> B" "rd_run_id r = run_id" "rd_stages r = stages"
    "rd_configuration_hashes r = ri_configuration_hashes (en_inputs env)"
    using b by (simp_all add: r exported_run_def bounded_by_def)
  define X Y Z where "X = C * (6 * B + 390)" and "Y = C * (624 + 12 * B)" and "Z = C * (1387 + 25 * B)"
  define V where "V = C * (C * (6 * B + 390))"
  have "C * (624 + 12 * B + C * (6 * B + 390)) = Y + V" by (simp add: Y_def V_def algebra_simps)
  moreover have "X + Y + Z \<le> C * (3000 + 60 * B)" by (simp add: X_def Y_def Z_def algebra_simps)
  moreover have "V \<le> C * (C * (6 * B + 400))" by (simp add: V_def)
  moreover have "json_weight (run_dump r) \<le> 3000 + 24 * B + (2 + X) + (2 + (Y + V)) + (2 + Z)"
    using conf stages references inputs(1-4) i state [of "rd_state r"] \<open>C * _ = Y + V\<close>
    unfolding X_def [symmetric] Z_def [symmetric]
    by (simp add: run_dump_def inputs(5-) del: json_weight.simps(6,7)) (simp add: json_weight.simps(7))
  ultimately show ?thesis by linarith
qed

lemma length_cache_of: "(\<And>x. is_sha256 (en_sha env x)) \<Longrightarrow> length (cache_of env d) \<le> 64"
  by (auto simp: cache_of_def stage_cache_def stage_key_def build_stage_cache_key_def cache_key_document_def canonical_sha256_eq
      is_sha256_def split: sum.split)

lemma weight_manifest:
  assumes e: "exportable env" and b: "bounded_by env B C" and d: "d \<in> set definitions" and B: "0 < B"
    and w: "well_named i (sd_stage_id d) n" and n: "n < 10 ^ 8"
  shows "json_weight (manifest_dump (ideal_manifest env d i n)) \<le> 2000 + 30 * B + C * (801 + 19 * B)"
proof -
  have sha: "is_sha256 (en_sha env x)" for x using e by (simp add: exportable_def)
  have payload: "length (pl_artifact_key p) \<le> B \<and> length (pl_relative_path p) \<le> B \<and>
       length (pl_media_type p) \<le> B \<and> length (pl_content p) < 10 ^ B"
    if "p \<in> set (payloads_of env d)" for p
    using that d b by (auto simp: bounded_by_def list_all_iff)
  have entry: "json_weight (entry_dump (entry_of (en_sha env) p)) \<le> 800 + 19 * B" if "p \<in> set (payloads_of env d)" for p
  proof -
    have "length (show_int (int (length (pl_content p)))) \<le> B"
      using length_show_nat [OF B] payload [OF that] by (simp add: show_int_def)
    then show ?thesis
      using payload [OF that] sha [of "pl_content p"] by (simp add: entry_dump_def entry_of_def is_sha256_def)
  qed
  have "length (payloads_of env d) \<le> length (concat (map (payloads_of env) definitions))"
    using split_list [OF d] by auto
  then have count: "length (payloads_of env d) \<le> C" using b by (simp add: bounded_by_def)
  have "json_weight (JList (map entry_dump (map (entry_of (en_sha env)) (payloads_of env d))))
      = 2 + sum_list (map (\<lambda>p. json_weight (entry_dump (entry_of (en_sha env) p)) + 1) (payloads_of env d))"
    by (simp add: comp_def)
  also have "\<dots> \<le> 2 + length (payloads_of env d) * (801 + 19 * B)"
    using entry by (intro add_left_mono sum_list_le) fastforce
  also have "\<dots> \<le> 2 + C * (801 + 19 * B)" using count by simp
  finally have entries: "json_weight (JList (map entry_dump (map (entry_of (en_sha env)) (payloads_of env d))))
      \<le> 2 + C * (801 + 19 * B)" .
  have i: "length i \<le> B + 50"
    using length_attempt_name [OF w n] b d by (auto simp: bounded_by_def list_all_iff)
  have k: "length (show_int (int n)) \<le> 8"
    using length_show_nat [of 8 n] n by (simp add: show_int_def)
  have s: "length (sd_stage_id d) \<le> B" "length (ri_workflow_id (en_inputs env)) \<le> B"
    using b d by (auto simp: bounded_by_def list_all_iff)
  define Z where "Z = C * (801 + 19 * B)"
  show ?thesis
    using entries i k s length_cache_of [OF sha, of d] unfolding Z_def [symmetric]
    by (simp add: manifest_dump_def ideal_manifest_def manifest_of_def del: json_weight.simps(6))
qed

text \<open>What \<open>smooth\<close> and \<open>fits\<close> ask of the sizes and of the run document, from finitely many facts
  about the environment.\<close>

lemma bounded_fits:
  assumes "exportable env" and "bounded_by env B C" and "0 < B" and "N < 10 ^ 8"
    and "2000 + 30 * B + C * (801 + 19 * B) < MAX_CONTROL_FILE_BYTES"
  shows "fits env N"
  unfolding fits_def manifest_fits_def
proof (intro ballI allI impI)
  fix d :: stage_definition and i n assume d: "d \<in> set definitions" and n: "0 < n \<and> n \<le> N \<and> well_named i (sd_stage_id d) n"
  then have "json_weight (manifest_dump (ideal_manifest env d i n)) \<le> 2000 + 30 * B + C * (801 + 19 * B)"
    using assms(4) by (intro weight_manifest [OF assms(1,2) d assms(3)]) auto
  then show "length (dumps (manifest_dump (ideal_manifest env d i n))) < MAX_CONTROL_FILE_BYTES"
    using length_dumps [of "manifest_dump (ideal_manifest env d i n)"] assms(5) by linarith
qed

lemma bounded_documents:
  assumes e: "exportable env" and b: "bounded_by env B C" and B: "0 < B" and g: "good env N db pub att n" and n: "n < 10 ^ 8"
    and size: "4000 + 40 * B + C * (3000 + 60 * B) + C * (C * (6 * B + 400)) < MAXIMUM_ARTIFACT_JSON_BYTES"
    and native: "\<And>r. en_native env (dumps (run_dump r)) ''cartosentry.run.v1'' = Inr (dumps (run_dump r))"
  shows "\<exists>doc. run_document_bytes (en_sha env) (en_native env) (en_inputs env) definitions db = Inr doc"
proof -
  obtain i where i: "run_id_of (en_sha env) (en_inputs env) = Inr i" using e by (auto simp: exportable_def)
  have "length i \<le> 100"
    using i e by (auto simp: run_id_of_def make_run_id_def make_identifier_eq exportable_def is_sha256_def)
  obtain r where r: "run_of (en_inputs env) definitions db i = Inr r" and c: "check_run (en_sha env) r = Inr ()"
    and d: "run_distinct r"
    by (rule good_exports [OF e g i])
  have "length (dumps (run_dump r)) < MAXIMUM_ARTIFACT_JSON_BYTES"
    using weight_exported [OF e b g n B r \<open>length i \<le> 100\<close>] length_dumps [of "run_dump r"] size by linarith
  then show ?thesis using run_document_ok [OF i r c d, where native = "en_native env"] native by blast
qed

end

end
