(* ===== verification/Recovery.thy ===== *)
theory Recovery
  imports RunExport
begin

text \<open>
  \<^verbatim>\<open>python/cartosentry/recovery.py\<close> and \<^verbatim>\<open>runstate_worker.py\<close>: the
  four-stage workflow the repository qualifies its run engine with, the command that runs or
  resumes it, the worker that is killed at a commit boundary, and the qualification itself, each
  of its run roots a \<open>world\<close>.  SHA-256 is \<open>sha256_hexdigest\<close>; the random suffixes of
  attempts (\<open>uuid\<close>) and the native canonicaliser (\<open>native\<close>) are parameters.
  A dictionary is kept in the order of its keys: every reader of it sorts them.
\<close>

section \<open>Inputs\<close>

definition DEMO_WORKFLOW_ID :: string where
  "DEMO_WORKFLOW_ID = ''resumable-stage-qualification-v1''"

definition EXPECTED_CRASH_EXIT_CODE :: int where
  "EXPECTED_CRASH_EXIT_CODE = 86"

definition key_order :: "(string \<times> string) list \<Rightarrow> (string \<times> string) list" where
  "key_order kvs = sort_key fst kvs"

definition label_digest :: "string \<Rightarrow> string" where
  "label_digest label = sha256_hexdigest label"

definition demo_source_hashes :: "(string \<times> string) list" where
  "demo_source_hashes = key_order
     [(''fixture-source'', label_digest ''resumable-stage-source-v1''),
      (''fixture-calibration'', label_digest ''resumable-stage-calibration-v1'')]"

definition demo_configuration_hashes :: "(string \<times> string) list" where
  "demo_configuration_hashes = key_order
     [(''adapter'', label_digest ''adapter-config-v1''),
      (''detector-thresholds'', label_digest ''detector-thresholds-v1''),
      (''policy'', label_digest ''policy-config-v1''),
      (''report-theme'', label_digest ''report-theme-v1'')]"

definition demo_run_inputs :: "run_inputs res" where
  "demo_run_inputs =
     bindE (make_sequence_id sha256_hexdigest (JDict [(''source_hashes'', dict_json demo_source_hashes)])) (\<lambda>sequence.
     bindE (make_road_graph_id sha256_hexdigest (JDict [(''graph'', JStr ''resumable-stage-graph-v1'')])) (\<lambda>graph.
     let r = \<lparr>ri_workflow_id = DEMO_WORKFLOW_ID, ri_sequence_id = sequence, ri_road_graph_id = graph,
              ri_profile_id = ''structural-preflight-v1'', ri_engine_version = ''0.1.0'',
              ri_source_hashes = demo_source_hashes, ri_configuration_hashes = demo_configuration_hashes,
              ri_numerical_backend = ''cpu-reference''\<rparr>
     in bindE (check_run_inputs sha256_hexdigest r) (\<lambda>_. Inr r)))"

section \<open>Stages\<close>

definition subscript :: "(string \<times> string) list \<Rightarrow> string \<Rightarrow> string res" where
  "subscript d k = (case map_of d k of None \<Rightarrow> Inl (KeyError k) | Some v \<Rightarrow> Inr v)"

definition json_payload :: "string \<Rightarrow> string \<Rightarrow> json \<Rightarrow> artifact_payload list res" where
  "json_payload artifact_key relative_path value0 =
     bindE (canonical_json_bytes value0) (\<lambda>b.
       Inr [\<lparr>pl_artifact_key = artifact_key, pl_relative_path = relative_path, pl_content = b @ [CHR 0x0A],
             pl_media_type = ''application/json''\<rparr>])"

definition normalize_execute :: "stage_context \<Rightarrow> artifact_payload list res" where
  "normalize_execute cx =
     bindE (subscript (ri_configuration_hashes (cx_inputs cx)) ''adapter'') (\<lambda>configuration.
       json_payload ''normalized'' ''normalized.json'' (JDict
         [(''adapter_configuration_sha256'', JStr configuration),
          (''source_hashes'', sorted_dict (ri_source_hashes (cx_inputs cx))),
          (''stage'', JStr (cx_stage_id cx))]))"

definition detect_execute :: "stage_context \<Rightarrow> artifact_payload list res" where
  "detect_execute cx =
     bindE (subscript (ri_configuration_hashes (cx_inputs cx)) ''detector-thresholds'') (\<lambda>configuration.
       json_payload ''findings'' ''findings.json'' (JDict
         [(''finding_count'', JInt 1),
          (''input_hashes'', sorted_dict (cx_upstream_artifact_hashes cx)),
          (''rule'', JStr ''fixture.timestamp-continuity''),
          (''stage'', JStr (cx_stage_id cx)),
          (''threshold_configuration_sha256'', JStr configuration)]))"

definition policy_execute :: "stage_context \<Rightarrow> artifact_payload list res" where
  "policy_execute cx =
     bindE (subscript (ri_configuration_hashes (cx_inputs cx)) ''policy'') (\<lambda>configuration.
       json_payload ''verdict'' ''verdict.json'' (JDict
         [(''input_hashes'', sorted_dict (cx_upstream_artifact_hashes cx)),
          (''policy_configuration_sha256'', JStr configuration),
          (''stage'', JStr (cx_stage_id cx)), (''verdict'', JStr ''FAIL'')]))"

definition report_execute :: "stage_context \<Rightarrow> artifact_payload list res" where
  "report_execute cx =
     bindE (subscript (ri_configuration_hashes (cx_inputs cx)) ''report-theme'') (\<lambda>configuration.
       json_payload ''report'' ''report.json'' (JDict
         [(''input_hashes'', sorted_dict (cx_upstream_artifact_hashes cx)),
          (''stage'', JStr (cx_stage_id cx)),
          (''theme_configuration_sha256'', JStr configuration)]))"

definition expected_fields :: "(string \<times> string list) list" where
  "expected_fields =
     [(''normalize'', [''adapter_configuration_sha256'', ''source_hashes'', ''stage'']),
      (''detect'', [''finding_count'', ''input_hashes'', ''rule'', ''stage'', ''threshold_configuration_sha256'']),
      (''policy'', [''input_hashes'', ''policy_configuration_sha256'', ''stage'', ''verdict'']),
      (''report'', [''input_hashes'', ''stage'', ''theme_configuration_sha256''])]"

text \<open>Plain \<open>json.loads\<close> keeps the last of duplicate keys and reads the non-finite constants;
  neither survives the comparison with the canonical bytes, a \<open>ValueError\<close> as well.\<close>

definition validate_demo_output :: "stage_context \<Rightarrow> artifact_payload \<Rightarrow> unit res" where
  "validate_demo_output cx p =
     bindE (ensure (pl_media_type p = ''application/json'')
        (ValueError ''qualification stage outputs must be JSON'')) (\<lambda>_.
     case json_loads (pl_content p) of
       Inl JSyntax \<Rightarrow> Inl (ValueError ''qualification stage output is invalid JSON'')
     | Inl _ \<Rightarrow> Inl (ValueError ''qualification stage output is not canonical JSON'')
     | Inr (JDict kvs) \<Rightarrow>
         (case map_of expected_fields (cx_stage_id cx) of
            None \<Rightarrow> Inl (KeyError (cx_stage_id cx))
          | Some names \<Rightarrow>
              bindE (ensure (set (map fst kvs) = set names)
                (ValueError ''qualification stage output schema does not match'')) (\<lambda>_.
              bindE (ensure (map_of kvs ''stage'' = Some (JStr (cx_stage_id cx)))
                (ValueError ''qualification stage output identity does not match'')) (\<lambda>_.
              bindE (assert_portable ''artifact'' (JDict kvs)) (\<lambda>_.
              bindE (canonical_json_bytes (JDict kvs)) (\<lambda>b.
                ensure (pl_content p = b @ [CHR 0x0A])
                  (ValueError ''qualification stage output is not canonical JSON''))))))
     | Inr _ \<Rightarrow> Inl (ValueError ''qualification stage output schema does not match''))"

definition validate_demo_outputs :: "stage_context \<Rightarrow> artifact_payload list \<Rightarrow> unit res" where
  "validate_demo_outputs cx payloads = bindE (mapE (validate_demo_output cx) payloads) (\<lambda>_. Inr ())"

definition demo_stage ::
  "string \<Rightarrow> string list \<Rightarrow> string \<Rightarrow> string \<Rightarrow> string \<Rightarrow> (stage_context \<Rightarrow> artifact_payload list res) \<Rightarrow> stage_definition"
where
  "demo_stage stage_id dependencies version configuration_key output_key execute =
     \<lparr>sd_stage_id = stage_id, sd_dependencies = dependencies, sd_algorithm_version = version,
      sd_relevant_configuration_keys = [configuration_key], sd_output_keys = [output_key],
      sd_execute = (\<lambda>_. execute), sd_validate_outputs = validate_demo_outputs\<rparr>"

definition demo_stage_definitions :: "stage_definition list" where
  "demo_stage_definitions =
     [demo_stage ''normalize'' [] ''normalize-v1'' ''adapter'' ''normalized'' normalize_execute,
      demo_stage ''detect'' [''normalize''] ''detect-v1'' ''detector-thresholds'' ''findings'' detect_execute,
      demo_stage ''policy'' [''detect''] ''policy-v1'' ''policy'' ''verdict'' policy_execute,
      demo_stage ''report'' [''policy''] ''report-v1'' ''report-theme'' ''report'' report_execute]"

section \<open>Running and resuming\<close>

definition demo_env :: "(nat \<Rightarrow> string) \<Rightarrow> (string \<Rightarrow> string \<Rightarrow> string res) \<Rightarrow> run_inputs \<Rightarrow> env" where
  "demo_env uuid native inputs =
     \<lparr>en_sha = sha256_hexdigest, en_uuid = uuid, en_native = native, en_inputs = inputs,
      en_definitions = demo_stage_definitions\<rparr>"

definition crash_at :: "commit_boundary option \<Rightarrow> string \<Rightarrow> crash_callback" where
  "crash_at crash_boundary crash_stage boundary stage_id =
     (if crash_boundary = Some boundary \<and> stage_id = crash_stage then Kill else Continue)"

text \<open>On a root that exists the inputs are those recorded there, so the ones of the environment
  are not read.\<close>

definition run_demo_pipeline ::
  "(nat \<Rightarrow> string) \<Rightarrow> (string \<Rightarrow> string \<Rightarrow> string res) \<Rightarrow> string option \<Rightarrow> bool \<Rightarrow> commit_boundary option \<Rightarrow>
   string \<Rightarrow> world option \<Rightarrow> run_report outcome \<times> world option" where
  "run_demo_pipeline uuid native force_stage dry_run crash_boundary crash_stage root =
     (case demo_run_inputs of
        Inl e \<Rightarrow> (Raised e, root)
      | Inr inputs \<Rightarrow>
          (let env = demo_env uuid native inputs; cb = crash_at crash_boundary crash_stage in
           case root of
             Some w \<Rightarrow> apsnd Some (run_session env force_stage dry_run cb w)
           | None \<Rightarrow>
               (case create_run env None of
                  (Done _, Some w) \<Rightarrow> apsnd Some (release (run env force_stage dry_run cb) w)
                | (Raised e, w) \<Rightarrow> (Raised e, w)
                | (_, w) \<Rightarrow> (Killed, w))))"

definition resume_registered_run ::
  "(nat \<Rightarrow> string) \<Rightarrow> (string \<Rightarrow> string \<Rightarrow> string res) \<Rightarrow> string option \<Rightarrow> bool \<Rightarrow> world \<Rightarrow>
   run_report outcome \<times> world" where
  "resume_registered_run uuid native force_stage dry_run w =
     (case load_run_inputs sha256_hexdigest (w_inputs w) of
        Inl e \<Rightarrow> (Raised e, w)
      | Inr inputs \<Rightarrow>
          (if ri_workflow_id inputs \<noteq> DEMO_WORKFLOW_ID
           then (Raised (ValueError ''unsupported persisted workflow''), w)
           else (case run_demo_pipeline uuid native force_stage dry_run None ''detect'' (Some w) of
                   (r, Some w') \<Rightarrow> (r, w') | (r, None) \<Rightarrow> (r, w))))"

text \<open>The exit status of the worker process: killed at the boundary, an uncaught exception, or a
  normal return.\<close>

definition worker_exit_code :: "'a outcome \<Rightarrow> int" where
  "worker_exit_code r =
     (case r of Killed \<Rightarrow> EXPECTED_CRASH_EXIT_CODE | Raised e \<Rightarrow> 1 | Done x \<Rightarrow> 0)"

definition crash_worker ::
  "(nat \<Rightarrow> string) \<Rightarrow> (string \<Rightarrow> string \<Rightarrow> string res) \<Rightarrow> commit_boundary \<Rightarrow> (int \<times> world) res" where
  "crash_worker uuid native boundary =
     (case run_demo_pipeline uuid native None False (Some boundary) ''detect'' None of
        (r, root) \<Rightarrow>
          (if worker_exit_code r \<noteq> EXPECTED_CRASH_EXIT_CODE
           then Inl (RuntimeError ''recovery worker did not terminate at the requested commit boundary'')
           else (case root of None \<Rightarrow> Inl (OSError ''No such directory'')
                   | Some w \<Rightarrow> Inr (worker_exit_code r, w))))"

section \<open>The qualification\<close>

definition all_boundaries :: "commit_boundary list" where
  "all_boundaries = [AFTER_DB_RUNNING, AFTER_OUTPUTS_FSYNCED, AFTER_MANIFEST_FSYNCED,
     AFTER_ARTIFACT_PUBLISHED, AFTER_POINTER_PUBLISHED, AFTER_DB_COMMITTED]"

record crash_recovery_case =
  cc_boundary :: commit_boundary
  cc_process_exit_code :: int
  cc_resumed_complete :: bool
  cc_semantic_sha256 :: string
  cc_matches_uninterrupted :: bool
  cc_recovery_actions :: "stage_action list"

text \<open>A call in the qualifying process: its exceptions end the qualification.\<close>

definition completed :: "'a outcome \<times> world \<Rightarrow> ('a \<times> world) res" where
  "completed rw = (case rw of
     (Done x, w) \<Rightarrow> Inr (x, w) | (Raised e, w) \<Rightarrow> Inl e | (Killed, w) \<Rightarrow> Inl (RuntimeError ''killed''))"

definition started :: "'a outcome \<times> world option \<Rightarrow> ('a \<times> world) res" where
  "started rw = (case rw of
     (Done x, Some w) \<Rightarrow> Inr (x, w) | (Raised e, w) \<Rightarrow> Inl e | (_, w) \<Rightarrow> Inl (RuntimeError ''killed''))"

definition qualify_boundary ::
  "(nat \<Rightarrow> string) \<Rightarrow> (string \<Rightarrow> string \<Rightarrow> string res) \<Rightarrow> string \<Rightarrow> commit_boundary \<Rightarrow> crash_recovery_case res" where
  "qualify_boundary uuid native uninterrupted boundary =
     bindE (crash_worker uuid native boundary) (\<lambda>(return_code, w).
     bindE (completed (resume_registered_run uuid native None False w)) (\<lambda>(resumed, _).
       case rr_semantic_sha256 resumed of
         None \<Rightarrow> Inl (RuntimeError ''resumed qualification run did not complete'')
       | Some h \<Rightarrow> Inr \<lparr>cc_boundary = boundary, cc_process_exit_code = return_code,
           cc_resumed_complete = rr_complete resumed, cc_semantic_sha256 = h,
           cc_matches_uninterrupted = (h = uninterrupted),
           cc_recovery_actions = map ac_action (rr_actions resumed)\<rparr>))"

definition adopts_orphan :: "crash_recovery_case \<Rightarrow> bool" where
  "adopts_orphan c \<longleftrightarrow> cc_boundary c \<in> {AFTER_ARTIFACT_PUBLISHED, AFTER_POINTER_PUBLISHED} \<and>
     list_ex (\<lambda>a. a = ADOPTED_PUBLISHED \<or> a = REPAIRED_POINTER) (cc_recovery_actions c)"

definition unlink_pointer :: "string \<Rightarrow> world \<Rightarrow> world res" where
  "unlink_pointer stage_id w =
     (if w_completions w stage_id = NoEntry then Inl (OSError ''No such file'')
      else Inr (w\<lparr>w_completions := (w_completions w)(stage_id := NoEntry)\<rparr>))"

definition qualify_stale_pointer ::
  "(nat \<Rightarrow> string) \<Rightarrow> (string \<Rightarrow> string \<Rightarrow> string res) \<Rightarrow> bool res" where
  "qualify_stale_pointer uuid native =
     bindE (started (run_demo_pipeline uuid native None False None ''detect'' None)) (\<lambda>(clean, w).
     bindE (unlink_pointer ''policy'' w) (\<lambda>w.
     bindE (completed (resume_registered_run uuid native None False w)) (\<lambda>(resumed, w).
       Inr (rr_semantic_sha256 resumed = rr_semantic_sha256 clean
         \<and> (\<exists>c. w_completions w ''policy'' = RegularFile c)
         \<and> list_ex (\<lambda>a. ac_stage_id a = ''policy'' \<and> ac_action a = REPAIRED_POINTER) (rr_actions resumed)))))"

text \<open>\<open>completions/<stage>.json\<close> read without the bounded reader, and the file of the attempt it
  names removed.\<close>

definition stored_pointer :: "world \<Rightarrow> string \<Rightarrow> completion_pointer res" where
  "stored_pointer w stage_id =
     (case w_completions w stage_id of
        RegularFile content \<Rightarrow>
          (case json_loads content of
             Inl _ \<Rightarrow> Inl (ValueError ''invalid JSON'')
           | Inr v \<Rightarrow> pointer_validate v)
      | _ \<Rightarrow> Inl (OSError ''No such file''))"

definition unlink_artifact :: "completion_pointer \<Rightarrow> string \<Rightarrow> world \<Rightarrow> world res" where
  "unlink_artifact pointer path w =
     (case split_on (CHR ''/'') (p_artifact_directory pointer) of
        [parent, s, c, i] \<Rightarrow>
          (case w_published w (s, c) of
             Some (CacheRoot entries) \<Rightarrow>
               (case map_of entries i of
                  Some (RealDirectory d) \<Rightarrow>
                    (if parent = ''artifacts'' \<and> map_of d path \<noteq> None
                     then Inr (w\<lparr>w_published := (w_published w)((s, c) \<mapsto> CacheRoot
                       (alist_put i (RealDirectory (filter (\<lambda>(p, _). p \<noteq> path) d)) entries))\<rparr>)
                     else Inl (OSError ''No such file''))
                | _ \<Rightarrow> Inl (OSError ''No such file''))
           | _ \<Rightarrow> Inl (OSError ''No such file''))
      | _ \<Rightarrow> Inl (OSError ''No such file''))"

definition state_of_stage :: "run_report \<Rightarrow> string \<Rightarrow> stage_state res" where
  "state_of_stage r s = (case map_of (rr_stage_states r) s of None \<Rightarrow> Inl (KeyError s) | Some st \<Rightarrow> Inr st)"

definition qualify_missing_artifact ::
  "(nat \<Rightarrow> string) \<Rightarrow> (string \<Rightarrow> string \<Rightarrow> string res) \<Rightarrow> (stage_state \<times> bool) res" where
  "qualify_missing_artifact uuid native =
     bindE (started (run_demo_pipeline uuid native None False None ''detect'' None)) (\<lambda>(_, w).
     bindE (stored_pointer w ''policy'') (\<lambda>pointer.
     bindE (unlink_artifact pointer ''verdict.json'' w) (\<lambda>w.
     bindE (completed (resume_registered_run uuid native None False w)) (\<lambda>(first, w).
     bindE (completed (resume_registered_run uuid native None False w)) (\<lambda>(second, _).
     bindE (state_of_stage first ''policy'') (\<lambda>missing_state.
     bindE (state_of_stage second ''policy'') (\<lambda>second_state.
       Inr (missing_state, missing_state = FAILED_FINAL \<and> second_state = FAILED_FINAL
         \<and> rr_semantic_sha256 first = None \<and> rr_semantic_sha256 second = None))))))))"

definition attempt_counts ::
  "(nat \<Rightarrow> string) \<Rightarrow> (string \<Rightarrow> string \<Rightarrow> string res) \<Rightarrow> world \<Rightarrow> ((string \<times> nat) list \<times> world) res" where
  "attempt_counts uuid native w =
     bindE (load_run_inputs sha256_hexdigest (w_inputs w)) (\<lambda>inputs.
     completed (bindS (open_engine (demo_env uuid native inputs)) (\<lambda>_.
       release (query (\<lambda>db. mapE (\<lambda>d. bindE (stage_row db (sd_stage_id d)) (\<lambda>row.
         Inr (sd_stage_id d, r_attempt_counter row))) demo_stage_definitions))) w))"

text \<open>\<open>_control_file_hashes\<close>; the files below \<^verbatim>\<open>completions\<close> are those of the stages.\<close>

definition file_hash :: "string \<times> fs_node \<Rightarrow> (string \<times> string) res" where
  "file_hash pn = (case pn of
     (path, RegularFile content) \<Rightarrow> Inr (path, sha256_hexdigest content)
   | (path, _) \<Rightarrow> Inl (OSError ''No such file''))"

definition control_file_hashes :: "world \<Rightarrow> (string \<times> string) list res" where
  "control_file_hashes w =
     mapE file_hash
       ([(''run-inputs.json'', w_inputs w), (''run.json'', w_run_artifact w)] @
        map (\<lambda>s. (''completions/'' @ s @ ''.json'', w_completions w s))
          (filter (\<lambda>s. w_completions w s \<noteq> NoEntry) (sort (map sd_stage_id demo_stage_definitions))))"

record forced_evidence =
  fe_clean :: "string option"
  fe_dry_scope :: "string list"
  fe_forced_scope :: "string list"
  fe_forced :: string
  fe_preserved_attempts :: bool
  fe_preserved_control_state :: bool
  fe_attempt_counts_exact :: bool

definition expected_scope :: "string list" where
  "expected_scope = [''detect'', ''policy'', ''report'']"

definition count_of :: "(string \<times> nat) list \<Rightarrow> string \<Rightarrow> nat" where
  "count_of counts s = (case map_of counts s of None \<Rightarrow> 0 | Some n \<Rightarrow> n)"

definition qualify_forced ::
  "(nat \<Rightarrow> string) \<Rightarrow> (string \<Rightarrow> string \<Rightarrow> string res) \<Rightarrow> forced_evidence res" where
  "qualify_forced uuid native =
     bindE (started (run_demo_pipeline uuid native None False None ''detect'' None)) (\<lambda>(clean, w).
     bindE (attempt_counts uuid native w) (\<lambda>(counts_before, w).
     bindE (control_file_hashes w) (\<lambda>controls_before.
     bindE (completed (resume_registered_run uuid native (Some ''detect'') True w)) (\<lambda>(dry, w).
     bindE (attempt_counts uuid native w) (\<lambda>(counts_after_dry_run, w).
     bindE (control_file_hashes w) (\<lambda>controls_after_dry_run.
     bindE (completed (resume_registered_run uuid native (Some ''detect'') False w)) (\<lambda>(forced, w).
     case rr_semantic_sha256 forced of
       None \<Rightarrow> Inl (RuntimeError ''forced qualification run did not complete'')
     | Some h \<Rightarrow>
     bindE (attempt_counts uuid native w) (\<lambda>(counts_after_force, w).
       Inr \<lparr>fe_clean = rr_semantic_sha256 clean, fe_dry_scope = rr_forced_scope dry,
            fe_forced_scope = rr_forced_scope forced, fe_forced = h,
            fe_preserved_attempts = (counts_before = counts_after_dry_run),
            fe_preserved_control_state = (controls_before = controls_after_dry_run),
            fe_attempt_counts_exact =
              (count_of counts_after_force ''normalize'' = count_of counts_before ''normalize'' \<and>
               list_all (\<lambda>s. count_of counts_after_force s = count_of counts_before s + 1) expected_scope)\<rparr>))))))))"

text \<open>\<open>_cache_contract_checks\<close>: the key of the detection stage against single changes of its
  inputs.\<close>

definition detect_key ::
  "run_inputs \<Rightarrow> (string \<times> string) list \<Rightarrow> (string \<times> string) list \<Rightarrow> (string \<times> string) list \<Rightarrow> string \<Rightarrow> string res"
where
  "detect_key inputs sources upstream configuration backend =
     build_stage_cache_key sha256_hexdigest (ri_workflow_id inputs) ''detect'' sources upstream configuration
       ''detect-v1'' backend"

definition normalize_key :: "run_inputs \<Rightarrow> string \<Rightarrow> string res" where
  "normalize_key inputs adapter =
     build_stage_cache_key sha256_hexdigest (ri_workflow_id inputs) ''normalize'' (ri_source_hashes inputs) []
       [(''adapter'', adapter)] ''normalize-v1'' (ri_numerical_backend inputs)"

definition cache_contract_checks :: "(string \<times> bool) list res" where
  "cache_contract_checks =
     bindE demo_run_inputs (\<lambda>inputs.
     let upstream = [(''normalize:normalized'', label_digest ''normalized-output'')];
         sources = ri_source_hashes inputs; backend = ri_numerical_backend inputs in
     bindE (subscript (ri_configuration_hashes inputs) ''detector-thresholds'') (\<lambda>thresholds.
     bindE (subscript (ri_configuration_hashes inputs) ''adapter'') (\<lambda>adapter.
     let relevant = [(''detector-thresholds'', thresholds)] in
     bindE (detect_key inputs sources upstream relevant backend) (\<lambda>detect.
     bindE (detect_key inputs sources upstream relevant backend) (\<lambda>theme.
     bindE (detect_key inputs sources upstream [(''detector-thresholds'', label_digest ''different-thresholds'')] backend) (\<lambda>threshold.
     bindE (detect_key inputs sources upstream relevant ''different-backend'') (\<lambda>other_backend.
     bindE (detect_key inputs (alist_put ''fixture-source'' (label_digest ''different-source'') sources) upstream relevant backend) (\<lambda>source.
     bindE (detect_key inputs sources [(''normalize:normalized'', label_digest ''different-normalized-output'')] relevant backend) (\<lambda>other_upstream.
     bindE (normalize_key inputs adapter) (\<lambda>normalize_reference.
     bindE (normalize_key inputs (label_digest ''different-adapter'')) (\<lambda>normalize_changed.
       Inr [(''cache_key_is_sha256'', length detect = 64),
            (''report_theme_does_not_invalidate_detection'', theme = detect),
            (''thresholds_invalidate_detection'', threshold \<noteq> detect),
            (''backend_invalidates_detection'', other_backend \<noteq> detect),
            (''source_invalidates_detection'', source \<noteq> detect),
            (''upstream_invalidates_detection'', other_upstream \<noteq> detect),
            (''adapter_invalidates_normalization'', normalize_changed \<noteq> normalize_reference)])))))))))))"

record run_recovery_qualification =
  rq_accepted :: bool
  rq_uninterrupted :: string
  rq_crash_cases :: "crash_recovery_case list"
  rq_stale_pointer_repaired :: bool
  rq_orphaned_publish_adopted :: bool
  rq_missing_artifact_state :: stage_state
  rq_missing_artifact_reconciliation_stable :: bool
  rq_forced_scope :: "string list"
  rq_force_scope_exact :: bool
  rq_forced_semantic_sha256 :: string
  rq_force_matches_uninterrupted :: bool
  rq_dry_run_preserved_attempts :: bool
  rq_dry_run_preserved_control_state :: bool
  rq_force_attempt_counts_exact :: bool
  rq_cache_contract_checks :: "(string \<times> bool) list"
  rq_interruption_case_count :: nat

definition case_accepted :: "crash_recovery_case \<Rightarrow> bool" where
  "case_accepted c \<longleftrightarrow>
     cc_process_exit_code c = EXPECTED_CRASH_EXIT_CODE \<and> cc_resumed_complete c \<and> cc_matches_uninterrupted c"

definition qualification_of ::
  "string \<Rightarrow> crash_recovery_case list \<Rightarrow> bool \<Rightarrow> stage_state \<times> bool \<Rightarrow> forced_evidence \<Rightarrow> (string \<times> bool) list \<Rightarrow>
   run_recovery_qualification" where
  "qualification_of uninterrupted cases stale missing forced cache_checks =
     (let orphaned = list_ex adopts_orphan cases;
          scope_exact = (fe_forced_scope forced = expected_scope);
          exact = (fe_dry_scope forced = expected_scope \<and> fe_preserved_attempts forced
            \<and> fe_preserved_control_state forced \<and> fe_attempt_counts_exact forced);
          accepted = (list_all case_accepted cases \<and> stale \<and> orphaned \<and> snd missing \<and> scope_exact
            \<and> fe_forced forced = uninterrupted \<and> fe_clean forced = Some uninterrupted \<and> exact
            \<and> list_all snd cache_checks)
      in \<lparr>rq_accepted = accepted, rq_uninterrupted = uninterrupted, rq_crash_cases = cases,
          rq_stale_pointer_repaired = stale, rq_orphaned_publish_adopted = orphaned,
          rq_missing_artifact_state = fst missing, rq_missing_artifact_reconciliation_stable = snd missing,
          rq_forced_scope = fe_forced_scope forced, rq_force_scope_exact = scope_exact,
          rq_forced_semantic_sha256 = fe_forced forced,
          rq_force_matches_uninterrupted = (fe_forced forced = uninterrupted),
          rq_dry_run_preserved_attempts = fe_preserved_attempts forced,
          rq_dry_run_preserved_control_state = fe_preserved_control_state forced,
          rq_force_attempt_counts_exact = fe_attempt_counts_exact forced,
          rq_cache_contract_checks = cache_checks, rq_interruption_case_count = length cases\<rparr>)"

text \<open>Every run root has suffixes of its own: \<open>uuids\<close> is indexed by the name of the root.\<close>

definition boundary_name :: "commit_boundary \<Rightarrow> string" where
  "boundary_name b = (case b of
     AFTER_DB_RUNNING \<Rightarrow> ''after-db-running'' | AFTER_OUTPUTS_FSYNCED \<Rightarrow> ''after-outputs-fsynced''
   | AFTER_MANIFEST_FSYNCED \<Rightarrow> ''after-manifest-fsynced'' | AFTER_ARTIFACT_PUBLISHED \<Rightarrow> ''after-artifact-published''
   | AFTER_POINTER_PUBLISHED \<Rightarrow> ''after-pointer-published'' | AFTER_DB_COMMITTED \<Rightarrow> ''after-db-committed'')"

definition qualify_run_recovery ::
  "(string \<Rightarrow> nat \<Rightarrow> string) \<Rightarrow> (string \<Rightarrow> string \<Rightarrow> string res) \<Rightarrow> bool \<Rightarrow> run_recovery_qualification res" where
  "qualify_run_recovery uuids native output_exists =
     bindE (ensure (\<not> output_exists)
        (ValueError ''run recovery qualification output must not already exist'')) (\<lambda>_.
     bindE (started (run_demo_pipeline (uuids ''uninterrupted'') native None False None ''detect'' None)) (\<lambda>(clean, _).
     case (rr_complete clean, rr_semantic_sha256 clean) of
       (True, Some uninterrupted) \<Rightarrow>
         bindE (mapE (\<lambda>b. qualify_boundary (uuids (''crash-'' @ boundary_name b)) native uninterrupted b) all_boundaries) (\<lambda>cases.
         bindE (qualify_stale_pointer (uuids ''stale-pointer'') native) (\<lambda>stale.
         bindE (qualify_missing_artifact (uuids ''missing-artifact'') native) (\<lambda>missing.
         bindE (qualify_forced (uuids ''forced'') native) (\<lambda>forced.
         bindE cache_contract_checks (\<lambda>cache_checks.
           Inr (qualification_of uninterrupted cases stale missing forced cache_checks))))))
     | _ \<Rightarrow> Inl (RuntimeError ''uninterrupted qualification run did not complete'')))"

end
