(* ===== verification/RecoveryCorrect.thy ===== *)
theory RecoveryCorrect
  imports Recovery
begin

text \<open>
  The qualification workflow is a smooth environment of the engine.
\<close>

section \<open>Inputs\<close>

lemma label_digest_sha [simp]: "is_sha256 (label_digest l)"
  by (simp add: label_digest_def sha256.sha_hex)

lemma sha256_portable [simp]: "is_sha256 h \<Longrightarrow> \<not> path_leak h"
  by (rule identifier_portable [OF sha256_identifier])

lemma demo_source_hashes_eq: "demo_source_hashes =
  [(''fixture-calibration'', label_digest ''resumable-stage-calibration-v1''),
   (''fixture-source'', label_digest ''resumable-stage-source-v1'')]"
  by (simp add: demo_source_hashes_def key_order_def)

lemma demo_configuration_hashes_eq: "demo_configuration_hashes =
     [(''adapter'', label_digest ''adapter-config-v1''),
      (''detector-thresholds'', label_digest ''detector-thresholds-v1''),
      (''policy'', label_digest ''policy-config-v1''),
      (''report-theme'', label_digest ''report-theme-v1'')]"
  by (simp add: demo_configuration_hashes_def key_order_def)

lemma demo_keys [simp]:
  "lower ''fixture-calibration'' \<notin> set FORBIDDEN_PORTABLE_KEYS" "lower ''fixture-source'' \<notin> set FORBIDDEN_PORTABLE_KEYS"
  "lower ''adapter'' \<notin> set FORBIDDEN_PORTABLE_KEYS" "lower ''detector-thresholds'' \<notin> set FORBIDDEN_PORTABLE_KEYS"
  "lower ''policy'' \<notin> set FORBIDDEN_PORTABLE_KEYS" "lower ''report-theme'' \<notin> set FORBIDDEN_PORTABLE_KEYS"
  by (simp_all add: lower_def lower_char_def FORBIDDEN_PORTABLE_KEYS_def)

definition demo_inputs :: run_inputs where
  "demo_inputs =
     \<lparr>ri_workflow_id = DEMO_WORKFLOW_ID,
      ri_sequence_id = ''sequence-sha256-'' @
        sha256_hexdigest (dumps (JDict [(''source_hashes'', dict_json demo_source_hashes)])),
      ri_road_graph_id = ''road-graph-sha256-'' @
        sha256_hexdigest (dumps (JDict [(''graph'', JStr ''resumable-stage-graph-v1'')])),
      ri_profile_id = ''structural-preflight-v1'', ri_engine_version = ''0.1.0'',
      ri_source_hashes = demo_source_hashes, ri_configuration_hashes = demo_configuration_hashes,
      ri_numerical_backend = ''cpu-reference''\<rparr>"

lemma demo_portable [simp]:
  "portable (dict_json demo_source_hashes)" "portable (dict_json demo_configuration_hashes)"
  by (simp_all add: dict_json_def demo_source_hashes_eq demo_configuration_hashes_eq)

lemma demo_texts_portable [simp]:
  "\<not> path_leak ''resumable-stage-graph-v1''" "\<not> path_leak ''structural-preflight-v1''" "\<not> path_leak ''0.1.0''"
  "\<not> path_leak ''cpu-reference''" "\<not> path_leak DEMO_WORKFLOW_ID"
  by (rule plain_text_portable; simp add: DEMO_WORKFLOW_ID_def)+

lemma sorted_dict_dict_json: "sort_key fst kvs = kvs \<Longrightarrow> sorted_dict kvs = dict_json kvs"
  by (simp add: sorted_dict_def dict_json_def)

lemma demo_sorted [simp]:
  "sort_key fst demo_source_hashes = demo_source_hashes"
  "sort_key fst demo_configuration_hashes = demo_configuration_hashes"
  by (simp_all add: demo_source_hashes_def demo_configuration_hashes_def key_order_def)

lemma demo_text_maps [simp]: "check_text_map demo_source_hashes" "check_text_map demo_configuration_hashes"
  by (simp_all add: check_text_map_def demo_source_hashes_eq demo_configuration_hashes_eq is_identifier_def
      is_alnum_def is_lower_def is_digit_def)

lemma dict_json_finite_doc [simp]: "json_finite (JDict [(k, dict_json kvs)])"
  by simp

lemma demo_names [simp]:
  "is_identifier DEMO_WORKFLOW_ID" "is_identifier ''structural-preflight-v1''" "is_identifier ''cpu-reference''"
  "is_semantic_version ''0.1.0''"
  by (simp_all add: DEMO_WORKFLOW_ID_def is_identifier_def is_alnum_def is_lower_def is_digit_def
      is_semantic_version_def is_decimal_def)

lemma demo_stable_ids [simp]:
  "is_stable_id (''sequence-sha256-'' @ sha256_hexdigest x)" "is_stable_id (''road-graph-sha256-'' @ sha256_hexdigest x)"
  "is_stable_id (''run-sha256-'' @ sha256_hexdigest x)"
  using stable_id_shape [OF sha256.sha_hex, of "''sequence''" x] stable_id_shape [OF sha256.sha_hex, of "''road-graph''" x]
    stable_id_shape [OF sha256.sha_hex, of "''run''" x]
  by (simp_all add: is_lower_def)

lemma demo_stable [simp]: "is_stable_id (ri_sequence_id demo_inputs)" "is_stable_id (ri_road_graph_id demo_inputs)"
  by (simp_all only: demo_inputs_def run_inputs.select_convs demo_stable_ids)

lemma demo_inputs_fields [simp]:
  "ri_workflow_id demo_inputs = DEMO_WORKFLOW_ID" "ri_profile_id demo_inputs = ''structural-preflight-v1''"
  "ri_engine_version demo_inputs = ''0.1.0''" "ri_source_hashes demo_inputs = demo_source_hashes"
  "ri_configuration_hashes demo_inputs = demo_configuration_hashes" "ri_numerical_backend demo_inputs = ''cpu-reference''"
  by (simp_all add: demo_inputs_def)

lemma demo_sequence_id:
  "make_sequence_id sha256_hexdigest (JDict [(''source_hashes'', dict_json demo_source_hashes)])
     = Inr (ri_sequence_id demo_inputs)"
  unfolding make_sequence_id_def make_identifier_eq by (simp add: demo_inputs_def del: dumps.simps)

lemma check_demo_inputs: "check_run_inputs sha256_hexdigest demo_inputs = Inr ()"
proof -
  have "demo_source_hashes \<noteq> []" by (simp add: demo_source_hashes_eq)
  then have "validate_source_identity sha256_hexdigest demo_inputs = Inr ()"
    using demo_sequence_id by (simp add: validate_source_identity_def sorted_dict_dict_json)
  then show ?thesis by (simp add: check_run_inputs_def)
qed

lemma demo_run_inputs_eq: "demo_run_inputs = Inr demo_inputs"
proof -
  have g: "make_road_graph_id sha256_hexdigest (JDict [(''graph'', JStr ''resumable-stage-graph-v1'')])
      = Inr (ri_road_graph_id demo_inputs)"
    unfolding make_road_graph_id_def make_identifier_eq by (simp add: demo_inputs_def del: dumps.simps)
  have rec: "\<lparr>ri_workflow_id = DEMO_WORKFLOW_ID, ri_sequence_id = ri_sequence_id demo_inputs,
      ri_road_graph_id = ri_road_graph_id demo_inputs, ri_profile_id = ''structural-preflight-v1'',
      ri_engine_version = ''0.1.0'', ri_source_hashes = demo_source_hashes,
      ri_configuration_hashes = demo_configuration_hashes, ri_numerical_backend = ''cpu-reference''\<rparr> = demo_inputs" (is "?r = _")
    by (simp add: demo_inputs_def)
  have "demo_run_inputs = bindE (check_run_inputs sha256_hexdigest ?r) (\<lambda>_. Inr ?r)"
    unfolding demo_run_inputs_def demo_sequence_id g bindE_Inr Let_def ..
  then show ?thesis unfolding rec check_demo_inputs bindE_Inr .
qed

section \<open>The environment\<close>

lemma demo_stage_fields [simp]:
  "sd_stage_id (demo_stage s ds v c k f) = s" "sd_dependencies (demo_stage s ds v c k f) = ds"
  "sd_algorithm_version (demo_stage s ds v c k f) = v" "sd_relevant_configuration_keys (demo_stage s ds v c k f) = [c]"
  "sd_output_keys (demo_stage s ds v c k f) = [k]" "sd_execute (demo_stage s ds v c k f) n = f"
  "sd_validate_outputs (demo_stage s ds v c k f) = validate_demo_outputs"
  by (simp_all add: demo_stage_def)

lemma demo_stage_texts:
  "list_all stage_id_char ''normalize''" "list_all stage_id_char ''detect''" "list_all stage_id_char ''policy''"
  "list_all stage_id_char ''report''" "list_all version_char ''normalize-v1''" "list_all version_char ''detect-v1''"
  "list_all version_char ''policy-v1''" "list_all version_char ''report-v1''"
  by code_simp+

lemma demo_definitions_valid: "validate_stage_definitions demo_stage_definitions = Inr ()"
  unfolding validate_stage_definitions_def demo_stage_definitions_def
  by (simp add: validate_stage_def demo_stage_texts del: list.pred_inject)

lemma demo_executors: "d \<in> set demo_stage_definitions \<Longrightarrow> sd_execute d n cx = sd_execute d 0 cx"
  by (auto simp: demo_stage_definitions_def demo_stage_def)

lemma demo_env_fields [simp]:
  "en_sha (demo_env uuid native inputs) = sha256_hexdigest" "en_uuid (demo_env uuid native inputs) = uuid"
  "en_native (demo_env uuid native inputs) = native" "en_inputs (demo_env uuid native inputs) = inputs"
  "en_definitions (demo_env uuid native inputs) = demo_stage_definitions"
  by (simp_all add: demo_env_def)

lemma demo_run_environment:
  "(\<And>n. uuid_text (uuid n)) \<Longrightarrow> run_environment (demo_env uuid native inputs)"
  by unfold_locales (auto simp: demo_definitions_valid intro: demo_executors)

text \<open>A source of distinct suffixes, for closed examples.\<close>

definition counter_uuid :: "nat \<Rightarrow> string" where
  "counter_uuid n = map (\<lambda>i. hex_char (n div 16 ^ (31 - i) mod 16)) [0..<32]"

lemma counter_uuid_text [simp]: "uuid_text (counter_uuid n)"
  by (simp add: uuid_text_def counter_uuid_def list_all_iff is_hex_lower_hex_char)

definition demo :: env where
  "demo = demo_env counter_uuid (\<lambda>source schema. Inr source) demo_inputs"

interpretation demo: run_environment demo
  unfolding demo_def by (rule demo_run_environment) simp

section \<open>The stages\<close>

definition demo_payload :: "string \<Rightarrow> string \<Rightarrow> json \<Rightarrow> artifact_payload" where
  "demo_payload k path v = \<lparr>pl_artifact_key = k, pl_relative_path = path, pl_content = dumps v @ [CHR 0x0A],
     pl_media_type = ''application/json''\<rparr>"

lemma json_finite_canon: "json_finite v \<Longrightarrow> json_finite (canon v)"
  by (induction v) (auto simp: list_all_iff)

lemma map_of_canon_dict:
  "distinct (map fst kvs) \<Longrightarrow> map_of (map (\<lambda>(k, v). (k, canon v)) (sort_key fst kvs)) k = map_option canon (map_of kvs k)"
  by (simp add: map_of_canon map_of_sort_key_fst)

lemma validate_demo_payload:
  assumes ok: "json_ok (JDict kvs)" "json_finite (JDict kvs)" "portable (JDict kvs)"
    and names: "map_of expected_fields (cx_stage_id cx) = Some names" "set (map fst kvs) = set names"
    and stage: "map_of kvs ''stage'' = Some (JStr (cx_stage_id cx))"
  shows "validate_demo_output cx (demo_payload k path (JDict kvs)) = Inr ()"
proof -
  let ?kvs = "map (\<lambda>(k, v). (k, canon v)) (sort_key fst kvs)"
  have "set (map fst ?kvs) = set (map fst kvs)" by (force simp: image_iff)
  moreover have "map_of ?kvs ''stage'' = Some (JStr (cx_stage_id cx))"
    using ok(1) stage by (simp add: map_of_canon_dict)
  moreover have "portable (JDict ?kvs)" using ok(3) portable_canon [of "JDict kvs"] unfolding canon_dict by blast
  moreover have "canonical_json_bytes (JDict ?kvs) = Inr (dumps (JDict kvs))"
    using ok(2,3) json_finite_canon [of "JDict kvs"] portable_canon [of "JDict kvs"] dumps_canon [of "JDict kvs"]
    unfolding canon_dict canonical_json_bytes_eq by simp
  moreover have "json_loads (dumps (JDict kvs) @ [CHR 0x0A]) = Inr (JDict ?kvs)"
    using json_loads_dumps_line [OF ok(1)] unfolding canon_dict .
  ultimately show ?thesis
    using names by (simp add: validate_demo_output_def demo_payload_def assert_portable_ok del: dumps.simps)
qed

lemma json_payload_eq:
  "portable v \<Longrightarrow> json_finite v \<Longrightarrow> json_payload k path v = Inr [demo_payload k path v]"
  by (simp add: json_payload_def demo_payload_def canonical_json_bytes_def assert_portable_ok json_dumps_def)

lemma checked_demo_stage:
  assumes f: "f cx = json_payload k path (JDict kvs)"
    and ok: "json_ok (JDict kvs)" "json_finite (JDict kvs)" "portable (JDict kvs)"
    and names: "map_of expected_fields (cx_stage_id cx) = Some names" "set (map fst kvs) = set names"
    and stage: "map_of kvs ''stage'' = Some (JStr (cx_stage_id cx))"
  shows "checked_payloads (demo_stage s ds v c k f) 0 cx = Inr [demo_payload k path (JDict kvs)]"
  using f ok validate_demo_payload [OF ok names stage]
  by (simp add: checked_payloads_def json_payload_eq validate_demo_outputs_def)
    (simp add: demo_payload_def)

text \<open>The four documents and their digests.\<close>

definition content_digest :: "json \<Rightarrow> string" where
  "content_digest v = sha256_hexdigest (dumps v @ [CHR 0x0A])"

lemma content_digest_sha [simp]: "is_sha256 (content_digest v)"
  by (simp add: content_digest_def sha256.sha_hex)

definition normalize_fields :: "(string \<times> json) list" where
  "normalize_fields =
     [(''adapter_configuration_sha256'', JStr (label_digest ''adapter-config-v1'')),
      (''source_hashes'', sorted_dict demo_source_hashes), (''stage'', JStr ''normalize'')]"

definition detect_fields :: "(string \<times> json) list" where
  "detect_fields =
     [(''finding_count'', JInt 1),
      (''input_hashes'', sorted_dict [(''normalize:normalized'', content_digest (JDict normalize_fields))]),
      (''rule'', JStr ''fixture.timestamp-continuity''), (''stage'', JStr ''detect''),
      (''threshold_configuration_sha256'', JStr (label_digest ''detector-thresholds-v1''))]"

definition policy_fields :: "(string \<times> json) list" where
  "policy_fields =
     [(''input_hashes'', sorted_dict [(''detect:findings'', content_digest (JDict detect_fields))]),
      (''policy_configuration_sha256'', JStr (label_digest ''policy-config-v1'')),
      (''stage'', JStr ''policy''), (''verdict'', JStr ''FAIL'')]"

definition report_fields :: "(string \<times> json) list" where
  "report_fields =
     [(''input_hashes'', sorted_dict [(''policy:verdict'', content_digest (JDict policy_fields))]),
      (''stage'', JStr ''report''),
      (''theme_configuration_sha256'', JStr (label_digest ''report-theme-v1''))]"

lemma demo_field_keys [simp]:
  "lower ''adapter_configuration_sha256'' \<notin> set FORBIDDEN_PORTABLE_KEYS" "lower ''stage'' \<notin> set FORBIDDEN_PORTABLE_KEYS"
  "lower ''finding_count'' \<notin> set FORBIDDEN_PORTABLE_KEYS" "lower ''input_hashes'' \<notin> set FORBIDDEN_PORTABLE_KEYS"
  "lower ''rule'' \<notin> set FORBIDDEN_PORTABLE_KEYS" "lower ''threshold_configuration_sha256'' \<notin> set FORBIDDEN_PORTABLE_KEYS"
  "lower ''policy_configuration_sha256'' \<notin> set FORBIDDEN_PORTABLE_KEYS" "lower ''verdict'' \<notin> set FORBIDDEN_PORTABLE_KEYS"
  "lower ''theme_configuration_sha256'' \<notin> set FORBIDDEN_PORTABLE_KEYS"
  "lower ''normalize:normalized'' \<notin> set FORBIDDEN_PORTABLE_KEYS" "lower ''detect:findings'' \<notin> set FORBIDDEN_PORTABLE_KEYS"
  "lower ''policy:verdict'' \<notin> set FORBIDDEN_PORTABLE_KEYS"
  by (simp_all add: lower_def lower_char_def FORBIDDEN_PORTABLE_KEYS_def)

lemma demo_words_portable [simp]:
  "\<not> path_leak ''normalize''" "\<not> path_leak ''detect''" "\<not> path_leak ''policy''" "\<not> path_leak ''report''"
  "\<not> path_leak ''FAIL''" "\<not> path_leak ''fixture.timestamp-continuity''"
  by (rule plain_text_portable; simp)+

lemma json_media_portable [simp]: "\<not> path_leak ''application/json''"
  by code_simp

lemma portable_sorted_dict: "portable (sorted_dict kvs) \<longleftrightarrow> portable (dict_json kvs)"
  by (auto simp: sorted_dict_def dict_json_def)

lemma json_finite_sorted_dict [simp]: "json_finite (sorted_dict kvs)"
  by (auto simp: sorted_dict_def list_all_iff)

lemma demo_documents [simp]:
  "json_ok (JDict normalize_fields)" "json_finite (JDict normalize_fields)" "portable (JDict normalize_fields)"
  "json_ok (JDict detect_fields)" "json_finite (JDict detect_fields)" "portable (JDict detect_fields)"
  "json_ok (JDict policy_fields)" "json_finite (JDict policy_fields)" "portable (JDict policy_fields)"
  "json_ok (JDict report_fields)" "json_finite (JDict report_fields)" "portable (JDict report_fields)"
  by (simp_all add: normalize_fields_def detect_fields_def policy_fields_def report_fields_def portable_sorted_dict)
    (simp_all add: dict_json_def demo_source_hashes_eq)

lemma demo_upstream:
  "stage_upstream (demo_stage s [] v c k f) S = []"
  "S u = [(key, h)] \<Longrightarrow> stage_upstream (demo_stage s [u] v c k f) S = [(u @ '':'' @ key, h)]"
  by (simp_all add: stage_upstream_def)

lemma demo_subscripts [simp]:
  "subscript demo_configuration_hashes ''adapter'' = Inr (label_digest ''adapter-config-v1'')"
  "subscript demo_configuration_hashes ''detector-thresholds'' = Inr (label_digest ''detector-thresholds-v1'')"
  "subscript demo_configuration_hashes ''policy'' = Inr (label_digest ''policy-config-v1'')"
  "subscript demo_configuration_hashes ''report-theme'' = Inr (label_digest ''report-theme-v1'')"
  by (simp_all add: subscript_def demo_configuration_hashes_eq)

definition N_stage :: stage_definition where
  "N_stage = demo_stage ''normalize'' [] ''normalize-v1'' ''adapter'' ''normalized'' normalize_execute"

definition D_stage :: stage_definition where
  "D_stage = demo_stage ''detect'' [''normalize''] ''detect-v1'' ''detector-thresholds'' ''findings'' detect_execute"

definition P_stage :: stage_definition where
  "P_stage = demo_stage ''policy'' [''detect''] ''policy-v1'' ''policy'' ''verdict'' policy_execute"

definition R_stage :: stage_definition where
  "R_stage = demo_stage ''report'' [''policy''] ''report-v1'' ''report-theme'' ''report'' report_execute"

lemma demo_definitions_eq: "demo_stage_definitions = [N_stage, D_stage, P_stage, R_stage]"
  by (simp add: demo_stage_definitions_def N_stage_def D_stage_def P_stage_def R_stage_def)

lemma demo_stage_ids [simp]:
  "sd_stage_id N_stage = ''normalize''" "sd_stage_id D_stage = ''detect''" "sd_stage_id P_stage = ''policy''"
  "sd_stage_id R_stage = ''report''"
  by (simp_all add: N_stage_def D_stage_def P_stage_def R_stage_def)

text \<open>The payload of every stage, once the stage before it has the hash of its own.\<close>

definition demo_outputs :: "string \<Rightarrow> (string \<times> string) list" where
  "demo_outputs = ((\<lambda>_. [])
     (''normalize'' := [(''normalized'', content_digest (JDict normalize_fields))],
      ''detect'' := [(''findings'', content_digest (JDict detect_fields))],
      ''policy'' := [(''verdict'', content_digest (JDict policy_fields))],
      ''report'' := [(''report'', content_digest (JDict report_fields))]))"

abbreviation "qualified uuid native \<equiv> demo_env uuid native demo_inputs"

lemma demo_context [simp]:
  "cx_inputs (stage_context_of (demo_env uuid native inputs) d S) = inputs"
  "cx_stage_id (stage_context_of (demo_env uuid native inputs) d S) = sd_stage_id d"
  "cx_upstream_artifact_hashes (stage_context_of (demo_env uuid native inputs) d S) = stage_upstream d S"
  by (simp_all add: stage_context_of_def)

lemma checked_normalize:
  "checked_payloads N_stage 0 (stage_context_of (qualified uuid native) N_stage S) =
     Inr [demo_payload ''normalized'' ''normalized.json'' (JDict normalize_fields)]"
  unfolding N_stage_def
  by (rule checked_demo_stage [where kvs = normalize_fields and names = "[''adapter_configuration_sha256'', ''source_hashes'', ''stage'']"])
    (simp_all only: demo_documents, simp_all add: normalize_execute_def expected_fields_def demo_upstream demo_outputs_def normalize_fields_def)

lemma checked_detect:
  "S ''normalize'' = demo_outputs ''normalize'' \<Longrightarrow>
   checked_payloads D_stage 0 (stage_context_of (qualified uuid native) D_stage S) =
     Inr [demo_payload ''findings'' ''findings.json'' (JDict detect_fields)]"
  unfolding D_stage_def
  by (rule checked_demo_stage [where kvs = detect_fields and names =
        "[''finding_count'', ''input_hashes'', ''rule'', ''stage'', ''threshold_configuration_sha256'']"])
    (simp_all only: demo_documents, simp_all add: detect_execute_def expected_fields_def demo_upstream demo_outputs_def detect_fields_def)

lemma checked_policy:
  "S ''detect'' = demo_outputs ''detect'' \<Longrightarrow>
   checked_payloads P_stage 0 (stage_context_of (qualified uuid native) P_stage S) =
     Inr [demo_payload ''verdict'' ''verdict.json'' (JDict policy_fields)]"
  unfolding P_stage_def
  by (rule checked_demo_stage [where kvs = policy_fields and names =
        "[''input_hashes'', ''policy_configuration_sha256'', ''stage'', ''verdict'']"])
    (simp_all only: demo_documents, simp_all add: policy_execute_def expected_fields_def demo_upstream demo_outputs_def policy_fields_def)

lemma checked_report:
  "S ''policy'' = demo_outputs ''policy'' \<Longrightarrow>
   checked_payloads R_stage 0 (stage_context_of (qualified uuid native) R_stage S) =
     Inr [demo_payload ''report'' ''report.json'' (JDict report_fields)]"
  unfolding R_stage_def
  by (rule checked_demo_stage [where kvs = report_fields and names = "[''input_hashes'', ''stage'', ''theme_configuration_sha256'']"])
    (simp_all only: demo_documents, simp_all add: report_execute_def expected_fields_def demo_upstream demo_outputs_def report_fields_def)

lemma hashes_of_checked:
  "checked_payloads d 0 (stage_context_of (qualified uuid native) d S) = Inr [demo_payload k path v] \<Longrightarrow>
   stage_hashes (qualified uuid native) d S = [(k, content_digest v)]"
  by (simp add: stage_hashes_def stage_payloads_def demo_payload_def content_digest_def)

lemma demo_spec: "spec (qualified uuid native) = demo_outputs"
  unfolding spec_def demo_env_fields demo_definitions_eq
  by (simp add: hashes_of_checked [OF checked_normalize] hashes_of_checked [OF checked_detect]
      hashes_of_checked [OF checked_policy] hashes_of_checked [OF checked_report] demo_outputs_def fun_upd_twist)

lemma checked_demo:
  "checked_payloads N_stage 0 (stage_context_of (qualified uuid native) N_stage (spec (qualified uuid native))) =
     Inr [demo_payload ''normalized'' ''normalized.json'' (JDict normalize_fields)]"
  "checked_payloads D_stage 0 (stage_context_of (qualified uuid native) D_stage (spec (qualified uuid native))) =
     Inr [demo_payload ''findings'' ''findings.json'' (JDict detect_fields)]"
  "checked_payloads P_stage 0 (stage_context_of (qualified uuid native) P_stage (spec (qualified uuid native))) =
     Inr [demo_payload ''verdict'' ''verdict.json'' (JDict policy_fields)]"
  "checked_payloads R_stage 0 (stage_context_of (qualified uuid native) R_stage (spec (qualified uuid native))) =
     Inr [demo_payload ''report'' ''report.json'' (JDict report_fields)]"
  unfolding demo_spec
  by (simp_all only: checked_normalize checked_detect checked_policy checked_report)

lemma demo_payloads:
  "payloads_of (qualified uuid native) N_stage = [demo_payload ''normalized'' ''normalized.json'' (JDict normalize_fields)]"
  "payloads_of (qualified uuid native) D_stage = [demo_payload ''findings'' ''findings.json'' (JDict detect_fields)]"
  "payloads_of (qualified uuid native) P_stage = [demo_payload ''verdict'' ''verdict.json'' (JDict policy_fields)]"
  "payloads_of (qualified uuid native) R_stage = [demo_payload ''report'' ''report.json'' (JDict report_fields)]"
  by (simp_all add: payloads_of_def stage_payloads_def checked_demo)

section \<open>The workflow is smooth\<close>

definition plain_path :: "string \<Rightarrow> bool" where
  "plain_path path \<longleftrightarrow> CHR ''/'' \<notin> set path \<and> CHR 0x5C \<notin> set path \<and> path \<notin> {[], ''.'', ''..'', ATTEMPT_MANIFEST_FILE}"

lemma plain_path_valid: "plain_path path \<Longrightarrow> validate_relative_path path = Inr ()"
  by (simp add: plain_path_def validate_relative_path_ok split_on_no_sep plain_text_portable)

lemma write_plain:
  assumes "plain_path path"
  shows "\<exists>d. write_all [] [(path, c), (ATTEMPT_MANIFEST_FILE, x)] = Inr d"
proof -
  have a: "ancestors path = []" "ancestors ATTEMPT_MANIFEST_FILE = []"
    using assms by (simp_all add: plain_path_def ancestors_def split_on_no_sep Let_def ATTEMPT_MANIFEST_FILE_def)
  have "\<not> prefix (ATTEMPT_MANIFEST_FILE @ ''/'') path"
    using assms prefix_slash [of ATTEMPT_MANIFEST_FILE "[]" path] by (auto simp: plain_path_def)
  then show ?thesis
    using assms by (auto simp: write_bytes_def a lookup_def is_directory_in_def plain_path_def)
qed

lemma smooth_demo_stage:
  assumes d: "d = demo_stage s ds v c k f" and E: "E = qualified uuid native"
    and p: "checked_payloads d 0 (stage_context_of E d (spec E)) = Inr [demo_payload k path w]"
    and names: "is_identifier s" "is_identifier k" "plain_path path"
    and key: "\<exists>h. stage_key E d (stage_upstream d (spec E)) = Inr h"
  shows "smooth_stage E d"
proof -
  have ps: "payloads_of E d = [demo_payload k path w]"
    using p by (simp add: payloads_of_def stage_payloads_def)
  have "check_entry (entry_of sha256_hexdigest (demo_payload k path w)) = Inr ()"
    using names(2,3) plain_path_valid [OF names(3)] sha256.sha_hex
    by (auto simp: check_entry_def entry_of_def demo_payload_def plain_path_def)
  then have "list_all (\<lambda>p. check_entry (entry_of (en_sha E) p) = Inr () \<and> \<not> path_leak (pl_media_type p))
      (payloads_of E d)"
    unfolding ps by (simp add: E) (simp add: demo_payload_def)
  moreover have "payload_files (payloads_of E d) = [(path, pl_content (demo_payload k path w))]"
    by (simp add: ps payload_files_def demo_payload_def)
  moreover have "stage_key E d (stage_upstream d (spec E)) = Inr (cache_of E d)"
    using key by (auto simp: cache_of_def stage_cache_def)
  ultimately show ?thesis
    unfolding smooth_stage_def using p names(1) write_plain [OF names(3)] by (simp add: d ps [unfolded d])
qed

lemma demo_stage_names [simp]:
  "is_identifier ''normalize''" "is_identifier ''detect''" "is_identifier ''policy''" "is_identifier ''report''"
  "is_identifier ''normalized''" "is_identifier ''findings''" "is_identifier ''verdict''"
  "plain_path ''normalized.json''" "plain_path ''findings.json''" "plain_path ''verdict.json''" "plain_path ''report.json''"
  by (simp_all add: is_identifier_def is_alnum_def is_lower_def is_digit_def plain_path_def ATTEMPT_MANIFEST_FILE_def)

lemma demo_key_words [simp]:
  "\<not> path_leak ''normalize-v1''" "\<not> path_leak ''detect-v1''" "\<not> path_leak ''policy-v1''" "\<not> path_leak ''report-v1''"
  by (rule plain_text_portable; simp)+

lemma demo_key_keys [simp]:
  "lower ''algorithm_version'' \<notin> set FORBIDDEN_PORTABLE_KEYS"
  "lower ''relevant_configuration_hashes'' \<notin> set FORBIDDEN_PORTABLE_KEYS"
  "lower ''upstream_artifact_hashes'' \<notin> set FORBIDDEN_PORTABLE_KEYS"
  by (simp_all add: lower_def lower_char_def FORBIDDEN_PORTABLE_KEYS_def)

lemma demo_key_exists:
  assumes "c \<in> fst ` set demo_configuration_hashes"
    and "\<not> path_leak s" and "\<not> path_leak v" and "portable (dict_json up)"
  shows "\<exists>x. stage_key (qualified uuid native) (demo_stage s ds v c k f) up = Inr x"
proof -
  obtain h where h: "map_of demo_configuration_hashes c = Some h" and "is_sha256 h" "lower c \<notin> set FORBIDDEN_PORTABLE_KEYS"
    using assms(1) by (auto simp: demo_configuration_hashes_eq)
  then have "portable (dict_json [(c, h)])" by (simp add: dict_json_def)
  then show ?thesis
    using h assms(2-)
    by (simp add: stage_key_def relevant_configuration_def build_stage_cache_key_def cache_key_document_def canonical_sha256_eq
        portable_sorted_dict del: dumps.simps)
qed

lemma smooth_demo_stages: "list_all (smooth_stage (qualified uuid native)) demo_stage_definitions"
proof -
  have "smooth_stage (qualified uuid native) N_stage"
    by (rule smooth_demo_stage [OF N_stage_def refl checked_demo(1)])
      (unfold N_stage_def demo_spec, simp_all add: demo_upstream, rule demo_key_exists,
       simp_all add: demo_configuration_hashes_eq dict_json_def)
  moreover have "smooth_stage (qualified uuid native) D_stage"
    by (rule smooth_demo_stage [OF D_stage_def refl checked_demo(2)])
      (unfold D_stage_def demo_spec, simp_all add: demo_upstream demo_outputs_def, rule demo_key_exists,
       simp_all add: demo_configuration_hashes_eq dict_json_def)
  moreover have "smooth_stage (qualified uuid native) P_stage"
    by (rule smooth_demo_stage [OF P_stage_def refl checked_demo(3)])
      (unfold P_stage_def demo_spec, simp_all add: demo_upstream demo_outputs_def, rule demo_key_exists,
       simp_all add: demo_configuration_hashes_eq dict_json_def)
  moreover have "smooth_stage (qualified uuid native) R_stage"
    by (rule smooth_demo_stage [OF R_stage_def refl checked_demo(4)])
      (unfold R_stage_def demo_spec, simp_all add: demo_upstream demo_outputs_def, rule demo_key_exists,
       simp_all add: demo_configuration_hashes_eq dict_json_def)
  ultimately show ?thesis by (simp add: demo_definitions_eq)
qed

lemma digest_length [simp]: "length (label_digest l) = 64" "length (content_digest v) = 64" "length (sha256_hexdigest x) = 64"
  using label_digest_sha [of l] content_digest_sha [of v] sha256.sha_hex [of x] by (simp_all add: is_sha256_def)

lemma demo_content_length:
  "json_weight v < 5000 \<Longrightarrow> length (pl_content (demo_payload k path v)) < 10 ^ 100"
proof -
  assume "json_weight v < 5000"
  then have "length (pl_content (demo_payload k path v)) < 10 ^ 4"
    using length_dumps [of v] by (simp add: demo_payload_def)
  also have "(10::nat) ^ 4 \<le> 10 ^ 100" by (rule power_increasing) simp_all
  finally show ?thesis .
qed

lemma demo_weights:
  "json_weight (JDict normalize_fields) < 5000" "json_weight (JDict detect_fields) < 5000"
  "json_weight (JDict policy_fields) < 5000" "json_weight (JDict report_fields) < 5000"
  by (simp_all add: normalize_fields_def detect_fields_def policy_fields_def report_fields_def sorted_dict_def
      demo_source_hashes_eq show_int_def show_nat.simps)

lemma demo_run_id: "run_id_of sha256_hexdigest demo_inputs = Inr (''run-sha256-'' @ sha256_hexdigest (dumps (JDict
       [(''configuration_hashes'', sorted_dict demo_configuration_hashes),
        (''engine_version'', JStr ''0.1.0''), (''profile_id'', JStr ''structural-preflight-v1''),
        (''road_graph_id'', JStr (ri_road_graph_id demo_inputs)), (''sequence_id'', JStr (ri_sequence_id demo_inputs))])))"
  unfolding run_id_of_def make_run_id_def make_identifier_eq
  by (simp add: portable_sorted_dict stable_id_portable del: dumps.simps)

lemma demo_spec_digest: "\<exists>h. spec_digest (qualified uuid native) = Inr h"
  unfolding spec_digest_def canonical_sha256_eq demo_spec
  by (simp add: demo_definitions_eq demo_outputs_def del: dumps.simps)
    (simp add: dict_json_def lower_def lower_char_def FORBIDDEN_PORTABLE_KEYS_def)

lemma demo_exportable: "exportable (qualified uuid native)"
  using demo_spec_digest
  by (simp add: exportable_def check_demo_inputs demo_run_id sha256.sha_hex demo_definitions_eq demo_payloads)
    (simp add: demo_configuration_hashes_eq demo_payload_def)

lemma demo_bounded: "bounded_by (qualified uuid native) 100 4"
proof -
  have "list_all (\<lambda>p. length (pl_content p) < 10 ^ 100) (concat (map (payloads_of (qualified uuid native)) demo_stage_definitions))"
    by (simp add: demo_definitions_eq demo_payloads demo_content_length [simplified] demo_weights del: json_weight.simps)
  then have content: "\<forall>p \<in> set (concat (map (payloads_of (qualified uuid native)) demo_stage_definitions)). length (pl_content p) < 10 ^ 100"
    by (simp only: list_all_iff)
  have names: "\<forall>p \<in> set (concat (map (payloads_of (qualified uuid native)) demo_stage_definitions)).
      length (pl_artifact_key p) \<le> 100 \<and> length (pl_relative_path p) \<le> 100 \<and> length (pl_media_type p) \<le> 100"
    by (simp add: demo_definitions_eq demo_payloads demo_payload_def)
  have ids: "length (ri_sequence_id demo_inputs) \<le> 100" "length (ri_road_graph_id demo_inputs) \<le> 100"
    "length DEMO_WORKFLOW_ID \<le> 100"
    by (simp_all add: demo_inputs_def DEMO_WORKFLOW_ID_def)
  have count: "length (concat (map (payloads_of (qualified uuid native)) demo_stage_definitions)) \<le> 4"
    by (simp add: demo_definitions_eq demo_payloads)
  have stages: "length demo_stage_definitions \<le> 4" "list_all (\<lambda>d. length (sd_stage_id d) \<le> 100) demo_stage_definitions"
    by (simp_all add: demo_definitions_eq)
  have configuration: "length demo_configuration_hashes \<le> 4"
    "list_all (\<lambda>(k, v). length k \<le> 100) demo_configuration_hashes"
    by (simp_all add: demo_configuration_hashes_eq)
  have "list_all (\<lambda>p. length (pl_artifact_key p) \<le> 100 \<and> length (pl_relative_path p) \<le> 100 \<and>
       length (pl_media_type p) \<le> 100 \<and> length (pl_content p) < 10 ^ 100)
      (concat (map (payloads_of (qualified uuid native)) demo_stage_definitions))"
    unfolding list_all_iff using content names by blast
  then show ?thesis
    unfolding bounded_by_def demo_env_fields demo_inputs_fields using ids count stages configuration by (simp del: power_numeral)
qed

text \<open>The one thing asked of the native canonicaliser: a document that is canonical already is given
  back unchanged.\<close>

definition keeps_canonical :: "(string \<Rightarrow> string \<Rightarrow> string res) \<Rightarrow> bool" where
  "keeps_canonical native \<longleftrightarrow>
     (\<forall>r. native (dumps (run_dump r)) ''cartosentry.run.v1'' = Inr (dumps (run_dump r)))"

lemma demo_fits:
  assumes "\<And>n. uuid_text (uuid n)" and "N < 10 ^ 8"
  shows "fits (qualified uuid native) N"
  by (rule run_environment.bounded_fits [OF demo_run_environment demo_exportable demo_bounded _ assms(2)])
    (simp_all add: assms(1) MAX_CONTROL_FILE_BYTES_def)

lemma demo_smooth:
  assumes u: "\<And>n. uuid_text (uuid n)" and native: "keeps_canonical native" and N: "N < 10 ^ 8"
    and cb: "\<And>b s. cb b s = Continue"
  shows "smooth (qualified uuid native) N cb"
proof -
  note env = demo_run_environment [of uuid native demo_inputs, OF u]
  have document: "\<forall>db pub att n. good (qualified uuid native) N db pub att n \<and> n \<le> N \<longrightarrow>
      (\<exists>doc. run_document_bytes (en_sha (qualified uuid native)) (en_native (qualified uuid native))
        (en_inputs (qualified uuid native)) (en_definitions (qualified uuid native)) db = Inr doc)"
  proof (intro allI impI)
    fix db pub att n
    assume g: "good (qualified uuid native) N db pub att n \<and> n \<le> N"
    show "\<exists>doc. run_document_bytes (en_sha (qualified uuid native)) (en_native (qualified uuid native))
        (en_inputs (qualified uuid native)) (en_definitions (qualified uuid native)) db = Inr doc"
      by (rule run_environment.bounded_documents [OF env demo_exportable demo_bounded _ conjunct1 [OF g]])
        (use native g N in \<open>simp_all add: MAXIMUM_ARTIFACT_JSON_BYTES_def keeps_canonical_def\<close>)
  qed
  have id: "\<exists>i. run_id_of (en_sha (qualified uuid native)) (en_inputs (qualified uuid native)) = Inr i \<and> is_stable_id i"
    using demo_stable_ids(3) by (simp add: demo_run_id)
  have sha: "\<forall>x. is_sha256 (en_sha (qualified uuid native) x)" by (simp add: sha256.sha_hex)
  have workflow: "is_identifier (ri_workflow_id (en_inputs (qualified uuid native)))"
    by simp
  have stages: "list_all (smooth_stage (qualified uuid native)) (en_definitions (qualified uuid native))"
    by (simp add: smooth_demo_stages)
  show ?thesis
    unfolding smooth_def
    by (intro conjI allI cb demo_fits [of uuid, OF u N] document id stages workflow demo_spec_digest sha [THEN spec])
qed

lemma demo_recorded: "recorded (qualified uuid native)"
proof -
  have ok: "json_ok (run_inputs_dump demo_inputs)" "json_depth (run_inputs_dump demo_inputs) \<le> MAXIMUM_JSON_DEPTH"
    "json_finite (run_inputs_dump demo_inputs)" "portable (run_inputs_dump demo_inputs)"
    by (simp_all add: run_inputs_dump_def MAXIMUM_JSON_DEPTH_def json_depth_dict_json stable_id_portable)
      (simp_all add: demo_source_hashes_eq demo_configuration_hashes_eq)
  have "json_weight (run_inputs_dump demo_inputs) \<le> 10000"
    by (simp add: run_inputs_dump_def DEMO_WORKFLOW_ID_def)
      (simp add: dict_json_def demo_source_hashes_eq demo_configuration_hashes_eq demo_inputs_def)
  then have len: "length (dumps (run_inputs_dump demo_inputs) @ [CHR 0x0A]) \<le> MAX_CONTROL_FILE_BYTES"
    using length_dumps [of "run_inputs_dump demo_inputs"] by (simp add: MAX_CONTROL_FILE_BYTES_def)
  have "run_inputs_validate sha256_hexdigest (canon (run_inputs_dump demo_inputs)) = Inr demo_inputs"
    by (rule run_inputs_round_trip [OF check_demo_inputs]) simp_all
  then have "load_run_inputs sha256_hexdigest (RegularFile (dumps (run_inputs_dump demo_inputs) @ [CHR 0x0A])) = Inr demo_inputs"
    using decode_json_document [OF ok(1,2) len] len
    by (simp add: load_run_inputs_def parse_run_inputs_bytes_def read_bounded_regular_file_def)
  moreover have "canonical_document (run_inputs_dump demo_inputs) = Inr (dumps (run_inputs_dump demo_inputs) @ [CHR 0x0A])"
    using ok by (simp add: canonical_document_eq)
  ultimately show ?thesis by (simp add: recorded_def)
qed

end
