(* ===== verification/CrashRecovery.thy ===== *)
theory CrashRecovery
  imports RecoveryCorrect
begin

text \<open>
  The headline theorems of the run engine, stated without its locales, and their instance for the
  registered pipeline of \<^verbatim>\<open>recovery.py\<close>: whatever the boundary at which a worker dies, one
  resumption completes the run with the digest of the uninterrupted run.
\<close>

section \<open>The registered pipeline\<close>

lemma demo_expected_meta: "\<exists>meta. expected_meta sha256_hexdigest demo_inputs demo_stage_definitions = Inr meta"
proof -
  have "json_ok (run_inputs_dump demo_inputs)" "json_finite (run_inputs_dump demo_inputs)"
    "json_depth (run_inputs_dump demo_inputs) \<le> MAXIMUM_JSON_DEPTH"
    "portable (run_inputs_dump demo_inputs)"
    by (simp_all add: run_inputs_dump_def MAXIMUM_JSON_DEPTH_def json_depth_dict_json stable_id_portable)
      (simp_all add: demo_source_hashes_eq demo_configuration_hashes_eq)
  then show ?thesis
    by (simp add: expected_meta_def canonical_sha256_eq topology_json_def demo_definitions_eq)
      (simp add: N_stage_def D_stage_def P_stage_def R_stage_def lower_def lower_char_def FORBIDDEN_PORTABLE_KEYS_def)
qed

lemma demo_stage_count [simp]: "length demo_stage_definitions = 4"
  by (simp add: demo_definitions_eq)

text \<open>A created root, unlocked, whatever happened in the run that followed.\<close>

lemma demo_first_run:
  assumes u: "\<And>n. uuid_text (uuid n)" and native: "keeps_canonical native"
  shows "\<exists>r w. run_demo_pipeline uuid native force_stage dry_run crash_boundary crash_stage None = (r, Some w) \<and>
    settled_root (qualified uuid native) 1000 w \<and> \<not> w_locked w \<and> w_draws w \<le> 4 \<and>
    (\<forall>x. r = Done x \<longrightarrow> faithful (qualified uuid native) x) \<and>
    (force_stage = None \<and> \<not> dry_run \<and> crash_boundary = None \<longrightarrow> (\<exists>x. r = Done x \<and> rr_complete x))"
proof -
  let ?env = "qualified uuid native" and ?cb = "crash_at crash_boundary crash_stage"
  note env = demo_run_environment [of uuid native demo_inputs, OF u]
  have fits: "fits ?env 1000" by (rule demo_fits [OF u]) simp
  have sm: "smooth ?env 1000 (\<lambda>_ _. Continue)" by (rule demo_smooth [OF u native]) simp_all
  obtain meta where meta: "expected_meta (en_sha ?env) (en_inputs ?env) (en_definitions ?env) = Inr meta"
    using demo_expected_meta by auto
  obtain w0 where c: "create_run ?env None = (Done (), Some w0)" and s: "settled_root ?env 1000 w0"
    and d: "w_draws w0 = 0"
    using run_environment.create_succeeds [OF env demo_recorded sm meta] by blast
  obtain r w1 where run: "run ?env force_stage dry_run ?cb w0 = (r, w1)"
    by (cases "run ?env force_stage dry_run ?cb w0")
  have "w_draws (snd (run ?env force_stage dry_run ?cb w0)) \<le> w_draws w0 + length (en_definitions ?env)"
    using costs_run [of ?env force_stage dry_run ?cb] unfolding costs_def by blast
  then have draws: "w_draws w1 \<le> 4" by (simp add: run d)
  have "run_demo_pipeline uuid native force_stage dry_run crash_boundary crash_stage None =
      (r, Some (w1\<lparr>w_locked := False\<rparr>))"
    by (simp add: run_demo_pipeline_def demo_run_inputs_eq Let_def c release_def run del: demo_env_fields)
  moreover have "\<exists>x. r = Done x \<and> rr_complete x" if "force_stage = None" "\<not> dry_run" "crash_boundary = None"
  proof -
    have cb: "?cb = (\<lambda>_ _. Continue)" using that(3) by (intro ext) (simp add: crash_at_def)
    show ?thesis
      using run_environment.run_completes [OF env fits s sm, of None] d run that(1,2) unfolding cb by auto
  qed
  ultimately show ?thesis
    using draws run_environment.ran_settled [OF env fits s run] by (simp add: settled_root_unlock)
qed

lemma demo_facts:
  assumes "\<And>n. uuid_text (uuid n)" and "keeps_canonical native"
  shows "run_environment (qualified uuid native)" "fits (qualified uuid native) 1000"
    "smooth (qualified uuid native) 1000 (\<lambda>_ _. Continue)" "recorded (qualified uuid native)"
  using demo_run_environment [of uuid native demo_inputs, OF assms(1)] demo_fits [OF assms(1), of 1000]
    demo_smooth [OF assms, of 1000 "\<lambda>_ _. Continue"] demo_recorded
  by simp_all

text \<open>The resumption of a settled root of the registered pipeline.\<close>

lemma demo_resumes:
  assumes u: "\<And>n. uuid_text (uuid n)" and native: "keeps_canonical native"
    and s: "settled_root (qualified uuid native) 1000 w" and "\<not> w_locked w" and "w_draws w \<le> 996"
    and force: "\<And>x. force_stage = Some x \<Longrightarrow> x \<in> set (map sd_stage_id demo_stage_definitions)"
  shows "\<exists>x w'. resume_registered_run uuid native force_stage False w = (Done x, w') \<and> rr_complete x \<and>
    faithful (qualified uuid native) x"
proof -
  let ?env = "qualified uuid native"
  note facts = demo_facts [OF u native]
  obtain x w' where run: "run_session ?env force_stage False (\<lambda>_ _. Continue) w = (Done x, w')" "rr_complete x" "faithful ?env x"
    using run_environment.session_completes [OF facts(1,4,2) s assms(4) facts(3), of force_stage] assms(5) force
    by auto
  have load: "load_run_inputs sha256_hexdigest (w_inputs w) = Inr demo_inputs"
    using recordedD [OF facts(4)] s by (simp add: settled_root_def)
  have "crash_at None ''detect'' = (\<lambda>_ _. Continue)" by (intro ext) (simp add: crash_at_def)
  then show ?thesis
    using run by (simp add: resume_registered_run_def load run_demo_pipeline_def demo_run_inputs_eq Let_def)
qed

lemma faithful_digest:
  "rr_complete x \<Longrightarrow> faithful env x \<Longrightarrow> \<exists>h. rr_semantic_sha256 x = Some h \<and> spec_digest env = Inr h"
  by (auto simp: faithful_def split: option.splits)

interpretation demo_steps: engine_steps demo 1000 cb for cb
  unfolding demo_def
  by (intro engine_steps.intro engine_steps_axioms.intro demo.run_environment_axioms [unfolded demo_def] demo_fits) simp_all

lemma demo_native [simp]: "keeps_canonical (\<lambda>source schema. Inr source)"
  by (simp add: keeps_canonical_def)

lemma demo_created: "\<exists>w. reachable demo w \<and> settled_root demo 1000 w \<and> w_draws w = 0"
proof -
  note facts = demo_facts [of counter_uuid, OF counter_uuid_text demo_native, folded demo_def]
  obtain meta where "expected_meta (en_sha demo) (en_inputs demo) (en_definitions demo) = Inr meta"
    using demo_expected_meta by (auto simp: demo_def)
  then obtain w where "create_run demo None = (Done (), Some w)" "settled_root demo 1000 w" "w_draws w = 0"
    using demo.create_succeeds [OF facts(4,3)] by blast
  then show ?thesis using reachable.created by blast
qed

section \<open>What the engine promises\<close>

text \<open>C1: Crash safety of the run engine.  From any state a run root can be left in by creations,
  invocations and deaths of the process, an invocation with any arguments and any crash callback
  keeps the invariant of database, files and pointers, and the report it returns (if it returns one)
  is faithful: complete exactly with the digest of the ideal run, or without a digest.\<close>

theorem crash_safety:
  assumes "run_environment env" and "recorded env" and "fits env N" and "reachable env w"
    and "run_session env force_stage dry_run cb w = (r, w')"
  shows "holds (good env N) w' \<and> (\<forall>x. r = Done x \<longrightarrow> faithful env x)"
  using run_environment.invoked_settled [OF assms(1-3) run_environment.reachable_settled [OF assms(1-4)] assms(5)]
  by (auto simp: settled_root_def)

lemma crash_safety_witness:
  "\<exists>w r w'. reachable demo w \<and> run_session demo None False (crash_at (Some AFTER_DB_RUNNING) ''detect'') w = (r, w') \<and>
     holds (good demo 1000) w' \<and> (\<forall>x. r = Done x \<longrightarrow> faithful demo x)"
proof -
  note facts = demo_facts [of counter_uuid, OF counter_uuid_text demo_native, folded demo_def]
  obtain w where w: "reachable demo w" using demo_created by blast
  obtain r w' where r: "run_session demo None False (crash_at (Some AFTER_DB_RUNNING) ''detect'') w = (r, w')"
    by (cases "run_session demo None False (crash_at (Some AFTER_DB_RUNNING) ''detect'') w")
  show ?thesis using crash_safety [OF facts(1,4,2) w r] w r by blast
qed

text \<open>C2: Liveness of resumption.  In a smooth environment (no crash callback, executors and the native
  canonicaliser succeed) one invocation on any reachable unlocked root, with or without a stage
  to force, completes the run and returns the digest of the ideal run.\<close>

theorem resumption_completes:
  assumes "run_environment env" and "recorded env" and "fits env N" and "smooth env N cb" and "reachable env w"
    and "\<not> w_locked w" and "w_draws w + length (en_definitions env) \<le> N"
    and "force_stage = None \<or> the force_stage \<in> set (map sd_stage_id (en_definitions env))"
  shows "\<exists>x w' h. run_session env force_stage False cb w = (Done x, w') \<and> rr_complete x \<and>
    rr_semantic_sha256 x = Some h \<and> spec_digest env = Inr h"
  using run_environment.session_completes [OF assms(1-3) run_environment.reachable_settled [OF assms(1-3,5)]
      assms(6,4,7), of force_stage] assms(8) faithful_digest
  by fastforce

lemma resumption_completes_witness:
  "\<exists>w x w' h. reachable demo w \<and> run_session demo (Some ''policy'') False (\<lambda>_ _. Continue) w = (Done x, w') \<and> rr_complete x \<and>
     rr_semantic_sha256 x = Some h \<and> spec_digest demo = Inr h"
proof -
  note facts = demo_facts [of counter_uuid, OF counter_uuid_text demo_native, folded demo_def]
  obtain w where w: "reachable demo w" "w_draws w = 0" using demo_created by blast
  have c: "reachable demo (w\<lparr>w_locked := False\<rparr>)" by (rule reachable.closed [OF w(1)])
  have p: "''policy'' \<in> set (map sd_stage_id (en_definitions demo))" by (simp add: demo_def demo_definitions_eq)
  have "\<exists>x w' h. run_session demo (Some ''policy'') False (\<lambda>_ _. Continue) (w\<lparr>w_locked := False\<rparr>) = (Done x, w') \<and>
      rr_complete x \<and> rr_semantic_sha256 x = Some h \<and> spec_digest demo = Inr h"
  proof (rule resumption_completes [OF facts(1,4,2,3) c])
    show "w_draws (w\<lparr>w_locked := False\<rparr>) + length (en_definitions demo) \<le> 1000"
      using w(2) by (simp add: demo_def)
  qed (use p in simp_all)
  then show ?thesis using c by blast
qed



text \<open>The crash cases of the qualification.  The uninterrupted run completes; a case of the
  qualification either reports that the worker did not stop at its boundary, or its resumed run is
  complete with the uninterrupted digest.\<close>

lemma boundary_case_accepted:
  assumes "\<forall>n. uuid_text (uuid n)" and "keeps_canonical native"
  shows "\<exists>clean root h. run_demo_pipeline uuid native None False None ''detect'' None = (Done clean, root) \<and>
    rr_complete clean \<and> rr_semantic_sha256 clean = Some h \<and>
    (case qualify_boundary uuid native h boundary of
       Inl e \<Rightarrow> crash_worker uuid native boundary = Inl e
     | Inr c \<Rightarrow> cc_boundary c = boundary \<and> cc_process_exit_code c = EXPECTED_CRASH_EXIT_CODE \<and>
         cc_resumed_complete c \<and> cc_matches_uninterrupted c)"
proof -
  have u: "\<And>n. uuid_text (uuid n)" using assms(1) by blast
  let ?env = "qualified uuid native"
  obtain clean root where run: "run_demo_pipeline uuid native None False None ''detect'' None = (Done clean, root)"
    and c: "rr_complete clean" "faithful ?env clean"
    using demo_first_run [of uuid native None False None "''detect''", OF u assms(2)] by auto
  obtain h where h: "rr_semantic_sha256 clean = Some h" "spec_digest ?env = Inr h"
    using faithful_digest [OF c] by blast
  have "case qualify_boundary uuid native h boundary of Inl e \<Rightarrow> crash_worker uuid native boundary = Inl e
     | Inr c \<Rightarrow> cc_boundary c = boundary \<and> cc_process_exit_code c = EXPECTED_CRASH_EXIT_CODE \<and>
         cc_resumed_complete c \<and> cc_matches_uninterrupted c"
  proof (cases "crash_worker uuid native boundary")
    case (Inl e)
    then show ?thesis by (simp add: qualify_boundary_def)
  next
    case (Inr cw)
    obtain code w where cw: "cw = (code, w)" by (cases cw)
    obtain r where first: "run_demo_pipeline uuid native None False (Some boundary) ''detect'' None = (r, Some w)"
      and code: "code = EXPECTED_CRASH_EXIT_CODE"
      using Inr by (auto simp: crash_worker_def cw split: prod.splits if_splits option.splits)
    have root: "settled_root ?env 1000 w" "\<not> w_locked w" "w_draws w \<le> 4"
      using demo_first_run [of uuid native None False "Some boundary" "''detect''", OF u assms(2)] unfolding first by auto
    obtain x w' where resumed: "resume_registered_run uuid native None False w = (Done x, w')" "rr_complete x" "faithful ?env x"
      using demo_resumes [of uuid native _ None, OF u assms(2) root(1,2)] root(3) by auto
    have "rr_semantic_sha256 x = Some h" using faithful_digest [OF resumed(2,3)] h(2) by auto
    then show ?thesis
      using resumed(1,2) by (simp add: qualify_boundary_def Inr cw completed_def code)
  qed
  then show ?thesis using run c(1) h(1) by blast
qed

lemma boundary_case_accepted_witness:
  "\<exists>clean root h. run_demo_pipeline counter_uuid (\<lambda>source schema. Inr source) None False None ''detect'' None = (Done clean, root) \<and>
    rr_complete clean \<and> rr_semantic_sha256 clean = Some h \<and>
    (case qualify_boundary counter_uuid (\<lambda>source schema. Inr source) h AFTER_DB_COMMITTED of
       Inl e \<Rightarrow> crash_worker counter_uuid (\<lambda>source schema. Inr source) AFTER_DB_COMMITTED = Inl e
     | Inr c \<Rightarrow> cc_boundary c = AFTER_DB_COMMITTED \<and> cc_process_exit_code c = EXPECTED_CRASH_EXIT_CODE \<and>
         cc_resumed_complete c \<and> cc_matches_uninterrupted c)"
  by (rule boundary_case_accepted) simp_all

end
