(* ===== verification/RunProperties.thy ===== *)
theory RunProperties
  imports CrashRecovery
begin

text \<open>
  The promises of the run database and of the engine's operations, one by one: attempts, state
  transitions, dependency closures, cache keys, published artifacts, the lock, dry runs and the
  exported document.  Each follows from the lemmas of the theory that models the operation.
\<close>

section \<open>The database\<close>

definition fresh_demo_database :: database where
  "fresh_demo_database =
     \<lparr>db_meta = [(''schema_version'', ''1'')], db_stage = map (\<lambda>d. (sd_stage_id d, pending_row)) demo_stage_definitions,
      db_dependency = dependency_pairs demo_stage_definitions, db_attempt = [], db_artifact = []\<rparr>"

lemma fresh_demo_ok: "db_ok fresh_demo_database"
  unfolding fresh_demo_database_def by (rule db_ok_fresh) (use demo.ordered in \<open>simp add: demo_def\<close>)

lemma fresh_demo_row: "map_of (db_stage fresh_demo_database) ''normalize'' = Some pending_row"
  by (simp add: fresh_demo_database_def demo_definitions_eq)

lemma fresh_demo_upstream: "incomplete_upstream fresh_demo_database ''normalize'' = []"
  unfolding incomplete_upstream_Nil [OF fresh_demo_ok]
  by (simp add: fresh_demo_database_def dependency_pairs_iff demo_definitions_eq N_stage_def D_stage_def P_stage_def R_stage_def)

text \<open>C5: The store keeps its integrity: beginning an attempt, marking a state, recording a
  completed manifest and invalidating a scope preserve the primary keys, the foreign keys, the
  uniqueness of attempt numbers per stage and the relation between attempt names, numbers and the
  attempt counters.\<close>

theorem database_operations_preserve:
  assumes "db_ok db" and "uuid_text uuid" and "well_named (m_attempt_id m) (m_stage_id m) (m_attempt_number m)"
  shows "(case begin_attempt uuid db s c of Inl e \<Rightarrow> True | Inr (db', i, n) \<Rightarrow> db_ok db') \<and>
    (case mark_state db s st err of Inl e \<Rightarrow> True | Inr db' \<Rightarrow> db_ok db') \<and>
    (case record_complete db m h d of Inl e \<Rightarrow> True | Inr db' \<Rightarrow> db_ok db') \<and>
    (case invalidate db ss force of Inl e \<Rightarrow> True | Inr db' \<Rightarrow> db_ok db')"
  using db_ok_begin [OF assms(1,2)] db_ok_mark [OF assms(1)] db_ok_complete [OF assms(1,3)] db_ok_invalidate [OF assms(1)]
  by (auto split: sum.split)

lemma database_operations_preserve_witness:
  "(case begin_attempt (counter_uuid 0) fresh_demo_database ''normalize'' ''k'' of Inl e \<Rightarrow> True | Inr (db', i, n) \<Rightarrow> db_ok db') \<and>
   (case mark_state fresh_demo_database ''normalize'' FAILED_FINAL None of Inl e \<Rightarrow> True | Inr db' \<Rightarrow> db_ok db')"
  using database_operations_preserve [OF fresh_demo_ok counter_uuid_text [of 0],
      where m = "\<lparr>m_workflow_id = [], m_stage_id = ''detect'', m_attempt_id = attempt_name ''detect'' 1 (counter_uuid 0),
         m_attempt_number = 1, m_cache_key = [], m_artifacts = []\<rparr>" and s = "''normalize''" and c = "''k''"
        and st = FAILED_FINAL and err = None]
  by simp

text \<open>C6: An attempt begins only for a stage whose state allows it and whose every dependency is
  COMPLETE; it takes the next number of its stage and a name no attempt had before.\<close>

theorem attempt_begins_only_when_ready:
  assumes "db_ok db" and "begin_attempt uuid db s c = Inr (db', i, n)"
  shows "\<exists>row. map_of (db_stage db) s = Some row \<and>
    r_state row \<in> {PENDING, FAILED_RETRYABLE, INVALIDATED} \<and> n = r_attempt_counter row + 1 \<and>
    i = attempt_name s n uuid \<and> i \<notin> fst ` set (db_attempt db) \<and>
    list_all (\<lambda>(t, u). t = s \<longrightarrow> (\<exists>r. map_of (db_stage db) u = Some r \<and> r_state r = COMPLETE)) (db_dependency db) \<and>
    map_of (db_stage db') s = Some (row\<lparr>r_state := RUNNING, r_attempt_id := Some i, r_cache_key := Some c,
      r_attempt_counter := n, r_error_code := None\<rparr>)"
proof -
  obtain row where "map_of (db_stage db) s = Some row" "r_state row \<in> set startable" "incomplete_upstream db s = []"
    "n = r_attempt_counter row + 1" "i = attempt_name s n uuid" "i \<notin> fst ` set (db_attempt db)"
    "db' = (update_stage s (\<lambda>r. r\<lparr>r_state := RUNNING, r_attempt_id := Some i, r_cache_key := Some c,
             r_attempt_counter := n, r_error_code := None\<rparr>) db)
            \<lparr>db_attempt := db_attempt db @ [(i, \<lparr>a_stage_id = s, a_attempt_number = n, a_cache_key = c,
                a_state = ATTEMPT_RUNNING, a_manifest_sha256 = None\<rparr>)]\<rparr>"
    by (rule begin_attempt_Inr [OF assms(2)])
  then show ?thesis
    using incomplete_upstream_Nil [OF assms(1), of s] by (auto simp: startable_def list_all_iff)
qed

lemma attempt_begins_only_when_ready_witness:
  "\<exists>db' i n row. begin_attempt (counter_uuid 7) fresh_demo_database ''normalize'' ''k'' = Inr (db', i, n) \<and>
     map_of (db_stage fresh_demo_database) ''normalize'' = Some row \<and> n = r_attempt_counter row + 1 \<and>
     i = attempt_name ''normalize'' n (counter_uuid 7)"
proof -
  obtain db' i n where b: "begin_attempt (counter_uuid 7) fresh_demo_database ''normalize'' ''k'' = Inr (db', i, n)"
    using begin_attempt_ok [OF fresh_demo_ok counter_uuid_text fresh_demo_row _ fresh_demo_upstream]
    by (auto simp: pending_row_def startable_def)
  show ?thesis using attempt_begins_only_when_ready [OF fresh_demo_ok b] b by blast
qed

text \<open>Attempt names are unique: equal names with suffixes of the same length have the same stage,
  attempt number and suffix, however many digits the number has and whatever dashes the stage
  identifier holds.\<close>

lemma attempt_names_injective:
  assumes "attempt_name s n u = attempt_name s' n' u'" and "length u = length u'"
  shows "s = s' \<and> n = n' \<and> u = u'"
  by (rule attempt_name_inj [OF assms])

lemma attempt_names_injective_witness: "(''a-1'' :: string) = ''a-1'' \<and> (2 :: nat) = 2 \<and> ''ff'' = ''ff''"
  using attempt_names_injective [of "''a-1''" 2 "''ff''" "''a-1''" 2 "''ff''"] by simp

text \<open>C7: A final failure is final: of the operations of the store, on a stage that is FAILED_FINAL or
  SKIPPED_NOT_APPLICABLE, beginning an attempt and recording a completed manifest are refused, marking it
  is refused for every other state and leaves it in its own, and so do the completions and attempts of
  other stages; an invalidation takes the stages of its scope out of that state, into INVALIDATED, and
  no other stage.\<close>

theorem final_states_stay:
  assumes "map_of (db_stage db) s = Some row" and "r_state row \<in> {FAILED_FINAL, SKIPPED_NOT_APPLICABLE}"
  shows "(case begin_attempt uuid db t c of Inl e \<Rightarrow> True
      | Inr (db', i, n) \<Rightarrow> t \<noteq> s \<and> map_option r_state (map_of (db_stage db') s) = Some (r_state row)) \<and>
    (case record_complete db m h d of Inl e \<Rightarrow> True
      | Inr db' \<Rightarrow> m_stage_id m \<noteq> s \<and> map_option r_state (map_of (db_stage db') s) = Some (r_state row)) \<and>
    (case mark_state db t st err of Inl e \<Rightarrow> True
      | Inr db' \<Rightarrow> (t = s \<longrightarrow> st = r_state row) \<and> map_option r_state (map_of (db_stage db') s) = Some (r_state row)) \<and>
    (case invalidate db ss force of Inl e \<Rightarrow> True
      | Inr db' \<Rightarrow> map_option r_state (map_of (db_stage db') s) = Some (if s \<in> set ss then INVALIDATED else r_state row))"
proof (intro conjI)
  show "case begin_attempt uuid db t c of Inl e \<Rightarrow> True
      | Inr (db', i, n) \<Rightarrow> t \<noteq> s \<and> map_option r_state (map_of (db_stage db') s) = Some (r_state row)"
  proof (cases "begin_attempt uuid db t c")
    case (Inr x)
    obtain db' i n where x: "x = (db', i, n)" by (cases x)
    show ?thesis unfolding Inr x
      by (rule begin_attempt_Inr [OF Inr [unfolded x]]) (use assms in \<open>auto simp: startable_def\<close>)
  qed simp
  show "case record_complete db m h d of Inl e \<Rightarrow> True
      | Inr db' \<Rightarrow> m_stage_id m \<noteq> s \<and> map_option r_state (map_of (db_stage db') s) = Some (r_state row)"
  proof (cases "record_complete db m h d")
    case (Inr db')
    then show ?thesis by (rule_tac record_complete_Inr [OF Inr]) (use assms in \<open>auto simp: completable_def\<close>)
  qed simp
  show "case mark_state db t st err of Inl e \<Rightarrow> True
      | Inr db' \<Rightarrow> (t = s \<longrightarrow> st = r_state row) \<and> map_option r_state (map_of (db_stage db') s) = Some (r_state row)"
    using assms by (cases "t = s") (auto simp: mark_state_def stage_row_def allowed_def split: sum.split)
  show "case invalidate db ss force of Inl e \<Rightarrow> True
      | Inr db' \<Rightarrow> map_option r_state (map_of (db_stage db') s) = Some (if s \<in> set ss then INVALIDATED else r_state row)"
    using db_stage_invalidate assms(1) by (auto split: sum.split)
qed

definition failed_demo_database :: database where
  "failed_demo_database = update_stage ''detect'' (\<lambda>r. r\<lparr>r_state := FAILED_FINAL\<rparr>) fresh_demo_database"

definition detect_manifest :: attempt_manifest where
  "detect_manifest = \<lparr>m_workflow_id = ''w'', m_stage_id = ''detect'', m_attempt_id = ''a'', m_attempt_number = 1,
     m_cache_key = ''c'', m_artifacts = []\<rparr>"

lemma final_states_stay_witness:
  "(case begin_attempt ''u'' failed_demo_database ''detect'' ''k'' of Inl e \<Rightarrow> True | Inr x \<Rightarrow> False) \<and>
   (case record_complete failed_demo_database detect_manifest ''h'' ''d'' of Inl e \<Rightarrow> True | Inr db' \<Rightarrow> False) \<and>
   (case mark_state failed_demo_database ''detect'' PENDING None of Inl e \<Rightarrow> True | Inr db' \<Rightarrow> False) \<and>
   (case invalidate failed_demo_database [''detect''] False of Inl e \<Rightarrow> False
    | Inr db' \<Rightarrow> map_option r_state (map_of (db_stage db') ''detect'') = Some INVALIDATED)"
proof -
  have row: "map_of (db_stage failed_demo_database) ''detect'' = Some (pending_row\<lparr>r_state := FAILED_FINAL\<rparr>)"
    by (simp add: failed_demo_database_def fresh_demo_database_def demo_definitions_eq)
  then have inv: "\<exists>db'. invalidate failed_demo_database [''detect''] False = Inr db'" by (auto simp: stage_row_def)
  show ?thesis
    using final_states_stay [OF row, where uuid = "''u''" and t = "''detect''" and c = "''k''" and m = detect_manifest and h = "''h''"
        and d = "''d''" and st = PENDING and err = None and ss = "[''detect'']" and force = False] inv
    by (auto simp: detect_manifest_def simp del: invalidate.simps split: sum.splits)
qed

section \<open>Definitions, closures and cache keys\<close>

text \<open>Accepted stage definitions are in topological order: the dependencies of each are among the
  stages before it, stage identifiers are unique, and so are the output keys of a stage.\<close>

lemma accepted_definitions_are_ordered:
  assumes "validate_stage_definitions ds = Inr ()" and "ds = before @ d # after"
  shows "set (sd_dependencies d) \<subseteq> set (map sd_stage_id before) \<and>
    sd_stage_id d \<notin> set (map sd_stage_id (before @ after)) \<and> distinct (sd_output_keys d) \<and> sd_output_keys d \<noteq> []"
proof -
  have o: "stages_ordered [] (before @ d # after)"
    using validate_stage_definitions_ordered [OF assms(1)] unfolding assms(2) by blast
  have "stages_ordered (rev (map sd_stage_id before)) (d # after)"
    using o by (simp add: stages_ordered_append)
  moreover have "distinct (map sd_stage_id (before @ d # after))" using stages_ordered_distinct [OF o] by blast
  ultimately show ?thesis
    using stages_ordered_member [OF o, of d] by auto
qed

lemma accepted_definitions_are_ordered_witness:
  "set (sd_dependencies D_stage) \<subseteq> set (map sd_stage_id [N_stage])"
  using accepted_definitions_are_ordered [OF demo_definitions_valid, of "[N_stage]" D_stage "[P_stage, R_stage]"]
  by (simp add: demo_definitions_eq)

text \<open>C22: The scope of a forced stage is exactly the set of the stages that depend on it, directly or
  through others, with the stage itself; the loop that computes it ends, and the scope keeps the order of
  the definitions.\<close>

theorem closure_is_reachability:
  assumes "dependency_closure ds s = Inr scope"
  shows "set scope = {t \<in> set (map sd_stage_id ds).
      (s, t) \<in> {(u, t). \<exists>d \<in> set ds. sd_stage_id d = t \<and> u \<in> set (sd_dependencies d)}\<^sup>*} \<and>
    s \<in> set scope \<and> subseq scope (map sd_stage_id ds)"
proof -
  have "depends ds = {(u, t). \<exists>d \<in> set ds. sd_stage_id d = t \<and> u \<in> set (sd_dependencies d)}"
    by (auto simp: depends_def)
  moreover have "subseq scope (map sd_stage_id ds)"
    using assms by (auto simp: dependency_closure_def split: if_splits)
  ultimately show ?thesis using dependency_closure_set [OF assms] by auto
qed

lemma closure_is_reachability_witness:
  "dependency_closure demo_stage_definitions ''detect'' = Inr [''detect'', ''policy'', ''report''] \<and>
   ''detect'' \<in> set [''detect'', ''policy'', ''report'']"
proof -
  have c: "dependency_closure demo_stage_definitions ''detect'' = Inr [''detect'', ''policy'', ''report'']"
    by (simp add: dependency_closure_def demo_definitions_eq closure_loop.simps closure_pass_def N_stage_def D_stage_def
        P_stage_def R_stage_def Let_def)
  then show ?thesis using closure_is_reachability [OF c] by blast
qed

text \<open>C21: The cache key of a stage separates executions: equal keys come from the same workflow, stage,
  algorithm version, backend, source hashes, upstream artifact hashes and relevant configuration, each
  up to the order of its entries; the only other possibility is that the two canonical texts of these
  inputs differ and have the same digest.\<close>

theorem cache_key_separates:
  assumes "build_stage_cache_key sha w s src up conf v b = Inr k" and "build_stage_cache_key sha w' s' src' up' conf' v' b' = Inr k"
    and "distinct (map fst src)" and "distinct (map fst up)" and "distinct (map fst conf)"
    and "distinct (map fst src')" and "distinct (map fst up')" and "distinct (map fst conf')"
  shows "w = w' \<and> s = s' \<and> v = v' \<and> b = b' \<and> mset src = mset src' \<and> mset up = mset up' \<and> mset conf = mset conf' \<or>
    dumps (cache_key_document w s src up conf v b) \<noteq> dumps (cache_key_document w' s' src' up' conf' v' b') \<and>
    sha (dumps (cache_key_document w s src up conf v b)) = sha (dumps (cache_key_document w' s' src' up' conf' v' b'))"
proof (cases "dumps (cache_key_document w s src up conf v b) = dumps (cache_key_document w' s' src' up' conf' v' b')")
  case True
  have "canon (cache_key_document w s src up conf v b) = canon (cache_key_document w' s' src' up' conf' v' b')"
    by (rule json_dumps_inj [OF _ _ True]) (use assms(3-8) in \<open>simp_all add: cache_key_document_def\<close>)
  then have "w = w' \<and> s = s' \<and> v = v' \<and> b = b' \<and> canon (sorted_dict src) = canon (sorted_dict src') \<and>
      canon (sorted_dict up) = canon (sorted_dict up') \<and> canon (sorted_dict conf) = canon (sorted_dict conf')"
    by (simp add: cache_key_document_def)
  moreover have "mset x = mset y" if "canon (sorted_dict x) = canon (sorted_dict y)" for x y :: "(string \<times> string) list"
  proof -
    have c: "canon (sorted_dict z) = JDict (map (\<lambda>(k, v). (k, JStr v)) (sort_key fst z))" for z :: "(string \<times> string) list"
      using canon_pairs [of JStr "sort_key fst z"] by (simp add: sorted_dict_def)
    have "map (\<lambda>(k, v). (k, JStr v)) (sort_key fst x) = map (\<lambda>(k, v). (k, JStr v)) (sort_key fst y)"
      using that unfolding c by simp
    then have "sort_key fst x = sort_key fst y" by (rule map_injective) (auto simp: inj_def)
    then show ?thesis by (metis mset_sort)
  qed
  ultimately show ?thesis by blast
next
  case False
  then show ?thesis using assms(1,2) by (simp add: build_stage_cache_key_def canonical_sha256_eq del: dumps.simps)
qed

lemma cache_key_separates_witness:
  "\<exists>k. build_stage_cache_key sha256_hexdigest ''w'' ''s'' [(''a'', ''1''), (''b'', ''2'')] [] [] ''v'' ''c'' = Inr k \<and>
     build_stage_cache_key sha256_hexdigest ''w'' ''s'' [(''b'', ''2''), (''a'', ''1'')] [] [] ''v'' ''c'' = Inr k \<and>
     mset [(''a'', ''1''), (''b'', ''2'')] = mset [(''b'', ''2''), (''a'', ''1'' :: string)]"
proof -
  have p: "\<not> path_leak ''w''" "\<not> path_leak ''s''" "\<not> path_leak ''v''" "\<not> path_leak ''c''" "\<not> path_leak ''1''" "\<not> path_leak ''2''"
    by (simp_all add: plain_text_portable)
  have doc: "cache_key_document ''w'' ''s'' [(''b'', ''2''), (''a'', ''1'')] [] [] ''v'' ''c'' =
      cache_key_document ''w'' ''s'' [(''a'', ''1''), (''b'', ''2'')] [] [] ''v'' ''c''"
    by (simp add: cache_key_document_def sorted_dict_def)
  obtain k where k: "build_stage_cache_key sha256_hexdigest ''w'' ''s'' [(''a'', ''1''), (''b'', ''2'')] [] [] ''v'' ''c'' = Inr k"
    by (simp add: build_stage_cache_key_def cache_key_document_def canonical_sha256_eq p sorted_dict_def FORBIDDEN_PORTABLE_KEYS_def
        lower_def lower_char_def del: dumps.simps)
  then have k': "build_stage_cache_key sha256_hexdigest ''w'' ''s'' [(''b'', ''2''), (''a'', ''1'')] [] [] ''v'' ''c'' = Inr k"
    by (simp add: build_stage_cache_key_def doc)
  show ?thesis using cache_key_separates [OF k k'] k k' by (simp add: doc)
qed

section \<open>Published artifacts\<close>

text \<open>C19: A verified attempt is intact: when a published directory passes verification its manifest is a
  valid document inside it, the directory carries its name, and the file of every entry is a regular
  file with the recorded size and digest; a changed, truncated, replaced or missing file is an
  integrity error, and a directory in its place the \<open>IsADirectoryError\<close> of \<open>os.fdopen\<close>.\<close>

theorem verified_attempt_is_intact:
  "case verify_attempt_directory sha name d of
     Inl e \<Rightarrow> is_integrity_error e \<or> (\<exists>t. e = OSError t)
   | Inr a \<Rightarrow> pa_name a = name \<and> m_attempt_id (pa_manifest a) = name \<and>
       (\<exists>b. lookup d ATTEMPT_MANIFEST_FILE = RegularFile b \<and> parse_attempt_manifest_bytes b = Inr (pa_manifest a) \<and>
          pa_manifest_sha256 a = sha b) \<and>
       list_all (\<lambda>e. case lookup d (e_relative_path e) of
           RegularFile content \<Rightarrow> sha content = e_sha256 e \<and> length content = e_byte_count e
         | _ \<Rightarrow> False) (m_artifacts (pa_manifest a))"
proof (cases "verify_attempt_directory sha name d")
  case (Inl e)
  have hash: "fails_only (\<lambda>e. is_integrity_error e \<or> (\<exists>t. e = OSError t)) (hash_regular_file sha n k)" for n k
    by (cases n) (simp_all add: hash_regular_file_def fails_only_def)
  have "fails_only (\<lambda>e. is_integrity_error e \<or> (\<exists>t. e = OSError t)) (verify_attempt_directory sha name d)"
  proof -
    have read: "fails_only (\<lambda>e. is_integrity_error e \<or> (\<exists>t. e = OSError t))
      (raise_from (\<lambda>e. is_integrity_error e \<or> is_value_error e) (ArtifactIntegrityError ''attempt manifest is invalid'')
         (bindE (read_bounded_regular_file (lookup d ATTEMPT_MANIFEST_FILE) MAX_CONTROL_FILE_BYTES)
            (\<lambda>b. bindE (parse_attempt_manifest_bytes b) (\<lambda>m. Inr (b, m)))))"
      using parse_attempt_manifest_fails
      by (cases "lookup d ATTEMPT_MANIFEST_FILE")
        (auto simp: read_bounded_regular_file_def fails_only_def raise_from_def Let_def bindE_def split: sum.splits)
    show ?thesis
      unfolding verify_attempt_directory_def
    proof (rule fails_only_bind [OF read])
      fix bm :: "string \<times> attempt_manifest"
      obtain b m where bm: "bm = (b, m)" by (cases bm)
      have "fails_only (\<lambda>e. is_integrity_error e \<or> (\<exists>t. e = OSError t)) (verify_artifact sha d x)" for x
        unfolding verify_artifact_def by (rule fails_only_bind [OF hash], rule fails_only_ensure) simp
      then show "fails_only (\<lambda>e. is_integrity_error e \<or> (\<exists>t. e = OSError t)) (case bm of (b, m) \<Rightarrow>
          bindE (ensure (name = m_attempt_id m) (ArtifactIntegrityError ''attempt directory identity mismatch'')) (\<lambda>_.
          bindE (mapE (verify_artifact sha d) (m_artifacts m)) (\<lambda>_.
            Inr \<lparr>pa_name = name, pa_manifest = m, pa_manifest_sha256 = sha b\<rparr>)))"
        unfolding bm prod.case
        by (intro fails_only_bind fails_only_mapE fails_only_ensure fails_only_Inr) simp_all
    qed
  qed
  then show ?thesis unfolding Inl by (simp add: fails_only_def)
next
  case (Inr a)
  then obtain b m u where read: "read_bounded_regular_file (lookup d ATTEMPT_MANIFEST_FILE) MAX_CONTROL_FILE_BYTES = Inr b"
    and parse: "parse_attempt_manifest_bytes b = Inr m" and name: "name = m_attempt_id m"
    and files: "mapE (verify_artifact sha d) (m_artifacts m) = Inr u"
    and a: "a = \<lparr>pa_name = name, pa_manifest = m, pa_manifest_sha256 = sha b\<rparr>"
    by (auto simp: verify_attempt_directory_def)
  have ok: "case lookup d (e_relative_path e) of
      RegularFile content \<Rightarrow> sha content = e_sha256 e \<and> length content = e_byte_count e | _ \<Rightarrow> False"
    if "verify_artifact sha d e = Inr ()" for e
    using that by (cases "lookup d (e_relative_path e)") (auto simp: verify_artifact_def hash_regular_file_def split: if_splits)
  have "verify_artifact sha d e = Inr ()" if "e \<in> set (m_artifacts m)" for e
    using files that by (auto simp: mapE_eq_Inr_iff list_all2_conv_all_nth in_set_conv_nth)
  with ok have "list_all (\<lambda>e. case lookup d (e_relative_path e) of
      RegularFile content \<Rightarrow> sha content = e_sha256 e \<and> length content = e_byte_count e | _ \<Rightarrow> False) (m_artifacts m)"
    unfolding list_all_iff by blast
  then show ?thesis
    using read parse name unfolding Inr sum.case a by (simp add: read_bounded_regular_file_iff)
qed

text \<open>C20: The published attempt that is selected is one of the candidates of its cache key, every
  candidate verified, all of them hold the same artifact keys, digests and sizes, and the one chosen has
  the greatest attempt number.\<close>

theorem selected_attempt_is_latest:
  "case select_published env d cache w of
     Inr (Some a) \<Rightarrow> \<exists>entries attempts. w_published w (sd_stage_id d, cache) = Some (CacheRoot entries) \<and>
       mapE (check_candidate env d cache) (sort_key fst entries) = Inr attempts \<and> a \<in> set attempts \<and>
       list_all (\<lambda>b. fingerprint b = fingerprint a \<and>
         m_attempt_number (pa_manifest b) \<le> m_attempt_number (pa_manifest a)) attempts
   | _ \<Rightarrow> True"
proof -
  have "\<exists>entries attempts. w_published w (sd_stage_id d, cache) = Some (CacheRoot entries) \<and>
       mapE (check_candidate env d cache) (sort_key fst entries) = Inr attempts \<and> a \<in> set attempts \<and>
       list_all (\<lambda>b. fingerprint b = fingerprint a \<and>
         m_attempt_number (pa_manifest b) \<le> m_attempt_number (pa_manifest a)) attempts"
    if s: "select_published env d cache w = Inr (Some a)" for a
  proof -
    obtain entries where e: "w_published w (sd_stage_id d, cache) = Some (CacheRoot entries)"
      using s by (auto simp: select_published_def split: option.splits cache_root.splits)
    obtain attempts where m: "mapE (check_candidate env d cache) (sort_key fst entries) = Inr attempts"
      using s e by (auto simp: select_published_def)
    obtain first rest where attempts: "attempts = first # rest"
      and same: "list_all (\<lambda>a. fingerprint a = fingerprint first) rest" and a: "a = latest first rest"
      using s e m by (auto simp: select_published_def split: list.splits if_splits)
    have f: "fingerprint b = fingerprint first" if "b \<in> set attempts" for b
      using that same unfolding attempts by (auto simp: list_all_iff)
    have r: "m_attempt_number (pa_manifest b) \<le> m_attempt_number (pa_manifest a)" if "b \<in> set attempts" for b
      using latest_max [of b first rest] that unfolding attempts a by (auto simp: attempt_rank_def less_eq_prod_def)
    have mem: "a \<in> set attempts" unfolding a attempts by (rule latest_member)
    then show ?thesis using e m f r f [OF mem] unfolding list_all_iff by (intro exI [of _ entries] exI [of _ attempts]) simp
  qed
  then show ?thesis by (simp split: sum.split option.split)
qed

section \<open>Invocations\<close>

text \<open>C23: A dry run writes nothing: whatever the stage, the state of the root after it, and after a dry
  run without a stage (which raises), is the state before it.\<close>

theorem dry_run_changes_nothing: "snd (run env force_stage True cb w) = w"
proof -
  have "keeps (\<lambda>w. w) (run env force_stage True cb)"
    unfolding run_def report_def by (cases force_stage) (auto intro!: keeps_intros)
  then show ?thesis by (simp add: keeps_def)
qed

text \<open>C4: Work is bounded, stage by stage: in one invocation, with any arguments and any crash callback,
  from any root, at most one attempt of each stage definition is begun, in the order of the definitions
  (\<open>w_begun\<close> logs the stage of every successful \<open>begin_attempt\<close>); the recorded inputs stay as they
  are, and so does the recorded identity of the run once the database has one.\<close>

theorem invocation_is_bounded:
  "\<exists>log. w_begun (snd (run_session env force_stage dry_run cb w)) = w_begun w @ log \<and>
     subseq log (map sd_stage_id (en_definitions env)) \<and> distinct log \<and>
     w_draws (snd (run_session env force_stage dry_run cb w)) = w_draws w + length log \<and>
     w_inputs (snd (run_session env force_stage dry_run cb w)) = w_inputs w \<and>
     (db_meta (w_database (snd (run_session env force_stage dry_run cb w))) = db_meta (w_database w) \<or>
      db_meta (w_database w) = [])"
  using begins_session [of env force_stage dry_run cb w] session_keeps_provenance [of env force_stage dry_run cb w]
  by metis

text \<open>C24: Mutual exclusion: while another process holds the lock of a root, an invocation raises and
  leaves the root as it is.\<close>

theorem locked_root_is_left_alone:
  assumes "w_locked w"
  shows "\<exists>e. run_session env force_stage dry_run cb w = (Raised e, w)"
proof (cases "load_run_inputs (en_sha env) (w_inputs w)")
  case (Inl e)
  then show ?thesis by (simp add: run_session_def bindS_def liftS_def)
next
  case (Inr inputs)
  have "\<exists>e. open_engine (env\<lparr>en_inputs := inputs\<rparr>) w = (Raised e, w)"
    using assms by (cases "validate_stage_definitions (en_definitions env)") (simp_all add: open_engine_def modifyS_def)
  then show ?thesis using Inr by (auto simp: run_session_def bindS_def liftS_def Let_def)
qed

lemma locked_root_is_left_alone_witness:
  "\<exists>e. run_session demo None False (\<lambda>_ _. Continue) (new_root NoEntry\<lparr>w_locked := True\<rparr>) =
     (Raised e, new_root NoEntry\<lparr>w_locked := True\<rparr>)"
  by (rule locked_root_is_left_alone) simp



section \<open>The exported document\<close>

text \<open>C26: The run document is read back: a valid run without a local context, written in its portable
  form, validates to the same run with its dictionaries in key order.\<close>

theorem run_document_round_trip:
  assumes "check_run sha r = Inr ()" and "rd_local_context r = None" and "run_distinct r"
    and "length (dumps (run_dump r)) < MAXIMUM_ARTIFACT_JSON_BYTES"
  shows "bindE (decode_bounded_json (dumps (run_dump r) @ [CHR 0x0A]) MAXIMUM_ARTIFACT_JSON_BYTES ''artifact JSON'')
      (run_validate sha) =
    Inr (r\<lparr>rd_configuration_hashes := sort_key fst (rd_configuration_hashes r),
       rd_stages := map (\<lambda>(s, x). (s, x\<lparr>sr_output_hashes := sort_key fst (sr_output_hashes x)\<rparr>)) (sort_key fst (rd_stages r))\<rparr>)"
proof -
  have d: "json_depth (run_dump r) \<le> MAXIMUM_JSON_DEPTH"
    by (rule order_trans [OF run_dump_ok(3)]) (simp add: MAXIMUM_JSON_DEPTH_def)
  show ?thesis
    using decode_stored_document [OF run_dump_ok(1) [OF assms(3)] d assms(4)] run_round_trip [OF assms(1,2)]
    by (simp add: sorted_run_def sorted_record_def)
qed


lemma demo_document:
  "\<exists>r. check_run sha256_hexdigest r = Inr () \<and> rd_local_context r = None \<and> run_distinct r \<and>
     length (dumps (run_dump r)) < MAXIMUM_ARTIFACT_JSON_BYTES"
proof -
  obtain w where "settled_root demo 1000 w" "w_draws w = 0" using demo_created by blast
  then have g: "good demo 1000 (w_database w) (w_published w) (w_attempts w) 0"
    by (simp add: settled_root_def holds_def)
  have e: "exportable demo" and b: "bounded_by demo 100 4" unfolding demo_def by (rule demo_exportable demo_bounded)+
  obtain i where i: "run_id_of (en_sha demo) (en_inputs demo) = Inr i" "length i \<le> 100"
    using demo_run_id by (auto simp: demo_def)
  obtain r where r: "run_of (en_inputs demo) (en_definitions demo) (w_database w) i = Inr r"
    "check_run (en_sha demo) r = Inr ()" "run_distinct r"
    by (rule demo.good_exports [OF e g i(1)])
  have "json_weight (run_dump r) \<le> 4000 + 40 * 100 + 4 * (3000 + 60 * 100) + 4 * (4 * (6 * 100 + 400))"
    by (rule demo.weight_exported [OF e b g _ _ r(1) i(2)]) simp_all
  then have "length (dumps (run_dump r)) < MAXIMUM_ARTIFACT_JSON_BYTES"
    using length_dumps [of "run_dump r"] by (simp add: MAXIMUM_ARTIFACT_JSON_BYTES_def)
  moreover have "rd_local_context r = None" using r(1) by (auto simp: run_of_def Let_def)
  ultimately show ?thesis using r(2,3) by (auto simp: demo_def)
qed

lemma run_document_round_trip_witness:
  "\<exists>r. check_run sha256_hexdigest r = Inr () \<and>
     bindE (decode_bounded_json (dumps (run_dump r) @ [CHR 0x0A]) MAXIMUM_ARTIFACT_JSON_BYTES ''artifact JSON'')
      (run_validate sha256_hexdigest) =
    Inr (r\<lparr>rd_configuration_hashes := sort_key fst (rd_configuration_hashes r),
       rd_stages := map (\<lambda>(s, x). (s, x\<lparr>sr_output_hashes := sort_key fst (sr_output_hashes x)\<rparr>)) (sort_key fst (rd_stages r))\<rparr>)"
  using demo_document run_document_round_trip by blast

end
