(* ===== verification/NativeTime.thy ===== *)
theory NativeTime
  imports Prelude
begin

text \<open>
  The native time arithmetic that \<^verbatim>\<open>python/cartosentry/contracts.py\<close> calls:
  \<^verbatim>\<open>cpp/src/time.cpp\<close> behind the bindings of
  \<^verbatim>\<open>cpp/bindings/module.cpp\<close>.  Machine integers are integers whose arithmetic is
  reduced to 64 bits at every operation (\<open>u64\<close>, \<open>i64\<close>); the lemmas show that no
  reduction ever changes a value, so there is no wrap-around and no signed overflow, that a decimal
  lexeme is converted with rounding half away from zero, and that the checked operations are exact
  or raise \<open>OverflowError\<close> precisely when the result does not fit.  The binding turns
  \<open>std::invalid_argument\<close> into \<open>ValueError\<close>.
\<close>

section \<open>Machine integers\<close>

definition u64 :: "int \<Rightarrow> int" where
  "u64 x = x mod 2 ^ 64"

definition i64 :: "int \<Rightarrow> int" where
  "i64 x = (x + 2 ^ 63) mod 2 ^ 64 - 2 ^ 63"

definition INT64_MAX :: int where
  "INT64_MAX = 2 ^ 63 - 1"

definition INT64_MIN :: int where
  "INT64_MIN = - (2 ^ 63)"

definition UINT64_MAX :: int where
  "UINT64_MAX = 2 ^ 64 - 1"

definition in_int64 :: "int \<Rightarrow> bool" where
  "in_int64 x \<longleftrightarrow> INT64_MIN \<le> x \<and> x \<le> INT64_MAX"

lemma u64_id: "0 \<le> x \<Longrightarrow> x \<le> UINT64_MAX \<Longrightarrow> u64 x = x"
  by (simp add: u64_def UINT64_MAX_def)

lemma i64_id: "in_int64 x \<Longrightarrow> i64 x = x"
  by (simp add: i64_def in_int64_def INT64_MIN_def INT64_MAX_def)

section \<open>Decimal seconds\<close>

definition MAXIMUM_DECIMAL_SECONDS_BYTES :: nat where
  "MAXIMUM_DECIMAL_SECONDS_BYTES = 64"

definition plain_decimal_required :: "'a res" where
  "plain_decimal_required = Inl (ValueError ''plain decimal seconds required'')"

text \<open>\<open>std::from_chars\<close> on a string of digits: the value, or an error when it does not fit.\<close>

definition parse_unsigned :: "string \<Rightarrow> int res" where
  "parse_unsigned s =
     (if s = [] \<or> \<not> list_all is_digit s \<or> UINT64_MAX < int (read_nat s)
      then plain_decimal_required else Inr (int (read_nat s)))"

definition checked_nanosecond_magnitude :: "int \<Rightarrow> int \<Rightarrow> bool \<Rightarrow> int res" where
  "checked_nanosecond_magnitude seconds fraction_ns negative =
     (let positive_limit = INT64_MAX;
          magnitude_limit = (if negative then u64 (positive_limit + 1) else positive_limit)
      in if magnitude_limit div 1000000000 < seconds \<or>
            seconds = magnitude_limit div 1000000000 \<and> magnitude_limit mod 1000000000 < fraction_ns
         then Inl (OverflowError ''nanosecond timestamp is out of range'')
         else let magnitude = u64 (u64 (seconds * 1000000000) + fraction_ns)
              in if \<not> negative then Inr (i64 magnitude)
                 else if magnitude = u64 (positive_limit + 1) then Inr INT64_MIN
                 else Inr (i64 (- i64 magnitude)))"

text \<open>The loop over the fractional digits: the nanoseconds, the number of digits, the rounding.\<close>

definition fraction_digit :: "int \<times> nat \<times> bool \<Rightarrow> char \<Rightarrow> int \<times> nat \<times> bool" where
  "fraction_digit st c =
     (case st of (fraction_ns, fraction_digits, round_up) \<Rightarrow>
        if fraction_digits < 9
        then (u64 (u64 (fraction_ns * 10) + int (digit_val c)), fraction_digits + 1, round_up)
        else if fraction_digits = 9 then (fraction_ns, fraction_digits + 1, 5 \<le> digit_val c)
        else (fraction_ns, fraction_digits + 1, round_up))"

text \<open>The loop that fills up to nine digits.\<close>

function fill_digits :: "int \<Rightarrow> nat \<Rightarrow> int" where
  "fill_digits fraction_ns fraction_digits =
     (if fraction_digits < 9 then fill_digits (u64 (fraction_ns * 10)) (fraction_digits + 1) else fraction_ns)"
  by pat_completeness auto
termination
  by (relation "measure (\<lambda>(_, n). 9 - n)") auto

declare fill_digits.simps [simp del]

definition round_fraction :: "int \<Rightarrow> int \<Rightarrow> bool \<Rightarrow> (int \<times> int) res" where
  "round_fraction seconds fraction_ns round_up =
     (let fraction_ns = (if round_up then u64 (fraction_ns + 1) else fraction_ns)
      in if fraction_ns = 1000000000 then
           (if seconds = UINT64_MAX then Inl (OverflowError ''nanosecond timestamp is out of range'')
            else Inr (u64 (seconds + 1), 0))
         else Inr (seconds, fraction_ns))"

definition decimal_seconds_to_nanoseconds :: "string \<Rightarrow> int res" where
  "decimal_seconds_to_nanoseconds lexeme =
     (if lexeme = [] \<or> MAXIMUM_DECIMAL_SECONDS_BYTES < length lexeme then plain_decimal_required
      else
        let signed = hd lexeme = CHR ''+'' \<or> hd lexeme = CHR ''-'';
            negative = (hd lexeme = CHR ''-'');
            unsigned = (if signed then tl lexeme else lexeme);
            integer = takeWhile is_digit unsigned;
            rest = dropWhile is_digit unsigned
        in if integer = [] then plain_decimal_required
           else bindE (parse_unsigned integer) (\<lambda>seconds.
             bindE (case rest of
                 [] \<Rightarrow> Inr (0, 0, False)
               | dot # after \<Rightarrow>
                   (if dot \<noteq> CHR ''.'' then plain_decimal_required
                    else if takeWhile is_digit after = [] then Inl (ValueError ''fractional digits required'')
                    else if dropWhile is_digit after \<noteq> [] then plain_decimal_required
                    else Inr (foldl fraction_digit (0, 0, False) (takeWhile is_digit after))))
               (\<lambda>(fraction_ns, fraction_digits, round_up).
             bindE (round_fraction seconds (fill_digits fraction_ns fraction_digits) round_up)
               (\<lambda>(seconds, fraction_ns). checked_nanosecond_magnitude seconds fraction_ns negative))))"

section \<open>Checked arithmetic on tagged times\<close>

datatype time_epoch = UNIX_UTC | GPS | SENSOR_BOOT | HOST_MONOTONIC | UNKNOWN_EPOCH

definition epoch_name :: "time_epoch \<Rightarrow> string" where
  "epoch_name e = (case e of
     UNIX_UTC \<Rightarrow> ''UNIX_UTC'' | GPS \<Rightarrow> ''GPS'' | SENSOR_BOOT \<Rightarrow> ''SENSOR_BOOT''
   | HOST_MONOTONIC \<Rightarrow> ''HOST_MONOTONIC'' | UNKNOWN_EPOCH \<Rightarrow> ''UNKNOWN'')"

definition parse_time_epoch :: "string \<Rightarrow> time_epoch res" where
  "parse_time_epoch value0 =
     (if value0 = ''UNIX_UTC'' then Inr UNIX_UTC
      else if value0 = ''GPS'' then Inr GPS
      else if value0 = ''SENSOR_BOOT'' then Inr SENSOR_BOOT
      else if value0 = ''HOST_MONOTONIC'' then Inr HOST_MONOTONIC
      else if value0 = ''UNKNOWN'' then Inr UNKNOWN_EPOCH
      else Inl (ValueError ''unsupported time epoch''))"

definition require_clock_id :: "string \<Rightarrow> unit res" where
  "require_clock_id clock = ensure (clock \<noteq> []) (ValueError ''time point clock_id must be nonempty'')"

definition checked_time_add_ns :: "int \<Rightarrow> string \<Rightarrow> string \<Rightarrow> int \<Rightarrow> int res" where
  "checked_time_add_ns value_ns epoch clock duration_ns =
     bindE (parse_time_epoch epoch) (\<lambda>_.
     bindE (require_clock_id clock) (\<lambda>_.
       if 0 < duration_ns \<and> i64 (INT64_MAX - duration_ns) < value_ns
          \<or> duration_ns < 0 \<and> value_ns < i64 (INT64_MIN - duration_ns)
       then Inl (OverflowError ''nanosecond timestamp addition is out of range'')
       else Inr (i64 (value_ns + duration_ns))))"

definition checked_time_difference_ns ::
  "int \<Rightarrow> string \<Rightarrow> string \<Rightarrow> int \<Rightarrow> string \<Rightarrow> string \<Rightarrow> int res" where
  "checked_time_difference_ns end_ns end_epoch end_clock start_ns start_epoch start_clock =
     bindE (parse_time_epoch end_epoch) (\<lambda>e.
     bindE (parse_time_epoch start_epoch) (\<lambda>s.
     bindE (require_clock_id end_clock) (\<lambda>_.
     bindE (require_clock_id start_clock) (\<lambda>_.
       if \<not> (e = s \<and> end_clock = start_clock)
       then Inl (ValueError ''time points have incomparable epochs or clocks'')
       else if start_ns < 0 \<and> i64 (INT64_MAX + start_ns) < end_ns
          \<or> 0 < start_ns \<and> end_ns < i64 (INT64_MIN + start_ns)
       then Inl (OverflowError ''nanosecond duration is out of range'')
       else Inr (i64 (end_ns - start_ns))))))"

section \<open>Exactness\<close>

lemma parse_epoch_name [simp]: "parse_time_epoch (epoch_name e) = Inr e"
  by (cases e) (simp_all add: parse_time_epoch_def epoch_name_def)

lemma checked_difference_exact:
  assumes "in_int64 x" and "in_int64 y" and "c \<noteq> []"
  shows "checked_time_difference_ns x (epoch_name e) c y (epoch_name e) c =
     (if in_int64 (x - y) then Inr (x - y) else Inl (OverflowError ''nanosecond duration is out of range''))"
proof -
  have "i64 (INT64_MAX + y) = INT64_MAX + y" if "y < 0"
    by (rule i64_id) (use that assms in \<open>simp add: in_int64_def INT64_MIN_def INT64_MAX_def\<close>)
  moreover have "i64 (INT64_MIN + y) = INT64_MIN + y" if "0 < y"
    by (rule i64_id) (use that assms in \<open>simp add: in_int64_def INT64_MIN_def INT64_MAX_def\<close>)
  ultimately have "(y < 0 \<and> i64 (INT64_MAX + y) < x \<or> 0 < y \<and> x < i64 (INT64_MIN + y)) \<longleftrightarrow> \<not> in_int64 (x - y)"
    using assms(1,2) by (auto simp: in_int64_def INT64_MIN_def INT64_MAX_def)
  then show ?thesis
    using assms(3) i64_id [of "x - y"] by (simp add: checked_time_difference_ns_def require_clock_id_def)
qed

lemma checked_add_exact:
  assumes "in_int64 x" and "in_int64 y" and "c \<noteq> []"
  shows "checked_time_add_ns x (epoch_name e) c y =
     (if in_int64 (x + y) then Inr (x + y)
      else Inl (OverflowError ''nanosecond timestamp addition is out of range''))"
proof -
  have "i64 (INT64_MAX - y) = INT64_MAX - y" if "0 < y"
    by (rule i64_id) (use that assms in \<open>simp add: in_int64_def INT64_MIN_def INT64_MAX_def\<close>)
  moreover have "i64 (INT64_MIN - y) = INT64_MIN - y" if "y < 0"
    by (rule i64_id) (use that assms in \<open>simp add: in_int64_def INT64_MIN_def INT64_MAX_def\<close>)
  ultimately have "(0 < y \<and> i64 (INT64_MAX - y) < x \<or> y < 0 \<and> x < i64 (INT64_MIN - y)) \<longleftrightarrow> \<not> in_int64 (x + y)"
    using assms(1,2) by (auto simp: in_int64_def INT64_MIN_def INT64_MAX_def)
  then show ?thesis
    using assms(3) i64_id [of "x + y"] by (simp add: checked_time_add_ns_def require_clock_id_def)
qed

section \<open>Rounding of decimal lexemes\<close>

lemma lexicographic_limit:
  fixes B :: int
  assumes "0 \<le> f" and "f < B"
  shows "(L div B < s \<or> s = L div B \<and> L mod B < f) \<longleftrightarrow> L < s * B + f"
proof -
  define q m where "q = L div B" and "m = L mod B"
  have L: "L = q * B + m" and m: "0 \<le> m" "m < B" using assms by (simp_all add: q_def m_def)
  have fold: "(L div B < s \<or> s = L div B \<and> L mod B < f) \<longleftrightarrow> (q < s \<or> s = q \<and> m < f)"
    by (simp add: q_def m_def)
  consider "s < q" | "s = q" | "q < s" by linarith
  then show ?thesis
  proof cases
    case 1
    then have "(s + 1) * B \<le> q * B" using assms by (intro mult_right_mono) simp_all
    then have "\<not> L < s * B + f" using L m assms by (simp add: algebra_simps)
    then show ?thesis unfolding fold using 1 by simp
  next
    case 2
    then show ?thesis unfolding fold using L by simp
  next
    case 3
    then have "(q + 1) * B \<le> s * B" using assms by (intro mult_right_mono) simp_all
    then have "L < s * B + f" using L m assms by (simp add: algebra_simps)
    then show ?thesis unfolding fold using 3 by simp
  qed
qed

lemma magnitude_exact:
  assumes "0 \<le> s" and "0 \<le> f" and "f < 1000000000"
  shows "checked_nanosecond_magnitude s f negative =
     (let v = s * 1000000000 + f; r = (if negative then - v else v)
      in if in_int64 r then Inr r else Inl (OverflowError ''nanosecond timestamp is out of range''))"
proof -
  define L where "L = (if negative then 2 ^ 63 else 2 ^ 63 - 1 :: int)"
  have limit: "(if negative then u64 (INT64_MAX + 1) else INT64_MAX) = L"
    by (simp add: L_def u64_def INT64_MAX_def)
  let ?v = "s * 1000000000 + f"
  have v0: "0 \<le> s * 1000000000" using assms by simp
  show ?thesis
  proof (cases "L < ?v")
    case True
    then have "\<not> in_int64 (if negative then - ?v else ?v)"
      by (simp add: L_def in_int64_def INT64_MIN_def INT64_MAX_def split: if_splits)
    then show ?thesis
      using True unfolding checked_nanosecond_magnitude_def Let_def limit lexicographic_limit [OF assms(2,3)] by simp
  next
    case False
    then have b: "?v \<le> L" by simp
    have "L \<le> 2 ^ 63" by (simp add: L_def)
    then have "u64 (s * 1000000000) = s * 1000000000" "u64 ?v = ?v"
      using b v0 assms(2) by (auto intro!: u64_id simp: UINT64_MAX_def)
    then have mag: "u64 (u64 (s * 1000000000) + f) = ?v" by simp
    have "in_int64 (if negative then - ?v else ?v)"
      using b v0 assms by (auto simp: L_def in_int64_def INT64_MIN_def INT64_MAX_def split: if_splits)
    moreover have "\<not> negative \<Longrightarrow> i64 ?v = ?v"
      using b v0 assms by (intro i64_id) (auto simp: L_def in_int64_def INT64_MIN_def INT64_MAX_def)
    moreover have "negative \<Longrightarrow> ?v \<noteq> 2 ^ 63 \<Longrightarrow> i64 (- i64 ?v) = - ?v"
    proof -
      assume n: "negative" "?v \<noteq> 2 ^ 63"
      have "i64 ?v = ?v"
        using b v0 assms n by (intro i64_id) (auto simp: L_def in_int64_def INT64_MIN_def INT64_MAX_def)
      moreover have "i64 (- ?v) = - ?v"
        using b v0 assms n by (intro i64_id) (auto simp: L_def in_int64_def INT64_MIN_def INT64_MAX_def)
      ultimately show ?thesis by simp
    qed
    moreover have "u64 (INT64_MAX + 1) = 2 ^ 63" by (simp add: u64_def INT64_MAX_def)
    ultimately show ?thesis
      using b unfolding checked_nanosecond_magnitude_def Let_def limit lexicographic_limit [OF assms(2,3)] mag
      by (auto simp: INT64_MIN_def)
  qed
qed

lemma read_nat_append: "read_nat (xs @ ys) = read_nat xs * 10 ^ length ys + read_nat ys"
proof (induction ys rule: rev_induct)
  case (snoc y ys)
  have "read_nat (xs @ ys @ [y]) = 10 * read_nat (xs @ ys) + digit_val y"
    using read_nat_snoc [of "xs @ ys" y] by simp
  then show ?case using snoc by (simp add: read_nat_snoc algebra_simps)
qed (simp add: read_nat_def)

lemma digit_val_bound: "is_digit c \<Longrightarrow> digit_val c < 10"
  by (auto simp: is_digit_def digit_val_def)

lemma read_nat_bound: "list_all is_digit ds \<Longrightarrow> read_nat ds < 10 ^ length ds"
proof (induction ds rule: rev_induct)
  case (snoc d ds)
  then have "read_nat ds + 1 \<le> 10 ^ length ds" and "digit_val d < 10"
    using digit_val_bound by simp_all
  then have "10 * (read_nat ds + 1) \<le> 10 * 10 ^ length ds" by (intro mult_le_mono) simp_all
  then show ?case using \<open>digit_val d < 10\<close> by (simp add: read_nat_snoc)
qed (simp add: read_nat_def)

lemma fraction_digit_step:
  "fraction_digit (f, n, r) c =
     (if n < 9 then (u64 (u64 (f * 10) + int (digit_val c)), n + 1, r)
      else if n = 9 then (f, n + 1, 5 \<le> digit_val c) else (f, n + 1, r))"
  by (simp add: fraction_digit_def)

lemma fraction_digits_fold:
  "list_all is_digit ds \<Longrightarrow> foldl fraction_digit (0, 0, False) ds =
     (int (read_nat (take 9 ds)), length ds, 9 < length ds \<and> 5 \<le> digit_val (ds ! 9))"
proof (induction ds rule: rev_induct)
  case (snoc d ds)
  then have ih: "foldl fraction_digit (0, 0, False) ds =
     (int (read_nat (take 9 ds)), length ds, 9 < length ds \<and> 5 \<le> digit_val (ds ! 9))" by simp
  consider "length ds < 9" | "length ds = 9" | "9 < length ds" by linarith
  then show ?case
  proof cases
    case 1
    have "read_nat ds < 10 ^ length ds" using snoc.prems by (simp add: read_nat_bound)
    moreover have "(10::nat) ^ length ds \<le> 10 ^ 8" using 1 by (intro power_increasing) simp_all
    ultimately have b: "int (read_nat ds) < 10 ^ 8" by simp
    have dv: "digit_val d < 10" using snoc.prems by (simp add: digit_val_bound)
    have "u64 (int (read_nat ds) * 10) = int (read_nat ds) * 10"
      using b by (intro u64_id) (simp_all add: UINT64_MAX_def)
    moreover have "u64 (int (read_nat ds) * 10 + int (digit_val d)) = int (read_nat ds) * 10 + int (digit_val d)"
      using b dv by (intro u64_id) (simp_all add: UINT64_MAX_def)
    ultimately show ?thesis using 1 ih by (simp add: fraction_digit_step read_nat_snoc)
  next
    case 2
    then show ?thesis using ih by (simp add: fraction_digit_step nth_append)
  next
    case 3
    then show ?thesis using ih by (simp add: fraction_digit_step nth_append)
  qed
qed (simp add: read_nat_def)

lemma fill_digits_exact:
  "0 \<le> f \<Longrightarrow> f < 10 ^ n \<Longrightarrow> n \<le> 9 \<Longrightarrow> fill_digits f n = f * 10 ^ (9 - n)"
proof (induction f n rule: fill_digits.induct)
  case (1 f n)
  show ?case
  proof (cases "n < 9")
    case True
    have "(10::int) ^ n \<le> 10 ^ 8" using True by (intro power_increasing) simp_all
    then have u: "u64 (f * 10) = f * 10" using "1.prems" by (intro u64_id) (simp_all add: UINT64_MAX_def)
    have "fill_digits f n = fill_digits (f * 10) (n + 1)" using True u by (simp add: fill_digits.simps)
    also have "\<dots> = f * 10 * 10 ^ (9 - (n + 1))" using "1.IH" [OF True] "1.prems" True u by simp
    also have "\<dots> = f * 10 ^ (9 - n)"
    proof -
      have "9 - n = Suc (9 - (n + 1))" using True by simp
      then show ?thesis by (simp only: power_Suc mult.assoc)
    qed
    finally show ?thesis .
  next
    case False
    then show ?thesis using "1.prems" by (simp add: fill_digits.simps)
  qed
qed

text \<open>\<open>N / 10 ^ k\<close> seconds in nanoseconds, rounded half away from zero.\<close>

definition half_away :: "nat \<Rightarrow> nat \<Rightarrow> nat" where
  "half_away N k = (2 * N * 10 ^ 9 + 10 ^ k) div (2 * 10 ^ k)"

lemma half_away_short: "k \<le> 9 \<Longrightarrow> half_away N k = N * 10 ^ (9 - k)"
proof -
  assume "k \<le> 9"
  then have "(10::nat) ^ 9 = 10 ^ (9 - k) * 10 ^ k" by (simp flip: power_add)
  then have "2 * N * 10 ^ 9 + 10 ^ k = 10 ^ k + N * 10 ^ (9 - k) * (2 * 10 ^ k)" by (simp only: ac_simps)
  moreover have "(10 ^ k + N * 10 ^ (9 - k) * (2 * 10 ^ k)) div (2 * 10 ^ k) = N * 10 ^ (9 - k) + 10 ^ k div (2 * 10 ^ k)"
    by (rule div_mult_self1) simp
  moreover have "10 ^ k div (2 * 10 ^ k :: nat) = 0" by simp
  ultimately show ?thesis unfolding half_away_def by (simp only: add_0_right)
qed

text \<open>Beyond nine digits the tenth decides: the remainder is at least a half exactly when it is at
  least five.\<close>

lemma half_away_long:
  assumes "list_all is_digit ds" and "9 < length ds"
  shows "half_away (read_nat ds) (length ds) = read_nat (take 9 ds) + (if 5 \<le> digit_val (ds ! 9) then 1 else 0)"
proof -
  define hi d lo where "hi = read_nat (take 9 ds)" and "d = digit_val (ds ! 9)" and "lo = read_nat (drop 10 ds)"
  define m where "m = length ds - 10"
  have ds: "ds = take 9 ds @ (ds ! 9) # drop 10 ds" using id_take_nth_drop [of 9 ds] assms(2) by simp
  have lo: "lo < 10 ^ m"
    using read_nat_bound [of "drop 10 ds"] assms by (simp add: lo_def m_def list_all_iff in_set_dropD [of _ 10])
  have "read_nat ((ds ! 9) # drop 10 ds) = d * 10 ^ m + lo"
    using read_nat_append [of "[ds ! 9]" "drop 10 ds"] by (simp add: d_def lo_def m_def read_nat_def)
  then have N: "read_nat ds = hi * 10 ^ Suc m + (d * 10 ^ m + lo)"
    using read_nat_append [of "take 9 ds" "(ds ! 9) # drop 10 ds"] assms(2)
    by (subst ds) (simp add: hi_def m_def Suc_diff_Suc)
  have k: "length ds = 9 + Suc m" using assms(2) by (simp add: m_def)
  have P: "(10::nat) ^ length ds = 10 ^ 9 * 10 ^ Suc m" unfolding k by (rule power_add)
  have "half_away (read_nat ds) (length ds) = (10 ^ 9 * (2 * read_nat ds + 10 ^ Suc m)) div (10 ^ 9 * (2 * 10 ^ Suc m))"
    unfolding half_away_def P by (simp only: algebra_simps)
  also have "\<dots> = (2 * read_nat ds + 10 ^ Suc m) div (2 * 10 ^ Suc m)"
    by (rule div_mult_mult1) simp
  also have "2 * read_nat ds + 10 ^ Suc m = (2 * (d * 10 ^ m + lo) + 10 ^ Suc m) + hi * (2 * 10 ^ Suc m)"
    unfolding N by (simp add: algebra_simps)
  also have "\<dots> div (2 * 10 ^ Suc m) = hi + (2 * (d * 10 ^ m + lo) + 10 ^ Suc m) div (2 * 10 ^ Suc m)"
    by (subst div_mult_self1) simp_all
  also have "(2 * (d * 10 ^ m + lo) + 10 ^ Suc m) div (2 * 10 ^ Suc m) = (if 5 \<le> d then 1 else 0)"
  proof -
    have d: "d < 10" using assms digit_val_bound by (simp add: d_def list_all_length)
    show ?thesis
    proof (cases "5 \<le> d")
      case True
      define x where "x = d * 10 ^ m"
      have "5 * 10 ^ m \<le> x" and "x \<le> 9 * 10 ^ m" using True d unfolding x_def by (intro mult_le_mono1; simp)+
      then have "2 * 10 ^ Suc m \<le> 2 * (x + lo) + 10 ^ Suc m" and "2 * (x + lo) + 10 ^ Suc m < 2 * (2 * 10 ^ Suc m)"
        using lo by simp_all
      then have "(2 * (x + lo) + 10 ^ Suc m) div (2 * 10 ^ Suc m) = 1"
        by (intro div_nat_eqI) simp_all
      then have "(2 * (d * 10 ^ m + lo) + 10 ^ Suc m) div (2 * 10 ^ Suc m) = 1" unfolding x_def .
      then show ?thesis using True by simp
    next
      case False
      define x where "x = d * 10 ^ m"
      have "x \<le> 4 * 10 ^ m" unfolding x_def by (intro mult_le_mono1) (use False in simp)
      then have "2 * (x + lo) + 10 ^ Suc m < 2 * 10 ^ Suc m" using lo by simp
      then have "2 * (d * 10 ^ m + lo) + 10 ^ Suc m < 2 * 10 ^ Suc m" unfolding x_def .
      then show ?thesis using False by simp
    qed
  qed
  finally show ?thesis by (simp add: hi_def d_def)
qed

lemma half_away_whole: "half_away (I * 10 ^ k + F) k = I * 10 ^ 9 + half_away F k"
proof -
  have "2 * (I * 10 ^ k + F) * 10 ^ 9 + 10 ^ k = (2 * F * 10 ^ 9 + 10 ^ k) + (I * 10 ^ 9) * (2 * 10 ^ k)"
    by (simp add: algebra_simps)
  moreover have "((2 * F * 10 ^ 9 + 10 ^ k) + (I * 10 ^ 9) * (2 * 10 ^ k)) div (2 * 10 ^ k)
      = I * 10 ^ 9 + (2 * F * 10 ^ 9 + 10 ^ k) div (2 * 10 ^ k)"
    by (rule div_mult_self1) simp
  ultimately show ?thesis unfolding half_away_def by (simp only:)
qed

lemma half_away_fraction_bound:
  assumes "list_all is_digit ds"
  shows "half_away (read_nat ds) (length ds) \<le> 10 ^ 9"
proof (cases "length ds \<le> 9")
  case True
  have "read_nat ds * 10 ^ (9 - length ds) \<le> 10 ^ length ds * 10 ^ (9 - length ds)"
    using read_nat_bound [OF assms] by (intro mult_le_mono1) simp
  also have "\<dots> = 10 ^ 9" using True by (simp flip: power_add)
  finally show ?thesis using half_away_short [OF True] by simp
next
  case False
  then have "9 < length ds" by simp
  moreover have "read_nat (take 9 ds) < 10 ^ length (take 9 ds)"
    by (rule read_nat_bound) (use assms in \<open>auto simp: list_all_iff dest: in_set_takeD\<close>)
  ultimately show ?thesis using half_away_long [OF assms] False by (simp add: min_def)
qed

text \<open>What the three loops compute from the fractional digits.\<close>

lemma round_fraction_exact:
  assumes "list_all is_digit ds" and "0 \<le> s" and "s \<le> UINT64_MAX"
  shows "round_fraction s (fill_digits (int (read_nat (take 9 ds))) (length ds)) (9 < length ds \<and> 5 \<le> digit_val (ds ! 9))
     = (let v = int (half_away (read_nat ds) (length ds))
        in if v = 1000000000
           then (if s = UINT64_MAX then Inl (OverflowError ''nanosecond timestamp is out of range'') else Inr (s + 1, 0))
           else Inr (s, v))"
proof -
  let ?up = "9 < length ds \<and> 5 \<le> digit_val (ds ! 9)"
  let ?f = "fill_digits (int (read_nat (take 9 ds))) (length ds)"
  let ?v = "int (half_away (read_nat ds) (length ds))"
  have v: "(if ?up then u64 (?f + 1) else ?f) = ?v"
  proof (cases "length ds \<le> 9")
    case True
    have "int (read_nat ds) < 10 ^ length ds"
      using read_nat_bound [OF assms(1)] by (metis of_nat_less_iff of_nat_numeral of_nat_power)
    then have "?f = int (read_nat ds) * 10 ^ (9 - length ds)" using True by (simp add: fill_digits_exact)
    then show ?thesis using True half_away_short [OF True] by simp
  next
    case False
    then have long: "9 < length ds" by simp
    have f: "?f = int (read_nat (take 9 ds))" using long by (simp add: fill_digits.simps)
    have "read_nat (take 9 ds) < 10 ^ length (take 9 ds)"
      by (rule read_nat_bound) (use assms(1) in \<open>auto simp: list_all_iff dest: in_set_takeD\<close>)
    then have "u64 (?f + 1) = ?f + 1"
      unfolding f using long by (intro u64_id) (simp_all add: UINT64_MAX_def min_def)
    then show ?thesis unfolding f half_away_long [OF assms(1) long] using long by auto
  qed
  have "u64 (s + 1) = s + 1" if "s \<noteq> UINT64_MAX"
    using that assms(2,3) by (intro u64_id) simp_all
  then show ?thesis unfolding round_fraction_def Let_def v by auto
qed

lemma decimal_shape:
  assumes "sign \<in> {[], ''+'', ''-''}" and "list_all is_digit i" and "i \<noteq> []"
  shows "let lexeme = sign @ i @ r; signed = hd lexeme = CHR ''+'' \<or> hd lexeme = CHR ''-'';
           unsigned = (if signed then tl lexeme else lexeme)
         in (hd lexeme = CHR ''-'') = (sign = ''-'') \<and> unsigned = i @ r"
proof -
  obtain c j where c: "i = c # j" using assms(3) by (cases i) auto
  have "c \<noteq> CHR ''+'' \<and> c \<noteq> CHR ''-''" using assms(2) c by (auto simp: is_digit_def)
  then show ?thesis using assms(1) c by auto
qed

lemma takeWhile_digits:
  "list_all is_digit i \<Longrightarrow> (case r of [] \<Rightarrow> True | c # _ \<Rightarrow> \<not> is_digit c) \<Longrightarrow>
     takeWhile is_digit (i @ r) = i \<and> dropWhile is_digit (i @ r) = r"
  by (induction i) (auto split: list.splits)

lemma decimal_rounding:
  assumes sign: "sign \<in> {[], ''+'', ''-''}" and i: "list_all is_digit i" "i \<noteq> []" and f: "list_all is_digit f"
    and lexeme: "lexeme = sign @ i @ (if f = [] then [] else ''.'' @ f)"
    and len: "length lexeme \<le> MAXIMUM_DECIMAL_SECONDS_BYTES" and fits: "int (read_nat i) \<le> UINT64_MAX"
  shows "decimal_seconds_to_nanoseconds lexeme =
     (let v = int (half_away (read_nat (i @ f)) (length f)); r = (if sign = ''-'' then - v else v)
      in if in_int64 r then Inr r else Inl (OverflowError ''nanosecond timestamp is out of range''))"
proof -
  let ?rest = "if f = [] then [] else ''.'' @ f"
  define s where "s = int (read_nat i)"
  define v where "v = int (half_away (read_nat f) (length f))"
  have shape: "(hd lexeme = CHR ''-'') = (sign = ''-'')"
    "(if hd lexeme = CHR ''+'' \<or> hd lexeme = CHR ''-'' then tl lexeme else lexeme) = i @ ?rest"
    using decimal_shape [OF sign i, of ?rest] unfolding lexeme Let_def by blast+
  have dot: "\<not> is_digit (CHR ''.'')" by (simp add: is_digit_def)
  have split: "takeWhile is_digit (i @ ?rest) = i" "dropWhile is_digit (i @ ?rest) = ?rest"
    using takeWhile_digits [OF i(1), of ?rest] dot by simp_all
  have frac: "takeWhile is_digit f = f" "dropWhile is_digit f = []"
    using f by (auto simp: list_all_iff takeWhile_eq_all_conv dropWhile_eq_Nil_conv)
  have seconds: "parse_unsigned i = Inr s" using i fits by (simp add: parse_unsigned_def s_def)
  have fold: "(case ?rest of [] \<Rightarrow> Inr (0, 0, False)
      | dot # after \<Rightarrow>
          (if dot \<noteq> CHR ''.'' then plain_decimal_required
           else if takeWhile is_digit after = [] then Inl (ValueError ''fractional digits required'')
           else if dropWhile is_digit after \<noteq> [] then plain_decimal_required
           else Inr (foldl fraction_digit (0, 0, False) (takeWhile is_digit after)))) =
      Inr (int (read_nat (take 9 f)), length f, 9 < length f \<and> 5 \<le> digit_val (f ! 9))"
    using fraction_digits_fold [OF f] by (simp add: frac read_nat_def)
  have "lexeme \<noteq> []" using i(2) by (simp add: lexeme)
  then have "decimal_seconds_to_nanoseconds lexeme =
      bindE (round_fraction s (fill_digits (int (read_nat (take 9 f))) (length f)) (9 < length f \<and> 5 \<le> digit_val (f ! 9)))
        (\<lambda>(seconds, fraction_ns). checked_nanosecond_magnitude seconds fraction_ns (sign = ''-''))"
    using len i(2) unfolding decimal_seconds_to_nanoseconds_def Let_def shape(2)
    unfolding shape(1) split fold seconds by simp
  also have "\<dots> = (let v = s * 1000000000 + v; r = (if sign = ''-'' then - v else v)
      in if in_int64 r then Inr r else Inl (OverflowError ''nanosecond timestamp is out of range''))"
  proof -
    have s: "0 \<le> s" and b: "0 \<le> v" "v \<le> 1000000000"
      using half_away_fraction_bound [OF f] by (simp_all add: s_def v_def)
    show ?thesis
    proof (cases "v = 1000000000")
      case True
      have "\<not> in_int64 (if sign = ''-'' then - (s * 1000000000 + v) else s * 1000000000 + v)" if "s = UINT64_MAX"
        using that True by (simp add: in_int64_def INT64_MIN_def INT64_MAX_def UINT64_MAX_def)
      moreover have "(s + 1) * 1000000000 + 0 = s * 1000000000 + v" using True by simp
      ultimately show ?thesis
        using s True fits round_fraction_exact [OF f s] magnitude_exact [of "s + 1" 0 "sign = ''-''"]
        by (auto simp: s_def [symmetric] v_def [symmetric] Let_def)
    next
      case False
      then show ?thesis
        using s b fits round_fraction_exact [OF f s] magnitude_exact [of s v "sign = ''-''"]
        by (auto simp: s_def [symmetric] v_def [symmetric] Let_def)
    qed
  qed
  also have "s * 1000000000 + v = int (half_away (read_nat (i @ f)) (length f))"
    using half_away_whole [of "read_nat i" "length f" "read_nat f"]
    by (simp add: read_nat_append s_def v_def)
  finally show ?thesis .
qed

text \<open>A whole part above 64 bits is refused before any arithmetic, with the other error.\<close>

lemma decimal_whole_part_too_large:
  assumes sign: "sign \<in> {[], ''+'', ''-''}" and i: "list_all is_digit i" "i \<noteq> []"
    and lexeme: "lexeme = sign @ i @ (if f = [] then [] else ''.'' @ f)"
    and large: "UINT64_MAX < int (read_nat i)"
  shows "decimal_seconds_to_nanoseconds lexeme = Inl (ValueError ''plain decimal seconds required'')"
proof -
  let ?rest = "if f = [] then [] else ''.'' @ f"
  have shape: "(if hd lexeme = CHR ''+'' \<or> hd lexeme = CHR ''-'' then tl lexeme else lexeme) = i @ ?rest"
    using decimal_shape [OF sign i, of ?rest] unfolding lexeme Let_def by blast
  have "\<not> is_digit (CHR ''.'')" by (simp add: is_digit_def)
  then have split: "takeWhile is_digit (i @ ?rest) = i" using takeWhile_digits [OF i(1), of ?rest] by simp
  have "parse_unsigned i = plain_decimal_required" using large by (simp add: parse_unsigned_def)
  then show ?thesis
    unfolding decimal_seconds_to_nanoseconds_def Let_def shape split by (simp add: plain_decimal_required_def)
qed

text \<open>Only plain decimal lexemes are accepted.\<close>

definition plain_decimal :: "string \<Rightarrow> bool" where
  "plain_decimal lexeme \<longleftrightarrow>
     (\<exists>sign i f. sign \<in> {[], ''+'', ''-''} \<and> list_all is_digit i \<and> i \<noteq> [] \<and> list_all is_digit f \<and>
        lexeme = sign @ i @ (if f = [] then [] else ''.'' @ f))"

lemma decimal_accepts:
  assumes "decimal_seconds_to_nanoseconds lexeme = Inr v"
  shows "plain_decimal lexeme" and "length lexeme \<le> MAXIMUM_DECIMAL_SECONDS_BYTES"
proof -
  define signed where "signed \<longleftrightarrow> hd lexeme = CHR ''+'' \<or> hd lexeme = CHR ''-''"
  define unsigned where "unsigned = (if signed then tl lexeme else lexeme)"
  define i rest where "i = takeWhile is_digit unsigned" and "rest = dropWhile is_digit unsigned"
  note d = assms [unfolded decimal_seconds_to_nanoseconds_def Let_def, folded signed_def, folded unsigned_def,
      folded i_def rest_def]
  have ne: "lexeme \<noteq> []" and len: "length lexeme \<le> MAXIMUM_DECIMAL_SECONDS_BYTES" and i: "i \<noteq> []"
    using d by (auto simp: plain_decimal_required_def split: if_splits)
  have digits: "list_all is_digit i" by (auto simp: i_def list_all_iff dest: set_takeWhileD)
  have u: "unsigned = i @ rest" by (simp add: i_def rest_def)
  have "\<exists>f. list_all is_digit f \<and> rest = (if f = [] then [] else ''.'' @ f)"
  proof (cases rest)
    case (Cons dot after)
    then have "dot = CHR ''.''" "takeWhile is_digit after \<noteq> []" "dropWhile is_digit after = []"
      using d ne len i by (auto simp: plain_decimal_required_def split: if_splits)
    then show ?thesis
      using Cons by (intro exI [of _ after]) (auto simp: list_all_iff dropWhile_eq_Nil_conv)
  qed (intro exI [of _ "[]"], simp)
  then obtain f where f: "list_all is_digit f" "rest = (if f = [] then [] else ''.'' @ f)" by blast
  have "lexeme = (if signed then [hd lexeme] else []) @ unsigned" using ne by (simp add: unsigned_def)
  then have "lexeme = (if signed then [hd lexeme] else []) @ i @ (if f = [] then [] else ''.'' @ f)"
    using u f(2) by simp
  moreover have "(if signed then [hd lexeme] else []) \<in> {[], ''+'', ''-''}" by (auto simp: signed_def)
  ultimately show "plain_decimal lexeme" unfolding plain_decimal_def using digits i f(1) by blast
  show "length lexeme \<le> MAXIMUM_DECIMAL_SECONDS_BYTES" by (rule len)
qed

lemma decimal_result_range: "decimal_seconds_to_nanoseconds lexeme = Inr v \<Longrightarrow> in_int64 v"
proof -
  have m: "checked_nanosecond_magnitude s f n = Inr v \<Longrightarrow> in_int64 v" for s f n
  proof -
    have i: "in_int64 (i64 x)" for x
    proof -
      have "0 \<le> (x + 2 ^ 63) mod 2 ^ 64" and "(x + 2 ^ 63) mod 2 ^ 64 < 2 ^ 64" by simp_all
      then show ?thesis by (simp add: in_int64_def i64_def INT64_MIN_def INT64_MAX_def)
    qed
    have "in_int64 INT64_MIN" by (simp add: in_int64_def INT64_MIN_def INT64_MAX_def)
    then show "checked_nanosecond_magnitude s f n = Inr v \<Longrightarrow> in_int64 v"
      using i by (auto simp: checked_nanosecond_magnitude_def Let_def split: if_splits)
  qed
  assume "decimal_seconds_to_nanoseconds lexeme = Inr v"
  then show ?thesis
    unfolding decimal_seconds_to_nanoseconds_def plain_decimal_required_def Let_def
    by (auto split: if_splits prod.splits dest: m)
qed

end
