(* ===== verification/Contracts.thy ===== *)
theory Contracts
  imports NativeTime Json Complex_Main
begin

text \<open>
  The time, frame and coordinate contracts of \<^verbatim>\<open>python/cartosentry/contracts.py\<close>:
  one record per model class, one \<open>check_\<close> function for its field constraints and its
  validator (\<open>Inl\<close> is the exception that construction raises), and its methods.  Time
  arithmetic goes to the native functions of \<open>NativeTime\<close>.  A float that is stored and
  compared but never computed with is a rational, which every finite binary64 value is; its
  written form is the parameter \<open>lexeme_of\<close>.  The native geometry works in binary64
  arithmetic and is the parameter record \<open>native_geometry\<close>.
\<close>

section \<open>Raw timestamps\<close>

datatype time_reference =
    EXPOSURE_START | EXPOSURE_MIDPOINT | EXPOSURE_END | SCAN_START | SCAN_MIDPOINT | SCAN_END
  | SAMPLE | PER_POINT | PER_AZIMUTH | UNKNOWN_REFERENCE

definition reference_name :: "time_reference \<Rightarrow> string" where
  "reference_name r = (case r of
     EXPOSURE_START \<Rightarrow> ''EXPOSURE_START'' | EXPOSURE_MIDPOINT \<Rightarrow> ''EXPOSURE_MIDPOINT''
   | EXPOSURE_END \<Rightarrow> ''EXPOSURE_END'' | SCAN_START \<Rightarrow> ''SCAN_START'' | SCAN_MIDPOINT \<Rightarrow> ''SCAN_MIDPOINT''
   | SCAN_END \<Rightarrow> ''SCAN_END'' | SAMPLE \<Rightarrow> ''SAMPLE'' | PER_POINT \<Rightarrow> ''PER_POINT''
   | PER_AZIMUTH \<Rightarrow> ''PER_AZIMUTH'' | UNKNOWN_REFERENCE \<Rightarrow> ''UNKNOWN'')"

datatype raw_time_encoding = DECIMAL_LEXEME | SIGNED_INTEGER | UNSIGNED_INTEGER | ENCODED_BYTES

definition encoding_name :: "raw_time_encoding \<Rightarrow> string" where
  "encoding_name e = (case e of
     DECIMAL_LEXEME \<Rightarrow> ''decimal_lexeme'' | SIGNED_INTEGER \<Rightarrow> ''signed_integer''
   | UNSIGNED_INTEGER \<Rightarrow> ''unsigned_integer'' | ENCODED_BYTES \<Rightarrow> ''encoded_bytes'')"

datatype time_rounding = EXACT | NEAREST_NANOSECOND_HALF_AWAY_FROM_ZERO

definition rounding_name :: "time_rounding \<Rightarrow> string" where
  "rounding_name r = (case r of
     EXACT \<Rightarrow> ''exact'' | NEAREST_NANOSECOND_HALF_AWAY_FROM_ZERO \<Rightarrow> ''nearest_nanosecond_half_away_from_zero'')"

record raw_time =
  rt_source_key :: string
  rt_field :: string
  rt_unit :: string
  rt_epoch :: time_epoch
  rt_reference :: time_reference
  rt_encoding :: raw_time_encoding
  rt_decimal_lexeme :: "string option"
  rt_integer_value :: "string option"
  rt_encoded_bytes :: "string option"
  rt_rounding :: time_rounding
  rt_maximum_conversion_error_ns :: rat

definition removeprefix :: "char \<Rightarrow> string \<Rightarrow> string" where
  "removeprefix c s = (if s \<noteq> [] \<and> hd s = c then tl s else s)"

text \<open>\<open>s.isascii() and s.isdigit()\<close>.\<close>

definition ascii_digits :: "string \<Rightarrow> bool" where
  "ascii_digits s \<longleftrightarrow> s \<noteq> [] \<and> list_all is_digit s"

definition representation :: "raw_time \<Rightarrow> string option" where
  "representation r = (case rt_encoding r of
     DECIMAL_LEXEME \<Rightarrow> rt_decimal_lexeme r
   | SIGNED_INTEGER \<Rightarrow> rt_integer_value r
   | UNSIGNED_INTEGER \<Rightarrow> rt_integer_value r
   | ENCODED_BYTES \<Rightarrow> rt_encoded_bytes r)"

definition populated :: "raw_time \<Rightarrow> nat" where
  "populated r = length (filter (\<lambda>v. v \<noteq> None) [rt_decimal_lexeme r, rt_integer_value r, rt_encoded_bytes r])"

definition check_integer_value :: "raw_time_encoding \<Rightarrow> string \<Rightarrow> unit res" where
  "check_integer_value encoding integer_value =
     (let digits = (if encoding = SIGNED_INTEGER
                    then removeprefix (CHR ''-'') (removeprefix (CHR ''+'') integer_value) else integer_value)
      in if \<not> ascii_digits digits then Inl (ValueError ''raw integer timestamp must be a plain integer'')
         else ensure (\<not> (encoding = UNSIGNED_INTEGER \<and> integer_value \<noteq> [] \<and> hd integer_value \<in> set ''+-''))
           (ValueError ''raw unsigned timestamp cannot contain a sign''))"

definition check_decimal_lexeme :: "string \<Rightarrow> unit res" where
  "check_decimal_lexeme lexeme =
     (let components = split_on (CHR ''.'') (removeprefix (CHR ''-'') (removeprefix (CHR ''+'') lexeme))
      in ensure (length components \<le> 2 \<and> list_all ascii_digits components)
        (ValueError ''raw decimal timestamp must be a plain decimal lexeme''))"

definition check_raw_time :: "raw_time \<Rightarrow> unit res" where
  "check_raw_time r =
     bindE (ensure (rt_source_key r \<noteq> [] \<and> rt_field r \<noteq> [] \<and> rt_unit r \<noteq> []
         \<and> 0 \<le> rt_maximum_conversion_error_ns r) (ValueError ''validation error for RawTime'')) (\<lambda>_.
     bindE (ensure (populated r = 1 \<and> representation r \<noteq> None)
        (ValueError ''raw time must contain exactly the representation named by encoding'')) (\<lambda>_.
     bindE (case rt_integer_value r of
              None \<Rightarrow> Inr ()
            | Some v \<Rightarrow> (if rt_encoding r \<in> {SIGNED_INTEGER, UNSIGNED_INTEGER}
                          then check_integer_value (rt_encoding r) v else Inr ())) (\<lambda>_.
     bindE (case rt_decimal_lexeme r of
              None \<Rightarrow> Inr ()
            | Some v \<Rightarrow> (if rt_encoding r = DECIMAL_LEXEME then check_decimal_lexeme v else Inr ())) (\<lambda>_.
       if rt_rounding r = EXACT
       then ensure (rt_maximum_conversion_error_ns r = 0) (ValueError ''exact time conversion must record zero error'')
       else ensure (rt_maximum_conversion_error_ns r \<le> 1 / 2)
         (ValueError ''nearest-nanosecond conversion error cannot exceed 0.5 ns'')))))"

section \<open>Time points and intervals\<close>

record time_point =
  tp_value_ns :: int
  tp_epoch :: time_epoch
  tp_clock_id :: string
  tp_reference :: time_reference
  tp_raw :: raw_time

definition check_time_point :: "time_point \<Rightarrow> unit res" where
  "check_time_point t =
     bindE (check_raw_time (tp_raw t)) (\<lambda>_.
     bindE (ensure (in_int64 (tp_value_ns t) \<and> tp_clock_id t \<noteq> []) (ValueError ''validation error for TimePoint'')) (\<lambda>_.
     bindE (ensure (rt_epoch (tp_raw t) = tp_epoch t) (ValueError ''raw and canonical time epochs differ'')) (\<lambda>_.
       ensure (rt_reference (tp_raw t) = tp_reference t) (ValueError ''raw and canonical time references differ''))))"

definition from_decimal_seconds ::
  "string \<Rightarrow> string \<Rightarrow> string \<Rightarrow> time_epoch \<Rightarrow> string \<Rightarrow> time_reference \<Rightarrow> time_point res" where
  "from_decimal_seconds lexeme source_key field epoch clock reference =
     bindE (decimal_seconds_to_nanoseconds lexeme) (\<lambda>value_ns.
       let raw = \<lparr>rt_source_key = source_key, rt_field = field, rt_unit = ''s'', rt_epoch = epoch,
                  rt_reference = reference, rt_encoding = DECIMAL_LEXEME, rt_decimal_lexeme = Some lexeme,
                  rt_integer_value = None, rt_encoded_bytes = None,
                  rt_rounding = NEAREST_NANOSECOND_HALF_AWAY_FROM_ZERO,
                  rt_maximum_conversion_error_ns = 1 / 2\<rparr>;
           t = \<lparr>tp_value_ns = value_ns, tp_epoch = epoch, tp_clock_id = clock, tp_reference = reference, tp_raw = raw\<rparr>
       in bindE (check_time_point t) (\<lambda>_. Inr t))"

text \<open>\<open>Duration\<close> is its nanoseconds, an \<open>Int64\<close>.\<close>

definition check_duration :: "int \<Rightarrow> int res" where
  "check_duration value_ns = (if in_int64 value_ns then Inr value_ns else Inl (ValueError ''validation error for Duration''))"

definition difference :: "time_point \<Rightarrow> time_point \<Rightarrow> int res" where
  "difference t start =
     bindE (checked_time_difference_ns (tp_value_ns t) (epoch_name (tp_epoch t)) (tp_clock_id t)
        (tp_value_ns start) (epoch_name (tp_epoch start)) (tp_clock_id start)) check_duration"

definition shifted_value_ns :: "time_point \<Rightarrow> int \<Rightarrow> int res" where
  "shifted_value_ns t duration_ns =
     checked_time_add_ns (tp_value_ns t) (epoch_name (tp_epoch t)) (tp_clock_id t) duration_ns"

record frame_interval =
  fi_capture_start :: time_point
  fi_capture_end :: time_point

definition check_frame_interval :: "frame_interval \<Rightarrow> unit res" where
  "check_frame_interval i =
     bindE (difference (fi_capture_end i) (fi_capture_start i)) (\<lambda>value_ns.
       ensure (\<not> value_ns \<le> 0) (ValueError ''capture interval must be nonempty and half-open''))"

record corrected_time =
  ct_original :: time_point
  ct_corrected_value_ns :: int
  ct_target_epoch :: time_epoch
  ct_target_clock_id :: string
  ct_correction_model_id :: string
  ct_correction_model_sha256 :: string
  ct_pivot_ns :: int
  ct_offset_ns :: int
  ct_rate_ppb :: rat
  ct_uncertainty_ns :: int
  ct_applicability :: frame_interval

definition check_corrected_time :: "corrected_time \<Rightarrow> unit res" where
  "check_corrected_time c =
     bindE (ensure (in_int64 (ct_corrected_value_ns c) \<and> ct_target_clock_id c \<noteq> [] \<and> ct_correction_model_id c \<noteq> []
         \<and> is_sha256 (ct_correction_model_sha256 c) \<and> in_int64 (ct_pivot_ns c) \<and> in_int64 (ct_offset_ns c)
         \<and> 0 \<le> ct_uncertainty_ns c \<and> ct_uncertainty_ns c \<le> INT64_MAX) (ValueError ''validation error for CorrectedTime'')) (\<lambda>_.
     bindE (difference (ct_original c) (fi_capture_start (ct_applicability c))) (\<lambda>since_start.
     bindE (difference (fi_capture_end (ct_applicability c)) (ct_original c)) (\<lambda>until_end.
       ensure (\<not> (since_start < 0 \<or> until_end \<le> 0))
         (ValueError ''original time lies outside correction applicability''))))"

record frame_times =
  ft_capture_start :: "time_point option"
  ft_capture_end :: "time_point option"
  ft_sensor_time :: "time_point option"
  ft_host_receive_time :: "time_point option"
  ft_corrected_sensor_time :: "corrected_time option"

definition check_frame_times :: "frame_times \<Rightarrow> unit res" where
  "check_frame_times f =
     bindE (ensure ((ft_capture_start f = None) = (ft_capture_end f = None))
        (ValueError ''capture_start and capture_end must appear together'')) (\<lambda>_.
     bindE (case (ft_capture_start f, ft_capture_end f) of
              (Some s, Some e) \<Rightarrow> check_frame_interval \<lparr>fi_capture_start = s, fi_capture_end = e\<rparr>
            | _ \<Rightarrow> Inr ()) (\<lambda>_.
       case (ft_sensor_time f, ft_corrected_sensor_time f) of
         (Some t, Some c) \<Rightarrow> ensure (ct_original c = t)
            (ValueError ''corrected_sensor_time must retain sensor_time as original'')
       | _ \<Rightarrow> Inr ()))"

section \<open>Frames, transforms and coordinates\<close>

definition is_frame_id :: "string \<Rightarrow> bool" where
  "is_frame_id s \<longleftrightarrow> s \<noteq> [] \<and> list_all (\<lambda>c. is_alnum c \<or> c \<in> set ''_.:-'') s"

record named_frame =
  nf_frame_id :: string
  nf_x_axis :: string
  nf_y_axis :: string
  nf_z_axis :: string

definition check_named_frame :: "named_frame \<Rightarrow> unit res" where
  "check_named_frame f = ensure (is_frame_id (nf_frame_id f) \<and> nf_x_axis f \<noteq> [] \<and> nf_y_axis f \<noteq> [] \<and> nf_z_axis f \<noteq> [])
     (ValueError ''validation error for NamedFrame'')"

definition canonical_rig :: "string \<Rightarrow> named_frame res" where
  "canonical_rig frame_id =
     (let f = \<lparr>nf_frame_id = frame_id, nf_x_axis = ''forward'', nf_y_axis = ''left'', nf_z_axis = ''up''\<rparr>
      in bindE (check_named_frame f) (\<lambda>_. Inr f))"

type_synonym triple3 = "rat \<times> rat \<times> rat"

record unit_quaternion =
  uq_w :: rat
  uq_x :: rat
  uq_y :: rat
  uq_z :: rat

text \<open>\<open>as_wxyz\<close> and the order of the fields are the order of this record.\<close>

record rigid_transform =
  rg_target_frame :: string
  rg_source_frame :: string
  rg_translation_m :: triple3
  rg_rotation :: unit_quaternion

record native_geometry =
  ng_normalize_quaternion :: "unit_quaternion \<Rightarrow> unit_quaternion res"
  ng_quaternion_from_rotation_matrix :: "rat list \<Rightarrow> unit_quaternion res"
  ng_compose :: "rigid_transform \<Rightarrow> rigid_transform \<Rightarrow> rigid_transform res"
  ng_invert :: "rigid_transform \<Rightarrow> rigid_transform res"
  ng_interpolate :: "rigid_transform \<Rightarrow> triple3 \<Rightarrow> unit_quaternion \<Rightarrow> rat \<Rightarrow> rigid_transform res"
  ng_transform_point :: "rigid_transform \<Rightarrow> triple3 \<Rightarrow> triple3 res"
  ng_wgs84_to_local :: "triple3 \<Rightarrow> triple3 \<Rightarrow> string \<Rightarrow> (string \<times> triple3) res"
  ng_local_to_wgs84 :: "triple3 \<Rightarrow> string \<Rightarrow> triple3 \<Rightarrow> (rat \<times> rat \<times> rat option \<times> string) res"

definition make_quaternion :: "native_geometry \<Rightarrow> unit_quaternion \<Rightarrow> unit_quaternion res" where
  "make_quaternion geo q = ng_normalize_quaternion geo q"

definition from_rotation_matrix :: "native_geometry \<Rightarrow> rat list \<Rightarrow> unit_quaternion res" where
  "from_rotation_matrix geo values0 = bindE (ng_quaternion_from_rotation_matrix geo values0) (make_quaternion geo)"

text \<open>Construction from the native result: the quaternion is normalised again, then the frames are
  checked.\<close>

definition from_native :: "native_geometry \<Rightarrow> rigid_transform \<Rightarrow> rigid_transform res" where
  "from_native geo t =
     bindE (make_quaternion geo (rg_rotation t)) (\<lambda>q.
     bindE (ensure (is_frame_id (rg_target_frame t) \<and> is_frame_id (rg_source_frame t))
        (ValueError ''validation error for RigidTransform'')) (\<lambda>_.
       Inr (t\<lparr>rg_rotation := q\<rparr>)))"

definition compose_transform :: "native_geometry \<Rightarrow> rigid_transform \<Rightarrow> rigid_transform \<Rightarrow> rigid_transform res" where
  "compose_transform geo outer inner = bindE (ng_compose geo outer inner) (from_native geo)"

definition inverse_transform :: "native_geometry \<Rightarrow> rigid_transform \<Rightarrow> rigid_transform res" where
  "inverse_transform geo t = bindE (ng_invert geo t) (from_native geo)"

definition interpolate_transform ::
  "native_geometry \<Rightarrow> rigid_transform \<Rightarrow> rigid_transform \<Rightarrow> rat \<Rightarrow> rigid_transform res" where
  "interpolate_transform geo t end0 fraction =
     bindE (ng_interpolate geo t (rg_translation_m end0) (rg_rotation end0) fraction) (from_native geo)"

definition apply_transform :: "native_geometry \<Rightarrow> rigid_transform \<Rightarrow> triple3 \<Rightarrow> triple3 res" where
  "apply_transform geo t point = ng_transform_point geo t point"

datatype vertical_datum = WGS84_ELLIPSOID | UNKNOWN_VERTICAL_DATUM

definition datum_name :: "vertical_datum \<Rightarrow> string" where
  "datum_name d = (case d of WGS84_ELLIPSOID \<Rightarrow> ''WGS84_ELLIPSOID'' | UNKNOWN_VERTICAL_DATUM \<Rightarrow> ''UNKNOWN_VERTICAL_DATUM'')"

definition parse_datum :: "string \<Rightarrow> vertical_datum res" where
  "parse_datum s =
     (if s = ''WGS84_ELLIPSOID'' then Inr WGS84_ELLIPSOID
      else if s = ''UNKNOWN_VERTICAL_DATUM'' then Inr UNKNOWN_VERTICAL_DATUM
      else Inl (ValueError ''not a valid VerticalDatum''))"

record global_coordinate =
  gc_latitude_deg :: rat
  gc_longitude_deg :: rat
  gc_altitude_m :: "rat option"
  gc_vertical_datum :: vertical_datum

definition check_global_coordinate :: "global_coordinate \<Rightarrow> unit res" where
  "check_global_coordinate g =
     bindE (ensure (- 90 \<le> gc_latitude_deg g \<and> gc_latitude_deg g \<le> 90 \<and> - 180 \<le> gc_longitude_deg g
         \<and> gc_longitude_deg g \<le> 180) (ValueError ''validation error for GlobalCoordinate'')) (\<lambda>_.
       ensure (\<not> (gc_vertical_datum g = WGS84_ELLIPSOID \<and> gc_altitude_m g = None))
         (ValueError ''WGS84 ellipsoidal coordinates require altitude_m''))"

record local_coordinate =
  lo_frame :: string
  lo_position_m :: triple3

definition check_local_coordinate :: "local_coordinate \<Rightarrow> unit res" where
  "check_local_coordinate p = ensure (is_frame_id (lo_frame p)) (ValueError ''validation error for LocalCoordinate'')"

record local_origin =
  og_frame :: named_frame
  og_global_coordinate :: global_coordinate

definition check_local_origin :: "local_origin \<Rightarrow> unit res" where
  "check_local_origin o0 =
     bindE (check_named_frame (og_frame o0)) (\<lambda>_.
     bindE (check_global_coordinate (og_global_coordinate o0)) (\<lambda>_.
       ensure (gc_vertical_datum (og_global_coordinate o0) = WGS84_ELLIPSOID)
         (ValueError ''local origin requires WGS84 ellipsoidal altitude'')))"

definition to_local :: "native_geometry \<Rightarrow> local_origin \<Rightarrow> global_coordinate \<Rightarrow> local_coordinate res" where
  "to_local geo o0 point =
     (case (gc_altitude_m (og_global_coordinate o0), gc_altitude_m point) of
        (Some origin_altitude, Some altitude) \<Rightarrow>
          (if gc_vertical_datum point \<noteq> WGS84_ELLIPSOID
           then Inl (ValueError ''local conversion requires WGS84 ellipsoidal altitude'')
           else bindE (ng_wgs84_to_local geo
               (gc_latitude_deg (og_global_coordinate o0), gc_longitude_deg (og_global_coordinate o0), origin_altitude)
               (gc_latitude_deg point, gc_longitude_deg point, altitude) (nf_frame_id (og_frame o0))) (\<lambda>(frame, position).
             let p = \<lparr>lo_frame = frame, lo_position_m = position\<rparr> in bindE (check_local_coordinate p) (\<lambda>_. Inr p)))
      | _ \<Rightarrow> Inl (ValueError ''local conversion requires explicit altitude''))"

definition to_global :: "native_geometry \<Rightarrow> local_origin \<Rightarrow> local_coordinate \<Rightarrow> global_coordinate res" where
  "to_global geo o0 point =
     (if lo_frame point \<noteq> nf_frame_id (og_frame o0)
      then Inl (ValueError ''local coordinate frame does not match its origin'')
      else (case gc_altitude_m (og_global_coordinate o0) of
          None \<Rightarrow> Inl (ValueError ''local conversion requires explicit altitude'')
        | Some origin_altitude \<Rightarrow>
            bindE (ng_local_to_wgs84 geo
              (gc_latitude_deg (og_global_coordinate o0), gc_longitude_deg (og_global_coordinate o0), origin_altitude)
              (lo_frame point) (lo_position_m point)) (\<lambda>(latitude, longitude, altitude, datum0).
            bindE (parse_datum datum0) (\<lambda>datum.
              let g = \<lparr>gc_latitude_deg = latitude, gc_longitude_deg = longitude, gc_altitude_m = altitude,
                       gc_vertical_datum = datum\<rparr>
              in bindE (check_global_coordinate g) (\<lambda>_. Inr g)))))"

section \<open>Correctness\<close>

lemma ascii_digits_iff [simp]: "i \<noteq> [] \<Longrightarrow> ascii_digits i = list_all is_digit i"
  by (simp add: ascii_digits_def)

lemma plain_decimal_checked:
  assumes "plain_decimal lexeme"
  shows "check_decimal_lexeme lexeme = Inr ()"
proof -
  obtain sign i f where s: "sign \<in> {[], ''+'', ''-''}" and i: "list_all is_digit i" "i \<noteq> []" and f: "list_all is_digit f"
    and l: "lexeme = sign @ i @ (if f = [] then [] else ''.'' @ f)"
    using assms unfolding plain_decimal_def by blast
  obtain c j where c: "i = c # j" using i(2) by (cases i) auto
  have "c \<noteq> CHR ''+'' \<and> c \<noteq> CHR ''-''" using i(1) c by (auto simp: is_digit_def)
  then have u: "removeprefix (CHR ''-'') (removeprefix (CHR ''+'') lexeme) = i @ (if f = [] then [] else ''.'' @ f)"
    using s l c by (auto simp: removeprefix_def)
  have dots: "CHR ''.'' \<notin> set i" "CHR ''.'' \<notin> set f"
    using i(1) f by (auto simp: list_all_iff is_digit_def)
  have "split_on (CHR ''.'') (i @ (if f = [] then [] else ''.'' @ f)) = (if f = [] then [i] else [i, f])"
    using dots split_on_append [of "CHR ''.''" i f] by (auto simp: split_on_no_sep)
  then show ?thesis using i f unfolding check_decimal_lexeme_def u by simp
qed

text \<open>Whatever the native conversion accepts is a valid raw time and time point.\<close>

lemma from_decimal_seconds_eq:
  assumes "source_key \<noteq> []" and "field \<noteq> []" and "clock \<noteq> []"
  shows "from_decimal_seconds lexeme source_key field epoch clock reference =
     (case decimal_seconds_to_nanoseconds lexeme of
        Inl e \<Rightarrow> Inl e
      | Inr v \<Rightarrow> Inr \<lparr>tp_value_ns = v, tp_epoch = epoch, tp_clock_id = clock, tp_reference = reference,
          tp_raw = \<lparr>rt_source_key = source_key, rt_field = field, rt_unit = ''s'', rt_epoch = epoch,
                  rt_reference = reference, rt_encoding = DECIMAL_LEXEME, rt_decimal_lexeme = Some lexeme,
                  rt_integer_value = None, rt_encoded_bytes = None,
                  rt_rounding = NEAREST_NANOSECOND_HALF_AWAY_FROM_ZERO,
                  rt_maximum_conversion_error_ns = 1 / 2\<rparr>\<rparr>)"
proof (cases "decimal_seconds_to_nanoseconds lexeme")
  case (Inr v)
  have "check_decimal_lexeme lexeme = Inr ()" by (rule plain_decimal_checked [OF decimal_accepts(1) [OF Inr]])
  then show ?thesis
    using Inr assms decimal_result_range [OF Inr]
    by (simp add: from_decimal_seconds_def Let_def check_time_point_def check_raw_time_def populated_def representation_def)
qed (simp add: from_decimal_seconds_def)

lemma difference_Inr:
  assumes "in_int64 (tp_value_ns t)" and "in_int64 (tp_value_ns s)"
  shows "difference t s = Inr d \<longleftrightarrow> tp_epoch t = tp_epoch s \<and> tp_clock_id t = tp_clock_id s \<and> tp_clock_id t \<noteq> [] \<and>
     d = tp_value_ns t - tp_value_ns s \<and> in_int64 d"
proof (cases "tp_epoch t = tp_epoch s \<and> tp_clock_id t = tp_clock_id s \<and> tp_clock_id t \<noteq> []")
  case True
  then show ?thesis
    using checked_difference_exact [OF assms, of "tp_clock_id s" "tp_epoch s"]
    by (auto simp: difference_def check_duration_def split: if_splits)
next
  case False
  then show ?thesis
    by (auto simp: difference_def checked_time_difference_ns_def require_clock_id_def split: if_splits)
qed

lemma shift_difference:
  assumes "in_int64 (tp_value_ns t)" and "in_int64 (tp_value_ns s)" and "difference t s = Inr d"
  shows "shifted_value_ns s d = Inr (tp_value_ns t)"
proof -
  have d: "tp_clock_id s \<noteq> []" "d = tp_value_ns t - tp_value_ns s" "in_int64 d"
    using assms difference_Inr [OF assms(1,2)] by auto
  have "tp_value_ns s + d = tp_value_ns t" using d(2) by simp
  then show ?thesis
    using checked_add_exact [OF assms(2) d(3,1), of "tp_epoch s"] assms(1) by (simp add: shifted_value_ns_def)
qed

lemma frame_interval_iff:
  assumes "in_int64 (tp_value_ns (fi_capture_start i))" and "in_int64 (tp_value_ns (fi_capture_end i))"
  shows "check_frame_interval i = Inr () \<longleftrightarrow>
     tp_epoch (fi_capture_end i) = tp_epoch (fi_capture_start i) \<and>
     tp_clock_id (fi_capture_end i) = tp_clock_id (fi_capture_start i) \<and> tp_clock_id (fi_capture_end i) \<noteq> [] \<and>
     tp_value_ns (fi_capture_start i) < tp_value_ns (fi_capture_end i) \<and>
     in_int64 (tp_value_ns (fi_capture_end i) - tp_value_ns (fi_capture_start i))"
  using difference_Inr [OF assms(2,1)] by (auto simp: check_frame_interval_def)

lemma corrected_time_inside:
  assumes "check_corrected_time c = Inr ()" and "in_int64 (tp_value_ns (ct_original c))"
    and "in_int64 (tp_value_ns (fi_capture_start (ct_applicability c)))"
    and "in_int64 (tp_value_ns (fi_capture_end (ct_applicability c)))"
  shows "tp_value_ns (fi_capture_start (ct_applicability c)) \<le> tp_value_ns (ct_original c) \<and>
     tp_value_ns (ct_original c) < tp_value_ns (fi_capture_end (ct_applicability c)) \<and>
     tp_epoch (ct_original c) = tp_epoch (fi_capture_start (ct_applicability c)) \<and>
     tp_clock_id (ct_original c) = tp_clock_id (fi_capture_start (ct_applicability c))"
  using assms difference_Inr [OF assms(2,3)] difference_Inr [OF assms(4,2)]
  by (auto simp: check_corrected_time_def)

text \<open>Two signs in a row pass the validators of raw times, although no reader accepts them.\<close>

lemma double_sign:
  "check_integer_value SIGNED_INTEGER ''+-5'' = Inr () \<and> check_decimal_lexeme ''+-5'' = Inr () \<and>
     decimal_seconds_to_nanoseconds ''+-5'' = Inl (ValueError ''plain decimal seconds required'')"
  by code_simp

end
