(* ===== verification/TimeProperties.thy ===== *)
theory TimeProperties
  imports Contracts
begin

text \<open>
  The promises of the time contracts: decimal seconds are rounded to the nearest nanosecond, half away
  from zero, at any length; checked arithmetic is exact or raises; intervals, differences and shifts
  agree.
\<close>

text \<open>C36: Decimal seconds are converted exactly: for an optional sign, digits and optionally a point and
  digits, of any lengths, a lexeme of more than 64 bytes or with a whole part above 2^64 - 1 is refused
  as no plain decimal; every other one gives sign, whole part and fraction together as an integer scaled
  to nanoseconds and rounded half away from zero at the tenth decimal, and the overflow error exactly
  when that integer is outside the signed 64-bit range.  The native code works with two unsigned words
  and a rounding flag.\<close>

theorem decimal_seconds_rounded:
  assumes "sign \<in> {[], ''+'', ''-''}" and "list_all is_digit i" and "i \<noteq> []" and "list_all is_digit f"
    and "lexeme = sign @ i @ (if f = [] then [] else ''.'' @ f)"
  shows "decimal_seconds_to_nanoseconds lexeme =
     (if 64 < length lexeme \<or> 2 ^ 64 - 1 < int (read_nat i) then Inl (ValueError ''plain decimal seconds required'')
      else let v = int (half_away (read_nat (i @ f)) (length f)); r = (if sign = ''-'' then - v else v)
      in if - (2 ^ 63) \<le> r \<and> r \<le> 2 ^ 63 - 1 then Inr r else Inl (OverflowError ''nanosecond timestamp is out of range''))"
proof (cases "64 < length lexeme")
  case True
  then show ?thesis
    by (simp add: decimal_seconds_to_nanoseconds_def MAXIMUM_DECIMAL_SECONDS_BYTES_def plain_decimal_required_def)
next
  case False
  have word: "UINT64_MAX = 2 ^ 64 - 1" "in_int64 r \<longleftrightarrow> - (2 ^ 63) \<le> r \<and> r \<le> 2 ^ 63 - 1" for r
    by (simp_all add: UINT64_MAX_def in_int64_def INT64_MIN_def INT64_MAX_def)
  show ?thesis
    using False decimal_whole_part_too_large [OF assms(1-3,5)] decimal_rounding [OF assms(1-5)]
    unfolding word MAXIMUM_DECIMAL_SECONDS_BYTES_def by (auto simp: not_le not_less)
qed

lemma decimal_seconds_rounded_witness:
  "decimal_seconds_to_nanoseconds ''-1.0000000005'' = Inr (- 1000000001) \<and>
   decimal_seconds_to_nanoseconds ''18446744073709551616'' = Inl (ValueError ''plain decimal seconds required'')"
proof -
  have r: "read_nat ''1'' = 1" "read_nat ''10000000005'' = 10000000005" "read_nat ''18446744073709551616'' = 18446744073709551616"
    by (simp_all add: read_nat_def digit_val_def)
  have h: "half_away 10000000005 (length ''0000000005'') = 1000000001" by (simp add: half_away_def)
  show ?thesis
    using decimal_seconds_rounded [of "''-''" "''1''" "''0000000005''" "''-1.0000000005''"]
      decimal_seconds_rounded [of "[]" "''18446744073709551616''" "[]" "''18446744073709551616''"]
    by (simp add: is_digit_def r h [simplified] Let_def)
qed

text \<open>Only plain decimals are converted: a lexeme that is accepted is an optional sign, digits and at
  most one point with digits after it, of bounded length, and the result is a 64-bit integer.\<close>

lemma decimal_seconds_accepts_plain_decimals:
  "case decimal_seconds_to_nanoseconds lexeme of
     Inl e \<Rightarrow> True
   | Inr v \<Rightarrow> plain_decimal lexeme \<and> length lexeme \<le> MAXIMUM_DECIMAL_SECONDS_BYTES \<and> in_int64 v"
  using decimal_accepts decimal_result_range by (auto split: sum.split)

text \<open>Differences and shifts are inverse: when the difference of two time points exists, shifting the
  earlier one by it gives the other back, and a shift never wraps around.\<close>

lemma shift_inverts_difference:
  assumes "in_int64 (tp_value_ns t)" and "in_int64 (tp_value_ns s)" and "difference t s = Inr d"
  shows "shifted_value_ns s d = Inr (tp_value_ns t)"
  by (rule shift_difference [OF assms])

definition sample_raw :: raw_time where
  "sample_raw = \<lparr>rt_source_key = ''k'', rt_field = ''t'', rt_unit = ''s'', rt_epoch = UNIX_UTC, rt_reference = SAMPLE,
     rt_encoding = SIGNED_INTEGER, rt_decimal_lexeme = None, rt_integer_value = Some ''5'', rt_encoded_bytes = None,
     rt_rounding = EXACT, rt_maximum_conversion_error_ns = 0\<rparr>"

definition sample_point :: "int \<Rightarrow> time_point" where
  "sample_point v = \<lparr>tp_value_ns = v, tp_epoch = UNIX_UTC, tp_clock_id = ''c'', tp_reference = SAMPLE, tp_raw = sample_raw\<rparr>"

lemma sample_int64: "in_int64 (-5)" "in_int64 7" "in_int64 0" "in_int64 12"
  by (simp_all add: in_int64_def INT64_MIN_def INT64_MAX_def)

lemma shift_inverts_difference_witness: "shifted_value_ns (sample_point (-5)) 12 = Inr 7"
proof -
  have "difference (sample_point 7) (sample_point (-5)) = Inr 12"
    by (subst difference_Inr) (simp_all add: sample_point_def sample_int64)
  then show ?thesis
    using shift_inverts_difference [of "sample_point 7" "sample_point (-5)" 12] by (simp add: sample_point_def sample_int64)
qed

text \<open>A capture interval is accepted exactly when both ends have the same epoch and clock, the end is
  strictly after the start, and their distance fits in 64 bits.\<close>

lemma frame_interval_accepted_iff:
  assumes "in_int64 (tp_value_ns (fi_capture_start i))" and "in_int64 (tp_value_ns (fi_capture_end i))"
  shows "check_frame_interval i = Inr () \<longleftrightarrow>
     tp_epoch (fi_capture_end i) = tp_epoch (fi_capture_start i) \<and>
     tp_clock_id (fi_capture_end i) = tp_clock_id (fi_capture_start i) \<and> tp_clock_id (fi_capture_end i) \<noteq> [] \<and>
     tp_value_ns (fi_capture_start i) < tp_value_ns (fi_capture_end i) \<and>
     in_int64 (tp_value_ns (fi_capture_end i) - tp_value_ns (fi_capture_start i))"
  by (rule frame_interval_iff [OF assms])

lemma frame_interval_accepted_iff_witness:
  "check_frame_interval \<lparr>fi_capture_start = sample_point (-5), fi_capture_end = sample_point 7\<rparr> = Inr () \<and>
   check_frame_interval \<lparr>fi_capture_start = sample_point 7, fi_capture_end = sample_point 7\<rparr> \<noteq> Inr ()"
  using frame_interval_accepted_iff [of "\<lparr>fi_capture_start = sample_point (-5), fi_capture_end = sample_point 7\<rparr>"]
    frame_interval_accepted_iff [of "\<lparr>fi_capture_start = sample_point 7, fi_capture_end = sample_point 7\<rparr>"]
  by (simp add: sample_point_def sample_int64)

text \<open>A clock correction applies only inside its window: the original time of an accepted corrected
  time lies in the half-open applicability interval, in the epoch and clock of that interval.\<close>

lemma correction_applies_inside:
  assumes "check_corrected_time c = Inr ()" and "in_int64 (tp_value_ns (ct_original c))"
    and "in_int64 (tp_value_ns (fi_capture_start (ct_applicability c)))"
    and "in_int64 (tp_value_ns (fi_capture_end (ct_applicability c)))"
  shows "tp_value_ns (fi_capture_start (ct_applicability c)) \<le> tp_value_ns (ct_original c) \<and>
     tp_value_ns (ct_original c) < tp_value_ns (fi_capture_end (ct_applicability c)) \<and>
     tp_epoch (ct_original c) = tp_epoch (fi_capture_start (ct_applicability c)) \<and>
     tp_clock_id (ct_original c) = tp_clock_id (fi_capture_start (ct_applicability c))"
  by (rule corrected_time_inside [OF assms])

lemma correction_applies_inside_witness:
  "tp_value_ns (sample_point (-5)) \<le> tp_value_ns (sample_point 0) \<and> tp_value_ns (sample_point 0) < tp_value_ns (sample_point 7)"
proof -
  let ?c = "\<lparr>ct_original = sample_point 0, ct_corrected_value_ns = 0, ct_target_epoch = UNIX_UTC, ct_target_clock_id = ''c'',
     ct_correction_model_id = ''m'', ct_correction_model_sha256 = replicate 64 (CHR ''0''), ct_pivot_ns = 0, ct_offset_ns = 0,
     ct_rate_ppb = 0, ct_uncertainty_ns = 0,
     ct_applicability = \<lparr>fi_capture_start = sample_point (-5), fi_capture_end = sample_point 7\<rparr>\<rparr>"
  have d: "difference (sample_point 0) (sample_point (-5)) = Inr 5" "difference (sample_point 7) (sample_point 0) = Inr 7"
    by (subst difference_Inr; simp add: sample_point_def sample_int64 in_int64_def INT64_MIN_def INT64_MAX_def)+
  have "check_corrected_time ?c = Inr ()"
    by (simp add: check_corrected_time_def d sample_int64 is_sha256_def is_hex_lower_def is_digit_def INT64_MAX_def list_all_iff)
  then show ?thesis
    using correction_applies_inside [of ?c] by (simp add: sample_int64 sample_point_def)
qed

text \<open>A lexeme with two signs passes both validators of a raw time, which strip a plus and then a
  minus, although no converter reads it: the native conversion refuses it.\<close>

lemma double_sign_passes_validation:
  "check_integer_value SIGNED_INTEGER ''+-5'' = Inr () \<and> check_decimal_lexeme ''+-5'' = Inr () \<and>
     decimal_seconds_to_nanoseconds ''+-5'' = Inl (ValueError ''plain decimal seconds required'')"
  by (rule double_sign)

end
