(* ===== verification/DocumentProperties.thy ===== *)
theory DocumentProperties
  imports RunExport
begin

text \<open>
  The promises of the document boundary: the JSON reader and writer, the bounded decoder and readers,
  portable paths, and the control documents of a run, each of which is read back from the bytes that
  were written.
\<close>

section \<open>JSON text\<close>

text \<open>C30: A document that was written is read back: with distinct keys, well-formed floats, the
  supported depth and size, the stored text with its final newline passes the bounded decoder and
  gives the value with its keys sorted.\<close>

theorem stored_document_is_read_back:
  assumes "json_ok v" and "json_depth v \<le> MAXIMUM_JSON_DEPTH" and "length (dumps v) < maximum"
  shows "decode_bounded_json (dumps v @ [CHR 0x0A]) maximum context0 = Inr (canon v)"
  by (rule decode_stored_document [OF assms])

lemma stored_document_is_read_back_witness:
  "decode_bounded_json (dumps (JDict [(''b'', JList [JInt (- 3), JNull]), (''a'', JStr [CHR 0x22])]) @ [CHR 0x0A]) 100 ''doc'' =
     Inr (JDict [(''a'', JStr [CHR 0x22]), (''b'', JList [JInt (- 3), JNull])])"
proof -
  let ?v = "JDict [(''b'', JList [JInt (- 3), JNull]), (''a'', JStr [CHR 0x22])]"
  have c: "canon ?v = JDict [(''a'', JStr [CHR 0x22]), (''b'', JList [JInt (- 3), JNull])]" by simp
  have "decode_bounded_json (dumps ?v @ [CHR 0x0A]) 100 ''doc'' = Inr (canon ?v)"
  proof (rule stored_document_is_read_back)
    have "json_weight ?v < 100" by (simp add: show_int_def show_nat.simps)
    then show "length (dumps ?v) < 100" using length_dumps [of ?v] by linarith
  qed (simp_all add: MAXIMUM_JSON_DEPTH_def)
  then show ?thesis unfolding c .
qed

text \<open>Writing is injective: two documents with the same text are the same document up to the
  order of keys, so a digest of the text identifies the document.\<close>

lemma equal_text_equal_document:
  assumes "json_ok v" and "json_ok w"
  shows "dumps v = dumps w \<longleftrightarrow> canon v = canon w"
  using json_dumps_inj [OF assms] make_identifier_canon by blast

lemma equal_text_equal_document_witness:
  "dumps (JDict [(''a'', JInt 1), (''b'', JInt 2)]) = dumps (JDict [(''b'', JInt 2), (''a'', JInt 1)]) \<and>
   dumps (JStr ''1'') \<noteq> dumps (JInt 1)"
  using equal_text_equal_document [of "JDict [(''a'', JInt 1), (''b'', JInt 2)]" "JDict [(''b'', JInt 2), (''a'', JInt 1)]"]
    equal_text_equal_document [of "JStr ''1''" "JInt 1"]
  by simp

text \<open>The reader ends on every text: with more fuel than twice the length of the text the result does
  not depend on the fuel, so \<open>json_loads\<close>, which starts with that much, never fails for lack of
  it.\<close>

lemma reader_has_fuel_enough:
  assumes "2 * length s < fuel"
  shows "read_value fuel s = read_value (2 * length s + 1) s"
  by (rule json_loads_fuel [OF assms])

lemma reader_has_fuel_enough_witness: "read_value 9 ''[1]'' = read_value 7 ''[1]''"
  using reader_has_fuel_enough [of "''[1]''" 9] by simp

section \<open>The bounded boundary\<close>


text \<open>C31: The byte scanner that guards the depth is exact on written documents: it refuses the text of a
  document exactly when the document is nested deeper than the limit, whatever brackets and quotes its
  strings contain.\<close>

theorem depth_guard_is_exact:
  assumes "json_ok v"
  shows "check_json_depth (dumps v @ [CHR 0x0A]) context0 = Inr () \<longleftrightarrow> json_depth v \<le> MAXIMUM_JSON_DEPTH"
  by (rule check_json_depth_dumps [OF assms])

lemma depth_guard_is_exact_witness:
  "check_json_depth (dumps (JList [JStr [CHR 0x22, CHR ''['', CHR 0x5C]]) @ [CHR 0x0A]) ''doc'' = Inr ()"
  using depth_guard_is_exact [of "JList [JStr [CHR 0x22, CHR ''['', CHR 0x5C]]" "''doc''"]
  by (simp add: MAXIMUM_JSON_DEPTH_def)

text \<open>C33: The line reader loses nothing: when it ends without an error the lines it yielded are the whole
  file, they are numbered from one without a gap, and each is a nonempty line within the limit whose
  value was decoded from it.\<close>

theorem line_reader_is_complete:
  "case iter_bounded_json_lines node maximum context0 of
     (records, Some e) \<Rightarrow> map fst records = [1..<1 + length records]
   | (records, None) \<Rightarrow> node = RegularFile (concat (map (\<lambda>(_, l, _). l) records)) \<and>
       map fst records = [1..<1 + length records] \<and>
       list_all (\<lambda>(_, l, v). l \<noteq> [] \<and> length l \<le> maximum \<and> json_loads l = Inr v) records"
proof (cases "open_regular_binary node context0")
  case (Inl e)
  then show ?thesis by (simp add: iter_bounded_json_lines_def)
next
  case (Inr stream)
  then have node: "node = RegularFile stream" by (auto simp: open_regular_binary_def split: fs_node.splits)
  let ?r = "iter_lines maximum context0 0 stream"
  have i: "iter_bounded_json_lines node maximum context0 = (fst ?r, snd ?r)" by (simp add: iter_bounded_json_lines_def Inr)
  have numbers: "map fst (fst ?r) = [1..<1 + length (fst ?r)]" using iter_lines_numbers [of maximum context0 0 stream] by simp
  have lines: "list_all (\<lambda>(_, l, v). l \<noteq> [] \<and> length l \<le> maximum \<and> json_loads l = Inr v) (fst ?r)"
    using iter_lines_records [of _ _ _ maximum context0 0 stream] by (auto simp: list_all_iff)
  show ?thesis
    unfolding i using numbers lines iter_lines_complete [of maximum context0 0 stream] node by (auto split: option.split)
qed

text \<open>C34: Artifact paths are confined: a path is accepted exactly when it has no backslash, every
  component between slashes is a name other than the empty one, one dot and two dots, and it does not
  look like an absolute, home or drive path; joined to a directory it stays below it.\<close>

theorem accepted_paths_stay_inside:
  "validate_relative_path s = Inr () \<longleftrightarrow>
     CHR 0x5C \<notin> set s \<and> list_all (\<lambda>p. p \<notin> {[], ''.'', ''..''}) (split_on (CHR ''/'') s) \<and> \<not> path_leak s"
  by (rule validate_relative_path_ok)

section \<open>Control documents\<close>

text \<open>C35: An attempt manifest is read back from its file: what was written for a valid manifest parses to
  the same manifest.\<close>

theorem manifest_file_round_trip:
  assumes "check_manifest m = Inr ()" and "list_all (\<lambda>e. check_entry e = Inr ()) (m_artifacts m)"
    and "length (dumps (manifest_dump m)) < MAX_CONTROL_FILE_BYTES"
  shows "parse_attempt_manifest_bytes (dumps (manifest_dump m) @ [CHR 0x0A]) = Inr m"
proof -
  have "json_depth (manifest_dump m) \<le> MAXIMUM_JSON_DEPTH"
    by (rule order_trans [OF manifest_dump_ok(2)]) (simp add: MAXIMUM_JSON_DEPTH_def)
  then show ?thesis
    using decode_json_document [OF manifest_dump_ok(1)] manifest_round_trip [OF assms(1)] assms(2,3)
    by (simp add: parse_attempt_manifest_bytes_def list_all_iff)
qed

definition sample_manifest :: attempt_manifest where
  "sample_manifest = \<lparr>m_workflow_id = ''w'', m_stage_id = ''s'', m_attempt_id = ''a'', m_attempt_number = 1,
     m_cache_key = replicate 64 (CHR ''0''), m_artifacts = [\<lparr>e_artifact_key = ''k'', e_relative_path = ''k.json'',
       e_sha256 = replicate 64 (CHR ''1''), e_byte_count = 2, e_media_type = ''t''\<rparr>]\<rparr>"

lemma sample_text:
  "is_sha256 (replicate 64 (CHR ''0''))" "is_sha256 (replicate 64 (CHR ''1''))" "is_identifier ''w''" "is_identifier ''s''"
  "is_identifier ''a''" "is_identifier ''k''" "validate_relative_path ''k.json'' = Inr ()"
  by (simp_all add: is_sha256_def is_hex_lower_def is_digit_def list_all_iff is_identifier_def is_alnum_def is_lower_def
      validate_relative_path_ok plain_text_portable)

lemma manifest_file_round_trip_witness:
  "parse_attempt_manifest_bytes (dumps (manifest_dump sample_manifest) @ [CHR 0x0A]) = Inr sample_manifest"
proof (rule manifest_file_round_trip)
  have "json_weight (manifest_dump sample_manifest) < 3000"
    by (simp add: manifest_dump_def entry_dump_def sample_manifest_def show_int_def show_nat.simps)
  then show "length (dumps (manifest_dump sample_manifest)) < MAX_CONTROL_FILE_BYTES"
    using length_dumps [of "manifest_dump sample_manifest"] by (simp add: MAX_CONTROL_FILE_BYTES_def)
qed (simp_all add: check_manifest_def check_entry_def sample_manifest_def sample_text)

text \<open>Readers of control documents fail in one way: a damaged manifest or pointer, of any bytes, is an
  integrity error, and a document that parses satisfies its validator.\<close>

lemma control_readers_fail_closed:
  "(case parse_attempt_manifest_bytes content of Inl e \<Rightarrow> is_integrity_error e | Inr m \<Rightarrow> check_manifest m = Inr ()) \<and>
   (case parse_completion_pointer_bytes content of Inl e \<Rightarrow> is_integrity_error e | Inr p \<Rightarrow> check_pointer p = Inr ())"
proof -
  have "check_manifest m = Inr ()" if "manifest_validate v = Inr m" for v m
    using that by (auto simp: manifest_validate_def Let_def)
  moreover have pointer: "check_pointer p = Inr ()" if "pointer_validate v = Inr p" for v p
    using that by (auto simp: pointer_validate_def Let_def)
  ultimately have "check_manifest m = Inr ()" if "parse_attempt_manifest_bytes content = Inr m" for m
    using that by (auto simp: parse_attempt_manifest_bytes_def)
  moreover have "check_pointer p = Inr ()" if "parse_completion_pointer_bytes content = Inr p" for p
    using that pointer
    by (auto simp: parse_completion_pointer_bytes_def)
  ultimately show ?thesis
    using parse_attempt_manifest_fails [of content] parse_completion_pointer_fails [of content]
    by (cases "parse_attempt_manifest_bytes content"; cases "parse_completion_pointer_bytes content") simp_all
qed

end
