(* ===== verification/Artifacts.thy ===== *)
theory Artifacts
  imports Contracts RunArtifact
begin

text \<open>
  The persisted artifact contracts of \<^verbatim>\<open>python/cartosentry/artifacts.py\<close> other than the
  run document: one record per model class, its written form (\<open>_dump\<close>, the result of
  \<open>model_dump(mode="json")\<close>), and a \<open>check_\<close> function for its field constraints and
  validators, \<open>Inl\<close> being the exception of the construction.  Floats are stored and compared
  only, so they are rationals, and \<open>repr\<close> is their written form (\<open>repr\<close>).  Identities are
  recomputed with the constructors of \<open>Identifiers\<close>.
\<close>

section \<open>Enumerations\<close>

datatype source_partition = DEVELOPMENT | POLICY_TUNING | FINAL_TEST

definition partition_name :: "source_partition \<Rightarrow> string" where
  "partition_name p = (case p of
     DEVELOPMENT \<Rightarrow> ''development'' | POLICY_TUNING \<Rightarrow> ''policy_tuning'' | FINAL_TEST \<Rightarrow> ''final_test'')"

datatype sensor_modality = CAMERA | GNSS | IMU | LIDAR | RADAR | TRAJECTORY

definition modality_name :: "sensor_modality \<Rightarrow> string" where
  "modality_name m = (case m of
     CAMERA \<Rightarrow> ''camera'' | GNSS \<Rightarrow> ''gnss'' | IMU \<Rightarrow> ''imu'' | LIDAR \<Rightarrow> ''lidar''
   | RADAR \<Rightarrow> ''radar'' | TRAJECTORY \<Rightarrow> ''trajectory'')"

datatype severity = INFO | WARNING | CRITICAL | BLOCKING_ANALYSIS

definition severity_name :: "severity \<Rightarrow> string" where
  "severity_name s = (case s of
     INFO \<Rightarrow> ''INFO'' | WARNING \<Rightarrow> ''WARNING'' | CRITICAL \<Rightarrow> ''CRITICAL'' | BLOCKING_ANALYSIS \<Rightarrow> ''BLOCKING_ANALYSIS'')"

datatype observability = OBSERVABLE | WEAK | NOT_OBSERVABLE | NOT_APPLICABLE

definition observability_name :: "observability \<Rightarrow> string" where
  "observability_name s = (case s of
     OBSERVABLE \<Rightarrow> ''OBSERVABLE'' | WEAK \<Rightarrow> ''WEAK'' | NOT_OBSERVABLE \<Rightarrow> ''NOT_OBSERVABLE''
   | NOT_APPLICABLE \<Rightarrow> ''NOT_APPLICABLE'')"

datatype readiness_state = PASS | FAIL | UNKNOWN_READINESS

definition readiness_name :: "readiness_state \<Rightarrow> string" where
  "readiness_name s = (case s of PASS \<Rightarrow> ''PASS'' | FAIL \<Rightarrow> ''FAIL'' | UNKNOWN_READINESS \<Rightarrow> ''UNKNOWN'')"

datatype measurement_unit =
    NANOSECOND | METER | METER_PER_SECOND | METER_PER_SECOND_SQUARED | RADIAN | RADIAN_PER_SECOND | DEGREE
  | HERTZ | COUNT | FRACTION | BYTE | SQUARE_METER | INVERSE_METER | DECIBEL | BOOLEAN

definition unit_name :: "measurement_unit \<Rightarrow> string" where
  "unit_name u = (case u of
     NANOSECOND \<Rightarrow> ''ns'' | METER \<Rightarrow> ''m'' | METER_PER_SECOND \<Rightarrow> ''m/s'' | METER_PER_SECOND_SQUARED \<Rightarrow> ''m/s^2''
   | RADIAN \<Rightarrow> ''rad'' | RADIAN_PER_SECOND \<Rightarrow> ''rad/s'' | DEGREE \<Rightarrow> ''deg'' | HERTZ \<Rightarrow> ''Hz'' | COUNT \<Rightarrow> ''count''
   | FRACTION \<Rightarrow> ''fraction'' | BYTE \<Rightarrow> ''bytes'' | SQUARE_METER \<Rightarrow> ''m^2'' | INVERSE_METER \<Rightarrow> ''1/m''
   | DECIBEL \<Rightarrow> ''dB'' | BOOLEAN \<Rightarrow> ''bool'')"

datatype threshold_operator =
    LESS_THAN | LESS_THAN_OR_EQUAL | GREATER_THAN | GREATER_THAN_OR_EQUAL | ABSOLUTE_LESS_THAN_OR_EQUAL | EQUAL_TO

definition operator_name :: "threshold_operator \<Rightarrow> string" where
  "operator_name p = (case p of
     LESS_THAN \<Rightarrow> ''lt'' | LESS_THAN_OR_EQUAL \<Rightarrow> ''le'' | GREATER_THAN \<Rightarrow> ''gt'' | GREATER_THAN_OR_EQUAL \<Rightarrow> ''ge''
   | ABSOLUTE_LESS_THAN_OR_EQUAL \<Rightarrow> ''abs_le'' | EQUAL_TO \<Rightarrow> ''eq'')"

datatype window_policy = FIXED_DURATION | FIXED_DISTANCE | FRAME_NEIGHBORHOOD | FULL_SEQUENCE

definition window_name :: "window_policy \<Rightarrow> string" where
  "window_name p = (case p of
     FIXED_DURATION \<Rightarrow> ''fixed_duration'' | FIXED_DISTANCE \<Rightarrow> ''fixed_distance''
   | FRAME_NEIGHBORHOOD \<Rightarrow> ''frame_neighborhood'' | FULL_SEQUENCE \<Rightarrow> ''full_sequence'')"

datatype reachability = REACHABLE | DEFERRED | UNREACHABLE

definition reachability_name :: "reachability \<Rightarrow> string" where
  "reachability_name r = (case r of
     REACHABLE \<Rightarrow> ''REACHABLE'' | DEFERRED \<Rightarrow> ''DEFERRED'' | UNREACHABLE \<Rightarrow> ''UNREACHABLE'')"

section \<open>Written forms of the shared values\<close>

definition strings_json :: "string list \<Rightarrow> json" where
  "strings_json ss = JList (map JStr ss)"

definition float_json :: "(rat \<Rightarrow> string) \<Rightarrow> rat option \<Rightarrow> json" where
  "float_json repr x = (case x of None \<Rightarrow> JNull | Some q \<Rightarrow> JFloat (repr q))"

definition raw_time_dump :: "(rat \<Rightarrow> string) \<Rightarrow> raw_time \<Rightarrow> json" where
  "raw_time_dump repr r = JDict
     [(''source_key'', JStr (rt_source_key r)), (''field'', JStr (rt_field r)), (''unit'', JStr (rt_unit r)),
      (''epoch'', JStr (epoch_name (rt_epoch r))), (''reference'', JStr (reference_name (rt_reference r))),
      (''encoding'', JStr (encoding_name (rt_encoding r))), (''decimal_lexeme'', option_json (rt_decimal_lexeme r)),
      (''integer_value'', option_json (rt_integer_value r)), (''encoded_bytes'', option_json (rt_encoded_bytes r)),
      (''rounding'', JStr (rounding_name (rt_rounding r))),
      (''maximum_conversion_error_ns'', JFloat (repr (rt_maximum_conversion_error_ns r)))]"

definition time_point_dump :: "(rat \<Rightarrow> string) \<Rightarrow> time_point \<Rightarrow> json" where
  "time_point_dump repr t = JDict
     [(''value_ns'', JInt (tp_value_ns t)), (''epoch'', JStr (epoch_name (tp_epoch t))),
      (''clock_id'', JStr (tp_clock_id t)), (''reference'', JStr (reference_name (tp_reference t))),
      (''raw'', raw_time_dump repr (tp_raw t))]"

record source_interval =
  si_start :: time_point
  si_end :: time_point

definition interval_dump :: "(rat \<Rightarrow> string) \<Rightarrow> source_interval \<Rightarrow> json" where
  "interval_dump repr i = JDict [(''start'', time_point_dump repr (si_start i)), (''end'', time_point_dump repr (si_end i))]"

definition check_source_interval :: "source_interval \<Rightarrow> unit res" where
  "check_source_interval i =
     bindE (check_time_point (si_start i)) (\<lambda>_.
     bindE (check_time_point (si_end i)) (\<lambda>_.
     bindE (difference (si_end i) (si_start i)) (\<lambda>d.
       ensure (\<not> d \<le> 0) (ValueError ''source interval must be nonempty and half open''))))"

definition check_each :: "('a \<Rightarrow> unit res) \<Rightarrow> 'a list \<Rightarrow> unit res" where
  "check_each f xs = bindE (mapE f xs) (\<lambda>_. Inr ())"

section \<open>The sequence manifest\<close>

record adapter_identity =
  ai_adapter_id :: string
  ai_adapter_version :: string
  ai_capabilities :: "string list"

record source_file =
  sf_source_key :: string
  sf_sha256 :: string
  sf_byte_count :: nat

record calibration_identity =
  ci_calibration_id :: string
  ci_sha256 :: string
  ci_target_frame :: string
  ci_source_frame :: string

record sensor_descriptor =
  sn_stream_id :: string
  sn_modality :: sensor_modality
  sn_sensor_id :: string
  sn_coordinate_frame :: string
  sn_calibration_ids :: "string list"

record timestamp_metadata =
  tm_stream_id :: string
  tm_epoch :: time_epoch
  tm_clock_id :: string
  tm_reference :: time_reference
  tm_raw_unit :: string

record coordinate_metadata =
  co_local_frame :: string
  co_rig_frame :: string
  co_vertical_datum :: vertical_datum

record declared_gap =
  dg_stream_id :: string
  dg_interval :: source_interval
  dg_reason :: string

record sequence_manifest =
  sm_sequence_id :: string
  sm_source_identity_sha256 :: string
  sm_source_group_id :: string
  sm_partition :: source_partition
  sm_adapter :: adapter_identity
  sm_sensors :: "sensor_descriptor list"
  sm_source_files :: "source_file list"
  sm_calibrations :: "calibration_identity list"
  sm_timestamp_metadata :: "timestamp_metadata list"
  sm_coordinate_metadata :: coordinate_metadata
  sm_declared_gaps :: "declared_gap list"

definition adapter_dump :: "adapter_identity \<Rightarrow> json" where
  "adapter_dump a = JDict
     [(''adapter_id'', JStr (ai_adapter_id a)), (''adapter_version'', JStr (ai_adapter_version a)),
      (''capabilities'', strings_json (ai_capabilities a))]"

definition source_file_dump :: "source_file \<Rightarrow> json" where
  "source_file_dump f = JDict
     [(''source_key'', JStr (sf_source_key f)), (''sha256'', JStr (sf_sha256 f)),
      (''byte_count'', JInt (int (sf_byte_count f)))]"

definition calibration_dump :: "calibration_identity \<Rightarrow> json" where
  "calibration_dump c = JDict
     [(''calibration_id'', JStr (ci_calibration_id c)), (''sha256'', JStr (ci_sha256 c)),
      (''target_frame'', JStr (ci_target_frame c)), (''source_frame'', JStr (ci_source_frame c))]"

text \<open>The fields of a sensor and of its time metadata without the stream identifier, which the
  identity leaves out.\<close>

definition sensor_fields :: "sensor_descriptor \<Rightarrow> (string \<times> json) list" where
  "sensor_fields s =
     [(''modality'', JStr (modality_name (sn_modality s))), (''sensor_id'', JStr (sn_sensor_id s)),
      (''coordinate_frame'', JStr (sn_coordinate_frame s)), (''calibration_ids'', strings_json (sn_calibration_ids s))]"

definition sensor_dump :: "sensor_descriptor \<Rightarrow> json" where
  "sensor_dump s = JDict ((''stream_id'', JStr (sn_stream_id s)) # sensor_fields s)"

definition timestamp_fields :: "timestamp_metadata \<Rightarrow> (string \<times> json) list" where
  "timestamp_fields t =
     [(''epoch'', JStr (epoch_name (tm_epoch t))), (''clock_id'', JStr (tm_clock_id t)),
      (''reference'', JStr (reference_name (tm_reference t))), (''raw_unit'', JStr (tm_raw_unit t))]"

definition timestamp_dump :: "timestamp_metadata \<Rightarrow> json" where
  "timestamp_dump t = JDict ((''stream_id'', JStr (tm_stream_id t)) # timestamp_fields t)"

definition coordinate_dump :: "coordinate_metadata \<Rightarrow> json" where
  "coordinate_dump c = JDict
     [(''global_frame'', JStr ''WGS84''), (''local_frame'', JStr (co_local_frame c)),
      (''rig_frame'', JStr (co_rig_frame c)), (''vertical_datum'', JStr (datum_name (co_vertical_datum c)))]"

definition gap_dump :: "(rat \<Rightarrow> string) \<Rightarrow> declared_gap \<Rightarrow> json" where
  "gap_dump repr g = JDict
     [(''stream_id'', JStr (dg_stream_id g)), (''interval'', interval_dump repr (dg_interval g)),
      (''reason'', JStr (dg_reason g))]"

definition manifest_document_dump :: "(rat \<Rightarrow> string) \<Rightarrow> sequence_manifest \<Rightarrow> json" where
  "manifest_document_dump repr m = JDict
     [(''schema_version'', JStr ''cartosentry.sequence-manifest.v1''), (''sequence_id'', JStr (sm_sequence_id m)),
      (''source_identity_sha256'', JStr (sm_source_identity_sha256 m)),
      (''source_group_id'', JStr (sm_source_group_id m)), (''partition'', JStr (partition_name (sm_partition m))),
      (''adapter'', adapter_dump (sm_adapter m)), (''sensors'', JList (map sensor_dump (sm_sensors m))),
      (''source_files'', JList (map source_file_dump (sm_source_files m))),
      (''calibrations'', JList (map calibration_dump (sm_calibrations m))),
      (''timestamp_metadata'', JList (map timestamp_dump (sm_timestamp_metadata m))),
      (''coordinate_metadata'', coordinate_dump (sm_coordinate_metadata m)),
      (''declared_gaps'', JList (map (gap_dump repr) (sm_declared_gaps m)))]"

text \<open>\<open>{item.stream_id: item for item in self.sensors}\<close>: a later sensor replaces an earlier
  one.\<close>

definition sensor_by_stream :: "sequence_manifest \<Rightarrow> string \<Rightarrow> sensor_descriptor option" where
  "sensor_by_stream m = map_of (rev (map (\<lambda>s. (sn_stream_id s, s)) (sm_sensors m)))"

definition sensor_order :: "sensor_descriptor \<Rightarrow> string \<times> string" where
  "sensor_order s = (modality_name (sn_modality s), sn_sensor_id s)"

definition timestamp_entries :: "sequence_manifest \<Rightarrow> ((string \<times> string) \<times> json) list" where
  "timestamp_entries m =
     concat (map (\<lambda>t. case sensor_by_stream m (tm_stream_id t) of
         None \<Rightarrow> []
       | Some s \<Rightarrow> [(sensor_order s, JDict (timestamp_fields t @
           [(''modality'', JStr (modality_name (sn_modality s))), (''sensor_id'', JStr (sn_sensor_id s))]))])
       (sm_timestamp_metadata m))"

definition sequence_identity_payload :: "sequence_manifest \<Rightarrow> json" where
  "sequence_identity_payload m = JDict
     [(''adapter'', adapter_dump (sm_adapter m)),
      (''calibrations'', JList (map calibration_dump (sort_key ci_calibration_id (sm_calibrations m)))),
      (''coordinate_metadata'', coordinate_dump (sm_coordinate_metadata m)),
      (''sensors'', JList (map (JDict \<circ> sensor_fields) (sort_key sensor_order (sm_sensors m)))),
      (''source_files'', JList (map source_file_dump (sort_key sf_source_key (sm_source_files m)))),
      (''source_identity_sha256'', JStr (sm_source_identity_sha256 m)),
      (''timestamp_metadata'', JList (map snd (sort_key fst (timestamp_entries m))))]"

definition check_sensor :: "(string \<Rightarrow> string) \<Rightarrow> sequence_manifest \<Rightarrow> sensor_descriptor \<Rightarrow> unit res" where
  "check_sensor sha m sensor =
     bindE (make_stream_id sha (sm_sequence_id m) (modality_name (sn_modality sensor)) (sn_sensor_id sensor)) (\<lambda>expected.
     bindE (ensure (sn_stream_id sensor = expected)
        (ValueError ''stream_id does not match sequence and sensor identity'')) (\<lambda>_.
       ensure (set (sn_calibration_ids sensor) \<subseteq> set (map ci_calibration_id (sm_calibrations m)))
        (ValueError ''sensor references an unknown calibration'')))"

definition validate_identity_and_references :: "(string \<Rightarrow> string) \<Rightarrow> sequence_manifest \<Rightarrow> unit res" where
  "validate_identity_and_references sha m =
     (let stream_ids = map sn_stream_id (sm_sensors m); calibration_ids = map ci_calibration_id (sm_calibrations m) in
     bindE (ensure (distinct stream_ids) (ValueError ''sensor stream identifiers must be unique'')) (\<lambda>_.
     bindE (ensure (distinct calibration_ids) (ValueError ''calibration identifiers must be unique'')) (\<lambda>_.
     bindE (check_each (check_sensor sha m) (sm_sensors m)) (\<lambda>_.
     bindE (ensure (set (map tm_stream_id (sm_timestamp_metadata m)) = set stream_ids)
        (ValueError ''timestamp metadata must cover every stream exactly once'')) (\<lambda>_.
     bindE (ensure (list_all (\<lambda>g. dg_stream_id g \<in> set stream_ids) (sm_declared_gaps m))
        (ValueError ''declared gap references an unknown stream'')) (\<lambda>_.
     bindE (ensure (distinct (map sf_source_key (sm_source_files m))) (ValueError ''source keys must be unique'')) (\<lambda>_.
     bindE (make_sequence_id sha (sequence_identity_payload m)) (\<lambda>expected.
       ensure (sm_sequence_id m = expected)
        (ValueError ''sequence_id does not match normalized manifest identity'')))))))))"

definition manifest_fields_ok :: "sequence_manifest \<Rightarrow> bool" where
  "manifest_fields_ok m \<longleftrightarrow>
     is_stable_id (sm_sequence_id m) \<and> is_sha256 (sm_source_identity_sha256 m) \<and> is_identifier (sm_source_group_id m) \<and>
     is_identifier (ai_adapter_id (sm_adapter m)) \<and> is_semantic_version (ai_adapter_version (sm_adapter m)) \<and>
     list_all is_identifier (ai_capabilities (sm_adapter m)) \<and>
     list_all (\<lambda>s. is_stream_id (sn_stream_id s) \<and> is_identifier (sn_sensor_id s) \<and> is_frame_id (sn_coordinate_frame s)
       \<and> list_all is_stable_id (sn_calibration_ids s)) (sm_sensors m) \<and>
     list_all (\<lambda>f. sf_source_key f \<noteq> [] \<and> is_sha256 (sf_sha256 f)) (sm_source_files m) \<and>
     list_all (\<lambda>c. is_stable_id (ci_calibration_id c) \<and> is_sha256 (ci_sha256 c) \<and> is_frame_id (ci_target_frame c)
       \<and> is_frame_id (ci_source_frame c)) (sm_calibrations m) \<and>
     list_all (\<lambda>t. is_stream_id (tm_stream_id t) \<and> tm_clock_id t \<noteq> [] \<and> tm_raw_unit t \<noteq> []) (sm_timestamp_metadata m) \<and>
     is_frame_id (co_local_frame (sm_coordinate_metadata m)) \<and> is_frame_id (co_rig_frame (sm_coordinate_metadata m)) \<and>
     list_all (\<lambda>g. is_stream_id (dg_stream_id g) \<and> dg_reason g \<noteq> []) (sm_declared_gaps m)"

definition check_sequence_manifest ::
  "(string \<Rightarrow> string) \<Rightarrow> (rat \<Rightarrow> string) \<Rightarrow> sequence_manifest \<Rightarrow> unit res" where
  "check_sequence_manifest sha repr m =
     bindE (ensure (manifest_fields_ok m) (ValueError ''validation error for SequenceManifest'')) (\<lambda>_.
     bindE (check_each (check_source_interval \<circ> dg_interval) (sm_declared_gaps m)) (\<lambda>_.
     bindE (assert_portable ''artifact'' (manifest_document_dump repr m)) (\<lambda>_.
       validate_identity_and_references sha m)))"

section \<open>Findings\<close>

record measurement =
  me_name :: string
  me_value :: rat
  me_unit :: measurement_unit

record threshold =
  th_operator :: threshold_operator
  th_value :: rat
  th_unit :: measurement_unit
  th_charter_key :: string

record evidence_reference =
  ev_source_artifact_sha256 :: string
  ev_source_interval :: source_interval
  ev_frame_ids :: "string list"
  ev_derived_artifact_sha256 :: string
  ev_detector_version :: string
  ev_transformation_lineage :: "string list"

record root_cause_hypothesis =
  hy_possible_cause :: string
  hy_supporting_evidence :: "evidence_reference list"
  hy_contradicting_evidence :: "evidence_reference list"

record finding =
  fd_finding_id :: string
  fd_detector_id :: string
  fd_detector_version :: string
  fd_rule_id :: string
  fd_severity :: severity
  fd_observability :: observability
  fd_readiness_effect :: "readiness_state option"
  fd_streams :: "string list"
  fd_interval :: source_interval
  fd_measurement :: measurement
  fd_threshold :: threshold
  fd_road_bin_ids :: "string list"
  fd_evidence :: "evidence_reference list"
  fd_hypotheses :: "root_cause_hypothesis list"
  fd_remediation :: string

definition evidence_dump :: "(rat \<Rightarrow> string) \<Rightarrow> evidence_reference \<Rightarrow> json" where
  "evidence_dump repr e = JDict
     [(''source_artifact_sha256'', JStr (ev_source_artifact_sha256 e)),
      (''source_interval'', interval_dump repr (ev_source_interval e)), (''frame_ids'', strings_json (ev_frame_ids e)),
      (''derived_artifact_sha256'', JStr (ev_derived_artifact_sha256 e)),
      (''detector_version'', JStr (ev_detector_version e)),
      (''transformation_lineage'', strings_json (ev_transformation_lineage e))]"

definition hypothesis_dump :: "(rat \<Rightarrow> string) \<Rightarrow> root_cause_hypothesis \<Rightarrow> json" where
  "hypothesis_dump repr h = JDict
     [(''possible_cause'', JStr (hy_possible_cause h)),
      (''supporting_evidence'', JList (map (evidence_dump repr) (hy_supporting_evidence h))),
      (''contradicting_evidence'', JList (map (evidence_dump repr) (hy_contradicting_evidence h))),
      (''confirmed'', JBool False)]"

definition finding_dump :: "(rat \<Rightarrow> string) \<Rightarrow> finding \<Rightarrow> json" where
  "finding_dump repr f = JDict
     [(''schema_version'', JStr ''cartosentry.finding.v1''), (''finding_id'', JStr (fd_finding_id f)),
      (''detector_id'', JStr (fd_detector_id f)), (''detector_version'', JStr (fd_detector_version f)),
      (''rule_id'', JStr (fd_rule_id f)), (''severity'', JStr (severity_name (fd_severity f))),
      (''observability'', JStr (observability_name (fd_observability f))),
      (''readiness_effect'', option_json (map_option readiness_name (fd_readiness_effect f))),
      (''streams'', strings_json (fd_streams f)), (''interval'', interval_dump repr (fd_interval f)),
      (''measurement'', JDict [(''name'', JStr (me_name (fd_measurement f))),
         (''value'', JFloat (repr (me_value (fd_measurement f)))), (''unit'', JStr (unit_name (me_unit (fd_measurement f))))]),
      (''threshold'', JDict [(''operator'', JStr (operator_name (th_operator (fd_threshold f)))),
         (''value'', JFloat (repr (th_value (fd_threshold f)))), (''unit'', JStr (unit_name (th_unit (fd_threshold f)))),
         (''charter_key'', JStr (th_charter_key (fd_threshold f)))]),
      (''road_bin_ids'', strings_json (fd_road_bin_ids f)), (''evidence'', JList (map (evidence_dump repr) (fd_evidence f))),
      (''hypotheses'', JList (map (hypothesis_dump repr) (fd_hypotheses f))), (''remediation'', JStr (fd_remediation f))]"

definition check_evidence :: "evidence_reference \<Rightarrow> unit res" where
  "check_evidence e =
     bindE (ensure (is_sha256 (ev_source_artifact_sha256 e) \<and> list_all is_stable_id (ev_frame_ids e)
         \<and> is_sha256 (ev_derived_artifact_sha256 e) \<and> is_semantic_version (ev_detector_version e)
         \<and> list_all (\<lambda>s. s \<noteq> []) (ev_transformation_lineage e)) (ValueError ''validation error for EvidenceReference''))
       (\<lambda>_. check_source_interval (ev_source_interval e))"

definition check_hypothesis :: "root_cause_hypothesis \<Rightarrow> unit res" where
  "check_hypothesis h =
     bindE (ensure (hy_possible_cause h \<noteq> []) (ValueError ''validation error for RootCauseHypothesis'')) (\<lambda>_.
       check_each check_evidence (hy_supporting_evidence h @ hy_contradicting_evidence h))"

definition finding_id_of :: "(string \<Rightarrow> string) \<Rightarrow> (rat \<Rightarrow> string) \<Rightarrow> finding \<Rightarrow> string res" where
  "finding_id_of sha repr f =
     make_finding_id sha (fd_detector_id f) (fd_detector_version f) (fd_rule_id f) (interval_dump repr (fd_interval f))
       (fd_streams f) (JList (map (evidence_dump repr) (fd_evidence f)))"

definition validate_finding_identity :: "(string \<Rightarrow> string) \<Rightarrow> (rat \<Rightarrow> string) \<Rightarrow> finding \<Rightarrow> unit res" where
  "validate_finding_identity sha repr f =
     bindE (ensure (fd_streams f \<noteq> [] \<and> distinct (fd_streams f))
        (ValueError ''finding streams must be nonempty and unique'')) (\<lambda>_.
     bindE (ensure (me_unit (fd_measurement f) = th_unit (fd_threshold f))
        (ValueError ''measurement and threshold units differ'')) (\<lambda>_.
     bindE (finding_id_of sha repr f) (\<lambda>expected.
       ensure (fd_finding_id f = expected) (ValueError ''finding_id does not match evidence identity''))))"

definition check_finding :: "(string \<Rightarrow> string) \<Rightarrow> (rat \<Rightarrow> string) \<Rightarrow> finding \<Rightarrow> unit res" where
  "check_finding sha repr f =
     bindE (ensure (is_stable_id (fd_finding_id f) \<and> is_identifier (fd_detector_id f)
         \<and> is_semantic_version (fd_detector_version f) \<and> is_identifier (fd_rule_id f)
         \<and> list_all is_stream_id (fd_streams f) \<and> is_identifier (me_name (fd_measurement f))
         \<and> is_identifier (th_charter_key (fd_threshold f)) \<and> list_all is_stable_id (fd_road_bin_ids f)
         \<and> fd_remediation f \<noteq> []) (ValueError ''validation error for Finding'')) (\<lambda>_.
     bindE (check_source_interval (fd_interval f)) (\<lambda>_.
     bindE (check_each check_evidence (fd_evidence f)) (\<lambda>_.
     bindE (check_each check_hypothesis (fd_hypotheses f)) (\<lambda>_.
     bindE (assert_portable ''artifact'' (finding_dump repr f)) (\<lambda>_.
       validate_finding_identity sha repr f)))))"

end
