(* ===== verification/ArtifactPlans.thy ===== *)
theory ArtifactPlans
  imports Artifacts
begin

text \<open>
  The decision documents of \<^verbatim>\<open>python/cartosentry/artifacts.py\<close>: readiness profiles,
  recapture plans and accepted data bundles, with the written forms and validators of
  \<open>Artifacts\<close>, the choice of the model class from the schema of a document
  (\<open>validate_artifact\<close>), and \<open>canonicalize_portable_artifact\<close> for any of them.
\<close>

section \<open>Readiness profiles\<close>

record aggregation_rule =
  ag_rule_id :: string
  ag_window_policy :: window_policy
  ag_window_value :: "rat option"
  ag_window_unit :: "measurement_unit option"
  ag_stride_value :: "rat option"
  ag_stride_unit :: "measurement_unit option"

record mandatory_requirement =
  mr_requirement_id :: string
  mr_evidence_key :: string
  mr_operator :: threshold_operator
  mr_threshold :: rat
  mr_unit :: measurement_unit
  mr_charter_key :: string

record charter_reference =
  cr_charter_key :: string
  cr_document_sha256 :: string

record readiness_profile =
  rp_profile_id :: string
  rp_profile_version :: string
  rp_supported_adapter_capabilities :: "string list"
  rp_required_modalities :: "sensor_modality list"
  rp_required_detectors :: "string list"
  rp_aggregation_rules :: "aggregation_rule list"
  rp_mandatory_requirements :: "mandatory_requirement list"
  rp_optional_review_features :: "string list"
  rp_charter_references :: "charter_reference list"

definition check_aggregation_rule :: "aggregation_rule \<Rightarrow> unit res" where
  "check_aggregation_rule a =
     bindE (ensure (is_identifier (ag_rule_id a) \<and> (case ag_window_value a of None \<Rightarrow> True | Some v \<Rightarrow> 0 \<le> v)
         \<and> (case ag_stride_value a of None \<Rightarrow> True | Some v \<Rightarrow> 0 \<le> v)) (ValueError ''validation error for AggregationRule'')) (\<lambda>_.
     bindE (ensure ((ag_window_value a = None) = (ag_window_unit a = None))
        (ValueError ''window value and unit must appear together'')) (\<lambda>_.
     bindE (ensure ((ag_stride_value a = None) = (ag_stride_unit a = None))
        (ValueError ''stride value and unit must appear together'')) (\<lambda>_.
       ensure (\<not> (ag_window_policy a = FULL_SEQUENCE \<and>
           (ag_window_value a \<noteq> None \<or> ag_window_unit a \<noteq> None \<or> ag_stride_value a \<noteq> None \<or> ag_stride_unit a \<noteq> None)))
        (ValueError ''full-sequence aggregation has no window or stride''))))"

definition aggregation_dump :: "(rat \<Rightarrow> string) \<Rightarrow> aggregation_rule \<Rightarrow> json" where
  "aggregation_dump repr a = JDict
     [(''rule_id'', JStr (ag_rule_id a)), (''window_policy'', JStr (window_name (ag_window_policy a))),
      (''window_value'', float_json repr (ag_window_value a)),
      (''window_unit'', option_json (map_option unit_name (ag_window_unit a))),
      (''stride_value'', float_json repr (ag_stride_value a)),
      (''stride_unit'', option_json (map_option unit_name (ag_stride_unit a)))]"

definition mandatory_dump :: "(rat \<Rightarrow> string) \<Rightarrow> mandatory_requirement \<Rightarrow> json" where
  "mandatory_dump repr r = JDict
     [(''requirement_id'', JStr (mr_requirement_id r)), (''evidence_key'', JStr (mr_evidence_key r)),
      (''operator'', JStr (operator_name (mr_operator r))), (''threshold'', JFloat (repr (mr_threshold r))),
      (''unit'', JStr (unit_name (mr_unit r))), (''minimum_observability'', JStr ''OBSERVABLE''),
      (''charter_key'', JStr (mr_charter_key r))]"

definition profile_dump :: "(rat \<Rightarrow> string) \<Rightarrow> readiness_profile \<Rightarrow> json" where
  "profile_dump repr p = JDict
     [(''schema_version'', JStr ''cartosentry.readiness-profile.v1''), (''profile_id'', JStr (rp_profile_id p)),
      (''profile_version'', JStr (rp_profile_version p)),
      (''supported_adapter_capabilities'', strings_json (rp_supported_adapter_capabilities p)),
      (''required_modalities'', strings_json (map modality_name (rp_required_modalities p))),
      (''required_detectors'', strings_json (rp_required_detectors p)),
      (''aggregation_rules'', JList (map (aggregation_dump repr) (rp_aggregation_rules p))),
      (''mandatory_requirements'', JList (map (mandatory_dump repr) (rp_mandatory_requirements p))),
      (''optional_review_features'', strings_json (rp_optional_review_features p)),
      (''charter_references'', JList (map (\<lambda>c. JDict [(''charter_key'', JStr (cr_charter_key c)),
         (''document_sha256'', JStr (cr_document_sha256 c))]) (rp_charter_references p)))]"

definition nonempty_unique :: "string \<Rightarrow> 'a list \<Rightarrow> unit res" where
  "nonempty_unique label xs =
     ensure (xs \<noteq> [] \<and> distinct xs) (ValueError (''profile '' @ label @ '' must be nonempty and unique''))"

definition validate_profile_sets :: "readiness_profile \<Rightarrow> unit res" where
  "validate_profile_sets p =
     bindE (nonempty_unique ''adapter capabilities'' (rp_supported_adapter_capabilities p)) (\<lambda>_.
     bindE (nonempty_unique ''modalities'' (rp_required_modalities p)) (\<lambda>_.
     bindE (nonempty_unique ''detectors'' (rp_required_detectors p)) (\<lambda>_.
     bindE (ensure (rp_mandatory_requirements p \<noteq> [] \<and> distinct (map mr_requirement_id (rp_mandatory_requirements p)))
        (ValueError ''mandatory requirement identifiers must be unique'')) (\<lambda>_.
       ensure (list_all (\<lambda>r. mr_charter_key r \<in> set (map cr_charter_key (rp_charter_references p))) (rp_mandatory_requirements p))
        (ValueError ''mandatory requirement has no charter reference'')))))"

definition check_readiness_profile :: "(rat \<Rightarrow> string) \<Rightarrow> readiness_profile \<Rightarrow> unit res" where
  "check_readiness_profile repr p =
     bindE (ensure (is_identifier (rp_profile_id p) \<and> is_semantic_version (rp_profile_version p)
         \<and> list_all is_identifier (rp_supported_adapter_capabilities p) \<and> list_all is_identifier (rp_required_detectors p)
         \<and> list_all (\<lambda>r. is_identifier (mr_requirement_id r) \<and> is_identifier (mr_evidence_key r)
              \<and> is_identifier (mr_charter_key r)) (rp_mandatory_requirements p)
         \<and> list_all is_identifier (rp_optional_review_features p)
         \<and> list_all (\<lambda>c. is_identifier (cr_charter_key c) \<and> is_sha256 (cr_document_sha256 c)) (rp_charter_references p))
         (ValueError ''validation error for ReadinessProfile'')) (\<lambda>_.
     bindE (check_each check_aggregation_rule (rp_aggregation_rules p)) (\<lambda>_.
     bindE (assert_portable ''artifact'' (profile_dump repr p)) (\<lambda>_. validate_profile_sets p)))"

section \<open>Recapture plans\<close>

record recapture_requirement =
  rc_requirement_id :: string
  rc_road_bin_id :: string
  rc_directed_arc_id :: string
  rc_start_offset_m :: rat
  rc_end_offset_m :: rat
  rc_required_modality :: sensor_modality
  rc_forward :: bool
  rc_minimum_continuous_observation_m :: rat
  rc_sensor_warmup_m :: rat
  rc_priority_weight :: nat
  rc_reason :: string
  rc_reachability :: reachability

record route_budget =
  rb_maximum_distance_m :: "rat option"
  rb_maximum_duration_ns :: "nat option"

record recapture_plan =
  pn_recapture_plan_id :: string
  pn_run_id :: string
  pn_road_graph_id :: string
  pn_depot_node_id :: string
  pn_requirements :: "recapture_requirement list"
  pn_route_arc_ids :: "string list"
  pn_covered_requirement_ids :: "string list"
  pn_deferred_requirement_ids :: "string list"
  pn_unreachable_requirement_ids :: "string list"
  pn_estimated_distance_m :: rat
  pn_estimated_duration_ns :: nat
  pn_budget :: "route_budget option"
  pn_validation_state :: readiness_state

definition requirement_dump :: "(rat \<Rightarrow> string) \<Rightarrow> recapture_requirement \<Rightarrow> json" where
  "requirement_dump repr r = JDict
     [(''requirement_id'', JStr (rc_requirement_id r)), (''road_bin_id'', JStr (rc_road_bin_id r)),
      (''directed_arc_id'', JStr (rc_directed_arc_id r)), (''start_offset_m'', JFloat (repr (rc_start_offset_m r))),
      (''end_offset_m'', JFloat (repr (rc_end_offset_m r))),
      (''required_modality'', JStr (modality_name (rc_required_modality r))),
      (''traversal_direction'', JStr (if rc_forward r then ''FORWARD'' else ''REVERSE'')),
      (''minimum_continuous_observation_m'', JFloat (repr (rc_minimum_continuous_observation_m r))),
      (''sensor_warmup_m'', JFloat (repr (rc_sensor_warmup_m r))),
      (''priority_weight'', JInt (int (rc_priority_weight r))), (''reason'', JStr (rc_reason r)),
      (''reachability'', JStr (reachability_name (rc_reachability r)))]"

definition budget_dump :: "(rat \<Rightarrow> string) \<Rightarrow> route_budget \<Rightarrow> json" where
  "budget_dump repr b = JDict
     [(''maximum_distance_m'', float_json repr (rb_maximum_distance_m b)),
      (''maximum_duration_ns'', (case rb_maximum_duration_ns b of None \<Rightarrow> JNull | Some n \<Rightarrow> JInt (int n)))]"

definition plan_budget_dump :: "(rat \<Rightarrow> string) \<Rightarrow> recapture_plan \<Rightarrow> json" where
  "plan_budget_dump repr p = (case pn_budget p of None \<Rightarrow> JNull | Some b \<Rightarrow> budget_dump repr b)"

definition plan_dump :: "(rat \<Rightarrow> string) \<Rightarrow> recapture_plan \<Rightarrow> json" where
  "plan_dump repr p = JDict
     [(''schema_version'', JStr ''cartosentry.recapture-plan.v1''),
      (''recapture_plan_id'', JStr (pn_recapture_plan_id p)), (''run_id'', JStr (pn_run_id p)),
      (''road_graph_id'', JStr (pn_road_graph_id p)), (''depot_node_id'', JStr (pn_depot_node_id p)),
      (''requirements'', JList (map (requirement_dump repr) (pn_requirements p))),
      (''route_arc_ids'', strings_json (pn_route_arc_ids p)),
      (''covered_requirement_ids'', strings_json (pn_covered_requirement_ids p)),
      (''deferred_requirement_ids'', strings_json (pn_deferred_requirement_ids p)),
      (''unreachable_requirement_ids'', strings_json (pn_unreachable_requirement_ids p)),
      (''estimated_distance_m'', JFloat (repr (pn_estimated_distance_m p))),
      (''estimated_duration_ns'', JInt (int (pn_estimated_duration_ns p))),
      (''budget'', plan_budget_dump repr p), (''validation_state'', JStr (readiness_name (pn_validation_state p)))]"

definition plan_identity_payload :: "(rat \<Rightarrow> string) \<Rightarrow> recapture_plan \<Rightarrow> json" where
  "plan_identity_payload repr p = JDict
     [(''budget'', plan_budget_dump repr p), (''depot_node_id'', JStr (pn_depot_node_id p)),
      (''requirements'', JList (map (requirement_dump repr) (pn_requirements p))),
      (''road_graph_id'', JStr (pn_road_graph_id p)), (''route_arc_ids'', strings_json (pn_route_arc_ids p)),
      (''run_id'', JStr (pn_run_id p))]"

definition check_recapture_requirement :: "recapture_requirement \<Rightarrow> unit res" where
  "check_recapture_requirement r =
     bindE (ensure (is_stable_id (rc_requirement_id r) \<and> is_stable_id (rc_road_bin_id r)
         \<and> is_identifier (rc_directed_arc_id r) \<and> 0 \<le> rc_start_offset_m r \<and> 0 \<le> rc_end_offset_m r
         \<and> 0 < rc_minimum_continuous_observation_m r \<and> 0 \<le> rc_sensor_warmup_m r \<and> rc_reason r \<noteq> [])
         (ValueError ''validation error for RecaptureRequirement'')) (\<lambda>_.
       ensure (\<not> rc_end_offset_m r \<le> rc_start_offset_m r) (ValueError ''recapture interval end must exceed start''))"

definition check_route_budget :: "route_budget \<Rightarrow> unit res" where
  "check_route_budget b =
     bindE (ensure ((case rb_maximum_distance_m b of None \<Rightarrow> True | Some d \<Rightarrow> 0 < d)
         \<and> (case rb_maximum_duration_ns b of None \<Rightarrow> True | Some n \<Rightarrow> 0 < n)) (ValueError ''validation error for RouteBudget'')) (\<lambda>_.
       ensure (\<not> (rb_maximum_distance_m b = None \<and> rb_maximum_duration_ns b = None))
         (ValueError ''route budget must declare distance or duration''))"

definition validate_plan_identity_and_partition ::
  "(string \<Rightarrow> string) \<Rightarrow> (rat \<Rightarrow> string) \<Rightarrow> recapture_plan \<Rightarrow> unit res" where
  "validate_plan_identity_and_partition sha repr p =
     bindE (make_recapture_plan_id sha (plan_identity_payload repr p)) (\<lambda>expected.
     bindE (ensure (pn_recapture_plan_id p = expected)
        (ValueError ''recapture_plan_id does not match plan semantics'')) (\<lambda>_.
     let known = set (map rc_requirement_id (pn_requirements p));
         flattened = pn_covered_requirement_ids p @ pn_deferred_requirement_ids p @ pn_unreachable_requirement_ids p in
     bindE (ensure (distinct flattened \<and> set flattened = known)
        (ValueError ''plan outcome lists must partition all requirements'')) (\<lambda>_.
       ensure (set (pn_unreachable_requirement_ids p) =
           set (map rc_requirement_id (filter (\<lambda>r. rc_reachability r = UNREACHABLE) (pn_requirements p))))
        (ValueError ''unreachable outcomes disagree with requirements''))))"

definition check_recapture_plan :: "(string \<Rightarrow> string) \<Rightarrow> (rat \<Rightarrow> string) \<Rightarrow> recapture_plan \<Rightarrow> unit res" where
  "check_recapture_plan sha repr p =
     bindE (ensure (is_stable_id (pn_recapture_plan_id p) \<and> is_stable_id (pn_run_id p) \<and> is_stable_id (pn_road_graph_id p)
         \<and> is_identifier (pn_depot_node_id p) \<and> list_all is_identifier (pn_route_arc_ids p)
         \<and> list_all is_stable_id (pn_covered_requirement_ids p) \<and> list_all is_stable_id (pn_deferred_requirement_ids p)
         \<and> list_all is_stable_id (pn_unreachable_requirement_ids p) \<and> 0 \<le> pn_estimated_distance_m p)
         (ValueError ''validation error for RecapturePlan'')) (\<lambda>_.
     bindE (check_each check_recapture_requirement (pn_requirements p)) (\<lambda>_.
     bindE (case pn_budget p of None \<Rightarrow> Inr () | Some b \<Rightarrow> check_route_budget b) (\<lambda>_.
     bindE (assert_portable ''artifact'' (plan_dump repr p)) (\<lambda>_.
       validate_plan_identity_and_partition sha repr p))))"

section \<open>Accepted data bundles\<close>

record bundle_interval =
  bi_source_key :: string
  bi_interval :: source_interval
  bi_reason :: string

record accepted_data_bundle =
  bu_bundle_id :: string
  bu_source_sequence_sha256 :: string
  bu_sequence_id :: string
  bu_profile_id :: string
  bu_accepted_intervals :: "bundle_interval list"
  bu_excluded_intervals :: "bundle_interval list"
  bu_required_calibration_ids :: "string list"
  bu_derived_artifacts :: "artifact_reference list"
  bu_raw_data_shards :: "artifact_reference list"

definition bundle_interval_dump :: "(rat \<Rightarrow> string) \<Rightarrow> bundle_interval \<Rightarrow> json" where
  "bundle_interval_dump repr i = JDict
     [(''source_key'', JStr (bi_source_key i)), (''interval'', interval_dump repr (bi_interval i)),
      (''reason'', JStr (bi_reason i))]"

definition bundle_identity_fields :: "(rat \<Rightarrow> string) \<Rightarrow> accepted_data_bundle \<Rightarrow> (string \<times> json) list" where
  "bundle_identity_fields repr b =
     [(''immutable'', JBool True), (''source_sequence_sha256'', JStr (bu_source_sequence_sha256 b)),
      (''sequence_id'', JStr (bu_sequence_id b)), (''profile_id'', JStr (bu_profile_id b)),
      (''accepted_intervals'', JList (map (bundle_interval_dump repr) (bu_accepted_intervals b))),
      (''excluded_intervals'', JList (map (bundle_interval_dump repr) (bu_excluded_intervals b))),
      (''required_calibration_ids'', strings_json (bu_required_calibration_ids b)),
      (''derived_artifacts'', JList (map reference_dump (bu_derived_artifacts b))),
      (''raw_data_shards'', JList (map reference_dump (bu_raw_data_shards b)))]"

definition bundle_dump :: "(rat \<Rightarrow> string) \<Rightarrow> accepted_data_bundle \<Rightarrow> json" where
  "bundle_dump repr b = JDict
     ((''schema_version'', JStr ''cartosentry.accepted-data-bundle.v1'') # (''bundle_id'', JStr (bu_bundle_id b)) #
      bundle_identity_fields repr b)"

definition bundle_identity_payload :: "(rat \<Rightarrow> string) \<Rightarrow> accepted_data_bundle \<Rightarrow> json" where
  "bundle_identity_payload repr b = JDict
     ((''schema_version'', JStr ''cartosentry.accepted-data-bundle.v1'') # bundle_identity_fields repr b)"

definition interval_key :: "bundle_interval \<Rightarrow> string \<times> int \<times> int" where
  "interval_key i = (bi_source_key i, tp_value_ns (si_start (bi_interval i)), tp_value_ns (si_end (bi_interval i)))"

definition validate_bundle_identity :: "(string \<Rightarrow> string) \<Rightarrow> (rat \<Rightarrow> string) \<Rightarrow> accepted_data_bundle \<Rightarrow> unit res" where
  "validate_bundle_identity sha repr b =
     bindE (make_bundle_id sha (bundle_identity_payload repr b)) (\<lambda>expected.
     bindE (ensure (bu_bundle_id b = expected) (ValueError ''bundle_id does not match immutable bundle contents'')) (\<lambda>_.
       ensure (set (map interval_key (bu_accepted_intervals b)) \<inter> set (map interval_key (bu_excluded_intervals b)) = {})
        (ValueError ''an interval cannot be both accepted and excluded'')))"

definition check_accepted_data_bundle :: "(string \<Rightarrow> string) \<Rightarrow> (rat \<Rightarrow> string) \<Rightarrow> accepted_data_bundle \<Rightarrow> unit res" where
  "check_accepted_data_bundle sha repr b =
     bindE (ensure (is_stable_id (bu_bundle_id b) \<and> is_sha256 (bu_source_sequence_sha256 b) \<and> is_stable_id (bu_sequence_id b)
         \<and> is_identifier (bu_profile_id b)
         \<and> list_all (\<lambda>i. bi_source_key i \<noteq> [] \<and> bi_reason i \<noteq> []) (bu_accepted_intervals b @ bu_excluded_intervals b)
         \<and> list_all is_stable_id (bu_required_calibration_ids b)
         \<and> list_all check_reference (bu_derived_artifacts b @ bu_raw_data_shards b))
         (ValueError ''validation error for AcceptedDataBundle'')) (\<lambda>_.
     bindE (check_each (check_source_interval \<circ> bi_interval) (bu_accepted_intervals b @ bu_excluded_intervals b)) (\<lambda>_.
     bindE (assert_portable ''artifact'' (bundle_dump repr b)) (\<lambda>_.
       validate_bundle_identity sha repr b)))"

section \<open>The model of a document\<close>

datatype artifact_kind =
    SEQUENCE_MANIFEST | RUN_DOCUMENT | FINDING | READINESS_PROFILE | RECAPTURE_PLAN | ACCEPTED_DATA_BUNDLE

definition schema_name :: "artifact_kind \<Rightarrow> string" where
  "schema_name k = (case k of
     SEQUENCE_MANIFEST \<Rightarrow> ''cartosentry.sequence-manifest.v1'' | RUN_DOCUMENT \<Rightarrow> ''cartosentry.run.v1''
   | FINDING \<Rightarrow> ''cartosentry.finding.v1'' | READINESS_PROFILE \<Rightarrow> ''cartosentry.readiness-profile.v1''
   | RECAPTURE_PLAN \<Rightarrow> ''cartosentry.recapture-plan.v1''
   | ACCEPTED_DATA_BUNDLE \<Rightarrow> ''cartosentry.accepted-data-bundle.v1'')"

definition artifact_model_by_schema :: "(string \<times> artifact_kind) list" where
  "artifact_model_by_schema = map (\<lambda>k. (schema_name k, k))
     [SEQUENCE_MANIFEST, RUN_DOCUMENT, FINDING, READINESS_PROFILE, RECAPTURE_PLAN, ACCEPTED_DATA_BUNDLE]"

definition artifact_model :: "json \<Rightarrow> artifact_kind res" where
  "artifact_model v =
     (case v of
        JDict kvs \<Rightarrow>
          (case map_of kvs ''schema_version'' of
             Some (JStr schema) \<Rightarrow>
               (case map_of artifact_model_by_schema schema of
                  Some k \<Rightarrow> Inr k
                | None \<Rightarrow> Inl (ValueError ''unsupported artifact schema''))
           | _ \<Rightarrow> Inl (ValueError ''unsupported artifact schema''))
      | _ \<Rightarrow> Inl (ValueError ''artifact JSON root must be an object''))"

text \<open>Validation of a document and of its bytes.  \<open>model k v\<close> is \<open>model_validate\<close> of the
  class chosen, given as its portable dictionary.\<close>

definition validate_artifact :: "(artifact_kind \<Rightarrow> json \<Rightarrow> json res) \<Rightarrow> json \<Rightarrow> json res" where
  "validate_artifact model v = bindE (artifact_model v) (\<lambda>k. model k v)"

definition validate_artifact_bytes :: "(artifact_kind \<Rightarrow> json \<Rightarrow> json res) \<Rightarrow> string \<Rightarrow> json res" where
  "validate_artifact_bytes model content =
     bindE (decode_bounded_json content MAXIMUM_ARTIFACT_JSON_BYTES ''artifact JSON'') (validate_artifact model)"

definition canonicalize_portable_artifact ::
  "(artifact_kind \<Rightarrow> json \<Rightarrow> json res) \<Rightarrow> (string \<Rightarrow> string \<Rightarrow> string res) \<Rightarrow> artifact_kind \<Rightarrow> json \<Rightarrow> string res" where
  "canonicalize_portable_artifact model native k payload =
     bindE (json_dumps payload) (\<lambda>source.
     bindE (native source (schema_name k)) (\<lambda>canonical.
     bindE (validate_artifact_bytes model canonical) (\<lambda>recovered.
       if canon recovered = canon payload then Inr canonical
       else Inl (ValueError ''native artifact round trip changed semantic content''))))"

end
