(* ===== verification/ArtifactProperties.thy ===== *)
theory ArtifactProperties
  imports ArtifactPlans RecoveryCorrect
begin

text \<open>
  What the artifact documents of \<open>Artifacts\<close> and \<open>ArtifactPlans\<close> guarantee once
  their validators accept them: an accepted sequence manifest is identified by its
  \<open>sequence_id\<close> (same adapter, same source files, same calibrations, sensors and coordinate
  frames, whatever the order they are listed in), and an accepted recapture plan assigns every
  requirement exactly one outcome.
\<close>

section \<open>Written forms determine their values\<close>

lemma map_canon_strings [simp]: "map canon (map JStr ss) = map JStr ss" "canon (strings_json ss) = strings_json ss"
  by (simp_all add: strings_json_def)

lemma strings_json_inj [simp]: "strings_json a = strings_json b \<longleftrightarrow> a = b"
  by (auto simp: strings_json_def inj_map_eq_map inj_def)

lemma canon_lookup:
  assumes "canon (JDict a) = canon (JDict b)" and "distinct (map fst a)" and "distinct (map fst b)"
  shows "map_option canon (map_of a k) = map_option canon (map_of b k)"
  using assms by (metis canon_dict json.inject(6) map_of_canon_dict)

lemma adapter_dump_inj: "canon (adapter_dump a) = canon (adapter_dump b) \<Longrightarrow> a = b"
  by (cases a; cases b) (simp add: adapter_dump_def)

lemma source_file_dump_inj: "canon (source_file_dump a) = canon (source_file_dump b) \<Longrightarrow> a = b"
  by (cases a; cases b) (simp add: source_file_dump_def)

lemma calibration_dump_inj: "canon (calibration_dump a) = canon (calibration_dump b) \<Longrightarrow> a = b"
  by (cases a; cases b) (simp add: calibration_dump_def)

lemma datum_name_inj: "datum_name a = datum_name b \<Longrightarrow> a = b"
  by (cases a; cases b) (simp_all add: datum_name_def)

lemma coordinate_dump_inj: "canon (coordinate_dump a) = canon (coordinate_dump b) \<Longrightarrow> a = b"
  by (cases a; cases b) (auto simp: coordinate_dump_def dest: datum_name_inj)

lemma modality_name_inj: "modality_name a = modality_name b \<Longrightarrow> a = b"
  by (cases a; cases b) (simp_all add: modality_name_def)

text \<open>What the identity keeps of a sensor: all but its stream identifier.\<close>

definition sensor_content :: "sensor_descriptor \<Rightarrow> sensor_modality \<times> string \<times> string \<times> string list" where
  "sensor_content s = (sn_modality s, sn_sensor_id s, sn_coordinate_frame s, sn_calibration_ids s)"

lemma sensor_fields_inj:
  "canon (JDict (sensor_fields a)) = canon (JDict (sensor_fields b)) \<Longrightarrow> sensor_content a = sensor_content b"
  by (auto simp: sensor_fields_def sensor_content_def dest: modality_name_inj)

lemma map_dump_mset:
  assumes "map (canon \<circ> f) (sort_key k xs) = map (canon \<circ> f) (sort_key k ys)"
    and "\<And>a b. canon (f a) = canon (f b) \<Longrightarrow> g a = g b"
  shows "mset (map g xs) = mset (map g ys)"
proof -
  have dumps: "map g as = map g bs" if "map (\<lambda>a. canon (f a)) as = map (\<lambda>a. canon (f a)) bs" for as bs
    using that
  proof (induction as arbitrary: bs)
    case (Cons a as)
    then obtain b bs' where bs: "bs = b # bs'" and eq: "canon (f a) = canon (f b)" "map (\<lambda>a. canon (f a)) as = map (\<lambda>a. canon (f a)) bs'"
      by (cases bs) (simp_all del: map_eq_conv)
    show ?case unfolding bs list.map using assms(2) [OF eq(1)] Cons.IH [OF eq(2)] by (rule arg_cong2)
  qed simp
  have "map g (sort_key k xs) = map g (sort_key k ys)" 
    by (rule dumps [OF assms(1) [unfolded comp_def]])
  then have "mset (map g (sort_key k xs)) = mset (map g (sort_key k ys))" by simp
  then show ?thesis by simp
qed

section \<open>Sequence manifests\<close>

lemma identity_payload_ok: "json_ok (sequence_identity_payload m)"
proof -
  have "\<forall>(k, v) \<in> set (timestamp_entries m). json_ok v"
    by (auto simp: timestamp_entries_def timestamp_fields_def split: option.splits)
  then show ?thesis
    by (auto simp: sequence_identity_payload_def adapter_dump_def calibration_dump_def coordinate_dump_def
        sensor_fields_def source_file_dump_def strings_json_def)
qed

lemma identity_payload_content:
  assumes "canon (sequence_identity_payload m) = canon (sequence_identity_payload m')"
  shows "sm_adapter m = sm_adapter m'" and "sm_source_identity_sha256 m = sm_source_identity_sha256 m'"
    and "sm_coordinate_metadata m = sm_coordinate_metadata m'" and "mset (sm_source_files m) = mset (sm_source_files m')"
    and "mset (sm_calibrations m) = mset (sm_calibrations m')"
    and "mset (map sensor_content (sm_sensors m)) = mset (map sensor_content (sm_sensors m'))"
proof -
  note lookup = canon_lookup [OF assms [unfolded sequence_identity_payload_def], simplified]
  have eq: "canon (adapter_dump (sm_adapter m)) = canon (adapter_dump (sm_adapter m'))"
    "map (canon \<circ> calibration_dump) (sort_key ci_calibration_id (sm_calibrations m)) =
     map (canon \<circ> calibration_dump) (sort_key ci_calibration_id (sm_calibrations m'))"
    "canon (coordinate_dump (sm_coordinate_metadata m)) = canon (coordinate_dump (sm_coordinate_metadata m'))"
    "map (canon \<circ> (JDict \<circ> sensor_fields)) (sort_key sensor_order (sm_sensors m)) =
     map (canon \<circ> (JDict \<circ> sensor_fields)) (sort_key sensor_order (sm_sensors m'))"
    "map (canon \<circ> source_file_dump) (sort_key sf_source_key (sm_source_files m)) =
     map (canon \<circ> source_file_dump) (sort_key sf_source_key (sm_source_files m'))"
    "sm_source_identity_sha256 m = sm_source_identity_sha256 m'"
    using lookup [of "''adapter''"] lookup [of "''calibrations''"] lookup [of "''coordinate_metadata''"]
      lookup [of "''sensors''"] lookup [of "''source_files''"] lookup [of "''source_identity_sha256''"]
    by (simp_all add: comp_assoc del: map_eq_conv)
  show "sm_adapter m = sm_adapter m'" by (rule adapter_dump_inj [OF eq(1)])
  show "sm_source_identity_sha256 m = sm_source_identity_sha256 m'" by (rule eq(6))
  show "sm_coordinate_metadata m = sm_coordinate_metadata m'" by (rule coordinate_dump_inj [OF eq(3)])
  show "mset (sm_source_files m) = mset (sm_source_files m')"
    by (rule map_dump_mset [OF eq(5), of id, simplified]) (rule source_file_dump_inj)
  show "mset (sm_calibrations m) = mset (sm_calibrations m')"
    by (rule map_dump_mset [OF eq(2), of id, simplified]) (rule calibration_dump_inj)
  show "mset (map sensor_content (sm_sensors m)) = mset (map sensor_content (sm_sensors m'))"
    by (rule map_dump_mset [OF eq(4)]) (rule sensor_fields_inj, simp only: o_apply)
qed

lemma manifest_id:
  assumes "check_sequence_manifest sha repr m = Inr ()"
  shows "make_sequence_id sha (sequence_identity_payload m) = Inr (sm_sequence_id m)"
  using assms by (auto simp: check_sequence_manifest_def validate_identity_and_references_def Let_def)

text \<open>C37: A sequence identifier identifies a capture: two accepted manifests with the same identifier have
  the same adapter, source identity and coordinate frames, and the same source files, calibrations and
  sensors, each listed any number of times and in any order alike; the only other possibility is that
  the canonical texts of the two identity payloads differ and have the same digest.\<close>

theorem sequence_id_identifies_capture:
  assumes "check_sequence_manifest sha repr m = Inr ()" and "check_sequence_manifest sha repr m' = Inr ()"
    and "sm_sequence_id m = sm_sequence_id m'"
  shows "sm_adapter m = sm_adapter m' \<and> sm_source_identity_sha256 m = sm_source_identity_sha256 m' \<and>
     sm_coordinate_metadata m = sm_coordinate_metadata m' \<and> mset (sm_source_files m) = mset (sm_source_files m') \<and>
     mset (sm_calibrations m) = mset (sm_calibrations m') \<and>
     mset (map sensor_content (sm_sensors m)) = mset (map sensor_content (sm_sensors m')) \<or>
     dumps (sequence_identity_payload m) \<noteq> dumps (sequence_identity_payload m') \<and>
     sha (dumps (sequence_identity_payload m)) = sha (dumps (sequence_identity_payload m'))"
proof -
  let ?p = "sequence_identity_payload m" and ?q = "sequence_identity_payload m'"
  have "sha (dumps ?p) = sha (dumps ?q)"
    using manifest_id [OF assms(1)] manifest_id [OF assms(2)] assms(3) by (simp add: make_sequence_id_def make_identifier_eq)
  moreover have "canon ?p = canon ?q" if "dumps ?p = dumps ?q"
    by (rule json_dumps_inj [OF identity_payload_ok identity_payload_ok that])
  ultimately show ?thesis using identity_payload_content by blast
qed

text \<open>Two listings of the same source files.\<close>

definition sample_manifest :: "string \<Rightarrow> source_file list \<Rightarrow> sequence_manifest" where
  "sample_manifest i files = \<lparr>sm_sequence_id = i, sm_source_identity_sha256 = sha256_hexdigest ''s'',
     sm_source_group_id = ''g'', sm_partition = DEVELOPMENT,
     sm_adapter = \<lparr>ai_adapter_id = ''a'', ai_adapter_version = ''0.1.0'', ai_capabilities = []\<rparr>,
     sm_sensors = [], sm_source_files = files, sm_calibrations = [], sm_timestamp_metadata = [],
     sm_coordinate_metadata = \<lparr>co_local_frame = ''l'', co_rig_frame = ''r'', co_vertical_datum = WGS84_ELLIPSOID\<rparr>,
     sm_declared_gaps = []\<rparr>"

definition file_a :: source_file where
  "file_a = \<lparr>sf_source_key = ''a'', sf_sha256 = sha256_hexdigest ''a'', sf_byte_count = 1\<rparr>"

definition file_b :: source_file where
  "file_b = \<lparr>sf_source_key = ''b'', sf_sha256 = sha256_hexdigest ''b'', sf_byte_count = 2\<rparr>"

lemma artifact_keys [simp]:
  "lower ''adapter_id'' \<notin> set FORBIDDEN_PORTABLE_KEYS" "lower ''adapter_version'' \<notin> set FORBIDDEN_PORTABLE_KEYS"
  "lower ''capabilities'' \<notin> set FORBIDDEN_PORTABLE_KEYS" "lower ''source_key'' \<notin> set FORBIDDEN_PORTABLE_KEYS"
  "lower ''global_frame'' \<notin> set FORBIDDEN_PORTABLE_KEYS" "lower ''local_frame'' \<notin> set FORBIDDEN_PORTABLE_KEYS"
  "lower ''rig_frame'' \<notin> set FORBIDDEN_PORTABLE_KEYS" "lower ''vertical_datum'' \<notin> set FORBIDDEN_PORTABLE_KEYS"
  "lower ''source_identity_sha256'' \<notin> set FORBIDDEN_PORTABLE_KEYS" "lower ''source_group_id'' \<notin> set FORBIDDEN_PORTABLE_KEYS"
  "lower ''partition'' \<notin> set FORBIDDEN_PORTABLE_KEYS" "lower ''sensors'' \<notin> set FORBIDDEN_PORTABLE_KEYS"
  "lower ''source_files'' \<notin> set FORBIDDEN_PORTABLE_KEYS" "lower ''calibrations'' \<notin> set FORBIDDEN_PORTABLE_KEYS"
  "lower ''timestamp_metadata'' \<notin> set FORBIDDEN_PORTABLE_KEYS" "lower ''coordinate_metadata'' \<notin> set FORBIDDEN_PORTABLE_KEYS"
  "lower ''declared_gaps'' \<notin> set FORBIDDEN_PORTABLE_KEYS"
  by (simp_all add: lower_def lower_char_def FORBIDDEN_PORTABLE_KEYS_def)

lemma sample_texts [simp]:
  "\<not> path_leak ''a''" "\<not> path_leak ''b''" "\<not> path_leak ''g''" "\<not> path_leak ''l''" "\<not> path_leak ''r''"
  "\<not> path_leak ''0.1.0''" "\<not> path_leak ''WGS84''" "\<not> path_leak ''WGS84_ELLIPSOID''" "\<not> path_leak ''development''"
  "\<not> path_leak ''cartosentry.sequence-manifest.v1''"
  by (rule plain_text_portable; simp)+

lemma sample_payload:
  "sequence_identity_payload (sample_manifest i [file_a, file_b]) = sequence_identity_payload (sample_manifest j [file_b, file_a])"
  by (simp add: sequence_identity_payload_def sample_manifest_def timestamp_entries_def file_a_def file_b_def)

lemma sample_manifest_accepted:
  assumes "set files = {file_a, file_b}" and "distinct files"
    and "i = ''sequence-sha256-'' @ sha256_hexdigest (dumps (sequence_identity_payload (sample_manifest [] files)))"
  shows "check_sequence_manifest sha256_hexdigest repr (sample_manifest i files) = Inr ()"
proof -
  let ?m = "sample_manifest i files"
  have files: "\<forall>f \<in> set files. portable (source_file_dump f) \<and> is_sha256 (sf_sha256 f) \<and> sf_source_key f \<noteq> []"
    unfolding assms(1) by (simp add: file_a_def file_b_def source_file_dump_def sha256.sha_hex)
  have keys: "distinct (map sf_source_key files)"
    using assms(1,2) by (auto simp: distinct_map file_a_def file_b_def)
  have p: "sequence_identity_payload ?m = sequence_identity_payload (sample_manifest [] files)"
    by (simp add: sample_manifest_def sequence_identity_payload_def timestamp_entries_def)
  have portable: "portable (sequence_identity_payload ?m)"
    using files by (simp add: sequence_identity_payload_def sample_manifest_def timestamp_entries_def adapter_dump_def
        coordinate_dump_def datum_name_def strings_json_def sha256.sha_hex)
  have finite: "json_finite (sequence_identity_payload ?m)"
    by (simp add: sequence_identity_payload_def sample_manifest_def timestamp_entries_def adapter_dump_def
        coordinate_dump_def strings_json_def source_file_dump_def list_all_iff)
  have id: "make_sequence_id sha256_hexdigest (sequence_identity_payload ?m) = Inr i"
    using portable finite assms(3) unfolding make_sequence_id_def make_identifier_eq p by simp
  have i: "is_stable_id i" unfolding assms(3) by (rule demo_stable_ids)
  have document: "portable (manifest_document_dump repr ?m)"
    using files stable_id_portable [OF i]
    by (simp add: manifest_document_dump_def sample_manifest_def adapter_dump_def partition_name_def
        coordinate_dump_def datum_name_def strings_json_def sha256.sha_hex)
  have ok: "manifest_fields_ok ?m"
    using i files by (simp add: manifest_fields_ok_def sample_manifest_def sha256.sha_hex is_identifier_def is_frame_id_def
        is_alnum_def is_lower_def list_all_iff)
  show ?thesis
    using ok document id keys
    by (simp add: check_sequence_manifest_def check_each_def assert_portable_ok validate_identity_and_references_def Let_def)
      (simp add: sample_manifest_def)
qed

lemma sequence_id_identifies_capture_witness:
  "\<exists>i. check_sequence_manifest sha256_hexdigest (\<lambda>_. ''0.0'') (sample_manifest i [file_a, file_b]) = Inr () \<and>
     check_sequence_manifest sha256_hexdigest (\<lambda>_. ''0.0'') (sample_manifest i [file_b, file_a]) = Inr () \<and>
     mset (sm_source_files (sample_manifest i [file_a, file_b])) = mset (sm_source_files (sample_manifest i [file_b, file_a]))"
proof -
  let ?i = "''sequence-sha256-'' @ sha256_hexdigest (dumps (sequence_identity_payload (sample_manifest [] [file_a, file_b])))"
  have d: "file_a \<noteq> file_b" by (simp add: file_a_def file_b_def)
  have a: "check_sequence_manifest sha256_hexdigest (\<lambda>_. ''0.0'') (sample_manifest ?i [file_a, file_b]) = Inr ()"
    by (rule sample_manifest_accepted) (use d in simp_all)
  have b: "check_sequence_manifest sha256_hexdigest (\<lambda>_. ''0.0'') (sample_manifest ?i [file_b, file_a]) = Inr ()"
    by (rule sample_manifest_accepted) (use d in \<open>auto simp: sample_payload [of "[]" "[]", symmetric] simp del: dumps.simps\<close>)
  have "sm_sequence_id (sample_manifest ?i [file_a, file_b]) = sm_sequence_id (sample_manifest ?i [file_b, file_a])"
    by (simp add: sample_manifest_def)
  from sequence_id_identifies_capture [OF a b this]
  have "mset (sm_source_files (sample_manifest ?i [file_a, file_b])) = mset (sm_source_files (sample_manifest ?i [file_b, file_a]))"
    unfolding sample_payload [of ?i ?i] by blast
  then show ?thesis using a b by blast
qed

section \<open>Recapture plans\<close>

text \<open>C38: An accepted recapture plan decides every requirement exactly once: when its requirement
  identifiers are distinct, the three outcome lists name as many requirements as the plan has, a
  requirement that cannot be reached is listed as unreachable and nowhere else, and every other one is
  either covered or deferred, not both.\<close>

theorem plan_decides_each_requirement:
  assumes "check_recapture_plan sha repr p = Inr ()" and "distinct (map rc_requirement_id (pn_requirements p))"
  shows "length (pn_covered_requirement_ids p) + length (pn_deferred_requirement_ids p) +
       length (pn_unreachable_requirement_ids p) = length (pn_requirements p) \<and>
     list_all (\<lambda>r. let i = rc_requirement_id r; covered = i \<in> set (pn_covered_requirement_ids p);
           deferred = i \<in> set (pn_deferred_requirement_ids p); unreachable = i \<in> set (pn_unreachable_requirement_ids p)
         in if rc_reachability r = UNREACHABLE then unreachable \<and> \<not> covered \<and> \<not> deferred
            else \<not> unreachable \<and> (covered \<noteq> deferred)) (pn_requirements p)"
proof -
  let ?all = "pn_covered_requirement_ids p @ pn_deferred_requirement_ids p @ pn_unreachable_requirement_ids p"
  have all: "distinct ?all" "set ?all = set (map rc_requirement_id (pn_requirements p))"
    and unreachable: "set (pn_unreachable_requirement_ids p) =
      set (map rc_requirement_id (filter (\<lambda>r. rc_reachability r = UNREACHABLE) (pn_requirements p)))"
    using assms(1) by (auto simp: check_recapture_plan_def validate_plan_identity_and_partition_def Let_def)
  have "length ?all = length (map rc_requirement_id (pn_requirements p))"
    by (metis all assms(2) distinct_card)
  moreover have "rc_requirement_id r \<in> set (pn_unreachable_requirement_ids p) \<longleftrightarrow> rc_reachability r = UNREACHABLE"
    if "r \<in> set (pn_requirements p)" for r
    unfolding unreachable using that assms(2) by (auto simp: distinct_map inj_on_def)
  ultimately show ?thesis
    using all by (auto simp: list_all_iff Let_def)
qed


text \<open>A plan for two requirements, one of which cannot be reached.\<close>

definition sample_requirement :: "string \<Rightarrow> reachability \<Rightarrow> recapture_requirement" where
  "sample_requirement i r = \<lparr>rc_requirement_id = i, rc_road_bin_id = ''road-graph-sha256-'' @ sha256_hexdigest ''b'',
     rc_directed_arc_id = ''a'', rc_start_offset_m = 0, rc_end_offset_m = 1, rc_required_modality = LIDAR,
     rc_forward = True, rc_minimum_continuous_observation_m = 1, rc_sensor_warmup_m = 0, rc_priority_weight = 1,
     rc_reason = ''r'', rc_reachability = r\<rparr>"

definition sample_plan :: "string \<Rightarrow> string \<Rightarrow> string \<Rightarrow> recapture_plan" where
  "sample_plan i near far = \<lparr>pn_recapture_plan_id = i, pn_run_id = ''run-sha256-'' @ sha256_hexdigest ''r'',
     pn_road_graph_id = ''road-graph-sha256-'' @ sha256_hexdigest ''g'', pn_depot_node_id = ''a'',
     pn_requirements = [sample_requirement near REACHABLE, sample_requirement far UNREACHABLE], pn_route_arc_ids = [''a''],
     pn_covered_requirement_ids = [near], pn_deferred_requirement_ids = [], pn_unreachable_requirement_ids = [far],
     pn_estimated_distance_m = 1, pn_estimated_duration_ns = 1, pn_budget = None, pn_validation_state = PASS\<rparr>"

lemma plan_keys [simp]:
  "lower ''requirement_id'' \<notin> set FORBIDDEN_PORTABLE_KEYS" "lower ''road_bin_id'' \<notin> set FORBIDDEN_PORTABLE_KEYS"
  "lower ''directed_arc_id'' \<notin> set FORBIDDEN_PORTABLE_KEYS" "lower ''start_offset_m'' \<notin> set FORBIDDEN_PORTABLE_KEYS"
  "lower ''end_offset_m'' \<notin> set FORBIDDEN_PORTABLE_KEYS" "lower ''required_modality'' \<notin> set FORBIDDEN_PORTABLE_KEYS"
  "lower ''traversal_direction'' \<notin> set FORBIDDEN_PORTABLE_KEYS"
  "lower ''minimum_continuous_observation_m'' \<notin> set FORBIDDEN_PORTABLE_KEYS"
  "lower ''sensor_warmup_m'' \<notin> set FORBIDDEN_PORTABLE_KEYS" "lower ''priority_weight'' \<notin> set FORBIDDEN_PORTABLE_KEYS"
  "lower ''reason'' \<notin> set FORBIDDEN_PORTABLE_KEYS" "lower ''reachability'' \<notin> set FORBIDDEN_PORTABLE_KEYS"
  "lower ''budget'' \<notin> set FORBIDDEN_PORTABLE_KEYS" "lower ''depot_node_id'' \<notin> set FORBIDDEN_PORTABLE_KEYS"
  "lower ''requirements'' \<notin> set FORBIDDEN_PORTABLE_KEYS" "lower ''road_graph_id'' \<notin> set FORBIDDEN_PORTABLE_KEYS"
  "lower ''route_arc_ids'' \<notin> set FORBIDDEN_PORTABLE_KEYS" "lower ''run_id'' \<notin> set FORBIDDEN_PORTABLE_KEYS"
  "lower ''recapture_plan_id'' \<notin> set FORBIDDEN_PORTABLE_KEYS" "lower ''covered_requirement_ids'' \<notin> set FORBIDDEN_PORTABLE_KEYS"
  "lower ''deferred_requirement_ids'' \<notin> set FORBIDDEN_PORTABLE_KEYS"
  "lower ''unreachable_requirement_ids'' \<notin> set FORBIDDEN_PORTABLE_KEYS"
  "lower ''estimated_distance_m'' \<notin> set FORBIDDEN_PORTABLE_KEYS" "lower ''estimated_duration_ns'' \<notin> set FORBIDDEN_PORTABLE_KEYS"
  "lower ''validation_state'' \<notin> set FORBIDDEN_PORTABLE_KEYS"
  by (simp_all add: lower_def lower_char_def FORBIDDEN_PORTABLE_KEYS_def)

lemma plan_texts [simp]:
  "\<not> path_leak ''lidar''" "\<not> path_leak ''FORWARD''" "\<not> path_leak ''REACHABLE''" "\<not> path_leak ''UNREACHABLE''"
  "\<not> path_leak ''PASS''" "\<not> path_leak ''cartosentry.recapture-plan.v1''"
  by (rule plain_text_portable; simp)+

lemma sample_plan_accepted:
  assumes "is_stable_id near" and "is_stable_id far" and "near \<noteq> far"
    and "i = ''recapture-plan-sha256-'' @ sha256_hexdigest (dumps (plan_identity_payload (\<lambda>_. ''1.0'') (sample_plan [] near far)))"
  shows "check_recapture_plan sha256_hexdigest (\<lambda>_. ''1.0'') (sample_plan i near far) = Inr ()"
proof -
  let ?p = "sample_plan i near far" and ?repr = "\<lambda>_. ''1.0''"
  note stable = demo_stable_ids [THEN stable_id_portable] assms(1,2) [THEN stable_id_portable]
  have p: "plan_identity_payload ?repr ?p = plan_identity_payload ?repr (sample_plan [] near far)"
    by (simp add: sample_plan_def plan_identity_payload_def plan_budget_dump_def)
  have requirement: "portable (requirement_dump ?repr (sample_requirement j r)) \<and> json_finite (requirement_dump ?repr (sample_requirement j r))"
    if "\<not> path_leak j" for j r
    using that stable by (cases r) (simp_all add: requirement_dump_def sample_requirement_def modality_name_def reachability_name_def
      plain_text_portable)
  have portable: "portable (plan_identity_payload ?repr ?p)" and finite: "json_finite (plan_identity_payload ?repr ?p)"
    using requirement stable
    by (simp_all add: plan_identity_payload_def sample_plan_def plan_budget_dump_def strings_json_def)
  have id: "make_recapture_plan_id sha256_hexdigest (plan_identity_payload ?repr ?p) = Inr i"
    using portable finite assms(4) unfolding make_recapture_plan_id_def make_identifier_eq p by simp
  have i: "is_stable_id i"
    unfolding assms(4) using stable_id_shape [OF sha256.sha_hex, of "''recapture-plan''"] by (simp add: is_lower_def)
  have document: "portable (plan_dump ?repr ?p)"
    using requirement stable stable_id_portable [OF i]
    by (simp add: plan_dump_def sample_plan_def plan_budget_dump_def strings_json_def readiness_name_def)
  have texts: "is_identifier ''a''" by (simp add: is_identifier_def is_alnum_def is_lower_def)
  show ?thesis
    using id document i assms(1-3) texts
    by (simp add: check_recapture_plan_def check_each_def assert_portable_ok validate_plan_identity_and_partition_def Let_def
        del: set_filter)
      (simp add: sample_plan_def sample_requirement_def check_recapture_requirement_def insert_commute
        demo_stable_ids [simplified])
qed

lemma plan_decides_each_requirement_witness:
  "\<exists>i near far. check_recapture_plan sha256_hexdigest (\<lambda>_. ''1.0'') (sample_plan i near far) = Inr () \<and>
     length (pn_covered_requirement_ids (sample_plan i near far)) = 1 \<and>
     rc_reachability (sample_requirement far UNREACHABLE) = UNREACHABLE"
proof -
  let ?near = "''sequence-sha256-'' @ sha256_hexdigest []" and ?far = "''run-sha256-'' @ sha256_hexdigest []"
  let ?i = "''recapture-plan-sha256-'' @ sha256_hexdigest (dumps (plan_identity_payload (\<lambda>_. ''1.0'') (sample_plan [] ?near ?far)))"
  have ok: "check_recapture_plan sha256_hexdigest (\<lambda>_. ''1.0'') (sample_plan ?i ?near ?far) = Inr ()"
    by (rule sample_plan_accepted [OF demo_stable_ids(1) demo_stable_ids(3)]) simp_all
  have "distinct (map rc_requirement_id (pn_requirements (sample_plan ?i ?near ?far)))"
    by (simp add: sample_plan_def sample_requirement_def)
  from plan_decides_each_requirement [OF ok this] ok show ?thesis
    by (intro exI [of _ ?i] exI [of _ ?near] exI [of _ ?far]) (simp add: sample_plan_def sample_requirement_def)
qed

end
