(* ===== verification/PinnedJson.thy ===== *)
theory PinnedJson
  imports RunModels
begin

text \<open>
  Documents that carry the digest of themselves.  Several modules freeze a JSON document with a
  field \<open>immutable_sha256\<close> that is the SHA-256 of the canonical text of the rest, and load it the
  same way: bounded read, bounded decode, object check, digest check.  Their
  \<open>_canonical_sha256\<close> writes with \<open>json.dumps(payload, sort_keys=True,
  separators=(",", ":"), allow_nan=False)\<close>, whose \<open>ensure_ascii\<close> default escapes every
  character outside the printable ASCII range.  Such characters occur inside string literals only, and
  the key order is the same, so the text is the one of \<open>dumps\<close> with those characters escaped.
\<close>

section \<open>ASCII text\<close>

definition hex4 :: "nat \<Rightarrow> string" where
  "hex4 n = [hex_digit (n div 4096 mod 16), hex_digit (n div 256 mod 16), hex_digit (n div 16 mod 16), hex_digit (n mod 16)]"

definition escape_unit :: "nat \<Rightarrow> string" where
  "escape_unit n = [CHR 0x5C, CHR ''u''] @ hex4 n"

text \<open>One code point, as a surrogate pair above the basic plane.\<close>

definition escape_code :: "nat \<Rightarrow> string" where
  "escape_code n =
     (if n < 65536 then escape_unit n
      else escape_unit (55296 + (n - 65536) div 1024) @ escape_unit (56320 + (n - 65536) mod 1024))"

definition low_bits :: "char \<Rightarrow> nat" where
  "low_bits c = of_char c mod 64"

fun ascii_escape :: "string \<Rightarrow> string" where
  "ascii_escape [] = []"
| "ascii_escape (a # s) =
     (let n = of_char a :: nat in
      if n < 127 then a # ascii_escape s
      else if n < 192 then escape_code n @ ascii_escape s
      else if n < 224 then
        (case s of b # r \<Rightarrow> escape_code ((n - 192) * 64 + low_bits b) @ ascii_escape r | _ \<Rightarrow> [])
      else if n < 240 then
        (case s of b # c # r \<Rightarrow> escape_code (((n - 224) * 64 + low_bits b) * 64 + low_bits c) @ ascii_escape r | _ \<Rightarrow> [])
      else
        (case s of b # c # d # r \<Rightarrow>
            escape_code ((((n - 240) * 64 + low_bits b) * 64 + low_bits c) * 64 + low_bits d) @ ascii_escape r
          | _ \<Rightarrow> []))"

text \<open>A float that was read is written again with its \<open>repr\<close>, which \<open>float_repr\<close> gives for the
  source text.\<close>

fun refloat :: "(string \<Rightarrow> string) \<Rightarrow> json \<Rightarrow> json" where
  "refloat float_repr (JFloat lexeme) = JFloat (float_repr lexeme)"
| "refloat float_repr (JList vs) = JList (map (refloat float_repr) vs)"
| "refloat float_repr (JDict kvs) = JDict (map (\<lambda>(k, v). (k, refloat float_repr v)) kvs)"
| "refloat float_repr v = v"

definition pinned_sha256 :: "(string \<Rightarrow> string) \<Rightarrow> (string \<Rightarrow> string) \<Rightarrow> json \<Rightarrow> string res" where
  "pinned_sha256 sha float_repr payload =
     bindE (json_dumps (refloat float_repr payload)) (\<lambda>text0. Inr (sha (ascii_escape text0)))"

section \<open>Loading\<close>

definition without_key :: "string \<Rightarrow> (string \<times> json) list \<Rightarrow> (string \<times> json) list" where
  "without_key k kvs = filter (\<lambda>(j, _). j \<noteq> k) kvs"

text \<open>\<open>except ManifestBoundaryError as error: raise ValueError(...) from error\<close>\<close>

fun is_boundary_error :: "exn \<Rightarrow> bool" where
  "is_boundary_error (ManifestBoundaryError t) = True"
| "is_boundary_error _ = False"

definition load_bounded_object :: "fs_node \<Rightarrow> nat \<Rightarrow> string \<Rightarrow> ((string \<times> json) list \<times> string) res" where
  "load_bounded_object node maximum_bytes context0 =
     bindE (raise_from is_boundary_error (ValueError (context0 @ '' is unavailable or malformed''))
        (read_bounded_json node maximum_bytes context0)) (\<lambda>(decoded, content).
       case decoded of
         JDict raw \<Rightarrow> Inr (raw, content)
       | _ \<Rightarrow> Inl (ValueError (context0 @ '' must be a JSON object'')))"

definition self_authenticated ::
  "(string \<Rightarrow> string) \<Rightarrow> (string \<Rightarrow> string) \<Rightarrow> string \<Rightarrow> (string \<times> json) list \<Rightarrow> unit res" where
  "self_authenticated sha float_repr context0 raw =
     bindE (pinned_sha256 sha float_repr (JDict (without_key ''immutable_sha256'' raw))) (\<lambda>digest0.
       ensure (map_of raw ''immutable_sha256'' = Some (JStr digest0))
         (ValueError (context0 @ '' immutable hash is invalid'')))"

section \<open>Field readers\<close>

definition as_literal :: "string \<Rightarrow> json \<Rightarrow> string res" where
  "as_literal t = as_text (\<lambda>s. s = t)"

definition as_int_literal :: "int \<Rightarrow> json \<Rightarrow> int res" where
  "as_int_literal i v = (if v = JInt i then Inr i else invalid ''Input should be the literal'')"

definition as_true :: "json \<Rightarrow> bool res" where
  "as_true v = (if v = JBool True then Inr True else invalid ''Input should be True'')"

definition as_bool :: "json \<Rightarrow> bool res" where
  "as_bool v = (case v of JBool b \<Rightarrow> Inr b | _ \<Rightarrow> invalid ''Input should be a valid boolean'')"

definition as_member :: "string list \<Rightarrow> json \<Rightarrow> string res" where
  "as_member names = as_text (\<lambda>s. s \<in> set names)"

section \<open>Correctness\<close>

lemma hex_digit_printable: "d < 16 \<Longrightarrow> 32 \<le> (of_char (hex_digit d) :: nat) \<and> (of_char (hex_digit d) :: nat) < 127"
  by (simp add: hex_digit_def)

definition printable :: "char \<Rightarrow> bool" where
  "printable c \<longleftrightarrow> (of_char c :: nat) < 127"

lemma printable_escape_code: "list_all printable (escape_code n)"
  using hex_digit_printable
  by (auto simp: escape_code_def escape_unit_def hex4_def printable_def)

text \<open>The text that is hashed is pure ASCII, and text that is ASCII already is left alone.\<close>

lemma printableI: "(of_char c :: nat) < 127 \<Longrightarrow> printable c"
  by (simp add: printable_def)

lemma printable_ascii_escape: "list_all printable (ascii_escape s)"
  by (induction s rule: ascii_escape.induct)
    (auto simp: Let_def printable_escape_code intro: printableI split: list.splits)

lemma ascii_escape_id: "list_all printable s \<Longrightarrow> ascii_escape s = s"
  by (induction s) (auto simp: printable_def Let_def)

lemma refloat_id: "(\<And>l. float_repr l = l) \<Longrightarrow> refloat float_repr v = v"
proof (induction v)
  case (JDict kvs)
  then show ?case by (auto intro!: map_idI simp: snds.simps)
qed (auto intro: map_idI)

end
