(* ===== verification/Ingestion.thy ===== *)
theory Ingestion
  imports ArtifactPlans PinnedJson Steps
begin

text \<open>
  \<^verbatim>\<open>python/cartosentry/ingestion.py\<close> over the adapter contract of
  \<^verbatim>\<open>adapters/base.py\<close>: a recording is hashed, described by a sequence manifest and indexed
  frame by frame in a temporary directory, which is renamed to the destination when everything
  succeeded.

  The adapter is an interface (\<open>ReadOnlyAdapter\<close>), so it is a record of what its methods yield: an
  iterator is the list of its items with the exception it ends with, if any, and
  \<open>ad_source_files\<close> is asked twice and may answer differently.  Every operation on the file system
  and on SQLite asks \<open>ie_fault\<close>, by name and time, whether it proceeds, raises, or the process
  dies there.  \<open>sys.getsizeof\<close> is that of 64-bit CPython.
\<close>

section \<open>The adapter contract\<close>

datatype capability_state = AVAILABLE | MISSING_OPTIONAL | UNSUPPORTED | NOT_REQUESTED

record adapter_capability =
  cp_capability_id :: string
  cp_state :: capability_state
  cp_source_key :: "string option"
  cp_detail :: string

record adapter_metadata =
  am_adapter_id :: string
  am_adapter_version :: string
  am_source_sequence_key :: string
  am_source_group_id :: string
  am_capabilities :: "adapter_capability list"

record adapter_sensor =
  an_stream_key :: string
  an_modality :: sensor_modality
  an_sensor_id :: string
  an_coordinate_frame :: string
  an_clock_id :: string
  an_reference :: time_reference
  an_required_calibration_keys :: "string list"

record adapter_source =
  ao_source_key :: string
  ao_byte_count :: nat
  ao_modified_time_ns :: nat
  ao_device_id :: nat
  ao_file_id :: nat
  ao_required_for_v1 :: bool
  ao_media_type :: string

record calibration_view =
  cv_calibration_key :: string
  cv_source_sha256 :: string
  cv_transform :: rigid_transform

record source_provenance =
  pv_source_key :: string
  pv_record_index :: nat

text \<open>Of a trajectory or lidar pose sample the index uses the time and the provenance.\<close>

record timed_sample =
  ts_time :: time_point
  ts_provenance :: source_provenance

record frame_payload =
  fp_source_key :: string
  fp_byte_count :: nat
  fp_record_count :: nat

record lidar_frame =
  lf_stream_key :: string
  lf_source_frame_key :: string
  lf_times :: frame_times
  lf_payload :: frame_payload

type_synonym 'a iteration = "'a list \<times> exn option"

record adapter =
  ad_sequence_metadata :: "adapter_metadata res"
  ad_sensors :: "adapter_sensor list res"
  ad_calibrations :: "calibration_view iteration"
  ad_pose_samples :: "timed_sample iteration"
  ad_lidar_pose_samples :: "timed_sample iteration"
  ad_frames :: "lidar_frame iteration"
  ad_source_files :: "bool \<Rightarrow> adapter_source iteration"
  ad_source_chunks :: "adapter_source \<Rightarrow> nat \<Rightarrow> string iteration"

text \<open>\<open>tuple(iterator)\<close>.\<close>

definition exhaust :: "'a iteration \<Rightarrow> 'a list res" where
  "exhaust it = (case snd it of None \<Rightarrow> Inr (fst it) | Some e \<Rightarrow> Inl e)"

section \<open>Budget, findings and the persisted documents\<close>

record ingestion_budget =
  ib_budget_id :: string
  ib_hash_chunk_bytes :: nat
  ib_index_batch_bytes :: nat
  ib_maximum_source_files :: nat
  ib_maximum_structural_findings :: nat

definition budget_validate :: "json \<Rightarrow> ingestion_budget res" where
  "budget_validate v =
     bindE (as_object [''schema_version'', ''budget_id'', ''hash_chunk_bytes'', ''index_batch_bytes'',
       ''maximum_source_files'', ''maximum_structural_findings''] v) (\<lambda>d.
     bindE (field ''schema_version'' (as_int_literal 1) d) (\<lambda>_.
     bindE (field ''budget_id'' (as_text is_identifier) d) (\<lambda>budget_id.
     bindE (field ''hash_chunk_bytes'' (as_nat 1) d) (\<lambda>hash_chunk_bytes.
     bindE (field ''index_batch_bytes'' (as_nat 1) d) (\<lambda>index_batch_bytes.
     bindE (field ''maximum_source_files'' (as_nat 1) d) (\<lambda>maximum_source_files.
     bindE (field ''maximum_structural_findings'' (as_nat 1) d) (\<lambda>maximum_structural_findings.
       Inr \<lparr>ib_budget_id = budget_id, ib_hash_chunk_bytes = hash_chunk_bytes, ib_index_batch_bytes = index_batch_bytes,
         ib_maximum_source_files = maximum_source_files,
         ib_maximum_structural_findings = maximum_structural_findings\<rparr>)))))))"

definition parse_ingestion_budget_bytes :: "string \<Rightarrow> ingestion_budget res" where
  "parse_ingestion_budget_bytes content =
     bindE (decode_bounded_json content MAXIMUM_INGESTION_BUDGET_BYTES ''ingestion budget'') budget_validate"

definition load_ingestion_budget :: "(string \<Rightarrow> string) \<Rightarrow> fs_node \<Rightarrow> (ingestion_budget \<times> string) res" where
  "load_ingestion_budget sha node =
     bindE (read_bounded_json node MAXIMUM_INGESTION_BUDGET_BYTES ''ingestion budget'') (\<lambda>(_, content).
     bindE (parse_ingestion_budget_bytes content) (\<lambda>budget. Inr (budget, sha content)))"

datatype structural_code =
    CORRUPT_SOURCE | DUPLICATE_SOURCE_KEY | DUPLICATE_TIMESTAMP | FINDING_LIMIT_EXCEEDED | MISSING_REQUIRED_SOURCE
  | PARSE_ERROR | SOURCE_CHANGED | SOURCE_ORDER_REORDERED | SOURCE_READ_ERROR

definition code_name :: "structural_code \<Rightarrow> string" where
  "code_name c = (case c of
     CORRUPT_SOURCE \<Rightarrow> ''CORRUPT_SOURCE'' | DUPLICATE_SOURCE_KEY \<Rightarrow> ''DUPLICATE_SOURCE_KEY''
   | DUPLICATE_TIMESTAMP \<Rightarrow> ''DUPLICATE_TIMESTAMP'' | FINDING_LIMIT_EXCEEDED \<Rightarrow> ''FINDING_LIMIT_EXCEEDED''
   | MISSING_REQUIRED_SOURCE \<Rightarrow> ''MISSING_REQUIRED_SOURCE'' | PARSE_ERROR \<Rightarrow> ''PARSE_ERROR''
   | SOURCE_CHANGED \<Rightarrow> ''SOURCE_CHANGED'' | SOURCE_ORDER_REORDERED \<Rightarrow> ''SOURCE_ORDER_REORDERED''
   | SOURCE_READ_ERROR \<Rightarrow> ''SOURCE_READ_ERROR'')"

record structural_finding =
  sg_code :: structural_code
  sg_blocking :: bool
  sg_source_key :: "string option"
  sg_stream_key :: "string option"
  sg_record_kind :: "string option"
  sg_record_index :: "nat option"
  sg_timestamp_ns :: "int option"
  sg_detail :: string

definition structural_dump :: "structural_finding \<Rightarrow> json" where
  "structural_dump f = JDict
     [(''code'', JStr (code_name (sg_code f))),
      (''severity'', JStr (if sg_blocking f then ''BLOCKING_ANALYSIS'' else ''INFO'')),
      (''source_key'', option_json (sg_source_key f)), (''stream_key'', option_json (sg_stream_key f)),
      (''record_kind'', option_json (sg_record_kind f)),
      (''record_index'', (case sg_record_index f of None \<Rightarrow> JNull | Some n \<Rightarrow> JInt (int n))),
      (''timestamp_ns'', (case sg_timestamp_ns f of None \<Rightarrow> JNull | Some t \<Rightarrow> JInt t)),
      (''detail'', JStr (sg_detail f))]"

record frame_index_entry =
  fe_stream_id :: string
  fe_frame_id :: string
  fe_source_key :: string
  fe_source_ordinal :: nat
  fe_source_record_index :: "nat option"
  fe_byte_offset :: "nat option"
  fe_byte_count :: "nat option"
  fe_times :: frame_times
  fe_capture_interval_state :: string
  fe_payload_record_count :: "nat option"

definition nat_json :: "nat option \<Rightarrow> json" where
  "nat_json n = (case n of None \<Rightarrow> JNull | Some i \<Rightarrow> JInt (int i))"

definition frame_interval_dump :: "(rat \<Rightarrow> string) \<Rightarrow> frame_interval \<Rightarrow> json" where
  "frame_interval_dump repr i = JDict
     [(''capture_start'', time_point_dump repr (fi_capture_start i)), (''capture_end'', time_point_dump repr (fi_capture_end i))]"

definition corrected_time_dump :: "(rat \<Rightarrow> string) \<Rightarrow> corrected_time \<Rightarrow> json" where
  "corrected_time_dump repr c = JDict
     [(''original'', time_point_dump repr (ct_original c)), (''corrected_value_ns'', JInt (ct_corrected_value_ns c)),
      (''target_epoch'', JStr (epoch_name (ct_target_epoch c))), (''target_clock_id'', JStr (ct_target_clock_id c)),
      (''correction_model_id'', JStr (ct_correction_model_id c)),
      (''correction_model_sha256'', JStr (ct_correction_model_sha256 c)), (''pivot_ns'', JInt (ct_pivot_ns c)),
      (''offset_ns'', JInt (ct_offset_ns c)), (''rate_ppb'', JFloat (repr (ct_rate_ppb c))),
      (''uncertainty_ns'', JInt (ct_uncertainty_ns c)),
      (''applicability'', frame_interval_dump repr (ct_applicability c))]"

definition optional_json :: "('a \<Rightarrow> json) \<Rightarrow> 'a option \<Rightarrow> json" where
  "optional_json f x = (case x of None \<Rightarrow> JNull | Some a \<Rightarrow> f a)"

definition frame_times_dump :: "(rat \<Rightarrow> string) \<Rightarrow> frame_times \<Rightarrow> json" where
  "frame_times_dump repr f = JDict
     [(''capture_start'', optional_json (time_point_dump repr) (ft_capture_start f)),
      (''capture_end'', optional_json (time_point_dump repr) (ft_capture_end f)),
      (''sensor_time'', optional_json (time_point_dump repr) (ft_sensor_time f)),
      (''host_receive_time'', optional_json (time_point_dump repr) (ft_host_receive_time f)),
      (''corrected_sensor_time'', optional_json (corrected_time_dump repr) (ft_corrected_sensor_time f))]"

definition entry_json :: "(rat \<Rightarrow> string) \<Rightarrow> frame_index_entry \<Rightarrow> json" where
  "entry_json repr e = JDict
     [(''schema_version'', JStr ''cartosentry.frame-index-entry.v1''), (''stream_id'', JStr (fe_stream_id e)),
      (''frame_id'', JStr (fe_frame_id e)), (''source_key'', JStr (fe_source_key e)),
      (''source_ordinal'', JInt (int (fe_source_ordinal e))), (''source_record_index'', nat_json (fe_source_record_index e)),
      (''byte_offset'', nat_json (fe_byte_offset e)), (''byte_count'', nat_json (fe_byte_count e)),
      (''times'', frame_times_dump repr (fe_times e)),
      (''capture_interval_state'', JStr (fe_capture_interval_state e)), (''parse_status'', JStr ''PARSED''),
      (''payload_record_count'', nat_json (fe_payload_record_count e))]"

record source_range =
  rn_stream_id :: string
  rn_record_kind :: string
  rn_record_count :: nat
  rn_minimum_time_ns :: int
  rn_maximum_time_ns :: int
  rn_nondecreasing :: bool
  rn_duplicate_timestamp_count :: nat

definition range_dump :: "source_range \<Rightarrow> json" where
  "range_dump r = JDict
     [(''stream_id'', JStr (rn_stream_id r)), (''record_kind'', JStr (rn_record_kind r)),
      (''record_count'', JInt (int (rn_record_count r))), (''minimum_time_ns'', JInt (rn_minimum_time_ns r)),
      (''maximum_time_ns'', JInt (rn_maximum_time_ns r)),
      (''timestamps_nondecreasing_in_source_order'', JBool (rn_nondecreasing r)),
      (''duplicate_timestamp_count'', JInt (int (rn_duplicate_timestamp_count r)))]"

record index_summary =
  is_sequence_id :: string
  is_source_identity_sha256 :: string
  is_manifest_sha256 :: string
  is_index_sha256 :: string
  is_source_file_count :: nat
  is_source_byte_count :: nat
  is_frame_index_entry_count :: nat
  is_source_ranges :: "source_range list"
  is_structural_findings :: "structural_finding list"
  is_budget_id :: string
  is_budget_sha256 :: string
  is_index_memory_budget_bytes :: nat
  is_maximum_retained_index_batch_bytes :: nat
  is_hash_chunk_bytes :: nat

definition check_summary :: "index_summary \<Rightarrow> unit res" where
  "check_summary s =
     ensure (0 < is_source_file_count s \<and> 0 < is_source_byte_count s \<and> 0 < is_frame_index_entry_count s
         \<and> 0 < is_index_memory_budget_bytes s \<and> 0 < is_maximum_retained_index_batch_bytes s \<and> 0 < is_hash_chunk_bytes s)
       (ValueError ''validation error for FrameIndexSummary'')"

definition summary_dump :: "index_summary \<Rightarrow> json" where
  "summary_dump s = JDict
     [(''schema_version'', JStr ''cartosentry.frame-index-summary.v1''), (''sequence_id'', JStr (is_sequence_id s)),
      (''source_identity_sha256'', JStr (is_source_identity_sha256 s)),
      (''manifest_sha256'', JStr (is_manifest_sha256 s)), (''index_sha256'', JStr (is_index_sha256 s)),
      (''source_file_count'', JInt (int (is_source_file_count s))),
      (''source_byte_count'', JInt (int (is_source_byte_count s))),
      (''frame_index_entry_count'', JInt (int (is_frame_index_entry_count s))),
      (''source_ranges'', JList (map range_dump (is_source_ranges s))),
      (''structural_findings'', JList (map structural_dump (is_structural_findings s))),
      (''budget_id'', JStr (is_budget_id s)), (''budget_sha256'', JStr (is_budget_sha256 s)),
      (''index_memory_budget_bytes'', JInt (int (is_index_memory_budget_bytes s))),
      (''maximum_retained_index_batch_bytes'', JInt (int (is_maximum_retained_index_batch_bytes s))),
      (''hash_chunk_bytes'', JInt (int (is_hash_chunk_bytes s)))]"

record completion =
  ic_sequence_id :: string
  ic_source_identity_sha256 :: string
  ic_manifest :: string
  ic_index :: string
  ic_summary :: string

definition completion_dump :: "completion \<Rightarrow> json" where
  "completion_dump c = JDict
     [(''schema_version'', JStr ''cartosentry.ingestion-completion.v1''), (''sequence_id'', JStr (ic_sequence_id c)),
      (''source_identity_sha256'', JStr (ic_source_identity_sha256 c)),
      (''artifacts'', JDict [(''manifest'', JStr (ic_manifest c)), (''index'', JStr (ic_index c)),
         (''summary'', JStr (ic_summary c))])]"

record qualification =
  iq_accepted :: bool
  iq_published :: bool
  iq_sequence_id :: "string option"
  iq_source_identity_sha256 :: "string option"
  iq_source_file_count :: nat
  iq_source_byte_count :: nat
  iq_frame_index_entry_count :: nat
  iq_source_ranges :: "source_range list"
  iq_structural_findings :: "structural_finding list"
  iq_budget_id :: string
  iq_budget_sha256 :: string
  iq_index_memory_budget_bytes :: nat
  iq_maximum_retained_index_batch_bytes :: nat
  iq_artifact_sha256 :: "(string \<times> string) list"

definition failure ::
  "ingestion_budget \<Rightarrow> string \<Rightarrow> structural_finding list \<Rightarrow> nat \<Rightarrow> nat \<Rightarrow> nat \<Rightarrow> source_range list \<Rightarrow> qualification" where
  "failure budget budget_sha256 findings source_file_count source_byte_count maximum_batch_bytes source_ranges =
     \<lparr>iq_accepted = False, iq_published = False, iq_sequence_id = None, iq_source_identity_sha256 = None,
      iq_source_file_count = source_file_count, iq_source_byte_count = source_byte_count,
      iq_frame_index_entry_count = 0, iq_source_ranges = source_ranges, iq_structural_findings = findings,
      iq_budget_id = ib_budget_id budget, iq_budget_sha256 = budget_sha256,
      iq_index_memory_budget_bytes = ib_index_batch_bytes budget,
      iq_maximum_retained_index_batch_bytes = maximum_batch_bytes, iq_artifact_sha256 = []\<rparr>"

section \<open>Ranges and findings\<close>

record range_accumulator =
  ra_stream_id :: string
  ra_record_kind :: string
  ra_count :: nat
  ra_minimum :: "int option"
  ra_maximum :: "int option"
  ra_previous :: "int option"
  ra_nondecreasing :: bool
  ra_duplicates :: nat

definition new_range :: "string \<Rightarrow> string \<Rightarrow> range_accumulator" where
  "new_range stream_id record_kind = \<lparr>ra_stream_id = stream_id, ra_record_kind = record_kind, ra_count = 0,
     ra_minimum = None, ra_maximum = None, ra_previous = None, ra_nondecreasing = True, ra_duplicates = 0\<rparr>"

definition observe :: "range_accumulator \<Rightarrow> int \<Rightarrow> range_accumulator" where
  "observe a timestamp_ns = a\<lparr>ra_count := ra_count a + 1,
     ra_minimum := Some (case ra_minimum a of None \<Rightarrow> timestamp_ns | Some m \<Rightarrow> min m timestamp_ns),
     ra_maximum := Some (case ra_maximum a of None \<Rightarrow> timestamp_ns | Some m \<Rightarrow> max m timestamp_ns),
     ra_nondecreasing := ra_nondecreasing a \<and> \<not> (case ra_previous a of None \<Rightarrow> False | Some p \<Rightarrow> timestamp_ns < p),
     ra_previous := Some timestamp_ns\<rparr>"

definition finish_range :: "range_accumulator \<Rightarrow> source_range res" where
  "finish_range a =
     (case (ra_minimum a, ra_maximum a) of
        (Some low, Some high) \<Rightarrow>
          (if 0 < ra_count a
           then Inr \<lparr>rn_stream_id = ra_stream_id a, rn_record_kind = ra_record_kind a, rn_record_count = ra_count a,
                rn_minimum_time_ns = low, rn_maximum_time_ns = high, rn_nondecreasing = ra_nondecreasing a,
                rn_duplicate_timestamp_count = ra_duplicates a\<rparr>
           else Inl (ValueError ''source range cannot be empty''))
      | _ \<Rightarrow> Inl (ValueError ''source range cannot be empty''))"

record finding_collector =
  fc_maximum :: nat
  fc_findings :: "structural_finding list"
  fc_limit_reported :: bool

definition limit_finding :: structural_finding where
  "limit_finding = \<lparr>sg_code = FINDING_LIMIT_EXCEEDED, sg_blocking = True, sg_source_key = None, sg_stream_key = None,
     sg_record_kind = None, sg_record_index = None, sg_timestamp_ns = None,
     sg_detail = ''The frozen structural-finding limit was exceeded.''\<rparr>"

definition add_finding :: "structural_finding \<Rightarrow> finding_collector \<Rightarrow> finding_collector" where
  "add_finding f c =
     (if length (fc_findings c) < fc_maximum c then c\<lparr>fc_findings := fc_findings c @ [f]\<rparr>
      else if \<not> fc_limit_reported c
      then c\<lparr>fc_findings := (fc_findings c)[length (fc_findings c) - 1 := limit_finding], fc_limit_reported := True\<rparr>
      else c)"

definition finding_key :: "structural_finding \<Rightarrow> string \<times> string \<times> string \<times> string \<times> int \<times> int" where
  "finding_key f = (code_name (sg_code f), (case sg_stream_key f of None \<Rightarrow> [] | Some s \<Rightarrow> s),
     (case sg_record_kind f of None \<Rightarrow> [] | Some s \<Rightarrow> s), (case sg_source_key f of None \<Rightarrow> [] | Some s \<Rightarrow> s),
     (case sg_record_index f of None \<Rightarrow> - 1 | Some n \<Rightarrow> int n),
     (case sg_timestamp_ns f of None \<Rightarrow> - (2 ^ 63) | Some t \<Rightarrow> t))"

definition finding_values :: "finding_collector \<Rightarrow> structural_finding list" where
  "finding_values c = sort_key finding_key (fc_findings c)"

definition has_blocking :: "finding_collector \<Rightarrow> bool" where
  "has_blocking c \<longleftrightarrow> list_ex sg_blocking (fc_findings c)"

definition adapter_failure :: "string \<Rightarrow> int \<Rightarrow> string \<Rightarrow> structural_finding res" where
  "adapter_failure source_key rec field0 =
     bindE (ensure (source_key \<noteq> [] \<and> 0 \<le> rec) (ValueError ''validation error for StructuralFinding'')) (\<lambda>_.
       Inr \<lparr>sg_code = (if field0 = ''record_layout'' then CORRUPT_SOURCE
              else if field0 = ''source_snapshot'' then SOURCE_CHANGED else PARSE_ERROR),
            sg_blocking = True, sg_source_key = Some source_key, sg_stream_key = None, sg_record_kind = None,
            sg_record_index = (if rec = 0 then None else Some (nat rec)), sg_timestamp_ns = None,
            sg_detail = (if field0 = ''record_layout'' then ''The selected source has an invalid record layout.''
              else if field0 = ''source_snapshot'' then ''The selected source changed during immutable indexing.''
              else ''The selected source did not satisfy the adapter contract.'')\<rparr>)"

end
