(* ===== verification/Indexing.thy ===== *)
theory Indexing
  imports Ingestion
begin

text \<open>
  The operations of \<^verbatim>\<open>python/cartosentry/ingestion.py\<close>: hashing the sources, building the
  manifest, the bounded index writer, the scan of the samples and frames, and
  \<open>index_recording\<close>, which composes them and publishes the result by one rename.  They are steps on
  a \<open>staging\<close> state: the destination and the temporary directory (file names with their contents),
  the findings, the rows of the timestamp table and the writer.
\<close>

section \<open>State and effects\<close>

record index_writer =
  wr_stream :: string
  wr_hashed :: string
  wr_byte_budget :: nat
  wr_buffer :: "string list"
  wr_allocated :: nat
  wr_maximum_buffer_bytes :: nat
  wr_entry_count :: nat

record staging =
  sg_output :: "(string \<times> string) list option"
  sg_temporary :: "(string \<times> string) list option"
  sg_collector :: finding_collector
  sg_seen :: "(string \<times> string \<times> int) list"
  sg_writer :: "index_writer option"
  sg_clock :: nat

datatype io_step =
    MAKE_PARENT | MAKE_TEMPORARY | WRITE_MANIFEST | OPEN_DATABASE | OPEN_INDEX | INSERT_TIMESTAMP | WRITE_INDEX
  | COMMIT_DATABASE | FINISH_INDEX | CLOSE_DATABASE | WRITE_SUMMARY | WRITE_COMPLETION | SYNC_TEMPORARY | REPLACE
  | SYNC_PARENT | CLOSE_INDEX | REMOVE_TEMPORARY

datatype io_result = Proceed | Fail exn | Die

record ingestion_env =
  ie_sha :: "string \<Rightarrow> string"
  ie_repr :: "rat \<Rightarrow> string"
  ie_native :: "string \<Rightarrow> string \<Rightarrow> string res"
  ie_model :: "artifact_kind \<Rightarrow> json \<Rightarrow> json res"
  ie_fault :: "io_step \<Rightarrow> nat \<Rightarrow> io_result"

type_synonym 'a ingest = "(staging, 'a) step"

definition io :: "ingestion_env \<Rightarrow> io_step \<Rightarrow> unit ingest" where
  "io env k w =
     (let w' = w\<lparr>sg_clock := sg_clock w + 1\<rparr> in
      case ie_fault env k (sg_clock w) of Proceed \<Rightarrow> (Done (), w') | Fail e \<Rightarrow> (Raised e, w') | Die \<Rightarrow> (Killed, w'))"

definition change :: "(staging \<Rightarrow> staging) \<Rightarrow> unit ingest" where
  "change f = modifyS (\<lambda>w. Inr (f w, ()))"

definition inspect :: "(staging \<Rightarrow> 'a) \<Rightarrow> 'a ingest" where
  "inspect f = liftS (\<lambda>w. Inr (f w))"

definition pure :: "'a res \<Rightarrow> 'a ingest" where
  "pure r = liftS (\<lambda>_. r)"

definition report_finding :: "structural_finding \<Rightarrow> unit ingest" where
  "report_finding f = change (\<lambda>w. w\<lparr>sg_collector := add_finding f (sg_collector w)\<rparr>)"

text \<open>\<open>with path.open("wb") as stream: ...\<close> of a whole file in the temporary directory.\<close>

definition write_file :: "ingestion_env \<Rightarrow> io_step \<Rightarrow> string \<Rightarrow> string \<Rightarrow> unit ingest" where
  "write_file env k name content =
     bindS (io env k) (\<lambda>_. change (\<lambda>w. w\<lparr>sg_temporary := map_option (\<lambda>files. files @ [(name, content)]) (sg_temporary w)\<rparr>))"

text \<open>\<open>try: m except ...: k\<close> where \<open>h\<close> chooses the handler, and \<open>try: m finally: h\<close>.\<close>

definition handle :: "(exn \<Rightarrow> ('s, 'a) step option) \<Rightarrow> ('s, 'a) step \<Rightarrow> ('s, 'a) step" where
  "handle h m w =
     (case m w of
        (Raised e, w') \<Rightarrow> (case h e of None \<Rightarrow> (Raised e, w') | Some k \<Rightarrow> k w')
      | r \<Rightarrow> r)"

definition finally_do :: "('s, 'a) step \<Rightarrow> ('s, unit) step \<Rightarrow> ('s, 'a) step" where
  "finally_do m h w =
     (case m w of
        (Killed, w') \<Rightarrow> (Killed, w')
      | (r, w') \<Rightarrow>
          (case h w' of
             (Done _, w'') \<Rightarrow> (r, w'')
           | (Raised e, w'') \<Rightarrow> (Raised e, w'')
           | (Killed, w'') \<Rightarrow> (Killed, w'')))"

text \<open>\<open>for x in iterator: acc = f(x, acc)\<close>.\<close>

definition for_each :: "'x iteration \<Rightarrow> ('x \<Rightarrow> 'a \<Rightarrow> 'a ingest) \<Rightarrow> 'a \<Rightarrow> 'a ingest" where
  "for_each it f acc = bindS (foldS f (fst it) acc) (\<lambda>acc. case snd it of None \<Rightarrow> ret acc | Some e \<Rightarrow> pure (Inl e))"

section \<open>The index writer\<close>

definition index_json :: "json \<Rightarrow> string res" where
  "index_json v = bindE (assert_portable ''artifact'' v) (\<lambda>_. json_dumps v)"

definition bytes_size :: "string \<Rightarrow> nat" where
  "bytes_size s = 33 + length s"

text \<open>The list object of CPython: 56 bytes and a pointer for each allocated slot; \<open>append\<close> grows the
  allocation when it is full, \<open>pop\<close> shrinks it when it is less than half used, \<open>clear\<close> frees it.\<close>

definition list_resize :: "nat \<Rightarrow> nat \<Rightarrow> nat" where
  "list_resize allocated newsize =
     (if newsize \<le> allocated \<and> allocated div 2 \<le> newsize then allocated
      else if newsize = 0 then 0 else (newsize + newsize div 8 + 6) div 4 * 4)"

definition retained_buffer_bytes :: "index_writer \<Rightarrow> nat" where
  "retained_buffer_bytes b = 56 + 8 * wr_allocated b + sum_list (map bytes_size (wr_buffer b))"

definition push_buffer :: "string \<Rightarrow> index_writer \<Rightarrow> index_writer" where
  "push_buffer s b = b\<lparr>wr_buffer := wr_buffer b @ [s], wr_allocated := list_resize (wr_allocated b) (length (wr_buffer b) + 1)\<rparr>"

definition pop_buffer :: "index_writer \<Rightarrow> index_writer" where
  "pop_buffer b = b\<lparr>wr_buffer := butlast (wr_buffer b), wr_allocated := list_resize (wr_allocated b) (length (wr_buffer b) - 1)\<rparr>"

definition change_writer :: "(index_writer \<Rightarrow> index_writer) \<Rightarrow> unit ingest" where
  "change_writer f = change (\<lambda>w. w\<lparr>sg_writer := map_option f (sg_writer w)\<rparr>)"

definition the_writer :: "index_writer ingest" where
  "the_writer = liftS (\<lambda>w. case sg_writer w of None \<Rightarrow> Inl (RuntimeError ''no writer'') | Some b \<Rightarrow> Inr b)"

definition open_index :: "ingestion_env \<Rightarrow> nat \<Rightarrow> unit ingest" where
  "open_index env byte_budget =
     bindS (io env OPEN_INDEX) (\<lambda>_. change (\<lambda>w. w\<lparr>sg_writer := Some
       \<lparr>wr_stream = [], wr_hashed = [], wr_byte_budget = byte_budget, wr_buffer = [], wr_allocated = 0,
        wr_maximum_buffer_bytes = 0, wr_entry_count = 0\<rparr>\<rparr>))"

definition flush_index :: "ingestion_env \<Rightarrow> unit ingest" where
  "flush_index env =
     bindS the_writer (\<lambda>b.
     bindS (foldS (\<lambda>serialized _. bindS (io env WRITE_INDEX) (\<lambda>_. change_writer (\<lambda>b.
         b\<lparr>wr_stream := wr_stream b @ serialized, wr_hashed := wr_hashed b @ serialized\<rparr>))) (wr_buffer b) ()) (\<lambda>_.
       change_writer (\<lambda>b. b\<lparr>wr_buffer := [], wr_allocated := 0\<rparr>)))"

definition budget_exceeded :: "'a ingest" where
  "budget_exceeded = pure (Inl (ValueError ''one frame-index record exceeds the frozen byte budget''))"

text \<open>The last record is taken back, the others are flushed, and it is appended again.\<close>

definition spill_index :: "ingestion_env \<Rightarrow> string \<Rightarrow> unit ingest" where
  "spill_index env serialized =
     bindS (change_writer pop_buffer) (\<lambda>_. bindS (flush_index env) (\<lambda>_. change_writer (push_buffer serialized)))"

definition count_entry :: "unit ingest" where
  "count_entry =
     bindS the_writer (\<lambda>b.
       if wr_byte_budget b < retained_buffer_bytes b then budget_exceeded
       else change_writer (\<lambda>b. b\<lparr>wr_maximum_buffer_bytes := max (wr_maximum_buffer_bytes b) (retained_buffer_bytes b),
              wr_entry_count := wr_entry_count b + 1\<rparr>))"

definition append_entry :: "ingestion_env \<Rightarrow> frame_index_entry \<Rightarrow> unit ingest" where
  "append_entry env e =
     bindS (pure (index_json (entry_json (ie_repr env) e))) (\<lambda>text.
     let serialized = text @ [CHR 0x0A] in
     bindS the_writer (\<lambda>b.
     if wr_byte_budget b < 56 + bytes_size serialized then budget_exceeded
     else
     bindS (change_writer (push_buffer serialized)) (\<lambda>_.
     bindS the_writer (\<lambda>b.
     bindS (if wr_byte_budget b < retained_buffer_bytes b \<and> 1 < length (wr_buffer b)
            then spill_index env serialized else ret ()) (\<lambda>_.
       count_entry)))))"

definition INDEX_FILE :: string where
  "INDEX_FILE = ''frame-index.jsonl''"

definition finish_index :: "ingestion_env \<Rightarrow> string ingest" where
  "finish_index env =
     bindS (flush_index env) (\<lambda>_.
     bindS the_writer (\<lambda>b.
     bindS (write_file env FINISH_INDEX INDEX_FILE (wr_stream b)) (\<lambda>_. ret (ie_sha env (wr_hashed b)))))"

section \<open>Hashing the sources\<close>

definition source_snapshot_key :: "adapter_source \<Rightarrow> nat \<times> nat \<times> nat \<times> nat" where
  "source_snapshot_key s = (ao_byte_count s, ao_modified_time_ns s, ao_device_id s, ao_file_id s)"

fun read_chunks :: "nat \<Rightarrow> string list \<Rightarrow> exn option \<Rightarrow> string res" where
  "read_chunks chunk_bytes [] e = (case e of None \<Rightarrow> Inr [] | Some e \<Rightarrow> Inl e)"
| "read_chunks chunk_bytes (chunk # chunks) e =
     (if chunk_bytes < length chunk then Inl (ValueError ''adapter exceeded the requested source chunk size'')
      else bindE (read_chunks chunk_bytes chunks e) (\<lambda>content. Inr (chunk @ content)))"

definition hash_source ::
  "(string \<Rightarrow> string) \<Rightarrow> adapter \<Rightarrow> nat \<Rightarrow> adapter_source \<Rightarrow> (source_file \<times> string) res" where
  "hash_source sha ad chunk_bytes source =
     (let it = ad_source_chunks ad source chunk_bytes in
      bindE (read_chunks chunk_bytes (fst it) (snd it)) (\<lambda>content.
        if length content \<noteq> ao_byte_count source
        then Inl (ValueError ''adapter source byte count changed during hashing'')
        else Inr (\<lparr>sf_source_key = ao_source_key source, sf_sha256 = sha content,
                   sf_byte_count = ao_byte_count source\<rparr>, content)))"

definition hash_sources ::
  "(string \<Rightarrow> string) \<Rightarrow> adapter \<Rightarrow> adapter_source list \<Rightarrow> nat \<Rightarrow> (source_file list \<times> string) res" where
  "hash_sources sha ad sources chunk_bytes =
     bindE (mapE (hash_source sha ad chunk_bytes) sources) (\<lambda>hashed.
       Inr (map fst hashed, sha (concat (map snd hashed))))"

section \<open>The manifest\<close>

definition lookup_key :: "(string \<times> 'a) list \<Rightarrow> string \<Rightarrow> 'a res" where
  "lookup_key d k = (case map_of d k of None \<Rightarrow> Inl (KeyError k) | Some x \<Rightarrow> Inr x)"

definition calibration_entry :: "(string \<Rightarrow> string) \<Rightarrow> calibration_view \<Rightarrow> (string \<times> calibration_identity) res" where
  "calibration_entry sha v =
     bindE (make_calibration_id sha (JDict [(''sha256'', JStr (cv_source_sha256 v)),
         (''source_frame'', JStr (rg_source_frame (cv_transform v))),
         (''target_frame'', JStr (rg_target_frame (cv_transform v)))])) (\<lambda>calibration_id.
       Inr (cv_calibration_key v, \<lparr>ci_calibration_id = calibration_id, ci_sha256 = cv_source_sha256 v,
         ci_target_frame = rg_target_frame (cv_transform v), ci_source_frame = rg_source_frame (cv_transform v)\<rparr>))"

definition raw_unit :: "adapter_sensor \<Rightarrow> string" where
  "raw_unit s = (if an_modality s = TRAJECTORY then ''s'' else ''us'')"

definition adapter_sensor_order :: "adapter_sensor \<Rightarrow> string \<times> string" where
  "adapter_sensor_order s = (modality_name (an_modality s), an_sensor_id s)"

text \<open>The descriptors of a sensor once its calibrations and its stream identifier are known.\<close>

definition descriptor :: "adapter_sensor \<times> string list \<Rightarrow> string \<Rightarrow> sensor_descriptor" where
  "descriptor p stream_id = (case p of (s, calibration_ids) \<Rightarrow>
     \<lparr>sn_stream_id = stream_id, sn_modality = an_modality s, sn_sensor_id = an_sensor_id s,
      sn_coordinate_frame = an_coordinate_frame s, sn_calibration_ids = calibration_ids\<rparr>)"

definition stamp :: "adapter_sensor \<Rightarrow> string \<Rightarrow> timestamp_metadata" where
  "stamp s stream_id = \<lparr>tm_stream_id = stream_id, tm_epoch = UNIX_UTC, tm_clock_id = an_clock_id s,
     tm_reference = an_reference s, tm_raw_unit = raw_unit s\<rparr>"

definition sensor_identity :: "adapter_sensor \<times> string list \<Rightarrow> json" where
  "sensor_identity p = (case p of (s, calibration_ids) \<Rightarrow> JDict
     [(''modality'', JStr (modality_name (an_modality s))), (''sensor_id'', JStr (an_sensor_id s)),
      (''coordinate_frame'', JStr (an_coordinate_frame s)), (''calibration_ids'', strings_json calibration_ids)])"

definition timestamp_identity :: "adapter_sensor \<Rightarrow> json" where
  "timestamp_identity s = JDict
     [(''epoch'', JStr ''UNIX_UTC''), (''clock_id'', JStr (an_clock_id s)),
      (''reference'', JStr (reference_name (an_reference s))), (''raw_unit'', JStr (raw_unit s)),
      (''modality'', JStr (modality_name (an_modality s))), (''sensor_id'', JStr (an_sensor_id s))]"

definition manifest_identity ::
  "adapter_identity \<Rightarrow> calibration_identity list \<Rightarrow> coordinate_metadata \<Rightarrow> (adapter_sensor \<times> string list) list \<Rightarrow>
   source_file list \<Rightarrow> string \<Rightarrow> json" where
  "manifest_identity adapter0 calibrations coordinates sensors source_files source_identity = JDict
     [(''adapter'', adapter_dump adapter0), (''calibrations'', JList (map calibration_dump calibrations)),
      (''coordinate_metadata'', coordinate_dump coordinates),
      (''sensors'', JList (map sensor_identity (sort_key (adapter_sensor_order \<circ> fst) sensors))),
      (''source_files'', JList (map source_file_dump source_files)),
      (''source_identity_sha256'', JStr source_identity),
      (''timestamp_metadata'', JList (map timestamp_identity (sort_key adapter_sensor_order (map fst sensors))))]"

definition adapter_identity_of :: "adapter_metadata \<Rightarrow> adapter_identity" where
  "adapter_identity_of m = \<lparr>ai_adapter_id = am_adapter_id m, ai_adapter_version = am_adapter_version m,
     ai_capabilities = sort (map cp_capability_id (filter (\<lambda>c. cp_state c = AVAILABLE) (am_capabilities m)))\<rparr>"

definition boreas_coordinates :: coordinate_metadata where
  "boreas_coordinates = \<lparr>co_local_frame = ''enu_ref'', co_rig_frame = ''applanix'', co_vertical_datum = UNKNOWN_VERTICAL_DATUM\<rparr>"

definition build_manifest ::
  "(string \<Rightarrow> string) \<Rightarrow> (rat \<Rightarrow> string) \<Rightarrow> adapter \<Rightarrow> source_file list \<Rightarrow> string \<Rightarrow>
   (sequence_manifest \<times> (string \<times> string) list) res" where
  "build_manifest sha repr ad source_files source_identity =
     bindE (ad_sequence_metadata ad) (\<lambda>metadata.
     bindE (exhaust (ad_calibrations ad)) (\<lambda>views.
     bindE (mapE (calibration_entry sha) views) (\<lambda>entries.
     let calibration_by_key = rev (map (\<lambda>(k, c). (k, ci_calibration_id c)) entries);
         calibrations = sort_key ci_calibration_id (map snd entries);
         adapter0 = adapter_identity_of metadata in
     bindE (ad_sensors ad) (\<lambda>adapter_sensors.
     bindE (mapE (\<lambda>s. bindE (mapE (lookup_key calibration_by_key) (an_required_calibration_keys s))
         (\<lambda>ids. Inr (s, sort ids))) adapter_sensors) (\<lambda>sensors.
     bindE (make_sequence_id sha
         (manifest_identity adapter0 calibrations boreas_coordinates sensors source_files source_identity)) (\<lambda>sequence_id.
     bindE (mapE (\<lambda>p. bindE (make_stream_id sha sequence_id (modality_name (an_modality (fst p))) (an_sensor_id (fst p)))
         (\<lambda>stream_id. Inr (p, stream_id))) sensors) (\<lambda>streams.
     let manifest =
       \<lparr>sm_sequence_id = sequence_id, sm_source_identity_sha256 = source_identity,
        sm_source_group_id = am_source_group_id metadata, sm_partition = DEVELOPMENT, sm_adapter = adapter0,
        sm_sensors = sort_key sn_stream_id (map (\<lambda>(p, i). descriptor p i) streams), sm_source_files = source_files,
        sm_calibrations = calibrations,
        sm_timestamp_metadata = sort_key tm_stream_id (map (\<lambda>(p, i). stamp (fst p) i) streams),
        sm_coordinate_metadata = boreas_coordinates, sm_declared_gaps = []\<rparr> in
     bindE (check_sequence_manifest sha repr manifest) (\<lambda>_.
       Inr (manifest, rev (map (\<lambda>((s, _), i). (an_stream_key s, i)) streams))))))))))"

section \<open>The scan\<close>

definition entry_times_state :: "frame_times \<Rightarrow> string" where
  "entry_times_state t =
     (if ft_capture_start t \<noteq> None then ''SOURCE_CAPTURE_INTERVAL''
      else if ft_sensor_time t \<noteq> None then ''SENSOR_TIME_ONLY'' else ''UNAVAILABLE'')"

definition canonical_frame_id :: "(string \<Rightarrow> string) \<Rightarrow> (rat \<Rightarrow> string) \<Rightarrow> string \<Rightarrow> lidar_frame \<Rightarrow> string res" where
  "canonical_frame_id sha repr stream_id frame =
     make_frame_id sha stream_id (lf_source_frame_key frame) (JDict [(''times'', frame_times_dump repr (lf_times frame))])"

definition observe_timestamp ::
  "ingestion_env \<Rightarrow> time_point \<Rightarrow> string \<Rightarrow> nat \<Rightarrow> range_accumulator \<Rightarrow> range_accumulator ingest" where
  "observe_timestamp env t source_key record_index a =
     (let a = observe a (tp_value_ns t); row = (ra_record_kind a, ra_stream_id a, tp_value_ns t) in
      bindS (io env INSERT_TIMESTAMP) (\<lambda>_.
      bindS (inspect (\<lambda>w. row \<in> set (sg_seen w))) (\<lambda>duplicate.
        if duplicate then
          bindS (report_finding \<lparr>sg_code = DUPLICATE_TIMESTAMP, sg_blocking = True, sg_source_key = Some source_key,
              sg_stream_key = Some (ra_stream_id a), sg_record_kind = Some (ra_record_kind a),
              sg_record_index = Some record_index, sg_timestamp_ns = Some (tp_value_ns t),
              sg_detail = ''A stream record repeats a canonical timestamp.''\<rparr>)
            (\<lambda>_. ret (a\<lparr>ra_duplicates := ra_duplicates a + 1\<rparr>))
        else bindS (change (\<lambda>w. w\<lparr>sg_seen := sg_seen w @ [row]\<rparr>)) (\<lambda>_. ret a))))"

definition observe_sample :: "ingestion_env \<Rightarrow> timed_sample \<Rightarrow> range_accumulator \<Rightarrow> range_accumulator ingest" where
  "observe_sample env s =
     observe_timestamp env (ts_time s) (pv_source_key (ts_provenance s)) (pv_record_index (ts_provenance s))"

definition frame_entry ::
  "ingestion_env \<Rightarrow> (string \<times> string) list \<Rightarrow> nat \<Rightarrow> lidar_frame \<Rightarrow> frame_index_entry res" where
  "frame_entry env stream_by_key ordinal frame =
     bindE (lookup_key stream_by_key (lf_stream_key frame)) (\<lambda>stream_id.
     bindE (canonical_frame_id (ie_sha env) (ie_repr env) stream_id frame) (\<lambda>frame_id.
       Inr \<lparr>fe_stream_id = stream_id, fe_frame_id = frame_id, fe_source_key = fp_source_key (lf_payload frame),
         fe_source_ordinal = ordinal, fe_source_record_index = None, fe_byte_offset = Some 0,
         fe_byte_count = Some (fp_byte_count (lf_payload frame)), fe_times = lf_times frame,
         fe_capture_interval_state = entry_times_state (lf_times frame),
         fe_payload_record_count = Some (fp_record_count (lf_payload frame))\<rparr>))"

definition index_frame ::
  "ingestion_env \<Rightarrow> (string \<times> string) list \<Rightarrow> nat \<times> lidar_frame \<Rightarrow> range_accumulator \<Rightarrow> range_accumulator ingest" where
  "index_frame env stream_by_key p a =
     (case p of (ordinal, frame) \<Rightarrow>
        (case ft_sensor_time (lf_times frame) of
           None \<Rightarrow> pure (Inl (ValueError ''indexed lidar frame has no sensor timestamp''))
         | Some t \<Rightarrow>
             bindS (observe_timestamp env t (fp_source_key (lf_payload frame)) ordinal a) (\<lambda>a.
             bindS (pure (frame_entry env stream_by_key ordinal frame)) (\<lambda>e.
             bindS (append_entry env e) (\<lambda>_. ret a)))))"

definition reordered_finding :: "range_accumulator \<Rightarrow> structural_finding" where
  "reordered_finding a = \<lparr>sg_code = SOURCE_ORDER_REORDERED, sg_blocking = False, sg_source_key = None,
     sg_stream_key = Some (ra_stream_id a), sg_record_kind = Some (ra_record_kind a), sg_record_index = None,
     sg_timestamp_ns = None,
     sg_detail = ''Source order differs from timestamp order; the index retains explicit timestamps for ordered queries.''\<rparr>"

definition scan_ranges_and_frames ::
  "ingestion_env \<Rightarrow> adapter \<Rightarrow> (string \<times> string) list \<Rightarrow> source_range list ingest" where
  "scan_ranges_and_frames env ad stream_by_key =
     bindS (pure (lookup_key stream_by_key ''trajectory-postprocessed'')) (\<lambda>trajectory_stream.
     bindS (for_each (ad_pose_samples ad) (observe_sample env) (new_range trajectory_stream ''trajectory-sample'')) (\<lambda>trajectory.
     bindS (pure (lookup_key stream_by_key ''lidar-lidar'')) (\<lambda>lidar_stream.
     bindS (for_each (ad_lidar_pose_samples ad) (observe_sample env) (new_range lidar_stream ''lidar-pose-sample'')) (\<lambda>lidar_pose.
     bindS (for_each (enumerate 0 (fst (ad_frames ad)), snd (ad_frames ad)) (index_frame env stream_by_key)
         (new_range lidar_stream ''lidar-frame'')) (\<lambda>lidar_frames.
     let ranges = [trajectory, lidar_pose, lidar_frames] in
     bindS (foldS (\<lambda>a _. if \<not> ra_nondecreasing a then report_finding (reordered_finding a) else ret ()) ranges ()) (\<lambda>_.
       pure (mapE finish_range ranges)))))))"


section \<open>Indexing a recording\<close>

definition MANIFEST_FILE :: string where
  "MANIFEST_FILE = ''sequence-manifest.json''"

definition SUMMARY_FILE :: string where
  "SUMMARY_FILE = ''frame-index-summary.json''"

definition COMPLETION_FILE :: string where
  "COMPLETION_FILE = ''completion.json''"

definition DATABASE_FILE :: string where
  "DATABASE_FILE = ''.timestamp-uniqueness.sqlite3''"

definition sequence_finding :: "structural_code \<Rightarrow> string \<Rightarrow> structural_finding" where
  "sequence_finding code detail = \<lparr>sg_code = code, sg_blocking = True, sg_source_key = Some ''sequence'',
     sg_stream_key = None, sg_record_kind = None, sg_record_index = None, sg_timestamp_ns = None, sg_detail = detail\<rparr>"

definition duplicate_source :: "string \<Rightarrow> structural_finding" where
  "duplicate_source key = \<lparr>sg_code = DUPLICATE_SOURCE_KEY, sg_blocking = True, sg_source_key = Some key,
     sg_stream_key = None, sg_record_kind = None, sg_record_index = None, sg_timestamp_ns = None,
     sg_detail = ''The adapter enumerated a source key more than once.''\<rparr>"

definition report_failure ::
  "ingestion_budget \<Rightarrow> string \<Rightarrow> nat \<Rightarrow> nat \<Rightarrow> nat \<Rightarrow> source_range list \<Rightarrow> qualification ingest" where
  "report_failure budget budget_sha256 files bytes maximum_batch ranges =
     inspect (\<lambda>w. failure budget budget_sha256 (finding_values (sg_collector w)) files bytes maximum_batch ranges)"

text \<open>The enumeration, which stops at the limit of the budget.\<close>

fun enumerate_sources :: "nat \<Rightarrow> adapter_source list \<Rightarrow> adapter_source list \<Rightarrow> exn option \<Rightarrow> adapter_source list ingest" where
  "enumerate_sources limit acc [] e = (case e of None \<Rightarrow> ret acc | Some e \<Rightarrow> pure (Inl e))"
| "enumerate_sources limit acc (source # sources) e =
     (if limit \<le> length acc then
        bindS (report_finding (sequence_finding SOURCE_READ_ERROR ''The source-file count exceeds the frozen ingestion limit.''))
          (\<lambda>_. ret acc)
      else enumerate_sources limit (acc @ [source]) sources e)"

definition report_duplicates :: "adapter_source list \<Rightarrow> unit ingest" where
  "report_duplicates enumerated =
     bindS (foldS (\<lambda>source keys.
         bindS (if ao_source_key source \<in> set keys then report_finding (duplicate_source (ao_source_key source)) else ret ())
           (\<lambda>_. ret (ao_source_key source # keys))) enumerated []) (\<lambda>_. ret ())"

text \<open>\<open>except BoreasAdapterError as error: findings.add(_adapter_failure(error)); return _failure(...)\<close>.\<close>

definition on_adapter_error :: "qualification ingest \<Rightarrow> exn \<Rightarrow> qualification ingest option" where
  "on_adapter_error k e =
     (case e of
        BoreasAdapterError source_key rec field0 \<Rightarrow>
          Some (bindS (pure (adapter_failure source_key rec field0)) (\<lambda>f. bindS (report_finding f) (\<lambda>_. k)))
      | _ \<Rightarrow> None)"

fun is_read_error :: "exn \<Rightarrow> bool" where
  "is_read_error (OSError t) = True"
| "is_read_error (FileExistsError t) = True"
| "is_read_error (SqliteError t) = True"
| "is_read_error (IntegrityError t) = True"
| "is_read_error _ = False"

definition on_read_error :: "qualification ingest \<Rightarrow> exn \<Rightarrow> qualification ingest option" where
  "on_read_error k e =
     (if is_read_error e
      then Some (bindS (report_finding (sequence_finding SOURCE_READ_ERROR
             ''The immutable ingestion pass could not read or stage data.'')) (\<lambda>_. k))
      else None)"

definition writer_maximum :: "staging \<Rightarrow> nat" where
  "writer_maximum w = (case sg_writer w of None \<Rightarrow> 0 | Some b \<Rightarrow> wr_maximum_buffer_bytes b)"

text \<open>\<open>{item.source_key: _source_snapshot_key(item) for item in sources}\<close>, as the set of its items.\<close>

definition snapshot :: "adapter_source list \<Rightarrow> (string \<times> nat \<times> nat \<times> nat \<times> nat) set" where
  "snapshot sources =
     (let d = rev (map (\<lambda>s. (ao_source_key s, source_snapshot_key s)) sources)
      in set (map (\<lambda>k. (k, the (map_of d k))) (map fst d)))"

definition index_database ::
  "ingestion_env \<Rightarrow> adapter \<Rightarrow> (string \<times> string) list \<Rightarrow> nat \<Rightarrow> (source_range list \<times> string) ingest" where
  "index_database env ad stream_by_key byte_budget =
     bindS (write_file env OPEN_DATABASE DATABASE_FILE []) (\<lambda>_.
     finally_do
       (bindS (open_index env byte_budget) (\<lambda>_.
        bindS (scan_ranges_and_frames env ad stream_by_key) (\<lambda>ranges.
        bindS (io env COMMIT_DATABASE) (\<lambda>_.
        bindS (finish_index env) (\<lambda>index_sha256. ret (ranges, index_sha256))))))
       (bindS (io env CLOSE_DATABASE) (\<lambda>_. change (\<lambda>w. w\<lparr>sg_temporary :=
          map_option (filter (\<lambda>(name, _). name \<noteq> DATABASE_FILE)) (sg_temporary w)\<rparr>))))"

definition publish_index :: "ingestion_env \<Rightarrow> unit ingest" where
  "publish_index env =
     bindS (io env SYNC_TEMPORARY) (\<lambda>_.
     bindS (io env REPLACE) (\<lambda>_.
     bindS (change (\<lambda>w. w\<lparr>sg_output := sg_temporary w, sg_temporary := None\<rparr>)) (\<lambda>_.
       io env SYNC_PARENT)))"

definition write_json :: "ingestion_env \<Rightarrow> io_step \<Rightarrow> string \<Rightarrow> json \<Rightarrow> string ingest" where
  "write_json env k name v =
     bindS (pure (index_json v)) (\<lambda>text.
     bindS (write_file env k name (text @ [CHR 0x0A])) (\<lambda>_. ret (ie_sha env (text @ [CHR 0x0A]))))"

text \<open>What follows the index: the summary and the completion record, and the publication.\<close>

definition summary_of ::
  "ingestion_budget \<Rightarrow> string \<Rightarrow> sequence_manifest \<Rightarrow> source_file list \<Rightarrow> string \<Rightarrow> string \<Rightarrow> string \<Rightarrow> source_range list \<Rightarrow>
   structural_finding list \<Rightarrow> index_writer \<Rightarrow> index_summary" where
  "summary_of budget budget_sha256 manifest source_files source_identity manifest_sha256 index_sha256 ranges findings b =
     \<lparr>is_sequence_id = sm_sequence_id manifest, is_source_identity_sha256 = source_identity,
      is_manifest_sha256 = manifest_sha256, is_index_sha256 = index_sha256, is_source_file_count = length source_files,
      is_source_byte_count = sum_list (map sf_byte_count source_files), is_frame_index_entry_count = wr_entry_count b,
      is_source_ranges = ranges, is_structural_findings = findings, is_budget_id = ib_budget_id budget,
      is_budget_sha256 = budget_sha256, is_index_memory_budget_bytes = ib_index_batch_bytes budget,
      is_maximum_retained_index_batch_bytes = wr_maximum_buffer_bytes b, is_hash_chunk_bytes = ib_hash_chunk_bytes budget\<rparr>"

definition success :: "index_summary \<Rightarrow> string \<Rightarrow> string \<Rightarrow> qualification" where
  "success s summary_sha256 completion_sha256 =
     \<lparr>iq_accepted = True, iq_published = True, iq_sequence_id = Some (is_sequence_id s),
      iq_source_identity_sha256 = Some (is_source_identity_sha256 s), iq_source_file_count = is_source_file_count s,
      iq_source_byte_count = is_source_byte_count s, iq_frame_index_entry_count = is_frame_index_entry_count s,
      iq_source_ranges = is_source_ranges s, iq_structural_findings = is_structural_findings s,
      iq_budget_id = is_budget_id s, iq_budget_sha256 = is_budget_sha256 s,
      iq_index_memory_budget_bytes = is_index_memory_budget_bytes s,
      iq_maximum_retained_index_batch_bytes = is_maximum_retained_index_batch_bytes s,
      iq_artifact_sha256 = [(''completion'', completion_sha256), (''index'', is_index_sha256 s),
        (''manifest'', is_manifest_sha256 s), (''summary'', summary_sha256)]\<rparr>"

definition completion_of :: "index_summary \<Rightarrow> string \<Rightarrow> completion" where
  "completion_of s summary_sha256 =
     \<lparr>ic_sequence_id = is_sequence_id s, ic_source_identity_sha256 = is_source_identity_sha256 s,
      ic_manifest = is_manifest_sha256 s, ic_index = is_index_sha256 s, ic_summary = summary_sha256\<rparr>"

definition publish_summary :: "ingestion_env \<Rightarrow> index_summary \<Rightarrow> qualification ingest" where
  "publish_summary env summary =
     bindS (pure (check_summary summary)) (\<lambda>_.
     bindS (write_json env WRITE_SUMMARY SUMMARY_FILE (summary_dump summary)) (\<lambda>summary_sha256.
     bindS (write_json env WRITE_COMPLETION COMPLETION_FILE (completion_dump (completion_of summary summary_sha256)))
       (\<lambda>completion_sha256.
     bindS (publish_index env) (\<lambda>_. ret (success summary summary_sha256 completion_sha256)))))"

text \<open>The second enumeration of the sources.\<close>

definition compare_sources :: "adapter \<Rightarrow> adapter_source list \<Rightarrow> unit ingest" where
  "compare_sources ad sources =
     bindS (pure (exhaust (ad_source_files ad True))) (\<lambda>latest.
       if snapshot latest \<noteq> snapshot sources
       then report_finding (sequence_finding SOURCE_CHANGED ''One or more sources changed during immutable indexing.'')
       else ret ())"

definition conclude_recording ::
  "ingestion_env \<Rightarrow> ingestion_budget \<Rightarrow> string \<Rightarrow> adapter_source list \<Rightarrow> sequence_manifest \<Rightarrow> source_file list \<Rightarrow> string \<Rightarrow>
   string \<Rightarrow> source_range list \<Rightarrow> string \<Rightarrow> qualification ingest" where
  "conclude_recording env budget budget_sha256 sources manifest source_files source_identity manifest_sha256 ranges index_sha256 =
     bindS the_writer (\<lambda>b.
       if ib_index_batch_bytes budget < wr_maximum_buffer_bytes b
       then pure (Inl (ValueError ''frame-index writer exceeded its frozen byte budget''))
       else bindS (inspect sg_collector) (\<lambda>findings.
         if has_blocking findings
         then report_failure budget budget_sha256 (length sources) (sum_list (map ao_byte_count sources))
                (wr_maximum_buffer_bytes b) ranges
         else publish_summary env (summary_of budget budget_sha256 manifest source_files source_identity manifest_sha256
                index_sha256 ranges (finding_values findings) b)))"

text \<open>The body of the \<open>try\<close> statement: everything that happens in the temporary directory.\<close>

definition stage_recording ::
  "ingestion_env \<Rightarrow> adapter \<Rightarrow> ingestion_budget \<Rightarrow> string \<Rightarrow> adapter_source list \<Rightarrow> qualification ingest" where
  "stage_recording env ad budget budget_sha256 sources =
     bindS (pure (hash_sources (ie_sha env) ad sources (ib_hash_chunk_bytes budget))) (\<lambda>(source_files, source_identity).
     bindS (pure (build_manifest (ie_sha env) (ie_repr env) ad source_files source_identity)) (\<lambda>(manifest, stream_by_key).
     bindS (pure (canonicalize_portable_artifact (ie_model env) (ie_native env) SEQUENCE_MANIFEST
         (manifest_document_dump (ie_repr env) manifest))) (\<lambda>text.
     let manifest_text = text @ [CHR 0x0A] in
     bindS (write_file env WRITE_MANIFEST MANIFEST_FILE manifest_text) (\<lambda>_.
     bindS (index_database env ad stream_by_key (ib_index_batch_bytes budget)) (\<lambda>(ranges, index_sha256).
     bindS (compare_sources ad sources) (\<lambda>_.
       conclude_recording env budget budget_sha256 sources manifest source_files source_identity (ie_sha env manifest_text)
         ranges index_sha256))))))"

definition close_staging :: "ingestion_env \<Rightarrow> unit ingest" where
  "close_staging env =
     bindS (inspect (\<lambda>w. sg_writer w \<noteq> None)) (\<lambda>opened.
     bindS (if opened then io env CLOSE_INDEX else ret ()) (\<lambda>_.
     bindS (inspect (\<lambda>w. sg_temporary w \<noteq> None)) (\<lambda>exists.
       if exists then bindS (io env REMOVE_TEMPORARY) (\<lambda>_. change (\<lambda>w. w\<lparr>sg_temporary := None\<rparr>)) else ret ())))"

definition index_sources ::
  "ingestion_env \<Rightarrow> adapter \<Rightarrow> ingestion_budget \<Rightarrow> string \<Rightarrow> adapter_source list \<Rightarrow> qualification ingest" where
  "index_sources env ad budget budget_sha256 enumerated =
     (let sources = sort_key ao_source_key enumerated; bytes = sum_list (map ao_byte_count sources) in
     bindS (if enumerated = []
            then report_finding (sequence_finding MISSING_REQUIRED_SOURCE ''The adapter selected no source files.'')
            else ret ()) (\<lambda>_.
     bindS (report_duplicates enumerated) (\<lambda>_.
     bindS (inspect (has_blocking \<circ> sg_collector)) (\<lambda>blocked.
       if blocked then report_failure budget budget_sha256 (length sources) bytes 0 []
       else
       bindS (io env MAKE_TEMPORARY) (\<lambda>_.
       bindS (change (\<lambda>w. w\<lparr>sg_temporary := Some []\<rparr>)) (\<lambda>_.
       let late = bindS (inspect writer_maximum) (\<lambda>maximum_batch.
             report_failure budget budget_sha256 (length sources) bytes maximum_batch []) in
         finally_do
           (handle (\<lambda>e. case on_adapter_error late e of Some k \<Rightarrow> Some k | None \<Rightarrow> on_read_error late e)
              (stage_recording env ad budget budget_sha256 sources))
           (close_staging env)))))))"

definition index_recording ::
  "ingestion_env \<Rightarrow> adapter \<Rightarrow> ingestion_budget \<Rightarrow> string \<Rightarrow> qualification ingest" where
  "index_recording env ad budget budget_sha256 =
     bindS (liftS (\<lambda>w. ensure (sg_output w = None) (ValueError ''ingestion output must not already exist''))) (\<lambda>_.
     bindS (io env MAKE_PARENT) (\<lambda>_.
     bindS (change (\<lambda>w. w\<lparr>sg_collector := \<lparr>fc_maximum = ib_maximum_structural_findings budget, fc_findings = [],
         fc_limit_reported = False\<rparr>, sg_seen := [], sg_writer := None\<rparr>)) (\<lambda>_.
     let files = ad_source_files ad False in
     bindS (handle (\<lambda>e. map_option (\<lambda>k. bindS k (\<lambda>q. ret (Inl q))) (on_adapter_error (report_failure budget budget_sha256 0 0 0 []) e))
          (bindS (enumerate_sources (ib_maximum_source_files budget) [] (fst files) (snd files)) (\<lambda>xs. ret (Inr xs)))) (\<lambda>r.
       case r of
         Inl q \<Rightarrow> ret q
       | Inr enumerated \<Rightarrow> index_sources env ad budget budget_sha256 enumerated))))"

section \<open>The Boreas entry point\<close>

definition GPS_SOURCE :: string where
  "GPS_SOURCE = ''applanix/gps_post_process.csv''"

definition LIDAR_POSE_SOURCE :: string where
  "LIDAR_POSE_SOURCE = ''applanix/lidar_poses.csv''"

definition LIDAR_DIRECTORY :: string where
  "LIDAR_DIRECTORY = ''lidar''"

definition CALIBRATIONS :: "(string \<times> string \<times> string \<times> bool) list" where
  "CALIBRATIONS =
     [(''calib/T_applanix_lidar.txt'', ''applanix'', ''lidar'', True), (''calib/T_camera_lidar.txt'', ''camera'', ''lidar'', False),
      (''calib/T_radar_lidar.txt'', ''radar'', ''lidar'', False)]"

text \<open>\<open>is_file\<close> is the test of \<open>pathlib\<close> below the sequence root, \<open>lidar\<close> the entries of the
  lidar directory, or nothing when there is no such directory.\<close>

definition missing_boreas_sources :: "(string \<Rightarrow> bool) \<Rightarrow> string list option \<Rightarrow> string list" where
  "missing_boreas_sources is_file lidar =
     (let required = [GPS_SOURCE, LIDAR_POSE_SOURCE] @ map fst (filter (\<lambda>(_, _, _, required). required) CALIBRATIONS);
          missing = filter (\<lambda>k. \<not> is_file k) required;
          frames = (case lidar of None \<Rightarrow> False | Some names \<Rightarrow> list_ex (suffix ''.bin'') names)
      in sort (missing @ (if frames then [] else [LIDAR_DIRECTORY @ ''/*.bin''])))"

definition missing_finding :: "string \<Rightarrow> structural_finding" where
  "missing_finding key = \<lparr>sg_code = MISSING_REQUIRED_SOURCE, sg_blocking = True, sg_source_key = Some key,
     sg_stream_key = None, sg_record_kind = None, sg_record_index = None, sg_timestamp_ns = None,
     sg_detail = ''A required V1 source is unavailable.''\<rparr>"

text \<open>\<open>sequence_root\<close> and \<open>destination\<close> are the components of the two resolved paths, \<open>boreas\<close>
  the construction of the adapter.\<close>

definition index_boreas_recording ::
  "ingestion_env \<Rightarrow> string list \<Rightarrow> string list \<Rightarrow> (string \<Rightarrow> bool) \<Rightarrow> string list option \<Rightarrow> adapter res \<Rightarrow>
   ingestion_budget \<Rightarrow> string \<Rightarrow> qualification ingest" where
  "index_boreas_recording env sequence_root destination is_file lidar boreas budget budget_sha256 =
     (let missing = missing_boreas_sources is_file lidar in
      if take (length sequence_root) destination = sequence_root
      then pure (Inl (ValueError ''ingestion output must be outside the source recording''))
      else if missing \<noteq> [] then ret (failure budget budget_sha256 (map missing_finding missing) 0 0 0 [])
      else (case boreas of
              Inl (BoreasAdapterError source_key rec field0) \<Rightarrow>
                bindS (pure (adapter_failure source_key rec field0)) (\<lambda>f. ret (failure budget budget_sha256 [f] 0 0 0 []))
            | Inl e \<Rightarrow> pure (Inl e)
            | Inr ad \<Rightarrow> index_recording env ad budget budget_sha256))"

end
