(* ===== verification/IndexingCorrect.thy ===== *)
theory IndexingCorrect
  imports Indexing
begin

text \<open>
  What \<open>index_recording\<close> guarantees.  The writer keeps its memory within the budget and loses or
  reorders nothing; the collector of findings is bounded and never forgets that something blocks; the
  timestamp table finds every repetition; and the destination is either absent or holds one complete
  index, whatever operation fails and wherever the process dies.
\<close>

section \<open>Effects\<close>

lemma triple_pure: "triple P (pure r) (\<lambda>x w. P w \<and> r = Inr x) P"
  unfolding pure_def by (rule triple_lift) auto

lemma triple_pure_then:
  "(\<And>x. r = Inr x \<Longrightarrow> triple P (f x) Q (\<lambda>_. True)) \<Longrightarrow> triple P (bindS (pure r) f) Q (\<lambda>_. True)"
  unfolding triple_def pure_def liftS_def bindS_def by (cases r) simp_all

lemma triple_pure_end: "(\<And>w x. P w \<Longrightarrow> r = Inr x \<Longrightarrow> Q x w) \<Longrightarrow> triple P (pure r) Q (\<lambda>_. True)"
  unfolding pure_def by (rule triple_lift) auto

lemma triple_from: "triple P m Q R \<Longrightarrow> (\<And>w. P' w \<Longrightarrow> P w) \<Longrightarrow> triple P' m Q R"
  by (rule triple_weaken)

lemma triple_inspect: "triple P (inspect f) (\<lambda>x w. P w \<and> x = f w) P"
  unfolding inspect_def by (rule triple_lift) auto

lemma triple_change: "(\<And>w. P w \<Longrightarrow> Q () (f w)) \<Longrightarrow> triple P (change f) Q R"
  unfolding change_def by (rule triple_modify) auto

lemma triple_io:
  assumes "\<And>w n. P w \<Longrightarrow> P (w\<lparr>sg_clock := n\<rparr>)"
  shows "triple P (io env k) (\<lambda>_. P) P"
  by (rule triple_pointwise) (use assms in \<open>auto simp: io_def Let_def split: io_result.split\<close>)

lemma keeps_io: "(\<And>w n. f (w\<lparr>sg_clock := n\<rparr>) = f w) \<Longrightarrow> keeps f (io env k)"
  by (auto simp: keeps_def io_def Let_def split: io_result.split)

lemma keeps_pure [keeps_intros]: "keeps f (pure r)"
  unfolding pure_def by (rule keeps_lift)

lemma keeps_inspect [keeps_intros]: "keeps f (inspect g)"
  unfolding inspect_def by (rule keeps_lift)

lemma keeps_change: "(\<And>w. f (g w) = f w) \<Longrightarrow> keeps f (change g)"
  unfolding change_def by (rule keeps_modify) auto

lemma keeps_the_writer [keeps_intros]: "keeps f the_writer"
  unfolding the_writer_def by (rule keeps_lift)

lemma keeps_for_each [keeps_intros]: "(\<And>x acc. keeps f (g x acc)) \<Longrightarrow> keeps f (for_each it g acc)"
  unfolding for_each_def by (intro keeps_intros) (auto intro: keeps_intros split: option.split)

lemma keeps_handle:
  assumes "keeps f m" and "\<And>e k. h e = Some k \<Longrightarrow> keeps f k"
  shows "keeps f (handle h m)"
  unfolding keeps_def
proof
  fix w
  have m: "f (snd (m w)) = f w" using assms(1) by (simp add: keeps_def)
  show "f (snd (handle h m w)) = f w"
  proof (rule outcome_exhaust [of "m w"])
    fix e w' assume "m w = (Raised e, w')"
    then show ?thesis
      using m assms(2) [of e] by (cases "h e") (auto simp: handle_def keeps_def)
  qed (use m in \<open>auto simp: handle_def\<close>)
qed

lemma triple_handle:
  assumes "triple P m Q M" and "\<And>e k. h e = Some k \<Longrightarrow> triple M k Q R" and "\<And>w. M w \<Longrightarrow> R w"
  shows "triple P (handle h m) Q R"
proof (rule triple_pointwise)
  fix w assume w: "P w"
  show "meets Q R (handle h m w)"
  proof (rule outcome_exhaust [of "m w"])
    fix e w' assume m: "m w = (Raised e, w')"
    then have "M w'" using tripleD [OF assms(1) w] by simp
    then show ?thesis
      using m assms(3) tripleD [OF assms(2), of e] by (cases "h e") (auto simp: handle_def)
  qed (use tripleD [OF assms(1) w] assms(3) in \<open>auto simp: handle_def\<close>)
qed

lemma triple_finally:
  assumes "triple P m M N" and "\<And>x. triple (M x) h (\<lambda>_. Q x) R" and "triple N h (\<lambda>_. R) R" and "\<And>w. N w \<Longrightarrow> R w"
  shows "triple P (finally_do m h) Q R"
proof (rule triple_pointwise)
  fix w assume w: "P w"
  show "meets Q R (finally_do m h w)"
  proof (rule outcome_exhaust [of "m w"])
    fix x w' assume m: "m w = (Done x, w')"
    then have "M x w'" using tripleD [OF assms(1) w] by simp
    from tripleD [OF assms(2) this] show ?thesis
      by (rule_tac outcome_exhaust [of "h w'"]) (auto simp: finally_do_def m)
  next
    fix e w' assume m: "m w = (Raised e, w')"
    then have "N w'" using tripleD [OF assms(1) w] by simp
    from tripleD [OF assms(3) this] show ?thesis
      by (rule_tac outcome_exhaust [of "h w'"]) (auto simp: finally_do_def m)
  qed (use tripleD [OF assms(1) w] assms(4) in \<open>auto simp: finally_do_def\<close>)
qed

lemma triple_post: "triple P m Q R \<Longrightarrow> (\<And>x w. Q x w \<Longrightarrow> Q' x w) \<Longrightarrow> triple P m Q' R"
  by (rule triple_weaken)

section \<open>The collector of findings\<close>

definition collector_ok :: "finding_collector \<Rightarrow> bool" where
  "collector_ok c \<longleftrightarrow> 0 < fc_maximum c \<and> length (fc_findings c) \<le> fc_maximum c \<and> (fc_limit_reported c \<longrightarrow> has_blocking c)"

lemma list_ex_update_last: "xs \<noteq> [] \<Longrightarrow> P y \<Longrightarrow> list_ex P (xs[length xs - 1 := y])"
  by (metis diff_less length_greater_0_conv length_list_update less_one list_ex_length nth_list_update_eq)

lemma add_finding_ok:
  assumes "collector_ok c"
  shows "collector_ok (add_finding f c)" and "fc_maximum (add_finding f c) = fc_maximum c"
    and "has_blocking c \<or> sg_blocking f \<Longrightarrow> has_blocking (add_finding f c)"
proof -
  have "fc_findings c \<noteq> []" if "\<not> length (fc_findings c) < fc_maximum c"
    using assms that by (auto simp: collector_ok_def)
  note last = list_ex_update_last [OF this, where P = sg_blocking and y = limit_finding]
  show "collector_ok (add_finding f c)" "fc_maximum (add_finding f c) = fc_maximum c"
    "has_blocking c \<or> sg_blocking f \<Longrightarrow> has_blocking (add_finding f c)"
    using assms last by (auto simp: collector_ok_def add_finding_def has_blocking_def limit_finding_def)
qed

section \<open>The index writer\<close>

definition has_writer :: "(index_writer \<Rightarrow> bool) \<Rightarrow> staging \<Rightarrow> bool" where
  "has_writer Q w \<longleftrightarrow> (\<exists>b. sg_writer w = Some b \<and> Q b)"

lemma triple_the_writer: "triple (has_writer Q) the_writer (\<lambda>b w. has_writer (\<lambda>b'. b' = b \<and> Q b) w) R"
  unfolding the_writer_def by (rule triple_lift) (auto simp: has_writer_def)

lemma triple_change_writer:
  "(\<And>b. Q b \<Longrightarrow> Q' (f b)) \<Longrightarrow> triple (has_writer Q) (change_writer f) (\<lambda>_. has_writer Q') R"
  unfolding change_writer_def by (rule triple_change) (auto simp: has_writer_def)

lemma triple_io_writer: "triple (has_writer Q) (io env k) (\<lambda>_. has_writer Q) (\<lambda>_. True)"
  by (rule triple_weaken [OF triple_io [of "has_writer Q"]]) (auto simp: has_writer_def)

lemma triple_writer_fact:
  assumes "V \<Longrightarrow> triple (has_writer Q) m Q' R"
  shows "triple (has_writer (\<lambda>b. Q b \<and> V)) m Q' R"
  using assms by (cases V) (simp_all add: has_writer_def triple_def)

definition writer_ok :: "nat \<Rightarrow> string list \<Rightarrow> index_writer \<Rightarrow> bool" where
  "writer_ok budget written b \<longleftrightarrow>
     wr_hashed b = wr_stream b \<and> wr_stream b @ concat (wr_buffer b) = concat written \<and>
     wr_byte_budget b = budget \<and> wr_maximum_buffer_bytes b \<le> budget \<and> wr_entry_count b = length written"

text \<open>A record was pushed and is not counted yet.\<close>

definition writer_pending :: "nat \<Rightarrow> string list \<Rightarrow> string \<Rightarrow> index_writer \<Rightarrow> bool" where
  "writer_pending budget written s b \<longleftrightarrow>
     wr_hashed b = wr_stream b \<and> wr_stream b @ concat (wr_buffer b) = concat (written @ [s]) \<and>
     wr_buffer b \<noteq> [] \<and> last (wr_buffer b) = s \<and>
     wr_byte_budget b = budget \<and> wr_maximum_buffer_bytes b \<le> budget \<and> wr_entry_count b = length written"

lemma push_pending: "writer_ok budget written b \<Longrightarrow> writer_pending budget written s (push_buffer s b)"
  by (simp add: writer_ok_def writer_pending_def push_buffer_def)

lemma pop_pending: "writer_pending budget written s b \<Longrightarrow> writer_ok budget written (pop_buffer b)"
proof -
  assume b: "writer_pending budget written s b"
  then have "concat (wr_buffer b) = concat (butlast (wr_buffer b)) @ s"
    by (metis append_butlast_last_id concat.simps concat_append append_Nil2 writer_pending_def)
  then show ?thesis using b by (auto simp: writer_ok_def writer_pending_def pop_buffer_def)
qed

lemma flush_index_ok:
  "triple (has_writer (writer_ok budget written)) (flush_index env)
     (\<lambda>_. has_writer (\<lambda>b. writer_ok budget written b \<and> wr_buffer b = [])) (\<lambda>_. True)"
  unfolding flush_index_def
proof (rule triple_bind [OF triple_the_writer])
  fix b0 :: index_writer
  let ?done = "\<lambda>xs (b :: index_writer). b = b0\<lparr>wr_stream := wr_stream b0 @ concat xs, wr_hashed := wr_hashed b0 @ concat xs\<rparr>"
  have step: "triple (has_writer (?done xs)) (bindS (io env WRITE_INDEX) (\<lambda>_. change_writer (\<lambda>b.
      b\<lparr>wr_stream := wr_stream b @ x, wr_hashed := wr_hashed b @ x\<rparr>))) (\<lambda>_. has_writer (?done (xs @ [x]))) (\<lambda>_. True)" for xs x
    by (rule triple_bind [OF triple_io_writer]) (rule triple_change_writer, simp)
  have loop: "triple (has_writer (?done [])) (foldS (\<lambda>x _. bindS (io env WRITE_INDEX) (\<lambda>_. change_writer (\<lambda>b.
      b\<lparr>wr_stream := wr_stream b @ x, wr_hashed := wr_hashed b @ x\<rparr>))) (wr_buffer b0) ())
      (\<lambda>_. has_writer (?done (wr_buffer b0))) (\<lambda>_. True)"
    by (rule triple_fold_prefix [where I = "\<lambda>xs _. has_writer (?done xs)"]) (rule step)
  show "triple (has_writer (\<lambda>b'. b' = b0 \<and> writer_ok budget written b0)) (bindS (foldS (\<lambda>x _. bindS (io env WRITE_INDEX) (\<lambda>_. change_writer (\<lambda>b.
      b\<lparr>wr_stream := wr_stream b @ x, wr_hashed := wr_hashed b @ x\<rparr>))) (wr_buffer b0) ())
      (\<lambda>_. change_writer (\<lambda>b. b\<lparr>wr_buffer := [], wr_allocated := 0\<rparr>)))
      (\<lambda>_. has_writer (\<lambda>b. writer_ok budget written b \<and> wr_buffer b = [])) (\<lambda>_. True)"
  proof (rule triple_writer_fact)
    assume b0: "writer_ok budget written b0"
    show "triple (has_writer (\<lambda>b. b = b0)) (bindS (foldS (\<lambda>x _. bindS (io env WRITE_INDEX) (\<lambda>_. change_writer (\<lambda>b.
        b\<lparr>wr_stream := wr_stream b @ x, wr_hashed := wr_hashed b @ x\<rparr>))) (wr_buffer b0) ())
        (\<lambda>_. change_writer (\<lambda>b. b\<lparr>wr_buffer := [], wr_allocated := 0\<rparr>)))
        (\<lambda>_. has_writer (\<lambda>b. writer_ok budget written b \<and> wr_buffer b = [])) (\<lambda>_. True)"
      by (rule triple_bind [OF triple_weaken [OF loop, where P' = "has_writer (\<lambda>b. b = b0)"] triple_change_writer])
        (use b0 in \<open>auto simp: writer_ok_def has_writer_def\<close>)
  qed
qed

definition entry_line :: "ingestion_env \<Rightarrow> frame_index_entry \<Rightarrow> string" where
  "entry_line env e = dumps (entry_json (ie_repr env) e) @ [CHR 0x0A]"

lemma index_json_Inr: "index_json v = Inr s \<Longrightarrow> s = dumps v"
  by (auto simp: index_json_def json_dumps_def split: if_splits)

lemma spill_index_ok:
  "triple (has_writer (writer_pending budget written s)) (spill_index env s) (\<lambda>_. has_writer (writer_pending budget written s)) (\<lambda>_. True)"
  unfolding spill_index_def
  by (rule triple_bind [OF triple_change_writer [of _ "writer_ok budget written"]], erule pop_pending,
      rule triple_bind [OF flush_index_ok], rule triple_change_writer, simp add: push_pending)

lemma count_entry_ok:
  "triple (has_writer (writer_pending budget written s)) count_entry (\<lambda>_. has_writer (writer_ok budget (written @ [s]))) (\<lambda>_. True)"
  unfolding count_entry_def budget_exceeded_def
  by (rule triple_bind [OF triple_the_writer], rule triple_if, rule triple_pure_end, simp, rule triple_change_writer)
    (auto simp: writer_ok_def writer_pending_def)

lemma append_entry_ok:
  "triple (has_writer (writer_ok budget written)) (append_entry env e)
     (\<lambda>_. has_writer (writer_ok budget (written @ [entry_line env e]))) (\<lambda>_. True)"
  unfolding append_entry_def Let_def
proof (rule triple_pure_then)
  fix t assume "index_json (entry_json (ie_repr env) e) = Inr t"
  then have s: "t @ [CHR 0x0A] = entry_line env e" by (simp add: entry_line_def index_json_Inr)
  let ?s = "entry_line env e"
  let ?pending = "has_writer (writer_pending budget written ?s)"
  have again: "triple (has_writer (\<lambda>b. b = b1 \<and> writer_pending budget written ?s b1))
      (bindS (if wr_byte_budget b1 < retained_buffer_bytes b1 \<and> 1 < length (wr_buffer b1) then spill_index env ?s else ret ())
        (\<lambda>_. count_entry)) (\<lambda>_. has_writer (writer_ok budget (written @ [?s]))) (\<lambda>_. True)" for b1
  proof (rule triple_bind [OF _ count_entry_ok])
    show "triple (has_writer (\<lambda>b. b = b1 \<and> writer_pending budget written ?s b1))
      (if wr_byte_budget b1 < retained_buffer_bytes b1 \<and> 1 < length (wr_buffer b1) then spill_index env ?s else ret ())
      (\<lambda>_. ?pending) (\<lambda>_. True)"
      by (rule triple_if) (auto intro: triple_from [OF spill_index_ok] triple_ret simp: has_writer_def)
  qed
  have push: "triple (has_writer (\<lambda>b. b = b0 \<and> writer_ok budget written b0)) (change_writer (push_buffer ?s)) (\<lambda>_. ?pending) (\<lambda>_. True)" for b0
    by (rule triple_change_writer) (auto intro: push_pending)
  have stop: "triple (has_writer (\<lambda>b. b = b0 \<and> writer_ok budget written b0)) budget_exceeded
      (\<lambda>_. has_writer (writer_ok budget (written @ [?s]))) (\<lambda>_. True)" for b0
    unfolding budget_exceeded_def by (rule triple_pure_end) simp
  show "triple (has_writer (writer_ok budget written)) (bindS the_writer (\<lambda>b.
     if wr_byte_budget b < 56 + bytes_size (t @ [CHR 0x0A]) then budget_exceeded
     else bindS (change_writer (push_buffer (t @ [CHR 0x0A]))) (\<lambda>_. bindS the_writer (\<lambda>b.
       bindS (if wr_byte_budget b < retained_buffer_bytes b \<and> 1 < length (wr_buffer b)
              then spill_index env (t @ [CHR 0x0A]) else ret ()) (\<lambda>_. count_entry)))))
     (\<lambda>_. has_writer (writer_ok budget (written @ [?s]))) (\<lambda>_. True)"
    unfolding s
    by (rule triple_bind [OF triple_the_writer triple_if [OF stop triple_bind [OF push triple_bind [OF triple_the_writer again]]]])
qed

section \<open>The scan\<close>

lemma triple_for_each:
  assumes "\<And>xs x ys acc. fst it = xs @ x # ys \<Longrightarrow> triple (I xs acc) (f x acc) (I (xs @ [x])) R"
    and "\<And>w acc. I (fst it) acc w \<Longrightarrow> R w"
  shows "triple (I [] acc) (for_each it f acc) (\<lambda>acc w. I (fst it) acc w \<and> snd it = None) R"
  unfolding for_each_def
proof (rule triple_bind [OF triple_fold_prefix [where I = I and R = R]])
  fix x
  show "triple (I (fst it) x) (case snd it of None \<Rightarrow> ret x | Some e \<Rightarrow> pure (Inl e))
      (\<lambda>acc w. I (fst it) acc w \<and> snd it = None) R"
    by (cases "snd it") (auto intro: triple_ret triple_weaken [OF triple_pure] assms(2))
qed (rule assms(1))

text \<open>An accumulator that has observed \<open>ts\<close>.\<close>

definition observed :: "string \<Rightarrow> string \<Rightarrow> int list \<Rightarrow> range_accumulator \<Rightarrow> bool" where
  "observed kind stream ts a \<longleftrightarrow>
     ra_record_kind a = kind \<and> ra_stream_id a = stream \<and> ra_count a = length ts \<and>
     ra_minimum a = (if ts = [] then None else Some (Min (set ts))) \<and>
     ra_maximum a = (if ts = [] then None else Some (Max (set ts))) \<and>
     ra_previous a = (if ts = [] then None else Some (last ts)) \<and> (ra_nondecreasing a \<longleftrightarrow> sorted ts)"

lemma observed_new: "observed kind stream [] (new_range stream kind)"
  by (simp add: observed_def new_range_def)

lemma sorted_snoc_last: "sorted (ts @ [t]) \<longleftrightarrow> sorted ts \<and> (ts \<noteq> [] \<longrightarrow> last ts \<le> (t :: int))"
  by (induction ts rule: rev_induct) (auto simp: sorted_append)

lemma observed_observe: "observed kind stream ts a \<Longrightarrow> observed kind stream (ts @ [t]) (observe a t)"
  by (auto simp: observed_def observe_def sorted_snoc_last min.commute max.commute)

lemma observed_duplicate: "observed kind stream ts (a\<lparr>ra_duplicates := n\<rparr>) \<longleftrightarrow> observed kind stream ts a"
  by (simp add: observed_def)

text \<open>The rows of a record kind are the times observed so far; they are distinct and \<open>V\<close> holds unless
  something blocks.\<close>

definition stamped :: "string \<Rightarrow> string \<Rightarrow> bool \<Rightarrow> int list \<Rightarrow> staging \<Rightarrow> bool" where
  "stamped kind stream V ts w \<longleftrightarrow>
     collector_ok (sg_collector w) \<and> (\<forall>t. (kind, stream, t) \<in> set (sg_seen w) \<longleftrightarrow> t \<in> set ts) \<and>
     (has_blocking (sg_collector w) \<or> distinct ts \<and> V)"

definition only_kinds :: "string set \<Rightarrow> staging \<Rightarrow> bool" where
  "only_kinds K w \<longleftrightarrow> fst ` set (sg_seen w) \<subseteq> K"

lemma observe_timestamp_ok:
  assumes "kind \<in> K"
  shows "triple (\<lambda>w. stamped kind stream V ts w \<and> only_kinds K w \<and> observed kind stream ts a) (observe_timestamp env t key i a)
     (\<lambda>a w. stamped kind stream V (ts @ [tp_value_ns t]) w \<and> only_kinds K w \<and> observed kind stream (ts @ [tp_value_ns t]) a)
     (\<lambda>_. True)"
proof (rule triple_fact [of _ "\<lambda>w. stamped kind stream V ts w \<and> only_kinds K w", unfolded conj_assoc])
  let ?n = "tp_value_ns t"
  let ?P = "\<lambda>w. stamped kind stream V ts w \<and> only_kinds K w"
  assume a: "observed kind stream ts a"
  then have a': "observed kind stream (ts @ [?n]) (observe a ?n)" by (rule observed_observe)
  then have row: "ra_record_kind (observe a ?n) = kind" "ra_stream_id (observe a ?n) = stream" by (simp_all add: observed_def)
  let ?Q = "\<lambda>w. stamped kind stream V (ts @ [?n]) w \<and> only_kinds K w"
  let ?row = "\<lambda>w. (kind, stream, ?n) \<in> set (sg_seen w)"
  have insert: "triple ?P (io env INSERT_TIMESTAMP) (\<lambda>_. ?P) (\<lambda>_. True)"
    by (rule triple_weaken [OF triple_io [of ?P]]) (simp_all add: stamped_def only_kinds_def)
  have ask: "triple ?P (inspect ?row) (\<lambda>b w. ?P w \<and> b = ?row w) (\<lambda>_. True)"
    by (rule triple_weaken [OF triple_inspect]) auto
  have repeated: "triple (\<lambda>w. ?P w \<and> ?row w) (report_finding f) (\<lambda>_. ?Q) (\<lambda>_. True)" if "sg_blocking f" for f
    unfolding report_finding_def
    by (rule triple_change) (use that add_finding_ok in \<open>auto simp: stamped_def only_kinds_def\<close>)
  have fresh: "triple (\<lambda>w. ?P w \<and> \<not> ?row w) (change (\<lambda>w. w\<lparr>sg_seen := sg_seen w @ [(kind, stream, ?n)]\<rparr>)) (\<lambda>_. ?Q) (\<lambda>_. True)"
    by (rule triple_change) (use assms in \<open>auto simp: stamped_def only_kinds_def\<close>)
  have return: "triple ?Q (ret a') (\<lambda>a w. stamped kind stream V (ts @ [?n]) w \<and> only_kinds K w \<and> observed kind stream (ts @ [?n]) a)
      (\<lambda>_. True)" if "observed kind stream (ts @ [?n]) a'" for a'
    by (rule triple_ret) (use that in simp)
  show "triple ?P (observe_timestamp env t key i a)
     (\<lambda>a w. stamped kind stream V (ts @ [?n]) w \<and> only_kinds K w \<and> observed kind stream (ts @ [?n]) a) (\<lambda>_. True)"
    unfolding observe_timestamp_def Let_def row
  proof (rule triple_bind [OF insert triple_bind [OF ask triple_if]], goal_cases)
    case (1 u b)
    show ?case
      by (rule triple_bind [OF triple_weaken [OF repeated] return]) (use 1 a' in \<open>auto simp: observed_duplicate\<close>)
  next
    case (2 u b)
    show ?case
      by (rule triple_bind [OF triple_weaken [OF fresh] return]) (use 2 a' in auto)
  qed
qed

lemma triple_keeps: "keeps f m \<Longrightarrow> triple (\<lambda>w. P (f w)) m (\<lambda>_ w. P (f w)) (\<lambda>w. P (f w))"
proof (rule triple_pointwise)
  fix w assume "keeps f m" and "P (f w)"
  then have "P (f (snd (m w)))" by (simp add: keeps_def)
  then show "meets (\<lambda>_ w. P (f w)) (\<lambda>w. P (f w)) (m w)"
    by (rule_tac outcome_exhaust [of "m w"]) simp_all
qed

lemma triple_frame:
  assumes "triple P m Q (\<lambda>_. True)" and "keeps f m" and "\<And>w. F w = G (f w)"
  shows "triple (\<lambda>w. P w \<and> F w) m (\<lambda>x w. Q x w \<and> F w) (\<lambda>_. True)"
  by (rule triple_weaken [OF triple_conj [OF assms(1) triple_keeps [OF assms(2), of G]]]) (simp_all add: assms(3))

lemma keeps_report_finding [keeps_intros]:
  "(\<And>w c. f (w\<lparr>sg_collector := c\<rparr>) = f w) \<Longrightarrow> keeps f (report_finding x)"
  unfolding report_finding_def by (rule keeps_change) simp

lemma keeps_change_writer: "(\<And>w b. f (w\<lparr>sg_writer := b\<rparr>) = f w) \<Longrightarrow> keeps f (change_writer g)"
  unfolding change_writer_def by (rule keeps_change) simp

lemma keeps_observe_timestamp [keeps_intros]:
  "(\<And>w n. f (w\<lparr>sg_clock := n\<rparr>) = f w) \<Longrightarrow> (\<And>w c. f (w\<lparr>sg_collector := c\<rparr>) = f w) \<Longrightarrow> (\<And>w s. f (w\<lparr>sg_seen := s\<rparr>) = f w) \<Longrightarrow>
   keeps f (observe_timestamp env t key i a)"
  unfolding observe_timestamp_def Let_def by (intro keeps_intros keeps_io keeps_change) simp_all

lemma keeps_flush_index [keeps_intros]:
  "(\<And>w n. f (w\<lparr>sg_clock := n\<rparr>) = f w) \<Longrightarrow> (\<And>w b. f (w\<lparr>sg_writer := b\<rparr>) = f w) \<Longrightarrow> keeps f (flush_index env)"
  unfolding flush_index_def by (intro keeps_intros keeps_io keeps_change_writer) simp_all

lemma keeps_append_entry [keeps_intros]:
  "(\<And>w n. f (w\<lparr>sg_clock := n\<rparr>) = f w) \<Longrightarrow> (\<And>w b. f (w\<lparr>sg_writer := b\<rparr>) = f w) \<Longrightarrow> keeps f (append_entry env e)"
  unfolding append_entry_def spill_index_def count_entry_def budget_exceeded_def Let_def
  by (intro keeps_intros keeps_io keeps_change_writer) simp_all

lemma keeps_index_frame [keeps_intros]:
  "(\<And>w n. f (w\<lparr>sg_clock := n\<rparr>) = f w) \<Longrightarrow> (\<And>w c. f (w\<lparr>sg_collector := c\<rparr>) = f w) \<Longrightarrow> (\<And>w s. f (w\<lparr>sg_seen := s\<rparr>) = f w) \<Longrightarrow>
   (\<And>w b. f (w\<lparr>sg_writer := b\<rparr>) = f w) \<Longrightarrow> keeps f (index_frame env stream_by_key p a)"
  unfolding index_frame_def by (auto intro!: keeps_intros split: prod.split option.split)

definition sample_times :: "timed_sample iteration \<Rightarrow> int list" where
  "sample_times it = map (tp_value_ns \<circ> ts_time) (fst it)"

lemma samples_ok:
  assumes "kind \<in> K"
  shows "triple (\<lambda>w. (stamped kind stream V [] w \<and> only_kinds K w) \<and> has_writer Q w)
     (for_each it (observe_sample env) (new_range stream kind))
     (\<lambda>a w. (stamped kind stream V (sample_times it) w \<and> only_kinds K w \<and> observed kind stream (sample_times it) a \<and> snd it = None) \<and>
        has_writer Q w)
     (\<lambda>_. True)"
proof (rule triple_frame [where f = sg_writer and G = "\<lambda>x. \<exists>b. x = Some b \<and> Q b"])
  let ?ts = "\<lambda>xs :: timed_sample list. map (tp_value_ns \<circ> ts_time) xs"
  let ?I = "\<lambda>xs a w. stamped kind stream V (?ts xs) w \<and> only_kinds K w \<and> observed kind stream (?ts xs) a"
  have step: "triple (?I xs acc) (observe_sample env x acc) (?I (xs @ [x])) (\<lambda>_. True)" for xs x acc
    unfolding observe_sample_def using observe_timestamp_ok [OF assms] by simp
  have "triple (?I [] (new_range stream kind)) (for_each it (observe_sample env) (new_range stream kind))
      (\<lambda>a w. ?I (fst it) a w \<and> snd it = None) (\<lambda>_. True)"
    by (rule triple_for_each [where I = ?I]) (rule step, simp)
  then show "triple (\<lambda>w. stamped kind stream V [] w \<and> only_kinds K w) (for_each it (observe_sample env) (new_range stream kind))
      (\<lambda>a w. stamped kind stream V (sample_times it) w \<and> only_kinds K w \<and> observed kind stream (sample_times it) a \<and> snd it = None)
      (\<lambda>_. True)"
    by (simp add: observed_new sample_times_def conj_ac)
  show "keeps sg_writer (for_each it (observe_sample env) (new_range stream kind))"
    unfolding observe_sample_def by (intro keeps_intros) simp_all
qed (simp add: has_writer_def)

definition frame_time :: "lidar_frame \<Rightarrow> int" where
  "frame_time f = tp_value_ns (the (ft_sensor_time (lf_times f)))"

lemma index_frame_ok:
  assumes "kind \<in> K"
  shows "triple (\<lambda>w. (stamped kind stream V ts w \<and> only_kinds K w \<and> observed kind stream ts a) \<and> has_writer (writer_ok budget written) w)
     (index_frame env stream_by_key (n, f) a)
     (\<lambda>a w. (\<exists>e. frame_entry env stream_by_key n f = Inr e \<and> ft_sensor_time (lf_times f) \<noteq> None \<and>
        (stamped kind stream V (ts @ [frame_time f]) w \<and> only_kinds K w \<and> observed kind stream (ts @ [frame_time f]) a) \<and>
        has_writer (writer_ok budget (written @ [entry_line env e])) w))
     (\<lambda>_. True)"
proof (cases "ft_sensor_time (lf_times f)")
  case None
  then show ?thesis unfolding index_frame_def by (auto intro: triple_weaken [OF triple_pure])
next
  case (Some t)
  have time: "frame_time f = tp_value_ns t" by (simp add: frame_time_def Some)
  let ?S = "\<lambda>a w. stamped kind stream V (ts @ [frame_time f]) w \<and> only_kinds K w \<and> observed kind stream (ts @ [frame_time f]) a"
  have observe: "triple (\<lambda>w. (stamped kind stream V ts w \<and> only_kinds K w \<and> observed kind stream ts a) \<and> has_writer (writer_ok budget written) w)
     (observe_timestamp env t (fp_source_key (lf_payload f)) n a) (\<lambda>a w. ?S a w \<and> has_writer (writer_ok budget written) w) (\<lambda>_. True)"
    unfolding time
    by (rule triple_frame [OF observe_timestamp_ok [OF assms], where f = sg_writer and G = "\<lambda>x. \<exists>b. x = Some b \<and> writer_ok budget written b"])
      (auto intro!: keeps_intros simp: has_writer_def)
  have append: "triple (\<lambda>w. has_writer (writer_ok budget written) w \<and> ?S a w) (append_entry env e)
      (\<lambda>_ w. has_writer (writer_ok budget (written @ [entry_line env e])) w \<and> ?S a w) (\<lambda>_. True)" for a e
    by (rule triple_frame [OF append_entry_ok, where f = "\<lambda>w. (sg_collector w, sg_seen w)"
          and G = "\<lambda>(c, s). (collector_ok c \<and> (\<forall>t. (kind, stream, t) \<in> set s \<longleftrightarrow> t \<in> set (ts @ [frame_time f])) \<and>
            (has_blocking c \<or> distinct (ts @ [frame_time f]) \<and> V)) \<and> fst ` set s \<subseteq> K \<and> observed kind stream (ts @ [frame_time f]) a"])
      (auto intro!: keeps_intros simp: stamped_def only_kinds_def)
  show ?thesis
    unfolding index_frame_def prod.case Some option.case
  proof (rule triple_bind [OF observe], rule triple_pure_then)
    fix a e assume e: "frame_entry env stream_by_key n f = Inr e"
    show "triple (\<lambda>w. ?S a w \<and> has_writer (writer_ok budget written) w) (bindS (append_entry env e) (\<lambda>_. ret a))
       (\<lambda>a w. \<exists>e. frame_entry env stream_by_key n f = Inr e \<and> Some t \<noteq> None \<and> ?S a w \<and>
          has_writer (writer_ok budget (written @ [entry_line env e])) w) (\<lambda>_. True)"
      by (rule triple_bind [OF triple_weaken [OF append [of a e]] triple_ret]) (use e in auto)
  qed
qed

lemma triple_exists: "(\<And>x. triple (P x) m Q R) \<Longrightarrow> triple (\<lambda>w. \<exists>x. P x w) m Q R"
  by (auto simp: triple_def)

lemma mapE_snoc: "mapE f xs = Inr ys \<Longrightarrow> f x = Inr y \<Longrightarrow> mapE f (xs @ [x]) = Inr (ys @ [y])"
  by (induction xs arbitrary: ys) auto

text \<open>The lines of the index: one for each frame, in the order of the adapter.\<close>

definition index_entries :: "ingestion_env \<Rightarrow> (string \<times> string) list \<Rightarrow> (nat \<times> lidar_frame) list \<Rightarrow> frame_index_entry list res" where
  "index_entries env stream_by_key frames = mapE (\<lambda>(n, f). frame_entry env stream_by_key n f) frames"

definition timed :: "lidar_frame \<Rightarrow> bool" where
  "timed f \<longleftrightarrow> ft_sensor_time (lf_times f) \<noteq> None"

definition framed ::
  "ingestion_env \<Rightarrow> (string \<times> string) list \<Rightarrow> nat \<Rightarrow> string \<Rightarrow> bool \<Rightarrow> string set \<Rightarrow> (nat \<times> lidar_frame) list \<Rightarrow> range_accumulator \<Rightarrow>
   staging \<Rightarrow> bool" where
  "framed env stream_by_key budget stream V K xs a w \<longleftrightarrow>
     (\<exists>es. index_entries env stream_by_key xs = Inr es \<and> list_all timed (map snd xs) \<and>
        (stamped ''lidar-frame'' stream V (map (frame_time \<circ> snd) xs) w \<and> only_kinds K w \<and>
         observed ''lidar-frame'' stream (map (frame_time \<circ> snd) xs) a) \<and>
        has_writer (writer_ok budget (map (entry_line env) es)) w)"

lemma frames_ok:
  assumes "''lidar-frame'' \<in> K"
  shows "triple (framed env stream_by_key budget stream V K [] (new_range stream ''lidar-frame''))
     (for_each it (index_frame env stream_by_key) (new_range stream ''lidar-frame''))
     (\<lambda>a w. framed env stream_by_key budget stream V K (fst it) a w \<and> snd it = None) (\<lambda>_. True)"
proof (rule triple_for_each)
  fix xs ys :: "(nat \<times> lidar_frame) list" and x :: "nat \<times> lidar_frame" and a
  obtain n f where x: "x = (n, f)" by (cases x)
  show "triple (framed env stream_by_key budget stream V K xs a) (index_frame env stream_by_key x a)
      (framed env stream_by_key budget stream V K (xs @ [x])) (\<lambda>_. True)"
    unfolding framed_def x
  proof (rule triple_exists)
    fix es
    let ?P = "\<lambda>w. (stamped ''lidar-frame'' stream V (map (frame_time \<circ> snd) xs) w \<and> only_kinds K w \<and>
         observed ''lidar-frame'' stream (map (frame_time \<circ> snd) xs) a) \<and> has_writer (writer_ok budget (map (entry_line env) es)) w"
    let ?V = "index_entries env stream_by_key xs = Inr es \<and> list_all timed (map snd xs)"
    have "triple (\<lambda>w. ?P w \<and> ?V) (index_frame env stream_by_key (n, f) a) (\<lambda>a w. \<exists>es.
        index_entries env stream_by_key (xs @ [(n, f)]) = Inr es \<and> list_all timed (map snd (xs @ [(n, f)])) \<and>
        (stamped ''lidar-frame'' stream V (map (frame_time \<circ> snd) (xs @ [(n, f)])) w \<and> only_kinds K w \<and>
         observed ''lidar-frame'' stream (map (frame_time \<circ> snd) (xs @ [(n, f)])) a) \<and>
        has_writer (writer_ok budget (map (entry_line env) es)) w) (\<lambda>_. True)"
    proof (rule triple_fact, rule triple_post [OF index_frame_ok [OF assms]], goal_cases)
      case (1 a w)
      then obtain e where e: "frame_entry env stream_by_key n f = Inr e" "timed f"
        "stamped ''lidar-frame'' stream V (map (frame_time \<circ> snd) xs @ [frame_time f]) w" "only_kinds K w"
        "observed ''lidar-frame'' stream (map (frame_time \<circ> snd) xs @ [frame_time f]) a"
        "has_writer (writer_ok budget (map (entry_line env) es @ [entry_line env e])) w"
        unfolding timed_def by blast
      have "index_entries env stream_by_key (xs @ [(n, f)]) = Inr (es @ [e])"
        using 1 e(1) unfolding index_entries_def by (intro mapE_snoc) auto
      then show ?case using e 1 by (intro exI [of _ "es @ [e]"]) simp
    qed
    then show "triple (\<lambda>w. index_entries env stream_by_key xs = Inr es \<and> list_all timed (map snd xs) \<and> ?P w)
       (index_frame env stream_by_key (n, f) a) (\<lambda>a w. \<exists>es.
        index_entries env stream_by_key (xs @ [(n, f)]) = Inr es \<and> list_all timed (map snd (xs @ [(n, f)])) \<and>
        (stamped ''lidar-frame'' stream V (map (frame_time \<circ> snd) (xs @ [(n, f)])) w \<and> only_kinds K w \<and>
         observed ''lidar-frame'' stream (map (frame_time \<circ> snd) (xs @ [(n, f)])) a) \<and>
        has_writer (writer_ok budget (map (entry_line env) es)) w) (\<lambda>_. True)"
      by (rule triple_weaken) auto
  qed
qed simp

lemma next_kind:
  assumes "stamped kind stream V ts w" and "only_kinds K w" and "kind' \<notin> K" and "K \<subseteq> K'"
  shows "stamped kind' stream' (V \<and> distinct ts) [] w \<and> only_kinds K' w"
  using assms by (force simp: stamped_def only_kinds_def)

text \<open>What a range of the summary says about the times it was computed from.\<close>

definition describes :: "source_range \<Rightarrow> string \<times> int list \<Rightarrow> bool" where
  "describes r p \<longleftrightarrow> (case p of (kind, ts) \<Rightarrow> ts \<noteq> [] \<and> rn_record_kind r = kind \<and> rn_record_count r = length ts \<and>
     rn_minimum_time_ns r = Min (set ts) \<and> rn_maximum_time_ns r = Max (set ts) \<and> (rn_nondecreasing r \<longleftrightarrow> sorted ts))"

lemma finish_range_describes: "observed kind stream ts a \<Longrightarrow> finish_range a = Inr r \<Longrightarrow> describes r (kind, ts)"
  by (cases "ts = []") (auto simp: observed_def finish_range_def describes_def split: if_splits)

definition recorded_times :: "adapter \<Rightarrow> (string \<times> int list) list" where
  "recorded_times ad = [(''trajectory-sample'', sample_times (ad_pose_samples ad)),
     (''lidar-pose-sample'', sample_times (ad_lidar_pose_samples ad)), (''lidar-frame'', map frame_time (fst (ad_frames ad)))]"

definition read_completely :: "adapter \<Rightarrow> bool" where
  "read_completely ad \<longleftrightarrow> snd (ad_pose_samples ad) = None \<and> snd (ad_lidar_pose_samples ad) = None \<and>
     snd (ad_frames ad) = None \<and> list_all timed (fst (ad_frames ad))"

text \<open>The outcome of the scan.\<close>

definition scanned ::
  "ingestion_env \<Rightarrow> adapter \<Rightarrow> (string \<times> string) list \<Rightarrow> nat \<Rightarrow> source_range list \<Rightarrow> staging \<Rightarrow> bool" where
  "scanned env ad stream_by_key budget ranges w \<longleftrightarrow>
     collector_ok (sg_collector w) \<and>
     (\<exists>es. index_entries env stream_by_key (enumerate 0 (fst (ad_frames ad))) = Inr es \<and>
        has_writer (writer_ok budget (map (entry_line env) es)) w) \<and>
     read_completely ad \<and> list_all2 describes ranges (recorded_times ad) \<and>
     (has_blocking (sg_collector w) \<or> list_all (distinct \<circ> snd) (recorded_times ad))"

definition gathered :: "ingestion_env \<Rightarrow> adapter \<Rightarrow> (string \<times> string) list \<Rightarrow> nat \<Rightarrow> staging \<Rightarrow> bool" where
  "gathered env ad stream_by_key budget w \<longleftrightarrow>
     collector_ok (sg_collector w) \<and>
     (\<exists>es. index_entries env stream_by_key (enumerate 0 (fst (ad_frames ad))) = Inr es \<and>
        has_writer (writer_ok budget (map (entry_line env) es)) w) \<and>
     (has_blocking (sg_collector w) \<or> list_all (distinct \<circ> snd) (recorded_times ad))"

lemma gathered_report: "triple (gathered env ad stream_by_key budget) (report_finding f) (\<lambda>_. gathered env ad stream_by_key budget) R"
  unfolding report_finding_def
  by (rule triple_change) (use add_finding_ok in \<open>auto simp: gathered_def has_writer_def\<close>)

lemma summarise_ok:
  assumes "read_completely ad"
    and "list_all2 (\<lambda>a (kind, ts). \<exists>stream. observed kind stream ts a) ranges (recorded_times ad)"
  shows "triple (gathered env ad stream_by_key budget)
     (bindS (foldS (\<lambda>a _. if \<not> ra_nondecreasing a then report_finding (reordered_finding a) else ret ()) ranges ())
        (\<lambda>_. pure (mapE finish_range ranges))) (scanned env ad stream_by_key budget) (\<lambda>_. True)"
proof (rule triple_bind [OF triple_fold])
  show "triple (gathered env ad stream_by_key budget) (if \<not> ra_nondecreasing a then report_finding (reordered_finding a) else ret ())
     (\<lambda>_. gathered env ad stream_by_key budget) (\<lambda>_. True)" for a
    by (auto intro: gathered_report triple_ret)
  have "list_all2 describes rs (recorded_times ad)" if "mapE finish_range ranges = Inr rs" for rs
    using assms(2) that unfolding mapE_eq_Inr_iff list_all2_conv_all_nth
    by (fastforce dest: finish_range_describes split: prod.splits)
  then show "triple (gathered env ad stream_by_key budget) (pure (mapE finish_range ranges))
      (scanned env ad stream_by_key budget) (\<lambda>_. True)"
    using assms(1) by (auto intro!: triple_pure_end simp: scanned_def gathered_def)
qed

lemma scan_ok:
  "triple (\<lambda>w. sg_seen w = [] \<and> collector_ok (sg_collector w) \<and> has_writer (writer_ok budget []) w)
     (scan_ranges_and_frames env ad stream_by_key) (scanned env ad stream_by_key budget) (\<lambda>_. True)"
  unfolding scan_ranges_and_frames_def Let_def
proof (rule triple_pure_then)
  fix s1
  let ?T = "''trajectory-sample''" and ?L = "''lidar-pose-sample''" and ?F = "''lidar-frame''"
  let ?t1 = "sample_times (ad_pose_samples ad)" and ?t2 = "sample_times (ad_lidar_pose_samples ad)"
  let ?frames = "(enumerate 0 (fst (ad_frames ad)), snd (ad_frames ad))"
  let ?rest3 = "\<lambda>a1 a2 a3. bindS (foldS (\<lambda>a _. if \<not> ra_nondecreasing a then report_finding (reordered_finding a) else ret ()) [a1, a2, a3] ())
        (\<lambda>_. pure (mapE finish_range [a1, a2, a3]))"
  let ?rest2 = "\<lambda>s2 a1 a2. bindS (for_each ?frames (index_frame env stream_by_key) (new_range s2 ?F)) (?rest3 a1 a2)"
  let ?rest1 = "\<lambda>s2 a1. bindS (for_each (ad_lidar_pose_samples ad) (observe_sample env) (new_range s2 ?L)) (?rest2 s2 a1)"
  have third: "triple (framed env stream_by_key budget s2 (distinct ?t1 \<and> distinct ?t2) {?T, ?L, ?F} [] (new_range s2 ?F))
      (?rest2 s2 a1 a2) (scanned env ad stream_by_key budget) (\<lambda>_. True)"
    if a: "observed ?T s1 ?t1 a1" "observed ?L s2 ?t2 a2" "snd (ad_pose_samples ad) = None" "snd (ad_lidar_pose_samples ad) = None"
    for s2 a1 a2
  proof (rule triple_bind [OF frames_ok])
    fix a3
    let ?V = "read_completely ad \<and> list_all2 (\<lambda>a (kind, ts). \<exists>stream. observed kind stream ts a) [a1, a2, a3] (recorded_times ad)"
    have "triple (\<lambda>w. gathered env ad stream_by_key budget w \<and> ?V) (?rest3 a1 a2 a3) (scanned env ad stream_by_key budget) (\<lambda>_. True)"
      by (rule triple_fact, rule summarise_ok) auto
    then show "triple (\<lambda>w. framed env stream_by_key budget s2 (distinct ?t1 \<and> distinct ?t2) {?T, ?L, ?F} (fst ?frames) a3 w \<and> snd ?frames = None)
        (?rest3 a1 a2 a3) (scanned env ad stream_by_key budget) (\<lambda>_. True)"
    proof (rule triple_from, goal_cases)
      case (1 w)
      have times: "map (frame_time \<circ> snd) (enumerate 0 (fst (ad_frames ad))) = map frame_time (fst (ad_frames ad))"
        by (metis map_map map_snd_enumerate)
      show ?case
        using 1 a unfolding framed_def
        by (auto simp: gathered_def read_completely_def recorded_times_def stamped_def times)
    qed
  qed simp
  have second: "triple (\<lambda>w. (stamped ?L s2 (distinct ?t1) [] w \<and> only_kinds {?T, ?L} w) \<and> has_writer (writer_ok budget []) w)
      (?rest1 s2 a1) (scanned env ad stream_by_key budget) (\<lambda>_. True)"
    if a: "observed ?T s1 ?t1 a1" "snd (ad_pose_samples ad) = None" for s2 a1
  proof (rule triple_bind [OF samples_ok])
    fix a2
    have "triple (\<lambda>w. framed env stream_by_key budget s2 (distinct ?t1 \<and> distinct ?t2) {?T, ?L, ?F} [] (new_range s2 ?F) w \<and>
        (observed ?L s2 ?t2 a2 \<and> snd (ad_lidar_pose_samples ad) = None)) (?rest2 s2 a1 a2) (scanned env ad stream_by_key budget) (\<lambda>_. True)"
      by (rule triple_fact, rule third) (use a in auto)
    then show "triple (\<lambda>w. (stamped ?L s2 (distinct ?t1) ?t2 w \<and> only_kinds {?T, ?L} w \<and> observed ?L s2 ?t2 a2 \<and>
        snd (ad_lidar_pose_samples ad) = None) \<and> has_writer (writer_ok budget []) w) (?rest2 s2 a1 a2)
        (scanned env ad stream_by_key budget) (\<lambda>_. True)"
    proof (rule triple_from, goal_cases)
      case (1 w)
      then show ?case
        using next_kind [of ?L s2 "distinct ?t1" ?t2 w "{?T, ?L}" ?F "{?T, ?L, ?F}" s2]
        by (simp add: framed_def index_entries_def observed_new conj_commute insert_commute)
    qed
  qed simp
  show "triple (\<lambda>w. sg_seen w = [] \<and> collector_ok (sg_collector w) \<and> has_writer (writer_ok budget []) w)
     (bindS (for_each (ad_pose_samples ad) (observe_sample env) (new_range s1 ?T)) (\<lambda>a1.
      bindS (pure (lookup_key stream_by_key ''lidar-lidar'')) (\<lambda>s2. ?rest1 s2 a1)))
     (scanned env ad stream_by_key budget) (\<lambda>_. True)"
  proof (rule triple_bind [OF triple_from [OF samples_ok [where kind = ?T and K = "{?T}" and V = True and stream = s1]]])
    fix a1
    have "triple (\<lambda>w. ((stamped ?T s1 True ?t1 w \<and> only_kinds {?T} w) \<and> has_writer (writer_ok budget []) w) \<and>
        (observed ?T s1 ?t1 a1 \<and> snd (ad_pose_samples ad) = None))
        (bindS (pure (lookup_key stream_by_key ''lidar-lidar'')) (\<lambda>s2. ?rest1 s2 a1)) (scanned env ad stream_by_key budget) (\<lambda>_. True)"
    proof (rule triple_fact, rule triple_pure_then, rule triple_from [OF second])
      fix s2 w
      assume "(stamped ?T s1 True ?t1 w \<and> only_kinds {?T} w) \<and> has_writer (writer_ok budget []) w"
      then show "(stamped ?L s2 (distinct ?t1) [] w \<and> only_kinds {?T, ?L} w) \<and> has_writer (writer_ok budget []) w"
        using next_kind [of ?T s1 True ?t1 w "{?T}" ?L "{?T, ?L}" s2] by (simp add: insert_commute)
    qed auto
    then show "triple (\<lambda>w. (stamped ?T s1 True ?t1 w \<and> only_kinds {?T} w \<and> observed ?T s1 ?t1 a1 \<and>
        snd (ad_pose_samples ad) = None) \<and> has_writer (writer_ok budget []) w)
        (bindS (pure (lookup_key stream_by_key ''lidar-lidar'')) (\<lambda>s2. ?rest1 s2 a1)) (scanned env ad stream_by_key budget) (\<lambda>_. True)"
      by (rule triple_from) auto
  qed (auto simp: stamped_def only_kinds_def)
qed

end
