(* ===== verification/IndexingPublish.thy ===== *)
theory IndexingPublish
  imports IndexingCorrect
begin

text \<open>
  The temporary directory and the publication: what \<open>index_recording\<close> leaves at the destination, for
  every adapter, budget and pattern of failures.
\<close>

section \<open>The temporary directory\<close>

lemma triple_write_file:
  "triple (\<lambda>w. sg_temporary w = Some fs) (write_file env k name content) (\<lambda>_ w. sg_temporary w = Some (fs @ [(name, content)])) (\<lambda>_. True)"
  unfolding write_file_def
  by (rule triple_bind [OF triple_weaken [OF triple_io [of "\<lambda>w. sg_temporary w = Some fs"]] triple_change]) auto

lemma keeps_write_file [keeps_intros]:
  "(\<And>w n. f (w\<lparr>sg_clock := n\<rparr>) = f w) \<Longrightarrow> (\<And>w t. f (w\<lparr>sg_temporary := t\<rparr>) = f w) \<Longrightarrow> keeps f (write_file env k name content)"
  unfolding write_file_def by (intro keeps_intros keeps_io keeps_change) simp_all

lemma keeps_open_index [keeps_intros]:
  "(\<And>w n. f (w\<lparr>sg_clock := n\<rparr>) = f w) \<Longrightarrow> (\<And>w b. f (w\<lparr>sg_writer := b\<rparr>) = f w) \<Longrightarrow> keeps f (open_index env budget)"
  unfolding open_index_def by (intro keeps_intros keeps_io keeps_change) simp_all

lemma keeps_finish_index [keeps_intros]:
  "(\<And>w n. f (w\<lparr>sg_clock := n\<rparr>) = f w) \<Longrightarrow> (\<And>w b. f (w\<lparr>sg_writer := b\<rparr>) = f w) \<Longrightarrow>
   (\<And>w t. f (w\<lparr>sg_temporary := t\<rparr>) = f w) \<Longrightarrow> keeps f (finish_index env)"
  unfolding finish_index_def by (intro keeps_intros) simp_all

lemma keeps_scan [keeps_intros]:
  "(\<And>w n. f (w\<lparr>sg_clock := n\<rparr>) = f w) \<Longrightarrow> (\<And>w c. f (w\<lparr>sg_collector := c\<rparr>) = f w) \<Longrightarrow> (\<And>w s. f (w\<lparr>sg_seen := s\<rparr>) = f w) \<Longrightarrow>
   (\<And>w b. f (w\<lparr>sg_writer := b\<rparr>) = f w) \<Longrightarrow> keeps f (scan_ranges_and_frames env ad stream_by_key)"
  unfolding scan_ranges_and_frames_def Let_def observe_sample_def by (intro keeps_intros) simp_all

lemma keeps_finally [keeps_intros]:
  assumes "keeps f m" and "keeps f h"
  shows "keeps f (finally_do m h)"
  unfolding keeps_def
proof
  fix w
  have m: "f (snd (m w)) = f w" and h: "f (snd (h w')) = f w'" for w'
    using assms by (simp_all add: keeps_def)
  show "f (snd (finally_do m h w)) = f w"
    by (cases "m w") (use m h [of "snd (m w)"] in \<open>auto simp: finally_do_def split: outcome.split prod.split\<close>)
qed

lemma finish_index_ok:
  "triple (\<lambda>w. has_writer (writer_ok budget written) w \<and> sg_temporary w = Some fs) (finish_index env)
     (\<lambda>h w. h = ie_sha env (concat written) \<and> has_writer (writer_ok budget written) w \<and>
        sg_temporary w = Some (fs @ [(INDEX_FILE, concat written)])) (\<lambda>_. True)"
  unfolding finish_index_def
proof (rule triple_bind [OF triple_frame [OF flush_index_ok, where f = sg_temporary and G = "\<lambda>t. t = Some fs"]])
  let ?flushed = "\<lambda>b :: index_writer. writer_ok budget written b \<and> wr_buffer b = []"
  have all: "wr_stream b = concat written \<and> wr_hashed b = concat written" if "?flushed b" for b
    using that by (auto simp: writer_ok_def)
  have wrote: "triple (\<lambda>w. sg_temporary w = Some fs \<and> has_writer (\<lambda>b'. b' = b) w)
     (bindS (write_file env FINISH_INDEX INDEX_FILE (wr_stream b)) (\<lambda>_. ret (ie_sha env (wr_hashed b))))
     (\<lambda>h w. h = ie_sha env (wr_hashed b) \<and> has_writer (\<lambda>b'. b' = b) w \<and> sg_temporary w = Some (fs @ [(INDEX_FILE, wr_stream b)]))
     (\<lambda>_. True)" for b
    by (rule triple_bind [OF triple_frame [OF triple_write_file, where f = sg_writer and G = "\<lambda>x. \<exists>b'. x = Some b' \<and> b' = b"] triple_ret])
      (auto intro!: keeps_intros simp: has_writer_def)
  have read: "triple (\<lambda>w. has_writer ?flushed w \<and> sg_temporary w = Some fs) the_writer
      (\<lambda>b w. (sg_temporary w = Some fs \<and> has_writer (\<lambda>b'. b' = b) w) \<and> ?flushed b) (\<lambda>_. True)"
    unfolding the_writer_def by (rule triple_lift) (auto simp: has_writer_def)
  show "triple (\<lambda>w. has_writer ?flushed w \<and> sg_temporary w = Some fs)
     (bindS the_writer (\<lambda>b. bindS (write_file env FINISH_INDEX INDEX_FILE (wr_stream b)) (\<lambda>_. ret (ie_sha env (wr_hashed b)))))
     (\<lambda>h w. h = ie_sha env (concat written) \<and> has_writer (writer_ok budget written) w \<and>
        sg_temporary w = Some (fs @ [(INDEX_FILE, concat written)])) (\<lambda>_. True)"
  proof (rule triple_bind [OF read], rule triple_fact)
    fix b assume "?flushed b"
    then show "triple (\<lambda>w. sg_temporary w = Some fs \<and> has_writer (\<lambda>b'. b' = b) w)
       (bindS (write_file env FINISH_INDEX INDEX_FILE (wr_stream b)) (\<lambda>_. ret (ie_sha env (wr_hashed b))))
       (\<lambda>h w. h = ie_sha env (concat written) \<and> has_writer (writer_ok budget written) w \<and>
          sg_temporary w = Some (fs @ [(INDEX_FILE, concat written)])) (\<lambda>_. True)"
      using all [of b] by (intro triple_post [OF wrote]) (auto simp: has_writer_def)
  qed
qed (auto intro!: keeps_intros)

section \<open>The index\<close>

text \<open>What is known when the index is written.\<close>

definition indexed ::
  "ingestion_env \<Rightarrow> adapter \<Rightarrow> (string \<times> string) list \<Rightarrow> nat \<Rightarrow> (string \<times> string) list \<Rightarrow> source_range list \<Rightarrow> string \<Rightarrow>
   staging \<Rightarrow> bool" where
  "indexed env ad stream_by_key budget fs ranges h w \<longleftrightarrow>
     scanned env ad stream_by_key budget ranges w \<and>
     (\<exists>es. index_entries env stream_by_key (enumerate 0 (fst (ad_frames ad))) = Inr es \<and>
        sg_temporary w = Some (fs @ [(INDEX_FILE, concat (map (entry_line env) es))]) \<and>
        h = ie_sha env (concat (map (entry_line env) es)))"

lemma scanned_finish:
  "triple (\<lambda>w. scanned env ad stream_by_key budget ranges w \<and> sg_temporary w = Some fs) (finish_index env)
     (indexed env ad stream_by_key budget fs ranges) (\<lambda>_. True)"
proof -
  let ?W = "\<lambda>es w. has_writer (writer_ok budget (map (entry_line env) es)) w \<and> sg_temporary w = Some fs"
  let ?E = "\<lambda>es. index_entries env stream_by_key (enumerate 0 (fst (ad_frames ad))) = Inr es \<and>
     read_completely ad \<and> list_all2 describes ranges (recorded_times ad)"
  let ?C = "\<lambda>c. collector_ok c \<and> (has_blocking c \<or> list_all (distinct \<circ> snd) (recorded_times ad))"
  have finish: "triple (\<lambda>w. ?W es w \<and> ?C (sg_collector w)) (finish_index env) (\<lambda>h w.
      (h = ie_sha env (concat (map (entry_line env) es)) \<and> has_writer (writer_ok budget (map (entry_line env) es)) w \<and>
        sg_temporary w = Some (fs @ [(INDEX_FILE, concat (map (entry_line env) es))])) \<and> ?C (sg_collector w)) (\<lambda>_. True)" for es
    by (rule triple_frame [OF finish_index_ok, where f = sg_collector]) (auto intro!: keeps_intros)
  have "triple (\<lambda>w. \<exists>es. (?W es w \<and> ?C (sg_collector w)) \<and> ?E es) (finish_index env)
      (indexed env ad stream_by_key budget fs ranges) (\<lambda>_. True)"
    by (rule triple_exists, rule triple_fact, rule triple_post [OF finish]) (auto simp: indexed_def scanned_def)
  then show ?thesis by (rule triple_from) (auto simp: scanned_def)
qed

definition without_database :: "(string \<times> string) list \<Rightarrow> (string \<times> string) list" where
  "without_database = filter (\<lambda>(name, _). name \<noteq> DATABASE_FILE)"

lemma index_database_ok:
  assumes "without_database fs = fs"
  shows "triple (\<lambda>w. (sg_seen w = [] \<and> collector_ok (sg_collector w)) \<and> sg_temporary w = Some fs)
     (index_database env ad stream_by_key budget)
     (\<lambda>x. indexed env ad stream_by_key budget fs (fst x) (snd x)) (\<lambda>_. True)"
  unfolding index_database_def
proof (rule triple_bind [where M = "\<lambda>_ w. (sg_seen w = [] \<and> collector_ok (sg_collector w)) \<and> sg_temporary w = Some (fs @ [(DATABASE_FILE, [])])"])
  let ?fs = "fs @ [(DATABASE_FILE, [])]"
  have "triple (\<lambda>w. sg_temporary w = Some fs \<and> (sg_seen w = [] \<and> collector_ok (sg_collector w)))
      (write_file env OPEN_DATABASE DATABASE_FILE []) (\<lambda>_ w. sg_temporary w = Some ?fs \<and> (sg_seen w = [] \<and> collector_ok (sg_collector w)))
      (\<lambda>_. True)"
    by (rule triple_frame [OF triple_write_file, where f = "\<lambda>w. (sg_seen w, sg_collector w)"
          and G = "\<lambda>(s, c). s = [] \<and> collector_ok c"]) (auto intro!: keeps_intros)
  then show "triple (\<lambda>w. (sg_seen w = [] \<and> collector_ok (sg_collector w)) \<and> sg_temporary w = Some fs)
      (write_file env OPEN_DATABASE DATABASE_FILE []) (\<lambda>_ w. (sg_seen w = [] \<and> collector_ok (sg_collector w)) \<and> sg_temporary w = Some ?fs)
      (\<lambda>_. True)"
    by (rule triple_weaken) auto
  have opened: "triple (\<lambda>w. (sg_seen w = [] \<and> collector_ok (sg_collector w)) \<and> sg_temporary w = Some ?fs) (open_index env budget)
      (\<lambda>_ w. (sg_seen w = [] \<and> collector_ok (sg_collector w) \<and> has_writer (writer_ok budget []) w) \<and> sg_temporary w = Some ?fs) (\<lambda>_. True)"
    unfolding open_index_def
    by (rule triple_bind [OF triple_weaken [OF triple_io [of "\<lambda>w. (sg_seen w = [] \<and> collector_ok (sg_collector w)) \<and> sg_temporary w = Some ?fs"]]
          triple_change]) (auto simp: has_writer_def writer_ok_def)
  have scanned: "triple (\<lambda>w. (sg_seen w = [] \<and> collector_ok (sg_collector w) \<and> has_writer (writer_ok budget []) w) \<and> sg_temporary w = Some ?fs)
      (scan_ranges_and_frames env ad stream_by_key)
      (\<lambda>ranges w. scanned env ad stream_by_key budget ranges w \<and> sg_temporary w = Some ?fs) (\<lambda>_. True)"
    by (rule triple_frame [OF scan_ok, where f = sg_temporary]) (auto intro!: keeps_intros)
  have commit: "triple (\<lambda>w. scanned env ad stream_by_key budget ranges w \<and> sg_temporary w = Some ?fs) (io env COMMIT_DATABASE)
      (\<lambda>_ w. scanned env ad stream_by_key budget ranges w \<and> sg_temporary w = Some ?fs) (\<lambda>_. True)" for ranges
    by (rule triple_weaken [OF triple_io [of "\<lambda>w. scanned env ad stream_by_key budget ranges w \<and> sg_temporary w = Some ?fs"]])
      (auto simp: scanned_def has_writer_def)
  have body: "triple (\<lambda>w. (sg_seen w = [] \<and> collector_ok (sg_collector w)) \<and> sg_temporary w = Some ?fs)
      (bindS (open_index env budget) (\<lambda>_. bindS (scan_ranges_and_frames env ad stream_by_key) (\<lambda>ranges.
        bindS (io env COMMIT_DATABASE) (\<lambda>_. bindS (finish_index env) (\<lambda>h. ret (ranges, h))))))
      (\<lambda>x. indexed env ad stream_by_key budget ?fs (fst x) (snd x)) (\<lambda>_. True)"
    by (rule triple_bind [OF opened triple_bind [OF scanned triple_bind [OF commit triple_bind [OF scanned_finish triple_ret]]]]) simp
  have close: "triple (indexed env ad stream_by_key budget ?fs ranges h)
      (bindS (io env CLOSE_DATABASE) (\<lambda>_. change (\<lambda>w. w\<lparr>sg_temporary :=
          map_option (filter (\<lambda>(name, _). name \<noteq> DATABASE_FILE)) (sg_temporary w)\<rparr>)))
      (\<lambda>_. indexed env ad stream_by_key budget fs ranges h) (\<lambda>_. True)" for ranges h
  proof (rule triple_bind [OF triple_weaken [OF triple_io [of "indexed env ad stream_by_key budget ?fs ranges h"]] triple_change])
    have keep: "without_database (?fs @ [(INDEX_FILE, i)]) = fs @ [(INDEX_FILE, i)]" for i
      using assms by (simp add: without_database_def DATABASE_FILE_def INDEX_FILE_def)
    fix w assume "indexed env ad stream_by_key budget ?fs ranges h w"
    then show "indexed env ad stream_by_key budget fs ranges h
        (w\<lparr>sg_temporary := map_option (filter (\<lambda>(name, _). name \<noteq> DATABASE_FILE)) (sg_temporary w)\<rparr>)"
      using keep unfolding without_database_def by (auto simp: indexed_def scanned_def has_writer_def)
  qed (auto simp: indexed_def scanned_def has_writer_def)
  show "triple (\<lambda>w. (sg_seen w = [] \<and> collector_ok (sg_collector w)) \<and> sg_temporary w = Some ?fs)
      (finally_do
       (bindS (open_index env budget) (\<lambda>_. bindS (scan_ranges_and_frames env ad stream_by_key) (\<lambda>ranges.
        bindS (io env COMMIT_DATABASE) (\<lambda>_. bindS (finish_index env) (\<lambda>h. ret (ranges, h))))))
       (bindS (io env CLOSE_DATABASE) (\<lambda>_. change (\<lambda>w. w\<lparr>sg_temporary :=
          map_option (filter (\<lambda>(name, _). name \<noteq> DATABASE_FILE)) (sg_temporary w)\<rparr>))))
      (\<lambda>x. indexed env ad stream_by_key budget fs (fst x) (snd x)) (\<lambda>_. True)"
    by (rule triple_finally [OF body], rule close) (auto intro: returns_any [unfolded returns_def])
qed

section \<open>Publication\<close>

definition completion_text :: "ingestion_env \<Rightarrow> string \<Rightarrow> string \<Rightarrow> string \<Rightarrow> string \<Rightarrow> string \<Rightarrow> string" where
  "completion_text env sequence_id source_identity m i s = dumps (completion_dump
     \<lparr>ic_sequence_id = sequence_id, ic_source_identity_sha256 = source_identity, ic_manifest = ie_sha env m,
      ic_index = ie_sha env i, ic_summary = ie_sha env s\<rparr>) @ [CHR 0x0A]"

text \<open>The four files, the last of which names the digests of the others.\<close>

definition index_files :: "ingestion_env \<Rightarrow> string \<Rightarrow> string \<Rightarrow> string \<Rightarrow> string \<Rightarrow> string \<Rightarrow> (string \<times> string) list" where
  "index_files env sequence_id source_identity m i s =
     [(MANIFEST_FILE, m), (INDEX_FILE, i), (SUMMARY_FILE, s), (COMPLETION_FILE, completion_text env sequence_id source_identity m i s)]"

definition complete_index :: "ingestion_env \<Rightarrow> (string \<times> string) list \<Rightarrow> bool" where
  "complete_index env files \<longleftrightarrow> (\<exists>sequence_id source_identity m i s. files = index_files env sequence_id source_identity m i s)"

text \<open>Nothing at the destination, or a complete index whose directory entry could not be synchronised.\<close>

definition unpublished :: "ingestion_env \<Rightarrow> staging \<Rightarrow> bool" where
  "unpublished env w \<longleftrightarrow> sg_output w = None \<or>
     (\<exists>files n. sg_output w = Some files \<and> complete_index env files \<and> ie_fault env SYNC_PARENT n \<noteq> Proceed)"

lemma triple_staged:
  assumes "triple P m Q (\<lambda>_. True)" and "keeps sg_output m"
  shows "triple (\<lambda>w. P w \<and> sg_output w = None) m (\<lambda>x w. Q x w \<and> sg_output w = None) (unpublished env)"
  by (rule triple_weaken [OF triple_conj [OF assms(1) triple_keeps [OF assms(2), of "\<lambda>x. x = None"]]])
    (auto simp: unpublished_def)

lemma triple_pure_bind:
  "(\<And>w. P w \<Longrightarrow> R w) \<Longrightarrow> (\<And>x. r = Inr x \<Longrightarrow> triple P (f x) Q R) \<Longrightarrow> triple P (bindS (pure r) f) Q R"
  unfolding triple_def pure_def liftS_def bindS_def by (cases r) simp_all

lemma publish_index_ok:
  assumes "complete_index env fs"
  shows "triple (\<lambda>w. sg_temporary w = Some fs \<and> sg_output w = None) (publish_index env)
     (\<lambda>_ w. sg_output w = Some fs \<and> sg_temporary w = None) (unpublished env)"
proof (rule triple_pointwise)
  fix w :: staging assume w: "sg_temporary w = Some fs \<and> sg_output w = None"
  show "meets (\<lambda>_ w. sg_output w = Some fs \<and> sg_temporary w = None) (unpublished env) (publish_index env w)"
  proof (cases "ie_fault env SYNC_TEMPORARY (sg_clock w) = Proceed \<and> ie_fault env REPLACE (sg_clock w + 1) = Proceed")
    case True
    then show ?thesis
      using w assms
      by (cases "ie_fault env SYNC_PARENT (sg_clock w + 2)")
        (auto simp: publish_index_def bindS_def io_def change_def modifyS_def Let_def unpublished_def numeral_2_eq_2
          intro!: exI [of _ "Suc (Suc (sg_clock w))"])
  next
    case False
    then show ?thesis
      using w by (auto simp: publish_index_def bindS_def io_def Let_def unpublished_def split: io_result.split)
  qed
qed

lemma write_json_ok:
  "triple (\<lambda>w. sg_temporary w = Some fs) (write_json env k name v)
     (\<lambda>h w. \<exists>t. t = dumps v @ [CHR 0x0A] \<and> h = ie_sha env t \<and> sg_temporary w = Some (fs @ [(name, t)])) (\<lambda>_. True)"
  unfolding write_json_def
  by (rule triple_pure_then, rule triple_bind [OF triple_write_file], rule triple_ret) (auto dest: index_json_Inr)

lemma keeps_write_json [keeps_intros]:
  "(\<And>w n. f (w\<lparr>sg_clock := n\<rparr>) = f w) \<Longrightarrow> (\<And>w t. f (w\<lparr>sg_temporary := t\<rparr>) = f w) \<Longrightarrow> keeps f (write_json env k name v)"
  unfolding write_json_def by (intro keeps_intros) simp_all

text \<open>What an accepted qualification says about the published files.\<close>

definition describes_files ::
  "ingestion_env \<Rightarrow> adapter \<Rightarrow> (string \<times> string) list \<Rightarrow> nat \<Rightarrow> string \<Rightarrow> string \<Rightarrow> string \<Rightarrow> (string \<times> string) list \<Rightarrow> qualification \<Rightarrow> bool" where
  "describes_files env ad stream_by_key budget sequence_id source_identity m files q \<longleftrightarrow>
     iq_accepted q \<and> iq_published q \<and> iq_sequence_id q = Some sequence_id \<and> iq_source_identity_sha256 q = Some source_identity \<and>
     iq_maximum_retained_index_batch_bytes q \<le> budget \<and> list_all (\<lambda>f. \<not> sg_blocking f) (iq_structural_findings q) \<and>
     read_completely ad \<and> list_all (distinct \<circ> snd) (recorded_times ad) \<and>
     list_all2 describes (iq_source_ranges q) (recorded_times ad) \<and>
     iq_frame_index_entry_count q = length (fst (ad_frames ad)) \<and>
     (\<exists>es s. index_entries env stream_by_key (enumerate 0 (fst (ad_frames ad))) = Inr es \<and>
        (let i = concat (map (entry_line env) es); c = completion_text env sequence_id source_identity m i s in
         files = index_files env sequence_id source_identity m i s \<and>
         iq_artifact_sha256 q = [(''completion'', ie_sha env c), (''index'', ie_sha env i), (''manifest'', ie_sha env m),
           (''summary'', ie_sha env s)]))"

lemma index_entries_length: "index_entries env d xs = Inr es \<Longrightarrow> length es = length xs"
  unfolding index_entries_def by (rule mapE_length)

lemma findings_unblocked: "\<not> has_blocking c \<Longrightarrow> list_all (\<lambda>f. \<not> sg_blocking f) (finding_values c)"
  by (auto simp: has_blocking_def finding_values_def list_ex_iff list_all_iff)

lemma summary_of_sel [simp]:
  "is_sequence_id (summary_of bu bh m sf si mh ih r f b) = sm_sequence_id m"
  "is_source_identity_sha256 (summary_of bu bh m sf si mh ih r f b) = si"
  "is_manifest_sha256 (summary_of bu bh m sf si mh ih r f b) = mh"
  "is_index_sha256 (summary_of bu bh m sf si mh ih r f b) = ih"
  "is_frame_index_entry_count (summary_of bu bh m sf si mh ih r f b) = wr_entry_count b"
  "is_source_ranges (summary_of bu bh m sf si mh ih r f b) = r"
  "is_structural_findings (summary_of bu bh m sf si mh ih r f b) = f"
  "is_maximum_retained_index_batch_bytes (summary_of bu bh m sf si mh ih r f b) = wr_maximum_buffer_bytes b"
  by (simp_all add: summary_of_def)

definition summary_text :: "index_summary \<Rightarrow> string" where
  "summary_text s = dumps (summary_dump s) @ [CHR 0x0A]"

text \<open>The two last files, with the digests of the first two already in the summary.\<close>

lemma publish_summary_ok:
  assumes "is_manifest_sha256 s = ie_sha env m" and "is_index_sha256 s = ie_sha env i"
    and c: "c = completion_text env (is_sequence_id s) (is_source_identity_sha256 s) m i (summary_text s)"
    and f: "files = index_files env (is_sequence_id s) (is_source_identity_sha256 s) m i (summary_text s)"
  shows "triple (\<lambda>w. sg_temporary w = Some [(MANIFEST_FILE, m), (INDEX_FILE, i)] \<and> sg_output w = None) (publish_summary env s)
     (\<lambda>q w. q = success s (ie_sha env (summary_text s)) (ie_sha env c) \<and> sg_output w = Some files \<and> sg_temporary w = None)
     (unpublished env)"
  unfolding publish_summary_def
proof (rule triple_pure_bind)
  fix u
  let ?fs = "[(MANIFEST_FILE, m), (INDEX_FILE, i)]" and ?t = "summary_text s"
  have summary: "triple (\<lambda>w. sg_temporary w = Some ?fs \<and> sg_output w = None) (write_json env WRITE_SUMMARY SUMMARY_FILE (summary_dump s))
      (\<lambda>h w. (sg_temporary w = Some (?fs @ [(SUMMARY_FILE, ?t)]) \<and> sg_output w = None) \<and> h = ie_sha env ?t) (unpublished env)"
    by (rule triple_post [OF triple_staged [OF write_json_ok]]) (auto intro!: keeps_intros simp: summary_text_def)
  have completion: "triple (\<lambda>w. sg_temporary w = Some (?fs @ [(SUMMARY_FILE, ?t)]) \<and> sg_output w = None)
      (write_json env WRITE_COMPLETION COMPLETION_FILE (completion_dump (completion_of s (ie_sha env ?t))))
      (\<lambda>h w. (sg_temporary w = Some files \<and> sg_output w = None) \<and> h = ie_sha env c) (unpublished env)"
    by (rule triple_post [OF triple_staged [OF write_json_ok]])
      (use assms in \<open>auto intro!: keeps_intros simp: completion_text_def index_files_def completion_of_def\<close>)
  have complete: "complete_index env files" unfolding complete_index_def f by blast
  show "triple (\<lambda>w. sg_temporary w = Some ?fs \<and> sg_output w = None)
     (bindS (write_json env WRITE_SUMMARY SUMMARY_FILE (summary_dump s)) (\<lambda>summary_sha256.
      bindS (write_json env WRITE_COMPLETION COMPLETION_FILE (completion_dump (completion_of s summary_sha256))) (\<lambda>completion_sha256.
      bindS (publish_index env) (\<lambda>_. ret (success s summary_sha256 completion_sha256)))))
     (\<lambda>q w. q = success s (ie_sha env ?t) (ie_sha env c) \<and> sg_output w = Some files \<and> sg_temporary w = None) (unpublished env)"
    by (rule triple_bind [OF summary], rule triple_fact, simp only:, rule triple_bind [OF completion], rule triple_fact, simp only:,
        rule triple_bind [OF publish_index_ok [OF complete]], rule triple_ret) simp
qed (simp add: unpublished_def)

section \<open>A recording\<close>

text \<open>An accepted recording: the files are the index of the recording the adapter described, which did
  not change while it was read.\<close>

definition accepted_recording ::
  "ingestion_env \<Rightarrow> adapter \<Rightarrow> ingestion_budget \<Rightarrow> adapter_source list \<Rightarrow> (string \<times> string) list \<Rightarrow> qualification \<Rightarrow> bool" where
  "accepted_recording env ad budget sources files q \<longleftrightarrow>
     (\<exists>source_files source_identity manifest stream_by_key t latest.
        hash_sources (ie_sha env) ad sources (ib_hash_chunk_bytes budget) = Inr (source_files, source_identity) \<and>
        build_manifest (ie_sha env) (ie_repr env) ad source_files source_identity = Inr (manifest, stream_by_key) \<and>
        canonicalize_portable_artifact (ie_model env) (ie_native env) SEQUENCE_MANIFEST
          (manifest_document_dump (ie_repr env) manifest) = Inr t \<and>
        exhaust (ad_source_files ad True) = Inr latest \<and> snapshot latest = snapshot sources \<and>
        describes_files env ad stream_by_key (ib_index_batch_bytes budget) (sm_sequence_id manifest) source_identity
          (t @ [CHR 0x0A]) files q)"

definition concluded ::
  "ingestion_env \<Rightarrow> adapter \<Rightarrow> ingestion_budget \<Rightarrow> adapter_source list \<Rightarrow> qualification \<Rightarrow> staging \<Rightarrow> bool" where
  "concluded env ad budget sources q w \<longleftrightarrow>
     (if iq_accepted q then \<exists>files. sg_output w = Some files \<and> accepted_recording env ad budget sources files q
      else unpublished env w)"

lemma failure_not_accepted [simp]: "\<not> iq_accepted (failure budget h fs n b m r)"
  by (simp add: failure_def)

lemma report_failure_ok:
  "triple (unpublished env) (report_failure budget h n b m r) (concluded env ad budget' sources) (unpublished env)"
  unfolding report_failure_def inspect_def by (rule triple_lift) (auto simp: concluded_def)

lemma indexed_report:
  "indexed env ad d n fs ranges h w \<Longrightarrow> indexed env ad d n fs ranges h (w\<lparr>sg_collector := add_finding f (sg_collector w)\<rparr>)"
  using add_finding_ok [of "sg_collector w" f] by (auto simp: indexed_def scanned_def has_writer_def)

lemma indexed_blocks:
  "indexed env ad d n fs ranges h w \<Longrightarrow> sg_blocking f \<Longrightarrow> has_blocking (add_finding f (sg_collector w))"
  using add_finding_ok(3) by (auto simp: indexed_def scanned_def)

lemma keeps_index_database [keeps_intros]: "keeps sg_output (index_database env ad stream_by_key budget)"
  unfolding index_database_def by (intro keeps_intros keeps_io keeps_change) simp_all

text \<open>The sources are those of the first enumeration, or something blocks.\<close>

definition unchanged :: "adapter \<Rightarrow> adapter_source list \<Rightarrow> bool" where
  "unchanged ad sources \<longleftrightarrow> (\<exists>latest. exhaust (ad_source_files ad True) = Inr latest \<and> snapshot latest = snapshot sources)"

lemma compare_sources_ok:
  "triple (\<lambda>w. indexed env ad d n fs ranges h w \<and> sg_output w = None) (compare_sources ad sources)
     (\<lambda>_ w. (indexed env ad d n fs ranges h w \<and> (has_blocking (sg_collector w) \<or> unchanged ad sources)) \<and> sg_output w = None)
     (unpublished env)"
  unfolding compare_sources_def report_finding_def
proof (rule triple_pure_bind, simp add: unpublished_def, rule triple_if, goal_cases)
  case (1 latest)
  then show ?case
    using indexed_blocks by (intro triple_change) (auto simp: sequence_finding_def intro: indexed_report)
next
  case (2 latest)
  then show ?case by (intro triple_ret) (auto simp: unchanged_def)
qed

lemma conclude_recording_ok:
  "triple (\<lambda>w. (indexed env ad d (ib_index_batch_bytes budget) [(MANIFEST_FILE, m)] ranges h w \<and>
        (has_blocking (sg_collector w) \<or> V)) \<and> sg_output w = None)
     (conclude_recording env budget budget_sha256 sources manifest source_files source_identity (ie_sha env m) ranges h)
     (\<lambda>q w. if iq_accepted q then V \<and> (\<exists>files. sg_output w = Some files \<and>
          describes_files env ad d (ib_index_batch_bytes budget) (sm_sequence_id manifest) source_identity m files q)
        else unpublished env w)
     (unpublished env)"
  (is "triple ?P _ ?Q _")
  unfolding conclude_recording_def
proof -
  let ?n = "ib_index_batch_bytes budget" and ?i = "\<lambda>es. concat (map (entry_line env) es)"
  let ?fs = "\<lambda>es. [(MANIFEST_FILE, m), (INDEX_FILE, ?i es)]"
  let ?S = "\<lambda>es w. (sg_temporary w = Some (?fs es) \<and> (has_blocking (sg_collector w) \<or> list_all (distinct \<circ> snd) (recorded_times ad) \<and> V)) \<and>
     sg_output w = None"
  let ?F = "\<lambda>es b. index_entries env d (enumerate 0 (fst (ad_frames ad))) = Inr es \<and> h = ie_sha env (?i es) \<and>
     wr_entry_count b = length es \<and> wr_maximum_buffer_bytes b \<le> ?n \<and> read_completely ad \<and>
     list_all2 describes ranges (recorded_times ad)"
  have read: "triple ?P the_writer (\<lambda>b w. \<exists>es. ?S es w \<and> ?F es b) (unpublished env)"
    unfolding the_writer_def
    by (rule triple_lift) (auto simp: indexed_def scanned_def has_writer_def writer_ok_def unpublished_def)
  have ask: "triple (?S es) (inspect sg_collector) (\<lambda>c w. (sg_temporary w = Some (?fs es) \<and> sg_output w = None) \<and>
      (has_blocking c \<or> list_all (distinct \<circ> snd) (recorded_times ad) \<and> V)) (unpublished env)" for es
    unfolding inspect_def by (rule triple_lift) (auto simp: unpublished_def)
  show "triple ?P (bindS the_writer (\<lambda>b. if ?n < wr_maximum_buffer_bytes b
       then pure (Inl (ValueError ''frame-index writer exceeded its frozen byte budget''))
       else bindS (inspect sg_collector) (\<lambda>findings.
         if has_blocking findings
         then report_failure budget budget_sha256 (length sources) (sum_list (map ao_byte_count sources)) (wr_maximum_buffer_bytes b) ranges
         else publish_summary env (summary_of budget budget_sha256 manifest source_files source_identity (ie_sha env m) h ranges
                (finding_values findings) b)))) ?Q (unpublished env)"
  proof (rule triple_bind [OF read], rule triple_exists, rule triple_fact, rule triple_if, goal_cases)
    case (2 b es)
    show ?case
    proof (rule triple_bind [OF ask], rule triple_fact, rule triple_if, goal_cases)
      case (1 c)
      show ?case unfolding report_failure_def inspect_def by (rule triple_lift) (auto simp: unpublished_def)
    next
      case (2 c)
      let ?s = "summary_of budget budget_sha256 manifest source_files source_identity (ie_sha env m) h ranges (finding_values c) b"
      from \<open>?F es b\<close> have s: "is_manifest_sha256 ?s = ie_sha env m" "is_index_sha256 ?s = ie_sha env (?i es)" by simp_all
      have "length es = length (fst (ad_frames ad))"
        using \<open>?F es b\<close> index_entries_length [of env d "enumerate 0 (fst (ad_frames ad))" es] by simp
      with 2 \<open>?F es b\<close> show ?case
        by (intro triple_post [OF publish_summary_ok [OF s refl refl]])
          (auto simp: describes_files_def success_def findings_unblocked Let_def)
    qed
  qed (unfold pure_def, rule triple_lift, auto simp: unpublished_def)
qed

lemma concluded_intro:
  assumes "hash_sources (ie_sha env) ad sources (ib_hash_chunk_bytes budget) = Inr hashed"
    and "build_manifest (ie_sha env) (ie_repr env) ad (fst hashed) (snd hashed) = Inr built"
    and "canonicalize_portable_artifact (ie_model env) (ie_native env) SEQUENCE_MANIFEST
       (manifest_document_dump (ie_repr env) (fst built)) = Inr t"
    and "if iq_accepted q then unchanged ad sources \<and> (\<exists>files. sg_output w = Some files \<and>
        describes_files env ad (snd built) (ib_index_batch_bytes budget) (sm_sequence_id (fst built)) (snd hashed) (t @ [CHR 0x0A]) files q)
      else unpublished env w"
  shows "concluded env ad budget sources q w"
proof (cases "iq_accepted q")
  case True
  with assms(4) obtain files latest where w: "sg_output w = Some files"
    and files: "describes_files env ad (snd built) (ib_index_batch_bytes budget) (sm_sequence_id (fst built)) (snd hashed)
        (t @ [CHR 0x0A]) files q"
    and latest: "exhaust (ad_source_files ad True) = Inr latest" "snapshot latest = snapshot sources"
    by (auto simp: unchanged_def)
  have "accepted_recording env ad budget sources files q"
    unfolding accepted_recording_def
    by (rule exI [of _ "fst hashed"], rule exI [of _ "snd hashed"], rule exI [of _ "fst built"], rule exI [of _ "snd built"])
      (use assms(1-3) files latest in auto)
  then show ?thesis using True w by (auto simp: concluded_def)
next
  case False
  then show ?thesis using assms(4) by (simp add: concluded_def)
qed

lemma stage_recording_ok:
  "triple (\<lambda>w. (sg_temporary w = Some [] \<and> sg_seen w = [] \<and> collector_ok (sg_collector w)) \<and> sg_output w = None)
     (stage_recording env ad budget budget_sha256 sources) (concluded env ad budget sources) (unpublished env)"
  (is "triple ?P _ _ _")
  unfolding stage_recording_def Let_def
proof (rule triple_pure_bind, simp add: unpublished_def, unfold case_prod_beta, rule triple_pure_bind, simp add: unpublished_def,
    rule triple_pure_bind, simp add: unpublished_def)
  fix hashed built t
  let ?n = "ib_index_batch_bytes budget" and ?m = "t @ [CHR 0x0A]"
  assume facts: "hash_sources (ie_sha env) ad sources (ib_hash_chunk_bytes budget) = Inr hashed"
    "build_manifest (ie_sha env) (ie_repr env) ad (fst hashed) (snd hashed) = Inr built"
    "canonicalize_portable_artifact (ie_model env) (ie_native env) SEQUENCE_MANIFEST
       (manifest_document_dump (ie_repr env) (fst built)) = Inr t"
  have "triple (\<lambda>w. sg_temporary w = Some [] \<and> (sg_seen w = [] \<and> collector_ok (sg_collector w)))
      (write_file env WRITE_MANIFEST MANIFEST_FILE ?m)
      (\<lambda>_ w. sg_temporary w = Some ([] @ [(MANIFEST_FILE, ?m)]) \<and> (sg_seen w = [] \<and> collector_ok (sg_collector w))) (\<lambda>_. True)"
    by (rule triple_frame [OF triple_write_file, where f = "\<lambda>w. (sg_seen w, sg_collector w)"
          and G = "\<lambda>(s, c). s = [] \<and> collector_ok c"]) (auto intro!: keeps_intros)
  then have wrote: "triple ?P (write_file env WRITE_MANIFEST MANIFEST_FILE ?m)
      (\<lambda>_ w. ((sg_seen w = [] \<and> collector_ok (sg_collector w)) \<and> sg_temporary w = Some [(MANIFEST_FILE, ?m)]) \<and> sg_output w = None)
      (unpublished env)"
    by (rule triple_weaken [OF triple_staged]) (auto intro!: keeps_intros)
  have database: "triple (\<lambda>w. ((sg_seen w = [] \<and> collector_ok (sg_collector w)) \<and> sg_temporary w = Some [(MANIFEST_FILE, ?m)]) \<and> sg_output w = None)
      (index_database env ad (snd built) ?n) (\<lambda>x w. indexed env ad (snd built) ?n [(MANIFEST_FILE, ?m)] (fst x) (snd x) w \<and> sg_output w = None)
      (unpublished env)"
    by (rule triple_staged [OF index_database_ok])
      (auto intro!: keeps_intros simp: without_database_def MANIFEST_FILE_def DATABASE_FILE_def)
  show "triple ?P (bindS (write_file env WRITE_MANIFEST MANIFEST_FILE ?m) (\<lambda>_.
     bindS (index_database env ad (snd built) ?n) (\<lambda>x. bindS (compare_sources ad sources) (\<lambda>_.
       conclude_recording env budget budget_sha256 sources (fst built) (fst hashed) (snd hashed) (ie_sha env ?m) (fst x) (snd x)))))
     (concluded env ad budget sources) (unpublished env)"
    by (rule triple_bind [OF wrote triple_bind [OF database triple_bind [OF compare_sources_ok triple_post [OF conclude_recording_ok]]]])
      (erule concluded_intro [OF facts])
qed

end
