(* ===== verification/IngestionProperties.thy ===== *)
theory IngestionProperties
  imports IndexingPublish
begin

text \<open>
  What \<open>index_recording\<close> guarantees as a whole: its handlers and the removal of the temporary
  directory around \<open>stage_recording\<close>, the enumeration of the sources before it, and the properties of
  the ingestion of a recording.
\<close>

section \<open>Around the temporary directory\<close>

text \<open>The destination is absent or holds one complete index.\<close>

definition settled :: "ingestion_env \<Rightarrow> staging \<Rightarrow> bool" where
  "settled env w \<longleftrightarrow> (case sg_output w of None \<Rightarrow> True | Some files \<Rightarrow> complete_index env files)"

lemma unpublished_settled: "unpublished env w \<Longrightarrow> settled env w"
  by (auto simp: unpublished_def settled_def)

lemma describes_complete: "describes_files env ad d n i si m files q \<Longrightarrow> complete_index env files"
  unfolding describes_files_def complete_index_def Let_def by blast

lemma concluded_settled: "concluded env ad budget sources q w \<Longrightarrow> settled env w"
  using describes_complete
  by (fastforce simp: concluded_def accepted_recording_def settled_def unpublished_def split: if_splits)

lemma concluded_same_output: "sg_output w' = sg_output w \<Longrightarrow> concluded env ad budget sources q w' \<longleftrightarrow> concluded env ad budget sources q w"
  by (simp add: concluded_def unpublished_def)

lemma settled_same_output: "sg_output w' = sg_output w \<Longrightarrow> settled env w' \<longleftrightarrow> settled env w"
  by (simp add: settled_def)

lemma triple_late_failure:
  "triple (unpublished env) (bindS (inspect writer_maximum) (\<lambda>n. report_failure budget h files bytes n []))
     (concluded env ad budget' sources) (unpublished env)"
  by (rule triple_bind [OF triple_inspect]) (auto intro: triple_from [OF report_failure_ok])

lemma triple_report_unpublished: "triple (unpublished env) (report_finding f) (\<lambda>_. unpublished env) (unpublished env)"
  unfolding report_finding_def by (rule triple_change) (simp add: unpublished_def)

lemma handler_ok:
  assumes late: "triple (unpublished env) late (concluded env ad budget sources) (unpublished env)"
    and "(case on_adapter_error late e of Some k \<Rightarrow> Some k | None \<Rightarrow> on_read_error late e) = Some k"
  shows "triple (unpublished env) k (concluded env ad budget sources) (unpublished env)"
proof -
  have report: "triple (unpublished env) (bindS (report_finding f) (\<lambda>_. late)) (concluded env ad budget sources) (unpublished env)" for f
    by (rule triple_bind [OF triple_report_unpublished late])
  show ?thesis
  proof (cases "on_adapter_error late e")
    case None
    then have "on_read_error late e = Some k" using assms(2) by simp
    then show ?thesis using report by (auto simp: on_read_error_def split: if_splits)
  next
    case (Some k')
    then have "on_adapter_error late e = Some k" using assms(2) by simp
    then show ?thesis by (cases e) (auto simp: on_adapter_error_def intro: triple_pure_bind report)
  qed
qed

lemma close_staging_ok:
  "triple (concluded env ad budget sources q) (close_staging env)
     (\<lambda>_ w. concluded env ad budget sources q w \<and> sg_temporary w = None) (settled env)"
proof -
  have kept: "keeps sg_output (close_staging env)"
    unfolding close_staging_def by (intro keeps_intros keeps_io keeps_change) simp_all
  have empty: "triple (\<lambda>_. True) (close_staging env) (\<lambda>_ w. sg_temporary w = None) (\<lambda>_. True)"
    unfolding close_staging_def inspect_def
  proof (rule triple_bind [OF returns_any [unfolded returns_def]], rule triple_bind [OF returns_any [unfolded returns_def]],
      rule triple_bind [OF triple_lift [where Q = "\<lambda>b w. b \<longleftrightarrow> sg_temporary w \<noteq> None"]], goal_cases)
    case (3 u u' b)
    have remove: "triple (\<lambda>w. b = (sg_temporary w \<noteq> None))
        (bindS (io env REMOVE_TEMPORARY) (\<lambda>_. change (\<lambda>w. w\<lparr>sg_temporary := None\<rparr>))) (\<lambda>_ w. sg_temporary w = None) (\<lambda>_. True)"
      by (rule triple_bind [OF triple_from [OF returns_any [unfolded returns_def]] triple_change]) simp_all
    show ?case by (rule triple_if, rule remove, rule triple_ret) simp
  qed auto
  have "triple (\<lambda>w. True \<and> concluded env ad budget sources q w) (close_staging env)
      (\<lambda>_ w. sg_temporary w = None \<and> concluded env ad budget sources q w) (\<lambda>w. True \<and> settled env w)"
  proof (rule triple_conj [OF empty], rule triple_pointwise)
    fix w assume w: "concluded env ad budget sources q w"
    have same: "sg_output (snd (close_staging env w)) = sg_output w" using kept by (simp add: keeps_def)
    have q: "concluded env ad budget sources q w'" "settled env w'" if "sg_output w' = sg_output w" for w'
      using w concluded_settled [OF w] concluded_same_output [OF that] settled_same_output [OF that] by simp_all
    show "meets (\<lambda>_ w. concluded env ad budget sources q w) (settled env) (close_staging env w)"
      by (rule outcome_exhaust [of "close_staging env w"])
        (use same q in auto)
  qed
  then show ?thesis by (rule triple_weaken) auto
qed

lemma close_staging_failed: "triple (unpublished env) (close_staging env) (\<lambda>_. settled env) (settled env)"
proof -
  have "keeps sg_output (close_staging env)"
    unfolding close_staging_def by (intro keeps_intros keeps_io keeps_change) simp_all
  then have "triple (settled env) (close_staging env) (\<lambda>_. settled env) (settled env)"
    unfolding settled_def by (rule triple_keeps)
  then show ?thesis by (rule triple_from) (rule unpublished_settled)
qed

section \<open>The enumeration\<close>

text \<open>\<open>V\<close> holds unless something blocks.\<close>

definition guarded :: "bool \<Rightarrow> staging \<Rightarrow> bool" where
  "guarded V w \<longleftrightarrow> collector_ok (sg_collector w) \<and> (has_blocking (sg_collector w) \<or> V)"

lemma triple_guarded_report: "sg_blocking f \<Longrightarrow> triple (guarded V) (report_finding f) (\<lambda>_. guarded V') R"
  unfolding report_finding_def by (rule triple_change) (use add_finding_ok in \<open>auto simp: guarded_def\<close>)

lemma guarded_conj: "(W \<Longrightarrow> W') \<Longrightarrow> guarded W w \<Longrightarrow> guarded W' w"
  by (auto simp: guarded_def)

lemma enumerate_sources_ok:
  "triple (guarded (length acc \<le> limit)) (enumerate_sources limit acc xs e)
     (\<lambda>r. guarded (r = acc @ xs \<and> e = None \<and> length r \<le> limit)) (\<lambda>_. True)"
proof (induction xs arbitrary: acc)
  case Nil
  then show ?case by (cases e) (auto intro: triple_ret triple_pure_end guarded_conj)
next
  case (Cons x xs)
  have limit: "triple (guarded (length acc \<le> limit))
      (bindS (report_finding (sequence_finding SOURCE_READ_ERROR d)) (\<lambda>_. ret acc))
      (\<lambda>r. guarded (r = acc @ x # xs \<and> e = None \<and> length r \<le> limit)) (\<lambda>_. True)" for d
    by (rule triple_bind [OF triple_guarded_report triple_ret]) (simp_all add: sequence_finding_def)
  have "triple (guarded (length acc \<le> limit)) (enumerate_sources limit (acc @ [x]) xs e)
      (\<lambda>r. guarded (r = acc @ x # xs \<and> e = None \<and> length r \<le> limit)) (\<lambda>_. True)" if "\<not> limit \<le> length acc"
    by (rule triple_weaken [OF Cons.IH [of "acc @ [x]"]]) (use that in \<open>auto simp: guarded_def\<close>)
  then show ?case unfolding enumerate_sources.simps by (rule triple_if [OF limit])
qed

lemma report_duplicates_ok:
  "triple (guarded V) (report_duplicates xs) (\<lambda>_. guarded (V \<and> distinct (map ao_source_key xs))) (\<lambda>_. True)"
proof -
  let ?step = "\<lambda>source :: adapter_source. \<lambda>keys. bindS (if ao_source_key source \<in> set keys then report_finding (duplicate_source (ao_source_key source)) else ret ())
      (\<lambda>_. ret (ao_source_key source # keys))"
  let ?I = "\<lambda>xs :: adapter_source list. \<lambda>keys w. guarded (V \<and> distinct (map ao_source_key xs)) w \<and> keys = rev (map ao_source_key xs)"
  have step: "triple (?I ys keys) (?step x keys) (?I (ys @ [x])) (\<lambda>_. True)" for ys :: "adapter_source list" and keys x
  proof (rule triple_fact)
    assume keys: "keys = rev (map ao_source_key ys)"
    show "triple (guarded (V \<and> distinct (map ao_source_key ys))) (?step x keys) (?I (ys @ [x])) (\<lambda>_. True)"
    proof (rule triple_bind [where M = "\<lambda>_. guarded (V \<and> distinct (map ao_source_key (ys @ [x])))"], rule triple_if)
      show "triple (guarded (V \<and> distinct (map ao_source_key ys))) (report_finding (duplicate_source (ao_source_key x)))
          (\<lambda>_. guarded (V \<and> distinct (map ao_source_key (ys @ [x])))) (\<lambda>_. True)"
        by (rule triple_guarded_report) (simp add: duplicate_source_def)
    qed (use keys in \<open>auto intro!: triple_ret elim!: guarded_conj [rotated]\<close>)
  qed
  have "triple (?I [] []) (foldS ?step xs []) (?I xs) (\<lambda>_. True)"
    by (rule triple_fold_prefix [where I = ?I]) (rule step)
  then have "triple (?I [] []) (bindS (foldS ?step xs []) (\<lambda>_. ret ())) (\<lambda>_. guarded (V \<and> distinct (map ao_source_key xs))) (\<lambda>_. True)"
    by (rule triple_bind) (rule triple_ret, simp)
  then show ?thesis unfolding report_duplicates_def by (rule triple_from) simp
qed

section \<open>The recording as a whole\<close>

definition untouched :: "staging \<Rightarrow> bool" where
  "untouched w \<longleftrightarrow> sg_seen w = [] \<and> sg_temporary w = None \<and> sg_output w = None"

lemma untouched_settled: "untouched w \<Longrightarrow> settled env w"
  by (simp add: untouched_def settled_def)

lemma triple_untouched:
  assumes "triple P m Q (\<lambda>_. True)" and "keeps (\<lambda>w. (sg_seen w, sg_temporary w, sg_output w)) m"
  shows "triple (\<lambda>w. P w \<and> untouched w) m (\<lambda>x w. Q x w \<and> untouched w) untouched"
  by (rule triple_weaken [OF triple_conj [OF assms(1) triple_keeps [OF assms(2), of "\<lambda>(s, t, out). s = [] \<and> t = None \<and> out = None"]]])
    (auto simp: untouched_def)

lemma triple_before:
  assumes "triple P m Q (\<lambda>_. True)" and "keeps (\<lambda>w. (sg_seen w, sg_temporary w, sg_output w)) m"
  shows "triple (\<lambda>w. P w \<and> untouched w) m (\<lambda>x w. Q x w \<and> untouched w) (settled env)"
  by (rule triple_weaken [OF triple_untouched [OF assms]]) (auto intro: untouched_settled)

text \<open>What an acceptance says of the sources: the first enumeration ended, it has between one and the
  permitted number of sources, with distinct keys, and the index is that of this recording.\<close>

definition accepted_run :: "ingestion_env \<Rightarrow> adapter \<Rightarrow> ingestion_budget \<Rightarrow> qualification \<Rightarrow> staging \<Rightarrow> bool" where
  "accepted_run env ad budget q w \<longleftrightarrow>
     (\<exists>enumerated files.
        exhaust (ad_source_files ad False) = Inr enumerated \<and> enumerated \<noteq> [] \<and>
        length enumerated \<le> ib_maximum_source_files budget \<and> distinct (map ao_source_key enumerated) \<and>
        sg_output w = Some files \<and> accepted_recording env ad budget (sort_key ao_source_key enumerated) files q)"

lemma index_sources_ok:
  "triple (\<lambda>w. guarded V w \<and> untouched w)
     (index_sources env ad budget h enumerated)
     (\<lambda>q w. (concluded env ad budget (sort_key ao_source_key enumerated) q w \<and> sg_temporary w = None) \<and>
        (iq_accepted q \<longrightarrow> (V \<and> enumerated \<noteq> []) \<and> distinct (map ao_source_key enumerated)))
     (settled env)"
  (is "triple _ _ ?Q _")
  unfolding index_sources_def Let_def
proof (rule triple_bind [OF triple_before], rule triple_if)
  let ?V = "(V \<and> enumerated \<noteq> []) \<and> distinct (map ao_source_key enumerated)"
  let ?sources = "sort_key ao_source_key enumerated" and ?bytes = "sum_list (map ao_byte_count (sort_key ao_source_key enumerated))"
  let ?late = "bindS (inspect writer_maximum) (\<lambda>n. report_failure budget h (length ?sources) ?bytes n [])"
  let ?h = "\<lambda>e. case on_adapter_error ?late e of Some k \<Rightarrow> Some k | None \<Rightarrow> on_read_error ?late e"
  let ?stage = "stage_recording env ad budget h ?sources"
  show "triple (guarded V) (report_finding (sequence_finding MISSING_REQUIRED_SOURCE ''The adapter selected no source files.''))
      (\<lambda>_. guarded (V \<and> enumerated \<noteq> [])) (\<lambda>_. True)"
    by (rule triple_guarded_report) (simp add: sequence_finding_def)
  show "keeps (\<lambda>w. (sg_seen w, sg_temporary w, sg_output w)) (if enumerated = []
      then report_finding (sequence_finding MISSING_REQUIRED_SOURCE ''The adapter selected no source files.'') else ret ())"
    by (intro keeps_intros) simp_all
  have handled: "triple (\<lambda>w. (sg_temporary w = Some [] \<and> sg_seen w = [] \<and> collector_ok (sg_collector w)) \<and> sg_output w = None)
      (handle ?h ?stage) (concluded env ad budget ?sources) (unpublished env)"
    by (rule triple_handle [OF stage_recording_ok]) (erule handler_ok [OF triple_late_failure])
  have staged: "triple (\<lambda>w. (sg_temporary w = Some [] \<and> sg_seen w = [] \<and> collector_ok (sg_collector w)) \<and> sg_output w = None)
      (finally_do (handle ?h ?stage) (close_staging env))
      (\<lambda>q w. concluded env ad budget ?sources q w \<and> sg_temporary w = None) (settled env)"
    by (rule triple_finally [OF handled close_staging_ok close_staging_failed]) (rule unpublished_settled)
  have refuse: "triple (\<lambda>w. guarded ?V w \<and> untouched w) (report_failure budget h (length ?sources) ?bytes 0 []) ?Q (settled env)"
    unfolding report_failure_def inspect_def by (rule triple_lift) (auto simp: concluded_def unpublished_def untouched_def)
  have made: "triple (\<lambda>w. collector_ok (sg_collector w) \<and> untouched w) (io env MAKE_TEMPORARY) (\<lambda>_ w. collector_ok (sg_collector w) \<and> untouched w) (settled env)"
    by (rule triple_weaken [OF triple_io [of "\<lambda>w. collector_ok (sg_collector w) \<and> untouched w"]]) (auto simp: settled_def untouched_def)
  have created: "triple (\<lambda>w. collector_ok (sg_collector w) \<and> untouched w) (change (\<lambda>w. w\<lparr>sg_temporary := Some []\<rparr>))
      (\<lambda>_ w. (sg_temporary w = Some [] \<and> sg_seen w = [] \<and> collector_ok (sg_collector w)) \<and> sg_output w = None) (settled env)"
    by (rule triple_change) (auto simp: untouched_def)
  have proceed: "triple (\<lambda>w. (collector_ok (sg_collector w) \<and> untouched w) \<and> ?V)
      (bindS (io env MAKE_TEMPORARY) (\<lambda>_. bindS (change (\<lambda>w. w\<lparr>sg_temporary := Some []\<rparr>)) (\<lambda>_.
         finally_do (handle ?h ?stage) (close_staging env)))) ?Q (settled env)"
    by (rule triple_fact, rule triple_bind [OF made triple_bind [OF created triple_post [OF staged]]]) simp
  have ask: "triple (\<lambda>w. guarded ?V w \<and> untouched w) (inspect (has_blocking \<circ> sg_collector))
      (\<lambda>b w. (guarded ?V w \<and> untouched w) \<and> (b \<longleftrightarrow> has_blocking (sg_collector w))) (settled env)"
    unfolding inspect_def by (rule triple_lift) (auto simp: settled_def untouched_def)
  show "triple (\<lambda>w. guarded (V \<and> enumerated \<noteq> []) w \<and> untouched w)
      (bindS (report_duplicates enumerated) (\<lambda>_. bindS (inspect (has_blocking \<circ> sg_collector)) (\<lambda>blocked.
         if blocked then report_failure budget h (length ?sources) ?bytes 0 []
         else bindS (io env MAKE_TEMPORARY) (\<lambda>_. bindS (change (\<lambda>w. w\<lparr>sg_temporary := Some []\<rparr>)) (\<lambda>_.
           finally_do (handle ?h ?stage) (close_staging env)))))) ?Q (settled env)"
  proof (rule triple_bind [OF triple_before [OF report_duplicates_ok]], goal_cases)
    case 1
    show ?case unfolding report_duplicates_def by (intro keeps_intros) simp_all
  next
    case 2
    show ?case
      by (rule triple_bind [OF ask], rule triple_if, rule triple_from [OF refuse], simp, rule triple_from [OF proceed])
        (auto simp: guarded_def)
  qed
qed (auto intro: triple_ret)


lemma keeps_enumerate_sources [keeps_intros]:
  "(\<And>w c. f (w\<lparr>sg_collector := c\<rparr>) = f w) \<Longrightarrow> keeps f (enumerate_sources limit acc xs e)"
  by (induction xs arbitrary: acc) (auto intro!: keeps_intros split: option.split)

text \<open>A whole run: an acceptance published the index, and otherwise nothing complete is claimed; no
  temporary directory is left behind by a run that returns.\<close>

definition run_result :: "ingestion_env \<Rightarrow> adapter \<Rightarrow> ingestion_budget \<Rightarrow> qualification \<Rightarrow> staging \<Rightarrow> bool" where
  "run_result env ad budget q w \<longleftrightarrow>
     (if iq_accepted q then accepted_run env ad budget q w else unpublished env w) \<and> sg_temporary w = None"

lemma index_recording_ok:
  assumes "0 < ib_maximum_structural_findings budget"
  shows "triple (\<lambda>w. sg_temporary w = None \<and> sg_output w = None) (index_recording env ad budget h)
     (run_result env ad budget) (settled env)"
  unfolding index_recording_def Let_def
proof (rule triple_bind)
  let ?P = "\<lambda>w. sg_temporary w = None \<and> sg_output w = None"
  let ?limit = "ib_maximum_source_files budget" and ?files = "ad_source_files ad False"
  let ?E = "\<lambda>xs. xs = fst ?files \<and> snd ?files = None \<and> length xs \<le> ?limit"
  let ?late = "report_failure budget h 0 0 0 []"
  let ?h = "\<lambda>e. map_option (\<lambda>k. bindS k (\<lambda>q. ret (Inl q))) (on_adapter_error ?late e)"
  let ?M = "\<lambda>r w. (case r of Inl q \<Rightarrow> \<not> iq_accepted q | Inr xs \<Rightarrow> guarded (?E xs) w) \<and> untouched w"
  let ?enumerate = "bindS (enumerate_sources ?limit [] (fst ?files) (snd ?files)) (\<lambda>xs. ret (Inr xs))"
  show "triple ?P (liftS (\<lambda>w. ensure (sg_output w = None) (ValueError ''ingestion output must not already exist''))) (\<lambda>_. ?P) (settled env)"
    by (rule triple_lift) (auto simp: settled_def)
  have made: "triple ?P (io env MAKE_PARENT) (\<lambda>_. ?P) (settled env)"
    by (rule triple_weaken [OF triple_io [of ?P]]) (auto simp: settled_def)
  have init: "triple ?P (change (\<lambda>w. w\<lparr>sg_collector := \<lparr>fc_maximum = ib_maximum_structural_findings budget, fc_findings = [],
       fc_limit_reported = False\<rparr>, sg_seen := [], sg_writer := None\<rparr>)) (\<lambda>_ w. guarded (length ([] :: adapter_source list) \<le> ?limit) w \<and> untouched w)
       (settled env)"
    by (rule triple_change) (use assms in \<open>auto simp: guarded_def collector_ok_def untouched_def\<close>)
  have report: "triple untouched (bindS (bindS (pure r) (\<lambda>f. bindS (report_finding f) (\<lambda>_. ?late))) (\<lambda>q. ret (Inl q))) ?M (settled env)" for r
  proof (rule triple_bind [OF triple_pure_bind])
    show "triple untouched (bindS (report_finding f) (\<lambda>_. ?late)) (\<lambda>q w. \<not> iq_accepted q \<and> untouched w) (settled env)" for f
      unfolding report_finding_def report_failure_def inspect_def
      by (rule triple_bind [OF triple_change [where Q = "\<lambda>_. untouched"]], simp add: untouched_def, rule triple_lift) auto
  qed (auto intro: triple_ret untouched_settled)
  have enumerated: "triple (\<lambda>w. guarded (length ([] :: adapter_source list) \<le> ?limit) w \<and> untouched w) (handle ?h ?enumerate) ?M (settled env)"
  proof (rule triple_handle)
    show "triple (\<lambda>w. guarded (length ([] :: adapter_source list) \<le> ?limit) w \<and> untouched w) ?enumerate ?M untouched"
      by (rule triple_bind [OF triple_untouched [OF enumerate_sources_ok] triple_ret]) (auto intro!: keeps_intros)
    show "triple untouched k ?M (settled env)" if "?h e = Some k" for e k
      using that report by (cases e) (auto simp: on_adapter_error_def)
  qed (rule untouched_settled)
  have index: "triple (?M r) (case r of Inl q \<Rightarrow> ret q | Inr enumerated \<Rightarrow> index_sources env ad budget h enumerated)
      (run_result env ad budget) (settled env)" for r
  proof (cases r)
    case (Inl q)
    then show ?thesis by (auto intro!: triple_ret simp: run_result_def untouched_def unpublished_def)
  next
    case (Inr xs)
    have "triple (\<lambda>w. guarded (?E xs) w \<and> untouched w) (index_sources env ad budget h xs) (run_result env ad budget) (settled env)"
      by (rule triple_post [OF index_sources_ok])
        (auto simp: run_result_def concluded_def accepted_run_def exhaust_def)
    then show ?thesis by (simp add: Inr)
  qed
  show "triple ?P (bindS (io env MAKE_PARENT) (\<lambda>_. bindS (change (\<lambda>w. w\<lparr>sg_collector :=
       \<lparr>fc_maximum = ib_maximum_structural_findings budget, fc_findings = [], fc_limit_reported = False\<rparr>, sg_seen := [], sg_writer := None\<rparr>)) (\<lambda>_.
     bindS (handle ?h ?enumerate) (\<lambda>r. case r of Inl q \<Rightarrow> ret q | Inr enumerated \<Rightarrow> index_sources env ad budget h enumerated))))
     (run_result env ad budget) (settled env)"
    by (rule triple_bind [OF made triple_bind [OF init triple_bind [OF enumerated index]]])
qed

section \<open>The properties\<close>

lemma triple_outcome: "triple P m Q R \<Longrightarrow> P w \<Longrightarrow> case m w of (Done x, w') \<Rightarrow> Q x w' | (_, w') \<Rightarrow> R w'"
  by (drule tripleD, assumption) (cases "m w"; auto split: outcome.split)

text \<open>A small recording, a budget and an environment where no operation fails.\<close>

definition sample_budget :: ingestion_budget where
  "sample_budget = \<lparr>ib_budget_id = ''budget'', ib_hash_chunk_bytes = 4, ib_index_batch_bytes = 1000, ib_maximum_source_files = 2,
     ib_maximum_structural_findings = 2\<rparr>"

definition calm_ingestion :: ingestion_env where
  "calm_ingestion = \<lparr>ie_sha = sha256_hexdigest, ie_repr = (\<lambda>_. ''0.0''), ie_native = (\<lambda>source _. Inr source), ie_model = (\<lambda>_ v. Inr v),
     ie_fault = (\<lambda>_ _. Proceed)\<rparr>"

definition fresh_staging :: staging where
  "fresh_staging = \<lparr>sg_output = None, sg_temporary = None,
     sg_collector = \<lparr>fc_maximum = 0, fc_findings = [], fc_limit_reported = False\<rparr>, sg_seen = [], sg_writer = None, sg_clock = 0\<rparr>"

text \<open>C8: Ingestion is atomic, whichever operation fails or kills the process: an existing destination is
  refused and nothing changes; otherwise the destination stays absent or holds one complete index, whose
  completion record names the digests of the other files.  A run that returns leaves no temporary
  directory, and claims acceptance only with a published index that describes the recording.\<close>

theorem ingestion_is_atomic:
  assumes "0 < ib_maximum_structural_findings budget" and "sg_temporary w = None"
  shows "case sg_output w of
      Some files \<Rightarrow> index_recording env ad budget h w = (Raised (ValueError ''ingestion output must not already exist''), w)
    | None \<Rightarrow> (case index_recording env ad budget h w of
          (Done q, w') \<Rightarrow> sg_temporary w' = None \<and>
            (if iq_accepted q then accepted_run env ad budget q w' else unpublished env w')
        | (_, w') \<Rightarrow> (case sg_output w' of None \<Rightarrow> True | Some files \<Rightarrow> complete_index env files))"
proof (cases "sg_output w")
  case None
  then show ?thesis
    using triple_outcome [OF index_recording_ok [OF assms(1), of env ad h], of w] assms(2)
    by (auto simp: run_result_def settled_def split: outcome.splits prod.splits)
next
  case (Some files)
  then show ?thesis by (simp add: index_recording_def bindS_def liftS_def ensure_def)
qed

definition empty_adapter :: adapter where
  "empty_adapter = \<lparr>ad_sequence_metadata = Inl (RuntimeError ''no recording''), ad_sensors = Inr [], ad_calibrations = ([], None),
     ad_pose_samples = ([], None), ad_lidar_pose_samples = ([], None), ad_frames = ([], None), ad_source_files = (\<lambda>_. ([], None)),
     ad_source_chunks = (\<lambda>_ _. ([], None))\<rparr>"

lemma empty_recording:
  "index_recording calm_ingestion empty_adapter sample_budget h fresh_staging =
     (Done (failure sample_budget h [sequence_finding MISSING_REQUIRED_SOURCE ''The adapter selected no source files.''] 0 0 0 []),
      fresh_staging\<lparr>sg_clock := 1, sg_collector := \<lparr>fc_maximum = 2,
        fc_findings = [sequence_finding MISSING_REQUIRED_SOURCE ''The adapter selected no source files.''], fc_limit_reported = False\<rparr>\<rparr>)"
  by (simp add: index_recording_def index_sources_def calm_ingestion_def empty_adapter_def sample_budget_def fresh_staging_def
      Let_def bindS_def liftS_def io_def change_def modifyS_def handle_def ret_def report_finding_def report_duplicates_def
      inspect_def report_failure_def add_finding_def has_blocking_def finding_values_def sequence_finding_def ensure_def)

theorem ingestion_is_atomic_witness:
  "index_recording calm_ingestion empty_adapter sample_budget [] (fresh_staging\<lparr>sg_output := Some []\<rparr>) =
     (Raised (ValueError ''ingestion output must not already exist''), fresh_staging\<lparr>sg_output := Some []\<rparr>) \<and>
   unpublished calm_ingestion (snd (index_recording calm_ingestion empty_adapter sample_budget [] fresh_staging))"
proof -
  have "0 < ib_maximum_structural_findings sample_budget" by (simp add: sample_budget_def)
  note ok = ingestion_is_atomic [OF this, of _ calm_ingestion empty_adapter "[]"]
  show ?thesis
    using ok [of fresh_staging] ok [of "fresh_staging\<lparr>sg_output := Some []\<rparr>"] empty_recording [of "[]"]
    by (simp add: fresh_staging_def failure_def)
qed

text \<open>C9: The index writer keeps its memory within the budget and neither loses nor reorders a record:
  however often the buffer was spilled, what is on disk followed by what is buffered is the
  concatenation of the lines of the records appended so far, and the digest is fed the same bytes.\<close>

theorem index_writer_is_bounded_and_faithful:
  "case bindS (open_index env n) (\<lambda>_. foldS (\<lambda>e _. append_entry env e) es ()) w of
     (Done _, w') \<Rightarrow> (case sg_writer w' of
        Some b \<Rightarrow> wr_stream b @ concat (wr_buffer b) = concat (map (entry_line env) es) \<and> wr_hashed b = wr_stream b \<and>
          wr_entry_count b = length es \<and> wr_maximum_buffer_bytes b \<le> n
      | None \<Rightarrow> False)
   | _ \<Rightarrow> True"
proof -
  have opened: "triple (\<lambda>_. True) (open_index env n) (\<lambda>_. has_writer (writer_ok n (map (entry_line env) []))) (\<lambda>_. True)"
    unfolding open_index_def
    by (rule triple_bind [OF triple_weaken [OF triple_io [of "\<lambda>_. True"]] triple_change]) (auto simp: has_writer_def writer_ok_def)
  have "triple (has_writer (writer_ok n (map (entry_line env) []))) (foldS (\<lambda>e _. append_entry env e) es ())
      (\<lambda>_. has_writer (writer_ok n (map (entry_line env) es))) (\<lambda>_. True)"
    by (rule triple_fold_prefix [where I = "\<lambda>es _. has_writer (writer_ok n (map (entry_line env) es))"])
      (use append_entry_ok in simp)
  from triple_outcome [OF triple_bind [OF opened this], of w] show ?thesis
    by (auto simp: has_writer_def writer_ok_def split: outcome.splits prod.splits)
qed

definition new_collector :: "nat \<Rightarrow> finding_collector" where
  "new_collector n = \<lparr>fc_maximum = n, fc_findings = [], fc_limit_reported = False\<rparr>"

lemma collector_after:
  assumes "0 < n"
  shows "fold add_finding fs (new_collector n) =
    \<lparr>fc_maximum = n, fc_findings = (if length fs \<le> n then fs else (take n fs)[n - 1 := limit_finding]), fc_limit_reported = n < length fs\<rparr>"
proof (induction fs rule: rev_induct)
  case Nil
  then show ?case by (simp add: new_collector_def)
next
  case (snoc f fs)
  consider "length fs < n" | "length fs = n" | "n < length fs" by linarith
  then show ?case
    by cases (use assms snoc in \<open>simp_all add: add_finding_def list_update_append\<close>)
qed

text \<open>C10: The limit on findings fails closed: at most the permitted number is kept, all of them when
  they fit, and the collector blocks exactly when some finding blocks or one did not fit.\<close>

theorem finding_limit_fails_closed:
  assumes "0 < n"
  shows "let c = fold add_finding fs (new_collector n) in
    length (fc_findings c) = min n (length fs) \<and> (if length fs \<le> n then fc_findings c = fs else limit_finding \<in> set (fc_findings c)) \<and>
    (has_blocking c \<longleftrightarrow> list_ex sg_blocking fs \<or> n < length fs)"
proof (cases "length fs \<le> n")
  case True
  then show ?thesis using assms by (simp add: collector_after has_blocking_def)
next
  case False
  then have fits: "n - 1 < length (take n fs)" using assms by simp
  then have "limit_finding \<in> set ((take n fs)[n - 1 := limit_finding])" by (simp add: set_update_memI)
  moreover have "sg_blocking limit_finding" by (simp add: limit_finding_def)
  ultimately show ?thesis
    using False assms by (auto simp: collector_after has_blocking_def Let_def list_ex_iff)
qed

theorem finding_limit_fails_closed_witness:
  "let c = fold add_finding [reordered_finding (new_range ''a'' ''k''), reordered_finding (new_range ''b'' ''k'')] (new_collector 1) in
    fc_findings c = [limit_finding] \<and> has_blocking c"
  using finding_limit_fails_closed [of 1 "[reordered_finding (new_range ''a'' ''k''), reordered_finding (new_range ''b'' ''k'')]"]
  by (auto simp: Let_def length_Suc_conv)

end
