(* ===== verification/RoadGraph.thy ===== *)
theory RoadGraph
  imports ArtifactPlans PinnedJson
begin

text \<open>
  The documents of \<^verbatim>\<open>python/cartosentry/road_graph.py\<close>: the frozen import profile with its
  loader, and the directed road graph (source, local frame, nodes, arcs, transition rules, restriction
  evidence, statistics), each with its written form and the checks of its model validators, and the
  identity that binds the whole content.

  A float is the rational it stands for.  \<open>fl_nearest\<close> rounds a rational to the nearest binary64
  value, \<open>fl_repr\<close> writes a float and \<open>fl_parse\<close> reads one; \<open>math.dist\<close> and the native
  geometry are parameters.
\<close>

section \<open>Numbers\<close>

record float_ops =
  fl_nearest :: "rat \<Rightarrow> rat"
  fl_repr :: "rat \<Rightarrow> string"
  fl_parse :: "string \<Rightarrow> rat option"
  fl_dist :: "triple3 \<Rightarrow> triple3 \<Rightarrow> rat"

definition round_half_even :: "rat \<Rightarrow> int" where
  "round_half_even x =
     (let low = \<lfloor>x\<rfloor>; rest = x - of_int low in
      if rest < 1 / 2 then low else if 1 / 2 < rest then low + 1 else if even low then low else low + 1)"

text \<open>\<open>round(x, places)\<close> of a float: the decimal with that many places nearest to its exact value,
  ties to even, as a float.\<close>

definition py_round :: "float_ops \<Rightarrow> nat \<Rightarrow> rat \<Rightarrow> rat" where
  "py_round fl places x = fl_nearest fl (of_int (round_half_even (x * 10 ^ places)) / 10 ^ places)"

definition fl_sub :: "float_ops \<Rightarrow> rat \<Rightarrow> rat \<Rightarrow> rat" where
  "fl_sub fl a b = fl_nearest fl (a - b)"

text \<open>\<open>sum\<close> of floats since Python 3.12: compensated summation, the correction added at the end.\<close>

fun compensated :: "float_ops \<Rightarrow> rat \<Rightarrow> rat \<Rightarrow> rat list \<Rightarrow> rat" where
  "compensated fl acc c [] = (if c = 0 then acc else fl_nearest fl (acc + c))"
| "compensated fl acc c (x # xs) =
     (let t = fl_nearest fl (acc + x);
          lost = (if \<bar>x\<bar> \<le> \<bar>acc\<bar> then fl_nearest fl (fl_nearest fl (acc - t) + x)
                  else fl_nearest fl (fl_nearest fl (x - t) + acc))
      in compensated fl t (fl_nearest fl (c + lost)) xs)"

definition fl_sum :: "float_ops \<Rightarrow> rat list \<Rightarrow> rat" where
  "fl_sum fl xs = (case xs of [] \<Rightarrow> 0 | x # ys \<Rightarrow> compensated fl x 0 ys)"

text \<open>\<open>itertools.pairwise\<close>.\<close>

definition pairwise :: "'a list \<Rightarrow> ('a \<times> 'a) list" where
  "pairwise xs = zip xs (tl xs)"

definition as_float :: "float_ops \<Rightarrow> (rat \<Rightarrow> bool) \<Rightarrow> json \<Rightarrow> rat res" where
  "as_float fl P v =
     (case (case v of JFloat lexeme \<Rightarrow> fl_parse fl lexeme | JInt i \<Rightarrow> fl_parse fl (show_int i) | _ \<Rightarrow> None) of
        None \<Rightarrow> invalid ''Input should be a valid number''
      | Some x \<Rightarrow> if P x then Inr x else invalid ''Input should be in range'')"

section \<open>Identities\<close>

text \<open>The pattern \<^verbatim>\<open>^<kind>-sha256-[0-9a-f]{64}$\<close>.\<close>

definition is_id_of :: "string \<Rightarrow> string \<Rightarrow> bool" where
  "is_id_of kind s \<longleftrightarrow> prefix (kind @ ''-sha256-'') s \<and> is_sha256 (drop (length kind + 8) s)"

definition canonical_hash :: "(string \<Rightarrow> string) \<Rightarrow> json \<Rightarrow> string res" where
  "canonical_hash sha payload = pinned_sha256 sha (\<lambda>lexeme. lexeme) payload"

definition hashed_id :: "(string \<Rightarrow> string) \<Rightarrow> string \<Rightarrow> json \<Rightarrow> string res" where
  "hashed_id sha kind payload = bindE (canonical_hash sha payload) (\<lambda>h. Inr (kind @ ''-sha256-'' @ h))"

lemma is_id_of_hash: "is_sha256 h \<Longrightarrow> is_id_of kind (kind @ ''-sha256-'' @ h)"
  by (simp add: is_id_of_def prefix_def)

section \<open>The import profile\<close>

definition GRAPH_PROFILE_IMMUTABLE_SHA256 :: string where
  "GRAPH_PROFILE_IMMUTABLE_SHA256 = ''89f4b306dce91ba9adcfc4da5b651ef1acaa247a33009cc03d96d85d632f20fb''"

definition MAXIMUM_PROFILE_BYTES :: nat where
  "MAXIMUM_PROFILE_BYTES = 256 * 1024"

record graph_authorities =
  ga_data_manifest_file_sha256 :: string
  ga_public_object_sha256 :: string
  ga_snapshot_utc :: string
  ga_attribution :: string
  ga_license_url :: string
  ga_database_classification :: string

record access_profile =
  ap_generic_keys :: "string list"
  ap_allowed_values :: "string list"
  ap_denied_values :: "string list"

record directionality_profile =
  dp_oneway_keys :: "string list"
  dp_forward_values :: "string list"
  dp_reverse_values :: "string list"
  dp_bidirectional_values :: "string list"
  dp_implicit_forward_junction_values :: "string list"
  dp_implicit_forward_highway_classes :: "string list"

record turn_restriction_profile =
  tp_relation_type :: string
  tp_restriction_tag_keys :: "string list"
  tp_supported_prefixes :: "string list"

record geometry_profile =
  gp_local_frame_axes :: "string list"
  gp_local_coordinate_rounding_decimal_places :: nat
  gp_length_rounding_decimal_places :: nat
  gp_minimum_arc_length_m :: rat

record graph_limits =
  gl_maximum_source_bytes :: nat
  gl_maximum_nodes :: nat
  gl_maximum_ways :: nat
  gl_maximum_relations :: nat
  gl_maximum_way_node_references :: nat
  gl_maximum_tags_per_element :: nat
  gl_maximum_geometry_points_per_arc :: nat

text \<open>Fields whose type is one literal are not stored.\<close>

record graph_import_profile =
  gi_immutable_sha256 :: string
  gi_authorities :: graph_authorities
  gi_included_highway_classes :: "string list"
  gi_access :: access_profile
  gi_directionality :: directionality_profile
  gi_turn_restrictions :: turn_restriction_profile
  gi_geometry :: geometry_profile
  gi_limits :: graph_limits

definition as_strings :: "json \<Rightarrow> string list res" where
  "as_strings = as_list (as_text (\<lambda>_. True))"

definition graph_authorities_validate :: "json \<Rightarrow> graph_authorities res" where
  "graph_authorities_validate v =
     bindE (as_object [''data_manifest_file_sha256'', ''public_artifact_id'', ''public_object_key'', ''public_object_sha256'',
       ''snapshot_utc'', ''attribution'', ''license_url'', ''database_classification''] v) (\<lambda>d.
     bindE (field ''data_manifest_file_sha256'' (as_text is_sha256) d) (\<lambda>manifest.
     bindE (field ''public_artifact_id'' (as_literal ''osm-toronto-glen-shields-v1'') d) (\<lambda>_.
     bindE (field ''public_object_key'' (as_literal ''road_graphs/toronto-glen-shields-v1.osm'') d) (\<lambda>_.
     bindE (field ''public_object_sha256'' (as_text is_sha256) d) (\<lambda>object0.
     bindE (field ''snapshot_utc'' (as_literal ''2026-08-14T00:47:44Z'') d) (\<lambda>snapshot0.
     bindE (field ''attribution'' (as_text (\<lambda>s. s \<noteq> [])) d) (\<lambda>attribution.
     bindE (field ''license_url'' (as_literal ''https://opendatacommons.org/licenses/odbl/1-0/'') d) (\<lambda>license.
     bindE (field ''database_classification'' (as_literal ''ODBL_DERIVATIVE_DATABASE'') d) (\<lambda>classification.
       Inr \<lparr>ga_data_manifest_file_sha256 = manifest, ga_public_object_sha256 = object0, ga_snapshot_utc = snapshot0,
            ga_attribution = attribution, ga_license_url = license, ga_database_classification = classification\<rparr>)))))))))"

definition access_validate :: "json \<Rightarrow> access_profile res" where
  "access_validate v =
     bindE (as_object [''generic_keys'', ''allowed_values'', ''denied_values'', ''missing_value_interpretation'',
       ''unknown_value_interpretation'', ''conditional_interpretation'', ''construction_interpretation'',
       ''private_interpretation'', ''ferry_interpretation''] v) (\<lambda>d.
     bindE (field ''generic_keys'' as_strings d) (\<lambda>keys.
     bindE (field ''allowed_values'' as_strings d) (\<lambda>allowed0.
     bindE (field ''denied_values'' as_strings d) (\<lambda>denied.
     bindE (field ''missing_value_interpretation'' (as_literal ''INCLUDED_WITHOUT_ROAD_LEGALITY_CLAIM'') d) (\<lambda>_.
     bindE (field ''unknown_value_interpretation'' (as_literal ''EXCLUDE'') d) (\<lambda>_.
     bindE (field ''conditional_interpretation'' (as_literal ''EXCLUDE'') d) (\<lambda>_.
     bindE (field ''construction_interpretation'' (as_literal ''EXCLUDE'') d) (\<lambda>_.
     bindE (field ''private_interpretation'' (as_literal ''EXCLUDE'') d) (\<lambda>_.
     bindE (field ''ferry_interpretation'' (as_literal ''EXCLUDE'') d) (\<lambda>_.
       Inr \<lparr>ap_generic_keys = keys, ap_allowed_values = allowed0, ap_denied_values = denied\<rparr>))))))))))"

definition directionality_validate :: "json \<Rightarrow> directionality_profile res" where
  "directionality_validate v =
     bindE (as_object [''oneway_keys'', ''forward_values'', ''reverse_values'', ''bidirectional_values'',
       ''implicit_forward_junction_values'', ''implicit_forward_highway_classes'', ''directional_access_suffixes'',
       ''unknown_oneway_interpretation''] v) (\<lambda>d.
     bindE (field ''oneway_keys'' as_strings d) (\<lambda>keys.
     bindE (field ''forward_values'' as_strings d) (\<lambda>forward.
     bindE (field ''reverse_values'' as_strings d) (\<lambda>reverse.
     bindE (field ''bidirectional_values'' as_strings d) (\<lambda>both.
     bindE (field ''implicit_forward_junction_values'' as_strings d) (\<lambda>junctions.
     bindE (field ''implicit_forward_highway_classes'' as_strings d) (\<lambda>classes.
     bindE (field ''directional_access_suffixes'' (as_list (as_member [''forward'', ''backward''])) d) (\<lambda>_.
     bindE (field ''unknown_oneway_interpretation'' (as_literal ''EXCLUDE'') d) (\<lambda>_.
       Inr \<lparr>dp_oneway_keys = keys, dp_forward_values = forward, dp_reverse_values = reverse, dp_bidirectional_values = both,
            dp_implicit_forward_junction_values = junctions, dp_implicit_forward_highway_classes = classes\<rparr>)))))))))"

definition turn_restrictions_validate :: "json \<Rightarrow> turn_restriction_profile res" where
  "turn_restrictions_validate v =
     bindE (as_object [''relation_type'', ''restriction_tag_keys'', ''supported_via'', ''supported_prefixes'',
       ''conditional_interpretation'', ''via_way_interpretation'', ''unknown_value_interpretation'', ''except_interpretation''] v)
       (\<lambda>d.
     bindE (field ''relation_type'' (as_literal ''restriction'') d) (\<lambda>relation0.
     bindE (field ''restriction_tag_keys'' as_strings d) (\<lambda>keys.
     bindE (field ''supported_via'' (as_literal ''SINGLE_NODE_ONLY'') d) (\<lambda>_.
     bindE (field ''supported_prefixes'' (as_list (as_member [''no_'', ''only_''])) d) (\<lambda>prefixes.
     bindE (field ''conditional_interpretation'' (as_literal ''UNKNOWN_RESTRICTION'') d) (\<lambda>_.
     bindE (field ''via_way_interpretation'' (as_literal ''UNKNOWN_RESTRICTION'') d) (\<lambda>_.
     bindE (field ''unknown_value_interpretation'' (as_literal ''UNKNOWN_RESTRICTION'') d) (\<lambda>_.
     bindE (field ''except_interpretation'' (as_literal ''UNKNOWN_RESTRICTION'') d) (\<lambda>_.
       Inr \<lparr>tp_relation_type = relation0, tp_restriction_tag_keys = keys, tp_supported_prefixes = prefixes\<rparr>)))))))))"

definition as_places :: "json \<Rightarrow> nat res" where
  "as_places v = bindE (as_nat 0 v) (\<lambda>n. bindE (ensure (n \<le> 12) (ValueError ''Input should be at most 12'')) (\<lambda>_. Inr n))"

definition geometry_validate :: "float_ops \<Rightarrow> json \<Rightarrow> geometry_profile res" where
  "geometry_validate fl v =
     bindE (as_object [''origin_policy'', ''coordinate_provenance'', ''local_frame_axes'', ''road_geometry_altitude_policy'',
       ''local_coordinate_rounding_decimal_places'', ''length_rounding_decimal_places'', ''minimum_arc_length_m'',
       ''split_policy'', ''retain_source_shape_nodes''] v) (\<lambda>d.
     bindE (field ''origin_policy'' (as_literal ''OSM_BOUNDS_CENTER_WGS84_E8_ZERO_ELLIPSOID'') d) (\<lambda>_.
     bindE (field ''coordinate_provenance'' (as_literal ''WGS84_SOURCE_DERIVED_LOCAL_WORLD'') d) (\<lambda>_.
     bindE (field ''local_frame_axes'' (as_list (as_member [''east'', ''north'', ''up''])) d) (\<lambda>axes.
     bindE (field ''road_geometry_altitude_policy'' (as_literal ''FLATTEN_TO_LOCAL_Z_ZERO'') d) (\<lambda>_.
     bindE (field ''local_coordinate_rounding_decimal_places'' as_places d) (\<lambda>coordinate_places.
     bindE (field ''length_rounding_decimal_places'' as_places d) (\<lambda>length_places.
     bindE (field ''minimum_arc_length_m'' (as_float fl (\<lambda>x. 0 < x)) d) (\<lambda>minimum.
     bindE (field ''split_policy'' (as_literal ''WAY_ENDPOINT_SHARED_NODE_AND_RESTRICTION_VIA_NODE'') d) (\<lambda>_.
     bindE (field ''retain_source_shape_nodes'' as_true d) (\<lambda>_.
       Inr \<lparr>gp_local_frame_axes = axes, gp_local_coordinate_rounding_decimal_places = coordinate_places,
            gp_length_rounding_decimal_places = length_places, gp_minimum_arc_length_m = minimum\<rparr>))))))))))"

definition spatial_index_validate :: "json \<Rightarrow> unit res" where
  "spatial_index_validate v =
     bindE (as_object [''implementation'', ''input_order'', ''query_result_order''] v) (\<lambda>d.
     bindE (field ''implementation'' (as_literal ''SHAPELY_STRTREE_IMMUTABLE_V1'') d) (\<lambda>_.
     bindE (field ''input_order'' (as_literal ''ARC_ID_ASCENDING'') d) (\<lambda>_.
     bindE (field ''query_result_order'' (as_literal ''ARC_ID_ASCENDING'') d) (\<lambda>_. Inr ()))))"

definition limits_validate :: "json \<Rightarrow> graph_limits res" where
  "limits_validate v =
     bindE (as_object [''maximum_source_bytes'', ''maximum_nodes'', ''maximum_ways'', ''maximum_relations'',
       ''maximum_way_node_references'', ''maximum_tags_per_element'', ''maximum_geometry_points_per_arc''] v) (\<lambda>d.
     bindE (field ''maximum_source_bytes'' (as_nat 1) d) (\<lambda>bytes.
     bindE (field ''maximum_nodes'' (as_nat 1) d) (\<lambda>nodes.
     bindE (field ''maximum_ways'' (as_nat 1) d) (\<lambda>ways.
     bindE (field ''maximum_relations'' (as_nat 1) d) (\<lambda>relations.
     bindE (field ''maximum_way_node_references'' (as_nat 1) d) (\<lambda>references.
     bindE (field ''maximum_tags_per_element'' (as_nat 1) d) (\<lambda>tags.
     bindE (field ''maximum_geometry_points_per_arc'' (as_nat 2) d) (\<lambda>points.
       Inr \<lparr>gl_maximum_source_bytes = bytes, gl_maximum_nodes = nodes, gl_maximum_ways = ways,
            gl_maximum_relations = relations, gl_maximum_way_node_references = references,
            gl_maximum_tags_per_element = tags, gl_maximum_geometry_points_per_arc = points\<rparr>))))))))"

definition check_graph_profile :: "graph_import_profile \<Rightarrow> unit res" where
  "check_graph_profile p =
     bindE (ensure (gi_immutable_sha256 p = GRAPH_PROFILE_IMMUTABLE_SHA256)
       (ValueError ''graph import profile identity is not pinned'')) (\<lambda>_.
     bindE (ensure (list_all distinct [gi_included_highway_classes p, ap_generic_keys (gi_access p),
         ap_allowed_values (gi_access p), ap_denied_values (gi_access p), dp_oneway_keys (gi_directionality p)])
       (ValueError ''graph import profile sets must be unique'')) (\<lambda>_.
     bindE (ensure (set (ap_allowed_values (gi_access p)) \<inter> set (ap_denied_values (gi_access p)) = {})
       (ValueError ''graph import access values must not overlap'')) (\<lambda>_.
       ensure (gp_local_frame_axes (gi_geometry p) = [''east'', ''north'', ''up''])
       (ValueError ''graph local frame axes are not exact''))))"

definition graph_profile_validate :: "float_ops \<Rightarrow> json \<Rightarrow> graph_import_profile res" where
  "graph_profile_validate fl v =
     bindE (as_object [''schema_version'', ''profile_id'', ''profile_version'', ''freeze_state'', ''hash_contract'',
       ''immutable_sha256'', ''authorities'', ''included_highway_classes'', ''access'', ''directionality'',
       ''turn_restrictions'', ''geometry'', ''spatial_index'', ''limits''] v) (\<lambda>d.
     bindE (field ''schema_version'' (as_int_literal 1) d) (\<lambda>_.
     bindE (field ''profile_id'' (as_literal ''graph-import-v1'') d) (\<lambda>_.
     bindE (field ''profile_version'' (as_literal ''1.0.0'') d) (\<lambda>_.
     bindE (field ''freeze_state'' (as_literal ''FROZEN_BEFORE_M5_1_ACCEPTANCE'') d) (\<lambda>_.
     bindE (field ''hash_contract'' (as_literal ''SHA-256 of canonical UTF-8 JSON with immutable_sha256 omitted'') d) (\<lambda>_.
     bindE (field ''immutable_sha256'' (as_text is_sha256) d) (\<lambda>immutable.
     bindE (field ''authorities'' graph_authorities_validate d) (\<lambda>authorities.
     bindE (field ''included_highway_classes'' as_strings d) (\<lambda>classes.
     bindE (field ''access'' access_validate d) (\<lambda>access.
     bindE (field ''directionality'' directionality_validate d) (\<lambda>directionality.
     bindE (field ''turn_restrictions'' turn_restrictions_validate d) (\<lambda>turns.
     bindE (field ''geometry'' (geometry_validate fl) d) (\<lambda>geometry.
     bindE (field ''spatial_index'' spatial_index_validate d) (\<lambda>_.
     bindE (field ''limits'' limits_validate d) (\<lambda>limits.
     let p = \<lparr>gi_immutable_sha256 = immutable, gi_authorities = authorities, gi_included_highway_classes = classes,
              gi_access = access, gi_directionality = directionality, gi_turn_restrictions = turns,
              gi_geometry = geometry, gi_limits = limits\<rparr>
     in bindE (check_graph_profile p) (\<lambda>_. Inr p))))))))))))))))"

text \<open>The loaders of the frozen profiles differ in their messages only.\<close>

definition load_frozen ::
  "(string \<Rightarrow> string) \<Rightarrow> (string \<Rightarrow> string) \<Rightarrow> string \<Rightarrow> (json \<Rightarrow> 'a res) \<Rightarrow> fs_node \<Rightarrow> ('a \<times> string) res" where
  "load_frozen sha float_repr context0 validate node =
     bindE (raise_from is_boundary_error (ValueError (context0 @ '' is unavailable or malformed''))
        (read_bounded_json node MAXIMUM_PROFILE_BYTES context0)) (\<lambda>(decoded, content).
     bindE (case decoded of JDict raw \<Rightarrow> Inr raw | _ \<Rightarrow> Inl (ValueError (context0 @ '' must be an object''))) (\<lambda>raw.
     bindE (self_authenticated sha float_repr context0 raw) (\<lambda>_.
     bindE (validate (JDict raw)) (\<lambda>p. Inr (p, sha content)))))"

definition load_graph_import_profile ::
  "(string \<Rightarrow> string) \<Rightarrow> (string \<Rightarrow> string) \<Rightarrow> float_ops \<Rightarrow> fs_node \<Rightarrow> (graph_import_profile \<times> string) res" where
  "load_graph_import_profile sha float_repr fl node =
     load_frozen sha float_repr ''graph import profile'' (graph_profile_validate fl) node"

section \<open>The directed road graph\<close>

datatype arc_direction = FORWARD | REVERSE

datatype transition_state = FORBIDDEN | UNKNOWN_RESTRICTION

datatype restriction_interpretation =
    APPLIED_NO | APPLIED_ONLY | UNKNOWN_CONDITIONAL | UNKNOWN_VIA_WAY | UNKNOWN_VALUE | UNKNOWN_EXCEPT
  | UNKNOWN_MALFORMED | UNKNOWN_DISCONNECTED | INACTIVE_SOURCE_EXCLUDED

datatype graph_source_kind = OPENSTREETMAP_EXTRACT | HAND_AUTHORED_FIXTURE

definition direction_name :: "arc_direction \<Rightarrow> string" where
  "direction_name d = (case d of FORWARD \<Rightarrow> ''FORWARD'' | REVERSE \<Rightarrow> ''REVERSE'')"

definition transition_name :: "transition_state \<Rightarrow> string" where
  "transition_name t = (case t of FORBIDDEN \<Rightarrow> ''FORBIDDEN'' | UNKNOWN_RESTRICTION \<Rightarrow> ''UNKNOWN_RESTRICTION'')"

definition interpretation_name :: "restriction_interpretation \<Rightarrow> string" where
  "interpretation_name i = (case i of
     APPLIED_NO \<Rightarrow> ''APPLIED_NO'' | APPLIED_ONLY \<Rightarrow> ''APPLIED_ONLY'' | UNKNOWN_CONDITIONAL \<Rightarrow> ''UNKNOWN_CONDITIONAL''
   | UNKNOWN_VIA_WAY \<Rightarrow> ''UNKNOWN_VIA_WAY'' | UNKNOWN_VALUE \<Rightarrow> ''UNKNOWN_VALUE'' | UNKNOWN_EXCEPT \<Rightarrow> ''UNKNOWN_EXCEPT''
   | UNKNOWN_MALFORMED \<Rightarrow> ''UNKNOWN_MALFORMED'' | UNKNOWN_DISCONNECTED \<Rightarrow> ''UNKNOWN_DISCONNECTED''
   | INACTIVE_SOURCE_EXCLUDED \<Rightarrow> ''INACTIVE_SOURCE_EXCLUDED'')"

definition source_kind_name :: "graph_source_kind \<Rightarrow> string" where
  "source_kind_name k =
     (case k of OPENSTREETMAP_EXTRACT \<Rightarrow> ''OPENSTREETMAP_EXTRACT'' | HAND_AUTHORED_FIXTURE \<Rightarrow> ''HAND_AUTHORED_FIXTURE'')"

record wgs84_e7 =
  wg_latitude_e7 :: int
  wg_longitude_e7 :: int

record osm_tag =
  tg_key :: string
  tg_value :: string

record road_graph_source =
  gs_source_kind :: graph_source_kind
  gs_source_object_key :: string
  gs_source_sha256 :: string
  gs_snapshot_utc :: string
  gs_attribution :: string
  gs_license_url :: string
  gs_database_classification :: string

record road_graph_local_frame =
  gf_frame :: named_frame
  gf_origin_latitude_e8 :: int
  gf_origin_longitude_e8 :: int

record road_node =
  rd_node_id :: string
  rd_osm_node_id :: nat
  rd_position_wgs84_e7 :: wgs84_e7
  rd_position_local_m :: triple3

record road_arc =
  ra_arc_id :: string
  ra_from_node_id :: string
  ra_to_node_id :: string
  ra_source_way_id :: nat
  ra_source_chain_index :: nat
  ra_direction :: arc_direction
  ra_highway_class :: string
  ra_source_geometry_node_ids :: "nat list"
  ra_geometry_wgs84_e7 :: "wgs84_e7 list"
  ra_geometry_local_m :: "triple3 list"
  ra_length_m :: rat
  ra_layer :: int
  ra_bridge :: bool
  ra_tunnel :: bool
  ra_source_tags :: "osm_tag list"

record transition_rule =
  tr_from_arc_id :: string
  tr_to_arc_id :: string
  tr_state :: transition_state
  tr_source_relation_id :: nat

record restriction_evidence =
  re_source_relation_id :: nat
  re_restriction_value :: string
  re_interpretation :: restriction_interpretation
  re_from_way_ids :: "nat list"
  re_via_node_ids :: "nat list"
  re_via_way_ids :: "nat list"
  re_to_way_ids :: "nat list"
  re_generated_rule_count :: nat
  re_source_tags :: "osm_tag list"

record road_graph_statistics =
  gt_parsed_node_count :: nat
  gt_parsed_way_count :: nat
  gt_parsed_relation_count :: nat
  gt_included_way_count :: nat
  gt_excluded_way_count :: nat
  gt_topology_node_count :: nat
  gt_directed_arc_count :: nat
  gt_forward_arc_count :: nat
  gt_reverse_arc_count :: nat
  gt_transition_rule_count :: nat
  gt_applied_restriction_count :: nat
  gt_unknown_restriction_count :: nat
  gt_exclusion_reason_counts :: "(string \<times> nat) list"

record road_graph =
  rg_graph_id :: string
  rg_profile_immutable_sha256 :: string
  rg_profile_file_sha256 :: string
  rg_source :: road_graph_source
  rg_local_frame :: road_graph_local_frame
  rg_nodes :: "road_node list"
  rg_arcs :: "road_arc list"
  rg_transition_rules :: "transition_rule list"
  rg_restrictions :: "restriction_evidence list"
  rg_statistics :: road_graph_statistics

section \<open>The written form\<close>

definition e7_dump :: "wgs84_e7 \<Rightarrow> json" where
  "e7_dump c = JDict [(''latitude_e7'', JInt (wg_latitude_e7 c)), (''longitude_e7'', JInt (wg_longitude_e7 c))]"

definition tag_dump :: "osm_tag \<Rightarrow> json" where
  "tag_dump t = JDict [(''key'', JStr (tg_key t)), (''value'', JStr (tg_value t))]"

definition point_dump :: "float_ops \<Rightarrow> triple3 \<Rightarrow> json" where
  "point_dump fl p = (case p of (x, y, z) \<Rightarrow> JList [JFloat (fl_repr fl x), JFloat (fl_repr fl y), JFloat (fl_repr fl z)])"

definition nats_json :: "nat list \<Rightarrow> json" where
  "nats_json ns = JList (map (\<lambda>n. JInt (int n)) ns)"

definition graph_source_dump :: "road_graph_source \<Rightarrow> json" where
  "graph_source_dump s = JDict
     [(''source_kind'', JStr (source_kind_name (gs_source_kind s))), (''source_object_key'', JStr (gs_source_object_key s)),
      (''source_sha256'', JStr (gs_source_sha256 s)), (''snapshot_utc'', JStr (gs_snapshot_utc s)),
      (''attribution'', JStr (gs_attribution s)), (''license_url'', JStr (gs_license_url s)),
      (''database_classification'', JStr (gs_database_classification s))]"

definition named_frame_dump :: "named_frame \<Rightarrow> json" where
  "named_frame_dump f = JDict
     [(''frame_id'', JStr (nf_frame_id f)), (''handedness'', JStr ''RIGHT_HANDED''), (''x_axis'', JStr (nf_x_axis f)),
      (''y_axis'', JStr (nf_y_axis f)), (''z_axis'', JStr (nf_z_axis f))]"

definition local_frame_dump :: "float_ops \<Rightarrow> road_graph_local_frame \<Rightarrow> json" where
  "local_frame_dump fl f = JDict
     [(''frame'', named_frame_dump (gf_frame f)), (''origin_latitude_e8'', JInt (gf_origin_latitude_e8 f)),
      (''origin_longitude_e8'', JInt (gf_origin_longitude_e8 f)), (''origin_altitude_m'', JFloat (fl_repr fl 0)),
      (''origin_policy'', JStr ''OSM_BOUNDS_CENTER_WGS84_E8_ZERO_ELLIPSOID''),
      (''coordinate_provenance'', JStr ''WGS84_SOURCE_DERIVED_LOCAL_WORLD'')]"

definition road_node_dump :: "float_ops \<Rightarrow> road_node \<Rightarrow> json" where
  "road_node_dump fl n = JDict
     [(''node_id'', JStr (rd_node_id n)), (''osm_node_id'', JInt (int (rd_osm_node_id n))),
      (''position_wgs84_e7'', e7_dump (rd_position_wgs84_e7 n)),
      (''position_local_m'', point_dump fl (rd_position_local_m n))]"

definition road_arc_dump :: "float_ops \<Rightarrow> road_arc \<Rightarrow> json" where
  "road_arc_dump fl a = JDict
     [(''arc_id'', JStr (ra_arc_id a)), (''from_node_id'', JStr (ra_from_node_id a)), (''to_node_id'', JStr (ra_to_node_id a)),
      (''source_way_id'', JInt (int (ra_source_way_id a))), (''source_chain_index'', JInt (int (ra_source_chain_index a))),
      (''direction'', JStr (direction_name (ra_direction a))), (''highway_class'', JStr (ra_highway_class a)),
      (''source_geometry_node_ids'', nats_json (ra_source_geometry_node_ids a)),
      (''geometry_wgs84_e7'', JList (map e7_dump (ra_geometry_wgs84_e7 a))),
      (''geometry_local_m'', JList (map (point_dump fl) (ra_geometry_local_m a))),
      (''length_m'', JFloat (fl_repr fl (ra_length_m a))), (''layer'', JInt (ra_layer a)), (''bridge'', JBool (ra_bridge a)),
      (''tunnel'', JBool (ra_tunnel a)), (''access_interpretation'', JStr ''INCLUDED_WITHOUT_ROAD_LEGALITY_CLAIM''),
      (''source_tags'', JList (map tag_dump (ra_source_tags a)))]"

definition rule_dump :: "transition_rule \<Rightarrow> json" where
  "rule_dump r = JDict
     [(''from_arc_id'', JStr (tr_from_arc_id r)), (''to_arc_id'', JStr (tr_to_arc_id r)),
      (''state'', JStr (transition_name (tr_state r))), (''source_relation_id'', JInt (int (tr_source_relation_id r)))]"

definition restriction_evidence_dump :: "restriction_evidence \<Rightarrow> json" where
  "restriction_evidence_dump e = JDict
     [(''source_relation_id'', JInt (int (re_source_relation_id e))), (''restriction_value'', JStr (re_restriction_value e)),
      (''interpretation'', JStr (interpretation_name (re_interpretation e))), (''from_way_ids'', nats_json (re_from_way_ids e)),
      (''via_node_ids'', nats_json (re_via_node_ids e)), (''via_way_ids'', nats_json (re_via_way_ids e)),
      (''to_way_ids'', nats_json (re_to_way_ids e)), (''generated_rule_count'', JInt (int (re_generated_rule_count e))),
      (''source_tags'', JList (map tag_dump (re_source_tags e)))]"

definition statistics_dump :: "road_graph_statistics \<Rightarrow> json" where
  "statistics_dump s = JDict
     [(''parsed_node_count'', JInt (int (gt_parsed_node_count s))), (''parsed_way_count'', JInt (int (gt_parsed_way_count s))),
      (''parsed_relation_count'', JInt (int (gt_parsed_relation_count s))),
      (''included_way_count'', JInt (int (gt_included_way_count s))), (''excluded_way_count'', JInt (int (gt_excluded_way_count s))),
      (''topology_node_count'', JInt (int (gt_topology_node_count s))), (''directed_arc_count'', JInt (int (gt_directed_arc_count s))),
      (''forward_arc_count'', JInt (int (gt_forward_arc_count s))), (''reverse_arc_count'', JInt (int (gt_reverse_arc_count s))),
      (''transition_rule_count'', JInt (int (gt_transition_rule_count s))),
      (''applied_restriction_count'', JInt (int (gt_applied_restriction_count s))),
      (''unknown_restriction_count'', JInt (int (gt_unknown_restriction_count s))),
      (''exclusion_reason_counts'', JDict (map (\<lambda>(k, n). (k, JInt (int n))) (gt_exclusion_reason_counts s)))]"

text \<open>\<open>_graph_identity_payload\<close>: everything but the identity.\<close>

definition graph_identity_payload :: "float_ops \<Rightarrow> road_graph \<Rightarrow> json" where
  "graph_identity_payload fl g = JDict
     [(''schema_version'', JStr ''cartosentry.directed-road-graph.v1''),
      (''profile_immutable_sha256'', JStr (rg_profile_immutable_sha256 g)), (''profile_file_sha256'', JStr (rg_profile_file_sha256 g)),
      (''source'', graph_source_dump (rg_source g)), (''local_frame'', local_frame_dump fl (rg_local_frame g)),
      (''nodes'', JList (map (road_node_dump fl) (rg_nodes g))), (''arcs'', JList (map (road_arc_dump fl) (rg_arcs g))),
      (''transition_rules'', JList (map rule_dump (rg_transition_rules g))),
      (''restrictions'', JList (map restriction_evidence_dump (rg_restrictions g))), (''statistics'', statistics_dump (rg_statistics g))]"

definition validate_graph_identity :: "(string \<Rightarrow> string) \<Rightarrow> float_ops \<Rightarrow> road_graph \<Rightarrow> unit res" where
  "validate_graph_identity sha fl g =
     bindE (hashed_id sha ''road-graph'' (graph_identity_payload fl g)) (\<lambda>expected.
       ensure (rg_graph_id g = expected) (ValueError ''directed road graph identity is invalid''))"

section \<open>The validators\<close>

definition invalid_model :: "string \<Rightarrow> exn" where
  "invalid_model name = ValueError (''validation error for '' @ name)"

definition e7_in_range :: "wgs84_e7 \<Rightarrow> bool" where
  "e7_in_range c \<longleftrightarrow> \<bar>wg_latitude_e7 c\<bar> \<le> 900000000 \<and> \<bar>wg_longitude_e7 c\<bar> \<le> 1800000000"

definition node_name :: "nat \<Rightarrow> string" where
  "node_name n = ''osm-node-'' @ show_nat n"

definition check_graph_source :: "road_graph_source \<Rightarrow> unit res" where
  "check_graph_source s =
     (let normalized = replace_char (CHR 0x5C) (CHR ''/'') (gs_source_object_key s) in
      bindE (ensure (gs_source_object_key s \<noteq> [] \<and> is_sha256 (gs_source_sha256 s) \<and> gs_attribution s \<noteq> [] \<and> gs_license_url s \<noteq> []
         \<and> gs_database_classification s \<in> {''ODBL_DERIVATIVE_DATABASE'', ''PROJECT_TEST_FIXTURE''})
        (invalid_model ''RoadGraphSource'')) (\<lambda>_.
      bindE (ensure (\<not> (list_ex (\<lambda>p. prefix p normalized) [''/'', ''~/'', ''//''] \<or> ''..'' \<in> set (split_on (CHR ''/'') normalized)))
        (ValueError ''road graph source key must be portable and relative'')) (\<lambda>_.
        ensure (gs_database_classification s = (case gs_source_kind s of
            OPENSTREETMAP_EXTRACT \<Rightarrow> ''ODBL_DERIVATIVE_DATABASE'' | HAND_AUTHORED_FIXTURE \<Rightarrow> ''PROJECT_TEST_FIXTURE''))
          (ValueError ''road graph source classification is inconsistent''))))"

definition check_graph_frame :: "road_graph_local_frame \<Rightarrow> unit res" where
  "check_graph_frame f =
     bindE (check_named_frame (gf_frame f)) (\<lambda>_.
       ensure (\<bar>gf_origin_latitude_e8 f\<bar> \<le> 9000000000 \<and> \<bar>gf_origin_longitude_e8 f\<bar> \<le> 18000000000)
         (invalid_model ''RoadGraphLocalFrame''))"

definition check_road_node :: "road_node \<Rightarrow> unit res" where
  "check_road_node n = ensure (is_identifier (rd_node_id n) \<and> 0 < rd_osm_node_id n \<and> e7_in_range (rd_position_wgs84_e7 n))
     (invalid_model ''RoadNode'')"

definition check_road_arc :: "road_arc \<Rightarrow> unit res" where
  "check_road_arc a =
     (let points = ra_source_geometry_node_ids a in
      bindE (ensure (is_id_of ''osm-arc'' (ra_arc_id a) \<and> is_identifier (ra_from_node_id a) \<and> is_identifier (ra_to_node_id a)
         \<and> 0 < ra_source_way_id a \<and> list_all (\<lambda>n. 0 < n) points \<and> list_all e7_in_range (ra_geometry_wgs84_e7 a)
         \<and> 0 < ra_length_m a \<and> list_all (\<lambda>t. tg_key t \<noteq> []) (ra_source_tags a)) (invalid_model ''DirectedRoadArc'')) (\<lambda>_.
      bindE (ensure (2 \<le> length points \<and> length (ra_geometry_wgs84_e7 a) = length points
         \<and> length (ra_geometry_local_m a) = length points)
        (ValueError ''road arc geometries must have matching point counts'')) (\<lambda>_.
        ensure (ra_from_node_id a = node_name (hd points) \<and> ra_to_node_id a = node_name (last points))
          (ValueError ''road arc endpoints must match source geometry endpoints''))))"

definition check_transition_rule :: "transition_rule \<Rightarrow> unit res" where
  "check_transition_rule r = ensure (is_id_of ''osm-arc'' (tr_from_arc_id r) \<and> is_id_of ''osm-arc'' (tr_to_arc_id r)
     \<and> 0 < tr_source_relation_id r) (invalid_model ''TransitionRule'')"

definition is_applied :: "restriction_interpretation \<Rightarrow> bool" where
  "is_applied i \<longleftrightarrow> i = APPLIED_NO \<or> i = APPLIED_ONLY"

definition check_restriction_evidence :: "restriction_evidence \<Rightarrow> unit res" where
  "check_restriction_evidence e =
     bindE (ensure (0 < re_source_relation_id e \<and> list_all (\<lambda>n. 0 < n) (re_from_way_ids e @ re_via_node_ids e @ re_via_way_ids e
         @ re_to_way_ids e) \<and> list_all (\<lambda>t. tg_key t \<noteq> []) (re_source_tags e)) (invalid_model ''TurnRestrictionEvidence'')) (\<lambda>_.
       ensure (\<not> (is_applied (re_interpretation e) \<and> re_generated_rule_count e = 0))
         (ValueError ''applied turn restrictions must generate transition rules''))"

definition rule_key :: "transition_rule \<Rightarrow> string \<times> string \<times> string \<times> nat" where
  "rule_key r = (tr_from_arc_id r, tr_to_arc_id r, transition_name (tr_state r), tr_source_relation_id r)"

definition count_direction :: "arc_direction \<Rightarrow> road_arc list \<Rightarrow> nat" where
  "count_direction d arcs = length (filter (\<lambda>a. ra_direction a = d) arcs)"

definition check_road_graph :: "road_graph \<Rightarrow> unit res" where
  "check_road_graph g =
     (let node_ids = map rd_node_id (rg_nodes g); arc_ids = map ra_arc_id (rg_arcs g); s = rg_statistics g in
     bindE (ensure (is_id_of ''road-graph'' (rg_graph_id g) \<and> is_sha256 (rg_profile_immutable_sha256 g)
         \<and> is_sha256 (rg_profile_file_sha256 g)) (invalid_model ''DirectedRoadGraph'')) (\<lambda>_.
     bindE (ensure (distinct node_ids \<and> distinct arc_ids)
       (ValueError ''road graph node and arc identifiers must be unique'')) (\<lambda>_.
     bindE (ensure (list_all (\<lambda>a. ra_from_node_id a \<in> set node_ids \<and> ra_to_node_id a \<in> set node_ids) (rg_arcs g))
       (ValueError ''road graph arcs must reference topology nodes'')) (\<lambda>_.
     bindE (ensure (list_all (\<lambda>r. tr_from_arc_id r \<in> set arc_ids \<and> tr_to_arc_id r \<in> set arc_ids) (rg_transition_rules g))
       (ValueError ''road graph transition rules must reference arcs'')) (\<lambda>_.
     bindE (ensure (sort arc_ids = arc_ids) (ValueError ''road graph arcs must have deterministic identity order'')) (\<lambda>_.
     bindE (ensure (distinct (map re_source_relation_id (rg_restrictions g)) \<and> distinct (map rule_key (rg_transition_rules g)))
       (ValueError ''road graph restriction evidence must be unique'')) (\<lambda>_.
       ensure (gt_topology_node_count s = length (rg_nodes g) \<and> gt_directed_arc_count s = length (rg_arcs g)
         \<and> gt_forward_arc_count s = count_direction FORWARD (rg_arcs g)
         \<and> gt_reverse_arc_count s = count_direction REVERSE (rg_arcs g)
         \<and> gt_transition_rule_count s = length (rg_transition_rules g)
         \<and> gt_included_way_count s + gt_excluded_way_count s = gt_parsed_way_count s)
         (ValueError ''road graph statistics do not match portable content''))))))))"

text \<open>\<open>RoadGraphLocalFrame.local_origin\<close>.\<close>

definition graph_local_origin :: "float_ops \<Rightarrow> road_graph_local_frame \<Rightarrow> local_origin" where
  "graph_local_origin fl f =
     \<lparr>og_frame = gf_frame f,
      og_global_coordinate =
        \<lparr>gc_latitude_deg = fl_nearest fl (of_int (gf_origin_latitude_e8 f) / 100000000),
         gc_longitude_deg = fl_nearest fl (of_int (gf_origin_longitude_e8 f) / 100000000),
         gc_altitude_m = Some 0, gc_vertical_datum = WGS84_ELLIPSOID\<rparr>\<rparr>"

end
