(* ===== verification/RoadImport.thy ===== *)
theory RoadImport
  imports RoadGraph
begin

text \<open>
  The OpenStreetMap importer of \<^verbatim>\<open>python/cartosentry/road_graph.py\<close>: reading the elements of
  the document, the inclusion and the directions of a way, the split of the ways into directed arcs, the
  turn restrictions, and the graph they make.  The document arrives as the element tree that
  \<open>ElementTree.parse\<close> returns for its bytes, nothing when the text is malformed.
\<close>

section \<open>Text to numbers\<close>

datatype element = Element string "(string \<times> string) list" "element list"

text \<open>\<open>int\<close> and \<open>Decimal\<close> first turn the digits and spaces of other alphabets into ASCII;
  \<open>oi_ascii\<close> does so on a text that is not ASCII.\<close>

record osm_io =
  oi_ascii :: "string \<Rightarrow> string"
  oi_xml :: "string \<Rightarrow> element option"

definition is_ascii :: "string \<Rightarrow> bool" where
  "is_ascii s \<longleftrightarrow> list_all (\<lambda>c. (of_char c :: nat) < 128) s"

definition is_space :: "char \<Rightarrow> bool" where
  "is_space c \<longleftrightarrow> (let n = of_char c :: nat in 9 \<le> n \<and> n \<le> 13 \<or> n = 32)"

definition strip_space :: "string \<Rightarrow> string" where
  "strip_space s = rev (dropWhile is_space (rev (dropWhile is_space s)))"

definition plain_text :: "osm_io \<Rightarrow> string \<Rightarrow> string" where
  "plain_text io s = strip_space (if is_ascii s then s else oi_ascii io s)"

definition split_sign :: "string \<Rightarrow> bool \<times> string" where
  "split_sign s = (case s of c # r \<Rightarrow> if c = CHR ''-'' then (True, r) else if c = CHR ''+'' then (False, r) else (False, s) | [] \<Rightarrow> (False, s))"

definition signed :: "bool \<Rightarrow> nat \<Rightarrow> int" where
  "signed negative n = (if negative then - int n else int n)"

definition MAXIMUM_INT_DIGITS :: nat where
  "MAXIMUM_INT_DIGITS = 4300"

text \<open>\<open>int(s)\<close>, nothing when it raises \<open>ValueError\<close>.\<close>

definition python_int :: "osm_io \<Rightarrow> string \<Rightarrow> int option" where
  "python_int io s =
     (case split_sign (plain_text io s) of (negative, u) \<Rightarrow>
        let parts = split_on (CHR ''_'') u; digits = concat parts in
        if list_all (\<lambda>p. p \<noteq> [] \<and> list_all is_digit p) parts \<and> length digits \<le> MAXIMUM_INT_DIGITS
        then Some (signed negative (read_nat digits)) else None)"

definition positive_id :: "string \<Rightarrow> string \<Rightarrow> nat res" where
  "positive_id context0 s =
     (let refused = ValueError (''OSM '' @ context0 @ '' identifier must be a positive integer'') in
      if s = [] \<or> \<not> list_all is_digit s then Inl refused
      else if MAXIMUM_INT_DIGITS < length s then Inl (ValueError ''Exceeds the limit for integer string conversion'')
      else if read_nat s = 0 then Inl refused
      else Inr (read_nat s))"

text \<open>The value of \<open>Decimal(s)\<close>: sign, coefficient and exponent, an infinity, or a NaN that may signal.\<close>

datatype decimal_value = Finite bool nat int | Infinite bool | NotANumber bool

definition decimal_number :: "string \<Rightarrow> decimal_value option" where
  "decimal_number s =
     (case split_sign s of (negative, u) \<Rightarrow>
        let t = lower u; mantissa = takeWhile (\<lambda>c. c \<noteq> CHR ''e'') t; scientific = dropWhile (\<lambda>c. c \<noteq> CHR ''e'') t;
            whole = takeWhile (\<lambda>c. c \<noteq> CHR ''.'') mantissa; fraction = drop 1 (dropWhile (\<lambda>c. c \<noteq> CHR ''.'') mantissa);
            (shrinks, power) = split_sign (drop 1 scientific);
            exponent = signed shrinks (read_nat power) - int (length fraction); coefficient = read_nat (whole @ fraction) in
        if t = ''inf'' \<or> t = ''infinity'' then Some (Infinite negative)
        else if prefix ''nan'' t \<and> list_all is_digit (drop 3 t) then Some (NotANumber False)
        else if prefix ''snan'' t \<and> list_all is_digit (drop 4 t) then Some (NotANumber True)
        else if whole @ fraction = [] \<or> \<not> list_all is_digit (whole @ fraction) \<or>
           scientific \<noteq> [] \<and> (power = [] \<or> \<not> list_all is_digit power) \<or>
           999999999999999999 < exponent + int (length (show_nat coefficient)) - 1 \<or> exponent < - 1999999999999999997 then None
        else Some (Finite negative coefficient exponent))"

text \<open>The product with \<open>Decimal(10_000_000)\<close> in the default context: 28 digits, half even, exponents
  up to 999999; only an overflow raises.\<close>

definition times_e7 :: "nat \<Rightarrow> int \<Rightarrow> (nat \<times> int) res" where
  "times_e7 coefficient exponent =
     (let product = coefficient * 10000000;
          excess = nat (max 0 (max (int (length (show_nat product)) - 28) (- 1000026 - exponent)));
          rounded = nat (round_half_even (of_nat product / 10 ^ excess)) in
      if rounded = 0 then Inr (0, 0)
      else if 999999 < exponent + int excess + int (length (show_nat rounded)) - 1 then Inl (DecimalOverflow ''decimal.Overflow'')
      else Inr (rounded, exponent + int excess))"

definition integral_value :: "nat \<Rightarrow> int \<Rightarrow> nat option" where
  "integral_value coefficient exponent =
     (if 0 \<le> exponent then Some (coefficient * 10 ^ nat exponent)
      else if 10 ^ nat (- exponent) dvd coefficient then Some (coefficient div 10 ^ nat (- exponent)) else None)"

definition coordinate_e7 :: "osm_io \<Rightarrow> string \<Rightarrow> bool \<Rightarrow> int res" where
  "coordinate_e7 io s latitude =
     (let seven = ValueError ''OSM coordinates must have at most seven decimal places'';
          finite = ValueError ''OSM coordinate must be finite decimal degrees'' in
      case decimal_number (filter (\<lambda>c. c \<noteq> CHR ''_'') (plain_text io s)) of
        None \<Rightarrow> Inl finite
      | Some (NotANumber signalling) \<Rightarrow> Inl (if signalling then finite else seven)
      | Some (Infinite negative) \<Rightarrow> Inl (OverflowError ''cannot convert Infinity to integer'')
      | Some (Finite negative coefficient exponent) \<Rightarrow>
          bindE (times_e7 coefficient exponent) (\<lambda>(c, e).
            case integral_value c e of
              None \<Rightarrow> Inl seven
            | Some n \<Rightarrow>
                bindE (ensure (n \<le> (if latitude then 900000000 else 1800000000))
                   (ValueError ''OSM coordinate is outside WGS84 bounds'')) (\<lambda>_. Inr (signed negative n))))"

section \<open>Elements\<close>

fun element_tag :: "element \<Rightarrow> string" where
  "element_tag (Element t a cs) = t"

fun attribute :: "element \<Rightarrow> string \<Rightarrow> string option" where
  "attribute (Element t a cs) k = map_of a k"

fun children :: "string \<Rightarrow> element \<Rightarrow> element list" where
  "children name (Element t a cs) = filter (\<lambda>c. element_tag c = name) cs"

text \<open>\<open>attrib.get(k, "")\<close>.\<close>

definition attribute_text :: "element \<Rightarrow> string \<Rightarrow> string" where
  "attribute_text e k = (case attribute e k of None \<Rightarrow> [] | Some v \<Rightarrow> v)"

record raw_way =
  rw_way_id :: nat
  rw_node_ids :: "nat list"
  rw_tags :: "(string \<times> string) list"

record raw_member =
  rm_member_type :: string
  rm_member_id :: nat
  rm_role :: string

record raw_relation =
  rl_relation_id :: nat
  rl_members :: "raw_member list"
  rl_tags :: "(string \<times> string) list"

record raw_map =
  mp_nodes :: "(nat \<times> wgs84_e7) list"
  mp_ways :: "raw_way list"
  mp_relations :: "raw_relation list"
  mp_minimum :: wgs84_e7
  mp_maximum :: wgs84_e7

fun read_tags :: "nat \<Rightarrow> (string \<times> string) list \<Rightarrow> element list \<Rightarrow> (string \<times> string) list res" where
  "read_tags maximum tags [] = Inr tags"
| "read_tags maximum tags (e # es) =
     (case (attribute e ''k'', attribute e ''v'') of
        (Some k, Some v) \<Rightarrow>
          if k = [] \<or> map_of tags k \<noteq> None then Inl (ValueError ''OSM tags must have unique nonempty keys and values'')
          else if maximum < length tags + 1 then Inl (ValueError ''OSM element tag count exceeds the frozen budget'')
          else read_tags maximum (tags @ [(k, v)]) es
      | _ \<Rightarrow> Inl (ValueError ''OSM tags must have unique nonempty keys and values''))"

definition element_tags :: "nat \<Rightarrow> element \<Rightarrow> (string \<times> string) list res" where
  "element_tags maximum e = read_tags maximum [] (children ''tag'' e)"

definition read_position :: "osm_io \<Rightarrow> element \<Rightarrow> string \<Rightarrow> string \<Rightarrow> wgs84_e7 res" where
  "read_position io e latitude longitude =
     bindE (coordinate_e7 io (attribute_text e latitude) True) (\<lambda>lat.
     bindE (coordinate_e7 io (attribute_text e longitude) False) (\<lambda>lon.
       Inr \<lparr>wg_latitude_e7 = lat, wg_longitude_e7 = lon\<rparr>))"

fun read_nodes :: "osm_io \<Rightarrow> graph_limits \<Rightarrow> (nat \<times> wgs84_e7) list \<Rightarrow> element list \<Rightarrow> (nat \<times> wgs84_e7) list res" where
  "read_nodes io limits nodes [] = Inr nodes"
| "read_nodes io limits nodes (e # es) =
     bindE (positive_id ''node'' (attribute_text e ''id'')) (\<lambda>node_id.
     bindE (ensure (map_of nodes node_id = None) (ValueError ''OSM node identifiers must be unique'')) (\<lambda>_.
     bindE (read_position io e ''lat'' ''lon'') (\<lambda>position.
     bindE (element_tags (gl_maximum_tags_per_element limits) e) (\<lambda>_.
       read_nodes io limits (nodes @ [(node_id, position)]) es))))"

fun read_ways :: "graph_limits \<Rightarrow> (nat \<times> wgs84_e7) list \<Rightarrow> nat \<Rightarrow> raw_way list \<Rightarrow> element list \<Rightarrow> raw_way list res" where
  "read_ways limits nodes references ways [] = Inr ways"
| "read_ways limits nodes references ways (e # es) =
     bindE (positive_id ''way'' (attribute_text e ''id'')) (\<lambda>way_id.
     bindE (ensure (way_id \<notin> set (map rw_way_id ways)) (ValueError ''OSM way identifiers must be unique'')) (\<lambda>_.
     bindE (mapE (\<lambda>nd. positive_id ''node reference'' (attribute_text nd ''ref'')) (children ''nd'' e)) (\<lambda>node_ids.
     bindE (ensure (references + length node_ids \<le> gl_maximum_way_node_references limits)
       (ValueError ''OSM way references exceed the frozen budget'')) (\<lambda>_.
     bindE (ensure (list_all (\<lambda>n. map_of nodes n \<noteq> None) node_ids)
       (ValueError ''OSM way references an unavailable node'')) (\<lambda>_.
     bindE (element_tags (gl_maximum_tags_per_element limits) e) (\<lambda>tags.
       read_ways limits nodes (references + length node_ids)
         (ways @ [\<lparr>rw_way_id = way_id, rw_node_ids = node_ids, rw_tags = tags\<rparr>]) es))))))"

fun read_relations :: "graph_limits \<Rightarrow> raw_relation list \<Rightarrow> element list \<Rightarrow> raw_relation list res" where
  "read_relations limits relations [] = Inr relations"
| "read_relations limits relations (e # es) =
     bindE (positive_id ''relation'' (attribute_text e ''id'')) (\<lambda>relation_id.
     bindE (ensure (relation_id \<notin> set (map rl_relation_id relations)) (ValueError ''OSM relation identifiers must be unique'')) (\<lambda>_.
     bindE (mapE (\<lambda>m. bindE (positive_id ''relation member'' (attribute_text m ''ref'')) (\<lambda>member_id.
         Inr \<lparr>rm_member_type = attribute_text m ''type'', rm_member_id = member_id, rm_role = attribute_text m ''role''\<rparr>))
       (children ''member'' e)) (\<lambda>members.
     bindE (element_tags (gl_maximum_tags_per_element limits) e) (\<lambda>tags.
       read_relations limits (relations @ [\<lparr>rl_relation_id = relation_id, rl_members = members, rl_tags = tags\<rparr>]) es))))"

definition map_bounds :: "osm_io \<Rightarrow> element \<Rightarrow> (nat \<times> wgs84_e7) list \<Rightarrow> (wgs84_e7 \<times> wgs84_e7) res" where
  "map_bounds io tree nodes =
     bindE (case children ''bounds'' tree of
        bounds # _ \<Rightarrow> bindE (read_position io bounds ''minlat'' ''minlon'') (\<lambda>low.
          bindE (read_position io bounds ''maxlat'' ''maxlon'') (\<lambda>high. Inr (low, high)))
      | [] \<Rightarrow> (if nodes = [] then Inl (ValueError ''OSM XML has neither bounds nor nodes'')
               else let lats = map (wg_latitude_e7 \<circ> snd) nodes; lons = map (wg_longitude_e7 \<circ> snd) nodes in
                 Inr (\<lparr>wg_latitude_e7 = Min (set lats), wg_longitude_e7 = Min (set lons)\<rparr>,
                      \<lparr>wg_latitude_e7 = Max (set lats), wg_longitude_e7 = Max (set lons)\<rparr>))) (\<lambda>(low, high).
     bindE (ensure (wg_latitude_e7 low \<le> wg_latitude_e7 high \<and> wg_longitude_e7 low \<le> wg_longitude_e7 high)
       (ValueError ''OSM bounds are reversed'')) (\<lambda>_. Inr (low, high)))"

definition ascii_upper :: "string \<Rightarrow> string" where
  "ascii_upper s = map (\<lambda>c. if is_lower c then char_of (of_char c - (32 :: nat)) else c) s"

definition parse_osm :: "osm_io \<Rightarrow> graph_limits \<Rightarrow> string \<Rightarrow> raw_map res" where
  "parse_osm io limits content =
     (let upper = ascii_upper content in
     bindE (ensure (\<not> (sublist ''<!DOCTYPE'' upper \<or> sublist ''<!ENTITY'' upper))
       (ValueError ''OSM XML declarations and entities are not supported'')) (\<lambda>_.
     bindE (case oi_xml io content of None \<Rightarrow> Inl (ValueError ''OSM XML is malformed'') | Some tree \<Rightarrow> Inr tree) (\<lambda>tree.
     bindE (ensure (element_tag tree = ''osm'' \<and> attribute tree ''version'' = Some ''0.6'')
       (ValueError ''OSM XML must use the version 0.6 root contract'')) (\<lambda>_.
     bindE (ensure (length (children ''node'' tree) \<le> gl_maximum_nodes limits)
       (ValueError ''OSM node count exceeds the frozen budget'')) (\<lambda>_.
     bindE (ensure (length (children ''way'' tree) \<le> gl_maximum_ways limits)
       (ValueError ''OSM way count exceeds the frozen budget'')) (\<lambda>_.
     bindE (ensure (length (children ''relation'' tree) \<le> gl_maximum_relations limits)
       (ValueError ''OSM relation count exceeds the frozen budget'')) (\<lambda>_.
     bindE (read_nodes io limits [] (children ''node'' tree)) (\<lambda>nodes.
     bindE (read_ways limits nodes 0 [] (children ''way'' tree)) (\<lambda>ways.
     bindE (read_relations limits [] (children ''relation'' tree)) (\<lambda>relations.
     bindE (map_bounds io tree nodes) (\<lambda>(low, high).
       Inr \<lparr>mp_nodes = nodes, mp_ways = ways, mp_relations = relations, mp_minimum = low, mp_maximum = high\<rparr>)))))))))))"

end
