(* ===== verification/RoadArcs.thy ===== *)
theory RoadArcs
  imports RoadImport
begin

text \<open>
  The rest of the importer of \<^verbatim>\<open>python/cartosentry/road_graph.py\<close>: which ways are included and
  in which directions, their split into directed arcs, the turn restrictions, and the graph.
\<close>

section \<open>Inclusion\<close>

record included_way =
  iw_raw :: raw_way
  iw_forward :: bool
  iw_reverse :: bool

datatype way_decision = Excluded string | Included included_way

text \<open>The first of the keys that is present, with its value.\<close>

fun first_tag :: "string list \<Rightarrow> (string \<times> string) list \<Rightarrow> string option" where
  "first_tag [] tags = None"
| "first_tag (k # ks) tags = (case map_of tags k of Some v \<Rightarrow> Some v | None \<Rightarrow> first_tag ks tags)"

text \<open>Access in general: nothing, or the reason of the exclusion.\<close>

definition generic_access :: "access_profile \<Rightarrow> (string \<times> string) list \<Rightarrow> string option" where
  "generic_access access tags =
     (case first_tag (ap_generic_keys access) tags of
        None \<Rightarrow> None
      | Some v \<Rightarrow> if v \<in> set (ap_allowed_values access) then None
          else if v \<in> set (ap_denied_values access) then Some ''denied_or_limited_access'' else Some ''unknown_access'')"

text \<open>\<open>_directional_access\<close>: whether the direction is allowed, and whether that is unknown.\<close>

definition directional_access :: "access_profile \<Rightarrow> (string \<times> string) list \<Rightarrow> string \<Rightarrow> bool \<times> bool" where
  "directional_access access tags suffix0 =
     (case first_tag (map (\<lambda>k. k @ '':'' @ suffix0) (ap_generic_keys access)) tags of
        None \<Rightarrow> (True, False)
      | Some v \<Rightarrow> if v \<in> set (ap_allowed_values access) then (True, False)
          else if v \<in> set (ap_denied_values access) then (False, False) else (False, True))"

text \<open>The directions that the \<open>oneway\<close> tags permit, nothing when the value is unknown.\<close>

definition oneway_directions ::
  "directionality_profile \<Rightarrow> (string \<times> string) list \<Rightarrow> string \<Rightarrow> (bool \<times> bool) option" where
  "oneway_directions profile tags highway =
     (case first_tag (dp_oneway_keys profile) tags of
        None \<Rightarrow> Some (True, \<not> ((case map_of tags ''junction'' of None \<Rightarrow> False
            | Some v \<Rightarrow> v \<in> set (dp_implicit_forward_junction_values profile))
          \<or> highway \<in> set (dp_implicit_forward_highway_classes profile)))
      | Some v \<Rightarrow> if v \<in> set (dp_forward_values profile) then Some (True, False)
          else if v \<in> set (dp_reverse_values profile) then Some (False, True)
          else if v \<in> set (dp_bidirectional_values profile) then Some (True, True) else None)"

definition tag_text :: "(string \<times> string) list \<Rightarrow> string \<Rightarrow> string" where
  "tag_text tags k = (case map_of tags k of None \<Rightarrow> [] | Some v \<Rightarrow> v)"

definition include_way :: "osm_io \<Rightarrow> graph_import_profile \<Rightarrow> raw_way \<Rightarrow> way_decision" where
  "include_way io profile way =
     (let tags = rw_tags way; highway = tag_text tags ''highway''; has = (\<lambda>k. map_of tags k \<noteq> None) in
      if highway \<notin> set (gi_included_highway_classes profile) then Excluded ''unsupported_highway''
      else if map_of tags ''area'' = Some ''yes'' then Excluded ''area''
      else if highway = ''construction'' \<or> has ''construction'' \<or> has ''proposed'' then Excluded ''construction''
      else if map_of tags ''route'' = Some ''ferry'' \<or> has ''ferry'' then Excluded ''ferry''
      else if list_ex (\<lambda>(k, _). suffix '':conditional'' k) tags then Excluded ''conditional_access''
      else (case generic_access (gi_access profile) tags of
        Some reason \<Rightarrow> Excluded reason
      | None \<Rightarrow>
          if length (rw_node_ids way) < 2 then Excluded ''insufficient_geometry''
          else (case oneway_directions (gi_directionality profile) tags highway of
            None \<Rightarrow> Excluded ''unknown_oneway''
          | Some (forward, reverse) \<Rightarrow>
              let (forward_access, forward_unknown) = directional_access (gi_access profile) tags ''forward'';
                  (reverse_access, reverse_unknown) = directional_access (gi_access profile) tags ''backward'' in
              if forward_unknown \<or> reverse_unknown then Excluded ''unknown_directional_access''
              else if \<not> (forward \<and> forward_access) \<and> \<not> (reverse \<and> reverse_access) then Excluded ''no_allowed_direction''
              else if (case map_of tags ''layer'' of None \<Rightarrow> False | Some t \<Rightarrow> python_int io t = None) then Excluded ''unknown_layer''
              else Included \<lparr>iw_raw = way, iw_forward = forward \<and> forward_access, iw_reverse = reverse \<and> reverse_access\<rparr>)))"

section \<open>Arcs\<close>

definition tag_models :: "(string \<times> string) list \<Rightarrow> osm_tag list" where
  "tag_models tags = map (\<lambda>(k, v). \<lparr>tg_key = k, tg_value = v\<rparr>) (sort_key fst tags)"

definition local_frame_of :: "(string \<Rightarrow> string) \<Rightarrow> wgs84_e7 \<Rightarrow> wgs84_e7 \<Rightarrow> road_graph_local_frame res" where
  "local_frame_of sha low high =
     (let latitude = (wg_latitude_e7 low + wg_latitude_e7 high) * 5; longitude = (wg_longitude_e7 low + wg_longitude_e7 high) * 5 in
     bindE (canonical_hash sha (JDict [(''latitude_e8'', JInt latitude), (''longitude_e8'', JInt longitude)])) (\<lambda>h.
     let f = \<lparr>gf_frame = \<lparr>nf_frame_id = ''road_graph_local_'' @ take 16 h, nf_x_axis = ''east'', nf_y_axis = ''north'', nf_z_axis = ''up''\<rparr>,
              gf_origin_latitude_e8 = latitude, gf_origin_longitude_e8 = longitude\<rparr>
     in bindE (check_graph_frame f) (\<lambda>_. Inr f)))"

definition local_position ::
  "native_geometry \<Rightarrow> float_ops \<Rightarrow> road_graph_local_frame \<Rightarrow> nat \<Rightarrow> wgs84_e7 \<Rightarrow> triple3 res" where
  "local_position geo fl frame places c =
     bindE (to_local geo (graph_local_origin fl frame)
        \<lparr>gc_latitude_deg = fl_nearest fl (of_int (wg_latitude_e7 c) / 10000000),
         gc_longitude_deg = fl_nearest fl (of_int (wg_longitude_e7 c) / 10000000),
         gc_altitude_m = Some 0, gc_vertical_datum = WGS84_ELLIPSOID\<rparr>) (\<lambda>converted.
       case lo_position_m converted of (x, y, z) \<Rightarrow> Inr (py_round fl places x, py_round fl places y, 0))"

definition arc_length :: "float_ops \<Rightarrow> nat \<Rightarrow> triple3 list \<Rightarrow> rat" where
  "arc_length fl places geometry = py_round fl places (fl_sum fl (map (\<lambda>(p, q). fl_dist fl p q) (pairwise geometry)))"

definition arc_id :: "(string \<Rightarrow> string) \<Rightarrow> string \<Rightarrow> nat \<Rightarrow> nat \<Rightarrow> arc_direction \<Rightarrow> nat list \<Rightarrow> string res" where
  "arc_id sha profile_sha256 way_id chain_index direction node_ids =
     hashed_id sha ''osm-arc'' (JDict
       [(''profile_immutable_sha256'', JStr profile_sha256), (''source_way_id'', JInt (int way_id)),
        (''source_chain_index'', JInt (int chain_index)), (''direction'', JStr (direction_name direction)),
        (''source_geometry_node_ids'', nats_json node_ids)])"

text \<open>A node is in the topology when two ways use it, when a restriction turns at it, or when a way
  begins or ends at it.\<close>

definition ways_using :: "included_way list \<Rightarrow> nat \<Rightarrow> nat list" where
  "ways_using included n = remdups (map (rw_way_id \<circ> iw_raw) (filter (\<lambda>w. n \<in> set (rw_node_ids (iw_raw w))) included))"

definition in_topology :: "included_way list \<Rightarrow> nat list \<Rightarrow> nat \<Rightarrow> bool" where
  "in_topology included via_nodes n \<longleftrightarrow>
     1 < length (ways_using included n) \<or> n \<in> set via_nodes \<or>
     list_ex (\<lambda>w. n = hd (rw_node_ids (iw_raw w)) \<or> n = last (rw_node_ids (iw_raw w))) included"

definition split_positions :: "(nat \<Rightarrow> bool) \<Rightarrow> nat list \<Rightarrow> nat list" where
  "split_positions topology node_ids =
     (let found = filter (\<lambda>i. topology (node_ids ! i)) [0..<length node_ids];
          begun = (if found = [] \<or> hd found \<noteq> 0 then 0 # found else found) in
      if last begun \<noteq> length node_ids - 1 then begun @ [length node_ids - 1] else begun)"

definition chains :: "(nat \<Rightarrow> bool) \<Rightarrow> nat list \<Rightarrow> nat list list" where
  "chains topology node_ids =
     map (\<lambda>(start, end0). take (Suc end0 - start) (drop start node_ids)) (pairwise (split_positions topology node_ids))"

record arc_setting =
  as_sha :: "string \<Rightarrow> string"
  as_io :: osm_io
  as_fl :: float_ops
  as_profile :: graph_import_profile
  as_coordinates :: "nat \<Rightarrow> wgs84_e7"
  as_positions :: "nat \<Rightarrow> triple3"

definition truthy :: "(string \<times> string) list \<Rightarrow> string \<Rightarrow> bool" where
  "truthy tags k = (case map_of tags k of None \<Rightarrow> False | Some v \<Rightarrow> v \<in> {''yes'', ''true'', ''1''})"

definition make_arc ::
  "arc_setting \<Rightarrow> raw_way \<Rightarrow> nat \<Rightarrow> rat \<Rightarrow> int \<Rightarrow> arc_direction \<Rightarrow> nat list \<Rightarrow> road_arc res" where
  "make_arc st raw chain_index len layer direction node_ids =
     bindE (arc_id (as_sha st) (gi_immutable_sha256 (as_profile st)) (rw_way_id raw) chain_index direction node_ids) (\<lambda>i.
     let a = \<lparr>ra_arc_id = i, ra_from_node_id = node_name (hd node_ids), ra_to_node_id = node_name (last node_ids),
              ra_source_way_id = rw_way_id raw, ra_source_chain_index = chain_index, ra_direction = direction,
              ra_highway_class = tag_text (rw_tags raw) ''highway'', ra_source_geometry_node_ids = node_ids,
              ra_geometry_wgs84_e7 = map (as_coordinates st) node_ids, ra_geometry_local_m = map (as_positions st) node_ids,
              ra_length_m = len, ra_layer = layer, ra_bridge = truthy (rw_tags raw) ''bridge'',
              ra_tunnel = truthy (rw_tags raw) ''tunnel'', ra_source_tags = tag_models (rw_tags raw)\<rparr>
     in bindE (check_road_arc a) (\<lambda>_. Inr a))"

text \<open>The arcs of one chain of a way: none when it is too short, one for each direction otherwise.\<close>

definition chain_arcs :: "arc_setting \<Rightarrow> included_way \<Rightarrow> nat \<times> nat list \<Rightarrow> road_arc list res" where
  "chain_arcs st way p =
     (case p of (chain_index, node_ids) \<Rightarrow>
      let raw = iw_raw way; geometry = gi_geometry (as_profile st);
          len = arc_length (as_fl st) (gp_length_rounding_decimal_places geometry) (map (as_positions st) node_ids) in
      bindE (ensure (length node_ids \<le> gl_maximum_geometry_points_per_arc (gi_limits (as_profile st)))
        (ValueError ''road arc geometry exceeds the frozen point budget'')) (\<lambda>_.
      if len < gp_minimum_arc_length_m geometry then Inr []
      else
      bindE (case python_int (as_io st) (case map_of (rw_tags raw) ''layer'' of None \<Rightarrow> ''0'' | Some t \<Rightarrow> t) of
          None \<Rightarrow> Inl (ValueError ''invalid literal for int() with base 10'') | Some n \<Rightarrow> Inr n) (\<lambda>layer.
      bindE (if iw_forward way then bindE (make_arc st raw chain_index len layer FORWARD node_ids) (\<lambda>a. Inr [a]) else Inr []) (\<lambda>forward.
      bindE (if iw_reverse way then bindE (make_arc st raw chain_index len layer REVERSE (rev node_ids)) (\<lambda>a. Inr [a]) else Inr []) (\<lambda>reverse.
        Inr (forward @ reverse))))))"

definition way_arcs :: "arc_setting \<Rightarrow> (nat \<Rightarrow> bool) \<Rightarrow> included_way \<Rightarrow> road_arc list res" where
  "way_arcs st topology way =
     bindE (mapE (chain_arcs st way) (enumerate 0 (chains topology (rw_node_ids (iw_raw way))))) (\<lambda>arcs. Inr (concat arcs))"

definition build_arcs ::
  "(string \<Rightarrow> string) \<Rightarrow> osm_io \<Rightarrow> native_geometry \<Rightarrow> float_ops \<Rightarrow> included_way list \<Rightarrow> (nat \<times> wgs84_e7) list \<Rightarrow> nat list \<Rightarrow>
   road_graph_local_frame \<Rightarrow> graph_import_profile \<Rightarrow> (road_node list \<times> road_arc list) res" where
  "build_arcs sha io geo fl included nodes via_nodes frame profile =
     (let topology = in_topology included via_nodes;
          used = remdups (concat (map (rw_node_ids \<circ> iw_raw) included));
          coordinates = (\<lambda>n. the (map_of nodes n)) in
     bindE (mapE (\<lambda>n. bindE (local_position geo fl frame (gp_local_coordinate_rounding_decimal_places (gi_geometry profile)) (coordinates n))
        (\<lambda>p. Inr (n, p))) used) (\<lambda>positions.
     let st = \<lparr>as_sha = sha, as_io = io, as_fl = fl, as_profile = profile, as_coordinates = coordinates,
               as_positions = (\<lambda>n. the (map_of positions n))\<rparr> in
     bindE (mapE (way_arcs st topology) (sort_key (rw_way_id \<circ> iw_raw) included)) (\<lambda>arcs.
     bindE (mapE (\<lambda>n. let r = \<lparr>rd_node_id = node_name n, rd_osm_node_id = n, rd_position_wgs84_e7 = coordinates n,
          rd_position_local_m = as_positions st n\<rparr> in bindE (check_road_node r) (\<lambda>_. Inr r))
        (sort (filter topology used))) (\<lambda>road_nodes.
       Inr (road_nodes, sort_key ra_arc_id (concat arcs))))))"

section \<open>Turn restrictions\<close>

definition restriction_members :: "raw_relation \<Rightarrow> string \<Rightarrow> string \<Rightarrow> nat list" where
  "restriction_members relation member_type role =
     map rm_member_id (filter (\<lambda>m. rm_member_type m = member_type \<and> rm_role m = role) (rl_members relation))"

definition arcs_into :: "road_arc list \<Rightarrow> nat \<Rightarrow> string \<Rightarrow> road_arc list" where
  "arcs_into arcs way_id node_id = filter (\<lambda>a. ra_source_way_id a = way_id \<and> ra_to_node_id a = node_id) arcs"

definition arcs_out_of :: "road_arc list \<Rightarrow> nat \<Rightarrow> string \<Rightarrow> road_arc list" where
  "arcs_out_of arcs way_id node_id = filter (\<lambda>a. ra_source_way_id a = way_id \<and> ra_from_node_id a = node_id) arcs"

definition arcs_leaving :: "road_arc list \<Rightarrow> string \<Rightarrow> road_arc list" where
  "arcs_leaving arcs node_id = filter (\<lambda>a. ra_from_node_id a = node_id) arcs"

definition restriction_value :: "turn_restriction_profile \<Rightarrow> raw_relation \<Rightarrow> string" where
  "restriction_value profile relation =
     (case first_tag (tp_restriction_tag_keys profile) (rl_tags relation) of
        Some v \<Rightarrow> v | None \<Rightarrow> tag_text (rl_tags relation) ''restriction:conditional'')"

definition interpret_restriction :: "turn_restriction_profile \<Rightarrow> nat list \<Rightarrow> raw_relation \<Rightarrow> restriction_interpretation" where
  "interpret_restriction profile included_way_ids relation =
     (let from_ways = restriction_members relation ''way'' ''from''; to_ways = restriction_members relation ''way'' ''to'';
          via_nodes = restriction_members relation ''node'' ''via''; via_ways = restriction_members relation ''way'' ''via'';
          value0 = restriction_value profile relation in
      if map_of (rl_tags relation) ''except'' \<noteq> None then UNKNOWN_EXCEPT
      else if list_ex (\<lambda>(k, _). suffix '':conditional'' k) (rl_tags relation) then UNKNOWN_CONDITIONAL
      else if via_ways \<noteq> [] then UNKNOWN_VIA_WAY
      else if \<not> (length from_ways = 1 \<and> length to_ways = 1 \<and> length via_nodes = 1) then UNKNOWN_MALFORMED
      else if \<not> list_ex (\<lambda>p. prefix p value0) (tp_supported_prefixes profile) then UNKNOWN_VALUE
      else if \<not> set (from_ways @ to_ways) \<subseteq> set included_way_ids then INACTIVE_SOURCE_EXCLUDED
      else if prefix ''no_'' value0 then APPLIED_NO else APPLIED_ONLY)"

text \<open>The arcs a restriction starts from: those that end at its via node, or all arcs of the ways it
  starts from when it has not exactly one via node.\<close>

definition candidate_nodes :: "road_arc list \<Rightarrow> raw_relation \<Rightarrow> string list" where
  "candidate_nodes arcs relation =
     (case restriction_members relation ''node'' ''via'' of
        [n] \<Rightarrow> [node_name n]
      | _ \<Rightarrow> sort (remdups (map ra_to_node_id
          (filter (\<lambda>a. ra_source_way_id a \<in> set (restriction_members relation ''way'' ''from'')) arcs))))"

definition incoming_arcs :: "road_arc list \<Rightarrow> raw_relation \<Rightarrow> road_arc list" where
  "incoming_arcs arcs relation =
     (case restriction_members relation ''node'' ''via'' of
        [n] \<Rightarrow> concat (map (\<lambda>w. arcs_into arcs w (node_name n)) (restriction_members relation ''way'' ''from''))
      | _ \<Rightarrow> filter (\<lambda>a. ra_source_way_id a \<in> set (restriction_members relation ''way'' ''from'')) arcs)"

definition transition :: "nat \<Rightarrow> transition_state \<Rightarrow> road_arc \<Rightarrow> road_arc \<Rightarrow> transition_rule" where
  "transition relation_id state a b =
     \<lparr>tr_from_arc_id = ra_arc_id a, tr_to_arc_id = ra_arc_id b, tr_state = state, tr_source_relation_id = relation_id\<rparr>"

definition prohibited_rules :: "road_arc list \<Rightarrow> raw_relation \<Rightarrow> transition_rule list" where
  "prohibited_rules arcs relation =
     [transition (rl_relation_id relation) FORBIDDEN a b.
        node_id \<leftarrow> candidate_nodes arcs relation,
        a \<leftarrow> filter (\<lambda>a. ra_to_node_id a = node_id) (incoming_arcs arcs relation),
        way_id \<leftarrow> restriction_members relation ''way'' ''to'',
        b \<leftarrow> arcs_out_of arcs way_id node_id]"

definition permitted_arc_ids :: "road_arc list \<Rightarrow> raw_relation \<Rightarrow> string list" where
  "permitted_arc_ids arcs relation =
     [ra_arc_id b. node_id \<leftarrow> candidate_nodes arcs relation, way_id \<leftarrow> restriction_members relation ''way'' ''to'',
        b \<leftarrow> arcs_out_of arcs way_id node_id]"

definition mandatory_rules :: "road_arc list \<Rightarrow> raw_relation \<Rightarrow> transition_rule list" where
  "mandatory_rules arcs relation =
     (let allowed0 = permitted_arc_ids arcs relation in
      if allowed0 = [] then []
      else [transition (rl_relation_id relation) FORBIDDEN a b.
        a \<leftarrow> incoming_arcs arcs relation,
        b \<leftarrow> filter (\<lambda>b. ra_arc_id b \<notin> set allowed0) (arcs_leaving arcs (ra_to_node_id a))])"

definition unknown_rules :: "road_arc list \<Rightarrow> raw_relation \<Rightarrow> transition_rule list" where
  "unknown_rules arcs relation =
     [transition (rl_relation_id relation) UNKNOWN_RESTRICTION a b.
        a \<leftarrow> incoming_arcs arcs relation, b \<leftarrow> arcs_leaving arcs (ra_to_node_id a)]"

definition apply_restriction ::
  "turn_restriction_profile \<Rightarrow> road_arc list \<Rightarrow> nat list \<Rightarrow> raw_relation \<Rightarrow> restriction_interpretation \<times> transition_rule list" where
  "apply_restriction profile arcs included_way_ids relation =
     (case interpret_restriction profile included_way_ids relation of
        INACTIVE_SOURCE_EXCLUDED \<Rightarrow> (INACTIVE_SOURCE_EXCLUDED, [])
      | APPLIED_NO \<Rightarrow>
          (case prohibited_rules arcs relation of
             [] \<Rightarrow> (UNKNOWN_DISCONNECTED, unknown_rules arcs relation) | rules \<Rightarrow> (APPLIED_NO, rules))
      | APPLIED_ONLY \<Rightarrow>
          (case mandatory_rules arcs relation of
             [] \<Rightarrow> (UNKNOWN_DISCONNECTED, unknown_rules arcs relation) | rules \<Rightarrow> (APPLIED_ONLY, rules))
      | unknown \<Rightarrow> (unknown, unknown_rules arcs relation))"

definition restriction_entry ::
  "turn_restriction_profile \<Rightarrow> road_arc list \<Rightarrow> nat list \<Rightarrow> raw_relation \<Rightarrow> (transition_rule list \<times> restriction_evidence) res" where
  "restriction_entry profile arcs included_way_ids relation =
     (case apply_restriction profile arcs included_way_ids relation of (interpretation, generated) \<Rightarrow>
      bindE (mapE check_transition_rule generated) (\<lambda>_.
      let e = \<lparr>re_source_relation_id = rl_relation_id relation, re_restriction_value = restriction_value profile relation,
               re_interpretation = interpretation, re_from_way_ids = restriction_members relation ''way'' ''from'',
               re_via_node_ids = restriction_members relation ''node'' ''via'',
               re_via_way_ids = restriction_members relation ''way'' ''via'',
               re_to_way_ids = restriction_members relation ''way'' ''to'', re_generated_rule_count = length generated,
               re_source_tags = tag_models (rl_tags relation)\<rparr>
      in bindE (check_restriction_evidence e) (\<lambda>_. Inr (generated, e))))"

definition is_restriction :: "turn_restriction_profile \<Rightarrow> raw_relation \<Rightarrow> bool" where
  "is_restriction profile relation \<longleftrightarrow> map_of (rl_tags relation) ''type'' = Some (tp_relation_type profile)"

definition build_restrictions ::
  "turn_restriction_profile \<Rightarrow> raw_relation list \<Rightarrow> road_arc list \<Rightarrow> nat list \<Rightarrow>
   (transition_rule list \<times> restriction_evidence list) res" where
  "build_restrictions profile relations arcs included_way_ids =
     bindE (mapE (restriction_entry profile arcs included_way_ids)
        (filter (is_restriction profile) (sort_key rl_relation_id relations))) (\<lambda>entries.
       Inr (sort_key rule_key (remdups (concat (map fst entries))), map snd entries))"

section \<open>The graph\<close>

fun decisions_included :: "way_decision list \<Rightarrow> included_way list" where
  "decisions_included [] = []"
| "decisions_included (Included w # ds) = w # decisions_included ds"
| "decisions_included (Excluded r # ds) = decisions_included ds"

fun decisions_excluded :: "way_decision list \<Rightarrow> string list" where
  "decisions_excluded [] = []"
| "decisions_excluded (Included w # ds) = decisions_excluded ds"
| "decisions_excluded (Excluded r # ds) = r # decisions_excluded ds"

definition reason_counts :: "string list \<Rightarrow> (string \<times> nat) list" where
  "reason_counts reasons = map (\<lambda>r. (r, count_list reasons r)) (sort (remdups reasons))"

definition via_nodes_of :: "turn_restriction_profile \<Rightarrow> raw_relation list \<Rightarrow> nat list" where
  "via_nodes_of profile relations =
     concat (map (\<lambda>r. restriction_members r ''node'' ''via'') (filter (is_restriction profile) relations))"

definition source_of :: "graph_import_profile \<Rightarrow> graph_source_kind \<Rightarrow> string \<Rightarrow> string \<Rightarrow> road_graph_source" where
  "source_of profile kind key sha256 =
     (let a = gi_authorities profile in
      case kind of
        OPENSTREETMAP_EXTRACT \<Rightarrow>
          \<lparr>gs_source_kind = kind, gs_source_object_key = key, gs_source_sha256 = sha256, gs_snapshot_utc = ga_snapshot_utc a,
           gs_attribution = ga_attribution a, gs_license_url = ga_license_url a,
           gs_database_classification = ga_database_classification a\<rparr>
      | HAND_AUTHORED_FIXTURE \<Rightarrow>
          \<lparr>gs_source_kind = kind, gs_source_object_key = key, gs_source_sha256 = sha256, gs_snapshot_utc = ''source-controlled'',
           gs_attribution = ''CartoSentry hand-authored graph fixture.'',
           gs_license_url = ''https://www.apache.org/licenses/LICENSE-2.0'',
           gs_database_classification = ''PROJECT_TEST_FIXTURE''\<rparr>)"

definition statistics_of ::
  "raw_map \<Rightarrow> way_decision list \<Rightarrow> road_node list \<Rightarrow> road_arc list \<Rightarrow> transition_rule list \<Rightarrow> restriction_evidence list \<Rightarrow>
   road_graph_statistics" where
  "statistics_of m decisions nodes arcs rules restrictions =
     \<lparr>gt_parsed_node_count = length (mp_nodes m), gt_parsed_way_count = length (mp_ways m),
      gt_parsed_relation_count = length (mp_relations m), gt_included_way_count = length (decisions_included decisions),
      gt_excluded_way_count = length (mp_ways m) - length (decisions_included decisions),
      gt_topology_node_count = length nodes, gt_directed_arc_count = length arcs,
      gt_forward_arc_count = count_direction FORWARD arcs, gt_reverse_arc_count = count_direction REVERSE arcs,
      gt_transition_rule_count = length rules,
      gt_applied_restriction_count = length (filter (is_applied \<circ> re_interpretation) restrictions),
      gt_unknown_restriction_count =
        length (filter (\<lambda>e. prefix ''UNKNOWN_'' (interpretation_name (re_interpretation e))) restrictions),
      gt_exclusion_reason_counts = reason_counts (decisions_excluded decisions)\<rparr>"

text \<open>The identity is computed from the checked graph and put in its place.\<close>

definition identified_graph :: "(string \<Rightarrow> string) \<Rightarrow> float_ops \<Rightarrow> road_graph \<Rightarrow> road_graph res" where
  "identified_graph sha fl g =
     bindE (check_graph_source (rg_source g)) (\<lambda>_.
     bindE (check_road_graph g) (\<lambda>_.
     bindE (hashed_id sha ''road-graph'' (graph_identity_payload fl g)) (\<lambda>i. Inr (g\<lparr>rg_graph_id := i\<rparr>))))"

definition graph_of_map ::
  "(string \<Rightarrow> string) \<Rightarrow> osm_io \<Rightarrow> native_geometry \<Rightarrow> float_ops \<Rightarrow> graph_import_profile \<Rightarrow> string \<Rightarrow> road_graph_source \<Rightarrow> raw_map \<Rightarrow>
   road_graph res" where
  "graph_of_map sha io geo fl profile profile_file_sha256 source m =
     (let decisions = map (include_way io profile) (mp_ways m); included = decisions_included decisions;
          turns = gi_turn_restrictions profile in
     bindE (local_frame_of sha (mp_minimum m) (mp_maximum m)) (\<lambda>frame.
     bindE (build_arcs sha io geo fl included (mp_nodes m) (via_nodes_of turns (mp_relations m)) frame profile) (\<lambda>(nodes, arcs).
     bindE (ensure (arcs \<noteq> []) (ValueError ''OSM import produced no directed road arcs'')) (\<lambda>_.
     bindE (build_restrictions turns (mp_relations m) arcs (map (rw_way_id \<circ> iw_raw) included)) (\<lambda>(rules, restrictions).
       identified_graph sha fl
         \<lparr>rg_graph_id = ''road-graph-sha256-'' @ replicate 64 (CHR ''0''), rg_profile_immutable_sha256 = gi_immutable_sha256 profile,
          rg_profile_file_sha256 = profile_file_sha256, rg_source = source, rg_local_frame = frame, rg_nodes = nodes,
          rg_arcs = arcs, rg_transition_rules = rules, rg_restrictions = restrictions,
          rg_statistics = statistics_of m decisions nodes arcs rules restrictions\<rparr>)))))"

definition import_osm_road_graph ::
  "(string \<Rightarrow> string) \<Rightarrow> osm_io \<Rightarrow> native_geometry \<Rightarrow> float_ops \<Rightarrow> fs_node \<Rightarrow> graph_import_profile \<Rightarrow> string \<Rightarrow> string \<Rightarrow> string \<Rightarrow>
   graph_source_kind \<Rightarrow> road_graph res" where
  "import_osm_road_graph sha io geo fl node profile profile_file_sha256 source_object_key expected_source_sha256 kind =
     bindE (raise_from is_boundary_error (ValueError ''OSM road graph is unavailable or malformed'')
        (read_bounded_regular_bytes node (gl_maximum_source_bytes (gi_limits profile)) ''OSM road graph'')) (\<lambda>content.
     bindE (ensure (sha content = expected_source_sha256) (ValueError ''OSM road graph does not match its pinned object hash'')) (\<lambda>_.
     bindE (parse_osm io (gi_limits profile) content)
       (graph_of_map sha io geo fl profile profile_file_sha256 (source_of profile kind source_object_key (sha content)))))"

end
