(* ===== verification/RoadChains.thy ===== *)
theory RoadChains
  imports RoadArcs
begin

text \<open>
  The chains into which the importer cuts a way: they cover its geometry, meet at their ends, and are
  cut at the topology nodes and nowhere else.
\<close>

section \<open>Chains\<close>

fun rejoin :: "'a list list \<Rightarrow> 'a list" where
  "rejoin [] = []"
| "rejoin (c # cs) = (if cs = [] then c else butlast c @ rejoin cs)"

definition slice_between :: "'a list \<Rightarrow> nat \<times> nat \<Rightarrow> 'a list" where
  "slice_between xs p = take (Suc (snd p) - fst p) (drop (fst p) xs)"

lemma chains_slices: "chains topology ns = map (slice_between ns) (pairwise (split_positions topology ns))"
  by (simp add: chains_def slice_between_def case_prod_beta)

lemma pairwise_simps [simp]: "pairwise [] = []" "pairwise [x] = []" "pairwise (x # y # zs) = (x, y) # pairwise (y # zs)"
  by (simp_all add: pairwise_def)

lemma set_pairwiseD: "(a, b) \<in> set (pairwise xs) \<Longrightarrow> a \<in> set xs \<and> b \<in> set xs"
  by (induction xs rule: induct_list012) auto

lemma pairwise_gap:
  assumes "sorted_wrt (<) (xs :: nat list)" "(a, b) \<in> set (pairwise xs)"
  shows "a < b \<and> (\<forall>x \<in> set xs. x \<le> a \<or> b \<le> x)"
  using assms
proof (induction xs rule: induct_list012)
  case (3 x y zs)
  show ?case
  proof (cases "(a, b) = (x, y)")
    case True
    then show ?thesis using 3(3) by (auto intro: less_imp_le)
  next
    case False
    then have rest: "(a, b) \<in> set (pairwise (y # zs))" using 3(4) by auto
    then have "a < b \<and> (\<forall>z \<in> set (y # zs). z \<le> a \<or> b \<le> z)" using 3(2,3) by simp
    moreover have "x \<le> a" using set_pairwiseD [OF rest] 3(3) by (auto intro: less_imp_le)
    ultimately show ?thesis by simp
  qed
qed simp_all

lemma sorted_le_last: "sorted_wrt (<) (xs :: nat list) \<Longrightarrow> x \<in> set xs \<Longrightarrow> x \<le> last xs"
proof (induction xs)
  case (Cons y ys)
  then show ?case by (cases "ys = []") (auto intro: less_imp_le)
qed simp

lemma slice_between_nth: "p \<le> q \<Longrightarrow> q < length xs \<Longrightarrow> i \<le> q - p \<Longrightarrow> slice_between xs (p, q) ! i = xs ! (p + i)"
  by (simp add: slice_between_def)

lemma length_slice_between: "p \<le> q \<Longrightarrow> q < length xs \<Longrightarrow> length (slice_between xs (p, q)) = Suc (q - p)"
  by (simp add: slice_between_def)

lemma ends_slice_between:
  assumes "p \<le> q" "q < length xs"
  shows "hd (slice_between xs (p, q)) = xs ! p \<and> last (slice_between xs (p, q)) = xs ! q"
proof -
  have "slice_between xs (p, q) \<noteq> []" using length_slice_between [OF assms] by auto
  then show ?thesis using assms by (simp add: hd_conv_nth last_conv_nth length_slice_between slice_between_nth)
qed

lemma butlast_slice_between: "p \<le> q \<Longrightarrow> q < length xs \<Longrightarrow> butlast (slice_between xs (p, q)) = take (q - p) (drop p xs)"
  by (simp add: slice_between_def butlast_take Suc_diff_le)

lemma rejoin_slices:
  "ps \<noteq> [] \<Longrightarrow> sorted_wrt (<) (p # ps) \<Longrightarrow> last ps = length xs - 1 \<Longrightarrow> xs \<noteq> [] \<Longrightarrow>
   rejoin (map (slice_between xs) (pairwise (p # ps))) = drop p xs"
proof (induction ps arbitrary: p)
  case (Cons q ps)
  have "q \<le> last (q # ps)" using Cons.prems by (intro sorted_le_last) simp_all
  moreover have "length xs - 1 < length xs" using Cons.prems by simp
  ultimately have inside: "p \<le> q" "q < length xs" using Cons.prems(2,3) by (simp_all only: last_ConsR, auto)
  show ?case
  proof (cases "ps = []")
    case True
    then show ?thesis using Cons.prems inside by (simp add: slice_between_def)
  next
    case False
    then have "rejoin (map (slice_between xs) (pairwise (q # ps))) = drop q xs" using Cons by simp
    moreover have "take (q - p) (drop p xs) @ drop q xs = drop p xs"
      using inside append_take_drop_id [of "q - p" "drop p xs"] by simp
    moreover have "pairwise (q # ps) \<noteq> []" using False by (cases ps) auto
    ultimately show ?thesis using inside by (simp add: butlast_slice_between)
  qed
qed simp

lemma split_positions_spec:
  assumes "2 \<le> length ns"
  shows "sorted_wrt (<) (split_positions topology ns)"
    and "hd (split_positions topology ns) = 0" and "last (split_positions topology ns) = length ns - 1"
    and "set (split_positions topology ns) = {i. i < length ns \<and> (i = 0 \<or> i = length ns - 1 \<or> topology (ns ! i))}"
    and "\<exists>q ps. split_positions topology ns = 0 # q # ps"
proof -
  define found where "found = filter (\<lambda>i. topology (ns ! i)) [0..<length ns]"
  define begun where "begun = (if found = [] \<or> hd found \<noteq> 0 then 0 # found else found)"
  have split: "split_positions topology ns = (if last begun \<noteq> length ns - 1 then begun @ [length ns - 1] else begun)"
    by (simp add: split_positions_def found_def begun_def Let_def)
  have found: "sorted_wrt (<) found" "set found = {i. i < length ns \<and> topology (ns ! i)}"
    by (auto simp: found_def sorted_wrt_filter)
  have begun: "sorted_wrt (<) begun" "hd begun = 0" "begun \<noteq> []"
    "set begun = {i. i < length ns \<and> (i = 0 \<or> topology (ns ! i))}"
  proof -
    have "sorted_wrt (<) begun \<and> hd begun = 0 \<and> begun \<noteq> [] \<and> set begun = insert 0 (set found)"
    proof (cases found)
      case (Cons i rest)
      then have "\<forall>j \<in> set rest. i < j" using found(1) by simp
      then show ?thesis using Cons found(1) by (cases "i = 0") (simp_all add: begun_def insert_absorb, fastforce)
    qed (simp add: begun_def)
    then have zero: "set begun = insert 0 (set found)"
      and rest: "sorted_wrt (<) begun" "hd begun = 0" "begun \<noteq> []" by simp_all
    show "sorted_wrt (<) begun" "hd begun = 0" "begun \<noteq> []" by (fact rest)+
    have "0 < length ns" using assms by linarith
    with zero show "set begun = {i. i < length ns \<and> (i = 0 \<or> topology (ns ! i))}"
      unfolding found(2) by (simp only: set_eq_iff insert_iff mem_Collect_eq) metis
  qed
  have below: "i < length ns - 1" if "last begun \<noteq> length ns - 1" "i \<in> set begun" for i
  proof -
    have "i \<le> last begun" using begun(1) that(2) by (rule sorted_le_last)
    moreover have "last begun < length ns" using begun(3,4) last_in_set by blast
    ultimately show ?thesis using that(1) by linarith
  qed
  show sorted: "sorted_wrt (<) (split_positions topology ns)"
    using begun(1) below by (simp add: split sorted_wrt_append)
  show h: "hd (split_positions topology ns) = 0" using begun(2,3) by (simp add: split)
  show l: "last (split_positions topology ns) = length ns - 1" by (simp add: split)
  show "set (split_positions topology ns) = {i. i < length ns \<and> (i = 0 \<or> i = length ns - 1 \<or> topology (ns ! i))}"
  proof -
    have "set (split_positions topology ns) = insert (length ns - 1) (set begun)"
      using last_in_set [OF begun(3)] by (cases "last begun = length ns - 1") (simp_all add: split insert_absorb)
    moreover have "0 < length ns" "length ns - 1 < length ns" using assms by linarith+
    ultimately show ?thesis unfolding begun(4) by (simp only: set_eq_iff insert_iff mem_Collect_eq) metis
  qed
  show "\<exists>q ps. split_positions topology ns = 0 # q # ps"
  proof (cases "split_positions topology ns")
    case Nil
    then show ?thesis using begun(3) unfolding split by (cases "last begun = length ns - 1") simp_all
  next
    case (Cons p rest)
    then show ?thesis using h l assms by (cases rest) simp_all
  qed
qed

lemma slice_inner:
  assumes "p \<le> q" "q < length xs" "x \<in> set (butlast (tl (slice_between xs (p, q))))"
  shows "\<exists>i. p < i \<and> i < q \<and> x = xs ! i"
proof -
  have len: "length (butlast (tl (slice_between xs (p, q)))) = q - p - 1"
    using assms(1,2) by (simp add: length_slice_between)
  obtain j where j: "j < q - p - 1" "x = butlast (tl (slice_between xs (p, q))) ! j"
    using assms(3) len by (auto simp: in_set_conv_nth)
  then have "x = slice_between xs (p, q) ! Suc j"
    using len by (simp add: nth_butlast nth_tl)
  also have "\<dots> = xs ! (p + Suc j)" using assms(1,2) j(1) by (intro slice_between_nth) auto
  finally have "x = xs ! (p + Suc j)" .
  moreover have "p < p + Suc j" "p + Suc j < q" using j(1) by auto
  ultimately show ?thesis by blast
qed

lemma pairwise_pairwise: "((a, b), (c, d)) \<in> set (pairwise (pairwise xs)) \<Longrightarrow> b = c"
proof (induction xs)
  case (Cons x xs)
  then show ?case
  proof (cases xs)
    case (Cons y ys)
    with Cons.prems Cons.IH show ?thesis by (cases ys) auto
  qed simp
qed simp

lemma pairwise_map: "pairwise (map f xs) = map (map_prod f f) (pairwise xs)"
  by (induction xs rule: induct_list012) simp_all

text \<open>C13: The chains of a way partition it: laid end to end they give the geometry of the way back, every
  chain has at least two nodes and meets the next one at a topology node, and no node strictly inside a
  chain is in the topology.\<close>

theorem chains_partition_the_way:
  assumes "2 \<le> length ns"
  shows "rejoin (chains topology ns) = ns \<and>
     list_all (\<lambda>c. 2 \<le> length c \<and> list_all (\<lambda>n. \<not> topology n) (butlast (tl c))) (chains topology ns) \<and>
     list_all (\<lambda>(c, d). last c = hd d \<and> topology (hd d)) (pairwise (chains topology ns))"
proof -
  let ?ps = "split_positions topology ns"
  note spec = split_positions_spec [OF assms, of topology]
  have step: "a < b \<and> b < length ns \<and> (\<forall>i. a < i \<longrightarrow> i < b \<longrightarrow> \<not> topology (ns ! i))"
    if "(a, b) \<in> set (pairwise ?ps)" for a b
  proof -
    have "b < length ns" using set_pairwiseD [OF that] spec(4) by simp
    moreover have "\<not> topology (ns ! i)" if "a < i" "i < b" for i
    proof
      assume "topology (ns ! i)"
      with \<open>b < length ns\<close> that(2) have "i \<in> set ?ps" using spec(4) by simp
      with pairwise_gap [OF spec(1) \<open>(a, b) \<in> set (pairwise ?ps)\<close>] that show False by fastforce
    qed
    ultimately show ?thesis using pairwise_gap [OF spec(1) that] by blast
  qed
  have "rejoin (chains topology ns) = ns"
  proof -
    from spec(5) obtain q ps where ps: "?ps = 0 # q # ps" by blast
    moreover have "ns \<noteq> []" using assms by auto
    ultimately show ?thesis
      using rejoin_slices [of "q # ps" 0 ns] spec(1,3) unfolding chains_slices ps by simp
  qed
  moreover have "list_all (\<lambda>c. 2 \<le> length c \<and> list_all (\<lambda>n. \<not> topology n) (butlast (tl c))) (chains topology ns)"
  proof (unfold chains_slices list_all_iff set_map, rule ballI)
    fix c assume "c \<in> slice_between ns ` set (pairwise ?ps)"
    then obtain a b where ab: "(a, b) \<in> set (pairwise ?ps)" "c = slice_between ns (a, b)" by auto
    note inside = step [OF ab(1)]
    then have "length c = Suc (b - a)" unfolding ab(2) by (intro length_slice_between) simp_all
    moreover have "\<not> topology n" if "n \<in> set (butlast (tl c))" for n
      using slice_inner [of a b ns n] inside that unfolding ab(2) by fastforce
    ultimately show "2 \<le> length c \<and> (\<forall>n\<in>set (butlast (tl c)). \<not> topology n)" using inside by (simp add: Suc_le_eq)
  qed
  moreover have "list_all (\<lambda>(c, d). last c = hd d \<and> topology (hd d)) (pairwise (chains topology ns))"
  proof (unfold chains_slices pairwise_map list_all_iff set_map, rule ballI)
    fix x assume "x \<in> map_prod (slice_between ns) (slice_between ns) ` set (pairwise (pairwise ?ps))"
    then obtain a b b' e where x: "((a, b), (b', e)) \<in> set (pairwise (pairwise ?ps))"
        "x = (slice_between ns (a, b), slice_between ns (b', e))" by auto
    have same: "b' = b" using pairwise_pairwise [OF x(1)] by simp
    have first: "(a, b) \<in> set (pairwise ?ps)" and second: "(b, e) \<in> set (pairwise ?ps)"
      using set_pairwiseD [OF x(1)] same by simp_all
    note inside = step [OF first] step [OF second]
    have "b \<in> set ?ps" using set_pairwiseD [OF first] by simp
    then have "topology (ns ! b)" using inside spec(4) by auto
    then show "case x of (c, d) \<Rightarrow> last c = hd d \<and> topology (hd d)"
      using ends_slice_between [of a b ns] ends_slice_between [of b e ns] inside by (simp add: x(2) same)
  qed
  ultimately show ?thesis by blast
qed

theorem chains_partition_the_way_witness:
  "(2::nat) \<le> length [4, 5, 6, 7 :: nat] \<and> chains (\<lambda>n. n = 4 \<or> n = 6 \<or> n = 7) [4, 5, 6, 7] = [[4, 5, 6], [6, 7]] \<and>
     rejoin (chains (\<lambda>n. n = 4 \<or> n = 6 \<or> n = 7) [4, 5, 6, 7]) = [4, 5, 6, 7]"
  using chains_partition_the_way [of "[4, 5, 6, 7]" "\<lambda>n. n = 4 \<or> n = 6 \<or> n = 7"]
  by (simp add: chains_def split_positions_def pairwise_def)

end
