(* ===== verification/RoadArcsCorrect.thy ===== *)
theory RoadArcsCorrect
  imports RoadChains "HOL-Library.Multiset"
begin

text \<open>
  The arcs that the importer builds: for every included way exactly the permitted directions of its
  chains that are long enough, and no others.
\<close>

definition arc_key :: "road_arc \<Rightarrow> nat \<times> nat \<times> arc_direction \<times> nat list" where
  "arc_key a = (ra_source_way_id a, ra_source_chain_index a, ra_direction a, ra_source_geometry_node_ids a)"

definition position_of ::
  "native_geometry \<Rightarrow> float_ops \<Rightarrow> road_graph_local_frame \<Rightarrow> graph_import_profile \<Rightarrow> (nat \<times> wgs84_e7) list \<Rightarrow> nat \<Rightarrow> triple3" where
  "position_of geo fl frame profile nodes n =
     (case local_position geo fl frame (gp_local_coordinate_rounding_decimal_places (gi_geometry profile)) (the (map_of nodes n)) of
        Inl _ \<Rightarrow> (0, 0, 0) | Inr p \<Rightarrow> p)"

definition long_enough :: "float_ops \<Rightarrow> graph_import_profile \<Rightarrow> (nat \<Rightarrow> triple3) \<Rightarrow> nat list \<Rightarrow> bool" where
  "long_enough fl profile position c \<longleftrightarrow>
     gp_minimum_arc_length_m (gi_geometry profile) \<le>
       arc_length fl (gp_length_rounding_decimal_places (gi_geometry profile)) (map position c)"

definition chain_keys ::
  "(nat list \<Rightarrow> bool) \<Rightarrow> included_way \<Rightarrow> nat \<times> nat list \<Rightarrow> (nat \<times> nat \<times> arc_direction \<times> nat list) list" where
  "chain_keys long0 w p =
     (case p of (i, c) \<Rightarrow>
      if \<not> long0 c then []
      else (if iw_forward w then [(rw_way_id (iw_raw w), i, FORWARD, c)] else []) @
        (if iw_reverse w then [(rw_way_id (iw_raw w), i, REVERSE, rev c)] else []))"

definition way_keys ::
  "(nat list \<Rightarrow> bool) \<Rightarrow> (nat \<Rightarrow> bool) \<Rightarrow> included_way \<Rightarrow> (nat \<times> nat \<times> arc_direction \<times> nat list) list" where
  "way_keys long0 topology w =
     concat (map (chain_keys long0 w) (enumerate 0 (chains topology (rw_node_ids (iw_raw w)))))"

lemma make_arc_Inr:
  "make_arc st raw i len layer d c = Inr a \<Longrightarrow> arc_key a = (rw_way_id raw, i, d, c) \<and> check_road_arc a = Inr ()"
  by (auto simp: make_arc_def arc_key_def Let_def)

lemma chain_arcs_Inr:
  assumes "chain_arcs st w p = Inr arcs"
  shows "map arc_key arcs = chain_keys (long_enough (as_fl st) (as_profile st) (as_positions st)) w p"
    and "list_all (\<lambda>a. check_road_arc a = Inr ()) arcs"
  using assms by (auto simp: chain_arcs_def chain_keys_def long_enough_def Let_def make_arc_Inr split: prod.splits if_splits)

lemma mapE_concat:
  assumes "mapE f xs = Inr yss" and "\<And>x ys. x \<in> set xs \<Longrightarrow> f x = Inr ys \<Longrightarrow> map k ys = g x \<and> list_all P ys"
  shows "map k (concat yss) = concat (map g xs) \<and> list_all P (concat yss)"
  using assms
proof (induction xs arbitrary: yss)
  case (Cons x xs)
  then obtain ys zs where "f x = Inr ys" "mapE f xs = Inr zs" "yss = ys # zs" by auto
  moreover have "map k (concat zs) = concat (map g xs) \<and> list_all P (concat zs)"
    by (rule Cons.IH) (use \<open>mapE f xs = Inr zs\<close> Cons.prems(2) in auto)
  moreover have "map k ys = g x \<and> list_all P ys" using \<open>f x = Inr ys\<close> by (intro Cons.prems(2)) simp_all
  ultimately show ?case by simp
qed simp

lemma mset_concat_map: "mset (concat (map f xs)) = sum_mset (image_mset (\<lambda>x. mset (f x)) (mset xs))"
  by (induction xs) simp_all

lemma way_arcs_Inr:
  assumes "way_arcs st topology w = Inr arcs"
  shows "map arc_key arcs = way_keys (long_enough (as_fl st) (as_profile st) (as_positions st)) topology w"
    and "list_all (\<lambda>a. check_road_arc a = Inr ()) arcs"
  using assms mapE_concat [of "chain_arcs st w" _ _ arc_key "chain_keys (long_enough (as_fl st) (as_profile st) (as_positions st)) w"
      "\<lambda>a. check_road_arc a = Inr ()"]
  by (auto simp: way_arcs_def way_keys_def chain_arcs_Inr)

lemma mapE_pairs:
  assumes "mapE (\<lambda>n. bindE (f n) (\<lambda>p. Inr (n, p))) xs = Inr ys" "n \<in> set xs"
  shows "f n = Inr (the (map_of ys n))"
  using assms by (induction xs arbitrary: ys) (auto split: if_splits)

lemma set_chains: "c \<in> set (chains topology ns) \<Longrightarrow> set c \<subseteq> set ns"
  by (auto simp: chains_def dest: in_set_takeD in_set_dropD)

lemma way_keys_cong:
  assumes "\<And>c. set c \<subseteq> set (rw_node_ids (iw_raw w)) \<Longrightarrow> p c = q c"
  shows "way_keys p topology w = way_keys q topology w"
  unfolding way_keys_def
proof (intro arg_cong [of _ _ concat] map_cong refl)
  fix x assume "x \<in> set (enumerate 0 (chains topology (rw_node_ids (iw_raw w))))"
  then have "snd x \<in> set (chains topology (rw_node_ids (iw_raw w)))" by (metis map_snd_enumerate image_eqI set_map)
  then show "chain_keys p w x = chain_keys q w x"
    using assms [OF set_chains] by (simp add: chain_keys_def case_prod_beta)
qed

lemma long_enough_cong: "(\<And>n. n \<in> set c \<Longrightarrow> f n = g n) \<Longrightarrow> long_enough fl profile f c = long_enough fl profile g c"
  by (simp add: long_enough_def cong: map_cong)

text \<open>C12: The arcs of an import are, one for one, the permitted directions of the chains of the included ways
  whose length reaches the minimum, each with the geometry of its chain in the direction of travel; a chain is
  neither dropped nor doubled nor given a direction that its way forbids.\<close>

theorem arcs_are_the_permitted_chains:
  "case build_arcs sha io geo fl included nodes via_nodes frame profile of Inl e \<Rightarrow> True
   | Inr (road_nodes, arcs) \<Rightarrow>
       mset (map arc_key arcs) =
         mset (concat (map (way_keys (long_enough fl profile (position_of geo fl frame profile nodes))
            (in_topology included via_nodes)) included)) \<and>
       list_all (\<lambda>a. check_road_arc a = Inr ()) arcs"
proof (cases "build_arcs sha io geo fl included nodes via_nodes frame profile")
  case (Inr r)
  let ?topology = "in_topology included via_nodes"
  let ?position = "position_of geo fl frame profile nodes"
  let ?st = "\<lambda>positions. \<lparr>as_sha = sha, as_io = io, as_fl = fl, as_profile = profile,
    as_coordinates = (\<lambda>n. the (map_of nodes n)), as_positions = (\<lambda>n. the (map_of positions n))\<rparr>"
  obtain road_nodes arcs where r: "r = (road_nodes, arcs)" by fastforce
  from Inr [unfolded r] obtain positions yss where
      positions: "mapE (\<lambda>n. bindE (local_position geo fl frame
          (gp_local_coordinate_rounding_decimal_places (gi_geometry profile)) (the (map_of nodes n))) (\<lambda>p. Inr (n, p)))
        (remdups (concat (map (rw_node_ids \<circ> iw_raw) included))) = Inr positions"
    and yss: "mapE (way_arcs (?st positions) ?topology) (sort_key (rw_way_id \<circ> iw_raw) included) = Inr yss"
    and arcs: "arcs = sort_key ra_arc_id (concat yss)"
    by (auto simp: build_arcs_def Let_def)
  let ?s = "?st positions"
  have st: "as_fl ?s = fl" "as_profile ?s = profile" "as_positions ?s = (\<lambda>n. the (map_of positions n))" by simp_all
  have position: "as_positions ?s n = ?position n" if "w \<in> set included" "n \<in> set (rw_node_ids (iw_raw w))" for w n
  proof -
    have "n \<in> set (remdups (concat (map (rw_node_ids \<circ> iw_raw) included)))" using that by auto
    from mapE_pairs [OF positions this] show ?thesis unfolding st(3) position_of_def by simp
  qed
  have keys: "way_keys (long_enough fl profile (as_positions ?s)) ?topology w =
      way_keys (long_enough fl profile ?position) ?topology w" if "w \<in> set included" for w
    using position [OF that] by (intro way_keys_cong long_enough_cong) blast
  have "map arc_key (concat yss) =
      concat (map (way_keys (long_enough fl profile ?position) ?topology) (sort_key (rw_way_id \<circ> iw_raw) included))
      \<and> list_all (\<lambda>a. check_road_arc a = Inr ()) (concat yss)"
    by (rule mapE_concat [OF yss]) (simp add: way_arcs_Inr st(1,2) keys [unfolded st(3)])
  moreover have "mset (map arc_key arcs) = mset (map arc_key (concat yss))" by (simp add: arcs)
  ultimately show ?thesis unfolding Inr sum.case r prod.case by (simp add: arcs list_all_iff mset_concat_map)
qed simp

end
