(* ===== verification/RoadProperties.thy ===== *)
theory RoadProperties
  imports RoadChains RoadArcsCorrect
begin

text \<open>
  What the road graph importer guarantees: the transition rules are exactly the turns that the
  restrictions of the map speak of, the chains of a way cut its geometry at the topology nodes and
  nowhere else, the arcs are the permitted directions of those chains, and the graph that is returned
  is checked and carries the identity of its content.
\<close>

section \<open>Turn restrictions\<close>

text \<open>An arc a restriction starts from: it belongs to a way in the \<open>from\<close> role and, when the
  restriction has exactly one via node, ends there.\<close>

definition starts_restriction :: "raw_relation \<Rightarrow> road_arc \<Rightarrow> bool" where
  "starts_restriction relation a \<longleftrightarrow>
     ra_source_way_id a \<in> set (restriction_members relation ''way'' ''from'') \<and>
     (case restriction_members relation ''node'' ''via'' of [n] \<Rightarrow> ra_to_node_id a = node_name n | _ \<Rightarrow> True)"

text \<open>What a restriction, interpreted as \<open>i\<close>, says of the turn from \<open>a\<close> into \<open>b\<close>.\<close>

definition restricted_turn ::
  "restriction_interpretation \<Rightarrow> raw_relation \<Rightarrow> road_arc \<Rightarrow> road_arc \<Rightarrow> transition_state option" where
  "restricted_turn i relation a b =
     (let into = ra_source_way_id b \<in> set (restriction_members relation ''way'' ''to'') in
      if \<not> (starts_restriction relation a \<and> ra_from_node_id b = ra_to_node_id a) then None
      else case i of
          APPLIED_NO \<Rightarrow> if into then Some FORBIDDEN else None
        | APPLIED_ONLY \<Rightarrow> if into then None else Some FORBIDDEN
        | INACTIVE_SOURCE_EXCLUDED \<Rightarrow> None
        | _ \<Rightarrow> Some UNKNOWN_RESTRICTION)"

definition restricted_turns ::
  "road_arc list \<Rightarrow> restriction_interpretation \<Rightarrow> raw_relation \<Rightarrow> transition_rule set" where
  "restricted_turns arcs i relation =
     {transition (rl_relation_id relation) s a b | a b s.
        a \<in> set arcs \<and> b \<in> set arcs \<and> restricted_turn i relation a b = Some s}"

lemma set_incoming_arcs: "set (incoming_arcs arcs relation) = {a \<in> set arcs. starts_restriction relation a}"
  by (auto simp: incoming_arcs_def starts_restriction_def arcs_into_def split: list.splits)

lemma restricted_turn_NO: "restricted_turn APPLIED_NO relation a b = Some s \<longleftrightarrow>
   s = FORBIDDEN \<and> starts_restriction relation a \<and> ra_from_node_id b = ra_to_node_id a \<and>
   ra_source_way_id b \<in> set (restriction_members relation ''way'' ''to'')"
  by (auto simp: restricted_turn_def Let_def split: if_splits)

lemma restricted_turn_ONLY: "restricted_turn APPLIED_ONLY relation a b = Some s \<longleftrightarrow>
   s = FORBIDDEN \<and> starts_restriction relation a \<and> ra_from_node_id b = ra_to_node_id a \<and>
   ra_source_way_id b \<notin> set (restriction_members relation ''way'' ''to'')"
  by (auto simp: restricted_turn_def Let_def split: if_splits)

lemma restricted_turn_unknown: "\<not> is_applied i \<Longrightarrow> i \<noteq> INACTIVE_SOURCE_EXCLUDED \<Longrightarrow>
   restricted_turn i relation a b = Some s \<longleftrightarrow>
   s = UNKNOWN_RESTRICTION \<and> starts_restriction relation a \<and> ra_from_node_id b = ra_to_node_id a"
  by (cases i) (auto simp: restricted_turn_def Let_def is_applied_def split: if_splits)

lemma set_unknown_rules:
  "\<not> is_applied i \<Longrightarrow> i \<noteq> INACTIVE_SOURCE_EXCLUDED \<Longrightarrow>
   set (unknown_rules arcs relation) = restricted_turns arcs i relation"
  by (simp add: restricted_turns_def restricted_turn_unknown unknown_rules_def set_incoming_arcs arcs_leaving_def) blast

lemma set_prohibited_rules:
  assumes "restriction_members relation ''node'' ''via'' = [n]"
  shows "set (prohibited_rules arcs relation) = restricted_turns arcs APPLIED_NO relation"
proof -
  have "r \<in> set (prohibited_rules arcs relation) \<longleftrightarrow>
     (\<exists>a b. r = transition (rl_relation_id relation) FORBIDDEN a b \<and> a \<in> set arcs \<and> b \<in> set arcs \<and>
        starts_restriction relation a \<and> ra_from_node_id b = ra_to_node_id a \<and>
        ra_source_way_id b \<in> set (restriction_members relation ''way'' ''to''))" for r
  proof -
    have "r \<in> set (prohibited_rules arcs relation) \<longleftrightarrow>
       (\<exists>a\<in>set arcs. starts_restriction relation a \<and> ra_to_node_id a = node_name n \<and>
         (\<exists>w\<in>set (restriction_members relation ''way'' ''to''). \<exists>b\<in>set arcs.
            ra_source_way_id b = w \<and> ra_from_node_id b = node_name n \<and> r = transition (rl_relation_id relation) FORBIDDEN a b))"
      using assms by (auto simp: prohibited_rules_def set_incoming_arcs arcs_out_of_def candidate_nodes_def)
    then show ?thesis using assms by (auto simp: starts_restriction_def) metis+
  qed
  then show ?thesis unfolding restricted_turns_def restricted_turn_NO by blast
qed

lemma same_arc: "distinct (map ra_arc_id arcs) \<Longrightarrow> a \<in> set arcs \<Longrightarrow> b \<in> set arcs \<Longrightarrow> ra_arc_id a = ra_arc_id b \<Longrightarrow> a = b"
  by (auto simp: distinct_map inj_on_def)

lemma permitted_arc_iff:
  assumes "restriction_members relation ''node'' ''via'' = [n]" "distinct (map ra_arc_id arcs)"
    and "b \<in> set arcs" "ra_from_node_id b = node_name n"
  shows "ra_arc_id b \<in> set (permitted_arc_ids arcs relation) \<longleftrightarrow>
     ra_source_way_id b \<in> set (restriction_members relation ''way'' ''to'')"
  using assms by (auto simp: permitted_arc_ids_def candidate_nodes_def arcs_out_of_def dest: same_arc)

lemma set_mandatory_rules:
  assumes "restriction_members relation ''node'' ''via'' = [n]" "distinct (map ra_arc_id arcs)"
    and "permitted_arc_ids arcs relation \<noteq> []"
  shows "set (mandatory_rules arcs relation) = restricted_turns arcs APPLIED_ONLY relation"
proof -
  have "set (mandatory_rules arcs relation) =
     {transition (rl_relation_id relation) FORBIDDEN a b | a b. a \<in> set arcs \<and> b \<in> set arcs \<and> starts_restriction relation a \<and>
        ra_from_node_id b = ra_to_node_id a \<and> ra_arc_id b \<notin> set (permitted_arc_ids arcs relation)}"
    using assms(3) by (simp add: mandatory_rules_def Let_def set_incoming_arcs arcs_leaving_def) blast
  also have "\<dots> = restricted_turns arcs APPLIED_ONLY relation"
    unfolding restricted_turns_def restricted_turn_ONLY
    using permitted_arc_iff [OF assms(1,2)] assms(1) by (auto simp: starts_restriction_def) metis+
  finally show ?thesis .
qed

lemma applied_has_one_via:
  assumes "is_applied (interpret_restriction profile ways relation)"
  obtains n where "restriction_members relation ''node'' ''via'' = [n]"
proof -
  have "length (restriction_members relation ''node'' ''via'') = 1"
    using assms by (auto simp: interpret_restriction_def is_applied_def Let_def split: if_splits)
  then show thesis using that by (auto simp: length_Suc_conv)
qed

text \<open>A restriction that applies but has no turn to speak of, or whose \<open>to\<close> way cannot be entered, is
  disconnected: its interpretation becomes unknown.\<close>

definition resolved_interpretation ::
  "turn_restriction_profile \<Rightarrow> road_arc list \<Rightarrow> nat list \<Rightarrow> raw_relation \<Rightarrow> restriction_interpretation" where
  "resolved_interpretation profile arcs ways relation =
     (let i = interpret_restriction profile ways relation in
      if is_applied i \<and> (restricted_turns arcs i relation = {} \<or> (i = APPLIED_ONLY \<and> permitted_arc_ids arcs relation = []))
      then UNKNOWN_DISCONNECTED else i)"

lemma apply_restriction_refines:
  assumes "distinct (map ra_arc_id arcs)"
  shows "case apply_restriction profile arcs ways relation of (i, rules) \<Rightarrow>
     i = resolved_interpretation profile arcs ways relation \<and> set rules = restricted_turns arcs i relation"
proof -
  let ?i = "interpret_restriction profile ways relation"
  have inactive: "restricted_turns arcs INACTIVE_SOURCE_EXCLUDED relation = {}"
    by (auto simp: restricted_turns_def restricted_turn_def Let_def split: if_splits)
  have disconnected: "set (unknown_rules arcs relation) = restricted_turns arcs UNKNOWN_DISCONNECTED relation"
    by (rule set_unknown_rules) (simp_all add: is_applied_def)
  consider (No) "?i = APPLIED_NO" | (Only) "?i = APPLIED_ONLY" | (Inactive) "?i = INACTIVE_SOURCE_EXCLUDED"
    | (Unknown) "\<not> is_applied ?i" "?i \<noteq> INACTIVE_SOURCE_EXCLUDED"
    by (auto simp: is_applied_def)
  then show ?thesis
  proof cases
    case No
    then obtain n where n: "restriction_members relation ''node'' ''via'' = [n]"
      by (metis applied_has_one_via is_applied_def)
    show ?thesis using No disconnected set_prohibited_rules [OF n, of arcs, symmetric]
      by (cases "prohibited_rules arcs relation = []")
        (simp_all add: apply_restriction_def resolved_interpretation_def is_applied_def list.case_eq_if)
  next
    case Only
    then obtain n where n: "restriction_members relation ''node'' ''via'' = [n]"
      by (metis applied_has_one_via is_applied_def)
    show ?thesis
    proof (cases "permitted_arc_ids arcs relation = []")
      case True
      then have "mandatory_rules arcs relation = []" by (simp add: mandatory_rules_def)
      with True show ?thesis using Only disconnected
        by (simp add: apply_restriction_def resolved_interpretation_def is_applied_def)
    next
      case False
      from set_mandatory_rules [OF n assms False, symmetric] False show ?thesis using Only disconnected
        by (cases "mandatory_rules arcs relation = []")
          (simp_all add: apply_restriction_def resolved_interpretation_def is_applied_def list.case_eq_if)
    qed
  next
    case Inactive
    then show ?thesis using inactive by (simp add: apply_restriction_def resolved_interpretation_def is_applied_def)
  next
    case Unknown
    then have "apply_restriction profile arcs ways relation = (?i, unknown_rules arcs relation)"
      by (cases ?i) (simp_all add: apply_restriction_def is_applied_def)
    then show ?thesis using Unknown set_unknown_rules [OF Unknown, of arcs] by (simp add: resolved_interpretation_def Let_def)
  qed
qed

lemma restriction_entry_Inr:
  assumes "distinct (map ra_arc_id arcs)" "restriction_entry profile arcs ways relation = Inr entry"
  shows "set (fst entry) = restricted_turns arcs (resolved_interpretation profile arcs ways relation) relation"
    and "re_interpretation (snd entry) = resolved_interpretation profile arcs ways relation"
    and "re_source_relation_id (snd entry) = rl_relation_id relation"
proof -
  obtain i rules where result: "apply_restriction profile arcs ways relation = (i, rules)" by fastforce
  then have "i = resolved_interpretation profile arcs ways relation" "set rules = restricted_turns arcs i relation"
    using apply_restriction_refines [OF assms(1), of profile ways relation] by simp_all
  with assms(2) result show "set (fst entry) = restricted_turns arcs (resolved_interpretation profile arcs ways relation) relation"
    "re_interpretation (snd entry) = resolved_interpretation profile arcs ways relation"
    "re_source_relation_id (snd entry) = rl_relation_id relation"
    by (clarsimp simp: restriction_entry_def Let_def)+
qed

lemma build_restrictions_entries:
  assumes "build_restrictions profile relations arcs ways = Inr (rules, evidence)"
  obtains entries where "list_all2 (\<lambda>r e. restriction_entry profile arcs ways r = Inr e)
      (filter (is_restriction profile) (sort_key rl_relation_id relations)) entries"
    and "rules = sort_key rule_key (remdups (concat (map fst entries)))" and "evidence = map snd entries"
  using assms by (auto simp: build_restrictions_def mapE_eq_Inr_iff)

lemma build_restrictions_set:
  assumes "distinct (map ra_arc_id arcs)" "build_restrictions profile relations arcs ways = Inr (rules, evidence)"
  shows "set rules = (\<Union>r \<in> {r \<in> set relations. is_restriction profile r}.
           restricted_turns arcs (resolved_interpretation profile arcs ways r) r)"
proof -
  let ?rs = "filter (is_restriction profile) (sort_key rl_relation_id relations)"
  obtain entries where all2: "list_all2 (\<lambda>r e. restriction_entry profile arcs ways r = Inr e) ?rs entries"
    and rules: "rules = sort_key rule_key (remdups (concat (map fst entries)))"
    using build_restrictions_entries [OF assms(2)] by blast
  from all2 have "map (set \<circ> fst) entries = map (\<lambda>r. restricted_turns arcs (resolved_interpretation profile arcs ways r) r) ?rs"
    by (induction rule: list_all2_induct) (simp_all add: restriction_entry_Inr [OF assms(1)])
  then have "\<Union> (set (map (set \<circ> fst) entries)) = (\<Union>r \<in> {r \<in> set relations. is_restriction profile r}.
           restricted_turns arcs (resolved_interpretation profile arcs ways r) r)" by simp
  then show ?thesis by (simp add: rules)
qed

text \<open>C11: The transition rules of an import refine the restrictions of the map: for arcs with distinct
  identifiers they are exactly the turns that some restriction, under its resolved interpretation,
  forbids (\<open>no_\<close>: into the \<open>to\<close> way, \<open>only_\<close>: into any other arc) or leaves unknown (every
  exit of every arc it starts from), and the evidence records that interpretation for each restriction
  in the order of the relation identifiers.\<close>

theorem turn_rules_refine_restrictions:
  assumes "distinct (map ra_arc_id arcs)" "build_restrictions profile relations arcs ways = Inr (rules, evidence)"
  shows "set rules = (\<Union>r \<in> {r \<in> set relations. is_restriction profile r}.
           restricted_turns arcs (resolved_interpretation profile arcs ways r) r) \<and>
     distinct rules \<and>
     map (\<lambda>e. (re_source_relation_id e, re_interpretation e)) evidence =
       map (\<lambda>r. (rl_relation_id r, resolved_interpretation profile arcs ways r))
         (filter (is_restriction profile) (sort_key rl_relation_id relations))"
proof -
  let ?rs = "filter (is_restriction profile) (sort_key rl_relation_id relations)"
  obtain entries where all2: "list_all2 (\<lambda>r e. restriction_entry profile arcs ways r = Inr e) ?rs entries"
    and parts: "rules = sort_key rule_key (remdups (concat (map fst entries)))" "evidence = map snd entries"
    using build_restrictions_entries [OF assms(2)] by blast
  from all2 have "map (\<lambda>e. (re_source_relation_id (snd e), re_interpretation (snd e))) entries =
      map (\<lambda>r. (rl_relation_id r, resolved_interpretation profile arcs ways r)) ?rs"
    by (induction rule: list_all2_induct) (simp_all add: restriction_entry_Inr [OF assms(1)])
  then show ?thesis using build_restrictions_set [OF assms] by (simp add: parts o_def)
qed

text \<open>A crossing: way 1 leads to the node 2, the ways 2 and 3 lead away from it.\<close>

definition crossing_arc :: "char \<Rightarrow> nat \<Rightarrow> nat \<Rightarrow> nat \<Rightarrow> road_arc" where
  "crossing_arc c way m n =
     \<lparr>ra_arc_id = ''osm-arc-sha256-'' @ replicate 64 c, ra_from_node_id = node_name m, ra_to_node_id = node_name n,
      ra_source_way_id = way, ra_source_chain_index = 0, ra_direction = FORWARD, ra_highway_class = ''service'',
      ra_source_geometry_node_ids = [m, n], ra_geometry_wgs84_e7 = [], ra_geometry_local_m = [], ra_length_m = 1, ra_layer = 0,
      ra_bridge = False, ra_tunnel = False, ra_source_tags = []\<rparr>"

definition crossing_arcs :: "road_arc list" where
  "crossing_arcs = [crossing_arc (CHR ''1'') 1 1 2, crossing_arc (CHR ''2'') 2 2 3, crossing_arc (CHR ''3'') 3 2 4]"

definition crossing_relation :: "nat \<Rightarrow> string \<Rightarrow> raw_relation" where
  "crossing_relation i v =
     \<lparr>rl_relation_id = i,
      rl_members = [\<lparr>rm_member_type = ''way'', rm_member_id = 1, rm_role = ''from''\<rparr>,
        \<lparr>rm_member_type = ''node'', rm_member_id = 2, rm_role = ''via''\<rparr>,
        \<lparr>rm_member_type = ''way'', rm_member_id = 2, rm_role = ''to''\<rparr>],
      rl_tags = [(''type'', ''restriction''), (''restriction'', v)]\<rparr>"

definition crossing_profile :: turn_restriction_profile where
  "crossing_profile = \<lparr>tp_relation_type = ''restriction'', tp_restriction_tag_keys = [''restriction''],
     tp_supported_prefixes = [''no_'', ''only_'']\<rparr>"

definition crossing_relations :: "raw_relation list" where
  "crossing_relations = [crossing_relation 7 ''no_left_turn'', crossing_relation 5 ''only_straight_on'']"

definition crossing_result where
  "crossing_result = build_restrictions crossing_profile crossing_relations crossing_arcs [1, 2, 3]"

theorem turn_rules_refine_restrictions_witness:
  "case crossing_result of Inl e \<Rightarrow> False
   | Inr (rules, evidence) \<Rightarrow> map tr_state rules = [FORBIDDEN, FORBIDDEN] \<and>
       set rules = restricted_turns crossing_arcs APPLIED_NO (crossing_relation 7 ''no_left_turn'') \<union>
         restricted_turns crossing_arcs APPLIED_ONLY (crossing_relation 5 ''only_straight_on'')"
proof -
  let ?resolved = "\<lambda>r. resolved_interpretation crossing_profile crossing_arcs [1, 2, 3] r"
  have run: "case crossing_result of Inl e \<Rightarrow> False
     | Inr (rules, evidence) \<Rightarrow> map tr_state rules = [FORBIDDEN, FORBIDDEN] \<and>
         map re_interpretation evidence = [APPLIED_ONLY, APPLIED_NO]" by code_simp
  have arcs: "distinct (map ra_arc_id crossing_arcs)" by code_simp
  have selected: "filter (is_restriction crossing_profile) (sort_key rl_relation_id crossing_relations) =
      [crossing_relation 5 ''only_straight_on'', crossing_relation 7 ''no_left_turn'']"
    and both: "{r \<in> set crossing_relations. is_restriction crossing_profile r} =
      {crossing_relation 5 ''only_straight_on'', crossing_relation 7 ''no_left_turn''}"
    by (auto simp: crossing_relations_def crossing_relation_def is_restriction_def crossing_profile_def)
  obtain rules evidence where result: "crossing_result = Inr (rules, evidence)"
    using run by (auto split: sum.splits)
  note refined = turn_rules_refine_restrictions [OF arcs result [unfolded crossing_result_def], unfolded selected both]
  from run have states: "map tr_state rules = [FORBIDDEN, FORBIDDEN]" "map re_interpretation evidence = [APPLIED_ONLY, APPLIED_NO]"
    by (simp_all add: result)
  from refined have "map snd (map (\<lambda>e. (re_source_relation_id e, re_interpretation e)) evidence) =
      [?resolved (crossing_relation 5 ''only_straight_on''), ?resolved (crossing_relation 7 ''no_left_turn'')]"
    by simp
  with states(2) have "?resolved (crossing_relation 5 ''only_straight_on'') = APPLIED_ONLY"
    "?resolved (crossing_relation 7 ''no_left_turn'') = APPLIED_NO"
    by (simp_all add: o_def)
  with refined states(1) show ?thesis unfolding result by (simp add: Un_commute)
qed

section \<open>The graph\<close>

lemma decisions_length: "length ds = length (decisions_included ds) + length (decisions_excluded ds)"
  by (induction ds rule: decisions_included.induct) simp_all

lemma reason_counts_total: "sum_list (map snd (reason_counts reasons)) = length reasons"
proof -
  have "sum_list (map snd (reason_counts reasons)) = sum_list (map (count_list reasons) (sort (remdups reasons)))"
    by (simp add: reason_counts_def o_def)
  also have "\<dots> = sum (count_list reasons) (set reasons)"
    by (simp add: sum_list_distinct_conv_sum_set)
  also have "\<dots> = length reasons" by (rule sum_count_set) simp_all
  finally show ?thesis .
qed

lemma graph_identity_payload_id [simp]: "graph_identity_payload fl (g\<lparr>rg_graph_id := i\<rparr>) = graph_identity_payload fl g"
  by (simp add: graph_identity_payload_def)

lemma identified_graph_Inr:
  assumes "identified_graph sha fl g = Inr g'"
  shows "check_road_graph g = Inr ()" and "validate_graph_identity sha fl g' = Inr ()" and "\<exists>i. g' = g\<lparr>rg_graph_id := i\<rparr>"
  using assms by (auto simp: identified_graph_def validate_graph_identity_def)

lemma rules_connect_arcs:
  assumes "distinct (map ra_arc_id arcs)" "build_restrictions profile relations arcs ways = Inr (rules, evidence)"
  shows "list_all (\<lambda>r. list_ex (\<lambda>a. list_ex (\<lambda>b. tr_from_arc_id r = ra_arc_id a \<and> tr_to_arc_id r = ra_arc_id b \<and>
     ra_from_node_id b = ra_to_node_id a) arcs) arcs) rules"
proof (unfold list_all_iff list_ex_iff, rule ballI)
  fix r assume "r \<in> set rules"
  then obtain relation i where "r \<in> restricted_turns arcs i relation"
    using build_restrictions_set [OF assms] by auto
  then show "\<exists>a\<in>set arcs. \<exists>b\<in>set arcs. tr_from_arc_id r = ra_arc_id a \<and> tr_to_arc_id r = ra_arc_id b \<and>
     ra_from_node_id b = ra_to_node_id a"
    by (auto simp: restricted_turns_def restricted_turn_def transition_def Let_def split: if_splits) blast+
qed

lemma graph_of_map_Inr:
  assumes "graph_of_map sha io geo fl profile profile_file_sha256 source m = Inr g"
  shows "validate_graph_identity sha fl g = Inr ()" and "rg_source g = source" and "rg_arcs g \<noteq> []"
    and "\<exists>i. check_road_graph (g\<lparr>rg_graph_id := i\<rparr>) = Inr ()"
    and "\<exists>turns relations ways evidence.
      build_restrictions turns relations (rg_arcs g) ways = Inr (rg_transition_rules g, evidence)"
    and "\<exists>decisions nodes arcs rules evidence. length decisions = length (mp_ways m) \<and>
      rg_statistics g = statistics_of m decisions nodes arcs rules evidence"
proof -
  let ?decisions = "map (include_way io profile) (mp_ways m)"
  obtain frame nodes arcs rules restrictions g0 where arcs: "arcs \<noteq> []"
    and built: "build_restrictions (gi_turn_restrictions profile) (mp_relations m) arcs
        (map (rw_way_id \<circ> iw_raw) (decisions_included ?decisions)) = Inr (rules, restrictions)"
    and parts: "g0 = \<lparr>rg_graph_id = ''road-graph-sha256-'' @ replicate 64 (CHR ''0''),
          rg_profile_immutable_sha256 = gi_immutable_sha256 profile,
          rg_profile_file_sha256 = profile_file_sha256, rg_source = source, rg_local_frame = frame, rg_nodes = nodes,
          rg_arcs = arcs, rg_transition_rules = rules, rg_restrictions = restrictions,
          rg_statistics = statistics_of m ?decisions nodes arcs rules restrictions\<rparr>"
    and identified: "identified_graph sha fl g0 = Inr g"
    using assms by (auto simp: graph_of_map_def Let_def)
  note facts = identified_graph_Inr [OF identified]
  then obtain i where g: "g = g0\<lparr>rg_graph_id := i\<rparr>" by blast
  show "validate_graph_identity sha fl g = Inr ()" by (fact facts(2))
  show "rg_source g = source" "rg_arcs g \<noteq> []" using arcs by (simp_all add: g parts)
  have "g\<lparr>rg_graph_id := rg_graph_id g0\<rparr> = g0" by (simp add: g)
  with facts(1) show "\<exists>i. check_road_graph (g\<lparr>rg_graph_id := i\<rparr>) = Inr ()" by metis
  show "\<exists>turns relations ways evidence.
      build_restrictions turns relations (rg_arcs g) ways = Inr (rg_transition_rules g, evidence)"
    using built by (auto simp: g parts)
  show "\<exists>decisions nodes arcs rules evidence. length decisions = length (mp_ways m) \<and>
      rg_statistics g = statistics_of m decisions nodes arcs rules evidence"
    by (intro exI [of _ ?decisions] exI) (simp add: g parts)
qed

lemma check_road_graph_Inr:
  assumes "check_road_graph g = Inr ()"
  shows "distinct (map rd_node_id (rg_nodes g)) \<and> distinct (map ra_arc_id (rg_arcs g)) \<and> sorted (map ra_arc_id (rg_arcs g)) \<and>
     list_all (\<lambda>a. ra_from_node_id a \<in> set (map rd_node_id (rg_nodes g)) \<and> ra_to_node_id a \<in> set (map rd_node_id (rg_nodes g)))
       (rg_arcs g) \<and>
     gt_included_way_count (rg_statistics g) + gt_excluded_way_count (rg_statistics g) = gt_parsed_way_count (rg_statistics g)"
proof -
  have "sort xs = xs \<Longrightarrow> sorted xs" for xs :: "string list" by (metis sorted_sort)
  then show ?thesis using assms by (simp add: check_road_graph_def Let_def)
qed

lemma statistics_account_for_ways:
  assumes "length decisions = length (mp_ways m)"
  shows "sum_list (map snd (gt_exclusion_reason_counts (statistics_of m decisions nodes arcs rules evidence))) =
     gt_excluded_way_count (statistics_of m decisions nodes arcs rules evidence)"
  using assms decisions_length [of decisions] by (simp add: statistics_of_def reason_counts_total)

text \<open>C14: A graph that the importer returns passes the check of its identity, has at least one arc, unique
  identifiers in order, arcs between its own nodes and rules only between consecutive arcs; it names the
  pinned hash as its source and accounts for every way that was parsed, with a reason for each excluded one.\<close>

theorem imported_graph_is_checked:
  "case import_osm_road_graph sha io geo fl node profile profile_file_sha256 key expected kind of
     Inl e \<Rightarrow> True
   | Inr g \<Rightarrow>
       validate_graph_identity sha fl g = Inr () \<and> gs_source_sha256 (rg_source g) = expected \<and> rg_arcs g \<noteq> [] \<and>
       distinct (map rd_node_id (rg_nodes g)) \<and> distinct (map ra_arc_id (rg_arcs g)) \<and> sorted (map ra_arc_id (rg_arcs g)) \<and>
       list_all (\<lambda>a. ra_from_node_id a \<in> set (map rd_node_id (rg_nodes g)) \<and> ra_to_node_id a \<in> set (map rd_node_id (rg_nodes g)))
         (rg_arcs g) \<and>
       list_all (\<lambda>r. list_ex (\<lambda>a. list_ex (\<lambda>b. tr_from_arc_id r = ra_arc_id a \<and> tr_to_arc_id r = ra_arc_id b \<and>
         ra_from_node_id b = ra_to_node_id a) (rg_arcs g)) (rg_arcs g)) (rg_transition_rules g) \<and>
       gt_included_way_count (rg_statistics g) + gt_excluded_way_count (rg_statistics g) = gt_parsed_way_count (rg_statistics g) \<and>
       sum_list (map snd (gt_exclusion_reason_counts (rg_statistics g))) = gt_excluded_way_count (rg_statistics g)"
proof (cases "import_osm_road_graph sha io geo fl node profile profile_file_sha256 key expected kind")
  case (Inr g)
  then obtain content m where source: "sha content = expected"
    and graph: "graph_of_map sha io geo fl profile profile_file_sha256 (source_of profile kind key expected) m = Inr g"
    by (auto simp: import_osm_road_graph_def)
  note facts = graph_of_map_Inr [OF graph]
  from facts(4) obtain i where "check_road_graph (g\<lparr>rg_graph_id := i\<rparr>) = Inr ()" by blast
  note checked = check_road_graph_Inr [OF this, simplified]
  moreover have "gs_source_sha256 (rg_source g) = expected"
    unfolding facts(2) by (cases kind) (simp_all add: source_of_def Let_def)
  moreover have "list_all (\<lambda>r. list_ex (\<lambda>a. list_ex (\<lambda>b. tr_from_arc_id r = ra_arc_id a \<and> tr_to_arc_id r = ra_arc_id b \<and>
         ra_from_node_id b = ra_to_node_id a) (rg_arcs g)) (rg_arcs g)) (rg_transition_rules g)"
    using facts(5) checked by (elim exE) (rule rules_connect_arcs, auto)
  moreover have "sum_list (map snd (gt_exclusion_reason_counts (rg_statistics g))) = gt_excluded_way_count (rg_statistics g)"
    using facts(6) statistics_account_for_ways by metis
  ultimately show ?thesis unfolding Inr sum.case using facts(1,3) by simp
qed simp

end
