(* ===== verification/RoadMatching.thy ===== *)
theory RoadMatching
  imports RoadGraph
begin

text \<open>
  The matching of observations to the road graph, \<^verbatim>\<open>python/cartosentry/road_matching.py\<close>: the
  frozen profile, the observations, candidates and transition scores with their identities and checks,
  and the three calls around the native kernel.  The kernel is a record of functions whose results are
  arbitrary; what the program guarantees, it guarantees by checking them.
\<close>

section \<open>The matching profile\<close>

definition MATCHING_PROFILE_IMMUTABLE_SHA256 :: string where
  "MATCHING_PROFILE_IMMUTABLE_SHA256 = ''dc4da969cb9f9d85492be6ed7f44798dd48b6d0c935e656979c67a27b2c3b5f1''"

definition ALGORITHM_BACKEND :: string where
  "ALGORITHM_BACKEND = ''C++20_NATIVE_BATCH_V1''"

text \<open>\<open>math.pi\<close>.\<close>

definition float_pi :: rat where
  "float_pi = 884279719003555 / 281474976710656"

record matching_authorities =
  ma_graph_file_sha256 :: string
  ma_graph_immutable_sha256 :: string
  ma_charter_file_sha256 :: string

record candidate_parameters =
  cp_minimum_radius :: rat
  cp_default_radius :: rat
  cp_maximum_radius :: rat
  cp_uncertainty_multiplier :: rat
  cp_maximum_candidates :: nat
  cp_distance_places :: nat

record emission_parameters =
  ep_base_sigma :: rat
  ep_maximum_sigma :: rat
  ep_heading_sigma :: rat
  ep_heading_disabled_below :: rat
  ep_heading_full_weight :: rat
  ep_off_map :: rat
  ep_score_places :: nat

record transition_parameters =
  tn_discrepancy_scale :: rat
  tn_maximum_speed :: rat
  tn_speed_allowance :: rat
  tn_speed_penalty :: rat
  tn_turn_penalty :: rat
  tn_u_turn_penalty :: rat
  tn_off_map_enter :: rat
  tn_off_map_exit :: rat
  tn_off_map_stay :: rat
  tn_maximum_distance :: rat
  tn_maximum_states :: nat
  tn_score_places :: nat

record matching_profile =
  mm_immutable_sha256 :: string
  mm_authorities :: matching_authorities
  mm_candidate :: candidate_parameters
  mm_emission :: emission_parameters
  mm_transition :: transition_parameters

definition as_places_upto :: "nat \<Rightarrow> json \<Rightarrow> nat res" where
  "as_places_upto m v = bindE (as_nat 0 v) (\<lambda>n. bindE (ensure (n \<le> m) (ValueError ''Input should be at most the bound'')) (\<lambda>_. Inr n))"

definition matching_authorities_validate :: "json \<Rightarrow> matching_authorities res" where
  "matching_authorities_validate v =
     bindE (as_object [''graph_import_profile_file_sha256'', ''graph_import_profile_immutable_sha256'',
       ''numerical_charter_file_sha256''] v) (\<lambda>d.
     bindE (field ''graph_import_profile_file_sha256'' (as_text is_sha256) d) (\<lambda>file.
     bindE (field ''graph_import_profile_immutable_sha256'' (as_text is_sha256) d) (\<lambda>immutable.
     bindE (field ''numerical_charter_file_sha256'' (as_text is_sha256) d) (\<lambda>charter.
       Inr \<lparr>ma_graph_file_sha256 = file, ma_graph_immutable_sha256 = immutable, ma_charter_file_sha256 = charter\<rparr>))))"

definition matching_authorities_dump :: "matching_authorities \<Rightarrow> json" where
  "matching_authorities_dump a = JDict
     [(''graph_import_profile_file_sha256'', JStr (ma_graph_file_sha256 a)),
      (''graph_import_profile_immutable_sha256'', JStr (ma_graph_immutable_sha256 a)),
      (''numerical_charter_file_sha256'', JStr (ma_charter_file_sha256 a))]"

definition candidate_parameters_validate :: "float_ops \<Rightarrow> json \<Rightarrow> candidate_parameters res" where
  "candidate_parameters_validate fl v =
     (let positive = as_float fl (\<lambda>x. 0 < x) in
     bindE (as_object [''minimum_search_radius_m'', ''default_search_radius_m'', ''maximum_search_radius_m'',
       ''uncertainty_radius_multiplier'', ''maximum_on_road_candidates'', ''distance_rounding_decimal_places''] v) (\<lambda>d.
     bindE (field ''minimum_search_radius_m'' positive d) (\<lambda>minimum.
     bindE (field ''default_search_radius_m'' positive d) (\<lambda>default.
     bindE (field ''maximum_search_radius_m'' positive d) (\<lambda>maximum.
     bindE (field ''uncertainty_radius_multiplier'' positive d) (\<lambda>multiplier.
     bindE (field ''maximum_on_road_candidates'' (as_nat 1) d) (\<lambda>candidates.
     bindE (field ''distance_rounding_decimal_places'' (as_places_upto 12) d) (\<lambda>places.
       Inr \<lparr>cp_minimum_radius = minimum, cp_default_radius = default, cp_maximum_radius = maximum,
            cp_uncertainty_multiplier = multiplier, cp_maximum_candidates = candidates, cp_distance_places = places\<rparr>))))))))"

definition candidate_parameters_dump :: "float_ops \<Rightarrow> candidate_parameters \<Rightarrow> json" where
  "candidate_parameters_dump fl c = JDict
     [(''minimum_search_radius_m'', JFloat (fl_repr fl (cp_minimum_radius c))),
      (''default_search_radius_m'', JFloat (fl_repr fl (cp_default_radius c))),
      (''maximum_search_radius_m'', JFloat (fl_repr fl (cp_maximum_radius c))),
      (''uncertainty_radius_multiplier'', JFloat (fl_repr fl (cp_uncertainty_multiplier c))),
      (''maximum_on_road_candidates'', JInt (int (cp_maximum_candidates c))),
      (''distance_rounding_decimal_places'', JInt (int (cp_distance_places c)))]"

definition emission_parameters_validate :: "float_ops \<Rightarrow> json \<Rightarrow> emission_parameters res" where
  "emission_parameters_validate fl v =
     (let positive = as_float fl (\<lambda>x. 0 < x) in
     bindE (as_object [''base_lateral_sigma_m'', ''maximum_lateral_sigma_m'', ''heading_sigma_rad'',
       ''heading_disabled_below_speed_mps'', ''heading_full_weight_speed_mps'', ''off_map_log_likelihood'',
       ''score_rounding_decimal_places''] v) (\<lambda>d.
     bindE (field ''base_lateral_sigma_m'' positive d) (\<lambda>base.
     bindE (field ''maximum_lateral_sigma_m'' positive d) (\<lambda>maximum.
     bindE (field ''heading_sigma_rad'' (as_float fl (\<lambda>x. 0 < x \<and> x \<le> float_pi)) d) (\<lambda>heading.
     bindE (field ''heading_disabled_below_speed_mps'' (as_float fl (\<lambda>x. 0 \<le> x)) d) (\<lambda>disabled.
     bindE (field ''heading_full_weight_speed_mps'' positive d) (\<lambda>full.
     bindE (field ''off_map_log_likelihood'' (as_float fl (\<lambda>_. True)) d) (\<lambda>off_map.
     bindE (field ''score_rounding_decimal_places'' (as_places_upto 15) d) (\<lambda>places.
       Inr \<lparr>ep_base_sigma = base, ep_maximum_sigma = maximum, ep_heading_sigma = heading, ep_heading_disabled_below = disabled,
            ep_heading_full_weight = full, ep_off_map = off_map, ep_score_places = places\<rparr>)))))))))"

definition emission_parameters_dump :: "float_ops \<Rightarrow> emission_parameters \<Rightarrow> json" where
  "emission_parameters_dump fl e = JDict
     [(''base_lateral_sigma_m'', JFloat (fl_repr fl (ep_base_sigma e))),
      (''maximum_lateral_sigma_m'', JFloat (fl_repr fl (ep_maximum_sigma e))),
      (''heading_sigma_rad'', JFloat (fl_repr fl (ep_heading_sigma e))),
      (''heading_disabled_below_speed_mps'', JFloat (fl_repr fl (ep_heading_disabled_below e))),
      (''heading_full_weight_speed_mps'', JFloat (fl_repr fl (ep_heading_full_weight e))),
      (''off_map_log_likelihood'', JFloat (fl_repr fl (ep_off_map e))),
      (''score_rounding_decimal_places'', JInt (int (ep_score_places e)))]"

definition transition_parameters_validate :: "float_ops \<Rightarrow> json \<Rightarrow> transition_parameters res" where
  "transition_parameters_validate fl v =
     (let positive = as_float fl (\<lambda>x. 0 < x); nonnegative = as_float fl (\<lambda>x. 0 \<le> x); nonpositive = as_float fl (\<lambda>x. x \<le> 0) in
     bindE (as_object [''path_discrepancy_scale_m'', ''maximum_absolute_speed_mps'', ''observed_speed_excess_allowance_mps'',
       ''speed_excess_penalty_per_mps'', ''turn_penalty'', ''u_turn_penalty'', ''off_map_enter_log_likelihood'',
       ''off_map_exit_log_likelihood'', ''off_map_stay_log_likelihood'', ''maximum_graph_search_distance_m'',
       ''maximum_graph_search_states'', ''score_rounding_decimal_places''] v) (\<lambda>d.
     bindE (field ''path_discrepancy_scale_m'' positive d) (\<lambda>scale.
     bindE (field ''maximum_absolute_speed_mps'' positive d) (\<lambda>speed.
     bindE (field ''observed_speed_excess_allowance_mps'' nonnegative d) (\<lambda>allowance.
     bindE (field ''speed_excess_penalty_per_mps'' nonnegative d) (\<lambda>penalty.
     bindE (field ''turn_penalty'' nonnegative d) (\<lambda>turn.
     bindE (field ''u_turn_penalty'' nonnegative d) (\<lambda>u_turn.
     bindE (field ''off_map_enter_log_likelihood'' nonpositive d) (\<lambda>enter.
     bindE (field ''off_map_exit_log_likelihood'' nonpositive d) (\<lambda>leave.
     bindE (field ''off_map_stay_log_likelihood'' nonpositive d) (\<lambda>stay.
     bindE (field ''maximum_graph_search_distance_m'' positive d) (\<lambda>distance.
     bindE (field ''maximum_graph_search_states'' (as_nat 1) d) (\<lambda>states.
     bindE (field ''score_rounding_decimal_places'' (as_places_upto 15) d) (\<lambda>places.
       Inr \<lparr>tn_discrepancy_scale = scale, tn_maximum_speed = speed, tn_speed_allowance = allowance, tn_speed_penalty = penalty,
            tn_turn_penalty = turn, tn_u_turn_penalty = u_turn, tn_off_map_enter = enter, tn_off_map_exit = leave,
            tn_off_map_stay = stay, tn_maximum_distance = distance, tn_maximum_states = states, tn_score_places = places\<rparr>))))))))))))))"

definition transition_parameters_dump :: "float_ops \<Rightarrow> transition_parameters \<Rightarrow> json" where
  "transition_parameters_dump fl t = JDict
     [(''path_discrepancy_scale_m'', JFloat (fl_repr fl (tn_discrepancy_scale t))),
      (''maximum_absolute_speed_mps'', JFloat (fl_repr fl (tn_maximum_speed t))),
      (''observed_speed_excess_allowance_mps'', JFloat (fl_repr fl (tn_speed_allowance t))),
      (''speed_excess_penalty_per_mps'', JFloat (fl_repr fl (tn_speed_penalty t))),
      (''turn_penalty'', JFloat (fl_repr fl (tn_turn_penalty t))), (''u_turn_penalty'', JFloat (fl_repr fl (tn_u_turn_penalty t))),
      (''off_map_enter_log_likelihood'', JFloat (fl_repr fl (tn_off_map_enter t))),
      (''off_map_exit_log_likelihood'', JFloat (fl_repr fl (tn_off_map_exit t))),
      (''off_map_stay_log_likelihood'', JFloat (fl_repr fl (tn_off_map_stay t))),
      (''maximum_graph_search_distance_m'', JFloat (fl_repr fl (tn_maximum_distance t))),
      (''maximum_graph_search_states'', JInt (int (tn_maximum_states t))),
      (''score_rounding_decimal_places'', JInt (int (tn_score_places t)))]"

text \<open>The dump of a frozen profile without its hash: the fixed fields, the authorities and the charter.\<close>

definition frozen_dump :: "string \<Rightarrow> string \<Rightarrow> json \<Rightarrow> json \<Rightarrow> json" where
  "frozen_dump profile_id freeze_state authorities charter = JDict
     [(''schema_version'', JInt 1), (''profile_id'', JStr profile_id), (''profile_version'', JStr ''1.0.0''),
      (''freeze_state'', JStr freeze_state),
      (''hash_contract'', JStr ''SHA-256 of canonical UTF-8 JSON with immutable_sha256 omitted''),
      (''authorities'', authorities), (''parameter_charter'', charter)]"

definition matching_profile_dump :: "float_ops \<Rightarrow> matching_profile \<Rightarrow> json" where
  "matching_profile_dump fl p = frozen_dump ''map-matching-v1'' ''FROZEN_BEFORE_M5_2_ACCEPTANCE''
     (matching_authorities_dump (mm_authorities p))
     (JDict [(''candidate'', candidate_parameters_dump fl (mm_candidate p)), (''emission'', emission_parameters_dump fl (mm_emission p)),
        (''transition'', transition_parameters_dump fl (mm_transition p))])"

definition assert_matching_profile :: "(string \<Rightarrow> string) \<Rightarrow> float_ops \<Rightarrow> matching_profile \<Rightarrow> unit res" where
  "assert_matching_profile sha fl p =
     bindE (canonical_hash sha (matching_profile_dump fl p)) (\<lambda>h.
       ensure (mm_immutable_sha256 p = MATCHING_PROFILE_IMMUTABLE_SHA256 \<and> h = mm_immutable_sha256 p)
         (ValueError ''map-matching profile identity is not pinned''))"

definition check_matching_profile :: "(string \<Rightarrow> string) \<Rightarrow> float_ops \<Rightarrow> matching_profile \<Rightarrow> unit res" where
  "check_matching_profile sha fl p =
     (let c = mm_candidate p; e = mm_emission p in
     bindE (assert_matching_profile sha fl p) (\<lambda>_.
     bindE (ensure (ma_graph_immutable_sha256 (mm_authorities p) = GRAPH_PROFILE_IMMUTABLE_SHA256)
       (ValueError ''map-matching graph profile authority is not exact'')) (\<lambda>_.
     bindE (ensure (cp_minimum_radius c \<le> cp_default_radius c \<and> cp_default_radius c \<le> cp_maximum_radius c)
       (ValueError ''map-matching search radii are not ordered'')) (\<lambda>_.
       ensure (\<not> (ep_maximum_sigma e < ep_base_sigma e \<or> ep_heading_full_weight e \<le> ep_heading_disabled_below e \<or> 0 < ep_off_map e))
         (ValueError ''map-matching emission parameters are inconsistent'')))))"

text \<open>The fields every frozen profile has.\<close>

definition frozen_fields :: "string \<Rightarrow> string \<Rightarrow> json \<Rightarrow> ((string \<times> json) list \<times> string) res" where
  "frozen_fields profile_id freeze_state v =
     bindE (as_object [''schema_version'', ''profile_id'', ''profile_version'', ''freeze_state'', ''hash_contract'',
       ''immutable_sha256'', ''authorities'', ''parameter_charter''] v) (\<lambda>d.
     bindE (field ''schema_version'' (as_int_literal 1) d) (\<lambda>_.
     bindE (field ''profile_id'' (as_literal profile_id) d) (\<lambda>_.
     bindE (field ''profile_version'' (as_literal ''1.0.0'') d) (\<lambda>_.
     bindE (field ''freeze_state'' (as_literal freeze_state) d) (\<lambda>_.
     bindE (field ''hash_contract'' (as_literal ''SHA-256 of canonical UTF-8 JSON with immutable_sha256 omitted'') d) (\<lambda>_.
     bindE (field ''immutable_sha256'' (as_text is_sha256) d) (\<lambda>immutable. Inr (d, immutable))))))))"

definition matching_profile_validate :: "(string \<Rightarrow> string) \<Rightarrow> float_ops \<Rightarrow> json \<Rightarrow> matching_profile res" where
  "matching_profile_validate sha fl v =
     bindE (frozen_fields ''map-matching-v1'' ''FROZEN_BEFORE_M5_2_ACCEPTANCE'' v) (\<lambda>(d, immutable).
     bindE (field ''authorities'' matching_authorities_validate d) (\<lambda>authorities.
     bindE (field ''parameter_charter'' (as_object [''candidate'', ''emission'', ''transition'']) d) (\<lambda>charter.
     bindE (field ''candidate'' (candidate_parameters_validate fl) charter) (\<lambda>candidate.
     bindE (field ''emission'' (emission_parameters_validate fl) charter) (\<lambda>emission.
     bindE (field ''transition'' (transition_parameters_validate fl) charter) (\<lambda>transition0.
     let p = \<lparr>mm_immutable_sha256 = immutable, mm_authorities = authorities, mm_candidate = candidate, mm_emission = emission,
              mm_transition = transition0\<rparr>
     in bindE (check_matching_profile sha fl p) (\<lambda>_. Inr p)))))))"

definition load_map_matching_profile ::
  "(string \<Rightarrow> string) \<Rightarrow> (string \<Rightarrow> string) \<Rightarrow> float_ops \<Rightarrow> fs_node \<Rightarrow> (matching_profile \<times> string) res" where
  "load_map_matching_profile sha float_repr fl node =
     load_frozen sha float_repr ''map-matching profile'' (matching_profile_validate sha fl) node"

definition validate_matching_graph_authority ::
  "(string \<Rightarrow> string) \<Rightarrow> float_ops \<Rightarrow> road_graph \<Rightarrow> matching_profile \<Rightarrow> unit res" where
  "validate_matching_graph_authority sha fl g p =
     bindE (assert_matching_profile sha fl p) (\<lambda>_.
       ensure (rg_profile_immutable_sha256 g = ma_graph_immutable_sha256 (mm_authorities p)
         \<and> rg_profile_file_sha256 g = ma_graph_file_sha256 (mm_authorities p))
         (ValueError ''directed road graph uses a foreign import-profile authority''))"

section \<open>Observations\<close>

record match_observation =
  mo_observation_id :: string
  mo_source_observation_id :: "string option"
  mo_time :: time_point
  mo_local_frame_id :: string
  mo_position :: "rat \<times> rat"
  mo_heading :: "rat option"
  mo_speed :: rat
  mo_uncertainty :: "rat option"
  mo_declared_trustworthy :: bool

definition float_json :: "float_ops \<Rightarrow> rat \<Rightarrow> json" where
  "float_json fl x = JFloat (fl_repr fl x)"

definition optional_float :: "float_ops \<Rightarrow> rat option \<Rightarrow> json" where
  "optional_float fl x = (case x of None \<Rightarrow> JNull | Some a \<Rightarrow> float_json fl a)"

definition optional_pair :: "float_ops \<Rightarrow> (rat \<times> rat) option \<Rightarrow> json" where
  "optional_pair fl p = (case p of None \<Rightarrow> JNull | Some (x, y) \<Rightarrow> JList [float_json fl x, float_json fl y])"

definition observation_payload :: "float_ops \<Rightarrow> match_observation \<Rightarrow> (string \<times> json) list" where
  "observation_payload fl b =
     [(''source_observation_id'', option_json (mo_source_observation_id b)), (''time'', time_point_dump (fl_repr fl) (mo_time b)),
      (''local_frame_id'', JStr (mo_local_frame_id b)), (''position_local_m'', optional_pair fl (Some (mo_position b))),
      (''heading_rad'', optional_float fl (mo_heading b)), (''speed_mps'', float_json fl (mo_speed b)),
      (''horizontal_uncertainty_m'', optional_float fl (mo_uncertainty b)),
      (''horizontal_uncertainty_basis'', option_json (if mo_declared_trustworthy b then Some ''DECLARED_TRUSTWORTHY'' else None))]"

definition observation_dump :: "float_ops \<Rightarrow> match_observation \<Rightarrow> json" where
  "observation_dump fl b = JDict ((''observation_id'', JStr (mo_observation_id b)) # observation_payload fl b)"

definition assert_observation :: "(string \<Rightarrow> string) \<Rightarrow> float_ops \<Rightarrow> match_observation \<Rightarrow> unit res" where
  "assert_observation sha fl b =
     bindE (ensure ((mo_uncertainty b = None) = (\<not> mo_declared_trustworthy b))
       (ValueError ''horizontal uncertainty requires an explicit trustworthy basis'')) (\<lambda>_.
     bindE (hashed_id sha ''observation'' (JDict (observation_payload fl b))) (\<lambda>expected.
       ensure (mo_observation_id b = expected) (ValueError ''road-match observation identity is invalid'')))"

definition in_bounds :: "rat option \<Rightarrow> (rat \<Rightarrow> bool) \<Rightarrow> bool" where
  "in_bounds x P = (case x of None \<Rightarrow> True | Some a \<Rightarrow> P a)"

definition is_angle :: "rat \<Rightarrow> bool" where
  "is_angle x \<longleftrightarrow> \<bar>x\<bar> \<le> float_pi"

definition is_optional_id :: "string \<Rightarrow> string option \<Rightarrow> bool" where
  "is_optional_id kind x = (case x of None \<Rightarrow> True | Some i \<Rightarrow> is_id_of kind i)"

definition check_observation :: "(string \<Rightarrow> string) \<Rightarrow> float_ops \<Rightarrow> match_observation \<Rightarrow> unit res" where
  "check_observation sha fl b =
     bindE (ensure (is_id_of ''observation'' (mo_observation_id b) \<and> is_optional_id ''observation'' (mo_source_observation_id b)
         \<and> mo_local_frame_id b \<noteq> [] \<and> in_bounds (mo_heading b) is_angle \<and> 0 \<le> mo_speed b \<and> in_bounds (mo_uncertainty b) (\<lambda>x. 0 < x))
       (invalid_model ''RoadMatchObservation'')) (\<lambda>_.
       assert_observation sha fl b)"

definition make_road_match_observation ::
  "(string \<Rightarrow> string) \<Rightarrow> float_ops \<Rightarrow> time_point \<Rightarrow> string \<Rightarrow> rat \<times> rat \<Rightarrow> rat option \<Rightarrow> rat \<Rightarrow> rat option \<Rightarrow> bool \<Rightarrow>
   string option \<Rightarrow> match_observation res" where
  "make_road_match_observation sha fl time0 frame position heading speed uncertainty trustworthy source =
     (let b = \<lparr>mo_observation_id = [], mo_source_observation_id = source, mo_time = time0, mo_local_frame_id = frame,
              mo_position = position, mo_heading = heading, mo_speed = speed, mo_uncertainty = uncertainty,
              mo_declared_trustworthy = trustworthy\<rparr> in
     bindE (hashed_id sha ''observation'' (JDict (observation_payload fl b))) (\<lambda>i.
     let c = b\<lparr>mo_observation_id := i\<rparr> in bindE (check_observation sha fl c) (\<lambda>_. Inr c)))"

section \<open>Candidates\<close>

datatype candidate_state = ON_ROAD | OFF_MAP

definition candidate_state_name :: "candidate_state \<Rightarrow> string" where
  "candidate_state_name s = (case s of ON_ROAD \<Rightarrow> ''ON_ROAD'' | OFF_MAP \<Rightarrow> ''OFF_MAP'')"

record emission_features =
  em_lateral_sigma :: "rat option"
  em_lateral :: "rat option"
  em_heading_used :: bool
  em_heading_weight :: rat
  em_heading_difference :: "rat option"
  em_heading :: "rat option"
  em_off_map :: "rat option"
  em_total :: rat

definition emission_dump :: "float_ops \<Rightarrow> emission_features \<Rightarrow> json" where
  "emission_dump fl e = JDict
     [(''lateral_sigma_m'', optional_float fl (em_lateral_sigma e)), (''lateral_log_likelihood'', optional_float fl (em_lateral e)),
      (''heading_used'', JBool (em_heading_used e)), (''heading_weight'', float_json fl (em_heading_weight e)),
      (''heading_difference_rad'', optional_float fl (em_heading_difference e)),
      (''heading_log_likelihood'', optional_float fl (em_heading e)),
      (''off_map_log_likelihood'', optional_float fl (em_off_map e)), (''total_log_likelihood'', float_json fl (em_total e))]"

definition check_emission :: "emission_features \<Rightarrow> unit res" where
  "check_emission e = ensure (in_bounds (em_lateral_sigma e) (\<lambda>x. 0 < x) \<and> 0 \<le> em_heading_weight e \<and> em_heading_weight e \<le> 1
       \<and> in_bounds (em_heading_difference e) (\<lambda>x. 0 \<le> x \<and> x \<le> float_pi)) (invalid_model ''EmissionFeatures'')"

record road_candidate =
  rk_candidate_id :: string
  rk_observation_id :: string
  rk_graph_id :: string
  rk_state :: candidate_state
  rk_arc_id :: "string option"
  rk_way_id :: "int option"
  rk_projected :: "(rat \<times> rat) option"
  rk_lateral :: "rat option"
  rk_tangent :: "rat option"
  rk_along :: "rat option"
  rk_search_radius :: rat
  rk_emission :: emission_features

definition candidate_dump :: "float_ops \<Rightarrow> road_candidate \<Rightarrow> json" where
  "candidate_dump fl c = JDict
     [(''candidate_id'', JStr (rk_candidate_id c)), (''observation_id'', JStr (rk_observation_id c)),
      (''graph_id'', JStr (rk_graph_id c)), (''state'', JStr (candidate_state_name (rk_state c))),
      (''directed_arc_id'', option_json (rk_arc_id c)),
      (''source_way_id'', (case rk_way_id c of None \<Rightarrow> JNull | Some w \<Rightarrow> JInt w)),
      (''projected_position_local_m'', optional_pair fl (rk_projected c)), (''lateral_distance_m'', optional_float fl (rk_lateral c)),
      (''tangent_heading_rad'', optional_float fl (rk_tangent c)), (''along_arc_offset_m'', optional_float fl (rk_along c)),
      (''search_radius_m'', float_json fl (rk_search_radius c)), (''emission'', emission_dump fl (rk_emission c))]"

definition check_candidate :: "road_candidate \<Rightarrow> unit res" where
  "check_candidate c =
     (let absent = [rk_arc_id c = None, rk_way_id c = None, rk_projected c = None, rk_lateral c = None, rk_tangent c = None,
                    rk_along c = None] in
     bindE (ensure (is_id_of ''candidate'' (rk_candidate_id c) \<and> is_id_of ''observation'' (rk_observation_id c)
         \<and> is_id_of ''road-graph'' (rk_graph_id c) \<and> is_optional_id ''osm-arc'' (rk_arc_id c)
         \<and> (case rk_way_id c of None \<Rightarrow> True | Some w \<Rightarrow> 0 < w) \<and> in_bounds (rk_lateral c) (\<lambda>x. 0 \<le> x)
         \<and> in_bounds (rk_tangent c) is_angle \<and> in_bounds (rk_along c) (\<lambda>x. 0 \<le> x) \<and> 0 < rk_search_radius c)
       (invalid_model ''RoadCandidate'')) (\<lambda>_.
     case rk_state c of
       ON_ROAD \<Rightarrow>
         bindE (ensure (\<not> list_ex (\<lambda>b. b) absent) (ValueError ''on-road candidates require complete projection evidence'')) (\<lambda>_.
           ensure (em_off_map (rk_emission c) = None) (ValueError ''on-road candidate cannot carry off-map emission''))
     | OFF_MAP \<Rightarrow> ensure (list_all (\<lambda>b. b) absent) (ValueError ''off-map candidate cannot carry road projection evidence'')))"

definition candidate_payload :: "float_ops \<Rightarrow> matching_profile \<Rightarrow> road_candidate \<Rightarrow> json" where
  "candidate_payload fl p c = JDict
     ([(''profile_immutable_sha256'', JStr (mm_immutable_sha256 p)), (''graph_id'', JStr (rk_graph_id c)),
       (''observation_id'', JStr (rk_observation_id c)), (''state'', JStr (candidate_state_name (rk_state c)))] @
      (case rk_state c of
         ON_ROAD \<Rightarrow> [(''directed_arc_id'', option_json (rk_arc_id c)),
           (''projected_position_local_m'', optional_pair fl (rk_projected c)), (''along_arc_offset_m'', optional_float fl (rk_along c))]
       | OFF_MAP \<Rightarrow> []))"

definition validate_candidate_identity :: "(string \<Rightarrow> string) \<Rightarrow> float_ops \<Rightarrow> matching_profile \<Rightarrow> road_candidate \<Rightarrow> unit res" where
  "validate_candidate_identity sha fl p c =
     bindE (hashed_id sha ''candidate'' (candidate_payload fl p c)) (\<lambda>expected.
       ensure (rk_candidate_id c = expected) (ValueError ''road-candidate identity is invalid''))"

section \<open>The native kernel\<close>

record native_arc =
  na_arc_id :: string
  na_from_node_id :: string
  na_to_node_id :: string
  na_source_way_id :: nat
  na_direction :: string
  na_length_m :: rat
  na_geometry :: "(rat \<times> rat) list"

record native_graph =
  ng_arcs :: "native_arc list"
  ng_rules :: "(string \<times> string \<times> string) list"

record native_observation =
  no_observation_id :: string
  no_time_ns :: int
  no_position :: "rat \<times> rat"
  no_heading :: "rat option"
  no_speed :: rat
  no_uncertainty :: "rat option"

record native_candidate =
  nc_candidate_id :: string
  nc_observation_index :: nat
  nc_arc_index :: "nat option"
  nc_along :: "rat option"
  nc_emission_total :: rat

text \<open>What the kernel returns for a candidate and for a transition.\<close>

record raw_candidate =
  rc_observation_index :: int
  rc_arc_id :: "string option"
  rc_way_id :: "int option"
  rc_projected :: "rat list option"
  rc_lateral :: "rat option"
  rc_tangent :: "rat option"
  rc_along :: "rat option"
  rc_search_radius :: rat
  rc_emission :: emission_features

datatype transition_rejection =
    NON_POSITIVE_ELAPSED_TIME | FORBIDDEN_TURN | UNKNOWN_TURN | NO_DIRECTED_PATH | GRAPH_SEARCH_BUDGET
  | IMPLAUSIBLE_ABSOLUTE_SPEED

record raw_transition =
  rt_possible :: bool
  rt_rejection :: "transition_rejection option"
  rt_elapsed :: rat
  rt_displacement :: rat
  rt_graph_distance :: "rat option"
  rt_implied_speed :: "rat option"
  rt_discrepancy :: "rat option"
  rt_turn_count :: "int option"
  rt_u_turn_count :: "int option"
  rt_path_arc_ids :: "string list"
  rt_path :: "rat option"
  rt_speed :: "rat option"
  rt_turn :: "rat option"
  rt_off_map :: "rat option"
  rt_total :: "rat option"

record transition_score =
  ts_from_candidate_id :: string
  ts_to_candidate_id :: string
  ts_evidence :: raw_transition

record matching_kernel =
  mk_candidates :: "native_graph \<Rightarrow> native_observation list \<Rightarrow> candidate_parameters \<Rightarrow> emission_parameters \<Rightarrow> raw_candidate list list res"
  mk_best :: "(string \<times> rat) list \<Rightarrow> int res"
  mk_transition :: "native_graph \<Rightarrow> native_observation list \<Rightarrow> native_candidate \<times> native_candidate \<Rightarrow> candidate_parameters \<Rightarrow>
     transition_parameters \<Rightarrow> raw_transition list res"

definition native_graph_payload :: "road_graph \<Rightarrow> native_graph" where
  "native_graph_payload g =
     \<lparr>ng_arcs = map (\<lambda>a. \<lparr>na_arc_id = ra_arc_id a, na_from_node_id = ra_from_node_id a, na_to_node_id = ra_to_node_id a,
          na_source_way_id = ra_source_way_id a, na_direction = direction_name (ra_direction a), na_length_m = ra_length_m a,
          na_geometry = map (\<lambda>(x, y, z). (x, y)) (ra_geometry_local_m a)\<rparr>) (rg_arcs g),
      ng_rules = map (\<lambda>r. (tr_from_arc_id r, tr_to_arc_id r, transition_name (tr_state r))) (rg_transition_rules g)\<rparr>"

definition native_observation_payload :: "match_observation \<Rightarrow> native_observation" where
  "native_observation_payload b =
     \<lparr>no_observation_id = mo_observation_id b, no_time_ns = tp_value_ns (mo_time b), no_position = mo_position b,
      no_heading = mo_heading b, no_speed = mo_speed b, no_uncertainty = mo_uncertainty b\<rparr>"

text \<open>\<open>_native_candidate_payload\<close>: the arc becomes its position in the graph.\<close>

fun position_where :: "('a \<Rightarrow> bool) \<Rightarrow> 'a list \<Rightarrow> nat option" where
  "position_where P [] = None"
| "position_where P (x # xs) = (if P x then Some 0 else map_option Suc (position_where P xs))"

definition native_candidate_payload :: "road_graph \<Rightarrow> road_candidate \<Rightarrow> nat \<Rightarrow> native_candidate res" where
  "native_candidate_payload g c i =
     bindE (case rk_state c of
         OFF_MAP \<Rightarrow> Inr None
       | ON_ROAD \<Rightarrow>
           (case position_where (\<lambda>a. Some (ra_arc_id a) = rk_arc_id c) (rg_arcs g) of
              None \<Rightarrow> Inl (ValueError ''road candidate arc is absent from the directed graph'') | Some k \<Rightarrow> Inr (Some k))) (\<lambda>arc_index.
       Inr \<lparr>nc_candidate_id = rk_candidate_id c, nc_observation_index = i, nc_arc_index = arc_index, nc_along = rk_along c,
            nc_emission_total = em_total (rk_emission c)\<rparr>)"

section \<open>Generating candidates\<close>

definition candidate_from_native ::
  "(string \<Rightarrow> string) \<Rightarrow> float_ops \<Rightarrow> road_graph \<Rightarrow> match_observation \<Rightarrow> matching_profile \<Rightarrow> nat \<Rightarrow> raw_candidate \<Rightarrow>
   road_candidate res" where
  "candidate_from_native sha fl g b p i raw =
     bindE (ensure (rc_observation_index raw = int i) (ValueError ''native road candidate belongs to the wrong observation'')) (\<lambda>_.
     let c = \<lparr>rk_candidate_id = [], rk_observation_id = mo_observation_id b, rk_graph_id = rg_graph_id g,
              rk_state = (if rc_arc_id raw \<noteq> None then ON_ROAD else OFF_MAP), rk_arc_id = rc_arc_id raw, rk_way_id = rc_way_id raw,
              rk_projected = (case rc_projected raw of Some [x, y] \<Rightarrow> Some (x, y) | _ \<Rightarrow> None), rk_lateral = rc_lateral raw,
              rk_tangent = rc_tangent raw, rk_along = rc_along raw, rk_search_radius = rc_search_radius raw,
              rk_emission = rc_emission raw\<rparr> in
     bindE (hashed_id sha ''candidate'' (candidate_payload fl p c)) (\<lambda>identity.
     bindE (check_emission (rk_emission c)) (\<lambda>_.
     let c' = c\<lparr>rk_candidate_id := identity\<rparr> in
     bindE (check_candidate c') (\<lambda>_.
     bindE (validate_candidate_identity sha fl p c') (\<lambda>_. Inr c')))))"

definition generate_road_candidate_batches ::
  "(string \<Rightarrow> string) \<Rightarrow> float_ops \<Rightarrow> matching_kernel \<Rightarrow> road_graph \<Rightarrow> match_observation list \<Rightarrow> matching_profile \<Rightarrow>
   road_candidate list list res" where
  "generate_road_candidate_batches sha fl native g observations p =
     bindE (validate_graph_identity sha fl g) (\<lambda>_.
     bindE (validate_matching_graph_authority sha fl g p) (\<lambda>_.
     bindE (ensure (observations \<noteq> []) (ValueError ''at least one road-match observation is required'')) (\<lambda>_.
     bindE (mapE (\<lambda>b. bindE (assert_observation sha fl b) (\<lambda>_.
         ensure (mo_local_frame_id b = nf_frame_id (gf_frame (rg_local_frame g)))
           (ValueError ''road-match observation uses the wrong local frame''))) observations) (\<lambda>_.
     bindE (mk_candidates native (native_graph_payload g) (map native_observation_payload observations) (mm_candidate p)
       (mm_emission p)) (\<lambda>raw_batches.
     bindE (ensure (length raw_batches = length observations) (ValueError ''native road candidate batch count is invalid'')) (\<lambda>_.
       mapE (\<lambda>(i, b, raw_batch). mapE (candidate_from_native sha fl g b p i) raw_batch)
         (enumerate 0 (zip observations raw_batches))))))))"

definition generate_road_candidates ::
  "(string \<Rightarrow> string) \<Rightarrow> float_ops \<Rightarrow> matching_kernel \<Rightarrow> road_graph \<Rightarrow> match_observation \<Rightarrow> matching_profile \<Rightarrow> string option \<Rightarrow>
   road_candidate list res" where
  "generate_road_candidates sha fl native g b p index_graph_id =
     bindE (ensure (case index_graph_id of None \<Rightarrow> True | Some i \<Rightarrow> i = rg_graph_id g)
       (ValueError ''road spatial index does not belong to the directed graph'')) (\<lambda>_.
     bindE (generate_road_candidate_batches sha fl native g [b] p) (\<lambda>batches. Inr (hd batches)))"

definition best_emission_candidate :: "matching_kernel \<Rightarrow> road_candidate list \<Rightarrow> road_candidate res" where
  "best_emission_candidate native candidates =
     bindE (ensure (candidates \<noteq> []) (ValueError ''at least one road candidate is required'')) (\<lambda>_.
     bindE (mk_best native (map (\<lambda>c. (rk_candidate_id c, em_total (rk_emission c))) candidates)) (\<lambda>selected.
     bindE (ensure (0 \<le> selected \<and> selected < int (length candidates))
       (ValueError ''native emission selection returned an invalid index'')) (\<lambda>_.
       Inr (candidates ! nat selected))))"

section \<open>Scoring a transition\<close>

definition check_transition_score :: "transition_score \<Rightarrow> unit res" where
  "check_transition_score t =
     (let e = ts_evidence t; nonnegative = (\<lambda>x. in_bounds x (\<lambda>a. 0 \<le> a)); counts = (\<lambda>n. case n of None \<Rightarrow> True | Some k \<Rightarrow> 0 \<le> (k :: int)) in
     bindE (ensure (is_id_of ''candidate'' (ts_from_candidate_id t) \<and> is_id_of ''candidate'' (ts_to_candidate_id t)
         \<and> 0 \<le> rt_elapsed e \<and> 0 \<le> rt_displacement e \<and> nonnegative (rt_graph_distance e) \<and> nonnegative (rt_implied_speed e)
         \<and> nonnegative (rt_discrepancy e) \<and> counts (rt_turn_count e) \<and> counts (rt_u_turn_count e))
       (invalid_model ''TransitionScore'')) (\<lambda>_.
     if rt_possible e
     then ensure (rt_rejection e = None \<and> rt_total e \<noteq> None) (ValueError ''possible transitions require a finite score'')
     else bindE (ensure (rt_rejection e \<noteq> None \<and> rt_total e = None) (ValueError ''impossible transitions require a rejection reason'')) (\<lambda>_.
       ensure (rt_path e = None \<and> rt_speed e = None \<and> rt_turn e = None \<and> rt_off_map e = None)
         (ValueError ''impossible transitions cannot carry score components''))))"

text \<open>\<open>TransitionScore.score\<close>, nothing for negative infinity.\<close>

definition transition_total :: "transition_score \<Rightarrow> rat option" where
  "transition_total t = rt_total (ts_evidence t)"

definition score_road_transition ::
  "(string \<Rightarrow> string) \<Rightarrow> float_ops \<Rightarrow> matching_kernel \<Rightarrow> road_graph \<Rightarrow> match_observation \<Rightarrow> road_candidate \<Rightarrow>
   match_observation \<Rightarrow> road_candidate \<Rightarrow> matching_profile \<Rightarrow> transition_score res" where
  "score_road_transition sha fl native g before previous now current p =
     bindE (validate_graph_identity sha fl g) (\<lambda>_.
     bindE (validate_matching_graph_authority sha fl g p) (\<lambda>_.
     bindE (assert_observation sha fl before) (\<lambda>_.
     bindE (assert_observation sha fl now) (\<lambda>_.
     bindE (difference (mo_time now) (mo_time before)) (\<lambda>_.
     bindE (ensure (rk_observation_id previous = mo_observation_id before \<and> rk_observation_id current = mo_observation_id now)
       (ValueError ''road candidates do not belong to their observations'')) (\<lambda>_.
     bindE (ensure (rk_graph_id previous = rg_graph_id g \<and> rk_graph_id current = rg_graph_id g)
       (ValueError ''road candidates do not belong to the directed graph'')) (\<lambda>_.
     bindE (validate_candidate_identity sha fl p previous) (\<lambda>_.
     bindE (validate_candidate_identity sha fl p current) (\<lambda>_.
     bindE (native_candidate_payload g previous 0) (\<lambda>first.
     bindE (native_candidate_payload g current 1) (\<lambda>second.
     bindE (mk_transition native (native_graph_payload g) [native_observation_payload before, native_observation_payload now]
       (first, second) (mm_candidate p) (mm_transition p)) (\<lambda>raw_results.
     bindE (case raw_results of [raw] \<Rightarrow> Inr raw | _ \<Rightarrow> Inl (ValueError ''native road transition result count is invalid'')) (\<lambda>raw.
     let t = \<lparr>ts_from_candidate_id = rk_candidate_id previous, ts_to_candidate_id = rk_candidate_id current, ts_evidence = raw\<rparr>
     in bindE (check_transition_score t) (\<lambda>_. Inr t))))))))))))))"

section \<open>What an accepted batch guarantees\<close>

text \<open>A candidate that carries the identity of its content, complete evidence when it is on the road and
  none when it is off the map.\<close>

definition sound_candidate :: "(string \<Rightarrow> string) \<Rightarrow> float_ops \<Rightarrow> matching_profile \<Rightarrow> road_graph \<Rightarrow> match_observation \<Rightarrow> road_candidate \<Rightarrow> bool" where
  "sound_candidate sha fl p g b c \<longleftrightarrow>
     rk_observation_id c = mo_observation_id b \<and> rk_graph_id c = rg_graph_id g \<and>
     validate_candidate_identity sha fl p c = Inr () \<and> check_candidate c = Inr () \<and> check_emission (rk_emission c) = Inr ()"

lemma candidate_from_native_sound: "candidate_from_native sha fl g b p i raw = Inr c \<Longrightarrow> sound_candidate sha fl p g b c"
  by (auto simp: candidate_from_native_def sound_candidate_def Let_def)

lemma batches_sound:
  assumes "generate_road_candidate_batches sha fl native g observations p = Inr batches"
  shows "list_all2 (\<lambda>b. list_all (sound_candidate sha fl p g b)) observations batches"
proof -
  obtain raw where len: "length raw = length observations"
    and run: "mapE (\<lambda>(i, b, raw_batch). mapE (candidate_from_native sha fl g b p i) raw_batch)
        (enumerate 0 (zip observations raw)) = Inr batches"
    using assms by (auto simp: generate_road_candidate_batches_def)
  have one: "list_all (sound_candidate sha fl p g b) cs"
    if "mapE (candidate_from_native sha fl g b p i) raws = Inr cs" for b i raws cs
    using that by (induction raws arbitrary: cs) (auto dest: candidate_from_native_sound)
  have "list_all2 (\<lambda>b. list_all (sound_candidate sha fl p g b)) obs out"
    if "length raw = length obs" "mapE (\<lambda>(i, b, raw_batch). mapE (candidate_from_native sha fl g b p i) raw_batch)
        (enumerate n (zip obs raw)) = Inr out" for obs raw out n
    using that by (induction obs raw arbitrary: n out rule: list_induct2') (auto dest: one)
  from this [OF len run] show ?thesis .
qed

end
