(* ===== verification/RoadDecoder.thy ===== *)
theory RoadDecoder
  imports RoadMatching
begin

text \<open>
  The decoding of a road path, \<^verbatim>\<open>python/cartosentry/road_decoder.py\<close>: the frozen profile, the
  decoded points, intervals and paths with their identities and checks, and \<open>decode_road_path\<close> around
  the native decoder, whose result is arbitrary.
\<close>

section \<open>The decoder profile\<close>

definition DECODER_PROFILE_IMMUTABLE_SHA256 :: string where
  "DECODER_PROFILE_IMMUTABLE_SHA256 = ''78a1c554c2895748b9bef5810772c7788d36c3f01be47cb00accc9dd4c0e5991''"

definition DECODER_PROFILE_FILE_SHA256 :: string where
  "DECODER_PROFILE_FILE_SHA256 = ''73ebeb73506a81214eb0f14fb2cbb835c8bef80b4a63e4096402817bafa99a15''"

definition MATCHING_PROFILE_FILE_SHA256 :: string where
  "MATCHING_PROFILE_FILE_SHA256 = ''b249c83942244b8a014b0946b7621adda7dd005cfb2757b85658b08243ec0760''"

record decoder_authorities =
  da_matching_file_sha256 :: string
  da_matching_immutable_sha256 :: string
  da_charter_file_sha256 :: string

record decoder_parameters =
  de_beam_width :: nat
  de_hypotheses :: nat
  de_score_delta :: rat
  de_ambiguity_separation :: rat
  de_stationary_speed :: rat
  de_stationary_tolerance :: rat
  de_stationary_minimum :: nat
  de_maximum_observations :: nat
  de_score_places :: nat

record decoder_profile =
  df_immutable_sha256 :: string
  df_authorities :: decoder_authorities
  df_parameters :: decoder_parameters

definition decoder_authorities_validate :: "json \<Rightarrow> decoder_authorities res" where
  "decoder_authorities_validate v =
     bindE (as_object [''map_matching_profile_file_sha256'', ''map_matching_profile_immutable_sha256'',
       ''numerical_charter_file_sha256''] v) (\<lambda>d.
     bindE (field ''map_matching_profile_file_sha256'' (as_text is_sha256) d) (\<lambda>file.
     bindE (field ''map_matching_profile_immutable_sha256'' (as_text is_sha256) d) (\<lambda>immutable.
     bindE (field ''numerical_charter_file_sha256'' (as_text is_sha256) d) (\<lambda>charter.
       Inr \<lparr>da_matching_file_sha256 = file, da_matching_immutable_sha256 = immutable, da_charter_file_sha256 = charter\<rparr>))))"

definition decoder_authorities_dump :: "decoder_authorities \<Rightarrow> json" where
  "decoder_authorities_dump a = JDict
     [(''map_matching_profile_file_sha256'', JStr (da_matching_file_sha256 a)),
      (''map_matching_profile_immutable_sha256'', JStr (da_matching_immutable_sha256 a)),
      (''numerical_charter_file_sha256'', JStr (da_charter_file_sha256 a))]"

definition decoder_parameters_validate :: "float_ops \<Rightarrow> json \<Rightarrow> decoder_parameters res" where
  "decoder_parameters_validate fl v =
     (let positive = as_float fl (\<lambda>x. 0 < x); nonnegative = as_float fl (\<lambda>x. 0 \<le> x) in
     bindE (as_object [''decoding_mode'', ''beam_width'', ''hypotheses_per_terminal_candidate'', ''beam_score_delta_log_likelihood'',
       ''ambiguity_path_separation_log_likelihood'', ''stationary_speed_threshold_mps'', ''stationary_position_tolerance_m'',
       ''stationary_minimum_observations'', ''maximum_sequence_observations'', ''score_rounding_decimal_places''] v) (\<lambda>d.
     bindE (field ''decoding_mode'' (as_literal ''OFFLINE_FULL_WINDOW'') d) (\<lambda>_.
     bindE (field ''beam_width'' (as_nat 2) d) (\<lambda>beam.
     bindE (field ''hypotheses_per_terminal_candidate'' (as_nat 2) d) (\<lambda>hypotheses.
     bindE (field ''beam_score_delta_log_likelihood'' positive d) (\<lambda>delta.
     bindE (field ''ambiguity_path_separation_log_likelihood'' nonnegative d) (\<lambda>separation.
     bindE (field ''stationary_speed_threshold_mps'' positive d) (\<lambda>speed.
     bindE (field ''stationary_position_tolerance_m'' nonnegative d) (\<lambda>tolerance.
     bindE (field ''stationary_minimum_observations'' (as_nat 2) d) (\<lambda>minimum.
     bindE (field ''maximum_sequence_observations'' (as_nat 1) d) (\<lambda>maximum.
     bindE (field ''score_rounding_decimal_places'' (as_places_upto 15) d) (\<lambda>places.
       Inr \<lparr>de_beam_width = beam, de_hypotheses = hypotheses, de_score_delta = delta, de_ambiguity_separation = separation,
            de_stationary_speed = speed, de_stationary_tolerance = tolerance, de_stationary_minimum = minimum,
            de_maximum_observations = maximum, de_score_places = places\<rparr>))))))))))))"

definition decoder_parameters_dump :: "float_ops \<Rightarrow> decoder_parameters \<Rightarrow> json" where
  "decoder_parameters_dump fl p = JDict
     [(''decoding_mode'', JStr ''OFFLINE_FULL_WINDOW''), (''beam_width'', JInt (int (de_beam_width p))),
      (''hypotheses_per_terminal_candidate'', JInt (int (de_hypotheses p))),
      (''beam_score_delta_log_likelihood'', float_json fl (de_score_delta p)),
      (''ambiguity_path_separation_log_likelihood'', float_json fl (de_ambiguity_separation p)),
      (''stationary_speed_threshold_mps'', float_json fl (de_stationary_speed p)),
      (''stationary_position_tolerance_m'', float_json fl (de_stationary_tolerance p)),
      (''stationary_minimum_observations'', JInt (int (de_stationary_minimum p))),
      (''maximum_sequence_observations'', JInt (int (de_maximum_observations p))),
      (''score_rounding_decimal_places'', JInt (int (de_score_places p)))]"

definition assert_decoder_profile :: "(string \<Rightarrow> string) \<Rightarrow> float_ops \<Rightarrow> decoder_profile \<Rightarrow> unit res" where
  "assert_decoder_profile sha fl p =
     bindE (canonical_hash sha (frozen_dump ''map-decoder-v1'' ''FROZEN_BEFORE_M5_3_ACCEPTANCE''
        (decoder_authorities_dump (df_authorities p)) (decoder_parameters_dump fl (df_parameters p)))) (\<lambda>h.
       ensure (df_immutable_sha256 p = DECODER_PROFILE_IMMUTABLE_SHA256 \<and> h = df_immutable_sha256 p)
         (ValueError ''map-decoder profile identity is not pinned''))"

definition check_decoder_profile :: "(string \<Rightarrow> string) \<Rightarrow> float_ops \<Rightarrow> decoder_profile \<Rightarrow> unit res" where
  "check_decoder_profile sha fl p =
     bindE (assert_decoder_profile sha fl p) (\<lambda>_.
     bindE (ensure (da_matching_immutable_sha256 (df_authorities p) = MATCHING_PROFILE_IMMUTABLE_SHA256)
       (ValueError ''map-decoder matching-profile authority is not exact'')) (\<lambda>_.
       ensure (de_hypotheses (df_parameters p) \<le> de_beam_width (df_parameters p))
         (ValueError ''terminal hypothesis retention exceeds the beam width'')))"

definition decoder_profile_validate :: "(string \<Rightarrow> string) \<Rightarrow> float_ops \<Rightarrow> json \<Rightarrow> decoder_profile res" where
  "decoder_profile_validate sha fl v =
     bindE (frozen_fields ''map-decoder-v1'' ''FROZEN_BEFORE_M5_3_ACCEPTANCE'' v) (\<lambda>(d, immutable).
     bindE (field ''authorities'' decoder_authorities_validate d) (\<lambda>authorities.
     bindE (field ''parameter_charter'' (decoder_parameters_validate fl) d) (\<lambda>parameters.
     let p = \<lparr>df_immutable_sha256 = immutable, df_authorities = authorities, df_parameters = parameters\<rparr>
     in bindE (check_decoder_profile sha fl p) (\<lambda>_. Inr p))))"

definition load_map_decoder_profile ::
  "(string \<Rightarrow> string) \<Rightarrow> (string \<Rightarrow> string) \<Rightarrow> float_ops \<Rightarrow> fs_node \<Rightarrow> (decoder_profile \<times> string) res" where
  "load_map_decoder_profile sha float_repr fl node =
     load_frozen sha float_repr ''map-decoder profile'' (decoder_profile_validate sha fl) node"

section \<open>Decoded points and intervals\<close>

datatype match_confidence = CONFIDENT | AMBIGUOUS

definition confidence_name :: "match_confidence \<Rightarrow> string" where
  "confidence_name c = (case c of CONFIDENT \<Rightarrow> ''CONFIDENT'' | AMBIGUOUS \<Rightarrow> ''AMBIGUOUS'')"

record decoded_point =
  dq_index :: nat
  dq_observation :: match_observation
  dq_candidate :: road_candidate
  dq_stationary :: bool
  dq_confidence :: match_confidence
  dq_runner_up_id :: "string option"
  dq_separation :: "rat option"

definition decoded_point_dump :: "float_ops \<Rightarrow> decoded_point \<Rightarrow> json" where
  "decoded_point_dump fl q = JDict
     [(''observation_index'', JInt (int (dq_index q))), (''observation'', observation_dump fl (dq_observation q)),
      (''candidate'', candidate_dump fl (dq_candidate q)), (''stationary'', JBool (dq_stationary q)),
      (''confidence'', JStr (confidence_name (dq_confidence q))), (''runner_up_candidate_id'', option_json (dq_runner_up_id q)),
      (''path_separation_log_likelihood'', optional_float fl (dq_separation q))]"

definition check_decoded_point :: "decoded_point \<Rightarrow> unit res" where
  "check_decoded_point q =
     bindE (ensure (is_optional_id ''candidate'' (dq_runner_up_id q) \<and> in_bounds (dq_separation q) (\<lambda>x. 0 \<le> x))
       (invalid_model ''DecodedMatchPoint'')) (\<lambda>_.
     bindE (ensure (mo_observation_id (dq_observation q) = rk_observation_id (dq_candidate q))
       (ValueError ''decoded candidate does not belong to its observation'')) (\<lambda>_.
       ensure (\<not> (dq_confidence q = AMBIGUOUS \<and> (dq_runner_up_id q = None \<or> dq_separation q = None)))
         (ValueError ''ambiguous points require runner-up path evidence'')))"

record matched_interval =
  mv_interval_id :: string
  mv_start :: nat
  mv_end :: nat
  mv_first_time_ns :: int
  mv_last_time_ns :: int
  mv_count :: nat
  mv_state :: candidate_state
  mv_arc_id :: "string option"
  mv_start_offset :: "rat option"
  mv_end_offset :: "rat option"
  mv_stationary :: bool
  mv_confidence :: match_confidence
  mv_separation :: "rat option"
  mv_usable_distance :: rat
  mv_observation_ids :: "string list"

definition interval_payload :: "float_ops \<Rightarrow> matched_interval \<Rightarrow> (string \<times> json) list" where
  "interval_payload fl v =
     [(''start_observation_index'', JInt (int (mv_start v))), (''end_observation_index_exclusive'', JInt (int (mv_end v))),
      (''first_time_ns'', JInt (mv_first_time_ns v)), (''last_time_ns'', JInt (mv_last_time_ns v)),
      (''observation_count'', JInt (int (mv_count v))), (''state'', JStr (candidate_state_name (mv_state v))),
      (''directed_arc_id'', option_json (mv_arc_id v)), (''start_along_arc_offset_m'', optional_float fl (mv_start_offset v)),
      (''end_along_arc_offset_m'', optional_float fl (mv_end_offset v)), (''stationary'', JBool (mv_stationary v)),
      (''confidence'', JStr (confidence_name (mv_confidence v))),
      (''path_separation_log_likelihood'', optional_float fl (mv_separation v)),
      (''usable_distance_m'', float_json fl (mv_usable_distance v)), (''source_observation_ids'', strings_json (mv_observation_ids v))]"

definition matched_interval_dump :: "float_ops \<Rightarrow> matched_interval \<Rightarrow> json" where
  "matched_interval_dump fl v = JDict ((''interval_id'', JStr (mv_interval_id v)) # interval_payload fl v)"

definition interval_identity :: "(string \<Rightarrow> string) \<Rightarrow> float_ops \<Rightarrow> matched_interval \<Rightarrow> string res" where
  "interval_identity sha fl v = hashed_id sha ''road-interval'' (JDict (interval_payload fl v))"

definition check_matched_interval :: "(string \<Rightarrow> string) \<Rightarrow> float_ops \<Rightarrow> matched_interval \<Rightarrow> unit res" where
  "check_matched_interval sha fl v =
     bindE (ensure (is_id_of ''road-interval'' (mv_interval_id v) \<and> 0 < mv_end v \<and> 0 < mv_count v
         \<and> is_optional_id ''osm-arc'' (mv_arc_id v) \<and> in_bounds (mv_start_offset v) (\<lambda>x. 0 \<le> x) \<and> in_bounds (mv_end_offset v) (\<lambda>x. 0 \<le> x)
         \<and> in_bounds (mv_separation v) (\<lambda>x. 0 \<le> x) \<and> 0 \<le> mv_usable_distance v \<and> list_all (is_id_of ''observation'') (mv_observation_ids v))
       (invalid_model ''MatchedRoadInterval'')) (\<lambda>_.
     bindE (ensure (int (mv_end v) - int (mv_start v) = int (mv_count v) \<and> length (mv_observation_ids v) = mv_count v
         \<and> mv_first_time_ns v \<le> mv_last_time_ns v) (ValueError ''matched interval bounds are inconsistent'')) (\<lambda>_.
     bindE (case mv_state v of
         OFF_MAP \<Rightarrow> ensure (mv_arc_id v = None \<and> mv_start_offset v = None \<and> mv_end_offset v = None \<and> mv_usable_distance v = 0)
           (ValueError ''off-map intervals cannot carry road coverage'')
       | ON_ROAD \<Rightarrow> ensure (mv_arc_id v \<noteq> None \<and> mv_start_offset v \<noteq> None \<and> mv_end_offset v \<noteq> None)
           (ValueError ''on-road intervals require directed offsets'')) (\<lambda>_.
     bindE (ensure (\<not> ((mv_stationary v \<or> mv_confidence v = AMBIGUOUS) \<and> mv_usable_distance v \<noteq> 0))
       (ValueError ''stationary or ambiguous intervals cannot add coverage'')) (\<lambda>_.
     bindE (interval_identity sha fl v) (\<lambda>expected.
       ensure (mv_interval_id v = expected) (ValueError ''matched interval identity is invalid''))))))"

record decoder_diagnostics =
  dg_generated :: "nat list"
  dg_retained :: "nat list"
  dg_rejected :: "nat list"
  dg_pruned :: "nat list"

definition diagnostics_dump :: "decoder_diagnostics \<Rightarrow> json" where
  "diagnostics_dump d = JDict
     [(''generated_candidate_counts'', nats_json (dg_generated d)), (''retained_hypothesis_counts'', nats_json (dg_retained d)),
      (''rejected_transition_counts'', nats_json (dg_rejected d)), (''pruned_hypothesis_counts'', nats_json (dg_pruned d))]"

definition check_diagnostics :: "decoder_diagnostics \<Rightarrow> unit res" where
  "check_diagnostics d = ensure (list_all (\<lambda>n. 0 < n) (dg_generated d) \<and> list_all (\<lambda>n. 0 < n) (dg_retained d))
     (invalid_model ''DecoderDiagnostics'')"

section \<open>The decoded path\<close>

record decoded_path =
  px_road_match_id :: string
  px_sequence_id :: string
  px_source_group_id :: string
  px_partition :: string
  px_graph_id :: string
  px_matching_file_sha256 :: string
  px_matching_immutable_sha256 :: string
  px_decoder_file_sha256 :: string
  px_decoder_immutable_sha256 :: string
  px_best :: rat
  px_runner_up :: "rat option"
  px_separation :: "rat option"
  px_confidence :: match_confidence
  px_points :: "decoded_point list"
  px_intervals :: "matched_interval list"
  px_runner_ups :: "road_candidate list"
  px_diagnostics :: decoder_diagnostics

definition path_payload :: "float_ops \<Rightarrow> decoded_path \<Rightarrow> (string \<times> json) list" where
  "path_payload fl p =
     [(''algorithm_backend'', JStr ALGORITHM_BACKEND), (''sequence_id'', JStr (px_sequence_id p)),
      (''source_group_id'', JStr (px_source_group_id p)), (''partition'', JStr (px_partition p)),
      (''decode_mode'', JStr ''OFFLINE_FULL_WINDOW''), (''graph_id'', JStr (px_graph_id p)),
      (''map_matching_profile_file_sha256'', JStr (px_matching_file_sha256 p)),
      (''map_matching_profile_immutable_sha256'', JStr (px_matching_immutable_sha256 p)),
      (''map_decoder_profile_file_sha256'', JStr (px_decoder_file_sha256 p)),
      (''map_decoder_profile_immutable_sha256'', JStr (px_decoder_immutable_sha256 p)),
      (''best_total_log_likelihood'', float_json fl (px_best p)),
      (''runner_up_total_log_likelihood'', optional_float fl (px_runner_up p)),
      (''path_separation_log_likelihood'', optional_float fl (px_separation p)),
      (''confidence'', JStr (confidence_name (px_confidence p))), (''points'', JList (map (decoded_point_dump fl) (px_points p))),
      (''intervals'', JList (map (matched_interval_dump fl) (px_intervals p))),
      (''runner_up_candidates'', JList (map (candidate_dump fl) (px_runner_ups p))),
      (''diagnostics'', diagnostics_dump (px_diagnostics p))]"

definition path_identity :: "(string \<Rightarrow> string) \<Rightarrow> float_ops \<Rightarrow> decoded_path \<Rightarrow> string res" where
  "path_identity sha fl p = hashed_id sha ''road-match'' (JDict (path_payload fl p))"

text \<open>Each time strictly after the one before it, in the same clock domain.\<close>

fun check_increasing :: "string \<Rightarrow> time_point list \<Rightarrow> unit res" where
  "check_increasing message (t # u # ts) =
     bindE (difference u t) (\<lambda>d. bindE (ensure (0 < d) (ValueError message)) (\<lambda>_. check_increasing message (u # ts)))"
| "check_increasing message ts = Inr ()"

definition check_point_order :: "decoded_path \<Rightarrow> unit res" where
  "check_point_order p =
     (let points = px_points p; message = ''decoded observations are not unique and time ordered'' in
     bindE (ensure (list_all (\<lambda>(i, q). dq_index q = i \<and> rk_graph_id (dq_candidate q) = px_graph_id p) (enumerate 0 points))
       (ValueError ''decoded point ordering or graph authority is invalid'')) (\<lambda>_.
     bindE (ensure (distinct (map (mo_observation_id \<circ> dq_observation) points)) (ValueError message)) (\<lambda>_.
       check_increasing message (map (mo_time \<circ> dq_observation) points))))"

definition separation_confidence :: "rat \<Rightarrow> match_confidence" where
  "separation_confidence separation = (if separation \<le> 1 then AMBIGUOUS else CONFIDENT)"

definition check_separation :: "float_ops \<Rightarrow> decoded_path \<Rightarrow> unit res" where
  "check_separation fl p =
     (case px_runner_up p of
        None \<Rightarrow> ensure (px_separation p = None \<and> px_runner_ups p = [] \<and> px_confidence p = CONFIDENT)
          (ValueError ''path separation requires a runner-up path'')
      | Some runner \<Rightarrow>
          let expected = py_round fl 12 (fl_sub fl (px_best p) runner) in
          bindE (ensure (px_separation p = Some expected \<and> 0 \<le> expected \<and> length (px_runner_ups p) = length (px_points p))
            (ValueError ''runner-up path evidence is incomplete'')) (\<lambda>_.
            ensure (px_confidence p = separation_confidence expected)
              (ValueError ''sequence confidence contradicts path separation'')))"

definition check_runner_up :: "decoded_path \<Rightarrow> decoded_point \<times> road_candidate \<Rightarrow> unit res" where
  "check_runner_up p qr =
     (case qr of (q, r) \<Rightarrow>
      let differs = (rk_candidate_id r \<noteq> rk_candidate_id (dq_candidate q)) in
      bindE (ensure (rk_observation_id r = mo_observation_id (dq_observation q))
        (ValueError ''runner-up candidate does not belong to its observation'')) (\<lambda>_.
      bindE (ensure (rk_graph_id r = px_graph_id p) (ValueError ''runner-up candidate uses a foreign graph'')) (\<lambda>_.
        ensure (dq_runner_up_id q = (if differs then Some (rk_candidate_id r) else None)
          \<and> dq_separation q = (if differs then px_separation p else None)
          \<and> dq_confidence q = (if differs \<and> px_confidence p = AMBIGUOUS then AMBIGUOUS else CONFIDENT))
          (ValueError ''point runner-up evidence is inconsistent''))))"

definition check_runner_ups :: "decoded_path \<Rightarrow> unit res" where
  "check_runner_ups p =
     (if px_runner_ups p \<noteq> [] then bindE (mapE (check_runner_up p) (zip (px_points p) (px_runner_ups p))) (\<lambda>_. Inr ())
      else ensure (list_all (\<lambda>q. dq_runner_up_id q = None \<and> dq_separation q = None \<and> dq_confidence q = CONFIDENT) (px_points p))
        (ValueError ''decoded points claim unavailable runner-up evidence''))"

text \<open>The distance that an interval may claim: none unless its points are on the road, moving and
  confident, otherwise the rounded sum of the steps along the arc.\<close>

definition covers_road :: "decoded_point \<Rightarrow> bool" where
  "covers_road q \<longleftrightarrow> rk_state (dq_candidate q) = ON_ROAD \<and> \<not> dq_stationary q \<and> dq_confidence q = CONFIDENT"

definition step_along :: "float_ops \<Rightarrow> decoded_point \<times> decoded_point \<Rightarrow> rat res" where
  "step_along fl s =
     (case (rk_along (dq_candidate (snd s)), rk_along (dq_candidate (fst s))) of
        (Some right, Some left) \<Rightarrow> Inr \<bar>fl_sub fl right left\<bar>
      | _ \<Rightarrow> Inl (TypeError ''unsupported operand type(s) for -''))"

definition usable_distance :: "float_ops \<Rightarrow> decoded_point list \<Rightarrow> rat res" where
  "usable_distance fl support =
     (if covers_road (hd support)
      then bindE (mapE (step_along fl) (pairwise support)) (\<lambda>steps. Inr (if steps = [] then 0 else py_round fl 6 (fl_sum fl steps)))
      else Inr 0)"

definition point_key :: "decoded_point \<Rightarrow> candidate_state \<times> string option \<times> bool \<times> match_confidence" where
  "point_key q = (rk_state (dq_candidate q), rk_arc_id (dq_candidate q), dq_stationary q, dq_confidence q)"

definition separations :: "decoded_point list \<Rightarrow> rat list" where
  "separations support = List.map_filter dq_separation support"

definition support_of :: "decoded_point list \<Rightarrow> matched_interval \<Rightarrow> decoded_point list" where
  "support_of points v = take (mv_end v - mv_start v) (drop (mv_start v) points)"

definition interval_matches :: "matched_interval \<Rightarrow> decoded_point list \<Rightarrow> rat \<Rightarrow> bool" where
  "interval_matches v support distance \<longleftrightarrow>
     (let first = hd support; final = last support in
      list_all (\<lambda>q. point_key q = point_key first) support \<and>
      (mv_state v, mv_arc_id v, mv_stationary v, mv_confidence v) = point_key first \<and>
      mv_first_time_ns v = tp_value_ns (mo_time (dq_observation first)) \<and>
      mv_last_time_ns v = tp_value_ns (mo_time (dq_observation final)) \<and>
      mv_start_offset v = rk_along (dq_candidate first) \<and> mv_end_offset v = rk_along (dq_candidate final) \<and>
      mv_observation_ids v = map (mo_observation_id \<circ> dq_observation) support \<and> mv_usable_distance v = distance \<and>
      mv_separation v = (if separations support = [] then None else Some (Min (set (separations support)))))"

fun check_intervals :: "float_ops \<Rightarrow> decoded_point list \<Rightarrow> nat \<Rightarrow> matched_interval list \<Rightarrow> unit res" where
  "check_intervals fl points cursor [] = ensure (cursor = length points) (ValueError ''matched intervals do not cover the path'')"
| "check_intervals fl points cursor (v # vs) =
     bindE (ensure (mv_start v = cursor \<and> mv_end v \<le> length points)
       (ValueError ''matched intervals do not partition the path'')) (\<lambda>_.
     bindE (usable_distance fl (support_of points v)) (\<lambda>distance.
     bindE (ensure (interval_matches v (support_of points v) distance)
       (ValueError ''matched interval evidence is inconsistent'')) (\<lambda>_.
       check_intervals fl points (mv_end v) vs)))"

definition check_decoded_path :: "(string \<Rightarrow> string) \<Rightarrow> float_ops \<Rightarrow> decoded_path \<Rightarrow> unit res" where
  "check_decoded_path sha fl p =
     (let d = px_diagnostics p; n = length (px_points p) in
     bindE (ensure (is_id_of ''road-match'' (px_road_match_id p) \<and> px_sequence_id p \<noteq> [] \<and> px_source_group_id p \<noteq> []
         \<and> px_partition p \<in> {''synthetic'', ''development'', ''calibration'', ''final_test''} \<and> is_id_of ''road-graph'' (px_graph_id p)
         \<and> list_all is_sha256 [px_matching_file_sha256 p, px_matching_immutable_sha256 p, px_decoder_file_sha256 p,
              px_decoder_immutable_sha256 p]
         \<and> in_bounds (px_separation p) (\<lambda>x. 0 \<le> x)) (invalid_model ''DecodedRoadPath'')) (\<lambda>_.
     bindE (ensure (px_points p \<noteq> []) (ValueError ''decoded road path cannot be empty'')) (\<lambda>_.
     bindE (ensure (px_matching_file_sha256 p = MATCHING_PROFILE_FILE_SHA256
         \<and> px_matching_immutable_sha256 p = MATCHING_PROFILE_IMMUTABLE_SHA256
         \<and> px_decoder_file_sha256 p = DECODER_PROFILE_FILE_SHA256
         \<and> px_decoder_immutable_sha256 p = DECODER_PROFILE_IMMUTABLE_SHA256)
       (ValueError ''decoded road path uses a foreign profile authority'')) (\<lambda>_.
     bindE (ensure (length (dg_generated d) = n \<and> length (dg_retained d) = n \<and> length (dg_rejected d) = n \<and> length (dg_pruned d) = n)
       (ValueError ''decoder diagnostics do not cover every observation'')) (\<lambda>_.
     bindE (check_point_order p) (\<lambda>_.
     bindE (check_separation fl p) (\<lambda>_.
     bindE (check_runner_ups p) (\<lambda>_.
     bindE (check_intervals fl (px_points p) 0 (px_intervals p)) (\<lambda>_.
     bindE (path_identity sha fl p) (\<lambda>expected.
       ensure (px_road_match_id p = expected) (ValueError ''decoded road-path identity is invalid'')))))))))))"

section \<open>Decoding\<close>

record raw_interval =
  ri_start :: int
  ri_end :: int
  ri_separation :: "rat option"
  ri_usable_distance :: rat

record raw_decoding =
  rx_best :: "int list"
  rx_runner_up :: "int list"
  rx_point_ambiguous :: "bool list"
  rx_stationary :: "bool list"
  rx_separation :: "rat option"
  rx_ambiguous :: bool
  rx_intervals :: "raw_interval list"
  rx_diagnostics :: decoder_diagnostics
  rx_best_score :: rat
  rx_runner_up_score :: "rat option"

type_synonym decoder_kernel =
  "native_graph \<Rightarrow> native_observation list \<Rightarrow> native_candidate list list \<Rightarrow> candidate_parameters \<Rightarrow> transition_parameters \<Rightarrow>
   decoder_parameters \<Rightarrow> raw_decoding res"

definition indices_valid :: "road_candidate list list \<Rightarrow> int list \<Rightarrow> bool" where
  "indices_valid sets indices \<longleftrightarrow> list_all (\<lambda>(s, i). 0 \<le> i \<and> i < int (length s)) (zip sets indices)"

definition check_raw_decoding :: "nat \<Rightarrow> road_candidate list list \<Rightarrow> raw_decoding \<Rightarrow> unit res" where
  "check_raw_decoding n sets raw =
     ensure (length (rx_best raw) = n \<and> length (rx_point_ambiguous raw) = n \<and> length (rx_stationary raw) = n
        \<and> (rx_runner_up raw = [] \<or> length (rx_runner_up raw) = n) \<and> indices_valid sets (rx_best raw)
        \<and> indices_valid sets (rx_runner_up raw)) (ValueError ''native map decoder returned invalid candidate indices'')"

definition chosen :: "road_candidate list list \<Rightarrow> int list \<Rightarrow> road_candidate list" where
  "chosen sets indices = map (\<lambda>(s, i). s ! nat i) (zip sets indices)"

definition decoded_point_of ::
  "match_observation list \<Rightarrow> road_candidate list list \<Rightarrow> raw_decoding \<Rightarrow> bool \<Rightarrow> nat \<Rightarrow> decoded_point res" where
  "decoded_point_of observations sets raw ambiguous i =
     (let candidate = sets ! i ! nat (rx_best raw ! i);
          runner = (if rx_runner_up raw = [] then None else Some (sets ! i ! nat (rx_runner_up raw ! i)));
          differs = (case runner of None \<Rightarrow> False | Some r \<Rightarrow> rk_candidate_id r \<noteq> rk_candidate_id candidate) in
     bindE (ensure (rx_point_ambiguous raw ! i = (ambiguous \<and> differs))
       (ValueError ''native map decoder point confidence is invalid'')) (\<lambda>_.
     let q = \<lparr>dq_index = i, dq_observation = observations ! i, dq_candidate = candidate, dq_stationary = rx_stationary raw ! i,
              dq_confidence = (if rx_point_ambiguous raw ! i then AMBIGUOUS else CONFIDENT),
              dq_runner_up_id = (if differs then map_option rk_candidate_id runner else None),
              dq_separation = (if differs then rx_separation raw else None)\<rparr>
     in bindE (check_decoded_point q) (\<lambda>_. Inr q)))"

definition interval_of_native ::
  "(string \<Rightarrow> string) \<Rightarrow> float_ops \<Rightarrow> decoded_point list \<Rightarrow> raw_interval \<Rightarrow> matched_interval res" where
  "interval_of_native sha fl points r =
     bindE (ensure (0 \<le> ri_start r \<and> ri_start r < ri_end r \<and> ri_end r \<le> int (length points))
       (ValueError ''native map decoder interval bounds are invalid'')) (\<lambda>_.
     let start = nat (ri_start r); end0 = nat (ri_end r); members = take (end0 - start) (drop start points);
         first = hd members; final = last members;
         v = \<lparr>mv_interval_id = [], mv_start = start, mv_end = end0, mv_first_time_ns = tp_value_ns (mo_time (dq_observation first)),
              mv_last_time_ns = tp_value_ns (mo_time (dq_observation final)), mv_count = length members,
              mv_state = rk_state (dq_candidate first), mv_arc_id = rk_arc_id (dq_candidate first),
              mv_start_offset = rk_along (dq_candidate first), mv_end_offset = rk_along (dq_candidate final),
              mv_stationary = dq_stationary first, mv_confidence = dq_confidence first, mv_separation = ri_separation r,
              mv_usable_distance = ri_usable_distance r,
              mv_observation_ids = map (mo_observation_id \<circ> dq_observation) members\<rparr> in
     bindE (interval_identity sha fl v) (\<lambda>i.
     let w = v\<lparr>mv_interval_id := i\<rparr> in bindE (check_matched_interval sha fl w) (\<lambda>_. Inr w)))"

definition check_decoding_request ::
  "(string \<Rightarrow> string) \<Rightarrow> float_ops \<Rightarrow> road_graph \<Rightarrow> match_observation list \<Rightarrow> matching_profile \<Rightarrow> string \<Rightarrow> decoder_profile \<Rightarrow>
   string \<Rightarrow> unit res" where
  "check_decoding_request sha fl g observations matching matching_file decoder decoder_file =
     (let message = ''road decoding observations must be strictly time ordered'' in
     bindE (validate_graph_identity sha fl g) (\<lambda>_.
     bindE (validate_matching_graph_authority sha fl g matching) (\<lambda>_.
     bindE (assert_decoder_profile sha fl decoder) (\<lambda>_.
     bindE (ensure (matching_file = da_matching_file_sha256 (df_authorities decoder)
         \<and> mm_immutable_sha256 matching = da_matching_immutable_sha256 (df_authorities decoder))
       (ValueError ''map decoder uses a foreign matching-profile authority'')) (\<lambda>_.
     bindE (ensure (decoder_file = DECODER_PROFILE_FILE_SHA256)
       (ValueError ''map decoder uses a foreign decoder-profile authority'')) (\<lambda>_.
     bindE (ensure (observations \<noteq> []) (ValueError ''road decoding requires at least one observation'')) (\<lambda>_.
     bindE (ensure (length observations \<le> de_maximum_observations (df_parameters decoder))
       (ValueError ''road decoding exceeds the frozen observation budget'')) (\<lambda>_.
     bindE (ensure (distinct (map mo_observation_id observations))
       (ValueError ''road decoding observations must have unique identities'')) (\<lambda>_.
       check_increasing message (map mo_time observations))))))))))"

definition native_candidate_sets :: "road_graph \<Rightarrow> road_candidate list list \<Rightarrow> native_candidate list list res" where
  "native_candidate_sets g sets = mapE (\<lambda>(i, cs). mapE (\<lambda>c. native_candidate_payload g c i) cs) (enumerate 0 sets)"

definition decode_road_path ::
  "(string \<Rightarrow> string) \<Rightarrow> float_ops \<Rightarrow> matching_kernel \<Rightarrow> decoder_kernel \<Rightarrow> road_graph \<Rightarrow> match_observation list \<Rightarrow> string \<Rightarrow>
   string \<Rightarrow> string \<Rightarrow> matching_profile \<Rightarrow> string \<Rightarrow> decoder_profile \<Rightarrow> string \<Rightarrow> decoded_path res" where
  "decode_road_path sha fl native decode g observations sequence source_group partition0 matching matching_file decoder decoder_file =
     bindE (check_decoding_request sha fl g observations matching matching_file decoder decoder_file) (\<lambda>_.
     bindE (generate_road_candidate_batches sha fl native g observations matching) (\<lambda>sets.
     bindE (native_candidate_sets g sets) (\<lambda>payloads.
     bindE (decode (native_graph_payload g) (map native_observation_payload observations) payloads (mm_candidate matching)
       (mm_transition matching) (df_parameters decoder)) (\<lambda>raw.
     bindE (check_raw_decoding (length observations) sets raw) (\<lambda>_.
     let ambiguous = (case rx_separation raw of None \<Rightarrow> False | Some s \<Rightarrow> s \<le> de_ambiguity_separation (df_parameters decoder)) in
     bindE (ensure (rx_ambiguous raw = ambiguous) (ValueError ''native map decoder confidence contradicts its separation'')) (\<lambda>_.
     bindE (mapE (decoded_point_of observations sets raw ambiguous) [0..<length observations]) (\<lambda>points.
     bindE (mapE (interval_of_native sha fl points) (rx_intervals raw)) (\<lambda>intervals.
     bindE (check_diagnostics (rx_diagnostics raw)) (\<lambda>_.
     let p = \<lparr>px_road_match_id = [], px_sequence_id = sequence, px_source_group_id = source_group, px_partition = partition0,
              px_graph_id = rg_graph_id g, px_matching_file_sha256 = matching_file,
              px_matching_immutable_sha256 = mm_immutable_sha256 matching, px_decoder_file_sha256 = decoder_file,
              px_decoder_immutable_sha256 = df_immutable_sha256 decoder, px_best = rx_best_score raw,
              px_runner_up = rx_runner_up_score raw, px_separation = rx_separation raw,
              px_confidence = (if rx_ambiguous raw then AMBIGUOUS else CONFIDENT), px_points = points, px_intervals = intervals,
              px_runner_ups = (if rx_runner_up raw = [] then [] else chosen sets (rx_runner_up raw)),
              px_diagnostics = rx_diagnostics raw\<rparr> in
     bindE (path_identity sha fl p) (\<lambda>i.
     let p' = p\<lparr>px_road_match_id := i\<rparr> in bindE (check_decoded_path sha fl p') (\<lambda>_. Inr p')))))))))))"

end
