(* ===== verification/RoadBins.thy ===== *)
theory RoadBins
  imports RoadDecoder
begin

text \<open>
  Directed road bins, \<^verbatim>\<open>python/cartosentry/road_bins.py\<close>: the frozen profile, the evidence of
  the modalities, traversals, bins and the coverage ledger with their identities and checks, and
  \<open>aggregate_directed_road_bins\<close> around the native aggregation, whose result is arbitrary.
\<close>

section \<open>The binning profile\<close>

definition BINNING_PROFILE_IMMUTABLE_SHA256 :: string where
  "BINNING_PROFILE_IMMUTABLE_SHA256 = ''ab6e30104c10d839d1175aecd392f62c8eb583fb2df66c8595473e1d16939fa4''"

definition BINNING_PROFILE_FILE_SHA256 :: string where
  "BINNING_PROFILE_FILE_SHA256 = ''4c5fd9837063b50c44bb4a25b3ee0eede0897b38335a71bd504488c0c70578ba''"

record binning_authorities =
  ba_graph_file_sha256 :: string
  ba_decoder_file_sha256 :: string
  ba_decoder_immutable_sha256 :: string
  ba_charter_file_sha256 :: string

record binning_parameters =
  bp_bin_length :: rat
  bp_minimum_gap_ns :: nat
  bp_maximum_paths :: nat
  bp_maximum_points_per_path :: nat
  bp_maximum_total_points :: nat
  bp_maximum_bins :: nat
  bp_maximum_evidence :: nat
  bp_maximum_findings :: nat
  bp_distance_places :: nat

record binning_profile =
  bf_immutable_sha256 :: string
  bf_authorities :: binning_authorities
  bf_parameters :: binning_parameters

definition binning_authorities_validate :: "json \<Rightarrow> binning_authorities res" where
  "binning_authorities_validate v =
     bindE (as_object [''graph_import_profile_file_sha256'', ''map_decoder_profile_file_sha256'',
       ''map_decoder_profile_immutable_sha256'', ''numerical_charter_file_sha256''] v) (\<lambda>d.
     bindE (field ''graph_import_profile_file_sha256'' (as_text is_sha256) d) (\<lambda>graph0.
     bindE (field ''map_decoder_profile_file_sha256'' (as_text is_sha256) d) (\<lambda>file.
     bindE (field ''map_decoder_profile_immutable_sha256'' (as_text is_sha256) d) (\<lambda>immutable.
     bindE (field ''numerical_charter_file_sha256'' (as_text is_sha256) d) (\<lambda>charter.
       Inr \<lparr>ba_graph_file_sha256 = graph0, ba_decoder_file_sha256 = file, ba_decoder_immutable_sha256 = immutable,
            ba_charter_file_sha256 = charter\<rparr>)))))"

definition binning_authorities_dump :: "binning_authorities \<Rightarrow> json" where
  "binning_authorities_dump a = JDict
     [(''graph_import_profile_file_sha256'', JStr (ba_graph_file_sha256 a)),
      (''map_decoder_profile_file_sha256'', JStr (ba_decoder_file_sha256 a)),
      (''map_decoder_profile_immutable_sha256'', JStr (ba_decoder_immutable_sha256 a)),
      (''numerical_charter_file_sha256'', JStr (ba_charter_file_sha256 a))]"

definition binning_parameters_validate :: "float_ops \<Rightarrow> json \<Rightarrow> binning_parameters res" where
  "binning_parameters_validate fl v =
     bindE (as_object [''bin_length_m'', ''independent_traversal_minimum_gap_ns'', ''maximum_paths'', ''maximum_points_per_path'',
       ''maximum_total_points'', ''maximum_generated_bins'', ''maximum_modality_evidence_intervals'', ''maximum_findings'',
       ''distance_rounding_decimal_places''] v) (\<lambda>d.
     bindE (field ''bin_length_m'' (as_float fl (\<lambda>x. 0 < x)) d) (\<lambda>len.
     bindE (field ''independent_traversal_minimum_gap_ns'' (as_nat 0) d) (\<lambda>gap.
     bindE (field ''maximum_paths'' (as_nat 1) d) (\<lambda>paths.
     bindE (field ''maximum_points_per_path'' (as_nat 2) d) (\<lambda>points.
     bindE (field ''maximum_total_points'' (as_nat 2) d) (\<lambda>total_points.
     bindE (field ''maximum_generated_bins'' (as_nat 1) d) (\<lambda>bins.
     bindE (field ''maximum_modality_evidence_intervals'' (as_nat 1) d) (\<lambda>evidence.
     bindE (field ''maximum_findings'' (as_nat 1) d) (\<lambda>findings.
     bindE (field ''distance_rounding_decimal_places'' (as_places_upto 12) d) (\<lambda>places.
       Inr \<lparr>bp_bin_length = len, bp_minimum_gap_ns = gap, bp_maximum_paths = paths, bp_maximum_points_per_path = points,
            bp_maximum_total_points = total_points, bp_maximum_bins = bins, bp_maximum_evidence = evidence,
            bp_maximum_findings = findings, bp_distance_places = places\<rparr>))))))))))"

definition binning_parameters_dump :: "float_ops \<Rightarrow> binning_parameters \<Rightarrow> json" where
  "binning_parameters_dump fl p = JDict
     [(''bin_length_m'', float_json fl (bp_bin_length p)), (''independent_traversal_minimum_gap_ns'', JInt (int (bp_minimum_gap_ns p))),
      (''maximum_paths'', JInt (int (bp_maximum_paths p))), (''maximum_points_per_path'', JInt (int (bp_maximum_points_per_path p))),
      (''maximum_total_points'', JInt (int (bp_maximum_total_points p))), (''maximum_generated_bins'', JInt (int (bp_maximum_bins p))),
      (''maximum_modality_evidence_intervals'', JInt (int (bp_maximum_evidence p))),
      (''maximum_findings'', JInt (int (bp_maximum_findings p))),
      (''distance_rounding_decimal_places'', JInt (int (bp_distance_places p)))]"

definition assert_binning_profile :: "(string \<Rightarrow> string) \<Rightarrow> float_ops \<Rightarrow> binning_profile \<Rightarrow> unit res" where
  "assert_binning_profile sha fl p =
     bindE (canonical_hash sha (frozen_dump ''road-binning-v1'' ''FROZEN_BEFORE_M5_4_ACCEPTANCE''
        (binning_authorities_dump (bf_authorities p)) (binning_parameters_dump fl (bf_parameters p)))) (\<lambda>h.
       ensure (bf_immutable_sha256 p = BINNING_PROFILE_IMMUTABLE_SHA256 \<and> h = bf_immutable_sha256 p)
         (ValueError ''road-binning profile identity is not pinned''))"

definition check_binning_profile :: "(string \<Rightarrow> string) \<Rightarrow> float_ops \<Rightarrow> binning_profile \<Rightarrow> unit res" where
  "check_binning_profile sha fl p =
     bindE (assert_binning_profile sha fl p) (\<lambda>_.
       ensure (ba_decoder_file_sha256 (bf_authorities p) = DECODER_PROFILE_FILE_SHA256
         \<and> ba_decoder_immutable_sha256 (bf_authorities p) = DECODER_PROFILE_IMMUTABLE_SHA256)
         (ValueError ''road-binning decoder authority is not exact''))"

definition binning_profile_validate :: "(string \<Rightarrow> string) \<Rightarrow> float_ops \<Rightarrow> json \<Rightarrow> binning_profile res" where
  "binning_profile_validate sha fl v =
     bindE (frozen_fields ''road-binning-v1'' ''FROZEN_BEFORE_M5_4_ACCEPTANCE'' v) (\<lambda>(d, immutable).
     bindE (field ''authorities'' binning_authorities_validate d) (\<lambda>authorities.
     bindE (field ''parameter_charter'' (binning_parameters_validate fl) d) (\<lambda>parameters.
     let p = \<lparr>bf_immutable_sha256 = immutable, bf_authorities = authorities, bf_parameters = parameters\<rparr>
     in bindE (check_binning_profile sha fl p) (\<lambda>_. Inr p))))"

text \<open>The file itself is pinned too, before its fields are read.\<close>

definition load_road_binning_profile ::
  "(string \<Rightarrow> string) \<Rightarrow> (string \<Rightarrow> string) \<Rightarrow> float_ops \<Rightarrow> fs_node \<Rightarrow> (binning_profile \<times> string) res" where
  "load_road_binning_profile sha float_repr fl node =
     bindE (load_frozen sha float_repr ''road-binning profile'' Inr node) (\<lambda>(raw, file_sha256).
     bindE (ensure (file_sha256 = BINNING_PROFILE_FILE_SHA256)
       (ValueError ''road-binning profile file identity is not pinned'')) (\<lambda>_.
     bindE (binning_profile_validate sha fl raw) (\<lambda>p. Inr (p, file_sha256))))"

section \<open>Evidence of a modality\<close>

record evidence_interval =
  vi_id :: string
  vi_sequence_id :: string
  vi_modality :: sensor_modality
  vi_interval :: source_interval
  vi_usable :: bool
  vi_point_count :: rat
  vi_overlap :: "rat option"
  vi_timestamp_supported :: bool
  vi_source_sha256 :: string
  vi_lineage :: "string list"

definition evidence_payload :: "float_ops \<Rightarrow> evidence_interval \<Rightarrow> json" where
  "evidence_payload fl v = JDict
     [(''sequence_id'', JStr (vi_sequence_id v)), (''modality'', JStr (modality_name (vi_modality v))),
      (''interval'', interval_dump (fl_repr fl) (vi_interval v)), (''usable'', JBool (vi_usable v)),
      (''point_count'', float_json fl (vi_point_count v)), (''lidar_overlap_support_m'', optional_float fl (vi_overlap v)),
      (''timestamp_supported'', JBool (vi_timestamp_supported v)), (''source_artifact_sha256'', JStr (vi_source_sha256 v)),
      (''transformation_lineage'', strings_json (vi_lineage v))]"

definition check_evidence_interval :: "(string \<Rightarrow> string) \<Rightarrow> float_ops \<Rightarrow> evidence_interval \<Rightarrow> unit res" where
  "check_evidence_interval sha fl v =
     bindE (ensure (is_id_of ''evidence-interval'' (vi_id v) \<and> vi_sequence_id v \<noteq> [] \<and> 0 \<le> vi_point_count v
         \<and> in_bounds (vi_overlap v) (\<lambda>x. 0 \<le> x) \<and> is_sha256 (vi_source_sha256 v) \<and> list_all (\<lambda>s. s \<noteq> []) (vi_lineage v))
       (invalid_model ''ModalityEvidenceInterval'')) (\<lambda>_.
     bindE (ensure (\<not> (vi_modality v \<noteq> LIDAR \<and> (vi_point_count v \<noteq> 0 \<or> vi_overlap v \<noteq> None)))
       (ValueError ''only lidar evidence may carry point or overlap support'')) (\<lambda>_.
     bindE (hashed_id sha ''evidence-interval'' (evidence_payload fl v)) (\<lambda>expected.
       ensure (vi_id v = expected) (ValueError ''modality evidence interval identity is invalid''))))"

definition make_modality_evidence_interval ::
  "(string \<Rightarrow> string) \<Rightarrow> float_ops \<Rightarrow> string \<Rightarrow> sensor_modality \<Rightarrow> source_interval \<Rightarrow> bool \<Rightarrow> rat \<Rightarrow> rat option \<Rightarrow> bool \<Rightarrow> string \<Rightarrow>
   string list \<Rightarrow> evidence_interval res" where
  "make_modality_evidence_interval sha fl sequence modality interval usable points overlap supported source lineage =
     (let v = \<lparr>vi_id = [], vi_sequence_id = sequence, vi_modality = modality, vi_interval = interval, vi_usable = usable,
              vi_point_count = points, vi_overlap = overlap, vi_timestamp_supported = supported, vi_source_sha256 = source,
              vi_lineage = lineage\<rparr> in
     bindE (hashed_id sha ''evidence-interval'' (evidence_payload fl v)) (\<lambda>i.
     let w = v\<lparr>vi_id := i\<rparr> in bindE (check_evidence_interval sha fl w) (\<lambda>_. Inr w)))"

record localization_request =
  lq_sequence_id :: string
  lq_finding :: finding

definition check_localization_request :: "localization_request \<Rightarrow> unit res" where
  "check_localization_request r =
     bindE (ensure (lq_sequence_id r \<noteq> []) (invalid_model ''FindingLocalizationRequest'')) (\<lambda>_.
       ensure (fd_road_bin_ids (lq_finding r) = []) (ValueError ''finding localization input must not already name road bins''))"

text \<open>\<open>tuple(sorted(set(xs))) == xs\<close>.\<close>

definition is_canonical :: "string list \<Rightarrow> bool" where
  "is_canonical xs \<longleftrightarrow> sort (remdups xs) = xs"

record bin_modality =
  bm_modality :: sensor_modality
  bm_valid_ns :: nat
  bm_points :: rat
  bm_overlap :: "rat option"
  bm_supported_ns :: nat
  bm_evidence_ids :: "string list"

definition bin_modality_dump :: "float_ops \<Rightarrow> bin_modality \<Rightarrow> json" where
  "bin_modality_dump fl m = JDict
     [(''modality'', JStr (modality_name (bm_modality m))), (''valid_duration_ns'', JInt (int (bm_valid_ns m))),
      (''point_support'', float_json fl (bm_points m)), (''mean_overlap_support_m'', optional_float fl (bm_overlap m)),
      (''timestamp_supported_duration_ns'', JInt (int (bm_supported_ns m))),
      (''evidence_interval_ids'', strings_json (bm_evidence_ids m))]"

definition check_bin_modality :: "bin_modality \<Rightarrow> unit res" where
  "check_bin_modality m =
     bindE (ensure (0 \<le> bm_points m \<and> in_bounds (bm_overlap m) (\<lambda>x. 0 \<le> x) \<and> list_all (is_id_of ''evidence-interval'') (bm_evidence_ids m))
       (invalid_model ''BinModalityEvidence'')) (\<lambda>_.
     bindE (ensure (bm_supported_ns m \<le> bm_valid_ns m) (ValueError ''timestamp support exceeds valid modality duration'')) (\<lambda>_.
     bindE (ensure (\<not> (bm_modality m \<noteq> LIDAR \<and> (bm_points m \<noteq> 0 \<or> bm_overlap m \<noteq> None)))
       (ValueError ''non-lidar bin evidence carries lidar-only support'')) (\<lambda>_.
       ensure (is_canonical (bm_evidence_ids m)) (ValueError ''bin modality evidence identities are not canonical''))))"

section \<open>Traversals and bins\<close>

record bin_traversal =
  bt_traversal_id :: string
  bt_road_bin_id :: string
  bt_arc_id :: string
  bt_direction :: arc_direction
  bt_bin_index :: int
  bt_sequence_id :: string
  bt_source_group_id :: string
  bt_ordinal :: nat
  bt_first_ns :: int
  bt_last_ns :: int
  bt_entry :: rat
  bt_exit :: rat
  bt_duration_ns :: nat
  bt_distance :: rat
  bt_speed_samples :: nat
  bt_minimum_speed :: rat
  bt_mean_speed :: rat
  bt_maximum_speed :: rat
  bt_yaw :: rat
  bt_match_ids :: "string list"
  bt_modalities :: "bin_modality list"
  bt_finding_ids :: "string list"
  bt_critical_ids :: "string list"

definition traversal_payload :: "bin_traversal \<Rightarrow> json" where
  "traversal_payload t = JDict
     [(''arc_direction'', JStr (direction_name (bt_direction t))), (''directed_arc_id'', JStr (bt_arc_id t)),
      (''sequence_id'', JStr (bt_sequence_id t)), (''source_group_id'', JStr (bt_source_group_id t)),
      (''traversal_ordinal'', JInt (int (bt_ordinal t)))]"

definition bin_traversal_dump :: "float_ops \<Rightarrow> bin_traversal \<Rightarrow> json" where
  "bin_traversal_dump fl t = JDict
     [(''traversal_id'', JStr (bt_traversal_id t)), (''road_bin_id'', JStr (bt_road_bin_id t)),
      (''directed_arc_id'', JStr (bt_arc_id t)), (''arc_direction'', JStr (direction_name (bt_direction t))),
      (''longitudinal_bin_index'', JInt (bt_bin_index t)), (''sequence_id'', JStr (bt_sequence_id t)),
      (''source_group_id'', JStr (bt_source_group_id t)), (''traversal_ordinal'', JInt (int (bt_ordinal t))),
      (''first_time_ns'', JInt (bt_first_ns t)), (''last_time_ns'', JInt (bt_last_ns t)), (''entry_offset_m'', float_json fl (bt_entry t)),
      (''exit_offset_m'', float_json fl (bt_exit t)), (''usable_duration_ns'', JInt (int (bt_duration_ns t))),
      (''usable_distance_m'', float_json fl (bt_distance t)), (''speed_sample_count'', JInt (int (bt_speed_samples t))),
      (''minimum_speed_mps'', float_json fl (bt_minimum_speed t)), (''mean_speed_mps'', float_json fl (bt_mean_speed t)),
      (''maximum_speed_mps'', float_json fl (bt_maximum_speed t)), (''yaw_excitation_rad'', float_json fl (bt_yaw t)),
      (''source_road_match_ids'', strings_json (bt_match_ids t)), (''modalities'', JList (map (bin_modality_dump fl) (bt_modalities t))),
      (''finding_ids'', strings_json (bt_finding_ids t)), (''critical_finding_ids'', strings_json (bt_critical_ids t))]"

definition check_bin_traversal :: "(string \<Rightarrow> string) \<Rightarrow> bin_traversal \<Rightarrow> unit res" where
  "check_bin_traversal sha t =
     bindE (ensure (is_id_of ''road-traversal'' (bt_traversal_id t) \<and> is_id_of ''road-bin'' (bt_road_bin_id t)
         \<and> is_id_of ''osm-arc'' (bt_arc_id t) \<and> 0 \<le> bt_bin_index t \<and> bt_sequence_id t \<noteq> [] \<and> bt_source_group_id t \<noteq> []
         \<and> 0 \<le> bt_entry t \<and> 0 < bt_exit t \<and> 0 < bt_duration_ns t \<and> 0 < bt_distance t \<and> 0 < bt_speed_samples t
         \<and> 0 \<le> bt_minimum_speed t \<and> 0 \<le> bt_mean_speed t \<and> 0 \<le> bt_maximum_speed t \<and> 0 \<le> bt_yaw t
         \<and> list_all (is_id_of ''road-match'') (bt_match_ids t) \<and> list_all (is_id_of ''finding'') (bt_finding_ids t @ bt_critical_ids t))
       (invalid_model ''RoadBinTraversal'')) (\<lambda>_.
     bindE (ensure (bt_first_ns t < bt_last_ns t) (ValueError ''road-bin traversal time bounds are invalid'')) (\<lambda>_.
     bindE (ensure (bt_entry t < bt_exit t) (ValueError ''road-bin traversal must advance along its directed arc'')) (\<lambda>_.
     bindE (ensure (bt_minimum_speed t \<le> bt_mean_speed t \<and> bt_mean_speed t \<le> bt_maximum_speed t)
       (ValueError ''road-bin traversal speed distribution is invalid'')) (\<lambda>_.
     bindE (ensure (list_all is_canonical [bt_match_ids t, bt_finding_ids t, bt_critical_ids t])
       (ValueError ''road-bin traversal references are not canonical'')) (\<lambda>_.
     bindE (ensure (set (bt_critical_ids t) \<subseteq> set (bt_finding_ids t))
       (ValueError ''critical findings are not a subset of affected findings'')) (\<lambda>_.
     bindE (hashed_id sha ''road-traversal'' (traversal_payload t)) (\<lambda>expected.
       ensure (bt_traversal_id t = expected) (ValueError ''road-bin traversal identity is invalid''))))))))"

text \<open>\<open>math.isclose\<close> with its default relative tolerance.\<close>

definition is_close :: "float_ops \<Rightarrow> rat \<Rightarrow> rat \<Rightarrow> rat \<Rightarrow> bool" where
  "is_close fl a b tolerance \<longleftrightarrow>
     (let relative = fl_nearest fl (1 / 1000000000); gap = \<bar>fl_sub fl b a\<bar> in
      a = b \<or> gap \<le> \<bar>fl_nearest fl (relative * b)\<bar> \<or> gap \<le> \<bar>fl_nearest fl (relative * a)\<bar> \<or> gap \<le> tolerance)"

record bin_coverage =
  bc_road_bin_id :: string
  bc_graph_id :: string
  bc_arc_id :: string
  bc_direction :: arc_direction
  bc_bin_index :: int
  bc_start :: rat
  bc_end :: rat
  bc_true_length :: rat
  bc_final_partial :: bool
  bc_duration_ns :: nat
  bc_distance :: rat
  bc_traversal_count :: nat
  bc_speed_samples :: nat
  bc_minimum_speed :: "rat option"
  bc_mean_speed :: "rat option"
  bc_maximum_speed :: "rat option"
  bc_yaw :: rat
  bc_traversals :: "bin_traversal list"
  bc_modalities :: "bin_modality list"
  bc_finding_ids :: "string list"
  bc_critical_ids :: "string list"

definition bin_coverage_dump :: "float_ops \<Rightarrow> bin_coverage \<Rightarrow> json" where
  "bin_coverage_dump fl b = JDict
     [(''road_bin_id'', JStr (bc_road_bin_id b)), (''road_graph_id'', JStr (bc_graph_id b)), (''directed_arc_id'', JStr (bc_arc_id b)),
      (''arc_direction'', JStr (direction_name (bc_direction b))), (''longitudinal_bin_index'', JInt (bc_bin_index b)),
      (''start_offset_m'', float_json fl (bc_start b)), (''end_offset_m'', float_json fl (bc_end b)),
      (''true_length_m'', float_json fl (bc_true_length b)), (''final_partial_bin'', JBool (bc_final_partial b)),
      (''usable_duration_ns'', JInt (int (bc_duration_ns b))), (''usable_trajectory_distance_m'', float_json fl (bc_distance b)),
      (''independent_traversal_count'', JInt (int (bc_traversal_count b))), (''speed_sample_count'', JInt (int (bc_speed_samples b))),
      (''minimum_speed_mps'', optional_float fl (bc_minimum_speed b)), (''mean_speed_mps'', optional_float fl (bc_mean_speed b)),
      (''maximum_speed_mps'', optional_float fl (bc_maximum_speed b)), (''yaw_excitation_rad'', float_json fl (bc_yaw b)),
      (''traversals'', JList (map (bin_traversal_dump fl) (bc_traversals b))),
      (''modalities'', JList (map (bin_modality_dump fl) (bc_modalities b))), (''finding_ids'', strings_json (bc_finding_ids b)),
      (''critical_finding_ids'', strings_json (bc_critical_ids b))]"

definition speeds_consistent :: "bin_coverage \<Rightarrow> bool" where
  "speeds_consistent b =
     (case (bc_minimum_speed b, bc_mean_speed b, bc_maximum_speed b) of
        (None, None, None) \<Rightarrow> bc_speed_samples b = 0
      | (Some lo, Some mean, Some hi) \<Rightarrow> bc_speed_samples b \<noteq> 0 \<and> lo \<le> mean \<and> mean \<le> hi
      | _ \<Rightarrow> False)"

definition check_bin_coverage :: "(string \<Rightarrow> string) \<Rightarrow> float_ops \<Rightarrow> bin_coverage \<Rightarrow> unit res" where
  "check_bin_coverage sha fl b =
     (let speeds = [bc_minimum_speed b, bc_mean_speed b, bc_maximum_speed b] in
     bindE (ensure (is_id_of ''road-bin'' (bc_road_bin_id b) \<and> is_id_of ''road-graph'' (bc_graph_id b)
         \<and> is_id_of ''osm-arc'' (bc_arc_id b) \<and> 0 \<le> bc_bin_index b \<and> 0 \<le> bc_start b \<and> 0 < bc_end b \<and> 0 < bc_true_length b
         \<and> 0 \<le> bc_distance b \<and> list_all (\<lambda>v. in_bounds v (\<lambda>x. 0 \<le> x)) speeds \<and> 0 \<le> bc_yaw b
         \<and> list_all (is_id_of ''finding'') (bc_finding_ids b @ bc_critical_ids b)) (invalid_model ''DirectedRoadBinCoverage'')) (\<lambda>_.
     bindE (ensure (bc_start b < bc_end b
         \<and> is_close fl (bc_true_length b) (fl_sub fl (bc_end b) (bc_start b)) (fl_nearest fl (1 / 1000000)))
       (ValueError ''directed road-bin bounds are inconsistent'')) (\<lambda>_.
     bindE (make_road_bin_id sha (bc_graph_id b) (bc_arc_id b) (bc_bin_index b)) (\<lambda>expected.
     bindE (ensure (bc_road_bin_id b = expected) (ValueError ''directed road-bin identity is invalid'')) (\<lambda>_.
     bindE (ensure (bc_traversal_count b = length (bc_traversals b))
       (ValueError ''directed road-bin traversal count is inconsistent'')) (\<lambda>_.
     bindE (ensure (list_all (\<lambda>t. bt_road_bin_id t = bc_road_bin_id b \<and> bt_arc_id t = bc_arc_id b \<and> bt_direction t = bc_direction b
         \<and> bt_bin_index t = bc_bin_index b) (bc_traversals b)) (ValueError ''directed road-bin traversal ownership is invalid'')) (\<lambda>_.
     bindE (ensure (\<not> (bc_speed_samples b = 0 \<and> list_ex (\<lambda>v. v \<noteq> None) speeds))
       (ValueError ''empty road-bin speed distribution is not absent'')) (\<lambda>_.
     bindE (ensure (speeds_consistent b) (ValueError ''directed road-bin speed distribution is invalid'')) (\<lambda>_.
       ensure (set (bc_critical_ids b) \<subseteq> set (bc_finding_ids b))
         (ValueError ''bin critical findings are not affected findings''))))))))))"

section \<open>The ledger\<close>

record bin_localization =
  bl_finding_id :: string
  bl_sequence_id :: string
  bl_road_bin_ids :: "string list"

definition bin_localization_dump :: "bin_localization \<Rightarrow> json" where
  "bin_localization_dump l = JDict
     [(''finding_id'', JStr (bl_finding_id l)), (''sequence_id'', JStr (bl_sequence_id l)),
      (''road_bin_ids'', strings_json (bl_road_bin_ids l))]"

definition check_bin_localization :: "bin_localization \<Rightarrow> unit res" where
  "check_bin_localization l =
     bindE (ensure (is_id_of ''finding'' (bl_finding_id l) \<and> bl_sequence_id l \<noteq> [] \<and> list_all (is_id_of ''road-bin'') (bl_road_bin_ids l))
       (invalid_model ''FindingRoadBinLocalization'')) (\<lambda>_.
       ensure (is_canonical (bl_road_bin_ids l)) (ValueError ''finding road-bin localization is not canonical''))"

record coverage_ledger =
  cl_ledger_id :: string
  cl_graph_id :: string
  cl_profile_file_sha256 :: string
  cl_profile_immutable_sha256 :: string
  cl_match_ids :: "string list"
  cl_bins :: "bin_coverage list"
  cl_localizations :: "bin_localization list"
  cl_findings :: "finding list"

definition ledger_payload :: "float_ops \<Rightarrow> coverage_ledger \<Rightarrow> json" where
  "ledger_payload fl l = JDict
     [(''schema_version'', JStr ''cartosentry.directed-road-coverage.v1''), (''algorithm_backend'', JStr ALGORITHM_BACKEND),
      (''road_graph_id'', JStr (cl_graph_id l)), (''road_binning_profile_file_sha256'', JStr (cl_profile_file_sha256 l)),
      (''road_binning_profile_immutable_sha256'', JStr (cl_profile_immutable_sha256 l)),
      (''source_road_match_ids'', strings_json (cl_match_ids l)), (''bins'', JList (map (bin_coverage_dump fl) (cl_bins l))),
      (''finding_localizations'', JList (map bin_localization_dump (cl_localizations l))),
      (''localized_findings'', JList (map (finding_dump (fl_repr fl)) (cl_findings l)))]"

definition ledger_identity :: "(string \<Rightarrow> string) \<Rightarrow> float_ops \<Rightarrow> coverage_ledger \<Rightarrow> string res" where
  "ledger_identity sha fl l = hashed_id sha ''road-coverage'' (ledger_payload fl l)"

text \<open>A dictionary built from a list: the last entry of a key stays.\<close>

definition last_by :: "('a \<Rightarrow> 'k) \<Rightarrow> 'a list \<Rightarrow> 'k \<Rightarrow> 'a option" where
  "last_by key xs = map_of (rev (map (\<lambda>x. (key x, x)) xs))"

definition finding_outputs_agree :: "coverage_ledger \<Rightarrow> bool" where
  "finding_outputs_agree l \<longleftrightarrow>
     set (map bl_finding_id (cl_localizations l)) = set (map fd_finding_id (cl_findings l)) \<and>
     list_all (\<lambda>i. map_option fd_road_bin_ids (last_by fd_finding_id (cl_findings l) i) =
         map_option bl_road_bin_ids (last_by bl_finding_id (cl_localizations l) i))
       (map bl_finding_id (cl_localizations l))"

definition check_coverage_ledger :: "(string \<Rightarrow> string) \<Rightarrow> float_ops \<Rightarrow> coverage_ledger \<Rightarrow> unit res" where
  "check_coverage_ledger sha fl l =
     bindE (ensure (is_id_of ''road-coverage'' (cl_ledger_id l) \<and> is_id_of ''road-graph'' (cl_graph_id l)
         \<and> is_sha256 (cl_profile_file_sha256 l) \<and> is_sha256 (cl_profile_immutable_sha256 l)
         \<and> list_all (is_id_of ''road-match'') (cl_match_ids l)) (invalid_model ''DirectedRoadCoverageLedger'')) (\<lambda>_.
     bindE (ensure (cl_profile_file_sha256 l = BINNING_PROFILE_FILE_SHA256
         \<and> cl_profile_immutable_sha256 l = BINNING_PROFILE_IMMUTABLE_SHA256)
       (ValueError ''road coverage ledger uses a foreign profile'')) (\<lambda>_.
     bindE (ensure (is_canonical (cl_match_ids l)) (ValueError ''road coverage source identities are not canonical'')) (\<lambda>_.
     bindE (ensure (distinct (map bc_road_bin_id (cl_bins l))) (ValueError ''road coverage bins are not unique'')) (\<lambda>_.
     bindE (ensure (finding_outputs_agree l) (ValueError ''road coverage finding outputs are inconsistent'')) (\<lambda>_.
     bindE (ledger_identity sha fl l) (\<lambda>expected.
       ensure (cl_ledger_id l = expected) (ValueError ''road coverage ledger identity is invalid'')))))))"

section \<open>The native aggregation\<close>

record bin_point =
  pt_time_ns :: int
  pt_arc_index :: "nat option"
  pt_along :: "rat option"
  pt_confident :: bool
  pt_stationary :: bool
  pt_speed :: rat
  pt_heading :: "rat option"

record bin_path =
  pa_road_match_id :: string
  pa_sequence_id :: string
  pa_source_group_id :: string
  pa_points :: "bin_point list"

record bin_evidence =
  be_evidence_id :: string
  be_sequence_id :: string
  be_modality :: string
  be_start_ns :: int
  be_end_ns :: int
  be_usable :: bool
  be_points :: rat
  be_overlap :: "rat option"
  be_timestamp_supported :: bool

record bin_request =
  br_arcs :: "(string \<times> string \<times> rat) list"
  br_paths :: "bin_path list"
  br_evidence :: "bin_evidence list"
  br_findings :: "(string \<times> string \<times> int \<times> int \<times> bool) list"
  br_parameters :: binning_parameters

record raw_modality =
  ry_modality :: string
  ry_valid_ns :: nat
  ry_points :: rat
  ry_overlap :: "rat option"
  ry_supported_ns :: nat
  ry_evidence_ids :: "string list"

text \<open>A traversal and a bin as the kernel returns them: the identifiers, the arc and the direction are
  not its to decide, those fields of the records are empty.\<close>

record raw_traversal =
  rv_arc_index :: int
  rv_bin_index :: int
  rv_modalities :: "raw_modality list"
  rv_values :: bin_traversal

record raw_bin =
  rb_arc_index :: int
  rb_bin_index :: int
  rb_traversals :: "raw_traversal list"
  rb_modalities :: "raw_modality list"
  rb_values :: bin_coverage

record raw_localization =
  rz_finding_id :: string
  rz_bin_indices :: "int list"

record raw_binning =
  rw_bins :: "raw_bin list"
  rw_localizations :: "raw_localization list"

definition parse_modality :: "string \<Rightarrow> sensor_modality res" where
  "parse_modality s =
     (case filter (\<lambda>m. modality_name m = s) [CAMERA, GNSS, IMU, LIDAR, RADAR, TRAJECTORY] of
        m # _ \<Rightarrow> Inr m | [] \<Rightarrow> Inl (ValueError (s @ '' is not a valid SensorModality'')))"

definition native_modality :: "raw_modality \<Rightarrow> bin_modality res" where
  "native_modality r =
     bindE (parse_modality (ry_modality r)) (\<lambda>m.
     let b = \<lparr>bm_modality = m, bm_valid_ns = ry_valid_ns r, bm_points = ry_points r, bm_overlap = ry_overlap r,
              bm_supported_ns = ry_supported_ns r, bm_evidence_ids = ry_evidence_ids r\<rparr>
     in bindE (check_bin_modality b) (\<lambda>_. Inr b))"

definition bin_count :: "float_ops \<Rightarrow> binning_parameters \<Rightarrow> road_arc \<Rightarrow> int" where
  "bin_count fl p a = \<lceil>fl_nearest fl (ra_length_m a / bp_bin_length p)\<rceil>"

definition bin_point_of :: "road_graph \<Rightarrow> decoded_point \<Rightarrow> bin_point res" where
  "bin_point_of g q =
     bindE (case rk_arc_id (dq_candidate q) of
         None \<Rightarrow> Inr None
       | Some i \<Rightarrow> (case position_where (\<lambda>a. ra_arc_id a = i) (rg_arcs g) of None \<Rightarrow> Inl (KeyError i) | Some k \<Rightarrow> Inr (Some k))) (\<lambda>k.
       Inr \<lparr>pt_time_ns = tp_value_ns (mo_time (dq_observation q)), pt_arc_index = k, pt_along = rk_along (dq_candidate q),
            pt_confident = (dq_confidence q = CONFIDENT \<and> rk_state (dq_candidate q) = ON_ROAD), pt_stationary = dq_stationary q,
            pt_speed = mo_speed (dq_observation q), pt_heading = mo_heading (dq_observation q)\<rparr>)"

definition bin_path_of :: "road_graph \<Rightarrow> decoded_path \<Rightarrow> bin_path res" where
  "bin_path_of g p =
     bindE (mapE (bin_point_of g) (px_points p)) (\<lambda>points.
       Inr \<lparr>pa_road_match_id = px_road_match_id p, pa_sequence_id = px_sequence_id p, pa_source_group_id = px_source_group_id p,
            pa_points = points\<rparr>)"

definition bin_evidence_of :: "evidence_interval \<Rightarrow> bin_evidence" where
  "bin_evidence_of v =
     \<lparr>be_evidence_id = vi_id v, be_sequence_id = vi_sequence_id v, be_modality = modality_name (vi_modality v),
      be_start_ns = tp_value_ns (si_start (vi_interval v)), be_end_ns = tp_value_ns (si_end (vi_interval v)),
      be_usable = vi_usable v, be_points = vi_point_count v, be_overlap = vi_overlap v,
      be_timestamp_supported = vi_timestamp_supported v\<rparr>"

definition bin_finding_of :: "localization_request \<Rightarrow> string \<times> string \<times> int \<times> int \<times> bool" where
  "bin_finding_of r =
     (let f = lq_finding r in
      (fd_finding_id f, lq_sequence_id r, tp_value_ns (si_start (fd_interval f)), tp_value_ns (si_end (fd_interval f)),
       fd_severity f = CRITICAL \<or> fd_severity f = BLOCKING_ANALYSIS))"

section \<open>Checking the request\<close>

definition validate_time_domain :: "time_point \<Rightarrow> time_point \<Rightarrow> unit res" where
  "validate_time_domain reference candidate =
     ensure (tp_epoch reference = tp_epoch candidate \<and> tp_clock_id reference = tp_clock_id candidate)
       (ValueError ''road-bin temporal join uses incomparable clock domains'')"

text \<open>The first time and the source group of every sequence.\<close>

fun sequence_references :: "(string \<Rightarrow> (time_point \<times> string) option) \<Rightarrow> decoded_path list \<Rightarrow> (string \<Rightarrow> (time_point \<times> string) option) res" where
  "sequence_references seen [] = Inr seen"
| "sequence_references seen (p # ps) =
     (let reference = mo_time (dq_observation (hd (px_points p))); k = px_sequence_id p;
          (previous, source_group) = (case seen k of Some known \<Rightarrow> known | None \<Rightarrow> (reference, px_source_group_id p)) in
      bindE (validate_time_domain previous reference) (\<lambda>_.
      bindE (ensure (source_group = px_source_group_id p) (ValueError ''sequence source-group identity is inconsistent'')) (\<lambda>_.
        sequence_references (seen(k \<mapsto> (previous, source_group))) ps)))"

definition check_reference ::
  "string \<Rightarrow> (string \<Rightarrow> (time_point \<times> string) option) \<Rightarrow> string \<times> source_interval \<Rightarrow> unit res" where
  "check_reference message seen x =
     (case seen (fst x) of
        None \<Rightarrow> Inl (ValueError message)
      | Some (reference, _) \<Rightarrow>
          bindE (validate_time_domain reference (si_start (snd x))) (\<lambda>_. validate_time_domain reference (si_end (snd x))))"

definition check_binning_request ::
  "(string \<Rightarrow> string) \<Rightarrow> float_ops \<Rightarrow> road_graph \<Rightarrow> decoded_path list \<Rightarrow> evidence_interval list \<Rightarrow> localization_request list \<Rightarrow>
   binning_profile \<Rightarrow> string \<Rightarrow> unit res" where
  "check_binning_request sha fl g paths evidence findings profile profile_file =
     (let parameters = bf_parameters profile; authorities = bf_authorities profile in
     bindE (validate_graph_identity sha fl g) (\<lambda>_.
     bindE (assert_binning_profile sha fl profile) (\<lambda>_.
     bindE (ensure (profile_file = BINNING_PROFILE_FILE_SHA256) (ValueError ''road-binning profile file authority is foreign'')) (\<lambda>_.
     bindE (ensure (rg_profile_immutable_sha256 g = GRAPH_PROFILE_IMMUTABLE_SHA256
         \<and> rg_profile_file_sha256 g = ba_graph_file_sha256 authorities) (ValueError ''road-binning graph authority is foreign'')) (\<lambda>_.
     bindE (ensure (paths \<noteq> []) (ValueError ''directed road binning requires at least one decoded path'')) (\<lambda>_.
     bindE (ensure (length paths \<le> bp_maximum_paths parameters) (ValueError ''directed road binning exceeds the frozen path budget'')) (\<lambda>_.
     bindE (ensure (distinct (map px_road_match_id paths)) (ValueError ''directed road binning paths must have unique identities'')) (\<lambda>_.
     bindE (ensure (sum_list (map (length \<circ> px_points) paths) \<le> bp_maximum_total_points parameters)
       (ValueError ''directed road binning exceeds the frozen total-point budget'')) (\<lambda>_.
     bindE (ensure (list_all (\<lambda>p. px_graph_id p = rg_graph_id g \<and> px_decoder_file_sha256 p = ba_decoder_file_sha256 authorities
         \<and> px_decoder_immutable_sha256 p = ba_decoder_immutable_sha256 authorities
         \<and> length (px_points p) \<le> bp_maximum_points_per_path parameters) paths)
       (ValueError ''decoded path uses a foreign authority or exceeds its budget'')) (\<lambda>_.
     bindE (sequence_references Map.empty paths) (\<lambda>seen.
     bindE (ensure (length evidence \<le> bp_maximum_evidence parameters)
       (ValueError ''modality evidence exceeds the frozen aggregation budget'')) (\<lambda>_.
     bindE (ensure (length findings \<le> bp_maximum_findings parameters) (ValueError ''findings exceed the frozen localization budget'')) (\<lambda>_.
     bindE (ensure (distinct (map vi_id evidence)) (ValueError ''modality evidence identities must be unique'')) (\<lambda>_.
     bindE (ensure (distinct (map (fd_finding_id \<circ> lq_finding) findings))
       (ValueError ''finding localization identities must be unique'')) (\<lambda>_.
     bindE (mapE (check_reference ''modality evidence references an unknown sequence'' seen)
       (map (\<lambda>v. (vi_sequence_id v, vi_interval v)) evidence)) (\<lambda>_.
     bindE (mapE (check_reference ''finding references an unknown sequence'' seen)
       (map (\<lambda>r. (lq_sequence_id r, fd_interval (lq_finding r))) findings)) (\<lambda>_.
       Inr ())))))))))))))))))"

section \<open>From the native result to the ledger\<close>

definition traversal_of_native ::
  "(string \<Rightarrow> string) \<Rightarrow> road_arc \<Rightarrow> string \<Rightarrow> int \<Rightarrow> int \<Rightarrow> raw_traversal \<Rightarrow> bin_traversal res" where
  "traversal_of_native sha a road_bin_id arc_index k r =
     bindE (ensure (rv_arc_index r = arc_index \<and> rv_bin_index r = k)
       (ValueError ''native road-bin traversal ownership is invalid'')) (\<lambda>_.
     let t = (rv_values r)\<lparr>bt_road_bin_id := road_bin_id, bt_arc_id := ra_arc_id a, bt_direction := ra_direction a,
                bt_bin_index := k\<rparr> in
     bindE (hashed_id sha ''road-traversal'' (traversal_payload t)) (\<lambda>i.
     bindE (mapE native_modality (rv_modalities r)) (\<lambda>modalities.
     let u = t\<lparr>bt_traversal_id := i, bt_modalities := modalities\<rparr> in bindE (check_bin_traversal sha u) (\<lambda>_. Inr u))))"

definition bin_of_native ::
  "(string \<Rightarrow> string) \<Rightarrow> float_ops \<Rightarrow> road_graph \<Rightarrow> binning_parameters \<Rightarrow> raw_bin \<Rightarrow> bin_coverage res" where
  "bin_of_native sha fl g p r =
     bindE (ensure (0 \<le> rb_arc_index r \<and> rb_arc_index r < int (length (rg_arcs g)))
       (ValueError ''native road-bin output references an invalid arc'')) (\<lambda>_.
     let a = rg_arcs g ! nat (rb_arc_index r); count = bin_count fl p a; k = rb_bin_index r; v = rb_values r in
     bindE (ensure (0 \<le> k \<and> k < count) (ValueError ''native road-bin output has an invalid bin index'')) (\<lambda>_.
     bindE (make_road_bin_id sha (rg_graph_id g) (ra_arc_id a) k) (\<lambda>road_bin_id.
     bindE (mapE (traversal_of_native sha a road_bin_id (rb_arc_index r) k) (rb_traversals r)) (\<lambda>traversals.
     bindE (mapE native_modality (rb_modalities r)) (\<lambda>modalities.
     let len = fl_sub fl (bc_end v) (bc_start v);
         b = v\<lparr>bc_road_bin_id := road_bin_id, bc_graph_id := rg_graph_id g, bc_arc_id := ra_arc_id a, bc_direction := ra_direction a,
               bc_bin_index := k, bc_true_length := py_round fl (bp_distance_places p) len,
               bc_final_partial := (k = count - 1 \<and> \<not> is_close fl len (bp_bin_length p) (fl_nearest fl (1 / 10 ^ bp_distance_places p))),
               bc_traversals := traversals, bc_modalities := modalities\<rparr> in
     bindE (check_bin_coverage sha fl b) (\<lambda>_. Inr b))))))"

text \<open>One localization: the finding of the request with the bins that the kernel names.\<close>

definition localization_of_native ::
  "(string \<Rightarrow> string) \<Rightarrow> float_ops \<Rightarrow> localization_request list \<Rightarrow> string list \<Rightarrow> raw_localization \<Rightarrow> (bin_localization \<times> finding) res" where
  "localization_of_native sha fl requests bin_ids r =
     (case last_by (fd_finding_id \<circ> lq_finding) requests (rz_finding_id r) of
        None \<Rightarrow> Inl (ValueError ''native road-bin output returned an unknown finding'')
      | Some request \<Rightarrow>
          bindE (ensure (list_all (\<lambda>i. 0 \<le> i \<and> i < int (length bin_ids)) (rz_bin_indices r))
            (ValueError ''native finding localization references an invalid bin'')) (\<lambda>_.
          let selected = sort (remdups (map (\<lambda>i. bin_ids ! nat i) (rz_bin_indices r)));
              l = \<lparr>bl_finding_id = rz_finding_id r, bl_sequence_id = lq_sequence_id request, bl_road_bin_ids = selected\<rparr>;
              f = (lq_finding request)\<lparr>fd_road_bin_ids := selected\<rparr> in
          bindE (check_bin_localization l) (\<lambda>_.
          bindE (check_finding sha (fl_repr fl) f) (\<lambda>_. Inr (l, f)))))"

definition aggregate_directed_road_bins ::
  "(string \<Rightarrow> string) \<Rightarrow> float_ops \<Rightarrow> (bin_request \<Rightarrow> raw_binning res) \<Rightarrow> road_graph \<Rightarrow> decoded_path list \<Rightarrow> evidence_interval list \<Rightarrow>
   localization_request list \<Rightarrow> binning_profile \<Rightarrow> string \<Rightarrow> coverage_ledger res" where
  "aggregate_directed_road_bins sha fl aggregate g paths evidence findings profile profile_file =
     (let parameters = bf_parameters profile; expected_bins = sum_list (map (bin_count fl parameters) (rg_arcs g)) in
     bindE (check_binning_request sha fl g paths evidence findings profile profile_file) (\<lambda>_.
     bindE (ensure (expected_bins \<le> int (bp_maximum_bins parameters))
       (ValueError ''directed road binning exceeds the frozen generated-bin budget'')) (\<lambda>_.
     bindE (mapE (bin_path_of g) paths) (\<lambda>native_paths.
     bindE (aggregate \<lparr>br_arcs = map (\<lambda>a. (ra_arc_id a, direction_name (ra_direction a), ra_length_m a)) (rg_arcs g),
         br_paths = native_paths, br_evidence = map bin_evidence_of evidence, br_findings = map bin_finding_of findings, br_parameters = parameters\<rparr>) (\<lambda>raw.
     bindE (ensure (int (length (rw_bins raw)) = expected_bins) (ValueError ''native road-bin output omitted graph bins'')) (\<lambda>_.
     bindE (mapE (bin_of_native sha fl g parameters) (rw_bins raw)) (\<lambda>bins.
     bindE (mapE (localization_of_native sha fl findings (map bc_road_bin_id bins)) (rw_localizations raw)) (\<lambda>localized.
     let l = \<lparr>cl_ledger_id = [], cl_graph_id = rg_graph_id g, cl_profile_file_sha256 = profile_file,
              cl_profile_immutable_sha256 = bf_immutable_sha256 profile, cl_match_ids = sort (map px_road_match_id paths),
              cl_bins = bins, cl_localizations = map fst localized, cl_findings = map snd localized\<rparr> in
     bindE (ledger_identity sha fl l) (\<lambda>i.
     let l' = l\<lparr>cl_ledger_id := i\<rparr> in bindE (check_coverage_ledger sha fl l') (\<lambda>_. Inr l'))))))))))"

end
