(* ===== verification/RoadMatchProperties.thy ===== *)
theory RoadMatchProperties
  imports RoadBins
begin

text \<open>
  What the checks around the native kernels guarantee, whatever the kernels return: the candidates of a
  path are sound, its intervals partition it and claim distance only where the points allow it, its
  confidence agrees with its separation, and a coverage ledger has every bin of the graph exactly once.
\<close>

section \<open>Paths\<close>

text \<open>The intervals, in order, are the path, each over points of one kind; an interval without covering
  points claims no distance.\<close>

definition uniform :: "decoded_point list \<Rightarrow> matched_interval \<Rightarrow> bool" where
  "uniform points v \<longleftrightarrow>
     support_of points v \<noteq> [] \<and>
     list_all (\<lambda>q. point_key q = (mv_state v, mv_arc_id v, mv_stationary v, mv_confidence v)) (support_of points v) \<and>
     mv_observation_ids v = map (mo_observation_id \<circ> dq_observation) (support_of points v) \<and>
     (list_all covers_road (support_of points v) \<or> mv_usable_distance v = 0)"

lemma point_key_covers: "point_key q = point_key r \<Longrightarrow> covers_road q = covers_road r"
  by (simp add: point_key_def covers_road_def)

lemma check_intervals_partition:
  assumes "check_intervals fl points cursor vs = Inr ()" "list_all (\<lambda>v. mv_start v < mv_end v) vs"
  shows "concat (map (support_of points) vs) = drop cursor points \<and> list_all (uniform points) vs"
  using assms
proof (induction vs arbitrary: cursor)
  case (Cons v vs)
  then obtain distance where start: "mv_start v = cursor" "mv_end v \<le> length points" and less: "mv_start v < mv_end v"
    and distance: "usable_distance fl (support_of points v) = Inr distance"
    and matches: "interval_matches v (support_of points v) distance"
    and rest: "check_intervals fl points (mv_end v) vs = Inr ()"
    by auto
  have later: "concat (map (support_of points) vs) = drop (mv_end v) points \<and> list_all (uniform points) vs"
    using Cons.IH [OF rest] Cons.prems(2) by simp
  have joined: "support_of points v @ drop (mv_end v) points = drop cursor points"
    using start(1) less append_take_drop_id [of "mv_end v - mv_start v" "drop (mv_start v) points"] by (simp add: support_of_def)
  have nonempty: "support_of points v \<noteq> []" using start less by (simp add: support_of_def)
  have keys: "\<forall>q \<in> set (support_of points v). point_key q = point_key (hd (support_of points v))"
      "(mv_state v, mv_arc_id v, mv_stationary v, mv_confidence v) = point_key (hd (support_of points v))"
      "mv_observation_ids v = map (mo_observation_id \<circ> dq_observation) (support_of points v)"
      "mv_usable_distance v = distance"
    using matches unfolding interval_matches_def Let_def list_all_iff by blast+
  have "list_all covers_road (support_of points v) \<or> mv_usable_distance v = 0"
  proof (cases "covers_road (hd (support_of points v))")
    case True
    have "\<forall>q \<in> set (support_of points v). covers_road q" using True keys(1) point_key_covers by metis
    then show ?thesis by (simp add: list_all_iff)
  next
    case False
    then show ?thesis using keys(4) distance by (simp add: usable_distance_def)
  qed
  with keys(1,3) nonempty have "uniform points v" unfolding uniform_def list_all_iff keys(2) by blast
  with later joined show ?case by simp
qed simp

lemma check_decoded_path_Inr:
  assumes "check_decoded_path sha fl p = Inr ()"
  shows "check_point_order p = Inr ()" and "check_separation fl p = Inr ()"
    and "check_intervals fl (px_points p) 0 (px_intervals p) = Inr ()" and "path_identity sha fl p = Inr (px_road_match_id p)"
  using assms by (auto simp: check_decoded_path_def Let_def)

lemma check_separation_Inr:
  "check_separation fl p = Inr () \<Longrightarrow>
   px_confidence p = AMBIGUOUS \<longleftrightarrow> (case px_separation p of None \<Rightarrow> False | Some s \<Rightarrow> s \<le> 1)"
  by (auto simp: check_separation_def separation_confidence_def Let_def split: option.splits if_splits)

lemma interval_of_native_Inr: "interval_of_native sha fl points r = Inr v \<Longrightarrow> mv_start v < mv_end v"
  by (auto simp: interval_of_native_def Let_def)

lemma decoded_point_of_Inr:
  assumes "decoded_point_of observations sets raw ambiguous i = Inr q"
  shows "dq_observation q = observations ! i \<and> dq_candidate q = sets ! i ! nat (rx_best raw ! i)"
proof -
  obtain b confidence runner separation where
    "q = \<lparr>dq_index = i, dq_observation = observations ! i, dq_candidate = sets ! i ! nat (rx_best raw ! i), dq_stationary = b,
          dq_confidence = confidence, dq_runner_up_id = runner, dq_separation = separation\<rparr>"
    using assms by (auto simp: decoded_point_of_def Let_def)
  then show ?thesis by simp
qed

lemma decoded_points_of_Inr:
  assumes "mapE (decoded_point_of observations sets raw ambiguous) [0..<length observations] = Inr points"
    and "check_raw_decoding (length observations) sets raw = Inr ()" "length sets = length observations"
  shows "map dq_observation points = observations"
    and "list_all2 (\<lambda>q cs. dq_candidate q \<in> set cs) points sets"
proof -
  have all2: "list_all2 (\<lambda>i q. decoded_point_of observations sets raw ambiguous i = Inr q) [0..<length observations] points"
    using assms(1) by (simp add: mapE_eq_Inr_iff)
  then have len: "length points = length observations" by (auto dest: list_all2_lengthD)
  have point: "decoded_point_of observations sets raw ambiguous i = Inr (points ! i)" if "i < length observations" for i
    using list_all2_nthD [OF all2, of i] that by simp
  have each: "dq_observation (points ! i) = observations ! i" "dq_candidate (points ! i) = sets ! i ! nat (rx_best raw ! i)"
    if "i < length observations" for i
    using decoded_point_of_Inr [OF point [OF that]] by simp_all
  show "map dq_observation points = observations" by (rule nth_equalityI) (simp_all add: len each)
  have valid: "indices_valid sets (rx_best raw)" "length (rx_best raw) = length observations"
    using assms(2) by (simp_all add: check_raw_decoding_def)
  have "nat (rx_best raw ! i) < length (sets ! i)" if "i < length observations" for i
  proof -
    have "(sets ! i, rx_best raw ! i) \<in> set (zip sets (rx_best raw))"
      using that valid(2) assms(3) by (auto simp: set_zip)
    then show ?thesis using valid(1) by (auto simp: indices_valid_def list_all_iff)
  qed
  then show "list_all2 (\<lambda>q cs. dq_candidate q \<in> set cs) points sets"
    by (simp add: list_all2_conv_all_nth len assms(3) each)
qed

lemma decode_road_path_Inr:
  assumes "decode_road_path sha fl native decode g observations sequence source_group partition0 matching matching_file decoder
     decoder_file = Inr p"
  obtains sets raw ambiguous where
    "generate_road_candidate_batches sha fl native g observations matching = Inr sets"
    and "check_raw_decoding (length observations) sets raw = Inr ()"
    and "mapE (decoded_point_of observations sets raw ambiguous) [0..<length observations] = Inr (px_points p)"
    and "mapE (interval_of_native sha fl (px_points p)) (rx_intervals raw) = Inr (px_intervals p)"
    and "check_decoded_path sha fl p = Inr ()" and "px_graph_id p = rg_graph_id g"
  using assms by (auto simp: decode_road_path_def Let_def)

lemma list_all2_member:
  "list_all2 (\<lambda>q. list_all (P q)) qs css \<Longrightarrow> list_all2 (\<lambda>q cs. f q \<in> set cs) qs css \<Longrightarrow> list_all (\<lambda>q. P q (f q)) qs"
  by (induction rule: list_all2_induct) (auto simp: list_all_iff)

text \<open>C15: A road path that is decoded, whatever the native decoder returned, goes through the observations in
  order, each step strictly later than the one before; its candidates carry their identities and belong to
  their observation and to the graph; its intervals laid end to end are the path, each over points of one
  kind, and one whose points do not all cover the road claims no distance; the path is ambiguous exactly
  when its separation is at most one; and it carries the identity of its content.\<close>

theorem decoded_path_is_accounted:
  "case decode_road_path sha fl native decode g observations sequence source_group partition0 matching matching_file decoder
     decoder_file of
     Inl e \<Rightarrow> True
   | Inr p \<Rightarrow>
       map dq_observation (px_points p) = observations \<and>
       check_increasing ''decoded observations are not unique and time ordered'' (map mo_time observations) = Inr () \<and>
       list_all (\<lambda>q. sound_candidate sha fl matching g (dq_observation q) (dq_candidate q)) (px_points p) \<and>
       concat (map (support_of (px_points p)) (px_intervals p)) = px_points p \<and>
       list_all (uniform (px_points p)) (px_intervals p) \<and>
       (px_confidence p = AMBIGUOUS \<longleftrightarrow> (case px_separation p of None \<Rightarrow> False | Some s \<Rightarrow> s \<le> 1)) \<and>
       path_identity sha fl p = Inr (px_road_match_id p)"
proof (cases "decode_road_path sha fl native decode g observations sequence source_group partition0 matching matching_file decoder
     decoder_file")
  case (Inr p)
  then obtain sets raw ambiguous where
      sets: "generate_road_candidate_batches sha fl native g observations matching = Inr sets"
    and raw: "check_raw_decoding (length observations) sets raw = Inr ()"
    and points: "mapE (decoded_point_of observations sets raw ambiguous) [0..<length observations] = Inr (px_points p)"
    and intervals: "mapE (interval_of_native sha fl (px_points p)) (rx_intervals raw) = Inr (px_intervals p)"
    and checked: "check_decoded_path sha fl p = Inr ()"
    by (rule decode_road_path_Inr)
  note path = check_decoded_path_Inr [OF checked]
  have sound: "list_all2 (\<lambda>b. list_all (sound_candidate sha fl matching g b)) observations sets" by (rule batches_sound [OF sets])
  then have len: "length sets = length observations" by (auto dest: list_all2_lengthD)
  note through = decoded_points_of_Inr [OF points raw len]
  have "list_all2 (\<lambda>q. list_all (sound_candidate sha fl matching g (dq_observation q))) (px_points p) sets"
    using sound through(1) by (auto simp: list_all2_conv_all_nth)
  from list_all2_member [OF this through(2)]
  have "list_all (\<lambda>q. sound_candidate sha fl matching g (dq_observation q) (dq_candidate q)) (px_points p)" .
  moreover have "list_all (\<lambda>v. mv_start v < mv_end v) (px_intervals p)"
    using intervals by (auto simp: mapE_eq_Inr_iff list_all2_conv_all_nth list_all_length interval_of_native_Inr)
  note check_intervals_partition [OF path(3) this]
  moreover have "check_increasing ''decoded observations are not unique and time ordered'' (map mo_time observations) = Inr ()"
    using path(1) through(1) by (auto simp: check_point_order_def Let_def simp flip: map_map)
  ultimately show ?thesis using through(1) check_separation_Inr [OF path(2)] path(4) unfolding Inr sum.case by simp
qed simp

section \<open>Bins\<close>

definition bin_key :: "bin_coverage \<Rightarrow> string \<times> int" where
  "bin_key b = (bc_arc_id b, bc_bin_index b)"

text \<open>The bins of a graph: for each arc as many as its length holds, the last one rounded up.\<close>

definition graph_bins :: "float_ops \<Rightarrow> binning_parameters \<Rightarrow> road_graph \<Rightarrow> (string \<times> int) list" where
  "graph_bins fl p g = concat (map (\<lambda>a. map (\<lambda>k. (ra_arc_id a, k)) [0..bin_count fl p a - 1]) (rg_arcs g))"

lemma bin_of_native_Inr:
  assumes "bin_of_native sha fl g p r = Inr b"
  shows "bin_key b \<in> set (graph_bins fl p g)"
    and "make_road_bin_id sha (rg_graph_id g) (bc_arc_id b) (bc_bin_index b) = Inr (bc_road_bin_id b)"
    and "check_bin_coverage sha fl b = Inr ()"
proof -
  let ?a = "rg_arcs g ! nat (rb_arc_index r)"
  obtain traversals modalities road_bin_id len partial true_length where
      inside: "0 \<le> rb_arc_index r" "rb_arc_index r < int (length (rg_arcs g))" "0 \<le> rb_bin_index r" "rb_bin_index r < bin_count fl p ?a"
    and identity: "make_road_bin_id sha (rg_graph_id g) (ra_arc_id ?a) (rb_bin_index r) = Inr road_bin_id"
    and b: "b = (rb_values r)\<lparr>bc_road_bin_id := road_bin_id, bc_graph_id := rg_graph_id g, bc_arc_id := ra_arc_id ?a,
        bc_direction := ra_direction ?a, bc_bin_index := rb_bin_index r, bc_true_length := true_length,
        bc_final_partial := partial, bc_traversals := traversals, bc_modalities := modalities\<rparr>"
    and checked: "check_bin_coverage sha fl b = Inr ()"
    using assms unfolding bin_of_native_def Let_def bindE_eq_Inr ensure_eq_Inr sum.inject
    by (elim exE conjE) (rule that, (assumption | erule sym)+, simp)
  have "?a \<in> set (rg_arcs g)" using inside(1,2) by simp
  then show "bin_key b \<in> set (graph_bins fl p g)"
    using inside(3,4) by (auto simp: b bin_key_def graph_bins_def intro!: bexI [of _ ?a])
  show "make_road_bin_id sha (rg_graph_id g) (bc_arc_id b) (bc_bin_index b) = Inr (bc_road_bin_id b)"
    using identity by (simp add: b)
  show "check_bin_coverage sha fl b = Inr ()" by (fact checked)
qed

lemma aggregate_Inr:
  assumes "aggregate_directed_road_bins sha fl aggregate g paths evidence findings profile profile_file = Inr l"
  shows "\<exists>(raw :: raw_binning) localized.
     int (length (rw_bins raw)) = sum_list (map (bin_count fl (bf_parameters profile)) (rg_arcs g)) \<and>
     mapE (bin_of_native sha fl g (bf_parameters profile)) (rw_bins raw) = Inr (cl_bins l) \<and>
     mapE (localization_of_native sha fl findings (map bc_road_bin_id (cl_bins l))) (rw_localizations raw) = Inr localized \<and>
     cl_localizations l = map fst localized \<and> cl_findings l = map snd localized \<and>
     check_coverage_ledger sha fl l = Inr () \<and> cl_match_ids l = sort (map px_road_match_id paths)"
proof -
  obtain raw :: raw_binning and bins localized i where
      parts: "int (length (rw_bins raw)) = sum_list (map (bin_count fl (bf_parameters profile)) (rg_arcs g))"
      "mapE (bin_of_native sha fl g (bf_parameters profile)) (rw_bins raw) = Inr bins"
      "mapE (localization_of_native sha fl findings (map bc_road_bin_id bins)) (rw_localizations raw) = Inr localized"
    and l: "l = \<lparr>cl_ledger_id = [], cl_graph_id = rg_graph_id g, cl_profile_file_sha256 = profile_file,
              cl_profile_immutable_sha256 = bf_immutable_sha256 profile, cl_match_ids = sort (map px_road_match_id paths),
              cl_bins = bins, cl_localizations = map fst localized, cl_findings = map snd localized\<rparr>\<lparr>cl_ledger_id := i\<rparr>"
    and checked: "check_coverage_ledger sha fl l = Inr ()"
    using assms unfolding aggregate_directed_road_bins_def Let_def bindE_eq_Inr ensure_eq_Inr sum.inject
    by (elim exE conjE) (rule that, (assumption | erule sym)+, simp)
  then show ?thesis by (intro exI [of _ raw] exI [of _ localized]) simp
qed

lemma distinct_map_coarser:
  assumes "distinct (map f xs)" "\<And>x y. x \<in> set xs \<Longrightarrow> y \<in> set xs \<Longrightarrow> g x = g y \<Longrightarrow> f x = f y"
  shows "distinct (map g xs)"
proof -
  have "distinct xs" "inj_on f (set xs)" using assms(1) by (simp_all add: distinct_map)
  then have "inj_on g (set xs)" using assms(2) by (meson inj_onD inj_onI)
  with \<open>distinct xs\<close> show ?thesis by (simp add: distinct_map)
qed

lemma length_graph_bins:
  assumes "list_all (\<lambda>a. 0 \<le> bin_count fl p a) (rg_arcs g)"
  shows "int (length (graph_bins fl p g)) = sum_list (map (bin_count fl p) (rg_arcs g))"
proof -
  have "int (length (concat (map (\<lambda>a. map (\<lambda>k. (ra_arc_id a, k)) [0..bin_count fl p a - 1]) arcs))) = sum_list (map (bin_count fl p) arcs)"
    if "list_all (\<lambda>a. 0 \<le> bin_count fl p a) arcs" for arcs
    using that by (induction arcs) simp_all
  with assms show ?thesis by (simp add: graph_bins_def)
qed

lemma all_keys:
  assumes "distinct keys" "set keys \<subseteq> set all" "length all = length keys"
  shows "set keys = set all"
proof (rule card_seteq)
  show "card (set all) \<le> card (set keys)" using assms(1,3) card_length [of all] by (simp add: distinct_card)
qed (use assms(2) in simp_all)

lemma bins_of_native:
  assumes "mapE (bin_of_native sha fl g p) raws = Inr bins"
  shows "length bins = length raws" and "set (map bin_key bins) \<subseteq> set (graph_bins fl p g)"
    and "list_all (\<lambda>b. check_bin_coverage sha fl b = Inr ()) bins"
    and "b \<in> set bins \<Longrightarrow> make_road_bin_id sha (rg_graph_id g) (bc_arc_id b) (bc_bin_index b) = Inr (bc_road_bin_id b)"
proof -
  have each: "\<exists>r. bin_of_native sha fl g p r = Inr b" if "b \<in> set bins" for b
    using assms that by (auto simp: mapE_eq_Inr_iff list_all2_conv_all_nth in_set_conv_nth)
  show "length bins = length raws" using assms by (rule mapE_length)
  show "set (map bin_key bins) \<subseteq> set (graph_bins fl p g)" using each bin_of_native_Inr(1) by fastforce
  show "list_all (\<lambda>b. check_bin_coverage sha fl b = Inr ()) bins" using each bin_of_native_Inr(3) by (fastforce simp: list_all_iff)
  show "make_road_bin_id sha (rg_graph_id g) (bc_arc_id b) (bc_bin_index b) = Inr (bc_road_bin_id b)" if "b \<in> set bins"
    using each [OF that] bin_of_native_Inr(2) by blast
qed

lemma localization_of_native_Inr:
  assumes "localization_of_native sha fl requests bin_ids r = Inr (l, f)"
  shows "set (bl_road_bin_ids l) \<subseteq> set bin_ids \<and> fd_road_bin_ids f = bl_road_bin_ids l \<and>
     f\<lparr>fd_road_bin_ids := []\<rparr> \<in> set (map (\<lambda>q. (lq_finding q)\<lparr>fd_road_bin_ids := []\<rparr>) requests)"
proof -
  obtain request selected where request: "last_by (fd_finding_id \<circ> lq_finding) requests (rz_finding_id r) = Some request"
    and inside: "list_all (\<lambda>i. 0 \<le> i \<and> i < int (length bin_ids)) (rz_bin_indices r)"
    and l: "l = \<lparr>bl_finding_id = rz_finding_id r, bl_sequence_id = lq_sequence_id request,
       bl_road_bin_ids = sort (remdups (map (\<lambda>i. bin_ids ! nat i) (rz_bin_indices r)))\<rparr>"
    and f: "f = (lq_finding request)\<lparr>fd_road_bin_ids := bl_road_bin_ids l\<rparr>"
    using assms by (auto simp: localization_of_native_def Let_def split: option.splits)
  have "request \<in> set requests" using map_of_SomeD [OF request [unfolded last_by_def]] by auto
  then show ?thesis using inside by (auto simp: l f list_all_iff nat_less_iff)
qed

text \<open>C16: A coverage ledger that is accepted, whatever the native aggregation returned, has pairwise different
  bins, only bins of the graph and as many as the graph has, hence each exactly once; every bin passes its
  check; a localized finding is one of the requests with its bins filled in, and those are bins of the ledger;
  and the ledger names its sources in order and carries the identity of its content.\<close>

theorem ledger_has_every_bin_once:
  "case aggregate_directed_road_bins sha fl aggregate g paths evidence findings profile profile_file of
     Inl e \<Rightarrow> True
   | Inr l \<Rightarrow>
       distinct (map bin_key (cl_bins l)) \<and> set (map bin_key (cl_bins l)) \<subseteq> set (graph_bins fl (bf_parameters profile) g) \<and>
       (if list_all (\<lambda>a. 0 \<le> bin_count fl (bf_parameters profile) a) (rg_arcs g)
        then set (map bin_key (cl_bins l)) = set (graph_bins fl (bf_parameters profile) g) else True) \<and>
       list_all (\<lambda>b. check_bin_coverage sha fl b = Inr ()) (cl_bins l) \<and>
       list_all (\<lambda>f. set (fd_road_bin_ids f) \<subseteq> set (map bc_road_bin_id (cl_bins l)) \<and>
         f\<lparr>fd_road_bin_ids := []\<rparr> \<in> set (map (\<lambda>q. (lq_finding q)\<lparr>fd_road_bin_ids := []\<rparr>) findings)) (cl_findings l) \<and>
       cl_match_ids l = sort (map px_road_match_id paths) \<and> ledger_identity sha fl l = Inr (cl_ledger_id l)"
proof (cases "aggregate_directed_road_bins sha fl aggregate g paths evidence findings profile profile_file")
  case (Inr l)
  let ?p = "bf_parameters profile"
  let ?fill = "\<lambda>q. (lq_finding q)\<lparr>fd_road_bin_ids := []\<rparr>"
  obtain raw :: raw_binning and localized where count: "int (length (rw_bins raw)) = sum_list (map (bin_count fl ?p) (rg_arcs g))"
    and bins: "mapE (bin_of_native sha fl g ?p) (rw_bins raw) = Inr (cl_bins l)"
    and localized: "mapE (localization_of_native sha fl findings (map bc_road_bin_id (cl_bins l))) (rw_localizations raw) = Inr localized"
    and found: "cl_findings l = map snd localized" and matches: "cl_match_ids l = sort (map px_road_match_id paths)"
    and checked: "check_coverage_ledger sha fl l = Inr ()"
    using aggregate_Inr [OF Inr] by blast
  note facts = bins_of_native [OF bins]
  have ledger: "distinct (map bc_road_bin_id (cl_bins l))" "ledger_identity sha fl l = Inr (cl_ledger_id l)"
    using checked by (auto simp: check_coverage_ledger_def)
  have keys: "distinct (map bin_key (cl_bins l))"
  proof (rule distinct_map_coarser [OF ledger(1)])
    fix b c assume "b \<in> set (cl_bins l)" "c \<in> set (cl_bins l)" "bin_key b = bin_key c"
    then show "bc_road_bin_id b = bc_road_bin_id c" using facts(4) [of b] facts(4) [of c] by (simp add: bin_key_def)
  qed
  have "set (map bin_key (cl_bins l)) = set (graph_bins fl ?p g)" if "list_all (\<lambda>a. 0 \<le> bin_count fl ?p a) (rg_arcs g)"
  proof (rule all_keys [OF keys facts(2)])
    have "int (length (graph_bins fl ?p g)) = int (length (map bin_key (cl_bins l)))"
      unfolding length_graph_bins [OF that] length_map facts(1) count ..
    then show "length (graph_bins fl ?p g) = length (map bin_key (cl_bins l))" by simp
  qed
  moreover have "list_all (\<lambda>f. set (fd_road_bin_ids f) \<subseteq> set (map bc_road_bin_id (cl_bins l)) \<and>
      f\<lparr>fd_road_bin_ids := []\<rparr> \<in> set (map ?fill findings)) (cl_findings l)"
  proof (unfold found list_all_iff set_map, rule ballI)
    fix f assume "f \<in> snd ` set localized"
    then obtain m where "(m, f) \<in> set localized" by auto
    then obtain r where "localization_of_native sha fl findings (map bc_road_bin_id (cl_bins l)) r = Inr (m, f)"
      using localized by (auto simp: mapE_eq_Inr_iff list_all2_conv_all_nth in_set_conv_nth)
    from localization_of_native_Inr [OF this]
    show "set (fd_road_bin_ids f) \<subseteq> bc_road_bin_id ` set (cl_bins l) \<and> f\<lparr>fd_road_bin_ids := []\<rparr> \<in> ?fill ` set findings" by simp
  qed
  ultimately show ?thesis using keys facts(2,3) matches ledger(2) unfolding Inr sum.case by simp
qed simp

end
