(* ===== verification/TopologyHypotheses.thy ===== *)
theory TopologyHypotheses
  imports RoadBins
begin

text \<open>
  Topology disagreement hypotheses, \<^verbatim>\<open>python/cartosentry/topology_hypotheses.py\<close>: the frozen
  profile, the comparison view of a road graph, the off-map intervals, the clusters and review hypotheses
  with their identities and checks, and \<open>mine_topology_hypotheses\<close> around the native mining, whose
  result is arbitrary.
\<close>

section \<open>The profile\<close>

definition TOPOLOGY_PROFILE_IMMUTABLE_SHA256 :: string where
  "TOPOLOGY_PROFILE_IMMUTABLE_SHA256 = ''fdd67acdbaa5587f4cfa0643b48ed1e380bd9b975fd8bf656dced57ecd546675''"

definition TOPOLOGY_PROFILE_FILE_SHA256 :: string where
  "TOPOLOGY_PROFILE_FILE_SHA256 = ''79202f14439bcc60cb985d903790f4243ff4c308088e6107f5763c5ed3a78084''"

definition GRAPH_PROFILE_FILE_SHA256 :: string where
  "GRAPH_PROFILE_FILE_SHA256 = ''c1e11f4a78bb912d1ee94058bf37b1312062cfbd0fd5c6bf1497f9179cc8e4e0''"

record topology_authorities =
  ta_graph_file_sha256 :: string
  ta_decoder_file_sha256 :: string
  ta_binning_file_sha256 :: string
  ta_charter_file_sha256 :: string

record topology_parameters =
  ty_minimum_quality :: rat
  ty_minimum_length :: rat
  ty_resample_points :: nat
  ty_cluster_mean_distance :: rat
  ty_cluster_endpoint_distance :: rat
  ty_heading_difference :: rat
  ty_minimum_traversals :: nat
  ty_snap_radius :: rat
  ty_geometry_mean_distance :: rat
  ty_endpoint_tolerance :: rat
  ty_maximum_intervals :: nat
  ty_maximum_points_per_interval :: nat
  ty_maximum_total_points :: nat
  ty_maximum_graph_nodes :: nat
  ty_maximum_graph_arcs :: nat
  ty_maximum_points_per_arc :: nat
  ty_maximum_total_graph_points :: nat
  ty_maximum_comparisons :: nat
  ty_maximum_clusters :: nat

record topology_profile =
  tf_immutable_sha256 :: string
  tf_authorities :: topology_authorities
  tf_parameters :: topology_parameters

definition topology_authorities_validate :: "json \<Rightarrow> topology_authorities res" where
  "topology_authorities_validate v =
     bindE (as_object [''graph_import_profile_file_sha256'', ''map_decoder_profile_file_sha256'',
       ''road_binning_profile_file_sha256'', ''numerical_charter_file_sha256''] v) (\<lambda>d.
     bindE (field ''graph_import_profile_file_sha256'' (as_text is_sha256) d) (\<lambda>graph0.
     bindE (field ''map_decoder_profile_file_sha256'' (as_text is_sha256) d) (\<lambda>decoder.
     bindE (field ''road_binning_profile_file_sha256'' (as_text is_sha256) d) (\<lambda>binning.
     bindE (field ''numerical_charter_file_sha256'' (as_text is_sha256) d) (\<lambda>charter.
       Inr \<lparr>ta_graph_file_sha256 = graph0, ta_decoder_file_sha256 = decoder, ta_binning_file_sha256 = binning,
            ta_charter_file_sha256 = charter\<rparr>)))))"

definition topology_authorities_dump :: "topology_authorities \<Rightarrow> json" where
  "topology_authorities_dump a = JDict
     [(''graph_import_profile_file_sha256'', JStr (ta_graph_file_sha256 a)),
      (''map_decoder_profile_file_sha256'', JStr (ta_decoder_file_sha256 a)),
      (''road_binning_profile_file_sha256'', JStr (ta_binning_file_sha256 a)),
      (''numerical_charter_file_sha256'', JStr (ta_charter_file_sha256 a))]"

definition check_topology_budgets :: "topology_parameters \<Rightarrow> unit res" where
  "check_topology_budgets p =
     ensure (ty_maximum_comparisons p \<le> ty_maximum_intervals p * (ty_maximum_intervals p - 1) div 2)
       (ValueError ''pairwise topology budget exceeds the interval ceiling'')"

definition topology_parameters_validate :: "float_ops \<Rightarrow> json \<Rightarrow> topology_parameters res" where
  "topology_parameters_validate fl v =
     (let positive = as_float fl (\<lambda>x. 0 < x); nonnegative = as_float fl (\<lambda>x. 0 \<le> x) in
     bindE (as_object [''minimum_positioning_quality'', ''minimum_interval_length_m'', ''resample_point_count'',
       ''maximum_cluster_mean_distance_m'', ''maximum_cluster_endpoint_distance_m'', ''maximum_heading_difference_rad'',
       ''minimum_independent_traversals'', ''endpoint_snap_radius_m'', ''geometry_disagreement_mean_distance_m'',
       ''graph_endpoint_tolerance_m'', ''maximum_intervals'', ''maximum_points_per_interval'', ''maximum_total_points'',
       ''maximum_graph_nodes'', ''maximum_graph_arcs'', ''maximum_points_per_graph_arc'', ''maximum_total_graph_points'',
       ''maximum_pairwise_comparisons'', ''maximum_clusters''] v) (\<lambda>d.
     bindE (field ''minimum_positioning_quality'' (as_float fl (\<lambda>x. 0 \<le> x \<and> x \<le> 1)) d) (\<lambda>quality.
     bindE (field ''minimum_interval_length_m'' positive d) (\<lambda>len.
     bindE (field ''resample_point_count'' (as_nat 2) d) (\<lambda>resample.
     bindE (field ''maximum_cluster_mean_distance_m'' positive d) (\<lambda>mean.
     bindE (field ''maximum_cluster_endpoint_distance_m'' positive d) (\<lambda>endpoint.
     bindE (field ''maximum_heading_difference_rad'' (as_float fl (\<lambda>x. 0 \<le> x \<and> x \<le> float_pi)) d) (\<lambda>heading.
     bindE (field ''minimum_independent_traversals'' (as_nat 1) d) (\<lambda>traversals.
     bindE (field ''endpoint_snap_radius_m'' positive d) (\<lambda>snap.
     bindE (field ''geometry_disagreement_mean_distance_m'' positive d) (\<lambda>geometry.
     bindE (field ''graph_endpoint_tolerance_m'' nonnegative d) (\<lambda>tolerance.
     bindE (field ''maximum_intervals'' (as_nat 1) d) (\<lambda>intervals.
     bindE (field ''maximum_points_per_interval'' (as_nat 2) d) (\<lambda>interval_points.
     bindE (field ''maximum_total_points'' (as_nat 2) d) (\<lambda>points.
     bindE (field ''maximum_graph_nodes'' (as_nat 1) d) (\<lambda>nodes.
     bindE (field ''maximum_graph_arcs'' (as_nat 1) d) (\<lambda>arcs.
     bindE (field ''maximum_points_per_graph_arc'' (as_nat 2) d) (\<lambda>arc_points.
     bindE (field ''maximum_total_graph_points'' (as_nat 2) d) (\<lambda>graph_points.
     bindE (field ''maximum_pairwise_comparisons'' (as_nat 1) d) (\<lambda>comparisons.
     bindE (field ''maximum_clusters'' (as_nat 1) d) (\<lambda>clusters.
     let p = \<lparr>ty_minimum_quality = quality, ty_minimum_length = len, ty_resample_points = resample, ty_cluster_mean_distance = mean,
              ty_cluster_endpoint_distance = endpoint, ty_heading_difference = heading, ty_minimum_traversals = traversals,
              ty_snap_radius = snap, ty_geometry_mean_distance = geometry, ty_endpoint_tolerance = tolerance,
              ty_maximum_intervals = intervals, ty_maximum_points_per_interval = interval_points, ty_maximum_total_points = points,
              ty_maximum_graph_nodes = nodes, ty_maximum_graph_arcs = arcs, ty_maximum_points_per_arc = arc_points,
              ty_maximum_total_graph_points = graph_points, ty_maximum_comparisons = comparisons, ty_maximum_clusters = clusters\<rparr>
     in bindE (check_topology_budgets p) (\<lambda>_. Inr p))))))))))))))))))))))"

definition topology_parameters_dump :: "float_ops \<Rightarrow> topology_parameters \<Rightarrow> json" where
  "topology_parameters_dump fl p = JDict
     [(''minimum_positioning_quality'', float_json fl (ty_minimum_quality p)), (''minimum_interval_length_m'', float_json fl (ty_minimum_length p)),
      (''resample_point_count'', JInt (int (ty_resample_points p))),
      (''maximum_cluster_mean_distance_m'', float_json fl (ty_cluster_mean_distance p)),
      (''maximum_cluster_endpoint_distance_m'', float_json fl (ty_cluster_endpoint_distance p)),
      (''maximum_heading_difference_rad'', float_json fl (ty_heading_difference p)),
      (''minimum_independent_traversals'', JInt (int (ty_minimum_traversals p))),
      (''endpoint_snap_radius_m'', float_json fl (ty_snap_radius p)),
      (''geometry_disagreement_mean_distance_m'', float_json fl (ty_geometry_mean_distance p)),
      (''graph_endpoint_tolerance_m'', float_json fl (ty_endpoint_tolerance p)),
      (''maximum_intervals'', JInt (int (ty_maximum_intervals p))),
      (''maximum_points_per_interval'', JInt (int (ty_maximum_points_per_interval p))),
      (''maximum_total_points'', JInt (int (ty_maximum_total_points p))), (''maximum_graph_nodes'', JInt (int (ty_maximum_graph_nodes p))),
      (''maximum_graph_arcs'', JInt (int (ty_maximum_graph_arcs p))),
      (''maximum_points_per_graph_arc'', JInt (int (ty_maximum_points_per_arc p))),
      (''maximum_total_graph_points'', JInt (int (ty_maximum_total_graph_points p))),
      (''maximum_pairwise_comparisons'', JInt (int (ty_maximum_comparisons p))), (''maximum_clusters'', JInt (int (ty_maximum_clusters p)))]"

definition assert_topology_profile :: "(string \<Rightarrow> string) \<Rightarrow> float_ops \<Rightarrow> topology_profile \<Rightarrow> unit res" where
  "assert_topology_profile sha fl p =
     (let authorities = tf_authorities p in
     bindE (canonical_hash sha (frozen_dump ''topology-hypotheses-v1'' ''FROZEN_BEFORE_M5_5_ACCEPTANCE''
        (topology_authorities_dump authorities) (topology_parameters_dump fl (tf_parameters p)))) (\<lambda>h.
     bindE (ensure (tf_immutable_sha256 p = TOPOLOGY_PROFILE_IMMUTABLE_SHA256 \<and> h = tf_immutable_sha256 p)
       (ValueError ''topology-hypothesis profile identity is not pinned'')) (\<lambda>_.
       ensure (ta_graph_file_sha256 authorities = GRAPH_PROFILE_FILE_SHA256
         \<and> ta_decoder_file_sha256 authorities = DECODER_PROFILE_FILE_SHA256
         \<and> ta_binning_file_sha256 authorities = BINNING_PROFILE_FILE_SHA256)
         (ValueError ''topology-hypothesis profile authorities are not exact''))))"

definition topology_profile_validate :: "(string \<Rightarrow> string) \<Rightarrow> float_ops \<Rightarrow> json \<Rightarrow> topology_profile res" where
  "topology_profile_validate sha fl v =
     bindE (frozen_fields ''topology-hypotheses-v1'' ''FROZEN_BEFORE_M5_5_ACCEPTANCE'' v) (\<lambda>(d, immutable).
     bindE (field ''authorities'' topology_authorities_validate d) (\<lambda>authorities.
     bindE (field ''parameter_charter'' (topology_parameters_validate fl) d) (\<lambda>parameters.
     let p = \<lparr>tf_immutable_sha256 = immutable, tf_authorities = authorities, tf_parameters = parameters\<rparr>
     in bindE (assert_topology_profile sha fl p) (\<lambda>_. Inr p))))"

definition load_topology_hypothesis_profile ::
  "(string \<Rightarrow> string) \<Rightarrow> (string \<Rightarrow> string) \<Rightarrow> float_ops \<Rightarrow> fs_node \<Rightarrow> (topology_profile \<times> string) res" where
  "load_topology_hypothesis_profile sha float_repr fl node =
     bindE (load_frozen sha float_repr ''topology-hypothesis profile'' Inr node) (\<lambda>(raw, file_sha256).
     bindE (ensure (file_sha256 = TOPOLOGY_PROFILE_FILE_SHA256)
       (ValueError ''topology-hypothesis profile file identity is not pinned'')) (\<lambda>_.
     bindE (topology_profile_validate sha fl raw) (\<lambda>p. Inr (p, file_sha256))))"

section \<open>The comparison view of a graph\<close>

type_synonym point2 = "rat \<times> rat"

definition point2_json :: "float_ops \<Rightarrow> point2 \<Rightarrow> json" where
  "point2_json fl p = (case p of (x, y) \<Rightarrow> JList [float_json fl x, float_json fl y])"

definition points_json :: "float_ops \<Rightarrow> point2 list \<Rightarrow> json" where
  "points_json fl ps = JList (map (point2_json fl) ps)"

record topology_node =
  tn_node_id :: string
  tn_position :: point2

record topology_arc =
  tx_arc_id :: string
  tx_from_node_id :: string
  tx_to_node_id :: string
  tx_geometry :: "point2 list"

record topology_view =
  tw_view_id :: string
  tw_road_graph_id :: string
  tw_frame_id :: string
  tw_nodes :: "topology_node list"
  tw_arcs :: "topology_arc list"

definition check_topology_node :: "topology_node \<Rightarrow> unit res" where
  "check_topology_node n = ensure (tn_node_id n \<noteq> []) (invalid_model ''TopologyGraphNode'')"

definition check_topology_arc :: "topology_arc \<Rightarrow> unit res" where
  "check_topology_arc a =
     bindE (ensure (tx_arc_id a \<noteq> [] \<and> tx_from_node_id a \<noteq> [] \<and> tx_to_node_id a \<noteq> []) (invalid_model ''TopologyGraphArc'')) (\<lambda>_.
       ensure (2 \<le> length (tx_geometry a)) (ValueError ''topology graph arcs require at least two geometry points''))"

definition topology_node_dump :: "float_ops \<Rightarrow> topology_node \<Rightarrow> json" where
  "topology_node_dump fl n = JDict [(''node_id'', JStr (tn_node_id n)), (''position_local_m'', point2_json fl (tn_position n))]"

definition topology_arc_dump :: "float_ops \<Rightarrow> topology_arc \<Rightarrow> json" where
  "topology_arc_dump fl a = JDict
     [(''arc_id'', JStr (tx_arc_id a)), (''from_node_id'', JStr (tx_from_node_id a)), (''to_node_id'', JStr (tx_to_node_id a)),
      (''geometry_local_m'', points_json fl (tx_geometry a))]"

definition topology_view_payload :: "float_ops \<Rightarrow> topology_view \<Rightarrow> json" where
  "topology_view_payload fl w = JDict
     [(''schema_version'', JStr ''cartosentry.topology-graph-view.v1''), (''source_road_graph_id'', JStr (tw_road_graph_id w)),
      (''coordinate_frame_id'', JStr (tw_frame_id w)), (''nodes'', JList (map (topology_node_dump fl) (tw_nodes w))),
      (''arcs'', JList (map (topology_arc_dump fl) (tw_arcs w)))]"

text \<open>The pattern \<^verbatim>\<open>^[a-z0-9-]+-sha256-[0-9a-f]{64}$\<close>: the last 72 characters are the
  separator and the digest, the rest is not empty.\<close>

definition is_any_hash_id :: "string \<Rightarrow> bool" where
  "is_any_hash_id s \<longleftrightarrow>
     (let n = length s - 72; kind0 = take n s; rest = drop n s in
      72 < length s \<and> list_all (\<lambda>c. is_lower c \<or> is_digit c \<or> c = CHR ''-'') kind0 \<and> prefix ''-sha256-'' rest \<and> is_sha256 (drop 8 rest))"

definition check_topology_view :: "(string \<Rightarrow> string) \<Rightarrow> float_ops \<Rightarrow> topology_view \<Rightarrow> unit res" where
  "check_topology_view sha fl w =
     (let node_ids = map tn_node_id (tw_nodes w); arc_ids = map tx_arc_id (tw_arcs w) in
     bindE (ensure (is_id_of ''topology-graph-view'' (tw_view_id w) \<and> is_any_hash_id (tw_road_graph_id w) \<and> tw_frame_id w \<noteq> [])
       (invalid_model ''TopologyGraphView'')) (\<lambda>_.
     bindE (ensure (is_canonical node_ids) (ValueError ''topology graph nodes are not unique and canonical'')) (\<lambda>_.
     bindE (ensure (is_canonical arc_ids) (ValueError ''topology graph arcs are not unique and canonical'')) (\<lambda>_.
     bindE (ensure (list_all (\<lambda>a. tx_from_node_id a \<in> set node_ids \<and> tx_to_node_id a \<in> set node_ids) (tw_arcs w))
       (ValueError ''topology graph arcs reference unknown nodes'')) (\<lambda>_.
     bindE (hashed_id sha ''topology-graph-view'' (topology_view_payload fl w)) (\<lambda>expected.
       ensure (tw_view_id w = expected) (ValueError ''topology graph view identity is invalid'')))))))"

definition make_topology_view_from_primitives ::
  "(string \<Rightarrow> string) \<Rightarrow> float_ops \<Rightarrow> string \<Rightarrow> string \<Rightarrow> topology_node list \<Rightarrow> topology_arc list \<Rightarrow> topology_view res" where
  "make_topology_view_from_primitives sha fl graph_id frame_id nodes arcs =
     (let w = \<lparr>tw_view_id = [], tw_road_graph_id = graph_id, tw_frame_id = frame_id, tw_nodes = sort_key tn_node_id nodes,
              tw_arcs = sort_key tx_arc_id arcs\<rparr> in
     bindE (hashed_id sha ''topology-graph-view'' (topology_view_payload fl w)) (\<lambda>i.
     let w' = w\<lparr>tw_view_id := i\<rparr> in bindE (check_topology_view sha fl w') (\<lambda>_. Inr w')))"

definition flat :: "triple3 \<Rightarrow> point2" where
  "flat p = (case p of (x, y, z) \<Rightarrow> (x, y))"

definition view_node :: "road_node \<Rightarrow> topology_node res" where
  "view_node n =
     (let m = \<lparr>tn_node_id = rd_node_id n, tn_position = flat (rd_position_local_m n)\<rparr>
      in bindE (check_topology_node m) (\<lambda>_. Inr m))"

definition view_arc :: "road_arc \<Rightarrow> topology_arc res" where
  "view_arc a =
     (let b = \<lparr>tx_arc_id = ra_arc_id a, tx_from_node_id = ra_from_node_id a, tx_to_node_id = ra_to_node_id a,
              tx_geometry = map flat (ra_geometry_local_m a)\<rparr>
      in bindE (check_topology_arc b) (\<lambda>_. Inr b))"

definition make_topology_graph_view :: "(string \<Rightarrow> string) \<Rightarrow> float_ops \<Rightarrow> road_graph \<Rightarrow> topology_view res" where
  "make_topology_graph_view sha fl g =
     bindE (validate_graph_identity sha fl g) (\<lambda>_.
     bindE (mapE view_node (rg_nodes g)) (\<lambda>nodes.
     bindE (mapE view_arc (rg_arcs g)) (\<lambda>arcs.
       make_topology_view_from_primitives sha fl (rg_graph_id g) (nf_frame_id (gf_frame (rg_local_frame g))) nodes arcs)))"

section \<open>Off-map intervals\<close>

record off_map_interval =
  of_interval_id :: string
  of_sequence_id :: string
  of_traversal_id :: string
  of_source_group_id :: string
  of_frame_id :: string
  of_off_map :: bool
  of_observable :: bool
  of_direction_confident :: bool
  of_stationary :: bool
  of_quality :: rat
  of_points :: "point2 list"

definition off_map_payload :: "float_ops \<Rightarrow> off_map_interval \<Rightarrow> json" where
  "off_map_payload fl v = JDict
     [(''sequence_id'', JStr (of_sequence_id v)), (''traversal_id'', JStr (of_traversal_id v)),
      (''source_group_id'', JStr (of_source_group_id v)), (''coordinate_frame_id'', JStr (of_frame_id v)),
      (''off_map_state'', JBool (of_off_map v)), (''positioning_observable'', JBool (of_observable v)),
      (''direction_confident'', JBool (of_direction_confident v)), (''stationary'', JBool (of_stationary v)),
      (''positioning_quality'', float_json fl (of_quality v)), (''points_local_m'', points_json fl (of_points v))]"

definition check_off_map_interval :: "(string \<Rightarrow> string) \<Rightarrow> float_ops \<Rightarrow> off_map_interval \<Rightarrow> unit res" where
  "check_off_map_interval sha fl v =
     bindE (ensure (is_id_of ''off-map-interval'' (of_interval_id v) \<and> of_sequence_id v \<noteq> [] \<and> of_traversal_id v \<noteq> []
         \<and> of_source_group_id v \<noteq> [] \<and> of_frame_id v \<noteq> [] \<and> 0 \<le> of_quality v \<and> of_quality v \<le> 1)
       (invalid_model ''OffMapTrajectoryInterval'')) (\<lambda>_.
     bindE (ensure (2 \<le> length (of_points v)) (ValueError ''off-map intervals require at least two points'')) (\<lambda>_.
     bindE (hashed_id sha ''off-map-interval'' (off_map_payload fl v)) (\<lambda>expected.
       ensure (of_interval_id v = expected) (ValueError ''off-map interval identity is invalid''))))"

definition make_off_map_trajectory_interval ::
  "(string \<Rightarrow> string) \<Rightarrow> float_ops \<Rightarrow> string \<Rightarrow> string \<Rightarrow> string \<Rightarrow> string \<Rightarrow> bool \<Rightarrow> bool \<Rightarrow> bool \<Rightarrow> bool \<Rightarrow> rat \<Rightarrow> point2 list \<Rightarrow>
   off_map_interval res" where
  "make_off_map_trajectory_interval sha fl sequence traversal source_group frame off_map observable confident stationary quality points =
     (let v = \<lparr>of_interval_id = [], of_sequence_id = sequence, of_traversal_id = traversal, of_source_group_id = source_group,
              of_frame_id = frame, of_off_map = off_map, of_observable = observable, of_direction_confident = confident,
              of_stationary = stationary, of_quality = quality, of_points = points\<rparr> in
     bindE (hashed_id sha ''off-map-interval'' (off_map_payload fl v)) (\<lambda>i.
     let w = v\<lparr>of_interval_id := i\<rparr> in bindE (check_off_map_interval sha fl w) (\<lambda>_. Inr w)))"

section \<open>Clusters, hypotheses and the report\<close>

datatype topology_kind = POSSIBLE_MISSING_CONNECTION | POSSIBLE_GEOMETRY_DISAGREEMENT

definition topology_kind_name :: "topology_kind \<Rightarrow> string" where
  "topology_kind_name k = (case k of POSSIBLE_MISSING_CONNECTION \<Rightarrow> ''POSSIBLE_MISSING_CONNECTION''
     | POSSIBLE_GEOMETRY_DISAGREEMENT \<Rightarrow> ''POSSIBLE_GEOMETRY_DISAGREEMENT'')"

definition parse_topology_kind :: "string \<Rightarrow> topology_kind res" where
  "parse_topology_kind s =
     (case filter (\<lambda>k. topology_kind_name k = s) [POSSIBLE_MISSING_CONNECTION, POSSIBLE_GEOMETRY_DISAGREEMENT] of
        k # _ \<Rightarrow> Inr k | [] \<Rightarrow> Inl (ValueError (s @ '' is not a valid TopologyHypothesisKind'')))"

record rejected_counts =
  rj_not_off_map :: int
  rj_unobservable :: int
  rj_uncertain :: int
  rj_stationary :: int
  rj_quality :: int
  rj_short :: int

definition check_rejected_counts :: "rejected_counts \<Rightarrow> unit res" where
  "check_rejected_counts c =
     ensure (0 \<le> rj_not_off_map c \<and> 0 \<le> rj_unobservable c \<and> 0 \<le> rj_uncertain c \<and> 0 \<le> rj_stationary c \<and> 0 \<le> rj_quality c
       \<and> 0 \<le> rj_short c) (invalid_model ''RejectedIntervalCounts'')"

definition rejected_counts_dump :: "rejected_counts \<Rightarrow> json" where
  "rejected_counts_dump c = JDict
     [(''not_off_map'', JInt (rj_not_off_map c)), (''unobservable_positioning'', JInt (rj_unobservable c)),
      (''uncertain_direction'', JInt (rj_uncertain c)), (''stationary'', JInt (rj_stationary c)),
      (''insufficient_positioning_quality'', JInt (rj_quality c)), (''short_interval'', JInt (rj_short c))]"

definition rejected_total :: "rejected_counts \<Rightarrow> int" where
  "rejected_total c = rj_not_off_map c + rj_unobservable c + rj_uncertain c + rj_stationary c + rj_quality c + rj_short c"

record topology_cluster =
  tc_cluster_id :: string
  tc_interval_ids :: "string list"
  tc_traversals :: int
  tc_corridor :: "point2 list"
  tc_start_node_id :: "string option"
  tc_end_node_id :: "string option"
  tc_start_distance :: "rat option"
  tc_end_distance :: "rat option"

definition cluster_payload :: "float_ops \<Rightarrow> topology_cluster \<Rightarrow> (string \<times> json) list" where
  "cluster_payload fl c =
     [(''supporting_interval_ids'', strings_json (tc_interval_ids c)), (''independent_traversal_count'', JInt (tc_traversals c)),
      (''fitted_corridor_local_m'', points_json fl (tc_corridor c)), (''start_node_id'', option_json (tc_start_node_id c)),
      (''end_node_id'', option_json (tc_end_node_id c)), (''start_endpoint_distance_m'', optional_float fl (tc_start_distance c)),
      (''end_endpoint_distance_m'', optional_float fl (tc_end_distance c))]"

definition cluster_dump :: "float_ops \<Rightarrow> topology_cluster \<Rightarrow> json" where
  "cluster_dump fl c = JDict ((''cluster_id'', JStr (tc_cluster_id c)) # cluster_payload fl c)"

definition check_topology_cluster :: "(string \<Rightarrow> string) \<Rightarrow> float_ops \<Rightarrow> topology_cluster \<Rightarrow> unit res" where
  "check_topology_cluster sha fl c =
     bindE (ensure (is_id_of ''topology-cluster'' (tc_cluster_id c) \<and> list_all (is_id_of ''off-map-interval'') (tc_interval_ids c)
         \<and> 0 < tc_traversals c \<and> in_bounds (tc_start_distance c) (\<lambda>x. 0 \<le> x) \<and> in_bounds (tc_end_distance c) (\<lambda>x. 0 \<le> x))
       (invalid_model ''TopologyTrajectoryCluster'')) (\<lambda>_.
     bindE (ensure (is_canonical (tc_interval_ids c)) (ValueError ''topology cluster interval identities are not canonical'')) (\<lambda>_.
     bindE (ensure (2 \<le> length (tc_corridor c)) (ValueError ''topology cluster corridor is underspecified'')) (\<lambda>_.
     bindE (ensure ((tc_start_node_id c = None) = (tc_start_distance c = None))
       (ValueError ''topology cluster start-node evidence is incomplete'')) (\<lambda>_.
     bindE (ensure ((tc_end_node_id c = None) = (tc_end_distance c = None))
       (ValueError ''topology cluster end-node evidence is incomplete'')) (\<lambda>_.
     bindE (hashed_id sha ''topology-cluster'' (JDict (cluster_payload fl c))) (\<lambda>expected.
       ensure (tc_cluster_id c = expected) (ValueError ''topology cluster identity is invalid'')))))))"

record review_hypothesis =
  rh_hypothesis_id :: string
  rh_kind :: topology_kind
  rh_road_graph_id :: string
  rh_cluster_id :: string
  rh_start_node_id :: string
  rh_end_node_id :: string
  rh_compared_arc_id :: "string option"
  rh_endpoint_error :: rat
  rh_corridor_error :: "rat option"

text \<open>The label and the three statements on review are one literal each.\<close>

definition review_payload :: "float_ops \<Rightarrow> review_hypothesis \<Rightarrow> (string \<times> json) list" where
  "review_payload fl h =
     [(''result_label'', JStr ''REVIEW_HYPOTHESIS_NOT_GROUND_TRUTH''), (''kind'', JStr (topology_kind_name (rh_kind h))),
      (''source_road_graph_id'', JStr (rh_road_graph_id h)), (''cluster_id'', JStr (rh_cluster_id h)),
      (''start_node_id'', JStr (rh_start_node_id h)), (''end_node_id'', JStr (rh_end_node_id h)),
      (''compared_arc_id'', option_json (rh_compared_arc_id h)),
      (''endpoint_localization_error_m'', float_json fl (rh_endpoint_error h)),
      (''geometry_corridor_error_m'', optional_float fl (rh_corridor_error h)), (''review_required'', JBool True),
      (''automatic_map_edit_permitted'', JBool False), (''ground_truth_status'', JStr ''NOT_GROUND_TRUTH'')]"

definition review_dump :: "float_ops \<Rightarrow> review_hypothesis \<Rightarrow> json" where
  "review_dump fl h = JDict ((''hypothesis_id'', JStr (rh_hypothesis_id h)) # review_payload fl h)"

definition check_review_hypothesis :: "(string \<Rightarrow> string) \<Rightarrow> float_ops \<Rightarrow> review_hypothesis \<Rightarrow> unit res" where
  "check_review_hypothesis sha fl h =
     bindE (ensure (is_id_of ''topology-hypothesis'' (rh_hypothesis_id h) \<and> rh_road_graph_id h \<noteq> []
         \<and> is_id_of ''topology-cluster'' (rh_cluster_id h) \<and> rh_start_node_id h \<noteq> [] \<and> rh_end_node_id h \<noteq> [] \<and> 0 \<le> rh_endpoint_error h
         \<and> in_bounds (rh_corridor_error h) (\<lambda>x. 0 \<le> x)) (invalid_model ''TopologyReviewHypothesis'')) (\<lambda>_.
     bindE (case rh_kind h of
         POSSIBLE_MISSING_CONNECTION \<Rightarrow> ensure (rh_compared_arc_id h = None \<and> rh_corridor_error h = None)
           (ValueError ''missing-connection hypothesis names a compared arc'')
       | POSSIBLE_GEOMETRY_DISAGREEMENT \<Rightarrow> ensure (rh_compared_arc_id h \<noteq> None \<and> rh_corridor_error h \<noteq> None)
           (ValueError ''geometry-disagreement hypothesis lacks compared-arc evidence'')) (\<lambda>_.
     bindE (hashed_id sha ''topology-hypothesis'' (JDict (review_payload fl h))) (\<lambda>expected.
       ensure (rh_hypothesis_id h = expected) (ValueError ''topology hypothesis identity is invalid''))))"

record topology_report =
  rt_report_id :: string
  rt_road_graph_id :: string
  rt_view_id :: string
  rt_profile_file_sha256 :: string
  rt_profile_immutable_sha256 :: string
  rt_selected_ids :: "string list"
  rt_rejected :: rejected_counts
  rt_clusters :: "topology_cluster list"
  rt_hypotheses :: "review_hypothesis list"

definition topology_report_payload :: "float_ops \<Rightarrow> topology_report \<Rightarrow> json" where
  "topology_report_payload fl r = JDict
     [(''schema_version'', JStr ''cartosentry.topology-hypothesis-report.v1''), (''algorithm_backend'', JStr ALGORITHM_BACKEND),
      (''source_road_graph_id'', JStr (rt_road_graph_id r)), (''topology_graph_view_id'', JStr (rt_view_id r)),
      (''profile_file_sha256'', JStr (rt_profile_file_sha256 r)), (''profile_immutable_sha256'', JStr (rt_profile_immutable_sha256 r)),
      (''selected_interval_ids'', strings_json (rt_selected_ids r)), (''rejected_interval_counts'', rejected_counts_dump (rt_rejected r)),
      (''clusters'', JList (map (cluster_dump fl) (rt_clusters r))), (''hypotheses'', JList (map (review_dump fl) (rt_hypotheses r))),
      (''result_semantics'', JStr ''REVIEW_HYPOTHESES_ONLY_NO_GROUND_TRUTH_OR_AUTOMATIC_MAP_EDIT'')]"

definition check_topology_report :: "(string \<Rightarrow> string) \<Rightarrow> float_ops \<Rightarrow> topology_report \<Rightarrow> unit res" where
  "check_topology_report sha fl r =
     bindE (ensure (is_id_of ''topology-report'' (rt_report_id r) \<and> rt_road_graph_id r \<noteq> [] \<and> rt_view_id r \<noteq> []
         \<and> is_sha256 (rt_profile_file_sha256 r) \<and> is_sha256 (rt_profile_immutable_sha256 r))
       (invalid_model ''TopologyHypothesisReport'')) (\<lambda>_.
     bindE (check_rejected_counts (rt_rejected r)) (\<lambda>_.
     bindE (mapE (check_topology_cluster sha fl) (rt_clusters r)) (\<lambda>_.
     bindE (mapE (check_review_hypothesis sha fl) (rt_hypotheses r)) (\<lambda>_.
     bindE (ensure (is_canonical (rt_selected_ids r)) (ValueError ''selected topology intervals are not canonical'')) (\<lambda>_.
     bindE (ensure (list_all (\<lambda>h. rh_cluster_id h \<in> set (map tc_cluster_id (rt_clusters r))) (rt_hypotheses r))
       (ValueError ''topology hypothesis references an unknown cluster'')) (\<lambda>_.
     bindE (hashed_id sha ''topology-report'' (topology_report_payload fl r)) (\<lambda>expected.
       ensure (rt_report_id r = expected) (ValueError ''topology hypothesis report identity is invalid''))))))))"

section \<open>The native mining\<close>

record mining_request =
  mq_intervals :: "off_map_interval list"
  mq_nodes :: "(string \<times> point2) list"
  mq_arcs :: "(string \<times> nat \<times> nat \<times> point2 list) list"
  mq_parameters :: topology_parameters

record raw_cluster =
  rc_ordinal :: int
  rc_interval_indices :: "int list"
  rc_traversals :: int
  rc_start_node :: "int option"
  rc_end_node :: "int option"
  rc_corridor :: "rat list list"
  rc_start_distance :: "rat option"
  rc_end_distance :: "rat option"

record raw_hypothesis =
  rq_cluster_index :: int
  rq_start_node :: int
  rq_end_node :: int
  rq_compared_arc :: "int option"
  rq_kind :: string
  rq_endpoint_error :: rat
  rq_corridor_error :: "rat option"

record raw_mining =
  rn_selected :: "int list"
  rn_rejected :: rejected_counts
  rn_clusters :: "raw_cluster list"
  rn_hypotheses :: "raw_hypothesis list"

definition in_range :: "nat \<Rightarrow> int \<Rightarrow> bool" where
  "in_range n i \<longleftrightarrow> 0 \<le> i \<and> i < int n"

definition optional_in_range :: "nat \<Rightarrow> int option \<Rightarrow> bool" where
  "optional_in_range n i = (case i of None \<Rightarrow> True | Some k \<Rightarrow> in_range n k)"

definition native_point :: "rat list \<Rightarrow> point2 res" where
  "native_point values = (case values of [x, y] \<Rightarrow> Inr (x, y)
     | _ \<Rightarrow> Inl (ValueError ''native topology point has invalid dimensionality''))"

text \<open>\<open>{item.node_id: index for index, item in enumerate(graph.nodes)}\<close> and a look-up in it.\<close>

definition node_index :: "topology_view \<Rightarrow> string \<Rightarrow> nat res" where
  "node_index w i =
     (case map_of (rev (zip (map tn_node_id (tw_nodes w)) [0..<length (tw_nodes w)])) i of
        None \<Rightarrow> Inl (KeyError i) | Some k \<Rightarrow> Inr k)"

definition native_topology_arc :: "topology_view \<Rightarrow> topology_arc \<Rightarrow> (string \<times> nat \<times> nat \<times> point2 list) res" where
  "native_topology_arc w a =
     bindE (node_index w (tx_from_node_id a)) (\<lambda>from0.
     bindE (node_index w (tx_to_node_id a)) (\<lambda>to0. Inr (tx_arc_id a, from0, to0, tx_geometry a)))"

definition check_mining_request ::
  "(string \<Rightarrow> string) \<Rightarrow> float_ops \<Rightarrow> topology_view \<Rightarrow> off_map_interval list \<Rightarrow> topology_profile \<Rightarrow> string \<Rightarrow> unit res" where
  "check_mining_request sha fl w intervals profile profile_file =
     (let p = tf_parameters profile in
     bindE (assert_topology_profile sha fl profile) (\<lambda>_.
     bindE (ensure (profile_file = TOPOLOGY_PROFILE_FILE_SHA256) (ValueError ''topology-hypothesis profile file hash is not exact'')) (\<lambda>_.
     bindE (ensure (list_all (\<lambda>v. of_frame_id v = tw_frame_id w) intervals)
       (ValueError ''off-map intervals and topology graph use different frames'')) (\<lambda>_.
     bindE (ensure (distinct (map of_interval_id intervals)) (ValueError ''off-map interval identities must be unique'')) (\<lambda>_.
     bindE (ensure (length intervals \<le> ty_maximum_intervals p) (ValueError ''off-map interval count exceeds the frozen budget'')) (\<lambda>_.
     bindE (ensure (list_all (\<lambda>v. length (of_points v) \<le> ty_maximum_points_per_interval p) intervals
         \<and> sum_list (map (length \<circ> of_points) intervals) \<le> ty_maximum_total_points p)
       (ValueError ''off-map interval points exceed the frozen budget'')) (\<lambda>_.
     bindE (ensure (length (tw_nodes w) \<le> ty_maximum_graph_nodes p \<and> length (tw_arcs w) \<le> ty_maximum_graph_arcs p)
       (ValueError ''topology graph count exceeds the frozen budget'')) (\<lambda>_.
       ensure (list_all (\<lambda>a. length (tx_geometry a) \<le> ty_maximum_points_per_arc p) (tw_arcs w)
         \<and> sum_list (map (length \<circ> tx_geometry) (tw_arcs w)) \<le> ty_maximum_total_graph_points p)
         (ValueError ''topology graph points exceed the frozen budget'')))))))))"

definition cluster_of_native ::
  "(string \<Rightarrow> string) \<Rightarrow> float_ops \<Rightarrow> topology_view \<Rightarrow> off_map_interval list \<Rightarrow> int list \<Rightarrow> nat \<times> raw_cluster \<Rightarrow> topology_cluster res" where
  "cluster_of_native sha fl w intervals selected x =
     (let (ordinal, r) = x; members = rc_interval_indices r;
          name = map_option (\<lambda>i. tn_node_id (tw_nodes w ! nat i));
          traversals = int (length (remdups (map (\<lambda>i. of_traversal_id (intervals ! nat i)) members))) in
     bindE (ensure (rc_ordinal r = int ordinal) (ValueError ''native topology cluster order is not canonical'')) (\<lambda>_.
     bindE (ensure (set members \<subseteq> set selected) (ValueError ''native topology cluster contains an unselected interval'')) (\<lambda>_.
     bindE (ensure (rc_traversals r = traversals) (ValueError ''native topology traversal count is inconsistent'')) (\<lambda>_.
     bindE (ensure (optional_in_range (length (tw_nodes w)) (rc_start_node r))
       (ValueError ''native topology cluster start node is invalid'')) (\<lambda>_.
     bindE (ensure (optional_in_range (length (tw_nodes w)) (rc_end_node r))
       (ValueError ''native topology cluster end node is invalid'')) (\<lambda>_.
     bindE (mapE native_point (rc_corridor r)) (\<lambda>corridor.
     let c = \<lparr>tc_cluster_id = [], tc_interval_ids = sort (map (\<lambda>i. of_interval_id (intervals ! nat i)) members),
              tc_traversals = traversals, tc_corridor = corridor, tc_start_node_id = name (rc_start_node r),
              tc_end_node_id = name (rc_end_node r), tc_start_distance = rc_start_distance r, tc_end_distance = rc_end_distance r\<rparr> in
     bindE (hashed_id sha ''topology-cluster'' (JDict (cluster_payload fl c))) (\<lambda>i.
     let c' = c\<lparr>tc_cluster_id := i\<rparr> in bindE (check_topology_cluster sha fl c') (\<lambda>_. Inr c')))))))))"

definition hypothesis_of_native ::
  "(string \<Rightarrow> string) \<Rightarrow> float_ops \<Rightarrow> topology_view \<Rightarrow> topology_cluster list \<Rightarrow> raw_hypothesis \<Rightarrow> review_hypothesis res" where
  "hypothesis_of_native sha fl w clusters r =
     bindE (ensure (in_range (length (tw_nodes w)) (rq_start_node r) \<and> in_range (length (tw_nodes w)) (rq_end_node r))
       (ValueError ''native topology hypothesis endpoint is invalid'')) (\<lambda>_.
     bindE (ensure (optional_in_range (length (tw_arcs w)) (rq_compared_arc r))
       (ValueError ''native topology hypothesis compared arc is invalid'')) (\<lambda>_.
     bindE (parse_topology_kind (rq_kind r)) (\<lambda>kind0.
     let h = \<lparr>rh_hypothesis_id = [], rh_kind = kind0, rh_road_graph_id = tw_road_graph_id w,
              rh_cluster_id = tc_cluster_id (clusters ! nat (rq_cluster_index r)),
              rh_start_node_id = tn_node_id (tw_nodes w ! nat (rq_start_node r)),
              rh_end_node_id = tn_node_id (tw_nodes w ! nat (rq_end_node r)),
              rh_compared_arc_id = map_option (\<lambda>i. tx_arc_id (tw_arcs w ! nat i)) (rq_compared_arc r),
              rh_endpoint_error = rq_endpoint_error r, rh_corridor_error = rq_corridor_error r\<rparr> in
     bindE (hashed_id sha ''topology-hypothesis'' (JDict (review_payload fl h))) (\<lambda>i.
     let h' = h\<lparr>rh_hypothesis_id := i\<rparr> in bindE (check_review_hypothesis sha fl h') (\<lambda>_. Inr h')))))"

text \<open>The loop over the hypotheses, with the clusters it has seen.\<close>

fun hypotheses_of_native ::
  "(string \<Rightarrow> string) \<Rightarrow> float_ops \<Rightarrow> topology_view \<Rightarrow> topology_cluster list \<Rightarrow> int set \<Rightarrow> raw_hypothesis list \<Rightarrow> review_hypothesis list res" where
  "hypotheses_of_native sha fl w clusters seen [] = Inr []"
| "hypotheses_of_native sha fl w clusters seen (r # rs) =
     bindE (ensure (in_range (length clusters) (rq_cluster_index r) \<and> rq_cluster_index r \<notin> seen)
       (ValueError ''native topology hypothesis cluster reference is invalid'')) (\<lambda>_.
     bindE (hypothesis_of_native sha fl w clusters r) (\<lambda>h.
     bindE (hypotheses_of_native sha fl w clusters (insert (rq_cluster_index r) seen) rs) (\<lambda>hs. Inr (h # hs))))"

definition mine_topology_hypotheses ::
  "(string \<Rightarrow> string) \<Rightarrow> float_ops \<Rightarrow> (mining_request \<Rightarrow> raw_mining res) \<Rightarrow> topology_view \<Rightarrow> off_map_interval list \<Rightarrow>
   topology_profile \<Rightarrow> string \<Rightarrow> topology_report res" where
  "mine_topology_hypotheses sha fl mine w intervals profile profile_file =
     bindE (check_mining_request sha fl w intervals profile profile_file) (\<lambda>_.
     bindE (mapE (native_topology_arc w) (tw_arcs w)) (\<lambda>arcs.
     bindE (mine \<lparr>mq_intervals = intervals, mq_nodes = map (\<lambda>n. (tn_node_id n, tn_position n)) (tw_nodes w), mq_arcs = arcs,
         mq_parameters = tf_parameters profile\<rparr>) (\<lambda>raw.
     let selected = rn_selected raw; rejected = rn_rejected raw; flattened = concat (map rc_interval_indices (rn_clusters raw)) in
     bindE (ensure (list_all (in_range (length intervals)) selected)
       (ValueError ''native topology selection references an invalid interval'')) (\<lambda>_.
     bindE (check_rejected_counts rejected) (\<lambda>_.
     bindE (ensure (int (length selected) + rejected_total rejected = int (length intervals))
       (ValueError ''native topology selection accounting is incomplete'')) (\<lambda>_.
     bindE (mapE (cluster_of_native sha fl w intervals selected) (enumerate 0 (rn_clusters raw))) (\<lambda>clusters.
     bindE (ensure (sort flattened = sort selected \<and> distinct flattened)
       (ValueError ''native topology clusters do not partition selected intervals'')) (\<lambda>_.
     bindE (hypotheses_of_native sha fl w clusters {} (rn_hypotheses raw)) (\<lambda>hypotheses.
     let r = \<lparr>rt_report_id = [], rt_road_graph_id = tw_road_graph_id w, rt_view_id = tw_view_id w,
              rt_profile_file_sha256 = profile_file, rt_profile_immutable_sha256 = tf_immutable_sha256 profile,
              rt_selected_ids = sort (map (\<lambda>i. of_interval_id (intervals ! nat i)) selected), rt_rejected = rejected,
              rt_clusters = clusters, rt_hypotheses = sort_key rh_hypothesis_id hypotheses\<rparr> in
     bindE (hashed_id sha ''topology-report'' (topology_report_payload fl r)) (\<lambda>i.
     let r' = r\<lparr>rt_report_id := i\<rparr> in bindE (check_topology_report sha fl r') (\<lambda>_. Inr r')))))))))))"

end
