(* ===== verification/TopologyProperties.thy ===== *)
theory TopologyProperties
  imports TopologyHypotheses
begin

text \<open>
  What a mined report guarantees whatever the native mining returns: every interval is selected or
  rejected, the clusters partition the selected intervals and count their traversals, no cluster carries
  two hypotheses, and everything named is in the graph.  And the comparison view of a road graph has the
  nodes and arcs of the graph.
\<close>

section \<open>Lists\<close>

lemma is_canonical_iff: "is_canonical xs \<longleftrightarrow> sorted xs \<and> distinct xs"
  unfolding is_canonical_def by (metis distinct_remdups distinct_sort sorted_sort sorted_sort_id distinct_remdups_id)

lemma mset_concat_all2:
  "list_all2 P xs ys \<Longrightarrow> (\<And>x y. x \<in> set xs \<Longrightarrow> P x y \<Longrightarrow> mset (f y) = mset (g x)) \<Longrightarrow>
   mset (concat (map f ys)) = mset (concat (map g xs))"
  by (induction rule: list_all2_induct) auto

lemma mset_of_indices:
  assumes "distinct indices" "list_all (in_range (length xs)) indices"
  shows "mset (map (\<lambda>i. f (xs ! nat i)) indices) \<subseteq># mset (map f xs)"
proof -
  have "inj_on nat (set indices)" using assms(2) by (auto simp: inj_on_def in_range_def list_all_iff nat_eq_iff)
  then have d: "distinct (map nat indices)" using assms(1) by (simp add: distinct_map)
  have "set (map nat indices) \<subseteq> set [0..<length xs]" using assms(2) by (auto simp: in_range_def list_all_iff)
  then have "mset_set (set (map nat indices)) \<subseteq># mset_set (set [0..<length xs])"
    by (intro subset_imp_msubset_mset_set) simp_all
  then have sub: "mset (map nat indices) \<subseteq># mset [0..<length xs]"
    unfolding mset_set_set [OF d] mset_set_set [OF distinct_upt] .
  have "mset (map (\<lambda>i. f (xs ! nat i)) indices) = image_mset (\<lambda>i. f (xs ! i)) (mset (map nat indices))" by (simp add: image_mset.compositionality o_def)
  also have "\<dots> \<subseteq># image_mset (\<lambda>i. f (xs ! i)) (mset [0..<length xs])" using sub by (rule image_mset_subseteq_mono)
  also have "\<dots> = mset (map (\<lambda>i. f (xs ! i)) [0..<length xs])" by simp
  also have "map (\<lambda>i. f (xs ! i)) [0..<length xs] = map f xs" by (rule nth_equalityI) simp_all
  finally show ?thesis .
qed

lemma nth_in_range: "in_range (length xs) i \<Longrightarrow> xs ! nat i \<in> set xs"
  by (auto simp: in_range_def)

lemma mapE_all:
  assumes "mapE f xs = Inr ys" "\<And>x y. f x = Inr y \<Longrightarrow> P y"
  shows "list_all P ys"
  using assms(1)
proof (induction xs arbitrary: ys)
  case (Cons x xs)
  then obtain y ys' where "f x = Inr y" "mapE f xs = Inr ys'" "ys = y # ys'" by auto
  then show ?case using Cons.IH assms(2) by simp
qed simp

section \<open>Clusters\<close>

definition node_ids :: "topology_view \<Rightarrow> string set" where
  "node_ids w = tn_node_id ` set (tw_nodes w)"

definition optional_in :: "string set \<Rightarrow> string option \<Rightarrow> bool" where
  "optional_in names x = (case x of None \<Rightarrow> True | Some i \<Rightarrow> i \<in> names)"

lemma optional_in_nth: "optional_in_range (length xs) k \<Longrightarrow> optional_in (f ` set xs) (map_option (\<lambda>i. f (xs ! nat i)) k)"
  by (cases k) (auto simp: optional_in_range_def optional_in_def intro: nth_in_range)

text \<open>The number of traversals a cluster must state: those of the intervals it names.\<close>

definition traversals_of :: "off_map_interval list \<Rightarrow> string list \<Rightarrow> int" where
  "traversals_of intervals ids = int (card (of_traversal_id ` {v \<in> set intervals. of_interval_id v \<in> set ids}))"

definition sound_cluster :: "topology_view \<Rightarrow> off_map_interval list \<Rightarrow> topology_cluster \<Rightarrow> bool" where
  "sound_cluster w intervals c \<longleftrightarrow>
     tc_interval_ids c \<noteq> [] \<and> is_canonical (tc_interval_ids c) \<and> tc_traversals c = traversals_of intervals (tc_interval_ids c) \<and>
     optional_in (node_ids w) (tc_start_node_id c) \<and> optional_in (node_ids w) (tc_end_node_id c)"

lemma cluster_of_native_parts:
  assumes "cluster_of_native sha fl w intervals selected (k, r) = Inr c"
  shows "set (rc_interval_indices r) \<subseteq> set selected"
    and "tc_interval_ids c = sort (map (\<lambda>i. of_interval_id (intervals ! nat i)) (rc_interval_indices r))"
    and "tc_traversals c = int (card ((\<lambda>i. of_traversal_id (intervals ! nat i)) ` set (rc_interval_indices r)))"
    and "optional_in (node_ids w) (tc_start_node_id c)" and "optional_in (node_ids w) (tc_end_node_id c)"
    and "0 < tc_traversals c" and "is_canonical (tc_interval_ids c)"
proof -
  let ?name = "map_option (\<lambda>i. tn_node_id (tw_nodes w ! nat i))"
  let ?n = "int (length (remdups (map (\<lambda>i. of_traversal_id (intervals ! nat i)) (rc_interval_indices r))))"
  obtain corridor i where members: "set (rc_interval_indices r) \<subseteq> set selected"
    and start: "optional_in_range (length (tw_nodes w)) (rc_start_node r)"
    and finish: "optional_in_range (length (tw_nodes w)) (rc_end_node r)"
    and c: "c = \<lparr>tc_cluster_id = i, tc_interval_ids = sort (map (\<lambda>i. of_interval_id (intervals ! nat i)) (rc_interval_indices r)),
              tc_traversals = ?n, tc_corridor = corridor, tc_start_node_id = ?name (rc_start_node r),
              tc_end_node_id = ?name (rc_end_node r), tc_start_distance = rc_start_distance r, tc_end_distance = rc_end_distance r\<rparr>"
    and checked: "check_topology_cluster sha fl c = Inr ()"
    using assms by (auto simp: cluster_of_native_def Let_def)
  show "set (rc_interval_indices r) \<subseteq> set selected" by (fact members)
  show "tc_interval_ids c = sort (map (\<lambda>i. of_interval_id (intervals ! nat i)) (rc_interval_indices r))" by (simp add: c)
  show "tc_traversals c = int (card ((\<lambda>i. of_traversal_id (intervals ! nat i)) ` set (rc_interval_indices r)))"
    by (simp add: c length_remdups_card_conv)
  show "optional_in (node_ids w) (tc_start_node_id c)" "optional_in (node_ids w) (tc_end_node_id c)"
    using optional_in_nth [OF start, of tn_node_id] optional_in_nth [OF finish, of tn_node_id] by (simp_all add: c node_ids_def)
  show "0 < tc_traversals c" "is_canonical (tc_interval_ids c)"
    using checked by (auto simp: check_topology_cluster_def)
qed

lemma members_by_id:
  assumes "distinct (map of_interval_id intervals)" "list_all (in_range (length intervals)) members"
  shows "{v \<in> set intervals. of_interval_id v \<in> (\<lambda>i. of_interval_id (intervals ! nat i)) ` set members} = (\<lambda>i. intervals ! nat i) ` set members"
    (is "?l = ?r")
proof
  have inside: "intervals ! nat i \<in> set intervals" if "i \<in> set members" for i
    using assms(2) that by (auto simp: list_all_iff intro: nth_in_range)
  show "?r \<subseteq> ?l" using inside by auto
  have "inj_on of_interval_id (set intervals)" using assms(1) by (simp add: distinct_map)
  then show "?l \<subseteq> ?r" using inside by (auto simp: inj_on_def)
qed

lemma cluster_of_native_sound:
  assumes "cluster_of_native sha fl w intervals selected (k, r) = Inr c"
    and "distinct (map of_interval_id intervals)" "list_all (in_range (length intervals)) selected"
  shows "sound_cluster w intervals c"
proof -
  note parts = cluster_of_native_parts [OF assms(1)]
  have members: "list_all (in_range (length intervals)) (rc_interval_indices r)" using parts(1) assms(3) by (auto simp: list_all_iff)
  have "rc_interval_indices r \<noteq> []" using parts(3,6) by auto
  then have "tc_interval_ids c \<noteq> []" using parts(2) by (metis length_0_conv length_map length_sort)
  moreover have "tc_traversals c = traversals_of intervals (tc_interval_ids c)"
    unfolding traversals_of_def parts(2,3) set_sort set_map members_by_id [OF assms(2) members] by (simp add: image_image)
  ultimately show ?thesis using parts(4,5,7) by (simp add: sound_cluster_def)
qed

section \<open>Hypotheses\<close>

definition names_the_graph :: "topology_view \<Rightarrow> review_hypothesis \<Rightarrow> bool" where
  "names_the_graph w h \<longleftrightarrow>
     rh_road_graph_id h = tw_road_graph_id w \<and> rh_start_node_id h \<in> node_ids w \<and> rh_end_node_id h \<in> node_ids w \<and>
     optional_in (tx_arc_id ` set (tw_arcs w)) (rh_compared_arc_id h) \<and>
     (rh_kind h = POSSIBLE_MISSING_CONNECTION \<longleftrightarrow> rh_compared_arc_id h = None)"

lemma hypothesis_of_native_Inr:
  assumes "hypothesis_of_native sha fl w clusters r = Inr h"
  shows "rh_cluster_id h = tc_cluster_id (clusters ! nat (rq_cluster_index r))" and "names_the_graph w h"
proof -
  obtain kind0 i where inside: "in_range (length (tw_nodes w)) (rq_start_node r)" "in_range (length (tw_nodes w)) (rq_end_node r)"
    and compared: "optional_in_range (length (tw_arcs w)) (rq_compared_arc r)"
    and h: "h = \<lparr>rh_hypothesis_id = i, rh_kind = kind0, rh_road_graph_id = tw_road_graph_id w,
              rh_cluster_id = tc_cluster_id (clusters ! nat (rq_cluster_index r)),
              rh_start_node_id = tn_node_id (tw_nodes w ! nat (rq_start_node r)),
              rh_end_node_id = tn_node_id (tw_nodes w ! nat (rq_end_node r)),
              rh_compared_arc_id = map_option (\<lambda>i. tx_arc_id (tw_arcs w ! nat i)) (rq_compared_arc r),
              rh_endpoint_error = rq_endpoint_error r, rh_corridor_error = rq_corridor_error r\<rparr>"
    and checked: "check_review_hypothesis sha fl h = Inr ()"
    using assms by (auto simp: hypothesis_of_native_def Let_def)
  show "rh_cluster_id h = tc_cluster_id (clusters ! nat (rq_cluster_index r))" by (simp add: h)
  have "rh_kind h = POSSIBLE_MISSING_CONNECTION \<longleftrightarrow> rh_compared_arc_id h = None"
    using checked by (auto simp: check_review_hypothesis_def split: topology_kind.splits)
  then show "names_the_graph w h"
    using inside [THEN nth_in_range] optional_in_nth [OF compared, of tx_arc_id] by (auto simp: names_the_graph_def h node_ids_def)
qed

lemma hypotheses_of_native_Inr:
  "hypotheses_of_native sha fl w clusters seen rs = Inr hs \<Longrightarrow>
   distinct (map rq_cluster_index rs) \<and> set (map rq_cluster_index rs) \<inter> seen = {} \<and>
   list_all (in_range (length clusters)) (map rq_cluster_index rs) \<and>
   map rh_cluster_id hs = map (\<lambda>i. tc_cluster_id (clusters ! nat i)) (map rq_cluster_index rs) \<and> list_all (names_the_graph w) hs"
proof (induction rs arbitrary: seen hs)
  case (Cons r rs)
  then obtain h hs' where first: "in_range (length clusters) (rq_cluster_index r)" "rq_cluster_index r \<notin> seen"
    and h: "hypothesis_of_native sha fl w clusters r = Inr h"
    and rest: "hypotheses_of_native sha fl w clusters (insert (rq_cluster_index r) seen) rs = Inr hs'" and hs: "hs = h # hs'"
    by auto
  show ?case using Cons.IH [OF rest] first hypothesis_of_native_Inr [OF h] by (auto simp: hs)
qed simp

section \<open>The report\<close>

lemma mine_Inr:
  assumes "mine_topology_hypotheses sha fl mine w intervals profile profile_file = Inr r"
  obtains raw :: raw_mining and hypotheses where
    "distinct (map of_interval_id intervals)"
    and "list_all (in_range (length intervals)) (rn_selected raw)"
    and "int (length (rn_selected raw)) + rejected_total (rt_rejected r) = int (length intervals)"
    and "mapE (cluster_of_native sha fl w intervals (rn_selected raw)) (enumerate 0 (rn_clusters raw)) = Inr (rt_clusters r)"
    and "mset (concat (map rc_interval_indices (rn_clusters raw))) = mset (rn_selected raw)"
    and "hypotheses_of_native sha fl w (rt_clusters r) {} (rn_hypotheses raw) = Inr hypotheses"
    and "rt_selected_ids r = sort (map (\<lambda>i. of_interval_id (intervals ! nat i)) (rn_selected raw))"
    and "rt_hypotheses r = sort_key rh_hypothesis_id hypotheses" and "check_topology_report sha fl r = Inr ()"
proof -
  obtain raw :: raw_mining and clusters hypotheses i where
    request: "check_mining_request sha fl w intervals profile profile_file = Inr ()"
    and selected: "list_all (in_range (length intervals)) (rn_selected raw)"
      "int (length (rn_selected raw)) + rejected_total (rn_rejected raw) = int (length intervals)"
    and clusters: "mapE (cluster_of_native sha fl w intervals (rn_selected raw)) (enumerate 0 (rn_clusters raw)) = Inr clusters"
    and partition0: "sort (concat (map rc_interval_indices (rn_clusters raw))) = sort (rn_selected raw)"
    and hypotheses: "hypotheses_of_native sha fl w clusters {} (rn_hypotheses raw) = Inr hypotheses"
    and r: "r = \<lparr>rt_report_id = i, rt_road_graph_id = tw_road_graph_id w, rt_view_id = tw_view_id w,
              rt_profile_file_sha256 = profile_file, rt_profile_immutable_sha256 = tf_immutable_sha256 profile,
              rt_selected_ids = sort (map (\<lambda>i. of_interval_id (intervals ! nat i)) (rn_selected raw)), rt_rejected = rn_rejected raw,
              rt_clusters = clusters, rt_hypotheses = sort_key rh_hypothesis_id hypotheses\<rparr>"
    and checked: "check_topology_report sha fl r = Inr ()"
    using assms by (auto simp: mine_topology_hypotheses_def Let_def)
  have "distinct (map of_interval_id intervals)" using request by (auto simp: check_mining_request_def Let_def)
  moreover have "mset (concat (map rc_interval_indices (rn_clusters raw))) = mset (rn_selected raw)" by (metis partition0 mset_sort)
  ultimately show ?thesis using that [of raw hypotheses] selected clusters hypotheses checked by (simp add: r)
qed

text \<open>C17: A report that is mined, whatever the native mining returned, accounts for every interval as selected or
  rejected; its clusters are not empty and partition the selected intervals, each stating the number of
  traversals of its own intervals; no cluster carries two hypotheses; clusters and hypotheses name only
  nodes and arcs of the graph, and exactly a missing connection compares with no arc; and the report
  carries the identity of its content.\<close>

theorem mined_report_is_accounted:
  "case mine_topology_hypotheses sha fl mine w intervals profile profile_file of
     Inl e \<Rightarrow> True
   | Inr r \<Rightarrow>
       int (length (rt_selected_ids r)) + rejected_total (rt_rejected r) = int (length intervals) \<and>
       set (rt_selected_ids r) \<subseteq> of_interval_id ` set intervals \<and> sorted (rt_selected_ids r) \<and> distinct (rt_selected_ids r) \<and>
       mset (concat (map tc_interval_ids (rt_clusters r))) = mset (rt_selected_ids r) \<and>
       list_all (sound_cluster w intervals) (rt_clusters r) \<and>
       mset (map rh_cluster_id (rt_hypotheses r)) \<subseteq># mset (map tc_cluster_id (rt_clusters r)) \<and>
       list_all (names_the_graph w) (rt_hypotheses r) \<and>
       hashed_id sha ''topology-report'' (topology_report_payload fl r) = Inr (rt_report_id r)"
proof (cases "mine_topology_hypotheses sha fl mine w intervals profile profile_file")
  case (Inr r)
  then obtain raw :: raw_mining and hypotheses where unique: "distinct (map of_interval_id intervals)"
    and inside: "list_all (in_range (length intervals)) (rn_selected raw)"
    and count: "int (length (rn_selected raw)) + rejected_total (rt_rejected r) = int (length intervals)"
    and clusters: "mapE (cluster_of_native sha fl w intervals (rn_selected raw)) (enumerate 0 (rn_clusters raw)) = Inr (rt_clusters r)"
    and joined: "mset (concat (map rc_interval_indices (rn_clusters raw))) = mset (rn_selected raw)"
    and hypotheses: "hypotheses_of_native sha fl w (rt_clusters r) {} (rn_hypotheses raw) = Inr hypotheses"
    and selected: "rt_selected_ids r = sort (map (\<lambda>i. of_interval_id (intervals ! nat i)) (rn_selected raw))"
    and sorted0: "rt_hypotheses r = sort_key rh_hypothesis_id hypotheses"
    and checked: "check_topology_report sha fl r = Inr ()"
    by (rule mine_Inr)
  let ?id = "\<lambda>i. of_interval_id (intervals ! nat i)"
  have all2: "list_all2 (\<lambda>x c. cluster_of_native sha fl w intervals (rn_selected raw) x = Inr c)
      (enumerate 0 (rn_clusters raw)) (rt_clusters r)"
    using clusters by (simp add: mapE_eq_Inr_iff)
  have "mset (concat (map tc_interval_ids (rt_clusters r)))
      = mset (concat (map (\<lambda>x. map ?id (rc_interval_indices (snd x))) (enumerate 0 (rn_clusters raw))))"
    using all2 by (rule mset_concat_all2) (auto dest: cluster_of_native_parts(2))
  also have "map (\<lambda>x. map ?id (rc_interval_indices (snd x))) (enumerate 0 (rn_clusters raw))
      = map (map ?id) (map rc_interval_indices (map snd (enumerate 0 (rn_clusters raw))))"
    unfolding map_map comp_def ..
  also have "\<dots> = map (map ?id) (map rc_interval_indices (rn_clusters raw))" unfolding map_snd_enumerate ..
  also have "mset (concat (map (map ?id) (map rc_interval_indices (rn_clusters raw)))) = mset (rt_selected_ids r)"
    unfolding map_concat [symmetric] mset_map joined selected mset_sort ..
  finally have partition0: "mset (concat (map tc_interval_ids (rt_clusters r))) = mset (rt_selected_ids r)" .
  have "list_all (sound_cluster w intervals) (rt_clusters r)"
    using clusters by (rule mapE_all) (metis cluster_of_native_sound [OF _ unique inside] surj_pair)
  moreover note facts = hypotheses_of_native_Inr [OF hypotheses]
  have "mset (map rh_cluster_id (rt_hypotheses r)) = mset (map rh_cluster_id hypotheses)" by (simp add: sorted0)
  then have "mset (map rh_cluster_id (rt_hypotheses r)) \<subseteq># mset (map tc_cluster_id (rt_clusters r))"
    using facts mset_of_indices [of "map rq_cluster_index (rn_hypotheses raw)" "rt_clusters r" tc_cluster_id] by simp
  moreover have "list_all (names_the_graph w) (rt_hypotheses r)" using facts by (simp add: sorted0 list_all_iff)
  moreover have "set (rt_selected_ids r) \<subseteq> of_interval_id ` set intervals"
    using inside by (auto simp: selected list_all_iff intro: nth_in_range)
  moreover have "is_canonical (rt_selected_ids r)" "hashed_id sha ''topology-report'' (topology_report_payload fl r) = Inr (rt_report_id r)"
    using checked by (auto simp: check_topology_report_def)
  ultimately show ?thesis using partition0 count unfolding Inr sum.case by (simp add: is_canonical_iff selected)
qed simp

section \<open>The view\<close>

definition flat_node :: "road_node \<Rightarrow> topology_node" where
  "flat_node n = \<lparr>tn_node_id = rd_node_id n, tn_position = flat (rd_position_local_m n)\<rparr>"

definition flat_arc :: "road_arc \<Rightarrow> topology_arc" where
  "flat_arc a = \<lparr>tx_arc_id = ra_arc_id a, tx_from_node_id = ra_from_node_id a, tx_to_node_id = ra_to_node_id a,
     tx_geometry = map flat (ra_geometry_local_m a)\<rparr>"

lemma mapE_pure:
  assumes "mapE f xs = Inr ys" "\<And>x y. f x = Inr y \<Longrightarrow> y = g x"
  shows "ys = map g xs"
  using assms(1)
proof (induction xs arbitrary: ys)
  case (Cons x xs)
  then obtain y ys' where "f x = Inr y" "mapE f xs = Inr ys'" "ys = y # ys'" by auto
  then show ?case using Cons.IH assms(2) by simp
qed simp

text \<open>C18: The comparison view of a road graph is the graph without heights: its nodes and arcs are those of the graph,
  flattened and ordered by identity, with the same ends; every arc runs between nodes of the view and has two points
  or more; the view names the graph and carries the identity of its content.\<close>

theorem view_is_the_flat_graph:
  "case make_topology_graph_view sha fl g of
     Inl e \<Rightarrow> True
   | Inr w \<Rightarrow>
       mset (tw_nodes w) = mset (map flat_node (rg_nodes g)) \<and> mset (tw_arcs w) = mset (map flat_arc (rg_arcs g)) \<and>
       sorted (map tn_node_id (tw_nodes w)) \<and> distinct (map tn_node_id (tw_nodes w)) \<and>
       sorted (map tx_arc_id (tw_arcs w)) \<and> distinct (map tx_arc_id (tw_arcs w)) \<and>
       list_all (\<lambda>a. tx_from_node_id a \<in> node_ids w \<and> tx_to_node_id a \<in> node_ids w \<and> 2 \<le> length (tx_geometry a)) (tw_arcs w) \<and>
       tw_road_graph_id w = rg_graph_id g \<and> validate_graph_identity sha fl g = Inr () \<and> check_topology_view sha fl w = Inr ()"
proof (cases "make_topology_graph_view sha fl g")
  case (Inr w)
  then obtain nodes arcs i where identity: "validate_graph_identity sha fl g = Inr ()"
    and nodes: "mapE view_node (rg_nodes g) = Inr nodes" and arcs: "mapE view_arc (rg_arcs g) = Inr arcs"
    and w: "w = \<lparr>tw_view_id = i, tw_road_graph_id = rg_graph_id g, tw_frame_id = nf_frame_id (gf_frame (rg_local_frame g)),
       tw_nodes = sort_key tn_node_id nodes, tw_arcs = sort_key tx_arc_id arcs\<rparr>"
    and checked: "check_topology_view sha fl w = Inr ()"
    by (auto simp: make_topology_graph_view_def make_topology_view_from_primitives_def Let_def)
  have "nodes = map flat_node (rg_nodes g)" using nodes by (rule mapE_pure) (auto simp: view_node_def flat_node_def Let_def)
  moreover have flat_arcs: "arcs = map flat_arc (rg_arcs g)"
    using arcs by (rule mapE_pure) (auto simp: view_arc_def flat_arc_def Let_def)
  moreover have "list_all (\<lambda>a. 2 \<le> length (tx_geometry a)) arcs"
    using arcs by (rule mapE_all) (auto simp: view_arc_def check_topology_arc_def Let_def)
  moreover have "is_canonical (map tn_node_id (tw_nodes w))" "is_canonical (map tx_arc_id (tw_arcs w))"
      "list_all (\<lambda>a. tx_from_node_id a \<in> node_ids w \<and> tx_to_node_id a \<in> node_ids w) (tw_arcs w)"
    using checked by (auto simp: check_topology_view_def Let_def node_ids_def)
  ultimately show ?thesis
    using identity checked unfolding Inr sum.case is_canonical_iff by (simp add: w list_all_iff)
qed simp

end
