(* ===== verification/Scheduler.thy ===== *)
theory Scheduler
  imports PinnedJson
begin

text \<open>
  The qualification of the native scheduler, \<^verbatim>\<open>python/cartosentry/scheduler.py\<close>: the frozen
  stress suite, the report with the validator that recomputes its acceptance from the measured
  evidence, and \<open>qualify_scheduler\<close>.  The native run itself is multithreaded and its measurements
  are the parameter \<open>native\<close>, a dictionary that claims an acceptance.
\<close>

section \<open>The stress suite\<close>

record stress_suite =
  ss_suite_id :: string
  ss_worker_count :: int
  ss_resident_byte_budget :: int
  ss_mixed_unit_count :: int
  ss_lidar_stride :: int
  ss_imu_estimated_bytes :: int
  ss_lidar_estimated_bytes :: int

definition validate_task_sizes :: "stress_suite \<Rightarrow> unit res" where
  "validate_task_sizes s =
     ensure (\<not> max (ss_imu_estimated_bytes s) (ss_lidar_estimated_bytes s) > ss_resident_byte_budget s)
       (ValueError ''stress work units must fit the resident byte budget'')"

definition stress_suite_validate :: "json \<Rightarrow> stress_suite res" where
  "stress_suite_validate v =
     bindE (as_object [''schema_version'', ''suite_id'', ''worker_count'', ''resident_byte_budget'', ''mixed_unit_count'',
       ''lidar_stride'', ''imu_estimated_bytes'', ''lidar_estimated_bytes''] v) (\<lambda>d.
     bindE (field ''schema_version'' (as_int_literal 1) d) (\<lambda>_.
     bindE (field ''suite_id'' (as_literal ''m2.3-v1'') d) (\<lambda>suite_id.
     bindE (field ''worker_count'' (as_int_literal 4) d) (\<lambda>workers.
     bindE (field ''resident_byte_budget'' (as_int_literal 32768) d) (\<lambda>budget.
     bindE (field ''mixed_unit_count'' (as_int_literal 2000) d) (\<lambda>units.
     bindE (field ''lidar_stride'' (as_int_literal 10) d) (\<lambda>stride.
     bindE (field ''imu_estimated_bytes'' (as_int_literal 64) d) (\<lambda>imu.
     bindE (field ''lidar_estimated_bytes'' (as_int_literal 4096) d) (\<lambda>lidar.
       let s = \<lparr>ss_suite_id = suite_id, ss_worker_count = workers, ss_resident_byte_budget = budget,
                ss_mixed_unit_count = units, ss_lidar_stride = stride, ss_imu_estimated_bytes = imu,
                ss_lidar_estimated_bytes = lidar\<rparr>
       in bindE (validate_task_sizes s) (\<lambda>_. Inr s))))))))))"

text \<open>\<open>json.loads(path.read_bytes())\<close>, which keeps the last of two equal keys; \<open>loads\<close> is that
  reader.\<close>

definition load_scheduler_stress_suite ::
  "(string \<Rightarrow> string) \<Rightarrow> (string \<Rightarrow> json res) \<Rightarrow> fs_node \<Rightarrow> (stress_suite \<times> string) res" where
  "load_scheduler_stress_suite sha loads node =
     (case node of
        RegularFile content \<Rightarrow>
          bindE (loads content) (\<lambda>v. bindE (stress_suite_validate v) (\<lambda>s. Inr (s, sha content)))
      | _ \<Rightarrow> Inl (OSError ''No such file''))"

section \<open>The report\<close>

record scheduler_evidence =
  se_accepted :: bool
  se_resident_byte_budget :: int
  se_peak_resident_bytes :: int
  se_mixed_completed_units :: int
  se_mixed_imu_units :: int
  se_mixed_lidar_units :: int
  se_deterministic_replay_equal :: bool
  se_deterministic_execution_order :: "string list"
  se_backpressure_observed :: bool
  se_isolated_failed_units :: int
  se_isolated_completed_units :: int
  se_structured_error_codes :: "string list"
  se_cancelled_units :: int
  se_outstanding_units_after_cancel :: int
  se_resident_bytes_after_cancel :: int
  se_completion_pointer_exists :: bool

record scheduler_report =
  sr_suite_id :: string
  sr_suite_sha256 :: string
  sr_evidence :: scheduler_evidence

definition expected_acceptance :: "scheduler_evidence \<Rightarrow> bool" where
  "expected_acceptance e \<longleftrightarrow>
     se_peak_resident_bytes e \<le> se_resident_byte_budget e \<and>
     se_mixed_completed_units e = 2000 \<and> se_mixed_imu_units e = 1800 \<and> se_mixed_lidar_units e = 200 \<and>
     se_deterministic_replay_equal e \<and>
     se_deterministic_execution_order e =
       [''metadata-1'', ''imu-1'', ''lidar-1'', ''metadata-2'', ''imu-2'', ''lidar-2''] \<and>
     se_backpressure_observed e \<and> se_isolated_failed_units e = 2 \<and> se_isolated_completed_units e = 1 \<and>
     set (se_structured_error_codes e) = {''TASK_FAILURE'', ''UNHANDLED_EXCEPTION''} \<and>
     se_cancelled_units e = 4 \<and> se_outstanding_units_after_cancel e = 0 \<and>
     se_resident_bytes_after_cancel e = 0 \<and> \<not> se_completion_pointer_exists e"

definition check_scheduler_report :: "scheduler_report \<Rightarrow> unit res" where
  "check_scheduler_report r =
     (let e = sr_evidence r in
     bindE (ensure (is_identifier (sr_suite_id r) \<and> is_sha256 (sr_suite_sha256 r) \<and> 0 < se_resident_byte_budget e
         \<and> 0 \<le> se_peak_resident_bytes e \<and> 0 \<le> se_mixed_completed_units e \<and> 0 \<le> se_mixed_imu_units e
         \<and> 0 \<le> se_mixed_lidar_units e \<and> 0 \<le> se_isolated_failed_units e \<and> 0 \<le> se_isolated_completed_units e
         \<and> set (se_structured_error_codes e) \<subseteq> {''TASK_FAILURE'', ''UNHANDLED_EXCEPTION''}
         \<and> 0 \<le> se_cancelled_units e \<and> 0 \<le> se_outstanding_units_after_cancel e
         \<and> 0 \<le> se_resident_bytes_after_cancel e) (ValueError ''validation error for SchedulerQualificationReport'')) (\<lambda>_.
       ensure (se_accepted e = expected_acceptance e)
         (ValueError ''scheduler acceptance disagrees with measured evidence'')))"

definition qualify_scheduler ::
  "(string \<Rightarrow> string) \<Rightarrow> (string \<Rightarrow> json res) \<Rightarrow> (stress_suite \<Rightarrow> scheduler_evidence res) \<Rightarrow> fs_node \<Rightarrow> scheduler_report res" where
  "qualify_scheduler sha loads native node =
     bindE (load_scheduler_stress_suite sha loads node) (\<lambda>(suite, suite_sha256).
     bindE (native suite) (\<lambda>evidence.
       let r = \<lparr>sr_suite_id = ss_suite_id suite, sr_suite_sha256 = suite_sha256, sr_evidence = evidence\<rparr>
       in bindE (check_scheduler_report r) (\<lambda>_. Inr r)))"

section \<open>Correctness\<close>

text \<open>Every field of the suite is a literal: there is one suite.\<close>

definition frozen_suite :: stress_suite where
  "frozen_suite = \<lparr>ss_suite_id = ''m2.3-v1'', ss_worker_count = 4, ss_resident_byte_budget = 32768,
     ss_mixed_unit_count = 2000, ss_lidar_stride = 10, ss_imu_estimated_bytes = 64, ss_lidar_estimated_bytes = 4096\<rparr>"

lemma as_int_literal_Inr [simp]: "as_int_literal i v = Inr j \<longleftrightarrow> v = JInt i \<and> j = i"
  by (auto simp: as_int_literal_def invalid_def)

lemma field_Inr: "field k f d = Inr x \<longleftrightarrow> (\<exists>v. map_of d k = Some v \<and> f v = Inr x)"
  by (auto simp: field_def invalid_def split: option.splits)

lemma stress_suite_unique: "stress_suite_validate v = Inr s \<Longrightarrow> s = frozen_suite"
  by (auto simp: stress_suite_validate_def field_Inr as_literal_def frozen_suite_def Let_def)

lemma frozen_suite_id [simp]: "ss_suite_id frozen_suite = ''m2.3-v1''"
  by (simp add: frozen_suite_def)

lemma qualify_scheduler_Inr:
  assumes "qualify_scheduler sha loads native node = Inr r"
  shows "native frozen_suite = Inr (sr_evidence r) \<and> se_accepted (sr_evidence r) = expected_acceptance (sr_evidence r) \<and>
    sr_suite_id r = ''m2.3-v1'' \<and> (\<exists>content. node = RegularFile content \<and> sr_suite_sha256 r = sha content)"
  using assms
  by (auto simp: qualify_scheduler_def load_scheduler_stress_suite_def Let_def check_scheduler_report_def
      dest!: stress_suite_unique split: fs_node.splits if_splits)

text \<open>The acceptance of a scheduler report is recomputed: a report is produced only for the one frozen
  suite, it carries the digest of the suite file, and it is accepted exactly when the measurements
  satisfy every criterion, whatever acceptance the native run claims.\<close>

lemma scheduler_acceptance_recomputed:
  "case qualify_scheduler sha loads native node of
     Inl e \<Rightarrow> True
   | Inr r \<Rightarrow> native frozen_suite = Inr (sr_evidence r) \<and>
       se_accepted (sr_evidence r) = expected_acceptance (sr_evidence r) \<and> sr_suite_id r = ''m2.3-v1'' \<and>
       (\<exists>content. node = RegularFile content \<and> sr_suite_sha256 r = sha content)"
  by (cases "qualify_scheduler sha loads native node") (simp_all add: qualify_scheduler_Inr)

end
