(* ===== verification/TemporalCheckpoint.thy ===== *)
theory TemporalCheckpoint
  imports PinnedJson
begin

text \<open>
  The frozen checkpoint of \<^verbatim>\<open>python/cartosentry/temporal_checkpoint.py\<close>: its contract
  document, the authentication of the files it pins, the authority of a public sequence in the data
  and group manifests, the deterministic clips, their review, and the composition of the gates.  The
  detector and the two synthetic qualifications it runs compute in floating point and are parameters;
  a sample is anything that has a time.  Paths are the nodes they name, links followed.
\<close>

section \<open>The contract\<close>

definition CHECKPOINT_IMMUTABLE_SHA256 :: string where
  "CHECKPOINT_IMMUTABLE_SHA256 = ''962f40053b159db2b7888b484f262d75221e4d0d281b3679c02bbfda7ba376c7''"

definition TRAJECTORY_PROFILE_IMMUTABLE_SHA256 :: string where
  "TRAJECTORY_PROFILE_IMMUTABLE_SHA256 = ''cc00a382071fe3cb88411ff2d0d3b23223198ecd7a24bd559abb9e70a838708e''"

definition M3_1_GATE_SHA256 :: string where
  "M3_1_GATE_SHA256 = ''7f8a68faddc0afd2f59f59968b9af7e04cfbfbb012759564c6a61a37416e9370''"

definition MAXIMUM_CHECKPOINT_BYTES :: nat where
  "MAXIMUM_CHECKPOINT_BYTES = 128 * 1024"


record checkpoint_authorities =
  au_trajectory_profile_file_sha256 :: string
  au_trajectory_profile_immutable_sha256 :: string
  au_trajectory_gate_file_sha256 :: string
  au_trajectory_gate_immutable_sha256 :: string
  au_split_manifest_file_sha256 :: string
  au_fault_matrix_file_sha256 :: string
  au_numerical_charter_file_sha256 :: string
  au_aggregate_charter_revision_file_sha256 :: string
  au_aggregate_charter_immutable_sha256 :: string
  au_data_manifest_file_sha256 :: string
  au_source_groups_file_sha256 :: string

record public_sequence =
  ps_sequence_id :: string
  ps_artifact_id :: string
  ps_trajectory_source_key :: string
  ps_trajectory_source_sha256 :: string
  ps_weather_tags :: "string list"

record public_review =
  pr_source_group_id :: string
  pr_partition :: string
  pr_clip_length_samples :: nat
  pr_clip_positions :: "string list"
  pr_minimum_clip_count :: nat
  pr_blocking_severities :: "string list"
  pr_sequences :: "public_sequence list"

text \<open>The classes \<open>SyntheticGateContract\<close> and \<open>ThresholdChangeProcedure\<close> have literal fields only,
  so their one value is not stored.\<close>

record temporal_checkpoint =
  tc_immutable_sha256 :: string
  tc_authorities :: checkpoint_authorities
  tc_public_review :: public_review

definition authority_names :: "string list" where
  "authority_names =
     [''trajectory_profile_file_sha256'', ''trajectory_profile_immutable_sha256'', ''trajectory_gate_file_sha256'',
      ''trajectory_gate_immutable_sha256'', ''split_manifest_file_sha256'', ''fault_matrix_file_sha256'',
      ''numerical_charter_file_sha256'', ''aggregate_charter_revision_file_sha256'',
      ''aggregate_charter_immutable_sha256'', ''data_manifest_file_sha256'', ''source_groups_file_sha256'']"

definition authorities_validate :: "json \<Rightarrow> checkpoint_authorities res" where
  "authorities_validate v =
     bindE (as_object authority_names v) (\<lambda>d.
     bindE (field ''trajectory_profile_file_sha256'' (as_text is_sha256) d) (\<lambda>profile_file.
     bindE (field ''trajectory_profile_immutable_sha256'' (as_text is_sha256) d) (\<lambda>profile.
     bindE (field ''trajectory_gate_file_sha256'' (as_text is_sha256) d) (\<lambda>gate_file.
     bindE (field ''trajectory_gate_immutable_sha256'' (as_text is_sha256) d) (\<lambda>gate.
     bindE (field ''split_manifest_file_sha256'' (as_text is_sha256) d) (\<lambda>split_file.
     bindE (field ''fault_matrix_file_sha256'' (as_text is_sha256) d) (\<lambda>fault_file.
     bindE (field ''numerical_charter_file_sha256'' (as_text is_sha256) d) (\<lambda>charter_file.
     bindE (field ''aggregate_charter_revision_file_sha256'' (as_text is_sha256) d) (\<lambda>revision_file.
     bindE (field ''aggregate_charter_immutable_sha256'' (as_text is_sha256) d) (\<lambda>charter.
     bindE (field ''data_manifest_file_sha256'' (as_text is_sha256) d) (\<lambda>data_file.
     bindE (field ''source_groups_file_sha256'' (as_text is_sha256) d) (\<lambda>groups_file.
       Inr \<lparr>au_trajectory_profile_file_sha256 = profile_file, au_trajectory_profile_immutable_sha256 = profile,
            au_trajectory_gate_file_sha256 = gate_file, au_trajectory_gate_immutable_sha256 = gate,
            au_split_manifest_file_sha256 = split_file, au_fault_matrix_file_sha256 = fault_file,
            au_numerical_charter_file_sha256 = charter_file, au_aggregate_charter_revision_file_sha256 = revision_file,
            au_aggregate_charter_immutable_sha256 = charter, au_data_manifest_file_sha256 = data_file,
            au_source_groups_file_sha256 = groups_file\<rparr>))))))))))))"

definition synthetic_gate_validate :: "json \<Rightarrow> unit res" where
  "synthetic_gate_validate v =
     bindE (as_object [''required_m3_1_accepted'', ''required_m3_2_development_engineering_gate'',
       ''required_m3_2_development_claim_status'', ''required_m3_2_calibration_guard_gate'',
       ''threshold_changes_during_checkpoint_forbidden''] v) (\<lambda>d.
     bindE (field ''required_m3_1_accepted'' as_true d) (\<lambda>_.
     bindE (field ''required_m3_2_development_engineering_gate'' as_true d) (\<lambda>_.
     bindE (field ''required_m3_2_development_claim_status'' (as_literal ''DESCRIPTIVE_ONLY'') d) (\<lambda>_.
     bindE (field ''required_m3_2_calibration_guard_gate'' as_true d) (\<lambda>_.
     bindE (field ''threshold_changes_during_checkpoint_forbidden'' as_true d) (\<lambda>_. Inr ()))))))"

definition boreas_id :: "string \<Rightarrow> bool" where
  "boreas_id s \<longleftrightarrow> prefix ''boreas-'' s \<and> drop 7 s \<noteq> [] \<and> list_all (\<lambda>c. is_digit c \<or> c = CHR ''-'') (drop 7 s)"

definition public_sequence_validate :: "json \<Rightarrow> public_sequence res" where
  "public_sequence_validate v =
     bindE (as_object [''sequence_id'', ''artifact_id'', ''trajectory_source_key'', ''trajectory_source_sha256'',
       ''weather_tags''] v) (\<lambda>d.
     bindE (field ''sequence_id'' (as_text boreas_id) d) (\<lambda>sequence.
     bindE (field ''artifact_id'' (as_text (\<lambda>s. s \<noteq> [])) d) (\<lambda>artifact.
     bindE (field ''trajectory_source_key'' (as_literal ''applanix/gps_post_process.csv'') d) (\<lambda>key.
     bindE (field ''trajectory_source_sha256'' (as_text is_sha256) d) (\<lambda>digest0.
     bindE (field ''weather_tags'' (as_list (as_text (\<lambda>_. True))) d) (\<lambda>tags.
       Inr \<lparr>ps_sequence_id = sequence, ps_artifact_id = artifact, ps_trajectory_source_key = key,
            ps_trajectory_source_sha256 = digest0, ps_weather_tags = tags\<rparr>))))))"

definition public_review_validate :: "json \<Rightarrow> public_review res" where
  "public_review_validate v =
     bindE (as_object [''source_group_id'', ''partition'', ''clip_length_samples'', ''clip_positions'',
       ''minimum_clip_count'', ''blocking_severities'', ''maximum_unresolved_false_critical_findings'', ''sequences''] v) (\<lambda>d.
     bindE (field ''source_group_id'' (as_literal ''boreas-glen-shields-family-v1'') d) (\<lambda>cohort.
     bindE (field ''partition'' (as_literal ''development'') d) (\<lambda>part.
     bindE (field ''clip_length_samples'' (as_nat 128) d) (\<lambda>clip_length.
     bindE (ensure (clip_length \<le> 100000) (ValueError ''Input should be less than or equal to 100000'')) (\<lambda>_.
     bindE (field ''clip_positions'' (as_list (as_member [''start'', ''middle'', ''end''])) d) (\<lambda>positions.
     bindE (field ''minimum_clip_count'' (as_nat 1) d) (\<lambda>minimum.
     bindE (field ''blocking_severities'' (as_list (as_member [''CRITICAL'', ''BLOCKING_ANALYSIS''])) d) (\<lambda>blocking.
     bindE (field ''maximum_unresolved_false_critical_findings'' (as_int_literal 0) d) (\<lambda>_.
     bindE (field ''sequences'' (as_list public_sequence_validate) d) (\<lambda>sequences.
       Inr \<lparr>pr_source_group_id = cohort, pr_partition = part, pr_clip_length_samples = clip_length,
            pr_clip_positions = positions, pr_minimum_clip_count = minimum, pr_blocking_severities = blocking,
            pr_sequences = sequences\<rparr>))))))))))"

definition threshold_procedure_validate :: "json \<Rightarrow> unit res" where
  "threshold_procedure_validate v =
     bindE (as_object [''only_partition'', ''required_document'', ''requires_new_profile_version'',
       ''requires_new_profile_hash'', ''development_or_public_review_tuning_forbidden'', ''final_test_tuning_forbidden''] v) (\<lambda>d.
     bindE (field ''only_partition'' (as_literal ''threshold_calibration'') d) (\<lambda>_.
     bindE (field ''required_document'' (as_literal ''docs/trajectory_integrity.md#threshold-change-procedure'') d) (\<lambda>_.
     bindE (field ''requires_new_profile_version'' as_true d) (\<lambda>_.
     bindE (field ''requires_new_profile_hash'' as_true d) (\<lambda>_.
     bindE (field ''development_or_public_review_tuning_forbidden'' as_true d) (\<lambda>_.
     bindE (field ''final_test_tuning_forbidden'' as_true d) (\<lambda>_. Inr ())))))))"

text \<open>\<open>validate_contract\<close>.\<close>

definition validate_contract :: "temporal_checkpoint \<Rightarrow> unit res" where
  "validate_contract c =
     (let review = tc_public_review c in
     bindE (ensure (tc_immutable_sha256 c = CHECKPOINT_IMMUTABLE_SHA256)
        (ValueError ''M3.5 checkpoint does not match the pinned identity'')) (\<lambda>_.
     bindE (ensure (au_trajectory_profile_immutable_sha256 (tc_authorities c) = TRAJECTORY_PROFILE_IMMUTABLE_SHA256)
        (ValueError ''M3.5 checkpoint references an unknown detector profile'')) (\<lambda>_.
     bindE (ensure (au_trajectory_gate_immutable_sha256 (tc_authorities c) = M3_1_GATE_SHA256)
        (ValueError ''M3.5 checkpoint references an unknown trajectory gate'')) (\<lambda>_.
     bindE (ensure (pr_clip_positions review = [''start'', ''middle'', ''end''])
        (ValueError ''M3.5 public clip positions must be exact and ordered'')) (\<lambda>_.
     bindE (ensure (pr_minimum_clip_count review = length (pr_sequences review) * length (pr_clip_positions review))
        (ValueError ''M3.5 public clip count is inconsistent'')) (\<lambda>_.
       ensure (\<not> length (pr_sequences review) < 2)
        (ValueError ''M3.5 requires multiple public development sequences'')))))))"

definition checkpoint_validate :: "json \<Rightarrow> temporal_checkpoint res" where
  "checkpoint_validate v =
     bindE (as_object [''schema_version'', ''checkpoint_id'', ''checkpoint_version'', ''freeze_state'', ''hash_contract'',
       ''immutable_sha256'', ''claim_scope'', ''authorities'', ''synthetic_gate'', ''public_review'',
       ''threshold_change_procedure''] v) (\<lambda>d.
     bindE (field ''schema_version'' (as_int_literal 1) d) (\<lambda>_.
     bindE (field ''checkpoint_id'' (as_literal ''m3.5-temporal-integrity-v1'') d) (\<lambda>_.
     bindE (field ''checkpoint_version'' (as_literal ''1.0.0'') d) (\<lambda>_.
     bindE (field ''freeze_state'' (as_literal ''FROZEN_BEFORE_M3_5_IMPLEMENTATION'') d) (\<lambda>_.
     bindE (field ''hash_contract'' (as_literal ''SHA-256 of canonical UTF-8 JSON with immutable_sha256 omitted'') d) (\<lambda>_.
     bindE (field ''immutable_sha256'' (as_text is_sha256) d) (\<lambda>immutable.
     bindE (field ''claim_scope'' (as_literal ''Development-only temporal integrity checkpoint with no confirmatory, final-test, or release claim'') d) (\<lambda>_.
     bindE (field ''authorities'' authorities_validate d) (\<lambda>authorities.
     bindE (field ''synthetic_gate'' synthetic_gate_validate d) (\<lambda>_.
     bindE (field ''public_review'' public_review_validate d) (\<lambda>review.
     bindE (field ''threshold_change_procedure'' threshold_procedure_validate d) (\<lambda>_.
       let c = \<lparr>tc_immutable_sha256 = immutable, tc_authorities = authorities, tc_public_review = review\<rparr>
       in bindE (validate_contract c) (\<lambda>_. Inr c)))))))))))))"

definition load_temporal_checkpoint ::
  "(string \<Rightarrow> string) \<Rightarrow> (string \<Rightarrow> string) \<Rightarrow> fs_node \<Rightarrow> (temporal_checkpoint \<times> string) res" where
  "load_temporal_checkpoint sha float_repr node =
     bindE (load_bounded_object node MAXIMUM_CHECKPOINT_BYTES ''M3.5 temporal checkpoint'') (\<lambda>(raw, content).
     bindE (self_authenticated sha float_repr ''M3.5 temporal checkpoint'' raw) (\<lambda>_.
     bindE (checkpoint_validate (JDict raw)) (\<lambda>checkpoint. Inr (checkpoint, sha content))))"

section \<open>Authorities\<close>







section \<open>The authority of a public sequence\<close>









section \<open>Clips\<close>



record 'e clip_report =
  cl_clip_id :: string
  cl_clip_position :: string
  cl_clip_identity_sha256 :: string
  cl_start_sample_index :: nat
  cl_end_sample_index_exclusive :: nat
  cl_first_time_ns :: int
  cl_last_time_ns :: int
  cl_sample_count :: nat
  cl_structural_valid :: bool
  cl_events :: "(string \<times> 'e) list"
  cl_candidates :: "(string \<times> 'e) list"

definition unresolved_count :: "'e clip_report \<Rightarrow> nat" where
  "unresolved_count r = length (cl_candidates r)"




section \<open>The gates\<close>

record 'e checkpoint_report =
  ck_accepted :: bool
  ck_m3_1_gate :: bool
  ck_m3_2_gate :: bool
  ck_public_gate :: bool
  ck_unresolved_blockers :: nat
  ck_clip_count :: nat
  ck_reviewed_duration_ns :: int
  ck_unresolved :: nat
  ck_clips :: "'e clip_report list"



definition compose_checkpoint ::
  "public_review \<Rightarrow> bool \<Rightarrow> bool \<Rightarrow> 'e clip_report list \<Rightarrow> 'e checkpoint_report" where
  "compose_checkpoint review m3_1_gate m3_2_gate clips =
     (let unresolved = sum_list (map unresolved_count clips);
          public_gate = (pr_minimum_clip_count review \<le> length clips \<and> unresolved \<le> 0)
      in \<lparr>ck_accepted = (m3_1_gate \<and> m3_2_gate \<and> public_gate), ck_m3_1_gate = m3_1_gate, ck_m3_2_gate = m3_2_gate,
          ck_public_gate = public_gate,
          ck_unresolved_blockers = (if m3_1_gate then 0 else 1) + (if m3_2_gate then 0 else 1)
            + (if length clips < pr_minimum_clip_count review then 1 else 0) + unresolved,
          ck_clip_count = length clips,
          ck_reviewed_duration_ns = sum_list (map (\<lambda>r. cl_last_time_ns r - cl_first_time_ns r) clips),
          ck_unresolved = unresolved, ck_clips = clips\<rparr>)"



section \<open>Correctness\<close>



text \<open>The two ways the report states its result agree: it is accepted exactly when it counts no
  blocking defect.\<close>

lemma accepted_iff_no_blocker:
  "ck_accepted (compose_checkpoint review m3_1_gate m3_2_gate clips) \<longleftrightarrow>
     ck_unresolved_blockers (compose_checkpoint review m3_1_gate m3_2_gate clips) = 0"
  by (auto simp: compose_checkpoint_def Let_def)

lemma load_bounded_object_Inr:
  assumes "load_bounded_object node maximum context0 = Inr (raw, content)"
  shows "node = RegularFile content" and "json_loads content = Inr (JDict raw)"
proof -
  have "read_bounded_json node maximum context0 = Inr (JDict raw, content)"
  proof -
    obtain decoded bytes where "read_bounded_json node maximum context0 = Inr (decoded, bytes)"
      using assms by (auto simp: load_bounded_object_def)
    then show ?thesis using assms by (cases decoded) (auto simp: load_bounded_object_def)
  qed
  then have "read_bounded_regular_bytes node maximum context0 = Inr content"
    and "decode_bounded_json content maximum context0 = Inr (JDict raw)"
    by (auto simp: read_bounded_json_def)
  then show "node = RegularFile content" and "json_loads content = Inr (JDict raw)"
    unfolding read_bounded_regular_bytes_iff decode_bounded_json_eq_Inr by blast+
qed

lemma checkpoint_validate_Inr:
  assumes "checkpoint_validate v = Inr c"
  shows "validate_contract c = Inr ()"
    and "v = JDict raw \<Longrightarrow> map_of raw ''immutable_sha256'' = Some (JStr (tc_immutable_sha256 c))"
proof -
  show "validate_contract c = Inr ()"
    using assms unfolding checkpoint_validate_def bindE_eq_Inr Let_def by fastforce
  assume v: "v = JDict raw"
  show "map_of raw ''immutable_sha256'' = Some (JStr (tc_immutable_sha256 c))"
    using assms unfolding checkpoint_validate_def bindE_eq_Inr Let_def v
    by (force simp: as_object_def field_def invalid_def split: if_splits option.splits)
qed

text \<open>A checkpoint that loads is the pinned one: its bytes are the regular file they were read from,
  and the digest of the document without its own digest field is the constant of the program.\<close>

lemma loaded_checkpoint_is_pinned:
  "case load_temporal_checkpoint sha float_repr node of
     Inl e \<Rightarrow> True
   | Inr (checkpoint, digest0) \<Rightarrow> \<exists>content raw. node = RegularFile content \<and> digest0 = sha content \<and>
       json_loads content = Inr (JDict raw) \<and> validate_contract checkpoint = Inr () \<and>
       pinned_sha256 sha float_repr (JDict (without_key ''immutable_sha256'' raw)) = Inr CHECKPOINT_IMMUTABLE_SHA256"
proof (cases "load_temporal_checkpoint sha float_repr node")
  case (Inr cd)
  then obtain raw content where load: "load_bounded_object node MAXIMUM_CHECKPOINT_BYTES ''M3.5 temporal checkpoint'' = Inr (raw, content)"
    and auth: "self_authenticated sha float_repr ''M3.5 temporal checkpoint'' raw = Inr ()"
    and valid: "checkpoint_validate (JDict raw) = Inr (fst cd)" and d: "snd cd = sha content"
    by (auto simp: load_temporal_checkpoint_def)
  obtain h where h: "pinned_sha256 sha float_repr (JDict (without_key ''immutable_sha256'' raw)) = Inr h"
    "map_of raw ''immutable_sha256'' = Some (JStr h)"
    using auth by (auto simp: self_authenticated_def)
  have "tc_immutable_sha256 (fst cd) = CHECKPOINT_IMMUTABLE_SHA256"
    using checkpoint_validate_Inr(1) [OF valid] by (auto simp: validate_contract_def Let_def)
  then have "h = CHECKPOINT_IMMUTABLE_SHA256" using checkpoint_validate_Inr(2) [OF valid refl] h(2) by simp
  moreover obtain c d' where cd: "cd = (c, d')" by (cases cd)
  ultimately show ?thesis
    unfolding Inr cd sum.case prod.case
    using load_bounded_object_Inr [OF load] h(1) d checkpoint_validate_Inr(1) [OF valid] by (simp add: cd)
qed simp








end
