(* ===== verification/Spec2Isabelle.thy ===== *)
theory Spec2Isabelle
  imports RunProperties TimeProperties DocumentProperties ArtifactProperties IngestionProperties RoadProperties RoadMatchProperties TopologyProperties Scheduler TemporalCheckpoint
begin

text \<open>
  A verification library for CartoSentry, a tool that checks whether a recorded mapping drive can be
  trusted.  The program (\<^verbatim>\<open>python/cartosentry\<close>) reads a recording, identifies everything it
  derives from it by content, runs deterministic analysis stages whose results must survive a crash at
  any moment, relates the drive to a map of the road network, and publishes decision documents.  What is
  modelled here is that core: the documents and their identities, the time contracts, the ingestion of a
  recording, the crash-safe run engine, the qualifications that rest on it, and the road network with
  the matching, decoding and binning of a drive on it.

  \<^bold>\<open>The parts and how they interact.\<close>  Every persisted value is a JSON document.  Text that enters the
  program passes the bounded boundary (\<^verbatim>\<open>manifest_boundaries.py\<close>: size, depth and duplicate keys) and
  then the validators of a model class; text that leaves it is canonical (sorted keys, no spaces), must
  not name anything local to a machine, and is identified by its SHA-256 (\<^verbatim>\<open>identifiers.py\<close>).  The
  artifact documents (\<^verbatim>\<open>artifacts.py\<close>) recompute their own identities when they are built.
  \<^verbatim>\<open>ingestion.py\<close> hashes the sources of a recording through an adapter, writes its manifest and a
  frame index in a temporary directory and renames it to the destination.  The run
  engine (\<^verbatim>\<open>runstate.py\<close>) keeps the state of a run in SQLite and in a directory tree: a stage begins
  an attempt in the database, writes its payloads and an attempt manifest in an attempt directory,
  publishes that directory by a rename, writes a completion pointer and commits the completion; on the
  next invocation \<open>reconcile\<close> brings the database, the pointers and the published attempts back
  together.  \<^verbatim>\<open>recovery.py\<close> kills workers at each commit boundary and compares the digest of the
  resumed run with that of an uninterrupted one.  \<^verbatim>\<open>road_graph.py\<close> turns an OpenStreetMap
  document into a typed road graph; \<^verbatim>\<open>road_matching.py\<close> retrieves the candidate arcs of each
  observation, \<^verbatim>\<open>road_decoder.py\<close> decodes the sequence of observations into intervals of
  arcs, and \<^verbatim>\<open>road_bins.py\<close> accumulates what was driven into a ledger with a bin for every
  part of the network.  Each of the three runs its search in a native kernel and accepts from it only
  what passes its own validation.

  \<^bold>\<open>Theories.\<close>
  \<^item> \<open>Prelude\<close>: results with errors as values (\<open>res\<close>), the exceptions, character classes and
    identifier patterns, dictionaries, and the lemmas on them.
  \<^item> \<open>NativeTime\<close>, \<open>Contracts\<close>, \<open>TimeProperties\<close>: \<^verbatim>\<open>contracts.py\<close> and the native
    arithmetic it calls (\<^verbatim>\<open>cpp/src/time.cpp\<close>) with every operation reduced to 64 bits; decimal
    conversion, checked differences and shifts, intervals, corrections, frames and transforms.
  \<^item> \<open>Json\<close>, \<open>JsonRoundtrip\<close>, \<open>Boundaries\<close>, \<open>DocumentProperties\<close>: the two library
    calls \<open>json.dumps\<close> and \<open>json.loads\<close> on texts, their round trip and injectivity, the byte
    scanner for the depth, the bounded readers and the line reader of \<^verbatim>\<open>manifest_boundaries.py\<close>.
  \<^item> \<open>Sha256\<close>, \<open>Identifiers\<close>: the digest, executable, behind the locale \<open>digest\<close> (64
    hexadecimal digits) that the other theories use it through; the portability walk, the canonical
    text and every identifier constructor of \<^verbatim>\<open>identifiers.py\<close>.
  \<^item> \<open>Artifacts\<close>, \<open>ArtifactPlans\<close>, \<open>RunArtifact\<close>, \<open>ArtifactProperties\<close>: the model
    classes of \<^verbatim>\<open>artifacts.py\<close>, one record, one written form and one \<open>check_\<close> function
    each, and the reader of the run document.
  \<^item> \<open>Ingestion\<close>, \<open>Indexing\<close>, \<open>IndexingCorrect\<close>, \<open>IndexingPublish\<close>,
    \<open>IngestionProperties\<close>: \<^verbatim>\<open>ingestion.py\<close> over the adapter contract of
    \<^verbatim>\<open>adapters/base.py\<close>.  The adapter is the record of what its methods yield; the state
    \<open>staging\<close> holds the destination, the temporary directory, the findings, the timestamp table and
    the index writer, and every operation on the file system and on SQLite may raise or end the process.
    The lemmas follow the composition of \<open>index_recording\<close>: the collector, the writer, the scan, the
    publication, the handlers; the properties are atomicity, the bound of the writer and the limit on findings.
  \<^item> \<open>RunModels\<close>, \<open>RunDatabase\<close>, \<open>RunEngine\<close>, over the step programs of \<open>Steps\<close>: the
    documents, the class \<open>RunDatabase\<close> (the five tables as association lists, each method with
    its constraints) and the class \<open>RunEngine\<close> of \<^verbatim>\<open>runstate.py\<close> on a \<open>world\<close> that holds the
    database, the published tree, the attempt directories, the pointers, the recorded inputs, the
    exported document and the lock.
  \<^item> \<open>RunSpec\<close>, \<open>RunInvariant\<close>, \<open>RunTriples\<close>, \<open>RunReconcile\<close>, \<open>RunExecute\<close>,
    \<open>RunLoop\<close>, \<open>RunReach\<close>, \<open>RunExport\<close>, \<open>RunProperties\<close>: the correctness of the
    engine.
  \<^item> \<open>Recovery\<close>, \<open>RecoveryCorrect\<close>, \<open>CrashRecovery\<close>: \<^verbatim>\<open>recovery.py\<close> and
    \<^verbatim>\<open>runstate_worker.py\<close>, the proof that its pipeline is an environment of the engine, and the
    headline theorems.
  \<^item> \<open>PinnedJson\<close>, \<open>Scheduler\<close>, \<open>TemporalCheckpoint\<close>: documents that carry their own
    digest, and the qualifications of \<^verbatim>\<open>scheduler.py\<close> and \<^verbatim>\<open>temporal_checkpoint.py\<close>.
  \<^item> \<open>RoadGraph\<close>, \<open>RoadImport\<close>, \<open>RoadArcs\<close>: \<^verbatim>\<open>road_graph.py\<close>.  The models
    of the graph with their validators and written forms; the importer, from the XML elements to nodes,
    ways and restrictions, with its rejections; the splitting of ways at junctions, the permitted
    directions, the arcs and the turn records.  \<open>RoadChains\<close> proves that the chains of a way
    partition it, \<open>RoadArcsCorrect\<close> that the arcs are the permitted chains, and
    \<open>RoadProperties\<close> that the turn records refine the restrictions of the map and that an
    imported graph passes every validator.
  \<^item> \<open>RoadMatching\<close>, \<open>RoadDecoder\<close>, \<open>RoadBins\<close>, \<open>RoadMatchProperties\<close>:
    \<^verbatim>\<open>road_matching.py\<close>, \<^verbatim>\<open>road_decoder.py\<close> and \<^verbatim>\<open>road_bins.py\<close>: the
    configurations and their published constants, the documents, the tables handed to the kernels, the
    validation of what they return, and the assembly of the results.  The properties are that a decoded
    path accounts for every observation with intervals that do not overlap, and that a ledger holds each
    bin once, whatever the kernels return.
  \<^item> \<open>TopologyHypotheses\<close>, \<open>TopologyProperties\<close>:
    \<^verbatim>\<open>topology_hypotheses.py\<close>: the comparison view of a road graph, the off-map intervals,
    and the report that mines hypotheses from them for review; the view is the flattened graph, and an
    accepted report accounts for every interval whatever the native mining returns.

  \<^bold>\<open>The engine.\<close>  \<open>spec env\<close> is the ideal run: each stage applied to what its dependencies
  produce, with no database, no directories and no crashes.  The locale \<open>run_environment\<close> states what
  the engine relies on (portable and ordered stage definitions, deterministic stages that produce valid
  payloads under their declared keys, a digest); \<open>engine_steps\<close> extends it with a crash callback.  The
  invariant \<open>good env N\<close> relates the database to the published attempts and to \<open>spec\<close>; every
  step keeps it, whatever its outcome (a result, an exception, the death of the process), so it holds
  after any history of invocations (\<open>reachable\<close>).  \<open>smooth env N cb\<close> is the absence of
  failures of the environment; there an invocation completes and its digest is that of \<open>spec\<close>.
  Both locales are interpreted on the registered pipeline of \<^verbatim>\<open>recovery.py\<close>.

  \<^bold>\<open>Bounds and fuel.\<close>  The JSON reader recurses on fuel, and starts with twice the length of the text
  plus one; \<open>reader_has_fuel_enough\<close> shows that more changes nothing.  The loop that computes a
  dependency closure has a measure.  \<open>N\<close> in \<open>good\<close> and \<open>fits\<close> bounds the number of
  attempts for which manifests are below the size limit of control files (attempt numbers grow, and a
  manifest above 1 MiB is written but cannot be read back); beyond \<open>N\<close> the invariant allows final
  failures.  The registered pipeline is instantiated at 1000.

  \<^bold>\<open>Parameters.\<close>  The UUIDs of attempts are a stream of texts of the right shape; the native artifact
  writer is a function on the source text, assumed to return what it was given up to canonicalisation;
  the binary64 geometry, the floating-point detectors of the temporal checkpoint and the multithreaded
  scheduler run are functions whose results are arbitrary.  Written floats are their lexemes; where
  floats are only stored and compared they are rationals.  In the road theories the arithmetic of binary64 is
  the record \<open>float_ops\<close> (rounding to the nearest double, its shortest text, the value of a text and
  \<open>math.dist\<close>), the XML parser and the normalisation of an element's ASCII text are the record
  \<open>osm_io\<close>, and the native geometry, candidate, decoding and binning kernels are functions whose
  results are arbitrary.  Texts are byte lists (UTF-8), which orders
  them as code points do.

  \<^bold>\<open>Not modelled.\<close>  The analyses on floating-point arrays (trajectories, lidar integrity, motion
  alignment, the synthetic fixtures and fault operators) and their qualifications, whose content is numerical; of the road network, the XML parser, the
  spatial index that finds the arcs within a radius, and the qualifications of the graph, the matching,
  the decoder, the bins and the topology hypotheses, which compare measured rates with thresholds on recorded corpora; the Boreas
  reader, which reads binary files; the native C++ other than \<^verbatim>\<open>time.cpp\<close>; the command
  line, which only dispatches; and the build and release scripts.
\<close>

end
